(* ===== verification/RmdPrelude.thy ===== *)
theory RmdPrelude
  imports Main "HOL-Library.Word" "HOL-Library.Monad_Syntax"
begin

text \<open>
  Types and generic lemmas shared by the theories of the run-mode debug driver.

  Machine integers keep their width (\<^typ>\<open>32 word\<close> for TUint32, TInt32 and TInt, 64 bit for
  object ids), signed readings go through \<^term>\<open>sint\<close> or the signed comparisons of the Word library.
  System error codes are the datatype \<^verbatim>\<open>TErr\<close>; their numbers live in a Symbian OS header that is not
  part of this repository.  A kernel fault (a NULL dereference, an index out of range) is None of an
  option type; an error return is a value.
\<close>

section \<open>Machine integers\<close>

type_synonym u8 = "8 word"
type_synonym u16 = "16 word"
type_synonym u32 = "32 word"
type_synonym u64 = "64 word"

section \<open>Enumerations of the debug API\<close>

datatype TArchitectureMode = EArmMode | EThumbMode | EThumb2EEMode | EOtherMode u32

datatype TRegisterFlag = ENotSet | EInValid | EValid | ENotSupported | EBadSize

datatype TFunctionalityAccess =
  EAccessNone | EAccessReadOnly | EAccessWriteOnly | EAccessReadWrite | EAccessUnknown

datatype TErr =
    KErrNone | KErrNotFound | KErrGeneral | KErrCancel | KErrNoMemory | KErrNotSupported
  | KErrArgument | KErrBadHandle | KErrOverflow | KErrAlreadyExists | KErrInUse | KErrDied
  | KErrNotReady | KErrPermissionDenied | KErrTooBig | KErrFlag TRegisterFlag | KErrSys int

section \<open>Trapped calls and arguments in client memory\<close>

text \<open>
  A call made under XTRAPD either traps (Inl, with the reason the harness reports) or returns a code
  (Inr).  In C++ the code is assigned to a variable inside the trap, so the variable keeps its old
  value when the call traps.
\<close>

type_synonym xcall = "TErr + TErr"

fun xtrap :: "xcall \<Rightarrow> TErr \<Rightarrow> TErr \<times> TErr" where
  "xtrap (Inl r) err = (r, err)"
| "xtrap (Inr e) err = (KErrNone, e)"

text \<open>A pointer argument to a structure in the client's memory, as Kern::ThreadRawRead sees it.\<close>

datatype 'a carg = NullArg | BadArg TErr | Arg 'a

section \<open>Byte sequences\<close>

definition le32 :: "u32 \<Rightarrow> u8 list" where
  "le32 w = [ucast w, ucast (drop_bit 8 w), ucast (drop_bit 16 w), ucast (drop_bit 24 w)]"

definition le64 :: "u64 \<Rightarrow> u8 list" where
  "le64 w = map (\<lambda>i. ucast (drop_bit (8 * i) w)) [0..<8]"

fun of_le :: "u8 list \<Rightarrow> u32" where
  "of_le [] = 0"
| "of_le (b # bs) = or (ucast b) (push_bit 8 (of_le bs))"

text \<open>memcpy into a buffer: the bytes from offset \<open>off\<close> on are replaced; what lies past the end of
  the buffer is not represented.\<close>

definition overwrite :: "u8 list \<Rightarrow> nat \<Rightarrow> u8 list \<Rightarrow> u8 list" where
  "overwrite buf off bs = take (length buf) (take off buf @ bs @ drop (off + length bs) buf)"

lemma length_le32 [simp]: "length (le32 w) = 4"
  by (simp add: le32_def)

lemma length_le64 [simp]: "length (le64 w) = 8"
  by (simp add: le64_def)

lemma length_overwrite [simp]: "off \<le> length buf \<Longrightarrow> length (overwrite buf off bs) = length buf"
  by (simp add: overwrite_def)

lemma overwrite_nth:
  assumes "i < length buf" "off \<le> length buf"
  shows "overwrite buf off bs ! i = (if off \<le> i \<and> i < off + length bs then bs ! (i - off) else buf ! i)"
  using assms by (auto simp: overwrite_def nth_append)

text \<open>
  A modifiable descriptor (TDes8): a buffer of MaxLength bytes and the current length.  Appending or
  setting a length past the maximum panics (None); bytes between the old and a new, larger length are
  whatever the buffer holds.
\<close>

record TDes8 =
  dbuf :: "u8 list"
  dlen :: nat

definition des_append :: "TDes8 \<Rightarrow> u8 list \<Rightarrow> TDes8 option" where
  "des_append d bs =
     (if dlen d + length bs \<le> length (dbuf d)
      then Some \<lparr>dbuf = overwrite (dbuf d) (dlen d) bs, dlen = dlen d + length bs\<rparr> else None)"

definition des_setlen :: "TDes8 \<Rightarrow> nat \<Rightarrow> TDes8 option" where
  "des_setlen d n = (if n \<le> length (dbuf d) then Some (d\<lparr>dlen := n\<rparr>) else None)"

definition le16 :: "u16 \<Rightarrow> u8 list" where
  "le16 w = [ucast w, ucast (drop_bit 8 w)]"

lemma of_le_le32: "of_le (le32 w) = w"
proof (rule bit_word_eqI)
  fix n assume "n < LENGTH(32)"
  then have "n < 8 \<or> 8 \<le> n \<and> n < 16 \<or> 16 \<le> n \<and> n < 24 \<or> 24 \<le> n \<and> n < 32" by auto
  then show "bit (of_le (le32 w)) n = bit w n"
    by (elim disjE; auto simp: le32_def bit_simps)
qed

text \<open>Numbers read back from little-endian bytes.\<close>

definition of_le16 :: "u8 list \<Rightarrow> u16" where
  "of_le16 bs = ucast (of_le (take 2 bs))"

definition of_le64 :: "u8 list \<Rightarrow> u64" where
  "of_le64 bs = or (ucast (of_le (take 4 bs))) (push_bit 32 (ucast (of_le (take 4 (drop 4 bs)))))"

lemma le64_le32: "le64 w = le32 (ucast w) @ le32 (ucast (drop_bit 32 w))"
  by (simp add: le64_def le32_def upt_rec) (intro conjI; rule bit_word_eqI; simp add: bit_simps ac_simps; auto?)

lemma of_le64_le64: "of_le64 (le64 w) = w"
  by (rule bit_word_eqI) (auto simp: of_le64_def le64_le32 of_le_le32 bit_simps)

lemma of_le16_le16: "of_le16 (le16 w) = w"
  by (rule bit_word_eqI) (auto simp: of_le16_def le16_def bit_simps)

section \<open>Lists\<close>

text \<open>Position of the first element with a property: the searches of RArray and RPointerArray.\<close>

fun find_index :: "('a \<Rightarrow> bool) \<Rightarrow> 'a list \<Rightarrow> nat option" where
  "find_index P [] = None"
| "find_index P (x # xs) = (if P x then Some 0 else map_option Suc (find_index P xs))"

lemma find_index_SomeD:
  "find_index P xs = Some i \<Longrightarrow> i < length xs \<and> P (xs ! i) \<and> (\<forall>j<i. \<not> P (xs ! j))"
proof (induction xs arbitrary: i)
  case (Cons x xs)
  then show ?case
    by (auto split: if_splits simp: less_Suc_eq_0_disj)
qed simp

lemma find_index_None: "find_index P xs = None \<longleftrightarrow> (\<forall>x\<in>set xs. \<not> P x)"
  by (induction xs) auto

lemma find_index_eqI:
  "i < length xs \<Longrightarrow> P (xs ! i) \<Longrightarrow> (\<And>j. j < i \<Longrightarrow> \<not> P (xs ! j)) \<Longrightarrow> find_index P xs = Some i"
proof (induction xs arbitrary: i)
  case (Cons x xs)
  show ?case
  proof (cases i)
    case 0
    then show ?thesis using Cons.prems by simp
  next
    case (Suc k)
    then have "\<not> P x" using Cons.prems(3)[of 0] by simp
    moreover have "find_index P xs = Some k"
      using Cons.prems(1,2) Suc Cons.prems(3)[of "Suc _"] by (intro Cons.IH) auto
    ultimately show ?thesis using Suc by simp
  qed
qed simp

text \<open>RArray::Remove at an index inside the array.\<close>

definition remove_nth :: "nat \<Rightarrow> 'a list \<Rightarrow> 'a list" where
  "remove_nth i xs = take i xs @ drop (Suc i) xs"

lemma length_remove_nth [simp]: "i < length xs \<Longrightarrow> length (remove_nth i xs) = length xs - 1"
  by (simp add: remove_nth_def)

lemma remove_nth_nth:
  "i < length xs \<Longrightarrow> j < length xs - 1 \<Longrightarrow>
   remove_nth i xs ! j = (if j < i then xs ! j else xs ! Suc j)"
  by (auto simp: remove_nth_def nth_append)

lemma set_remove_nth_subset: "set (remove_nth i xs) \<subseteq> set xs"
  by (auto simp: remove_nth_def dest: in_set_takeD in_set_dropD)

lemma map_remove_nth: "map f (remove_nth i xs) = remove_nth i (map f xs)"
  by (simp add: remove_nth_def take_map drop_map)

lemma sorted_wrt_remove_nth: "sorted_wrt P xs \<Longrightarrow> sorted_wrt P (remove_nth i xs)"
proof -
  assume "sorted_wrt P xs"
  then have "sorted_wrt P (take i xs @ drop i xs)"
    by simp
  then show ?thesis
    by (cases "i < length xs")
      (auto simp: remove_nth_def sorted_wrt_append Cons_nth_drop_Suc[symmetric] simp del: append_take_drop_id)
qed

lemma remove_nth_filter:
  "distinct (map f xs) \<Longrightarrow> i < length xs \<Longrightarrow> remove_nth i xs = filter (\<lambda>x. f x \<noteq> f (xs ! i)) xs"
proof (induction xs arbitrary: i)
  case (Cons x xs)
  show ?case
  proof (cases i)
    case 0
    have "filter (\<lambda>y. f y \<noteq> f x) xs = xs"
      using Cons.prems(1) by (simp add: filter_id_conv image_iff) metis
    then show ?thesis using 0 by (simp add: remove_nth_def)
  next
    case (Suc j)
    moreover have "f x \<noteq> f (xs ! j)"
      using Cons.prems Suc by auto
    ultimately show ?thesis
      using Cons by (simp add: remove_nth_def)
  qed
qed simp

section \<open>Loops over an index range\<close>

text \<open>
  A for loop whose body may leave early (Inl) or go on with a new state (Inr), over the index range it
  visits; the body may also fault (None).
\<close>

fun ix_loop :: "(nat \<Rightarrow> 's \<Rightarrow> ('r + 's) option) \<Rightarrow> nat list \<Rightarrow> 's \<Rightarrow> ('r + 's) option" where
  "ix_loop f [] s = Some (Inr s)"
| "ix_loop f (i # is) s =
     (case f i s of
        None \<Rightarrow> None
      | Some (Inl r) \<Rightarrow> Some (Inl r)
      | Some (Inr s') \<Rightarrow> ix_loop f is s')"

lemma ix_loop_append:
  "ix_loop f (xs @ ys) s =
     (case ix_loop f xs s of
        None \<Rightarrow> None
      | Some (Inl r) \<Rightarrow> Some (Inl r)
      | Some (Inr s') \<Rightarrow> ix_loop f ys s')"
  by (induction xs arbitrary: s) (auto split: option.splits sum.splits)

text \<open>What the body keeps, the loop keeps: \<open>Q\<close> for the states, \<open>R\<close> for the early returns.\<close>

lemma ix_loop_invariant_all:
  "ix_loop f is s = Some res \<Longrightarrow> Q s \<Longrightarrow>
   \<forall>i\<in>set is. \<forall>s x. Q s \<and> f i s = Some x \<longrightarrow> case_sum R Q x \<Longrightarrow> case_sum R Q res"
proof (induction "is" arbitrary: s)
  case (Cons i "is")
  obtain x where x: "f i s = Some x"
    using Cons.prems(1) by (cases "f i s") auto
  then have "case_sum R Q x"
    using Cons.prems(2,3) by (meson list.set_intros(1))
  then show ?case
    using Cons.prems x Cons.IH by (cases x) (auto simp del: case_sum_o_inj)
qed auto

lemma ix_loop_invariant:
  assumes "ix_loop f is s = Some res" "Q s"
    and "\<And>i s x. i \<in> set is \<Longrightarrow> Q s \<Longrightarrow> f i s = Some x \<Longrightarrow> case_sum R Q x"
  shows "case_sum R Q res"
  by (rule ix_loop_invariant_all[where Q = Q, OF assms(1)]) (blast intro: assms(2,3))+

lemma ix_loop_total_all:
  "Q s \<Longrightarrow> \<forall>i\<in>set is. \<forall>s. Q s \<longrightarrow> (\<exists>x. f i s = Some x \<and> case_sum (\<lambda>_. True) Q x) \<Longrightarrow>
   ix_loop f is s \<noteq> None"
proof (induction "is" arbitrary: s)
  case (Cons i "is")
  then obtain x where x: "f i s = Some x" "case_sum (\<lambda>_. True) Q x"
    by (meson list.set_intros(1))
  then show ?case
    using Cons by (cases x) auto
qed simp

lemma ix_loop_total:
  assumes "Q s"
    and "\<And>i s. i \<in> set is \<Longrightarrow> Q s \<Longrightarrow> \<exists>x. f i s = Some x \<and> case_sum (\<lambda>_. True) Q x"
  shows "\<exists>x. ix_loop f is s = Some x"
  using ix_loop_total_all[of Q s "is" f] assms by blast

text \<open>A loop with an invariant whose body never faults, upwards and downwards.\<close>

lemma ix_loop_rule:
  assumes "Q s"
    and "\<And>i s. i \<in> set is \<Longrightarrow> Q s \<Longrightarrow> \<exists>x. f i s = Some x \<and> case_sum R Q x"
  shows "\<exists>x. ix_loop f is s = Some x \<and> case_sum R Q x"
proof -
  have "\<exists>x. ix_loop f is s = Some x"
  proof (rule ix_loop_total[where Q = Q])
    fix i t assume "i \<in> set is" "Q t"
    then obtain x where "f i t = Some x" "case_sum R Q x"
      using assms(2) by blast
    then show "\<exists>x. f i t = Some x \<and> case_sum (\<lambda>_. True) Q x"
      by (cases x) auto
  qed (rule assms(1))
  then obtain x where x: "ix_loop f is s = Some x" by blast
  have "case_sum R Q x"
    by (rule ix_loop_invariant[where Q = Q, OF x]) (use assms in force)+
  with x show ?thesis by blast
qed

lemma ix_loop_down:
  assumes "\<And>i s. i < size_of s \<Longrightarrow> Q s \<Longrightarrow>
      \<exists>x. f i s = Some x \<and> case_sum R (\<lambda>s'. Q s' \<and> i \<le> size_of s') x"
  shows "n \<le> size_of s \<Longrightarrow> Q s \<Longrightarrow> \<exists>x. ix_loop f (rev [0..<n]) s = Some x \<and> case_sum R Q x"
proof (induction n arbitrary: s)
  case (Suc n)
  then obtain x where x: "f n s = Some x" "case_sum R (\<lambda>s'. Q s' \<and> n \<le> size_of s') x"
    using assms[of n s] by auto
  show ?case
  proof (cases x)
    case (Inr s')
    then show ?thesis using x Suc.IH[of s'] by simp
  qed (use x in simp)
qed simp

text \<open>A position-dependent invariant of a loop that runs to its end.\<close>

lemma ix_loop_upt:
  assumes "ix_loop f [a..<b] s = Some (Inr s')" "a \<le> b" "Q a s"
    and "\<And>i t t'. a \<le> i \<Longrightarrow> i < b \<Longrightarrow> Q i t \<Longrightarrow> f i t = Some (Inr t') \<Longrightarrow> Q (Suc i) t'"
  shows "Q b s'"
  using assms(1,2,4)
proof (induction b arbitrary: s')
  case 0
  then show ?case using assms(3) by simp
next
  case (Suc b)
  show ?case
  proof (cases "a = Suc b")
    case False
    then have ab: "a \<le> b" using Suc.prems(2) by simp
    then obtain t where t: "ix_loop f [a..<b] s = Some (Inr t)" "f b t = Some (Inr s')"
      using Suc.prems(1) by (auto simp: ix_loop_append split: option.splits sum.splits)
    have "Q b t"
      by (rule Suc.IH[OF t(1) ab]) (rule Suc.prems(3); simp)
    then show ?thesis
      using Suc.prems(3)[OF ab _ _ t(2)] by simp
  qed (use Suc.prems assms(3) in simp)
qed

end
