(* ===== verification/RmdKernel.thy ===== *)
theory RmdKernel
  imports RmdPrelude
begin

text \<open>
  The kernel services the driver calls, as a record of functions over an abstract kernel state \<open>'k\<close>.
  Kern, NKern and DebugSupport are Symbian OS and are not part of this repository, so nothing is assumed
  about them here beyond their types; a theorem that needs a documented behaviour has it as a hypothesis.
  The helper class DebugUtils (src/debug_utils.cpp) is part of the driver and is modelled on top.

  Semaphores, mutexes and critical sections are left out: the driver takes them around each operation,
  so the operations below are atomic steps.  Reference counts are not represented, except that opening a
  handle can fail.
\<close>

section \<open>Kernel objects as the driver reads them\<close>

record DProcess =
  pId :: u64

record DThread =
  tId :: u64
  iOwningProcess :: DProcess
  iCsCount :: int
  iCsFunction :: int
  iSuspendCount :: int

section \<open>The services\<close>

text \<open>
  kRawRead and kRawWrite are Kern::ThreadRawRead and Kern::ThreadRawWrite on a target thread (they may
  trap); kModifyCode and kRestoreCode are the code modifier of DebugSupport; kUserContext is
  NKern::ThreadGetUserContext (the register array and the mask of the registers that are valid);
  kAllocOk says whether the n-th Kern::Alloc of an operation succeeds; kAppend is the result of growing
  an RArray; kClientWrite is a Kern::ThreadRawWrite to the client.  kUninit is the value an automatic
  variable has before it is assigned.  kThreadSuspend and kThreadResume are Kern::ThreadSuspend (by one)
  and Kern::ThreadResume; kFSSignal and kFSWait work on the fast semaphore of the thread with the given id;
  kCreateRequest, kSemaphoreCreate and kSetStatus are the results of creating a client request, creating a
  semaphore and setting a request's status pointer; kFold is the case folding of one byte that
  TDesC8::CompareF applies.  The remaining fields are constants of kernel headers.
\<close>

record 'k kern =
  kThreadFromId :: "'k \<Rightarrow> u64 \<Rightarrow> DThread option"
  kThreadOpen :: "'k \<Rightarrow> DThread \<Rightarrow> TErr"
  kProcessFromId :: "'k \<Rightarrow> u64 \<Rightarrow> DProcess option"
  kProcessOpen :: "'k \<Rightarrow> DProcess \<Rightarrow> TErr"
  kFirstThread :: "'k \<Rightarrow> DProcess \<Rightarrow> DThread option"
  kRawRead :: "'k \<Rightarrow> DThread \<Rightarrow> u32 \<Rightarrow> nat \<Rightarrow> xcall \<times> (nat \<Rightarrow> u8)"
  kRawWrite :: "'k \<Rightarrow> DThread \<Rightarrow> u32 \<Rightarrow> u8 list \<Rightarrow> 'k \<times> xcall"
  kClientWrite :: "'k \<Rightarrow> u32 \<Rightarrow> u8 list \<Rightarrow> 'k \<times> TErr"
  kModifyCode :: "'k \<Rightarrow> DThread \<Rightarrow> u32 \<Rightarrow> nat \<Rightarrow> u32 \<Rightarrow> 'k \<times> xcall"
  kRestoreCode :: "'k \<Rightarrow> DThread \<Rightarrow> u32 \<Rightarrow> 'k \<times> xcall"
  kUserContext :: "'k \<Rightarrow> DThread \<Rightarrow> (nat \<Rightarrow> u32) \<times> u32"
  kSetUserContext :: "'k \<Rightarrow> DThread \<Rightarrow> (nat \<Rightarrow> u32) \<Rightarrow> 'k"
  kAllocOk :: "'k \<Rightarrow> nat \<Rightarrow> bool"
  kAppend :: "'k \<Rightarrow> nat \<Rightarrow> TErr"
  kEBreakpointGlobal :: TErr
  kEArmDacr :: u32
  kArmRegCount :: nat
  kEThumbMask :: u32
  kErrWord :: "TErr \<Rightarrow> u32"
  kUninit :: u32
  kCurrentThread :: "'k \<Rightarrow> DThread"
  kThreadSuspend :: "'k \<Rightarrow> DThread \<Rightarrow> 'k"
  kThreadResume :: "'k \<Rightarrow> DThread \<Rightarrow> 'k"
  kFSSignal :: "'k \<Rightarrow> u64 \<Rightarrow> 'k"
  kFSWait :: "'k \<Rightarrow> u64 \<Rightarrow> 'k"
  kCreateRequest :: "'k \<Rightarrow> TErr"
  kSemaphoreCreate :: "'k \<Rightarrow> TErr"
  kSetStatus :: "'k \<Rightarrow> TErr"
  kFold :: "u8 \<Rightarrow> u8"
  kMaxPath :: nat
  kEExitKill :: u8
  kEExitPanic :: u8
  kFlagProcessCritical :: u32
  kFlagSystemCritical :: u32
  kFlagProcessPermanent :: u32
  kFlagSystemPermanent :: u32
  kECausedException :: u32
  kKernExec :: "u8 list"

section \<open>debug_utils.cpp\<close>

definition OpenThreadHandle :: "'k kern \<Rightarrow> 'k \<Rightarrow> u64 \<Rightarrow> DThread option" where
  "OpenThreadHandle K k aThreadId =
     (case kThreadFromId K k aThreadId of
        None \<Rightarrow> None
      | Some thread \<Rightarrow> if kThreadOpen K k thread \<noteq> KErrNone then None else Some thread)"

definition OpenProcessHandle :: "'k kern \<Rightarrow> 'k \<Rightarrow> u64 \<Rightarrow> DProcess option" where
  "OpenProcessHandle K k aProcessId =
     (case kProcessFromId K k aProcessId of
        None \<Rightarrow> None
      | Some process \<Rightarrow> if kProcessOpen K k process \<noteq> KErrNone then None else Some process)"

definition OpenFirstThreadForProcess :: "'k kern \<Rightarrow> 'k \<Rightarrow> DProcess \<Rightarrow> DThread option" where
  "OpenFirstThreadForProcess K k aProcess =
     (case kFirstThread K k aProcess of
        None \<Rightarrow> None
      | Some result \<Rightarrow> if kThreadOpen K k result \<noteq> KErrNone then None else Some result)"

text \<open>The pair of calls with which the break manager finds a thread of a process.\<close>

definition open_process_thread :: "'k kern \<Rightarrow> 'k \<Rightarrow> u64 \<Rightarrow> DThread option" where
  "open_process_thread K k pid =
     (case OpenProcessHandle K k pid of
        None \<Rightarrow> None
      | Some process \<Rightarrow> OpenFirstThreadForProcess K k process)"

lemma OpenThreadHandle_Some:
  "OpenThreadHandle K k i = Some t \<longleftrightarrow> kThreadFromId K k i = Some t \<and> kThreadOpen K k t = KErrNone"
  by (auto simp: OpenThreadHandle_def split: option.splits)

end
