(* ===== verification/ThreadMemory.thy ===== *)
theory ThreadMemory
  imports RmdKernel
begin

text \<open>
  The two primitives of the channel that touch a target thread's memory
  (TryToReadMemory and TryToWriteMemory of src/rm_debug_kerneldriver.cpp), and DoSecurityCheck's
  sibling CheckSuspended.  A thread pointer is an option, NULL being None.  A read fills a destination
  buffer, which is why its old contents are an argument.
\<close>

definition TryToReadMemory ::
  "'k kern \<Rightarrow> 'k \<Rightarrow> DThread option \<Rightarrow> u32 \<Rightarrow> u8 list \<Rightarrow> nat \<Rightarrow> xcall \<times> u8 list" where
  "TryToReadMemory K k aThread aSrc aDest aLength =
     (case aThread of
        None \<Rightarrow> (Inr KErrArgument, aDest)
      | Some t \<Rightarrow>
          (let (x, bytes) = kRawRead K k t aSrc aLength
           in (x, overwrite aDest 0 (map bytes [0..<aLength]))))"

text \<open>The write has no NULL check; its callers pass a thread handle they have opened.\<close>

definition TryToWriteMemory ::
  "'k kern \<Rightarrow> 'k \<Rightarrow> DThread \<Rightarrow> u32 \<Rightarrow> u8 list \<Rightarrow> 'k \<times> xcall" where
  "TryToWriteMemory K k aThread aDest aSrc = kRawWrite K k aThread aDest aSrc"

definition CheckSuspended :: "DThread option \<Rightarrow> bool" where
  "CheckSuspended aThread =
     (case aThread of
        None \<Rightarrow> False
      | Some t \<Rightarrow> (0 < iCsCount t \<and> 0 < iCsFunction t) \<or> 0 < iSuspendCount t)"

lemma TryToReadMemory_length [simp]:
  "TryToReadMemory K k t a d n = (x, bs) \<Longrightarrow> length bs = length d"
  by (auto simp: TryToReadMemory_def split: option.splits prod.splits)

end
