(* ===== verification/Breakpoints.thy ===== *)
theory Breakpoints
  imports ThreadMemory
begin

text \<open>
  The break manager D_RMD_Breakpoints (src/d_rmd_breakpoints.cpp, inc/d_rmd_breakpoints.h).

  The RArray of entries is a list; entries 0 to 9 are the temporary ones of the stepper, the rest belong
  to the debug agents.  Every operation takes the kernel services \<open>K\<close>, the kernel state \<open>k\<close> and the
  manager, and returns the new kernel state, the new manager and the error code.
\<close>

section \<open>Data\<close>

definition KArmBreakPoint :: u32 where "KArmBreakPoint = 0xE7F123F4"
definition KThumbBreakPoint :: u16 where "KThumbBreakPoint = 0xDE56"
definition KT2EEBreakPoint :: u16 where "KT2EEBreakPoint = 0xC100"

abbreviation NUMBER_OF_TEMP_BREAKPOINTS :: nat where "NUMBER_OF_TEMP_BREAKPOINTS \<equiv> 10"
abbreviation NUMBER_OF_MAX_BREAKPOINTS :: nat where "NUMBER_OF_MAX_BREAKPOINTS \<equiv> 100"

text \<open>iInstruction is the four-byte buffer of the TBuf8; its length word is never read by the driver.
  iPageAddress is set to zero and not used, and is left out.\<close>

record TBreakEntry =
  iBreakId :: u32
  iId :: u64
  iAddress :: u32
  iMode :: TArchitectureMode
  iInstruction :: "u8 list"
  iDisabledForStep :: bool
  iObsoleteLibraryBreakpoint :: bool
  iResumeOnceOutOfRange :: bool
  iSteppingInto :: bool
  iRangeStart :: u32
  iRangeEnd :: u32
  iThreadSpecific :: bool
  iStepTarget :: bool
  iNumSteps :: u32

definition TBreakEntry_Reset :: "TBreakEntry \<Rightarrow> TBreakEntry" where
  "TBreakEntry_Reset e =
     e\<lparr>iId := 0, iAddress := 0, iMode := EArmMode, iInstruction := [0, 0, 0, 0],
       iDisabledForStep := False, iObsoleteLibraryBreakpoint := False,
       iResumeOnceOutOfRange := False, iSteppingInto := False, iRangeStart := 0, iRangeEnd := 0,
       iStepTarget := False, iNumSteps := 0\<rparr>"

definition mk_TBreakEntry :: "u32 \<Rightarrow> u64 \<Rightarrow> bool \<Rightarrow> u32 \<Rightarrow> TArchitectureMode \<Rightarrow> TBreakEntry" where
  "mk_TBreakEntry aBreakId aId aThreadSpecific aAddress aMode =
     \<lparr>iBreakId = aBreakId, iId = aId, iAddress = aAddress, iMode = aMode,
      iInstruction = [0, 0, 0, 0], iDisabledForStep = False, iObsoleteLibraryBreakpoint = False,
      iResumeOnceOutOfRange = False, iSteppingInto = False, iRangeStart = 0, iRangeEnd = 0,
      iThreadSpecific = aThreadSpecific, iStepTarget = False, iNumSteps = 0\<rparr>"

text \<open>The default constructor calls Reset and leaves iBreakId and iThreadSpecific as they were in the
  memory it was given (\<open>u\<close>).\<close>

definition default_TBreakEntry :: "u32 \<Rightarrow> TBreakEntry" where
  "default_TBreakEntry u = TBreakEntry_Reset (mk_TBreakEntry u 0 (u \<noteq> 0) 0 EArmMode)"

record D_RMD_Breakpoints =
  iBreakPointList :: "TBreakEntry list"
  iNextBreakId :: u32
  iInitialised :: bool
  iLock :: bool

abbreviation Count :: "D_RMD_Breakpoints \<Rightarrow> nat" where
  "Count m \<equiv> length (iBreakPointList m)"

section \<open>Helpers\<close>

fun Aligned :: "u32 \<Rightarrow> TArchitectureMode \<Rightarrow> bool" where
  "Aligned aAddress EArmMode = (and aAddress 0x3 = 0)"
| "Aligned aAddress EThumbMode = (and aAddress 0x1 = 0)"
| "Aligned aAddress EThumb2EEMode = (and aAddress 0x1 = 0)"
| "Aligned aAddress (EOtherMode _) = False"

fun BreakSize :: "TArchitectureMode \<Rightarrow> nat" where
  "BreakSize EArmMode = 4"
| "BreakSize EThumbMode = 2"
| "BreakSize EThumb2EEMode = 2"
| "BreakSize (EOtherMode _) = 0"

definition BreakpointsOverlap :: "TBreakEntry \<Rightarrow> TBreakEntry \<Rightarrow> bool" where
  "BreakpointsOverlap aFirst aSecond =
     (let firstSize = BreakSize (iMode aFirst); secondSize = BreakSize (iMode aSecond) in
      if firstSize = 0 \<or> secondSize = 0 then True
      else
        let firstStartAddress = iAddress aFirst;
            secondStartAddress = iAddress aSecond;
            firstEndAddress = firstStartAddress + of_nat firstSize - 1;
            secondEndAddress = secondStartAddress + of_nat secondSize - 1
        in if word_sless firstEndAddress secondStartAddress then False
           else if word_sless secondEndAddress firstStartAddress then False
           else True)"

fun BreakInst :: "TArchitectureMode \<Rightarrow> u32" where
  "BreakInst EArmMode = KArmBreakPoint"
| "BreakInst EThumbMode = ucast KThumbBreakPoint"
| "BreakInst EThumb2EEMode = ucast KT2EEBreakPoint"
| "BreakInst (EOtherMode _) = 0"

text \<open>RArray::FindInSignedKeyOrder compares the first word of the entries, their iBreakId; the list is
  kept sorted by it (theorem in this theory), so the search finds the entry with that id if there is
  one.\<close>

definition FindInSignedKeyOrder :: "TBreakEntry list \<Rightarrow> u32 \<Rightarrow> nat option" where
  "FindInSignedKeyOrder xs aBreakId = find_index (\<lambda>e. iBreakId e = aBreakId) xs"

section \<open>Construction\<close>

text \<open>A failing Append is only logged, so a construction short of memory leaves a shorter list.\<close>

fun append_temps :: "(nat \<Rightarrow> TErr) \<Rightarrow> u32 \<Rightarrow> nat list \<Rightarrow> TBreakEntry list \<Rightarrow> TBreakEntry list" where
  "append_temps app u [] xs = xs"
| "append_temps app u (i # is) xs =
     append_temps app u is
       (if app (length xs) \<noteq> KErrNone then xs
        else xs @ [(default_TBreakEntry u)\<lparr>iBreakId := of_nat i\<rparr>])"

definition new_D_RMD_Breakpoints :: "'k kern \<Rightarrow> 'k \<Rightarrow> D_RMD_Breakpoints" where
  "new_D_RMD_Breakpoints K k =
     \<lparr>iBreakPointList =
        append_temps (kAppend K k) (kUninit K) [0..<NUMBER_OF_TEMP_BREAKPOINTS] [],
      iNextBreakId = of_nat NUMBER_OF_TEMP_BREAKPOINTS, iInitialised = False, iLock = False\<rparr>"

text \<open>\<open>sem\<close> is the result of Kern::SemaphoreCreate.\<close>

definition Init :: "TErr \<Rightarrow> D_RMD_Breakpoints \<Rightarrow> D_RMD_Breakpoints \<times> TErr" where
  "Init sem m =
     (if \<not> iInitialised m then
        if sem = KErrNone then (m\<lparr>iInitialised := True, iLock := True\<rparr>, sem) else (m, sem)
      else (m, KErrNone))"

definition not_ready :: "D_RMD_Breakpoints \<Rightarrow> bool" where
  "not_ready m \<longleftrightarrow> \<not> iInitialised m \<or> \<not> iLock m"

section \<open>Enabling and setting a breakpoint\<close>

definition priv_DoEnableBreak ::
  "'k kern \<Rightarrow> 'k \<Rightarrow> D_RMD_Breakpoints \<Rightarrow> TBreakEntry \<Rightarrow> bool \<Rightarrow> 'k \<times> TBreakEntry \<times> TErr" where
  "priv_DoEnableBreak K k m aEntry aSaveOldInstruction =
     (let inst = BreakInst (iMode aEntry); instSize = BreakSize (iMode aEntry) in
      if instSize = 0 \<or> inst = 0 then (k, aEntry, KErrNotSupported)
      else
        let threadId = iId aEntry + (if iThreadSpecific aEntry then 0 else 1) in
        case OpenThreadHandle K k threadId of
          None \<Rightarrow> (k, aEntry, KErrBadHandle)
        | Some threadObj \<Rightarrow>
            let (err, aEntry) =
              (if aSaveOldInstruction then
                 let (x, instruction) =
                       TryToReadMemory K k (Some threadObj) (iAddress aEntry) (le32 (kUninit K)) instSize;
                     (r, err) = xtrap x KErrNone;
                     err = (if r \<noteq> KErrNone then r else err)
                 in if err \<noteq> KErrNone then (err, aEntry)
                    else (KErrNone,
                          aEntry\<lparr>iInstruction := overwrite (iInstruction aEntry) 0 (take instSize instruction)\<rparr>)
               else (KErrNone, aEntry))
            in
            if err \<noteq> KErrNone then (k, aEntry, err)
            else if list_ex (\<lambda>e. iAddress e = iAddress aEntry \<and> \<not> iDisabledForStep e)
                      (drop NUMBER_OF_TEMP_BREAKPOINTS (iBreakPointList m))
            then (k, aEntry, KErrNone)
            else
              let (k, x) = kModifyCode K k threadObj (iAddress aEntry) instSize inst;
                  (r, err) = xtrap x KErrNone
              in (k, aEntry, if r \<noteq> kEBreakpointGlobal K then r else err))"

definition DoEnableBreak ::
  "'k kern \<Rightarrow> 'k \<Rightarrow> D_RMD_Breakpoints \<Rightarrow> TBreakEntry \<Rightarrow> bool \<Rightarrow> 'k \<times> TBreakEntry \<times> TErr" where
  "DoEnableBreak K k m aEntry aSaveOldInstruction =
     (if not_ready m then (k, aEntry, KErrNotReady)
      else priv_DoEnableBreak K k m aEntry aSaveOldInstruction)"

text \<open>
  The loop of priv_DoSetBreak over the agents' breakpoints: KErrNone when it runs to its end, the error
  it returns otherwise, and None when it closes a NULL thread handle.
\<close>

fun set_break_check ::
  "'k kern \<Rightarrow> 'k \<Rightarrow> u64 \<Rightarrow> bool \<Rightarrow> u32 \<Rightarrow> TArchitectureMode \<Rightarrow> TBreakEntry list \<Rightarrow> TErr option" where
  "set_break_check K k aId aThreadSpecific aAddress aMode [] = Some KErrNone"
| "set_break_check K k aId aThreadSpecific aAddress aMode (e # es) =
     (let next_iteration = set_break_check K k aId aThreadSpecific aAddress aMode es in
      if BreakSize aMode = 0 then Some KErrNotSupported
      else if BreakSize (iMode e) = 0 then Some KErrNotSupported
      else
        let temp = (default_TBreakEntry (kUninit K))\<lparr>iAddress := aAddress, iMode := aMode\<rparr> in
        if BreakpointsOverlap temp e then
          if iThreadSpecific e \<and> aThreadSpecific then
            if aId = iId e then Some KErrAlreadyExists else next_iteration
          else if \<not> iThreadSpecific e \<and> aThreadSpecific then
            (case OpenThreadHandle K k aId of
               None \<Rightarrow> None
             | Some thread \<Rightarrow>
                 if pId (iOwningProcess thread) = iId e then Some KErrAlreadyExists
                 else next_iteration)
          else if iThreadSpecific e \<and> \<not> aThreadSpecific then
            (case OpenThreadHandle K k (iId e) of
               None \<Rightarrow> Some KErrNotFound
             | Some thread \<Rightarrow>
                 if pId (iOwningProcess thread) = aId then Some KErrAlreadyExists
                 else next_iteration)
          else if iId e = aId then Some KErrAlreadyExists
          else next_iteration
        else next_iteration)"

text \<open>aBreakId is a reference parameter, so its new value is part of the result.\<close>

definition priv_DoSetBreak ::
  "'k kern \<Rightarrow> 'k \<Rightarrow> D_RMD_Breakpoints \<Rightarrow> u32 \<Rightarrow> u64 \<Rightarrow> bool \<Rightarrow> u32 \<Rightarrow> TArchitectureMode \<Rightarrow>
     ('k \<times> D_RMD_Breakpoints \<times> TErr \<times> u32) option" where
  "priv_DoSetBreak K k m aBreakId aId aThreadSpecific aAddress aMode =
     (if aMode = EThumb2EEMode then Some (k, m, KErrNotSupported, aBreakId)
      else if Count m + 1 \<ge> NUMBER_OF_MAX_BREAKPOINTS then Some (k, m, KErrOverflow, aBreakId)
      else if \<not> Aligned aAddress aMode then Some (k, m, KErrArgument, aBreakId)
      else do {
        err \<leftarrow> set_break_check K k aId aThreadSpecific aAddress aMode
                 (drop NUMBER_OF_TEMP_BREAKPOINTS (iBreakPointList m));
        if err \<noteq> KErrNone then Some (k, m, err, aBreakId)
        else
          let aBreakId = iNextBreakId m;
              m = m\<lparr>iNextBreakId := iNextBreakId m + 1\<rparr>;
              breakEntry = mk_TBreakEntry aBreakId aId aThreadSpecific aAddress aMode;
              (k, breakEntry, err) = priv_DoEnableBreak K k m breakEntry True
          in if err \<noteq> KErrNone then Some (k, m, err, aBreakId)
             else
               let err = kAppend K k (Count m);
                   m = (if err = KErrNone
                        then m\<lparr>iBreakPointList := iBreakPointList m @ [breakEntry]\<rparr> else m)
               in Some (k, m, err, aBreakId)
      })"

definition DoSetBreak ::
  "'k kern \<Rightarrow> 'k \<Rightarrow> D_RMD_Breakpoints \<Rightarrow> u32 \<Rightarrow> u64 \<Rightarrow> bool \<Rightarrow> u32 \<Rightarrow> TArchitectureMode \<Rightarrow>
     ('k \<times> D_RMD_Breakpoints \<times> TErr \<times> u32) option" where
  "DoSetBreak K k m aBreakId aId aThreadSpecific aAddress aMode =
     (if not_ready m then Some (k, m, KErrNotReady, aBreakId)
      else priv_DoSetBreak K k m aBreakId aId aThreadSpecific aAddress aMode)"

section \<open>Clearing a breakpoint\<close>

text \<open>Whether priv_DoClearBreak has to restore the code: no other agent breakpoint overlaps.\<close>

definition needToCallCodeModifier :: "TBreakEntry list \<Rightarrow> nat \<Rightarrow> bool" where
  "needToCallCodeModifier xs index =
     list_all (\<lambda>i. i \<noteq> index \<longrightarrow> \<not> BreakpointsOverlap (xs ! index) (xs ! i))
       [NUMBER_OF_TEMP_BREAKPOINTS..<length xs]"

definition clear_restore :: "'k kern \<Rightarrow> 'k \<Rightarrow> TBreakEntry list \<Rightarrow> nat \<Rightarrow> 'k \<times> TErr" where
  "clear_restore K k xs index =
     (let e = xs ! index in
      if iObsoleteLibraryBreakpoint e then (k, KErrNone)
      else case OpenThreadHandle K k (iId e + (if iThreadSpecific e then 0 else 1)) of
          None \<Rightarrow> (k, KErrBadHandle)
        | Some threadObj \<Rightarrow>
            if needToCallCodeModifier xs index then
              let (k, x) = kRestoreCode K k threadObj (iAddress e);
                  (r, err) = xtrap x KErrNone;
                  err = (if err = KErrNotFound then KErrNone else err)
              in (k, if r = KErrNone then err else r)
            else (k, KErrNone))"

definition priv_DoClearBreak ::
  "'k kern \<Rightarrow> 'k \<Rightarrow> D_RMD_Breakpoints \<Rightarrow> u32 \<Rightarrow> bool \<Rightarrow> 'k \<times> D_RMD_Breakpoints \<times> TErr" where
  "priv_DoClearBreak K k m aBreakId aIgnoreTerminatedThreads =
     (let xs = iBreakPointList m in
      case FindInSignedKeyOrder xs aBreakId of
        None \<Rightarrow> (k, m, KErrNotFound)
      | Some index \<Rightarrow>
          let (k, err) = clear_restore K k xs index in
          if aIgnoreTerminatedThreads \<and> err = KErrBadHandle \<or> err = KErrNone then
            if index < NUMBER_OF_TEMP_BREAKPOINTS
            then (k, m\<lparr>iBreakPointList := xs[index := TBreakEntry_Reset (xs ! index)]\<rparr>, KErrNone)
            else (k, m\<lparr>iBreakPointList := remove_nth index xs\<rparr>, KErrNone)
          else (k, m, err))"

definition DoClearBreak ::
  "'k kern \<Rightarrow> 'k \<Rightarrow> D_RMD_Breakpoints \<Rightarrow> u32 \<Rightarrow> bool \<Rightarrow> 'k \<times> D_RMD_Breakpoints \<times> TErr" where
  "DoClearBreak K k m aBreakId aIgnoreTerminatedThreads =
     (if not_ready m then (k, m, KErrNotReady)
      else priv_DoClearBreak K k m aBreakId aIgnoreTerminatedThreads)"

section \<open>Modifying a breakpoint\<close>

text \<open>The argument as it is read from the client: TModifyBreakInfo and TModifyProcessBreakInfo have
  these fields, read into a TSetBreakInfo.\<close>

record TModifyBreakInfo =
  mBreakId :: u32
  mId :: u64
  mAddress :: u32
  mMode :: TArchitectureMode

definition modify_remove_old :: "'k kern \<Rightarrow> 'k \<Rightarrow> TBreakEntry \<Rightarrow> 'k \<times> TErr" where
  "modify_remove_old K k e =
     (if iObsoleteLibraryBreakpoint e then (k, KErrNone)
      else case OpenThreadHandle K k (iId e) of
          None \<Rightarrow> (k, KErrBadHandle)
        | Some threadObj \<Rightarrow> (fst (kRestoreCode K k threadObj (iAddress e)), KErrNone))"

fun modify_check :: "u32 \<Rightarrow> u32 \<Rightarrow> TArchitectureMode \<Rightarrow> nat \<Rightarrow> TBreakEntry list \<Rightarrow> nat list \<Rightarrow> TErr" where
  "modify_check u aAddress aMode index xs [] = KErrNone"
| "modify_check u aAddress aMode index xs (i # is) =
     (if i \<noteq> index then
        if BreakSize aMode = 0 then KErrNotSupported
        else if BreakSize (iMode (xs ! i)) = 0 then KErrNotSupported
        else
          let temp = (default_TBreakEntry u)\<lparr>iAddress := aAddress, iMode := aMode\<rparr> in
          if BreakpointsOverlap temp (xs ! i) then KErrAlreadyExists
          else modify_check u aAddress aMode index xs is
      else modify_check u aAddress aMode index xs is)"

text \<open>
  The last part of both functions: the instruction is read and saved, the id is set to \<open>newId\<close>, and the
  code modifier is called.
\<close>

definition modify_write ::
  "'k kern \<Rightarrow> 'k \<Rightarrow> DThread \<Rightarrow> u64 \<Rightarrow> TBreakEntry \<Rightarrow> 'k \<times> TBreakEntry \<times> TErr" where
  "modify_write K k threadObj newId e =
     (let inst = BreakInst (iMode e); instSize = BreakSize (iMode e);
          (x, instruction) = TryToReadMemory K k (Some threadObj) (iAddress e) (le32 (kUninit K)) instSize;
          (r, err) = xtrap x KErrNone;
          err = (if r \<noteq> KErrNone then r else err)
      in if err \<noteq> KErrNone then (k, e, err)
         else
           let e = e\<lparr>iInstruction := overwrite (iInstruction e) 0 (take instSize instruction), iId := newId\<rparr>;
               (k, y) = kModifyCode K k threadObj (iAddress e) instSize inst;
               (s, err) = xtrap y err
           in (k, e, if s \<noteq> kEBreakpointGlobal K then s else err))"

text \<open>\<open>procs\<close> are the ids of the channel's iDebugProcessList.\<close>

definition modify_install ::
  "'k kern \<Rightarrow> 'k \<Rightarrow> u64 list \<Rightarrow> TModifyBreakInfo \<Rightarrow> TBreakEntry \<Rightarrow> 'k \<times> TBreakEntry \<times> TErr" where
  "modify_install K k procs info e =
     (let e = e\<lparr>iId := mId info, iAddress := mAddress info, iMode := mMode info\<rparr> in
      if BreakInst (iMode e) = 0 \<or> BreakSize (iMode e) = 0 then (k, e, KErrNotSupported)
      else
        let e = (if iId e \<noteq> 0xFFFFFFFF then e\<lparr>iThreadSpecific := True\<rparr> else e);
            threadId = iId e;
            threadObj = OpenThreadHandle K k threadId;
            (threadId, threadObj) =
              (if threadObj = None \<and> procs \<noteq> []
               then (hd procs + 1, OpenThreadHandle K k (hd procs + 1))
               else (threadId, threadObj))
        in case threadObj of
             None \<Rightarrow> (k, e, KErrBadHandle)
           | Some threadObj \<Rightarrow> modify_write K k threadObj threadId e)"

definition priv_DoModifyBreak ::
  "'k kern \<Rightarrow> 'k \<Rightarrow> D_RMD_Breakpoints \<Rightarrow> u64 list \<Rightarrow> TModifyBreakInfo carg \<Rightarrow>
     'k \<times> D_RMD_Breakpoints \<times> TErr" where
  "priv_DoModifyBreak K k m procs aBreakInfo =
     (case aBreakInfo of
        NullArg \<Rightarrow> (k, m, KErrArgument)
      | BadArg err \<Rightarrow> (k, m, err)
      | Arg info \<Rightarrow>
          if mMode info = EThumb2EEMode then (k, m, KErrNotSupported)
          else let xs = iBreakPointList m in
          case FindInSignedKeyOrder xs (mBreakId info) of
            None \<Rightarrow> (k, m, KErrNotFound)
          | Some index \<Rightarrow>
              let (k, err) = modify_remove_old K k (xs ! index) in
              if err \<noteq> KErrNone then (k, m, err)
              else
                let err = modify_check (kUninit K) (mAddress info) (mMode info) index xs
                            [NUMBER_OF_TEMP_BREAKPOINTS..<length xs] in
                if err \<noteq> KErrNone then (k, m, err)
                else
                  let (k, e, err) = modify_install K k procs info (xs ! index)
                  in (k, m\<lparr>iBreakPointList := xs[index := e]\<rparr>, err))"

definition DoModifyBreak ::
  "'k kern \<Rightarrow> 'k \<Rightarrow> D_RMD_Breakpoints \<Rightarrow> u64 list \<Rightarrow> TModifyBreakInfo carg \<Rightarrow>
     'k \<times> D_RMD_Breakpoints \<times> TErr" where
  "DoModifyBreak K k m procs aBreakInfo =
     (if not_ready m then (k, m, KErrNotReady) else priv_DoModifyBreak K k m procs aBreakInfo)"

definition modify_process_remove_old :: "'k kern \<Rightarrow> 'k \<Rightarrow> TBreakEntry \<Rightarrow> 'k \<times> TErr" where
  "modify_process_remove_old K k e =
     (if iObsoleteLibraryBreakpoint e then (k, KErrNone)
      else case open_process_thread K k (iId e) of
          None \<Rightarrow> (k, KErrBadHandle)
        | Some threadObj \<Rightarrow> (fst (kRestoreCode K k threadObj (iAddress e)), KErrNone))"

definition modify_process_install ::
  "'k kern \<Rightarrow> 'k \<Rightarrow> TModifyBreakInfo \<Rightarrow> TBreakEntry \<Rightarrow> 'k \<times> TBreakEntry \<times> TErr" where
  "modify_process_install K k info e =
     (let e = e\<lparr>iId := mId info, iAddress := mAddress info, iMode := mMode info\<rparr> in
      if BreakInst (iMode e) = 0 \<or> BreakSize (iMode e) = 0 then (k, e, KErrNotSupported)
      else
        let e = e\<lparr>iThreadSpecific := False\<rparr> in
        case OpenProcessHandle K k (iId e) of
          None \<Rightarrow> (k, e, KErrBadHandle)
        | Some process \<Rightarrow>
            (case OpenFirstThreadForProcess K k process of
               None \<Rightarrow> (k, e, KErrNotFound)
             | Some threadObj \<Rightarrow> modify_write K k threadObj (iId e) e))"

definition priv_DoModifyProcessBreak ::
  "'k kern \<Rightarrow> 'k \<Rightarrow> D_RMD_Breakpoints \<Rightarrow> TModifyBreakInfo carg \<Rightarrow> 'k \<times> D_RMD_Breakpoints \<times> TErr" where
  "priv_DoModifyProcessBreak K k m aBreakInfo =
     (case aBreakInfo of
        NullArg \<Rightarrow> (k, m, KErrArgument)
      | BadArg err \<Rightarrow> (k, m, err)
      | Arg info \<Rightarrow>
          if mMode info = EThumb2EEMode then (k, m, KErrNotSupported)
          else let xs = iBreakPointList m in
          case FindInSignedKeyOrder xs (mBreakId info) of
            None \<Rightarrow> (k, m, KErrNotFound)
          | Some index \<Rightarrow>
              let (k, err) = modify_process_remove_old K k (xs ! index) in
              if err \<noteq> KErrNone then (k, m, err)
              else
                let err = modify_check (kUninit K) (mAddress info) (mMode info) index xs
                            [NUMBER_OF_TEMP_BREAKPOINTS..<length xs] in
                if err \<noteq> KErrNone then (k, m, err)
                else
                  let (k, e, err) = modify_process_install K k info (xs ! index)
                  in (k, m\<lparr>iBreakPointList := xs[index := e]\<rparr>, err))"

definition DoModifyProcessBreak ::
  "'k kern \<Rightarrow> 'k \<Rightarrow> D_RMD_Breakpoints \<Rightarrow> TModifyBreakInfo carg \<Rightarrow> 'k \<times> D_RMD_Breakpoints \<times> TErr" where
  "DoModifyProcessBreak K k m aBreakInfo =
     (if not_ready m then (k, m, KErrNotReady) else priv_DoModifyProcessBreak K k m aBreakInfo)"

section \<open>Reporting a breakpoint\<close>

text \<open>TGetBreakInfo holds the id and four pointers into the client's memory.\<close>

record TGetBreakInfo =
  gBreakId :: u32
  gId :: u32
  gAddress :: u32
  gMode :: u32
  gThreadSpecific :: u32

text \<open>The successive Kern::ThreadRawWrite calls, up to the first that fails.\<close>

fun client_writes :: "'k kern \<Rightarrow> 'k \<Rightarrow> (u32 \<times> u8 list) list \<Rightarrow> 'k \<times> TErr" where
  "client_writes K k [] = (k, KErrNone)"
| "client_writes K k ((a, bs) # ws) =
     (let (k, err) = kClientWrite K k a bs in
      if err \<noteq> KErrNone then (k, err) else client_writes K k ws)"

fun mode_word :: "TArchitectureMode \<Rightarrow> u32" where
  "mode_word EArmMode = 1"
| "mode_word EThumbMode = 2"
| "mode_word EThumb2EEMode = 3"
| "mode_word (EOtherMode w) = w"

definition priv_DoBreakInfo ::
  "'k kern \<Rightarrow> 'k \<Rightarrow> D_RMD_Breakpoints \<Rightarrow> TGetBreakInfo carg \<Rightarrow> 'k \<times> TErr" where
  "priv_DoBreakInfo K k m aBreakInfo =
     (case aBreakInfo of
        NullArg \<Rightarrow> (k, KErrArgument)
      | BadArg err \<Rightarrow> (k, err)
      | Arg info \<Rightarrow>
          (case FindInSignedKeyOrder (iBreakPointList m) (gBreakId info) of
             None \<Rightarrow> (k, KErrNotFound)
           | Some index \<Rightarrow>
               let e = iBreakPointList m ! index in
               client_writes K k
                 [(gId info, le64 (iId e)),
                  (gThreadSpecific info, le32 (if iThreadSpecific e then 1 else 0)),
                  (gAddress info, le32 (iAddress e)),
                  (gMode info, le32 (mode_word (iMode e)))]))"

definition DoBreakInfo ::
  "'k kern \<Rightarrow> 'k \<Rightarrow> D_RMD_Breakpoints \<Rightarrow> TGetBreakInfo carg \<Rightarrow> 'k \<times> TErr" where
  "DoBreakInfo K k m aBreakInfo =
     (if not_ready m then (k, KErrNotReady) else priv_DoBreakInfo K k m aBreakInfo)"

section \<open>Clearing all breakpoints\<close>

text \<open>The id is stored in a TUint32 before the thread is looked up.\<close>

definition clear_all_step :: "'k kern \<Rightarrow> TBreakEntry \<Rightarrow> 'k \<Rightarrow> 'k" where
  "clear_all_step K e k =
     (if iAddress e \<noteq> 0 \<and> \<not> iObsoleteLibraryBreakpoint e then
        let id = (ucast (iId e + (if iThreadSpecific e then 0 else 1)) :: u32) in
        case OpenThreadHandle K k (ucast id) of
          None \<Rightarrow> k
        | Some threadObj \<Rightarrow> fst (kRestoreCode K k threadObj (iAddress e))
      else k)"

definition priv_ClearAllBreakPoints :: "'k kern \<Rightarrow> 'k \<Rightarrow> D_RMD_Breakpoints \<Rightarrow> 'k \<times> D_RMD_Breakpoints" where
  "priv_ClearAllBreakPoints K k m =
     (fold (clear_all_step K) (iBreakPointList m) k, m\<lparr>iBreakPointList := []\<rparr>)"

definition ClearAllBreakPoints :: "'k kern \<Rightarrow> 'k \<Rightarrow> D_RMD_Breakpoints \<Rightarrow> 'k \<times> D_RMD_Breakpoints" where
  "ClearAllBreakPoints K k m = (if not_ready m then (k, m) else priv_ClearAllBreakPoints K k m)"

section \<open>Stepping off a breakpoint: disabling and re-enabling\<close>

definition disable_thread :: "'k kern \<Rightarrow> 'k \<Rightarrow> TBreakEntry \<Rightarrow> DThread option" where
  "disable_thread K k e =
     (if iThreadSpecific e then OpenThreadHandle K k (iId e)
      else open_process_thread K k (iId e))"

definition disable_body ::
  "'k kern \<Rightarrow> u32 \<Rightarrow> nat \<Rightarrow> 'k \<times> D_RMD_Breakpoints \<Rightarrow>
     (('k \<times> D_RMD_Breakpoints \<times> TErr) + ('k \<times> D_RMD_Breakpoints)) option" where
  "disable_body K aAddress i s =
     (let (k, m) = s; xs = iBreakPointList m in
      if iAddress (xs ! i) = aAddress then
        let m = m\<lparr>iBreakPointList := xs[i := (xs ! i)\<lparr>iDisabledForStep := True\<rparr>]\<rparr> in
        case disable_thread K k (xs ! i) of
          None \<Rightarrow> Some (Inl (k, m, KErrBadHandle))
        | Some threadObj \<Rightarrow>
            let (k, x) = kRestoreCode K k threadObj aAddress;
                (r, err) = xtrap x KErrNone;
                err = (if r = KErrNone then err else r)
            in Some (if err \<noteq> KErrNone then Inl (k, m, err) else Inr (k, m))
      else Some (Inr (k, m)))"

definition priv_DisableBreakAtAddress ::
  "'k kern \<Rightarrow> 'k \<Rightarrow> D_RMD_Breakpoints \<Rightarrow> u32 \<Rightarrow> ('k \<times> D_RMD_Breakpoints \<times> TErr) option" where
  "priv_DisableBreakAtAddress K k m aAddress = do {
     res \<leftarrow> ix_loop (disable_body K aAddress) [NUMBER_OF_TEMP_BREAKPOINTS..<Count m] (k, m);
     Some (case res of Inl r \<Rightarrow> r | Inr (k, m) \<Rightarrow> (k, m, KErrNone))
   }"

definition DisableBreakAtAddress ::
  "'k kern \<Rightarrow> 'k \<Rightarrow> D_RMD_Breakpoints \<Rightarrow> u32 \<Rightarrow> ('k \<times> D_RMD_Breakpoints \<times> TErr) option" where
  "DisableBreakAtAddress K k m aAddress =
     (if not_ready m then Some (k, m, KErrNotReady) else priv_DisableBreakAtAddress K k m aAddress)"

definition enable_disabled_body ::
  "'k kern \<Rightarrow> u64 \<Rightarrow> u64 \<Rightarrow> nat \<Rightarrow> 'k \<times> D_RMD_Breakpoints \<Rightarrow>
     (('k \<times> D_RMD_Breakpoints \<times> TErr) + ('k \<times> D_RMD_Breakpoints)) option" where
  "enable_disabled_body K aThreadId processId i s =
     (let (k, m) = s; xs = iBreakPointList m; e = xs ! i;
          needsEnabling = iDisabledForStep e \<and>
            (if iThreadSpecific e then aThreadId = iId e else processId = iId e)
      in if needsEnabling then
           let (k, e, err) = priv_DoEnableBreak K k m e False in
           if err \<noteq> KErrNone
           then Some (Inl (k, m\<lparr>iBreakPointList := xs[i := e\<lparr>iDisabledForStep := False\<rparr>]\<rparr>, err))
           else Some (Inr (k, m\<lparr>iBreakPointList := xs[i := e]\<rparr>))
         else Some (Inr (k, m)))"

definition priv_DoEnableDisabledBreak ::
  "'k kern \<Rightarrow> 'k \<Rightarrow> D_RMD_Breakpoints \<Rightarrow> u64 \<Rightarrow> ('k \<times> D_RMD_Breakpoints \<times> TErr) option" where
  "priv_DoEnableDisabledBreak K k m aThreadId =
     (case OpenThreadHandle K k aThreadId of
        None \<Rightarrow> Some (k, m, KErrNotFound)
      | Some thread \<Rightarrow> do {
          res \<leftarrow> ix_loop (enable_disabled_body K aThreadId (pId (iOwningProcess thread)))
                   [NUMBER_OF_TEMP_BREAKPOINTS..<Count m] (k, m);
          Some (case res of Inl r \<Rightarrow> r | Inr (k, m) \<Rightarrow> (k, m, KErrNone))
        })"

definition DoEnableDisabledBreak ::
  "'k kern \<Rightarrow> 'k \<Rightarrow> D_RMD_Breakpoints \<Rightarrow> u64 \<Rightarrow> ('k \<times> D_RMD_Breakpoints \<times> TErr) option" where
  "DoEnableDisabledBreak K k m aThreadId =
     (if not_ready m then Some (k, m, KErrNotReady) else priv_DoEnableDisabledBreak K k m aThreadId)"

section \<open>Removing breakpoints when threads, processes and libraries go\<close>

text \<open>The loops run downwards; an index past the end of the shrinking list is a fault.\<close>

definition remove_thread_body ::
  "'k kern \<Rightarrow> u64 \<Rightarrow> nat \<Rightarrow> 'k \<times> D_RMD_Breakpoints \<Rightarrow>
     (('k \<times> D_RMD_Breakpoints) + ('k \<times> D_RMD_Breakpoints)) option" where
  "remove_thread_body K aThreadId i s =
     (let (k, m) = s; xs = iBreakPointList m in
      if i \<ge> length xs then None
      else if iAddress (xs ! i) \<noteq> 0 \<and> \<not> iObsoleteLibraryBreakpoint (xs ! i) then
        let threadId = iId (xs ! i) + (if iThreadSpecific (xs ! i) then 0 else 1) in
        if threadId = aThreadId then
          let (k, m, err) = priv_DoClearBreak K k m (iBreakId (xs ! i)) False
          in Some (if err \<noteq> KErrNone then Inl (k, m) else Inr (k, m))
        else Some (Inr (k, m))
      else Some (Inr (k, m)))"

definition priv_DoRemoveThreadBreaks ::
  "'k kern \<Rightarrow> 'k \<Rightarrow> D_RMD_Breakpoints \<Rightarrow> u64 \<Rightarrow> ('k \<times> D_RMD_Breakpoints) option" where
  "priv_DoRemoveThreadBreaks K k m aThreadId = do {
     res \<leftarrow> ix_loop (remove_thread_body K aThreadId) (rev [0..<Count m]) (k, m);
     Some (case res of Inl r \<Rightarrow> r | Inr r \<Rightarrow> r)
   }"

definition DoRemoveThreadBreaks ::
  "'k kern \<Rightarrow> 'k \<Rightarrow> D_RMD_Breakpoints \<Rightarrow> u64 \<Rightarrow> ('k \<times> D_RMD_Breakpoints) option" where
  "DoRemoveThreadBreaks K k m aThreadId =
     (if not_ready m then Some (k, m) else priv_DoRemoveThreadBreaks K k m aThreadId)"

definition remove_process_body ::
  "'k kern \<Rightarrow> u64 \<Rightarrow> u32 \<Rightarrow> u32 \<Rightarrow> nat \<Rightarrow> 'k \<times> D_RMD_Breakpoints \<Rightarrow>
     (unit + ('k \<times> D_RMD_Breakpoints)) option" where
  "remove_process_body K aProcessId aCodeAddress aCodeSize i s =
     (let (k, m) = s; xs = iBreakPointList m in
      if i \<ge> length xs then None
      else let e = xs ! i in
        if iId e = 0 \<or> iAddress e = 0
        then Some (Inr (k, m\<lparr>iBreakPointList := xs[i := TBreakEntry_Reset e]\<rparr>))
        else
          let clear_in_range = (\<lambda>remove.
                if remove \<and> aCodeAddress \<le> iAddress e \<and> iAddress e < aCodeAddress + aCodeSize then
                  let (k, m, err) = DoClearBreak K k m (iBreakId e) True in Some (Inr (k, m))
                else Some (Inr (k, m)))
          in if \<not> iThreadSpecific e \<and> iId e = aProcessId then clear_in_range True
             else if iThreadSpecific e then
               (case OpenThreadHandle K k (iId e) of
                  None \<Rightarrow> Some (Inr (k, m))
                | Some thread \<Rightarrow> clear_in_range (pId (iOwningProcess thread) = aProcessId))
             else clear_in_range False)"

definition RemoveBreaksForProcess ::
  "'k kern \<Rightarrow> 'k \<Rightarrow> D_RMD_Breakpoints \<Rightarrow> u64 \<Rightarrow> u32 \<Rightarrow> u32 \<Rightarrow> ('k \<times> D_RMD_Breakpoints) option" where
  "RemoveBreaksForProcess K k m aProcessId aCodeAddress aCodeSize = do {
     res \<leftarrow> ix_loop (remove_process_body K aProcessId aCodeAddress aCodeSize) (rev [0..<Count m]) (k, m);
     Some (case res of Inl _ \<Rightarrow> (k, m) | Inr r \<Rightarrow> r)
   }"

definition InvalidateLibraryBreakPoints :: "D_RMD_Breakpoints \<Rightarrow> u32 \<Rightarrow> u32 \<Rightarrow> D_RMD_Breakpoints" where
  "InvalidateLibraryBreakPoints m aCodeAddress aCodeSize =
     m\<lparr>iBreakPointList := map (\<lambda>e.
         if aCodeAddress \<le> iAddress e \<and> iAddress e < aCodeAddress + aCodeSize
         then e\<lparr>iObsoleteLibraryBreakpoint := True\<rparr> else e) (iBreakPointList m)\<rparr>"

section \<open>Walking the list\<close>

definition BreakPointCount :: "D_RMD_Breakpoints \<Rightarrow> nat" where
  "BreakPointCount m = Count m"

text \<open>
  The pointer that GetNextBreak takes and returns is the index of an entry, NULL is None.  The outer
  option is the fault of indexing an empty list.  When the id is not in the list the search returns
  KErrNotFound, which is -1, so the walk starts again at 0.
\<close>

definition GetNextBreak :: "D_RMD_Breakpoints \<Rightarrow> nat option \<Rightarrow> nat option option" where
  "GetNextBreak m aBreakEntry =
     (case aBreakEntry of
        None \<Rightarrow> if iBreakPointList m = [] then None else Some (Some 0)
      | Some i \<Rightarrow>
          let index = (case FindInSignedKeyOrder (iBreakPointList m) (iBreakId (iBreakPointList m ! i)) of
                         None \<Rightarrow> 0 | Some j \<Rightarrow> j + 1)
          in Some (if index < BreakPointCount m then Some index else None))"

definition priv_IsTemporaryBreak :: "TBreakEntry \<Rightarrow> bool" where
  "priv_IsTemporaryBreak aBreakEntry = word_sless (iBreakId aBreakEntry) (of_nat NUMBER_OF_TEMP_BREAKPOINTS)"

definition IsTemporaryBreak :: "D_RMD_Breakpoints \<Rightarrow> TBreakEntry \<Rightarrow> bool" where
  "IsTemporaryBreak m aBreakEntry = (if not_ready m then False else priv_IsTemporaryBreak aBreakEntry)"

text \<open>
  The loop with which the channel and the stepper visit the breakpoints,

    breakEntry = NULL; do { breakEntry = GetNextBreak(breakEntry); if (breakEntry) body } while (breakEntry)

  for a successor function \<open>nxt\<close> of the list \<open>lst s\<close> in the current state, and a body that may leave the
  function (Inl).
\<close>

partial_function (option) break_walk ::
  "('l \<Rightarrow> nat option \<Rightarrow> nat option option) \<Rightarrow> ('s \<Rightarrow> 'l) \<Rightarrow> (nat \<Rightarrow> 's \<Rightarrow> ('r + 's) option) \<Rightarrow>
     nat option \<Rightarrow> 's \<Rightarrow> ('r + 's) option" where
  "break_walk nxt lst body cur s =
     (case nxt (lst s) cur of
        None \<Rightarrow> None
      | Some None \<Rightarrow> Some (Inr s)
      | Some (Some i) \<Rightarrow>
          (case body i s of
             None \<Rightarrow> None
           | Some (Inl r) \<Rightarrow> Some (Inl r)
           | Some (Inr s') \<Rightarrow> break_walk nxt lst body (Some i) s'))"

end
