(* ===== verification/BreakpointInv.thy ===== *)
theory BreakpointInv
  imports Breakpoints
begin

text \<open>
  Lemmas of the break manager: the arithmetic of overlapping breakpoints, the invariant of the list
  (ids strictly increasing, the ten temporary entries in front, between 10 and 99 entries, no two agent
  breakpoints for one target in the way of each other), and that every operation keeps it.
\<close>

named_theorems brk_ops
  \<open>definitions of the operations of the break manager that change one entry or none\<close>

section \<open>Addresses\<close>

lemma uint_lt32: "uint (w::u32) < 4294967296"
  using uint_bounded[of w] by simp

lemma sint32: "sint (w::u32) = (if uint w < 2147483648 then uint w else uint w - 4294967296)"
proof -
  have "sint w = signed_take_bit 31 (uint w)"
    by (simp add: signed_take_bit_eq[symmetric] sint_uint)
  also have "\<dots> = (if uint w < 2147483648 then uint w else uint w - 4294967296)"
    using uint_lt32[of w] uint_ge_0[of w]
    by (simp add: signed_take_bit_eq_take_bit_shift take_bit_eq_mod)
      (smt (verit) mod_pos_pos_trivial mod_add_self2 minus_mod_self2)
  finally show ?thesis .
qed

lemma uint_plus_small:
  assumes "uint (w::u32) + int n < 4294967296"
  shows "uint (w + of_nat n) = uint w + int n"
proof -
  have "int n < 4294967296"
    using assms uint_ge_0[of w] by linarith
  then have "n < 2 ^ 32"
    by simp
  then have "uint (of_nat n :: u32) = int n"
    by (simp add: unsigned_of_nat take_bit_nat_eq_self)
  then show ?thesis
    using assms uint_ge_0[of w] by (simp add: uint_word_ariths)
qed

lemma and_mask_uint:
  assumes "n < 32"
  shows "and (w::u32) (mask n) = 0 \<longleftrightarrow> uint w mod 2 ^ n = 0"
proof -
  have "and w (mask n) = take_bit n w"
    by (simp add: take_bit_eq_mask)
  moreover have "uint (take_bit n w) = uint w mod 2 ^ n" if "n < 32"
    using that by (simp only: unsigned_take_bit_eq) (simp only: take_bit_eq_mod)
  ultimately show ?thesis
    by (metis assms uint_0_iff)
qed

text \<open>The bytes a breakpoint of an entry occupies.\<close>

definition brk_bytes :: "TBreakEntry \<Rightarrow> int set" where
  "brk_bytes e = {uint (iAddress e)..<uint (iAddress e) + int (BreakSize (iMode e))}"

lemma Aligned_mod:
  assumes "Aligned (iAddress e) (iMode e)"
  shows "uint (iAddress e) mod int (BreakSize (iMode e)) = 0" "BreakSize (iMode e) \<in> {2, 4}"
  using assms and_mask_uint[of 1 "iAddress e"] and_mask_uint[of 2 "iAddress e"]
  by (cases "iMode e"; simp add: mask_eq_exp_minus_1)+

text \<open>An aligned breakpoint neither wraps around the address space nor crosses its middle, so its end
  can be computed either signed or unsigned.\<close>

lemma aligned_end:
  assumes "Aligned (iAddress e) (iMode e)"
  defines "n \<equiv> BreakSize (iMode e)"
  shows "sint (iAddress e + of_nat n - 1) = sint (iAddress e) + int n - 1"
    and "uint (iAddress e) < 2147483648 \<longleftrightarrow> uint (iAddress e) + int n - 1 < 2147483648"
    and "uint (iAddress e) + int n - 1 < 4294967296"
proof -
  have m: "uint (iAddress e) mod int n = 0" "n = 2 \<or> n = 4"
    using Aligned_mod[OF assms(1)] by (auto simp: n_def)
  have bound: "uint (iAddress e) + int (n - 1) < 4294967296"
    using m uint_lt32[of "iAddress e"] by (elim disjE) (simp; presburger)+
  have eq: "iAddress e + of_nat n - 1 = iAddress e + of_nat (n - 1)"
    using m(2) by auto
  have u: "uint (iAddress e + of_nat n - 1) = uint (iAddress e) + int n - 1"
    unfolding eq using uint_plus_small[OF bound] m(2) by auto
  show half: "uint (iAddress e) < 2147483648 \<longleftrightarrow> uint (iAddress e) + int n - 1 < 2147483648"
    using m by (elim disjE) (simp; presburger)+
  show "uint (iAddress e) + int n - 1 < 4294967296"
    using bound m(2) by auto
  show "sint (iAddress e + of_nat n - 1) = sint (iAddress e) + int n - 1"
    unfolding sint32 u using half by auto
qed

lemma signed_interval:
  fixes A B N M :: int
  assumes "0 \<le> A" "0 \<le> B" "A < 4294967296" "B < 4294967296" "0 < N" "0 < M"
    and "A < 2147483648 \<longleftrightarrow> A + N - 1 < 2147483648" "B < 2147483648 \<longleftrightarrow> B + M - 1 < 2147483648"
    and "A + N - 1 < 4294967296" "B + M - 1 < 4294967296"
  defines "s \<equiv> \<lambda>x. if x < 2147483648 then x else x - 4294967296"
  shows "(s B \<le> s A + N - 1 \<and> s A \<le> s B + M - 1) \<longleftrightarrow> (B \<le> A + N - 1 \<and> A \<le> B + M - 1)"
  using assms by (smt (verit))

lemma overlap_aligned:
  assumes "Aligned (iAddress a) (iMode a)" "Aligned (iAddress b) (iMode b)"
  shows "BreakpointsOverlap a b \<longleftrightarrow> brk_bytes a \<inter> brk_bytes b \<noteq> {}"
proof -
  have pos: "BreakSize (iMode a) > 0" "BreakSize (iMode b) > 0"
    using Aligned_mod(2)[OF assms(1)] Aligned_mod(2)[OF assms(2)] by auto
  have "BreakpointsOverlap a b \<longleftrightarrow>
        sint (iAddress b) \<le> sint (iAddress a) + int (BreakSize (iMode a)) - 1 \<and>
        sint (iAddress a) \<le> sint (iAddress b) + int (BreakSize (iMode b)) - 1"
    using pos by (auto simp: BreakpointsOverlap_def Let_def word_sless_alt aligned_end(1) assms)
  also have "\<dots> \<longleftrightarrow> uint (iAddress b) \<le> uint (iAddress a) + int (BreakSize (iMode a)) - 1 \<and>
        uint (iAddress a) \<le> uint (iAddress b) + int (BreakSize (iMode b)) - 1"
    using aligned_end(2,3)[OF assms(1)] aligned_end(2,3)[OF assms(2)] pos uint_lt32
    unfolding sint32 by (intro signed_interval) auto
  also have "\<dots> \<longleftrightarrow> brk_bytes a \<inter> brk_bytes b \<noteq> {}"
    using pos by (auto simp: brk_bytes_def)
  finally show ?thesis .
qed

lemma overlap_sym: "BreakpointsOverlap a b = BreakpointsOverlap b a"
  by (auto simp: BreakpointsOverlap_def Let_def)

lemma overlap_cong:
  "iAddress a = iAddress a' \<Longrightarrow> iMode a = iMode a' \<Longrightarrow> BreakpointsOverlap a b = BreakpointsOverlap a' b"
  by (simp add: BreakpointsOverlap_def)

section \<open>Walking the list\<close>

text \<open>
  The interface that the loops over GetNextBreak rely on: in a well-formed list the first successor is
  entry 0, and entry i is followed by entry i + 1 up to the last.  Under it the pointer loop is the loop
  over all indices, so it ends and visits every entry once.
\<close>

locale ordered_walk =
  fixes nxt :: "'l \<Rightarrow> nat option \<Rightarrow> nat option option"
    and size_of :: "'l \<Rightarrow> nat"
    and ok :: "'l \<Rightarrow> bool"
  assumes nonempty: "ok l \<Longrightarrow> 0 < size_of l"
    and first: "ok l \<Longrightarrow> nxt l None = Some (Some 0)"
    and succ: "ok l \<Longrightarrow> i < size_of l \<Longrightarrow>
      nxt l (Some i) = Some (if Suc i < size_of l then Some (Suc i) else None)"
begin

lemma walk_from:
  assumes "\<And>i s s'. i < n \<Longrightarrow> ok (lst s) \<Longrightarrow> size_of (lst s) = n \<Longrightarrow> body i s = Some (Inr s') \<Longrightarrow>
      ok (lst s') \<and> size_of (lst s') = n"
    and "ok (lst s)" "size_of (lst s) = n" "i < n"
  shows "break_walk nxt lst body (Some i) s = ix_loop body [Suc i..<n] s"
  using assms(2-4)
proof (induction "n - i" arbitrary: i s)
  case (Suc d)
  show ?case
  proof (cases "Suc i < n")
    case True
    then have "[Suc i..<n] = Suc i # [Suc (Suc i)..<n]"
      by (simp add: upt_conv_Cons)
    moreover have "break_walk nxt lst body (Some (Suc i)) s' = ix_loop body [Suc (Suc i)..<n] s'"
      if "body (Suc i) s = Some (Inr s')" for s'
      using Suc True assms(1)[OF True _ _ that] by (intro Suc.hyps(1)) auto
    ultimately show ?thesis
      using succ[of "lst s" i] Suc.prems True
      by (subst break_walk.simps) (auto split: option.splits sum.splits)
  next
    case False
    then show ?thesis
      using succ[of "lst s" i] Suc.prems by (subst break_walk.simps) simp
  qed
qed simp

lemma walk_all:
  assumes "\<And>i s s'. i < n \<Longrightarrow> ok (lst s) \<Longrightarrow> size_of (lst s) = n \<Longrightarrow> body i s = Some (Inr s') \<Longrightarrow>
      ok (lst s') \<and> size_of (lst s') = n"
    and "ok (lst s)" "size_of (lst s) = n"
  shows "break_walk nxt lst body None s = ix_loop body [0..<n] s"
proof -
  have "0 < n"
    using nonempty[OF assms(2)] assms(3) by simp
  then have "[0..<n] = 0 # [Suc 0..<n]"
    by (simp add: upt_conv_Cons)
  moreover have "break_walk nxt lst body (Some 0) s' = ix_loop body [Suc 0..<n] s'"
    if "body 0 s = Some (Inr s')" for s'
    using assms(1)[OF \<open>0 < n\<close> assms(2,3) that] \<open>0 < n\<close>
    by (intro walk_from[OF assms(1)]) auto
  ultimately show ?thesis
    using first[OF assms(2)]
    by (subst break_walk.simps) (auto split: option.splits sum.splits)
qed

end

definition walkable :: "D_RMD_Breakpoints \<Rightarrow> bool" where
  "walkable m \<longleftrightarrow> iBreakPointList m \<noteq> [] \<and> distinct (map iBreakId (iBreakPointList m))"

lemma find_own_id:
  assumes "distinct (map iBreakId xs)" "i < length xs"
  shows "FindInSignedKeyOrder xs (iBreakId (xs ! i)) = Some i"
  unfolding FindInSignedKeyOrder_def
proof (rule find_index_eqI)
  show "\<not> iBreakId (xs ! j) = iBreakId (xs ! i)" if "j < i" for j
    using assms that by (auto simp: distinct_conv_nth)
qed (use assms in auto)

interpretation brk_walk: ordered_walk GetNextBreak Count walkable
  by unfold_locales (auto simp: walkable_def GetNextBreak_def BreakPointCount_def find_own_id)

section \<open>The invariant\<close>

text \<open>
  The ids: ten temporary entries numbered 0 to 9 in front, the whole list strictly increasing as signed
  numbers and below the next id to hand out, between 10 and 99 entries.
\<close>

definition ids_ok :: "u32 list \<Rightarrow> u32 \<Rightarrow> bool" where
  "ids_ok ids nid \<longleftrightarrow>
     NUMBER_OF_TEMP_BREAKPOINTS \<le> length ids \<and> length ids < NUMBER_OF_MAX_BREAKPOINTS \<and>
     take NUMBER_OF_TEMP_BREAKPOINTS ids = map of_nat [0..<NUMBER_OF_TEMP_BREAKPOINTS] \<and>
     sorted_wrt word_sless ids \<and> (\<forall>x\<in>set ids. word_sless x nid) \<and>
     word_sle (of_nat NUMBER_OF_TEMP_BREAKPOINTS) nid"

text \<open>Two agent breakpoints for one thread, or for one process, that are in each other's way; an entry
  at address 0 is one that was reset and does not count.\<close>

definition clash :: "TBreakEntry \<Rightarrow> TBreakEntry \<Rightarrow> bool" where
  "clash e f \<longleftrightarrow>
     iAddress e \<noteq> 0 \<and> iAddress f \<noteq> 0 \<and> iThreadSpecific e = iThreadSpecific f \<and> iId e = iId f \<and>
     BreakpointsOverlap e f"

definition apart :: "TBreakEntry list \<Rightarrow> bool" where
  "apart xs \<longleftrightarrow>
     (\<forall>i j. NUMBER_OF_TEMP_BREAKPOINTS \<le> i \<longrightarrow> NUMBER_OF_TEMP_BREAKPOINTS \<le> j \<longrightarrow>
        i < length xs \<longrightarrow> j < length xs \<longrightarrow> i \<noteq> j \<longrightarrow> \<not> clash (xs ! i) (xs ! j))"

definition brk_inv :: "D_RMD_Breakpoints \<Rightarrow> bool" where
  "brk_inv m \<longleftrightarrow>
     ids_ok (map iBreakId (iBreakPointList m)) (iNextBreakId m) \<and> apart (iBreakPointList m)"

lemma sless_trans: "word_sless (a::u32) b \<Longrightarrow> word_sless b c \<Longrightarrow> word_sless a c"
  by (simp add: word_sless_alt)

lemma sorted_sless_distinct: "sorted_wrt word_sless (xs :: u32 list) \<Longrightarrow> distinct xs"
  by (induction xs) (auto simp: word_sless_alt)

lemma ids_ok_walkable:
  "ids_ok (map iBreakId (iBreakPointList m)) n \<Longrightarrow> walkable m"
  by (auto simp: ids_ok_def walkable_def intro: sorted_sless_distinct)

lemma ids_ok_temp:
  assumes "ids_ok ids n" "i < length ids"
  shows "i < NUMBER_OF_TEMP_BREAKPOINTS \<longleftrightarrow> word_sless (ids ! i) (of_nat NUMBER_OF_TEMP_BREAKPOINTS)"
proof -
  have *: "ids ! j = of_nat j" if "j < NUMBER_OF_TEMP_BREAKPOINTS" for j
    using assms(1) that unfolding ids_ok_def
    by (metis nth_take nth_map length_upt minus_nat.diff_0 nth_upt add_0)
  show ?thesis
  proof (cases "i < NUMBER_OF_TEMP_BREAKPOINTS")
    case True
    then have "i \<in> set [0..<10]" by simp
    then have "word_sless (of_nat i :: u32) 10"
      by (simp add: upt_rec) (elim disjE; simp add: word_sless_alt)
    then show ?thesis using True * by simp
  next
    case False
    have "word_sless (ids ! 9) (ids ! i)"
      using assms False sorted_wrt_nth_less[of word_sless ids 9 i] by (auto simp: ids_ok_def)
    then have "\<not> word_sless (ids ! i) 10"
      using *[of 9] by (simp add: word_sless_alt)
    then show ?thesis using False by simp
  qed
qed

lemma ids_ok_remove:
  assumes "ids_ok ids n" "NUMBER_OF_TEMP_BREAKPOINTS \<le> i" "i < length ids"
  shows "ids_ok (remove_nth i ids) n"
  using assms sorted_wrt_remove_nth[of word_sless ids i] set_remove_nth_subset[of i ids]
  by (auto simp: ids_ok_def remove_nth_def min_def)

lemma ids_ok_append:
  assumes "ids_ok ids n" "length ids + 1 < NUMBER_OF_MAX_BREAKPOINTS" "n \<noteq> 0x7FFFFFFF"
  shows "ids_ok (ids @ [n]) (n + 1)"
proof -
  have ne: "uint n \<noteq> 2147483647"
    using assms(3) by (auto simp: word_uint_eq_iff)
  have "10 \<le> sint n"
    using assms(1) by (simp add: ids_ok_def word_sle_eq)
  then have "uint n < 2147483648"
    using uint_lt32[of n] unfolding sint32 by (auto split: if_splits)
  then have "sint n < sint (n + 1)"
    using ne uint_plus_small[of n 1] unfolding sint32 by simp
  then show ?thesis
    using assms(1,2) by (auto simp: ids_ok_def sorted_wrt_append word_sless_alt word_sle_eq)
qed

section \<open>Operations that keep the shape of the list\<close>

text \<open>What the invariant looks at in an entry of an agent.\<close>

definition key :: "TBreakEntry \<Rightarrow> u64 \<times> u32 \<times> TArchitectureMode \<times> bool" where
  "key e = (iId e, iAddress e, iMode e, iThreadSpecific e)"

definition tame :: "TBreakEntry list \<Rightarrow> TBreakEntry list \<Rightarrow> bool" where
  "tame xs ys \<longleftrightarrow>
     map iBreakId ys = map iBreakId xs \<and>
     (\<forall>i<length xs. NUMBER_OF_TEMP_BREAKPOINTS \<le> i \<longrightarrow> key (ys ! i) = key (xs ! i) \<or> iAddress (ys ! i) = 0)"

definition brk_tame :: "D_RMD_Breakpoints \<Rightarrow> D_RMD_Breakpoints \<Rightarrow> bool" where
  "brk_tame m m' \<longleftrightarrow>
     tame (iBreakPointList m) (iBreakPointList m') \<and> iNextBreakId m' = iNextBreakId m \<and>
     iInitialised m' = iInitialised m \<and> iLock m' = iLock m"

lemma clash_key: "key e = key e' \<Longrightarrow> key f = key f' \<Longrightarrow> clash e f = clash e' f'"
  by (simp add: key_def clash_def BreakpointsOverlap_def)

lemma tame_length: "tame xs ys \<Longrightarrow> length ys = length xs"
  by (metis tame_def length_map)

lemma tame_refl [simp, intro]: "tame xs xs"
  by (simp add: tame_def)

lemma key_addr: "key e = key f \<Longrightarrow> iAddress e = iAddress f"
  by (simp add: key_def)

lemma tame_trans [trans]: "tame xs ys \<Longrightarrow> tame ys zs \<Longrightarrow> tame xs zs"
  using tame_length[of xs ys] unfolding tame_def by (metis key_addr)

lemma brk_tame_refl [simp, intro]: "brk_tame m m"
  by (simp add: brk_tame_def)

lemma brk_tame_trans [trans]: "brk_tame m n \<Longrightarrow> brk_tame n p \<Longrightarrow> brk_tame m p"
  by (auto simp: brk_tame_def intro: tame_trans)

lemma tame_update:
  assumes "i < length xs" "iBreakId e = iBreakId (xs ! i)"
    and "NUMBER_OF_TEMP_BREAKPOINTS \<le> i \<Longrightarrow> key e = key (xs ! i) \<or> iAddress e = 0"
  shows "tame xs (xs[i := e])"
  using assms by (auto simp: tame_def nth_list_update map_update list_update_same_conv)

lemma apart_tame: "apart xs \<Longrightarrow> tame xs ys \<Longrightarrow> apart ys"
  using tame_length[of xs ys] clash_key unfolding apart_def tame_def
  by (smt (verit) clash_def)

lemma brk_inv_tame: "brk_inv m \<Longrightarrow> brk_tame m m' \<Longrightarrow> brk_inv m'"
  by (auto simp: brk_inv_def brk_tame_def tame_def[of "iBreakPointList m"] intro: apart_tame)

lemma enable_entry:
  "priv_DoEnableBreak K k m e b = (k', e', err) \<Longrightarrow> \<exists>ins. e' = e\<lparr>iInstruction := ins\<rparr>"
  by (cases e) (auto simp: priv_DoEnableBreak_def Let_def split: if_splits option.splits prod.splits)

lemma disable_body_tame:
  assumes "i < Count m"
  shows "\<exists>x. disable_body K a i (k, m) = Some x \<and>
     case_sum (\<lambda>r. brk_tame m (fst (snd r)) \<and> snd (snd r) \<noteq> KErrNone) (\<lambda>s'. brk_tame m (snd s')) x"
  using assms
  by (auto simp: disable_body_def Let_def brk_tame_def key_def intro!: tame_update split: option.splits prod.splits)

lemma enable_disabled_body_tame:
  assumes "i < Count m"
  shows "\<exists>x. enable_disabled_body K t p i (k, m) = Some x \<and>
     case_sum (\<lambda>r. brk_tame m (fst (snd r)) \<and> snd (snd r) \<noteq> KErrNone) (\<lambda>s'. brk_tame m (snd s')) x"
proof -
  obtain k' e' err where e: "priv_DoEnableBreak K k m (iBreakPointList m ! i) False = (k', e', err)"
    by (metis prod_cases3)
  then show ?thesis
    using assms enable_entry[OF e]
    by (auto simp: enable_disabled_body_def Let_def brk_tame_def key_def intro!: tame_update)
qed

lemma tame_loop:
  fixes k :: 'k
  assumes body: "\<And>i k m. i < Count m \<Longrightarrow> \<exists>x. f i (k, m) = Some x \<and>
     case_sum (\<lambda>r. brk_tame m (fst (snd r)) \<and> snd (snd r) \<noteq> KErrNone) (\<lambda>s'. brk_tame m (snd s')) x"
    and ne: "\<forall>i\<in>set is. i < Count m"
  shows "\<exists>x. ix_loop f is (k, m) = Some x \<and>
     case_sum (\<lambda>r. brk_tame m (fst (snd r)) \<and> snd (snd r) \<noteq> KErrNone) (\<lambda>s'. brk_tame m (snd s')) x"
proof (rule ix_loop_rule[where Q = "\<lambda>s'. brk_tame m (snd s')"])
  fix i and s :: "'k \<times> D_RMD_Breakpoints" assume i: "i \<in> set is" and s: "brk_tame m (snd s)"
  obtain k1 m1 where s1: "s = (k1, m1)" by (cases s)
  have "Count m1 = Count m"
    using s tame_length s1 by (auto simp: brk_tame_def)
  then obtain x where "f i s = Some x"
    "case_sum (\<lambda>r. brk_tame m1 (fst (snd r)) \<and> snd (snd r) \<noteq> KErrNone) (\<lambda>s'. brk_tame m1 (snd s')) x"
    using body[of i m1 k1] ne i s1 by auto
  then show "\<exists>x. f i s = Some x \<and>
     case_sum (\<lambda>r. brk_tame m (fst (snd r)) \<and> snd (snd r) \<noteq> KErrNone) (\<lambda>s'. brk_tame m (snd s')) x"
    using s s1 by (cases x) (auto intro: brk_tame_trans)
qed simp

lemma disable_ok:
  "\<exists>k' m' err. DisableBreakAtAddress K k m a = Some (k', m', err) \<and> brk_tame m m'"
proof -
  have "\<forall>i\<in>set [10..<Count m]. i < Count m" by simp
  from tame_loop[where f = "disable_body K a", OF disable_body_tame this, of k] obtain x where
    "ix_loop (disable_body K a) [10..<Count m] (k, m) = Some x"
    "case_sum (\<lambda>r. brk_tame m (fst (snd r)) \<and> snd (snd r) \<noteq> KErrNone) (\<lambda>s'. brk_tame m (snd s')) x"
    by blast
  then show ?thesis
    by (cases x) (auto simp: DisableBreakAtAddress_def priv_DisableBreakAtAddress_def)
qed

lemma enable_disabled_ok:
  "\<exists>k' m' err. DoEnableDisabledBreak K k m t = Some (k', m', err) \<and> brk_tame m m'"
proof (cases "OpenThreadHandle K k t")
  case (Some thread)
  let ?f = "enable_disabled_body K t (pId (iOwningProcess thread))"
  have "\<forall>i\<in>set [10..<Count m]. i < Count m" by simp
  from tame_loop[where f = ?f, OF enable_disabled_body_tame this, of k] obtain x where
    "ix_loop ?f [10..<Count m] (k, m) = Some x"
    "case_sum (\<lambda>r. brk_tame m (fst (snd r)) \<and> snd (snd r) \<noteq> KErrNone) (\<lambda>s'. brk_tame m (snd s')) x"
    by blast
  then show ?thesis
    using Some by (cases x) (auto simp: DoEnableDisabledBreak_def priv_DoEnableDisabledBreak_def)
qed (auto simp: DoEnableDisabledBreak_def priv_DoEnableDisabledBreak_def)

lemma invalidate_tame: "brk_tame m (InvalidateLibraryBreakPoints m a n)"
  by (auto simp: brk_tame_def tame_def InvalidateLibraryBreakPoints_def key_def)

section \<open>Clearing\<close>

lemma apart_remove:
  assumes "apart xs" "NUMBER_OF_TEMP_BREAKPOINTS \<le> i" "i < length xs"
  shows "apart (remove_nth i xs)"
  using assms unfolding apart_def by (auto simp: remove_nth_nth)

text \<open>The two ways in which a breakpoint is cleared, and the one in which it is not.\<close>

lemma clear_cases:
  assumes "priv_DoClearBreak K k m bid ign = (k', m', err)"
  obtains (missing) "FindInSignedKeyOrder (iBreakPointList m) bid = None" "k' = k" "m' = m" "err = KErrNotFound"
  | (kept) i where "FindInSignedKeyOrder (iBreakPointList m) bid = Some i" "m' = m"
      "err \<noteq> KErrNone" "clear_restore K k (iBreakPointList m) i = (k', err)"
  | (reset) i where "FindInSignedKeyOrder (iBreakPointList m) bid = Some i" "i < NUMBER_OF_TEMP_BREAKPOINTS"
      "m' = m\<lparr>iBreakPointList := (iBreakPointList m)[i := TBreakEntry_Reset (iBreakPointList m ! i)]\<rparr>"
      "err = KErrNone"
  | (removed) i where "FindInSignedKeyOrder (iBreakPointList m) bid = Some i" "NUMBER_OF_TEMP_BREAKPOINTS \<le> i"
      "m' = m\<lparr>iBreakPointList := remove_nth i (iBreakPointList m)\<rparr>" "err = KErrNone"
  using assms
  by (auto simp: priv_DoClearBreak_def Let_def split: option.splits prod.splits if_splits)

lemma find_in_range:
  "FindInSignedKeyOrder xs bid = Some i \<Longrightarrow> i < length xs \<and> iBreakId (xs ! i) = bid"
  by (auto simp: FindInSignedKeyOrder_def dest: find_index_SomeD)

lemma reset_tame:
  "i < Count m \<Longrightarrow>
   brk_tame m (m\<lparr>iBreakPointList := (iBreakPointList m)[i := TBreakEntry_Reset (iBreakPointList m ! i)]\<rparr>)"
  by (auto simp: brk_tame_def TBreakEntry_Reset_def intro!: tame_update)

lemma brk_inv_remove:
  "brk_inv m \<Longrightarrow> NUMBER_OF_TEMP_BREAKPOINTS \<le> i \<Longrightarrow> i < Count m \<Longrightarrow>
   brk_inv (m\<lparr>iBreakPointList := remove_nth i (iBreakPointList m)\<rparr>)"
  by (auto simp: brk_inv_def map_remove_nth intro: ids_ok_remove apart_remove)

lemma clear_inv:
  assumes "brk_inv m" "priv_DoClearBreak K k m bid ign = (k', m', err)"
  shows "brk_inv m' \<and> iNextBreakId m' = iNextBreakId m \<and> Count m \<le> Suc (Count m')"
  using assms(2)
proof (cases rule: clear_cases)
  case (reset i)
  then show ?thesis
    using assms(1) reset_tame[of i m] find_in_range brk_inv_tame by (auto simp: brk_tame_def)
next
  case (removed i)
  then show ?thesis
    using assms(1) find_in_range by (auto intro: brk_inv_remove)
qed (use assms(1) in auto)

end
