(* ===== verification/BreakpointSteps.thy ===== *)
theory BreakpointSteps
  imports BreakpointInv
begin

text \<open>
  The break manager as a transition system: its public operations and the direct writes of the channel
  and the stepper to entries are the steps, the kernel may move in between, and the invariant holds in
  every reachable state.
\<close>

section \<open>Removal loops\<close>

lemma remove_thread_body_inv:
  assumes "i < Count m" "brk_inv m"
  shows "\<exists>x. remove_thread_body K t i (k, m) = Some x \<and>
     case_sum (\<lambda>s. brk_inv (snd s) \<and> iNextBreakId (snd s) = iNextBreakId m)
       (\<lambda>s. (brk_inv (snd s) \<and> iNextBreakId (snd s) = iNextBreakId m) \<and> i \<le> Count (snd s)) x"
proof -
  obtain k' m' err where c:
    "priv_DoClearBreak K k m (iBreakId (iBreakPointList m ! i)) False = (k', m', err)"
    by (metis prod_cases3)
  show ?thesis
    using clear_inv[OF assms(2) c] assms c by (auto simp: remove_thread_body_def Let_def)
qed

lemma remove_thread_ok:
  assumes "brk_inv m"
  shows "\<exists>k' m'. DoRemoveThreadBreaks K k m t = Some (k', m') \<and> brk_inv m' \<and>
     iNextBreakId m' = iNextBreakId m"
proof -
  let ?Q = "\<lambda>s. brk_inv (snd s) \<and> iNextBreakId (snd s) = iNextBreakId m"
  have "\<exists>x. remove_thread_body K t i s = Some x \<and>
      case_sum ?Q (\<lambda>s. ?Q s \<and> i \<le> Count (snd s)) x" if "i < Count (snd s)" "?Q s" for i s
    using remove_thread_body_inv[of i "snd s" K t "fst s"] that(1)
    unfolding prod.collapse that(2)[THEN conjunct2] using that(2) by blast
  from ix_loop_down[where f = "remove_thread_body K t" and size_of = "\<lambda>s. Count (snd s)" and Q = ?Q, OF this, where n = "Count m" and s = "(k, m)"]
  obtain x where "ix_loop (remove_thread_body K t) (rev [0..<Count m]) (k, m) = Some x"
    "case_sum ?Q ?Q x"
    using assms by auto
  then show ?thesis
    using assms
    by (cases x) (auto simp: DoRemoveThreadBreaks_def priv_DoRemoveThreadBreaks_def)
qed

lemma DoClear_inv:
  assumes "brk_inv m" "DoClearBreak K k m bid ign = (k', m', err)"
  shows "brk_inv m' \<and> iNextBreakId m' = iNextBreakId m \<and> Count m \<le> Suc (Count m')"
proof (cases "not_ready m")
  case False
  then show ?thesis using assms(2) by (intro clear_inv[OF assms(1)]) (simp add: DoClearBreak_def)
qed (use assms in \<open>simp add: DoClearBreak_def\<close>)

lemma remove_process_body_inv:
  assumes "i < Count m" "brk_inv m"
  shows "\<exists>x. remove_process_body K p a n i (k, m) = Some x \<and>
     case_sum (\<lambda>s. True)
       (\<lambda>s. (brk_inv (snd s) \<and> iNextBreakId (snd s) = iNextBreakId m) \<and> i \<le> Count (snd s)) x"
proof -
  obtain k' m' err where c: "DoClearBreak K k m (iBreakId (iBreakPointList m ! i)) True = (k', m', err)"
    by (metis prod_cases3)
  have r: "brk_inv (m\<lparr>iBreakPointList := (iBreakPointList m)[i := TBreakEntry_Reset (iBreakPointList m ! i)]\<rparr>)"
    by (rule brk_inv_tame[OF assms(2) reset_tame[OF assms(1)]])
  show ?thesis
    using DoClear_inv[OF assms(2) c] r assms c
    by (auto simp: remove_process_body_def Let_def split: option.splits)
qed

lemma remove_process_ok:
  assumes "brk_inv m"
  shows "\<exists>k' m'. RemoveBreaksForProcess K k m p a n = Some (k', m') \<and> brk_inv m' \<and>
     iNextBreakId m' = iNextBreakId m"
proof -
  let ?Q = "\<lambda>s. brk_inv (snd s) \<and> iNextBreakId (snd s) = iNextBreakId m"
  have "\<exists>x. remove_process_body K p a n i s = Some x \<and>
      case_sum (\<lambda>_. True) (\<lambda>s. ?Q s \<and> i \<le> Count (snd s)) x" if "i < Count (snd s)" "?Q s" for i s
    using remove_process_body_inv[of i "snd s" K p a n "fst s"] that(1)
    unfolding prod.collapse that(2)[THEN conjunct2] using that(2) by blast
  from ix_loop_down[where f = "remove_process_body K p a n" and size_of = "\<lambda>s. Count (snd s)" and Q = ?Q, OF this, where n = "Count m" and s = "(k, m)"]
  obtain x where "ix_loop (remove_process_body K p a n) (rev [0..<Count m]) (k, m) = Some x"
    "case_sum (\<lambda>_. True) ?Q x"
    using assms by auto
  then show ?thesis
    using assms by (cases x) (auto simp: RemoveBreaksForProcess_def)
qed

section \<open>Modifying\<close>

lemma modify_check_ok:
  "modify_check u a md index xs is = KErrNone \<Longrightarrow> i \<in> set is \<Longrightarrow> i \<noteq> index \<Longrightarrow>
   iAddress e = a \<Longrightarrow> iMode e = md \<Longrightarrow> \<not> BreakpointsOverlap e (xs ! i)"
proof (induction "is")
  case (Cons j js)
  then show ?case
    by (auto simp: BreakpointsOverlap_def Let_def split: if_splits)
qed simp

lemma modify_write_entry:
  "modify_write K k t i e = (k', e', err) \<Longrightarrow>
   iBreakId e' = iBreakId e \<and> iAddress e' = iAddress e \<and> iMode e' = iMode e"
  by (auto simp: modify_write_def Let_def split: prod.splits if_splits)

lemma modify_install_entry:
  "modify_install K k ps info e = (k', e', err) \<Longrightarrow>
   iBreakId e' = iBreakId e \<and> iAddress e' = mAddress info \<and> iMode e' = mMode info"
  by (auto simp: modify_install_def Let_def split: prod.splits if_splits option.splits
      dest!: modify_write_entry)

lemma modify_process_install_entry:
  "modify_process_install K k info e = (k', e', err) \<Longrightarrow>
   iBreakId e' = iBreakId e \<and> iAddress e' = mAddress info \<and> iMode e' = mMode info"
  by (auto simp: modify_process_install_def Let_def split: prod.splits if_splits option.splits
      dest!: modify_write_entry)

lemma apart_update:
  assumes "apart xs" "\<And>j. NUMBER_OF_TEMP_BREAKPOINTS \<le> j \<Longrightarrow> j < length xs \<Longrightarrow> j \<noteq> i \<Longrightarrow>
      \<not> BreakpointsOverlap e (xs ! j)"
  shows "apart (xs[i := e])"
proof -
  have "\<not> clash e (xs ! j)" "\<not> clash (xs ! j) e"
    if "NUMBER_OF_TEMP_BREAKPOINTS \<le> j" "j < length xs" "j \<noteq> i" for j
    using assms(2)[OF that] by (auto simp: clash_def overlap_sym)
  note new = this
  show ?thesis
    unfolding apart_def
  proof (intro allI impI)
    fix a b assume "NUMBER_OF_TEMP_BREAKPOINTS \<le> a" "NUMBER_OF_TEMP_BREAKPOINTS \<le> b"
      "a < length (xs[i := e])" "b < length (xs[i := e])" "a \<noteq> b"
    then show "\<not> clash (xs[i := e] ! a) (xs[i := e] ! b)"
      using assms(1) new by (cases "a = i"; cases "b = i") (auto simp: apart_def)
  qed
qed

lemma modify_brk_inv:
  assumes "brk_inv m" "i < Count m" "iBreakId e = iBreakId (iBreakPointList m ! i)"
    and "modify_check u (iAddress e) (iMode e) i (iBreakPointList m)
           [NUMBER_OF_TEMP_BREAKPOINTS..<Count m] = KErrNone"
  shows "brk_inv (m\<lparr>iBreakPointList := (iBreakPointList m)[i := e]\<rparr>)"
proof -
  have "map iBreakId ((iBreakPointList m)[i := e]) = map iBreakId (iBreakPointList m)"
    using assms(2,3) by (simp add: map_update list_update_same_conv)
  moreover have "apart ((iBreakPointList m)[i := e])"
    using assms modify_check_ok[OF assms(4)] by (intro apart_update) (auto simp: brk_inv_def)
  ultimately show ?thesis
    using assms(1) by (simp add: brk_inv_def)
qed

lemma modify_inv:
  assumes "brk_inv m" "DoModifyBreak K k m ps arg = (k', m', err)"
  shows "brk_inv m' \<and> iNextBreakId m' = iNextBreakId m"
  using assms
  by (auto simp: DoModifyBreak_def priv_DoModifyBreak_def Let_def
      split: if_splits carg.splits option.splits prod.splits
      intro!: modify_brk_inv dest!: modify_install_entry find_in_range)

lemma modify_process_inv:
  assumes "brk_inv m" "DoModifyProcessBreak K k m arg = (k', m', err)"
  shows "brk_inv m' \<and> iNextBreakId m' = iNextBreakId m"
  using assms
  by (auto simp: DoModifyProcessBreak_def priv_DoModifyProcessBreak_def Let_def
      split: if_splits carg.splits option.splits prod.splits
      intro!: modify_brk_inv dest!: modify_process_install_entry find_in_range)

section \<open>Setting\<close>

lemma set_check_no_overlap:
  "set_break_check K k aId ts a md xs = Some KErrNone \<Longrightarrow> f \<in> set xs \<Longrightarrow>
   iAddress e = a \<Longrightarrow> iMode e = md \<Longrightarrow> iThreadSpecific f = ts \<Longrightarrow> iId f = aId \<Longrightarrow> \<not> BreakpointsOverlap e f"
proof (induction xs)
  case (Cons g gs)
  have "\<not> BreakpointsOverlap e g" if "iThreadSpecific g = ts" "iId g = aId"
    using Cons.prems that
    by (auto simp: BreakpointsOverlap_def Let_def split: if_splits option.splits)
  moreover have "set_break_check K k aId ts a md gs = Some KErrNone"
    using Cons.prems(1) by (auto simp: Let_def split: if_splits option.splits)
  ultimately show ?case
    using Cons by auto
qed simp

lemma set_check_ok:
  "set_break_check K k aId ts a md xs = Some KErrNone \<Longrightarrow> f \<in> set xs \<Longrightarrow>
   iAddress e = a \<Longrightarrow> iMode e = md \<Longrightarrow> iThreadSpecific e = ts \<Longrightarrow> iId e = aId \<Longrightarrow> \<not> clash e f"
proof
  assume *: "set_break_check K k aId ts a md xs = Some KErrNone" "f \<in> set xs"
    "iAddress e = a" "iMode e = md" "iThreadSpecific e = ts" "iId e = aId" and "clash e f"
  then have "iThreadSpecific f = ts" "iId f = aId" "BreakpointsOverlap e f"
    by (auto simp: clash_def)
  with set_check_no_overlap[OF *(1-4)] show False by blast
qed

lemma apart_append:
  assumes "apart xs" "\<And>f. f \<in> set (drop NUMBER_OF_TEMP_BREAKPOINTS xs) \<Longrightarrow> \<not> clash e f"
  shows "apart (xs @ [e])"
proof -
  have "\<not> clash e (xs ! i)" "\<not> clash (xs ! i) e"
    if "NUMBER_OF_TEMP_BREAKPOINTS \<le> i" "i < length xs" for i
  proof -
    have "xs ! i \<in> set (drop NUMBER_OF_TEMP_BREAKPOINTS xs)"
      using that by (auto simp: in_set_conv_nth intro: exI[of _ "i - 10"])
    then show "\<not> clash e (xs ! i)" by (rule assms(2))
    then show "\<not> clash (xs ! i) e" by (auto simp: clash_def overlap_sym)
  qed
  then show ?thesis
    using assms(1) by (auto simp: apart_def nth_append less_Suc_eq)
qed

lemma set_late:
  assumes "set_break_check K k aId ts a md (drop NUMBER_OF_TEMP_BREAKPOINTS (iBreakPointList m)) = Some KErrNone"
    and "\<not> not_ready m" "md \<noteq> EThumb2EEMode" "Aligned a md" "Count m + 1 < NUMBER_OF_MAX_BREAKPOINTS"
    and "priv_DoEnableBreak K k (m\<lparr>iNextBreakId := iNextBreakId m + 1\<rparr>)
      (mk_TBreakEntry (iNextBreakId m) aId ts a md) True = (k1, e1, err1)"
  shows "DoSetBreak K k m b0 aId ts a md =
    (let m1 = m\<lparr>iNextBreakId := iNextBreakId m + 1\<rparr> in
     if err1 \<noteq> KErrNone then Some (k1, m1, err1, iNextBreakId m)
     else Some (k1, if kAppend K k1 (Count m) = KErrNone
                    then m1\<lparr>iBreakPointList := iBreakPointList m @ [e1]\<rparr> else m1,
                kAppend K k1 (Count m), iNextBreakId m))"
  using assms by (simp add: DoSetBreak_def priv_DoSetBreak_def Let_def)

text \<open>What the successful and the failing calls of DoSetBreak do to the list.\<close>

lemma set_cases:
  assumes "DoSetBreak K k m b0 aId ts a md = Some (k', m', err, b)"
  obtains (refused) "m' = m" "err \<noteq> KErrNone" "b = b0" "k' = k"
  | (failed) "m' = m\<lparr>iNextBreakId := iNextBreakId m + 1\<rparr>" "err \<noteq> KErrNone" "b = iNextBreakId m"
      "Count m + 1 < NUMBER_OF_MAX_BREAKPOINTS"
  | (added) ins where "err = KErrNone" "b = iNextBreakId m" "Aligned a md" "md \<noteq> EThumb2EEMode"
      "m' = m\<lparr>iNextBreakId := iNextBreakId m + 1,
             iBreakPointList := iBreakPointList m @ [(mk_TBreakEntry b aId ts a md)\<lparr>iInstruction := ins\<rparr>]\<rparr>"
      "Count m + 1 < NUMBER_OF_MAX_BREAKPOINTS"
      "set_break_check K k aId ts a md (drop NUMBER_OF_TEMP_BREAKPOINTS (iBreakPointList m)) = Some KErrNone"
      "priv_DoEnableBreak K k (m\<lparr>iNextBreakId := iNextBreakId m + 1\<rparr>) (mk_TBreakEntry b aId ts a md) True =
         (k', (mk_TBreakEntry b aId ts a md)\<lparr>iInstruction := ins\<rparr>, KErrNone)"
proof -
  let ?chk = "set_break_check K k aId ts a md (drop NUMBER_OF_TEMP_BREAKPOINTS (iBreakPointList m))"
  let ?m = "m\<lparr>iNextBreakId := iNextBreakId m + 1\<rparr>"
  let ?e = "mk_TBreakEntry (iNextBreakId m) aId ts a md"
  consider (early) "m' = m" "err \<noteq> KErrNone" "b = b0" "k' = k"
    | (late) "?chk = Some KErrNone" "\<not> not_ready m" "md \<noteq> EThumb2EEMode" "Aligned a md"
        "Count m + 1 < NUMBER_OF_MAX_BREAKPOINTS"
    using assms by (auto simp: DoSetBreak_def priv_DoSetBreak_def Let_def bind_eq_Some_conv split: if_splits)
  then show thesis
  proof cases
    case late
    obtain k1 e1 err1 where e: "priv_DoEnableBreak K k ?m ?e True = (k1, e1, err1)"
      by (metis prod_cases3)
    obtain ins where ins: "e1 = ?e\<lparr>iInstruction := ins\<rparr>"
      using enable_entry[OF e] by auto
    have res: "Some (k', m', err, b) =
        (if err1 \<noteq> KErrNone then Some (k1, ?m, err1, iNextBreakId m)
         else Some (k1, if kAppend K k1 (Count m) = KErrNone
                        then ?m\<lparr>iBreakPointList := iBreakPointList m @ [e1]\<rparr> else ?m,
                    kAppend K k1 (Count m), iNextBreakId m))"
      using set_late[OF late e, of b0] unfolding assms Let_def .
    show thesis
    proof (cases "err1 = KErrNone \<and> kAppend K k1 (Count m) = KErrNone")
      case True
      then show thesis using res late ins e by (intro added[of ins]) simp_all
    next
      case False
      then show thesis using res late by (intro failed) (auto split: if_splits)
    qed
  qed (rule refused)
qed

lemma set_inv:
  assumes "brk_inv m" "DoSetBreak K k m b0 aId ts a md = Some (k', m', err, b)"
    and "iNextBreakId m \<noteq> 0x7FFFFFFF"
  shows "brk_inv m'" "iNextBreakId m' = iNextBreakId m \<or> iNextBreakId m' = iNextBreakId m + 1"
proof -
  let ?n = "iNextBreakId m"
  have inc: "ids_ok (map iBreakId (iBreakPointList m)) (?n + 1)" if "Count m + 1 < NUMBER_OF_MAX_BREAKPOINTS"
    using ids_ok_append[of "map iBreakId (iBreakPointList m)" ?n] that assms(1,3)
    by (auto simp: brk_inv_def ids_ok_def sorted_wrt_append)
  show "brk_inv m'"
    using assms(2)
  proof (cases rule: set_cases)
    case failed
    then show ?thesis using assms(1) inc by (auto simp: brk_inv_def)
  next
    case (added ins)
    have "apart (iBreakPointList m @ [(mk_TBreakEntry b aId ts a md)\<lparr>iInstruction := ins\<rparr>])"
      using assms(1) set_check_ok[OF added(7)]
      by (intro apart_append) (auto simp: brk_inv_def mk_TBreakEntry_def)
    then show ?thesis
      using added assms(1,3) ids_ok_append[of "map iBreakId (iBreakPointList m)" ?n]
      by (auto simp: brk_inv_def mk_TBreakEntry_def)
  qed (use assms(1) in simp)
  show "iNextBreakId m' = ?n \<or> iNextBreakId m' = ?n + 1"
    using assms(2) by (cases rule: set_cases) auto
qed

section \<open>The transition system\<close>

text \<open>
  One step of the break manager.  \<open>ps\<close> is the list of debugged processes, which the channel owns.  The
  step \<open>write_entry\<close> stands for the channel and the stepper writing to an entry they got from
  GetNextBreak: any field but the id of a temporary entry, and the saved instruction of the others.
\<close>

inductive brk_step ::
  "'k kern \<Rightarrow> 'k \<times> D_RMD_Breakpoints \<Rightarrow> 'k \<times> D_RMD_Breakpoints \<Rightarrow> bool" for K where
  kernel: "brk_step K (k, m) (k', m)"
| set_break: "DoSetBreak K k m b0 aId ts a md = Some (k', m', err, b) \<Longrightarrow> brk_step K (k, m) (k', m')"
| clear: "DoClearBreak K k m b ign = (k', m', err) \<Longrightarrow> brk_step K (k, m) (k', m')"
| modify: "DoModifyBreak K k m ps arg = (k', m', err) \<Longrightarrow> brk_step K (k, m) (k', m')"
| modify_process: "DoModifyProcessBreak K k m arg = (k', m', err) \<Longrightarrow> brk_step K (k, m) (k', m')"
| disable: "DisableBreakAtAddress K k m a = Some (k', m', err) \<Longrightarrow> brk_step K (k, m) (k', m')"
| enable_disabled: "DoEnableDisabledBreak K k m t = Some (k', m', err) \<Longrightarrow> brk_step K (k, m) (k', m')"
| enable: "i < Count m \<Longrightarrow> DoEnableBreak K k m (iBreakPointList m ! i) s = (k', e, err) \<Longrightarrow>
    brk_step K (k, m) (k', m\<lparr>iBreakPointList := (iBreakPointList m)[i := e]\<rparr>)"
| remove_thread: "DoRemoveThreadBreaks K k m t = Some (k', m') \<Longrightarrow> brk_step K (k, m) (k', m')"
| remove_process: "RemoveBreaksForProcess K k m p a n = Some (k', m') \<Longrightarrow> brk_step K (k, m) (k', m')"
| invalidate: "brk_step K (k, m) (k, InvalidateLibraryBreakPoints m a n)"
| write_entry: "i < Count m \<Longrightarrow> iBreakId e = iBreakId (iBreakPointList m ! i) \<Longrightarrow>
    (NUMBER_OF_TEMP_BREAKPOINTS \<le> i \<Longrightarrow> key e = key (iBreakPointList m ! i)) \<Longrightarrow>
    brk_step K (k, m) (k, m\<lparr>iBreakPointList := (iBreakPointList m)[i := e]\<rparr>)"

text \<open>\<open>brk_reach K n s\<close>: \<open>s\<close> is reached in \<open>n\<close> steps from a manager whose construction had the memory it
  asked for.\<close>

inductive brk_reach :: "'k kern \<Rightarrow> nat \<Rightarrow> 'k \<times> D_RMD_Breakpoints \<Rightarrow> bool" for K where
  start: "(\<And>j. kAppend K k0 j = KErrNone) \<Longrightarrow>
    brk_reach K 0 (k, fst (Init sem (new_D_RMD_Breakpoints K k0)))"
| step: "brk_reach K n s \<Longrightarrow> brk_step K s s' \<Longrightarrow> brk_reach K (Suc n) s'"

inductive_simps brk_reach_zero: "brk_reach K 0 s"

lemma new_list:
  "(\<And>j. app j = KErrNone) \<Longrightarrow>
   append_temps app u is xs = xs @ map (\<lambda>i. (default_TBreakEntry u)\<lparr>iBreakId := of_nat i\<rparr>) is"
  by (induction "is" arbitrary: xs) auto

lemma new_inv:
  assumes "\<And>j. kAppend K k j = KErrNone"
  shows "brk_inv (new_D_RMD_Breakpoints K k)"
proof -
  have "iBreakPointList (new_D_RMD_Breakpoints K k) =
      map (\<lambda>i. (default_TBreakEntry (kUninit K))\<lparr>iBreakId := of_nat i\<rparr>) [0..<10]"
    using assms by (simp add: new_D_RMD_Breakpoints_def new_list)
  moreover have "ids_ok (map of_nat [0..<10]) 10"
    by (simp add: ids_ok_def upt_rec word_sless_alt word_sle_eq)
  ultimately show ?thesis
    by (simp add: brk_inv_def apart_def o_def new_D_RMD_Breakpoints_def)
qed

lemma step_inv:
  assumes "brk_step K (k, m) (k', m')" "brk_inv m" "iNextBreakId m \<noteq> 0x7FFFFFFF"
  shows "brk_inv m' \<and> (iNextBreakId m' = iNextBreakId m \<or> iNextBreakId m' = iNextBreakId m + 1)"
  using assms(1)
proof cases
  case (set_break b0 aId ts a md err b)
  show ?thesis using set_inv[OF assms(2) set_break assms(3)] by blast
next
  case (clear b ign err)
  show ?thesis using DoClear_inv[OF assms(2) clear] by blast
next
  case (modify ps arg err)
  show ?thesis using modify_inv[OF assms(2) modify] by blast
next
  case (modify_process arg err)
  show ?thesis using modify_process_inv[OF assms(2) modify_process] by blast
next
  case (disable a err)
  then show ?thesis using disable_ok[of K k m a] brk_inv_tame[OF assms(2)] by (auto simp: brk_tame_def)
next
  case (enable_disabled t err)
  then show ?thesis using enable_disabled_ok[of K k m t] brk_inv_tame[OF assms(2)] by (auto simp: brk_tame_def)
next
  case (enable i s e err)
  obtain ins where "e = (iBreakPointList m ! i)\<lparr>iInstruction := ins\<rparr>"
    using enable(3) enable_entry[of K k m "iBreakPointList m ! i" s]
    by (auto simp: DoEnableBreak_def split: if_splits)
      (metis TBreakEntry.surjective TBreakEntry.update_convs(5))
  then have "brk_tame m m'"
    using enable by (auto simp: brk_tame_def key_def intro!: tame_update)
  then show ?thesis using brk_inv_tame[OF assms(2)] by (auto simp: brk_tame_def)
next
  case (remove_thread t)
  then show ?thesis using remove_thread_ok[OF assms(2), of K k t] by auto
next
  case (remove_process p a n)
  then show ?thesis using remove_process_ok[OF assms(2), of K k p a n] by auto
next
  case (invalidate a n)
  then show ?thesis
    using invalidate_tame[of m a n] brk_inv_tame[OF assms(2)] by (auto simp: brk_tame_def)
next
  case (write_entry i e)
  then have "brk_tame m m'"
    by (auto simp: brk_tame_def intro!: tame_update)
  then show ?thesis using brk_inv_tame[OF assms(2)] by (auto simp: brk_tame_def)
qed (use assms in simp)

lemma reach_inv:
  assumes "brk_reach K n s" "n < 2147483637"
  shows "brk_inv (snd s) \<and> uint (iNextBreakId (snd s)) \<le> 10 + int n"
  using assms
proof (induction rule: brk_reach.induct)
  case (start k0 k sem)
  have "brk_tame (new_D_RMD_Breakpoints K k0) (fst (Init sem (new_D_RMD_Breakpoints K k0)))
     \<or> fst (Init sem (new_D_RMD_Breakpoints K k0)) = (new_D_RMD_Breakpoints K k0)\<lparr>iInitialised := True, iLock := True\<rparr>"
    by (auto simp: Init_def)
  then show ?case
    using new_inv[OF start(1)]
    by (auto simp: brk_inv_def Init_def new_D_RMD_Breakpoints_def)
next
  case (step n s s')
  obtain k m k' m' where s: "s = (k, m)" "s' = (k', m')" by (metis surj_pair)
  have ih: "brk_inv m" "uint (iNextBreakId m) \<le> 10 + int n"
    using step s by auto
  have "iNextBreakId m \<noteq> 0x7FFFFFFF"
    using ih(2) step.prems by auto
  moreover have "uint (iNextBreakId m + 1) = uint (iNextBreakId m) + 1"
    using ih(2) step.prems uint_plus_small[of "iNextBreakId m" 1] by simp
  ultimately show ?case
    using step_inv[of K k m k' m'] step.hyps(2) ih s by auto
qed

end
