(* ===== verification/DemoKernel.thy ===== *)
theory DemoKernel
  imports RmdKernel
begin

text \<open>
  A small concrete kernel on which the theorems are applied: one process (id 4) with one thread (id 5),
  byte-addressed memory that is 0xEA everywhere until it is written, a code modifier that keeps the bytes
  it replaced, and a register array.  Nothing of it is a claim about Symbian OS; it shows that the
  hypotheses of the theorems can hold.
\<close>

record demo =
  dmem :: "(u32 \<times> u8) list"
  dpatch :: "(u32 \<times> u8 list) list"
  dregs :: "u32 list"

definition demo_byte :: "demo \<Rightarrow> u32 \<Rightarrow> u8" where
  "demo_byte k a = (case map_of (dmem k) a of None \<Rightarrow> 0xEA | Some b \<Rightarrow> b)"

definition demo_bytes :: "demo \<Rightarrow> u32 \<Rightarrow> nat \<Rightarrow> u8 list" where
  "demo_bytes k a n = map (\<lambda>i. demo_byte k (a + of_nat i)) [0..<n]"

definition demo_put :: "u32 \<Rightarrow> u8 list \<Rightarrow> demo \<Rightarrow> demo" where
  "demo_put a bs k =
     k\<lparr>dmem := map (\<lambda>i. (a + of_nat i, bs ! i)) [0..<length bs] @ dmem k\<rparr>"

definition demo_process :: DProcess where
  "demo_process = \<lparr>pId = 4\<rparr>"

definition demo_thread :: DThread where
  "demo_thread = \<lparr>tId = 5, iOwningProcess = demo_process, iCsCount = 0, iCsFunction = 0, iSuspendCount = 1\<rparr>"

definition demoK :: "demo kern" where
  "demoK =
     \<lparr>kThreadFromId = (\<lambda>k i. if i = 5 then Some demo_thread else None),
      kThreadOpen = (\<lambda>k t. KErrNone),
      kProcessFromId = (\<lambda>k i. if i = 4 then Some demo_process else None),
      kProcessOpen = (\<lambda>k p. KErrNone),
      kFirstThread = (\<lambda>k p. Some demo_thread),
      kRawRead = (\<lambda>k t a n. (Inr KErrNone, \<lambda>i. demo_byte k (a + of_nat i))),
      kRawWrite = (\<lambda>k t a bs. (demo_put a bs k, Inr KErrNone)),
      kClientWrite = (\<lambda>k a bs. (demo_put a bs k, KErrNone)),
      kModifyCode = (\<lambda>k t a n w.
         (demo_put a (take n (le32 w)) (k\<lparr>dpatch := (a, demo_bytes k a n) # dpatch k\<rparr>), Inr KErrNone)),
      kRestoreCode = (\<lambda>k t a.
         case map_of (dpatch k) a of
           None \<Rightarrow> (k, Inr KErrNotFound)
         | Some bs \<Rightarrow> (demo_put a bs (k\<lparr>dpatch := filter (\<lambda>p. fst p \<noteq> a) (dpatch k)\<rparr>), Inr KErrNone)),
      kUserContext = (\<lambda>k t. (\<lambda>i. if i < length (dregs k) then dregs k ! i else 0, 0x1FFFF)),
      kSetUserContext = (\<lambda>k t f. k\<lparr>dregs := map f [0..<length (dregs k)]\<rparr>),
      kAllocOk = (\<lambda>k n. True),
      kAppend = (\<lambda>k n. KErrNone),
      kEBreakpointGlobal = KErrNone,
      kEArmDacr = 32,
      kArmRegCount = 33,
      kEThumbMask = 0x20,
      kErrWord = (\<lambda>e. 0xFFFFFFFF),
      kUninit = 0,
      kCurrentThread = (\<lambda>k. demo_thread),
      kThreadSuspend = (\<lambda>k t. k),
      kThreadResume = (\<lambda>k t. k),
      kFSSignal = (\<lambda>k i. k),
      kFSWait = (\<lambda>k i. k),
      kCreateRequest = (\<lambda>k. KErrNone),
      kSemaphoreCreate = (\<lambda>k. KErrNone),
      kSetStatus = (\<lambda>k. KErrNone),
      kFold = (\<lambda>b. if 65 \<le> b \<and> b \<le> 90 then b + 32 else b),
      kMaxPath = 256,
      kEExitKill = 0,
      kEExitPanic = 2,
      kFlagProcessCritical = 1,
      kFlagSystemCritical = 4,
      kFlagProcessPermanent = 2,
      kFlagSystemPermanent = 8,
      kECausedException = 3,
      kKernExec = []\<rparr>"

definition demo0 :: demo where
  "demo0 = \<lparr>dmem = [], dpatch = [], dregs = replicate 33 0\<rparr>"

text \<open>A kernel whose state is a register file.\<close>

definition funK :: "(nat \<Rightarrow> u32) kern" where
  "funK =
     \<lparr>kThreadFromId = (\<lambda>k i. if i = 5 then Some demo_thread else None),
      kThreadOpen = (\<lambda>k t. KErrNone),
      kProcessFromId = (\<lambda>k i. if i = 4 then Some demo_process else None),
      kProcessOpen = (\<lambda>k p. KErrNone),
      kFirstThread = (\<lambda>k p. Some demo_thread),
      kRawRead = (\<lambda>k t a n. (Inr KErrNone, \<lambda>i. 0)),
      kRawWrite = (\<lambda>k t a bs. (k, Inr KErrNone)),
      kClientWrite = (\<lambda>k a bs. (k, KErrNone)),
      kModifyCode = (\<lambda>k t a n w. (k, Inr KErrNone)),
      kRestoreCode = (\<lambda>k t a. (k, Inr KErrNone)),
      kUserContext = (\<lambda>k t. (k, 0x1FFFF)),
      kSetUserContext = (\<lambda>k t f. f),
      kAllocOk = (\<lambda>k n. True),
      kAppend = (\<lambda>k n. KErrNone),
      kEBreakpointGlobal = KErrNone,
      kEArmDacr = 32,
      kArmRegCount = 33,
      kEThumbMask = 0x20,
      kErrWord = (\<lambda>e. 0xFFFFFFFF),
      kUninit = 0,
      kCurrentThread = (\<lambda>k. demo_thread),
      kThreadSuspend = (\<lambda>k t. k),
      kThreadResume = (\<lambda>k t. k),
      kFSSignal = (\<lambda>k i. k),
      kFSWait = (\<lambda>k i. k),
      kCreateRequest = (\<lambda>k. KErrNone),
      kSemaphoreCreate = (\<lambda>k. KErrNone),
      kSetStatus = (\<lambda>k. KErrNone),
      kFold = (\<lambda>b. if 65 \<le> b \<and> b \<le> 90 then b + 32 else b),
      kMaxPath = 256,
      kEExitKill = 0,
      kEExitPanic = 2,
      kFlagProcessCritical = 1,
      kFlagSystemCritical = 4,
      kFlagProcessPermanent = 2,
      kFlagSystemPermanent = 8,
      kECausedException = 3,
      kKernExec = []\<rparr>"

end
