(* ===== verification/BreakpointProps.thy ===== *)
theory BreakpointProps
  imports BreakpointSteps DemoKernel
begin

text \<open>
  The properties of the break manager: the invariant in every reachable state, overlap against byte
  ranges, what setting, clearing, disabling and modifying do, the walk over the list, and what goes wrong
  on the branches where the code and its intention part.
\<close>

definition demo_mgr :: D_RMD_Breakpoints where
  "demo_mgr = fst (Init KErrNone (new_D_RMD_Breakpoints demoK demo0))"

lemma demo_mgr_simps [simp]:
  "iBreakPointList demo_mgr = map (\<lambda>i. (default_TBreakEntry 0)\<lparr>iBreakId := of_nat i\<rparr>) [0..<10]"
  "iNextBreakId demo_mgr = 10" "iInitialised demo_mgr" "iLock demo_mgr" "\<not> not_ready demo_mgr"
  by (simp_all add: demo_mgr_def Init_def new_D_RMD_Breakpoints_def new_list demoK_def not_ready_def)

lemma demo_mgr_inv: "brk_inv demo_mgr"
  using new_inv[of demoK demo0]
  by (simp add: demo_mgr_def Init_def brk_inv_def new_D_RMD_Breakpoints_def demoK_def)

text \<open>C1: In every state the break manager reaches in fewer than 2^31 - 11 steps from its construction the
  list holds the ten temporary entries with ids 0 to 9 first and at most 89 agent breakpoints after them,
  the ids are pairwise different and increasing, all below the next id, and no two live agent breakpoints
  for the same thread or for the same process overlap.\<close>

theorem breakpoint_list_invariant:
  assumes "brk_reach K n (k, m)" "n < 2147483637"
  shows "10 \<le> Count m \<and> Count m \<le> 99 \<and>
     (\<forall>i<10. iBreakId (iBreakPointList m ! i) = of_nat i) \<and>
     sorted_wrt word_sless (map iBreakId (iBreakPointList m)) \<and>
     distinct (map iBreakId (iBreakPointList m)) \<and>
     (\<forall>e\<in>set (iBreakPointList m). word_sless (iBreakId e) (iNextBreakId m)) \<and>
     (\<forall>i j. 10 \<le> i \<longrightarrow> i < j \<longrightarrow> j < Count m \<longrightarrow> \<not> clash (iBreakPointList m ! i) (iBreakPointList m ! j))"
proof -
  have inv: "brk_inv m"
    using reach_inv[OF assms] by simp
  have "iBreakId (iBreakPointList m ! i) = of_nat i" if "i < 10" for i
  proof -
    have "take 10 (map iBreakId (iBreakPointList m)) ! i = map of_nat [0..<10] ! i"
      using inv by (simp add: brk_inv_def ids_ok_def)
    then show ?thesis
      using that inv by (simp add: brk_inv_def ids_ok_def)
  qed
  then show ?thesis
    using inv sorted_sless_distinct
    by (auto simp: brk_inv_def ids_ok_def apart_def)
qed

theorem breakpoint_list_invariant_witness:
  "10 \<le> Count (InvalidateLibraryBreakPoints demo_mgr 0x8000 16)"
proof -
  have "brk_reach demoK 0 (demo0, demo_mgr)"
    unfolding demo_mgr_def by (rule brk_reach.start) (simp add: demoK_def)
  then have "brk_reach demoK (Suc 0) (demo0, InvalidateLibraryBreakPoints demo_mgr 0x8000 16)"
    by (rule brk_reach.step) (rule brk_step.invalidate)
  from breakpoint_list_invariant[OF this] show ?thesis by simp
qed

text \<open>C37: For two breakpoints at aligned addresses the signed end-point comparison of BreakpointsOverlap is
  the question whether the byte ranges they occupy meet.\<close>

theorem overlap_is_byte_overlap:
  assumes "Aligned (iAddress a) (iMode a)" "Aligned (iAddress b) (iMode b)"
  shows "BreakpointsOverlap a b \<longleftrightarrow>
     {uint (iAddress a)..<uint (iAddress a) + int (BreakSize (iMode a))} \<inter>
     {uint (iAddress b)..<uint (iAddress b) + int (BreakSize (iMode b))} \<noteq> {}"
  using overlap_aligned[OF assms] by (simp add: brk_bytes_def)

theorem overlap_is_byte_overlap_witness:
  "BreakpointsOverlap (mk_TBreakEntry 10 5 True 0x8000 EArmMode) (mk_TBreakEntry 11 5 True 0x8002 EThumbMode)"
  using overlap_is_byte_overlap[of "mk_TBreakEntry 10 5 True 0x8000 EArmMode"
      "mk_TBreakEntry 11 5 True 0x8002 EThumbMode"]
  by (simp add: mk_TBreakEntry_def)

lemma take_overwrite: "length bs \<le> length buf \<Longrightarrow> take (length bs) (overwrite buf 0 bs) = bs"
  by (simp add: overwrite_def)

lemma enable_success:
  assumes "priv_DoEnableBreak K k m e True = (k', e', KErrNone)"
  obtains thread ins where
    "OpenThreadHandle K k (iId e + (if iThreadSpecific e then 0 else 1)) = Some thread"
    "xtrap (fst (kRawRead K k thread (iAddress e) (BreakSize (iMode e)))) KErrNone = (KErrNone, KErrNone)"
    "length (iInstruction e) = 4 \<longrightarrow> length ins = 4 \<and> take (BreakSize (iMode e)) ins =
       map (snd (kRawRead K k thread (iAddress e) (BreakSize (iMode e)))) [0..<BreakSize (iMode e)]"
    "e' = e\<lparr>iInstruction := ins\<rparr>"
    "k' = (if \<exists>f\<in>set (drop 10 (iBreakPointList m)). iAddress f = iAddress e \<and> \<not> iDisabledForStep f then k
           else fst (kModifyCode K k thread (iAddress e) (BreakSize (iMode e)) (BreakInst (iMode e))))"
proof -
  let ?n = "BreakSize (iMode e)"
  have n4: "?n \<le> 4" by (cases "iMode e") auto
  obtain thread where t: "OpenThreadHandle K k (iId e + (if iThreadSpecific e then 0 else 1)) = Some thread"
    using assms by (auto simp: priv_DoEnableBreak_def Let_def split: if_splits option.splits)
  obtain x f where r: "kRawRead K k thread (iAddress e) ?n = (x, f)" by fastforce
  let ?bs = "take ?n (overwrite (le32 (kUninit K)) 0 (map f [0..<?n]))"
  have bs: "?bs = map f [0..<?n]"
    using take_overwrite[of "map f [0..<?n]" "le32 (kUninit K)"] n4 by simp
  have "xtrap x KErrNone = (KErrNone, KErrNone)"
    using assms t r by (cases x)
      (auto simp: priv_DoEnableBreak_def Let_def TryToReadMemory_def split: if_splits)
  moreover from this have "e' = e\<lparr>iInstruction := overwrite (iInstruction e) 0 ?bs\<rparr> \<and>
    k' = (if \<exists>f\<in>set (drop 10 (iBreakPointList m)). iAddress f = iAddress e \<and> \<not> iDisabledForStep f then k
           else fst (kModifyCode K k thread (iAddress e) ?n (BreakInst (iMode e))))"
    using assms t r
    by (auto simp: priv_DoEnableBreak_def Let_def TryToReadMemory_def list_ex_iff split: if_splits prod.splits)
  ultimately show thesis
    using t r bs n4 take_overwrite[of "map f [0..<?n]" "iInstruction e"]
    by (intro that[of thread "overwrite (iInstruction e) 0 ?bs"]) auto
qed

text \<open>C22: A call of DoSetBreak that returns KErrNone appends exactly one entry, with the next id, the
  requested target, address and mode and the instruction bytes that were read from the target; it leaves
  the other entries alone, advances the next id by one, and writes the breakpoint instruction unless an
  enabled agent breakpoint is at that address already.\<close>

theorem set_break_success:
  assumes "DoSetBreak K k m b0 aId ts a md = Some (k', m', KErrNone, b)"
  shows "\<exists>thread ins.
     OpenThreadHandle K k (aId + (if ts then 0 else 1)) = Some thread \<and>
     xtrap (fst (kRawRead K k thread a (BreakSize md))) KErrNone = (KErrNone, KErrNone) \<and>
     take (BreakSize md) ins = map (snd (kRawRead K k thread a (BreakSize md))) [0..<BreakSize md] \<and>
     b = iNextBreakId m \<and> Aligned a md \<and> md \<noteq> EThumb2EEMode \<and>
     m' = m\<lparr>iNextBreakId := iNextBreakId m + 1,
            iBreakPointList := iBreakPointList m @ [(mk_TBreakEntry b aId ts a md)\<lparr>iInstruction := ins\<rparr>]\<rparr> \<and>
     k' = (if \<exists>f\<in>set (drop 10 (iBreakPointList m)). iAddress f = a \<and> \<not> iDisabledForStep f then k
           else fst (kModifyCode K k thread a (BreakSize md) (BreakInst md)))"
  using assms
proof (cases rule: set_cases)
  case (added ins)
  from added(8) show ?thesis
    using added by (cases rule: enable_success) (auto simp: mk_TBreakEntry_def)
qed auto

lemma demo_set: "\<exists>k' m'. DoSetBreak demoK demo0 demo_mgr 0 5 True 0x8000 EArmMode = Some (k', m', KErrNone, 10)"
proof -
  have "map_option (\<lambda>(k, m, r). r) (DoSetBreak demoK demo0 demo_mgr 0 5 True 0x8000 EArmMode)
      = Some (KErrNone, 10)"
    by code_simp
  then show ?thesis by auto
qed

theorem set_break_success_witness:
  "\<exists>k' m'. DoSetBreak demoK demo0 demo_mgr 0 5 True 0x8000 EArmMode = Some (k', m', KErrNone, 10) \<and>
     length (iBreakPointList m') = 11"
proof -
  obtain k' m' where s: "DoSetBreak demoK demo0 demo_mgr 0 5 True 0x8000 EArmMode = Some (k', m', KErrNone, 10)"
    using demo_set by blast
  from set_break_success[OF s] s show ?thesis by auto
qed

text \<open>C23: A call of DoSetBreak that returns an error leaves the list of breakpoints as it was, and either
  nothing at all has changed or just the next id has been used up.  A request that overlaps an agent
  breakpoint for the same thread (or the same process) is never granted, whatever the kernel does.\<close>

theorem set_break_refused:
  assumes "DoSetBreak K k m b0 aId ts a md = Some (k', m', err, b)"
    and "err \<noteq> KErrNone \<or>
         (\<exists>f\<in>set (drop 10 (iBreakPointList m)). iThreadSpecific f = ts \<and> iId f = aId \<and>
            BreakpointsOverlap (mk_TBreakEntry b aId ts a md) f)"
  shows "err \<noteq> KErrNone \<and> iBreakPointList m' = iBreakPointList m \<and>
     (m' = m \<and> k' = k \<and> b = b0 \<or> m' = m\<lparr>iNextBreakId := iNextBreakId m + 1\<rparr> \<and> b = iNextBreakId m)"
  using assms(1)
proof (cases rule: set_cases)
  case (added ins)
  have "\<not> BreakpointsOverlap (mk_TBreakEntry b aId ts a md) f"
    if "f \<in> set (drop 10 (iBreakPointList m))" "iThreadSpecific f = ts" "iId f = aId" for f
    using set_check_no_overlap[OF added(7) that(1), of "mk_TBreakEntry b aId ts a md"] that
    by (simp add: mk_TBreakEntry_def)
  then show ?thesis
    using assms(2) added(1) by auto
qed auto

theorem set_break_refused_witness:
  "\<exists>k' m' err b. DoSetBreak demoK demo0 demo_mgr 0 5 True 0x8001 EArmMode = Some (k', m', err, b) \<and>
     err = KErrArgument \<and> m' = demo_mgr"
proof -
  have s: "DoSetBreak demoK demo0 demo_mgr 0 5 True 0x8001 EArmMode = Some (demo0, demo_mgr, KErrArgument, 0)"
    by (simp add: DoSetBreak_def priv_DoSetBreak_def)
  from set_break_refused[OF s] s show ?thesis by auto
qed

text \<open>C26: Clearing the breakpoint that was just set: if DoClearBreak returns KErrNone the list is the one
  from before DoSetBreak, so the pair is a round trip on the list.\<close>

theorem set_then_clear:
  assumes "brk_inv m" "iNextBreakId m \<noteq> 0x7FFFFFFF"
    and "DoSetBreak K k m b0 aId ts a md = Some (k1, m1, KErrNone, b)"
    and "DoClearBreak K k2 m1 b ign = (k', m', KErrNone)"
  shows "iBreakPointList m' = iBreakPointList m"
  using assms(3)
proof (cases rule: set_cases)
  case (added ins)
  have "brk_inv m1" by (rule set_inv(1)[OF assms(1,3,2)])
  then have "distinct (map iBreakId (iBreakPointList m1))"
    using ids_ok_walkable by (auto simp: brk_inv_def walkable_def)
  then have "FindInSignedKeyOrder (iBreakPointList m1) b = Some (Count m)"
    using find_own_id[of "iBreakPointList m1" "Count m"] added(5) by (simp add: mk_TBreakEntry_def)
  moreover have "10 \<le> Count m"
    using assms(1) by (simp add: brk_inv_def ids_ok_def)
  moreover have "\<not> not_ready m1"
    using assms(4) by (auto simp: DoClearBreak_def)
  ultimately have "iBreakPointList m' = remove_nth (Count m) (iBreakPointList m1)"
    using assms(4) by (auto simp: DoClearBreak_def elim: clear_cases)
  then show ?thesis
    using added(5) by (simp add: remove_nth_def)
qed auto

theorem set_then_clear_witness:
  "\<exists>k1 m1 k2 m2. DoSetBreak demoK demo0 demo_mgr 0 5 True 0x8000 EArmMode = Some (k1, m1, KErrNone, 10) \<and>
     DoClearBreak demoK k1 m1 10 False = (k2, m2, KErrNone) \<and> iBreakPointList m2 = iBreakPointList demo_mgr"
proof -
  have "(case DoSetBreak demoK demo0 demo_mgr 0 5 True 0x8000 EArmMode of
      None \<Rightarrow> None
    | Some (k1, m1, e, b) \<Rightarrow> Some (e, b, snd (snd (DoClearBreak demoK k1 m1 10 False)))) = Some (KErrNone, 10, KErrNone)"
    by code_simp
  then obtain k1 m1 k2 m2 where
    s: "DoSetBreak demoK demo0 demo_mgr 0 5 True 0x8000 EArmMode = Some (k1, m1, KErrNone, 10)"
    and c: "DoClearBreak demoK k1 m1 10 False = (k2, m2, KErrNone)"
    by (auto split: option.splits prod.splits) (metis prod.collapse)
  from set_then_clear[OF demo_mgr_inv _ s c] s c show ?thesis by auto
qed

text \<open>Clearing an agent breakpoint that is in the list removes that entry and no other when it
  succeeds, and changes nothing when it fails; with aIgnoreTerminatedThreads a breakpoint whose thread is
  gone is removed all the same.\<close>

theorem clear_break_effect:
  assumes "brk_inv m" "\<not> not_ready m" "e \<in> set (iBreakPointList m)" "iBreakId e = b" "word_sle 10 b"
    and "DoClearBreak K k m b ign = (k', m', err)"
  shows "iBreakPointList m' =
      (if err = KErrNone then filter (\<lambda>f. iBreakId f \<noteq> b) (iBreakPointList m) else iBreakPointList m) \<and>
    (ign \<and> OpenThreadHandle K k (iId e + (if iThreadSpecific e then 0 else 1)) = None \<longrightarrow> err = KErrNone)"
proof -
  let ?xs = "iBreakPointList m"
  have d: "distinct (map iBreakId ?xs)"
    using assms(1) ids_ok_walkable by (auto simp: brk_inv_def walkable_def)
  obtain i where i: "i < length ?xs" "?xs ! i = e"
    using assms(3) by (auto simp: in_set_conv_nth)
  have f: "FindInSignedKeyOrder ?xs b = Some i"
    using find_own_id[OF d i(1)] i(2) assms(4) by simp
  have "10 \<le> i"
    using ids_ok_temp[of "map iBreakId ?xs" "iNextBreakId m" i] assms(1,4,5) i
    by (auto simp: brk_inv_def word_sless_alt word_sle_eq)
  have c: "priv_DoClearBreak K k m b ign = (k', m', err)"
    using assms(2,6) by (simp add: DoClearBreak_def)
  have "iBreakPointList m' = (if err = KErrNone then remove_nth i ?xs else ?xs)"
    using c f \<open>10 \<le> i\<close> by (cases rule: clear_cases) auto
  moreover have "remove_nth i ?xs = filter (\<lambda>f. iBreakId f \<noteq> b) ?xs"
    using remove_nth_filter[OF d i(1)] i(2) assms(4) by simp
  moreover have "err = KErrNone"
    if "ign" "OpenThreadHandle K k (iId e + (if iThreadSpecific e then 0 else 1)) = None"
    using c f i that by (auto simp: priv_DoClearBreak_def clear_restore_def Let_def split: if_splits)
  ultimately show ?thesis by auto
qed

definition demo_brk :: "u32 \<Rightarrow> u64 \<Rightarrow> bool \<Rightarrow> u32 \<Rightarrow> D_RMD_Breakpoints" where
  "demo_brk b i ts a =
     demo_mgr\<lparr>iNextBreakId := 20, iBreakPointList := iBreakPointList demo_mgr @ [mk_TBreakEntry b i ts a EArmMode]\<rparr>"

lemma demo_brk_inv: "brk_inv (demo_brk 12 i ts a)"
proof -
  have "map iBreakId (iBreakPointList (demo_brk 12 i ts a)) = [0, 1, 2, 3, 4, 5, 6, 7, 8, 9, 12]"
    by (simp add: demo_brk_def mk_TBreakEntry_def upt_rec)
  moreover have "apart (iBreakPointList (demo_brk 12 i ts a))"
    by (auto simp: apart_def demo_brk_def)
  ultimately show ?thesis
    by (simp add: brk_inv_def ids_ok_def demo_brk_def upt_rec word_sless_alt word_sle_eq)
qed

theorem clear_break_effect_witness:
  "\<exists>k' m' err. DoClearBreak demoK demo0 (demo_brk 12 77 True 0x8000) 12 True = (k', m', err) \<and> err = KErrNone"
proof -
  obtain k' m' err where c: "DoClearBreak demoK demo0 (demo_brk 12 77 True 0x8000) 12 True = (k', m', err)"
    by (metis prod_cases3)
  have "OpenThreadHandle demoK demo0 77 = None"
    by (simp add: OpenThreadHandle_def demoK_def)
  then show ?thesis
    using clear_break_effect[OF demo_brk_inv _ _ _ _ c, of "mk_TBreakEntry 12 77 True 0x8000 EArmMode"] c
    by (simp add: demo_brk_def mk_TBreakEntry_def not_ready_def word_sle_eq)
qed

text \<open>DoSetBreak returns a code whenever the request is for a process, or for a thread that can be
  opened; and the operations that scan the list return and keep the invariant in every state that has
  it.\<close>

theorem break_operations_return:
  assumes "brk_inv m" "ts \<longrightarrow> OpenThreadHandle K k aId \<noteq> None"
  shows "DoSetBreak K k m b0 aId ts a md \<noteq> None \<and>
    (\<exists>r. DisableBreakAtAddress K k m a = Some r \<and> brk_inv (fst (snd r))) \<and>
    (\<exists>r. DoEnableDisabledBreak K k m t = Some r \<and> brk_inv (fst (snd r))) \<and>
    (\<exists>r. DoRemoveThreadBreaks K k m t = Some r \<and> brk_inv (snd r)) \<and>
    (\<exists>r. RemoveBreaksForProcess K k m t a n = Some r \<and> brk_inv (snd r))"
proof -
  have "set_break_check K k aId ts a md xs \<noteq> None" for xs
    using assms(2) by (induction xs) (auto simp: Let_def split: option.splits)
  then obtain y where "set_break_check K k aId ts a md (drop 10 (iBreakPointList m)) = Some y"
    by blast
  then have "DoSetBreak K k m b0 aId ts a md \<noteq> None"
    by (auto simp: DoSetBreak_def priv_DoSetBreak_def Let_def split_beta)
  then show ?thesis
    using disable_ok[of K k m a] enable_disabled_ok[of K k m t] remove_thread_ok[OF assms(1), of K k t]
      remove_process_ok[OF assms(1), of K k t a n] brk_inv_tame[OF assms(1)] by fastforce
qed

theorem break_operations_return_witness:
  "DoSetBreak demoK demo0 demo_mgr 0 5 True 0x8000 EThumbMode \<noteq> None"
  using break_operations_return[OF demo_mgr_inv, of True demoK demo0 5]
  by (simp add: OpenThreadHandle_def demoK_def)

text \<open>A thread-specific request for a thread that does not exist, in the way of a process-wide
  breakpoint, makes DoSetBreak close a NULL handle: the error KErrNotFound it has just stored is never
  returned.\<close>

theorem set_break_closes_null:
  assumes "\<not> not_ready m" "Count m < 99" "md \<noteq> EThumb2EEMode" "Aligned a md"
    and "drop 10 (iBreakPointList m) = e # es" "\<not> iThreadSpecific e" "BreakSize (iMode e) \<noteq> 0"
    and "BreakpointsOverlap (mk_TBreakEntry b0 aId True a md) e" "OpenThreadHandle K k aId = None"
  shows "DoSetBreak K k m b0 aId True a md = None"
proof -
  have "BreakpointsOverlap ((default_TBreakEntry u)\<lparr>iAddress := a, iMode := md\<rparr>) e" for u
    using assms(8) by (subst overlap_cong[of _ "mk_TBreakEntry b0 aId True a md"])
      (simp_all add: mk_TBreakEntry_def)
  moreover have "BreakSize md \<noteq> 0"
    using assms(4) by (cases md) auto
  ultimately show ?thesis
    using assms by (simp add: DoSetBreak_def priv_DoSetBreak_def Let_def)
qed

theorem set_break_closes_null_witness:
  "DoSetBreak demoK demo0 (demo_brk 12 4 False 0x8000) 0 77 True 0x8000 EThumbMode = None"
  by (rule set_break_closes_null[of _ _ _ "mk_TBreakEntry 12 4 False 0x8000 EArmMode" "[]"])
    (simp_all add: demo_brk_def mk_TBreakEntry_def not_ready_def BreakpointsOverlap_def Let_def
      word_sless_alt OpenThreadHandle_def demoK_def)

text \<open>C38: In a list with distinct ids the pointer loop over GetNextBreak ends and is the loop over all
  entries in order, each visited once, as long as the body does not add, remove or renumber entries.\<close>

theorem get_next_break_walk:
  assumes "walkable (lst s)"
    and "\<And>i s s'. i < Count (lst s) \<Longrightarrow> walkable (lst s) \<Longrightarrow> body i s = Some (Inr s') \<Longrightarrow>
       map iBreakId (iBreakPointList (lst s')) = map iBreakId (iBreakPointList (lst s))"
  shows "break_walk GetNextBreak lst body None s = ix_loop body [0..<Count (lst s)] s"
proof (rule brk_walk.walk_all)
  fix i s1 s' assume *: "i < Count (lst s)" "walkable (lst s1)" "Count (lst s1) = Count (lst s)"
    "body i s1 = Some (Inr s')"
  then have "map iBreakId (iBreakPointList (lst s')) = map iBreakId (iBreakPointList (lst s1))"
    by (intro assms(2)) auto
  then show "walkable (lst s') \<and> Count (lst s') = Count (lst s)"
    using * by (metis walkable_def length_map list.map_disc_iff)
qed (use assms(1) in simp_all)

theorem get_next_break_walk_witness:
  "break_walk GetNextBreak fst (\<lambda>i (m, n). Some (Inr (m, n + i)) :: (unit + D_RMD_Breakpoints \<times> nat) option) None (demo_mgr, 0)
   = ix_loop (\<lambda>i (m, n). Some (Inr (m, n + i))) [0..<10] (demo_mgr, 0)"
proof -
  have "walkable (fst (demo_mgr, 0 :: nat))"
    using demo_mgr_inv ids_ok_walkable by (auto simp: brk_inv_def)
  from get_next_break_walk[where lst = fst, OF this, of "\<lambda>i (m, n). Some (Inr (m, n + i))"] show ?thesis
    by (auto split: prod.splits)
qed

text \<open>When DisableBreakAtAddress succeeds every agent breakpoint at the address is marked as disabled
  for stepping and no other entry, and no other field, has changed.\<close>

theorem disable_marks_address:
  assumes "DisableBreakAtAddress K k m a = Some (k', m', KErrNone)" "10 \<le> Count m"
  shows "iBreakPointList m' = take 10 (iBreakPointList m) @
     map (\<lambda>e. if iAddress e = a then e\<lparr>iDisabledForStep := True\<rparr> else e) (drop 10 (iBreakPointList m))"
proof -
  let ?xs = "iBreakPointList m"
  let ?u = "\<lambda>i j. if 10 \<le> j \<and> j < i \<and> iAddress (?xs ! j) = a
    then (?xs ! j)\<lparr>iDisabledForStep := True\<rparr> else ?xs ! j"
  let ?Q = "\<lambda>i (s :: 'a \<times> D_RMD_Breakpoints). Count (snd s) = Count m \<and>
    (\<forall>j<Count m. iBreakPointList (snd s) ! j = ?u i j)"
  have ready: "\<not> not_ready m"
    using assms(1) by (auto simp: DisableBreakAtAddress_def)
  obtain x where x: "ix_loop (disable_body K a) [10..<Count m] (k, m) = Some x"
      "(case x of Inl r \<Rightarrow> r | Inr (k, m) \<Rightarrow> (k, m, KErrNone)) = (k', m', KErrNone)"
    using assms(1) ready
    by (auto simp: DisableBreakAtAddress_def priv_DisableBreakAtAddress_def bind_eq_Some_conv)
  have "\<forall>i\<in>set [10..<Count m]. i < Count m" by simp
  from tame_loop[where f = "disable_body K a", OF disable_body_tame this, of k] x
  have loop: "ix_loop (disable_body K a) [10..<Count m] (k, m) = Some (Inr (k', m'))"
    by (cases x) auto
  have "?Q (Count m) (k', m')"
  proof (rule ix_loop_upt[OF loop assms(2), where Q = ?Q])
    fix i and t t' :: "'a \<times> D_RMD_Breakpoints"
    assume i: "10 \<le> i" "i < Count m" and Q: "?Q i t" and step: "disable_body K a i t = Some (Inr t')"
    obtain k1 m1 where t: "t = (k1, m1)" by (cases t)
    have "iBreakPointList (snd t') = (if iAddress (?xs ! i) = a
        then (iBreakPointList m1)[i := (?xs ! i)\<lparr>iDisabledForStep := True\<rparr>] else iBreakPointList m1)"
      using step Q i t
      by (auto simp: disable_body_def Let_def split: if_splits option.splits prod.splits)
    then show "?Q (Suc i) t'"
      using Q t i by (auto simp: nth_list_update less_Suc_eq)
  qed auto
  then show ?thesis
    using assms(2) by (intro nth_equalityI) (auto simp: nth_append)
qed


theorem disable_marks_address_witness:
  "\<exists>k' m'. DisableBreakAtAddress demoK demo0 (demo_brk 12 5 True 0x8000) 0x8004 = Some (k', m', KErrNone) \<and>
     iBreakPointList m' = iBreakPointList (demo_brk 12 5 True 0x8000)"
proof -
  let ?m = "demo_brk 12 5 True 0x8000"
  have d: "DisableBreakAtAddress demoK demo0 ?m 0x8004 = Some (demo0, ?m, KErrNone)"
    by code_simp
  from disable_marks_address[OF d] d show ?thesis
    by (simp add: demo_brk_def mk_TBreakEntry_def)
qed

text \<open>Re-enabling never clears the mark: when DoEnableDisabledBreak succeeds, every entry is still
  marked as disabled for stepping exactly as before the call (only its failure branch clears it).\<close>

theorem enable_disabled_keeps_marks:
  assumes "DoEnableDisabledBreak K k m t = Some (k', m', KErrNone)"
  shows "map iDisabledForStep (iBreakPointList m') = map iDisabledForStep (iBreakPointList m)"
proof (cases "not_ready m")
  case False
  then obtain thread where thread: "OpenThreadHandle K k t = Some thread"
    using assms by (auto simp: DoEnableDisabledBreak_def priv_DoEnableDisabledBreak_def split: option.splits)
  let ?f = "enable_disabled_body K t (pId (iOwningProcess thread))"
  let ?flags = "\<lambda>m. map iDisabledForStep (iBreakPointList m)"
  obtain x where x: "ix_loop ?f [10..<Count m] (k, m) = Some x"
      "(case x of Inl r \<Rightarrow> r | Inr (k, m) \<Rightarrow> (k, m, KErrNone)) = (k', m', KErrNone)"
    using assms False thread
    by (auto simp: DoEnableDisabledBreak_def priv_DoEnableDisabledBreak_def bind_eq_Some_conv)
  have "case_sum (\<lambda>r. snd (snd r) \<noteq> KErrNone) (\<lambda>s. ?flags (snd s) = ?flags m) x"
  proof (rule ix_loop_invariant[OF x(1), where Q = "\<lambda>s. ?flags (snd s) = ?flags m"])
    fix i and s :: "'a \<times> D_RMD_Breakpoints" and y
    assume i: "i \<in> set [10..<Count m]" and Q: "?flags (snd s) = ?flags m" and y: "?f i s = Some y"
    obtain k1 m1 where s: "s = (k1, m1)" by (cases s)
    obtain k2 e2 err where e: "priv_DoEnableBreak K k1 m1 (iBreakPointList m1 ! i) False = (k2, e2, err)"
      by (metis prod_cases3)
    have "i < Count m1"
      using i Q s by (auto dest: map_eq_imp_length_eq)
    moreover have "iDisabledForStep e2 = iDisabledForStep (iBreakPointList m1 ! i)"
      using enable_entry[OF e] by auto
    ultimately have "map iDisabledForStep ((iBreakPointList m1)[i := e2]) = ?flags m1"
      by (simp add: map_update list_update_same_conv)
    then show "case_sum (\<lambda>r. snd (snd r) \<noteq> KErrNone) (\<lambda>s. ?flags (snd s) = ?flags m) y"
      using y s e Q by (auto simp: enable_disabled_body_def Let_def split: if_splits simp del: map_update)
  qed simp
  then show ?thesis
    using x(2) by (cases x) auto
qed (use assms in \<open>simp add: DoEnableDisabledBreak_def\<close>)

theorem enable_disabled_keeps_marks_witness:
  "(case DisableBreakAtAddress demoK demo0 (demo_brk 12 5 True 0x8000) 0x8000 of
      None \<Rightarrow> False
    | Some (k1, m1, e1) \<Rightarrow>
       (case DoEnableDisabledBreak demoK k1 m1 5 of
          None \<Rightarrow> False
        | Some (k2, m2, e2) \<Rightarrow> e2 = KErrNone \<and> map iDisabledForStep (iBreakPointList m2) = replicate 10 False @ [True]))"
proof -
  have "map_option (\<lambda>(k1, m1, e1). (map iDisabledForStep (iBreakPointList m1),
          map_option (\<lambda>r. snd (snd r)) (DoEnableDisabledBreak demoK k1 m1 5)))
        (DisableBreakAtAddress demoK demo0 (demo_brk 12 5 True 0x8000) 0x8000)
      = Some (replicate 10 False @ [True], Some KErrNone)"
    by code_simp
  then show ?thesis
    using enable_disabled_keeps_marks[of demoK]
    by (auto split: option.splits)
qed

text \<open>DoModifyBreak with an instruction set it does not know, on the only agent breakpoint, returns
  KErrNotSupported but has already stored that mode in the entry; from then on every well-formed DoSetBreak
  is refused with KErrNotSupported.\<close>

theorem modify_bad_mode_blocks_list:
  assumes "brk_inv m" "\<not> not_ready m" "Count m = 11" "mMode info = EOtherMode w"
    and "iBreakId (iBreakPointList m ! 10) = mBreakId info"
    and "OpenThreadHandle K k (iId (iBreakPointList m ! 10)) \<noteq> None"
    and "md = EArmMode \<or> md = EThumbMode" "Aligned a md"
  shows "\<exists>k' m'. DoModifyBreak K k m ps (Arg info) = (k', m', KErrNotSupported) \<and>
     DoSetBreak K k2 m' b0 i ts a md = Some (k2, m', KErrNotSupported, b0)"
proof -
  let ?xs = "iBreakPointList m"
  have d: "distinct (map iBreakId ?xs)"
    using assms(1) ids_ok_walkable by (auto simp: brk_inv_def walkable_def)
  have f: "FindInSignedKeyOrder ?xs (mBreakId info) = Some 10"
    using find_own_id[OF d, of 10] assms(3,5) by simp
  have "\<exists>k1. modify_remove_old K k (?xs ! 10) = (k1, KErrNone)"
    using assms(6) by (auto simp: modify_remove_old_def)
  then obtain k1 where r: "modify_remove_old K k (?xs ! 10) = (k1, KErrNone)" ..
  let ?e = "(?xs ! 10)\<lparr>iId := mId info, iAddress := mAddress info, iMode := mMode info\<rparr>"
  let ?m' = "m\<lparr>iBreakPointList := ?xs[10 := ?e]\<rparr>"
  have "DoModifyBreak K k m ps (Arg info) = (k1, ?m', KErrNotSupported)"
    using assms(2,3,4) f r
    by (simp add: DoModifyBreak_def priv_DoModifyBreak_def modify_install_def Let_def upt_rec)
  moreover have "drop 10 (?xs[10 := ?e]) = [?e]"
    using assms(3) by (intro nth_equalityI) auto
  then have "DoSetBreak K k2 ?m' b0 i ts a md = Some (k2, ?m', KErrNotSupported, b0)"
    using assms(2,3,4,7,8) by (auto simp: DoSetBreak_def priv_DoSetBreak_def not_ready_def Let_def)
  ultimately show ?thesis by blast
qed

theorem modify_bad_mode_blocks_list_witness:
  "\<exists>k' m'. DoModifyBreak demoK demo0 (demo_brk 12 5 True 0x8000) []
        (Arg \<lparr>mBreakId = 12, mId = 5, mAddress = 0x9000, mMode = EOtherMode 7\<rparr>) = (k', m', KErrNotSupported) \<and>
     DoSetBreak demoK demo0 m' 0 5 True 0xA000 EThumbMode = Some (demo0, m', KErrNotSupported, 0)"
  by (rule modify_bad_mode_blocks_list[OF demo_brk_inv])
    (simp_all add: demo_brk_def mk_TBreakEntry_def not_ready_def OpenThreadHandle_def demoK_def nth_append)

text \<open>When EBreakpointGlobal is not zero, an error code that the code modifier returns is lost:
  priv_DoEnableBreak compares the trap reason instead of the code and reports KErrNone, and the entry is
  taken for an enabled breakpoint.\<close>

theorem modify_code_error_lost:
  assumes "kEBreakpointGlobal K \<noteq> KErrNone" "\<not> not_ready m"
    and "OpenThreadHandle K k (iId e + (if iThreadSpecific e then 0 else 1)) = Some thread"
    and "BreakSize (iMode e) \<noteq> 0"
    and "\<forall>f\<in>set (drop 10 (iBreakPointList m)). iAddress f \<noteq> iAddress e \<or> iDisabledForStep f"
    and "kModifyCode K k thread (iAddress e) (BreakSize (iMode e)) (BreakInst (iMode e)) = (k', Inr failure)"
  shows "DoEnableBreak K k m e False = (k', e, KErrNone)"
proof -
  have "BreakInst (iMode e) \<noteq> 0"
    using assms(4)
    by (cases "iMode e") (simp_all add: KArmBreakPoint_def KThumbBreakPoint_def KT2EEBreakPoint_def)
  then show ?thesis
    using assms by (auto simp: DoEnableBreak_def priv_DoEnableBreak_def Let_def list_ex_iff)
qed

theorem modify_code_error_lost_witness:
  "DoEnableBreak (demoK\<lparr>kEBreakpointGlobal := KErrSys 1, kModifyCode := \<lambda>k t a n w. (k, Inr KErrNoMemory)\<rparr>)
     demo0 demo_mgr (mk_TBreakEntry 12 5 True 0x8000 EArmMode) False
   = (demo0, mk_TBreakEntry 12 5 True 0x8000 EArmMode, KErrNone)"
  by (rule modify_code_error_lost[of _ _ _ _ demo_thread])
    (simp_all add: mk_TBreakEntry_def OpenThreadHandle_def demoK_def)

end
