(* ===== verification/Functionality.thy ===== *)
theory Functionality
  imports ThreadMemory
begin

text \<open>
  The register-id helpers (class Register of inc/rm_debug_kerneldriver.h) and the debug functionality block
  (src/d_debug_functionality.cpp): the tables of tags, the size computation, the assembly of the block and
  the look-up of a register's tag.  Reading a tag past the end of its table is a fault.
\<close>

unbundle bit_operations_syntax

section \<open>Register ids\<close>

definition IsCoreReg :: "u32 \<Rightarrow> bool" where
  "IsCoreReg aRegister \<longleftrightarrow> aRegister AND 0xff = 0x0"

definition IsCoproReg :: "u32 \<Rightarrow> bool" where
  "IsCoproReg aRegister \<longleftrightarrow> aRegister AND 0xff = 0x1"

definition GetCoreRegId :: "u32 \<Rightarrow> u32" where
  "GetCoreRegId aRegister = drop_bit 8 aRegister AND 0xff"

definition GetCRm :: "u32 \<Rightarrow> u32" where
  "GetCRm aRegister = drop_bit 16 aRegister AND 0xf"

definition GetCRn :: "u32 \<Rightarrow> u32" where
  "GetCRn aRegister = drop_bit 20 aRegister AND 0xf"

definition GetOpcode1 :: "u32 \<Rightarrow> u32" where
  "GetOpcode1 aRegister = drop_bit 24 aRegister AND 0x8"

definition GetOpcode2 :: "u32 \<Rightarrow> u32" where
  "GetOpcode2 aRegister = drop_bit 27 aRegister AND 0x8"

definition GetCoproNum :: "u32 \<Rightarrow> u32" where
  "GetCoproNum aRegister = drop_bit 8 aRegister AND 0xff"

section \<open>Tags\<close>

record TTag =
  iTagId :: u32
  iType :: u16
  iSize :: u16
  iValue :: u32

text \<open>A TSubBlock: the header (block id and number of tags) and the table it points to.\<close>

record TSubBlock =
  iTagHdrId :: u16
  iNumTags :: u16
  iTagArray :: "TTag list"

abbreviation sizeof_TTag :: nat where "sizeof_TTag \<equiv> 12"
abbreviation sizeof_TTagHeader :: nat where "sizeof_TTagHeader \<equiv> 4"

definition mk_tag :: "u16 \<Rightarrow> u16 \<Rightarrow> u32 \<times> u32 \<Rightarrow> TTag" where
  "mk_tag ty sz p = \<lparr>iTagId = fst p, iType = ty, iSize = sz, iValue = snd p\<rparr>"

fun access_word :: "TFunctionalityAccess \<Rightarrow> u32" where
  "access_word EAccessNone = 0"
| "access_word EAccessReadOnly = 1"
| "access_word EAccessWriteOnly = 2"
| "access_word EAccessReadWrite = 3"
| "access_word EAccessUnknown = 4"

text \<open>ETagTypeBoolean = 0, ETagTypeTUint32 = 1, ETagTypeEnum = 2, ETagTypeBitField = 3.\<close>

definition DebugFunctionalityCore :: TSubBlock where
  "DebugFunctionalityCore = \<lparr>iTagHdrId = 0, iNumTags = 14, iTagArray = map (mk_tag 0 0)
     [(0, 1), (1, 1), (2, 1), (3, 1), (4, 1), (5, 1), (6, 1), (7, 0), (8, 0), (9, 1), (10, 1), (11, 1)]\<rparr>"

definition DebugFunctionalityMemoryInfo :: "u32 \<Rightarrow> TTag list" where
  "DebugFunctionalityMemoryInfo kKilo = map (mk_tag 0 0)
     [(0, 1), (1, 1), (2, 0), (3, 1), (4, 0), (5, 0), (6, 0), (7, 0), (8, 1)] @ [mk_tag 1 0 (9, 16 * kKilo)]"

definition DebugFunctionalityMemory :: "u32 \<Rightarrow> TSubBlock" where
  "DebugFunctionalityMemory kKilo =
     \<lparr>iTagHdrId = 1, iNumTags = 10, iTagArray = DebugFunctionalityMemoryInfo kKilo\<rparr>"

definition DebugFunctionalityKillObjects :: TSubBlock where
  "DebugFunctionalityKillObjects =
     \<lparr>iTagHdrId = 10, iNumTags = 2, iTagArray = map (mk_tag 0 0) [(0, 0), (1, 1)]\<rparr>"

text \<open>ERegisterR0 = 0, ERegisterR1 = 0x100, ..., ERegisterSpsrFiq = 0x2400; the user mode registers and the
  CPSR can be read and written, the banked ones not accessed.\<close>

definition DebugFunctionalityRegistersCoreInfo :: "TTag list" where
  "DebugFunctionalityRegistersCoreInfo = map (\<lambda>i. mk_tag 2 4
     (push_bit 8 (of_nat i), access_word (if i < 17 then EAccessReadWrite else EAccessNone))) [0..<37]"

definition DebugFunctionalityRegistersCore :: TSubBlock where
  "DebugFunctionalityRegistersCore =
     \<lparr>iTagHdrId = 2, iNumTags = 37, iTagArray = DebugFunctionalityRegistersCoreInfo\<rparr>"

definition DebugFunctionalityRegistersCoProInfo :: "TTag list" where
  "DebugFunctionalityRegistersCoProInfo = [mk_tag 1 4 (0x00300f01, access_word EAccessReadWrite)]"

definition DebugFunctionalityRegistersCoPro :: TSubBlock where
  "DebugFunctionalityRegistersCoPro =
     \<lparr>iTagHdrId = 3, iNumTags = 1, iTagArray = DebugFunctionalityRegistersCoProInfo\<rparr>"

definition DebugFunctionalityBreakpoints :: TSubBlock where
  "DebugFunctionalityBreakpoints = \<lparr>iTagHdrId = 4, iNumTags = 12, iTagArray = map (mk_tag 0 0)
     [(0, 1), (1, 1), (2, 0), (3, 1), (4, 1), (5, 1), (6, 0), (7, 0), (8, 1), (9, 0), (10, 0), (11, 1)]\<rparr>"

definition DebugFunctionalityStepping :: TSubBlock where
  "DebugFunctionalityStepping = \<lparr>iTagHdrId = 5, iNumTags = 1, iTagArray = [mk_tag 0 0 (0, 1)]\<rparr>"

definition DebugFunctionalityExecution :: TSubBlock where
  "DebugFunctionalityExecution =
     \<lparr>iTagHdrId = 6, iNumTags = 3, iTagArray = map (mk_tag 0 0) [(0, 1), (1, 0), (2, 0)]\<rparr>"

text \<open>EActionContinue = 1, EActionSuspend = 2.\<close>

definition DebugFunctionalityEvents :: TSubBlock where
  "DebugFunctionalityEvents = \<lparr>iTagHdrId = 7, iNumTags = 14, iTagArray = map (mk_tag 2 0)
     [(0, 2), (9, 2), (1, 2), (2, 2), (3, 1), (4, 2), (5, 2), (8, 2), (10, 2), (6, 1), (7, 1), (11, 1),
      (12, 1), (13, 1)]\<rparr>"

text \<open>\<open>evSize\<close> is sizeof(TEventInfo).\<close>

definition DebugFunctionalityApiConstants :: "u32 \<Rightarrow> TSubBlock" where
  "DebugFunctionalityApiConstants evSize =
     \<lparr>iTagHdrId = 8, iNumTags = 1, iTagArray = [mk_tag 1 0 (0, evSize)]\<rparr>"

text \<open>The list ids run to EStaticInfo = 15, so EListLast is 16.\<close>

definition DebugFunctionalityList :: TSubBlock where
  "DebugFunctionalityList = \<lparr>iTagHdrId = 9, iNumTags = 16, iTagArray = map (mk_tag 3 0)
     [(0, 1), (1, 7), (2, 7), (3, 1), (4, 1), (5, 0), (6, 0), (7, 0), (8, 0), (9, 0), (10, 0), (11, 0),
      (12, 0), (13, 0), (14, 0)]\<rparr>"

definition DebugFunctionalitySecurity :: TSubBlock where
  "DebugFunctionalitySecurity = \<lparr>iTagHdrId = 11, iNumTags = 1, iTagArray = [mk_tag 0 0 (0, 1)]\<rparr>"

section \<open>The block\<close>

definition df_blocks :: "u32 \<Rightarrow> u32 \<Rightarrow> TSubBlock list" where
  "df_blocks kKilo evSize =
     [DebugFunctionalityCore, DebugFunctionalityMemory kKilo, DebugFunctionalityRegistersCore,
      DebugFunctionalityRegistersCoPro, DebugFunctionalityBreakpoints, DebugFunctionalityStepping,
      DebugFunctionalityExecution, DebugFunctionalityEvents, DebugFunctionalityApiConstants evSize,
      DebugFunctionalityList, DebugFunctionalityKillObjects, DebugFunctionalitySecurity]"

definition ComputeBlockSize :: "TSubBlock \<Rightarrow> u32" where
  "ComputeBlockSize b = of_nat sizeof_TTagHeader + ucast (iNumTags b) * of_nat sizeof_TTag"

definition GetDebugFunctionalityBufSize :: "u32 \<Rightarrow> u32 \<Rightarrow> u32" where
  "GetDebugFunctionalityBufSize kKilo evSize = sum_list (map ComputeBlockSize (df_blocks kKilo evSize))"

definition tag_bytes :: "TTag \<Rightarrow> u8 list" where
  "tag_bytes t = le32 (iTagId t) @ le16 (iType t) @ le16 (iSize t) @ le32 (iValue t)"

fun append_tags :: "TTag list \<Rightarrow> nat list \<Rightarrow> TDes8 \<Rightarrow> TDes8 option" where
  "append_tags tags [] d = Some d"
| "append_tags tags (i # is) d =
     (if i < length tags then do { d \<leftarrow> des_append d (tag_bytes (tags ! i)); append_tags tags is d }
      else None)"

definition AppendBlock :: "TSubBlock \<Rightarrow> TDes8 \<Rightarrow> TDes8 option" where
  "AppendBlock b d = do {
     d \<leftarrow> des_append d (le16 (iTagHdrId b) @ le16 (iNumTags b));
     append_tags (iTagArray b) [0..<unat (iNumTags b)] d
   }"

fun append_blocks :: "TSubBlock list \<Rightarrow> TDes8 \<Rightarrow> TDes8 option" where
  "append_blocks [] d = Some d"
| "append_blocks (b # bs) d = do { d \<leftarrow> AppendBlock b d; append_blocks bs d }"

definition GetDebugFunctionality :: "u32 \<Rightarrow> u32 \<Rightarrow> TDes8 \<Rightarrow> (bool \<times> TDes8) option" where
  "GetDebugFunctionality kKilo evSize d =
     (if length (dbuf d) < unat (GetDebugFunctionalityBufSize kKilo evSize) then Some (False, d)
      else do { d \<leftarrow> append_blocks (df_blocks kKilo evSize) d; Some (True, d) })"

definition GetMemoryOperationMaxBlockSize :: "u32 \<Rightarrow> u32" where
  "GetMemoryOperationMaxBlockSize kKilo = iValue (DebugFunctionalityMemoryInfo kKilo ! 9)"

section \<open>The tag of a register\<close>

definition unknown_tag :: "u32 \<Rightarrow> TTag \<Rightarrow> TTag" where
  "unknown_tag aRegisterInfo aTag =
     aTag\<lparr>iTagId := aRegisterInfo, iSize := 0, iValue := access_word EAccessUnknown\<rparr>"

definition GetRegister :: "u32 \<Rightarrow> TTag \<Rightarrow> TErr \<times> TTag" where
  "GetRegister aRegisterInfo aTag =
     (let unsupported = (KErrNotSupported, unknown_tag aRegisterInfo aTag) in
      if IsCoreReg aRegisterInfo then
        (case find (\<lambda>t. GetCoreRegId (iTagId t) = GetCoreRegId aRegisterInfo) DebugFunctionalityRegistersCoreInfo of
           Some t \<Rightarrow> (KErrNone, t) | None \<Rightarrow> unsupported)
      else if IsCoproReg aRegisterInfo then
        (case find (\<lambda>t. GetCRm (iTagId t) = 3 \<and> GetCoproNum (iTagId t) = 15 \<and>
                        GetCRm aRegisterInfo = 3 \<and> GetCoproNum aRegisterInfo = 15)
               DebugFunctionalityRegistersCoProInfo of
           Some t \<Rightarrow> (KErrNone, t) | None \<Rightarrow> unsupported)
      else unsupported)"

section \<open>Lemmas\<close>

lemma length_tag_bytes [simp]: "length (tag_bytes t) = sizeof_TTag"
  by (simp add: tag_bytes_def le32_def le16_def)

lemma des_append_Some:
  "des_append d bs = Some e \<Longrightarrow> dlen e = dlen d + length bs \<and> length (dbuf e) = length (dbuf d)"
  by (auto simp: des_append_def overwrite_def split: if_splits)

lemma append_tags_length:
  "append_tags tags is d = Some e \<Longrightarrow>
   dlen e = dlen d + sizeof_TTag * length is \<and> length (dbuf e) = length (dbuf d)"
  by (induction "is" arbitrary: d)
    (auto simp: bind_eq_Some_conv split: if_splits dest: des_append_Some)

lemma append_tags_in_range: "append_tags tags is d = Some e \<Longrightarrow> \<forall>i\<in>set is. i < length tags"
  by (induction "is" arbitrary: d) (auto simp: bind_eq_Some_conv split: if_splits)

lemma append_tags_fits:
  "append_tags tags is d = Some e \<Longrightarrow> dlen d \<le> length (dbuf d) \<Longrightarrow> dlen e \<le> length (dbuf e)"
proof (induction "is" arbitrary: d)
  case (Cons i "is")
  then obtain d1 where d1: "des_append d (tag_bytes (tags ! i)) = Some d1" "append_tags tags is d1 = Some e"
    by (auto simp: bind_eq_Some_conv split: if_splits)
  have "dlen d1 \<le> length (dbuf d1)"
    using d1(1) by (auto simp: des_append_def overwrite_def split: if_splits)
  then show ?case using Cons.IH d1(2) by blast
qed simp

lemma append_tags_Some:
  "\<forall>i\<in>set is. i < length tags \<Longrightarrow> dlen d + sizeof_TTag * length is \<le> length (dbuf d) \<Longrightarrow>
   append_tags tags is d \<noteq> None"
proof (induction "is" arbitrary: d)
  case (Cons i "is")
  then obtain e where e: "des_append d (tag_bytes (tags ! i)) = Some e"
    by (auto simp: des_append_def)
  with Cons.prems Cons.IH[of e] des_append_Some[OF e] show ?case by simp
qed simp

lemma core_id: "i < 37 \<Longrightarrow> GetCoreRegId (push_bit 8 (of_nat i)) = of_nat i"
proof -
  assume "i < 37"
  then have "i \<in> set [0..<37]" by simp
  moreover have "\<forall>i\<in>set [0..<37]. GetCoreRegId (push_bit 8 (of_nat i)) = of_nat i"
    by code_simp
  ultimately show ?thesis by blast
qed

lemma core_reg_tag:
  assumes "rn < 37"
  shows "GetRegister (push_bit 8 (of_nat rn)) t =
    (KErrNone, mk_tag 2 4 (push_bit 8 (of_nat rn), access_word (if rn < 17 then EAccessReadWrite else EAccessNone)))"
proof -
  have "rn \<in> set [0..<37]" using assms by simp
  moreover have "\<forall>rn\<in>set [0..<37]. IsCoreReg (push_bit 8 (of_nat rn)) \<and>
     find (\<lambda>t. GetCoreRegId (iTagId t) = GetCoreRegId (push_bit 8 (of_nat rn))) DebugFunctionalityRegistersCoreInfo
     = Some (mk_tag 2 4 (push_bit 8 (of_nat rn), access_word (if rn < 17 then EAccessReadWrite else EAccessNone)))"
    by code_simp
  ultimately show ?thesis
    by (simp add: GetRegister_def)
qed

end
