(* ===== verification/Registers.thy ===== *)
theory Registers
  imports Functionality
begin

text \<open>
  Access to a thread's registers (src/rm_debug_kerneldriver.cpp): the translation between debug register
  ids and the indices of the kernel's register set, DoReadRegisters and DoWriteRegisters in both their
  forms, and the functions that read one register.  A thread pointer is an option, NULL being None.
\<close>

section \<open>Register identifiers\<close>

text \<open>Extracting the \<open>aIndex\<close>-th id of a descriptor; the check is in 32-bit arithmetic and a wrapped index
  that passes it reads outside the descriptor, which is a fault.\<close>

definition GetTRegisterInfo :: "u8 list \<Rightarrow> u32 \<Rightarrow> u32 \<Rightarrow> (TErr \<times> u32) option" where
  "GetTRegisterInfo aRegisterIds aIndex aValue =
     (if of_nat (length aRegisterIds) < (aIndex + 1) * 4 then Some (KErrArgument, aValue)
      else
        let off = unat (aIndex * 4) in
        if off + 4 \<le> length aRegisterIds then Some (KErrNone, of_le (take 4 (drop off aRegisterIds))) else None)"

definition GetKernelRegisterId :: "'k kern \<Rightarrow> u32 \<Rightarrow> u32 \<Rightarrow> TErr \<times> u32" where
  "GetKernelRegisterId K aDebugRegister aKernelRegister =
     (if IsCoreReg aDebugRegister then
        let rid = GetCoreRegId aDebugRegister in
        if rid < 17 then (KErrNone, rid) else (KErrNotSupported, aKernelRegister)
      else if IsCoproReg aDebugRegister then
        if GetCoproNum aDebugRegister = 15 \<and> GetCRm aDebugRegister = 3 then (KErrNone, kEArmDacr K)
        else (KErrNotSupported, aKernelRegister)
      else (KErrNotSupported, aKernelRegister))"

definition GetDebugRegisterId :: "'k kern \<Rightarrow> u32 \<Rightarrow> u32 \<Rightarrow> TErr \<times> u32" where
  "GetDebugRegisterId K aKernelRegister aDebugRegister =
     (if aKernelRegister < 17 then (KErrNone, push_bit 8 aKernelRegister)
      else if aKernelRegister = kEArmDacr K then (KErrNone, 0x00300f01)
      else (KErrNotSupported, aDebugRegister))"

definition GetFlagAtOffset :: "u32 \<Rightarrow> u32 \<Rightarrow> bool" where
  "GetFlagAtOffset aFlags aIndex \<longleftrightarrow> aFlags AND push_bit (unat aIndex) 1 \<noteq> 0"

section \<open>Reading registers\<close>

text \<open>The first form: a range of register indices.  \<open>TInt16\<close> arguments are read as signed.\<close>

fun read_range :: "(nat \<Rightarrow> u32) \<Rightarrow> nat list \<Rightarrow> TDes8 \<Rightarrow> TDes8 option" where
  "read_range regs [] d = Some d"
| "read_range regs (i # is) d = do { d \<leftarrow> des_append d (le32 (regs i)); read_range regs is d }"

definition DoReadRegistersRange ::
  "'k kern \<Rightarrow> 'k \<Rightarrow> DThread option \<Rightarrow> u16 \<Rightarrow> u16 \<Rightarrow> TDes8 \<Rightarrow> (TErr \<times> TDes8) option" where
  "DoReadRegistersRange K k aThread aFirst aLast aValues =
     (case aThread of
        None \<Rightarrow> Some (KErrArgument, aValues)
      | Some t \<Rightarrow>
          if sint aFirst < 0 \<or> int (kArmRegCount K) \<le> sint aLast then Some (KErrArgument, aValues)
          else if (sint aLast - sint aFirst + 1) * 4 > int (length (dbuf aValues)) then Some (KErrArgument, aValues)
          else do {
            d \<leftarrow> read_range (fst (kUserContext K k t)) [nat (sint aFirst)..<nat (sint aLast + 1)] aValues;
            Some (KErrNone, d)
          })"

text \<open>
  The second form: a descriptor of register ids, a descriptor for the values and one for the flags (whose
  length is bounded by \<open>maxf\<close>).  One iteration of its loop; Inl is an early return.
\<close>

definition append_flag :: "nat \<Rightarrow> TRegisterFlag list \<Rightarrow> TRegisterFlag \<Rightarrow> TRegisterFlag list option" where
  "append_flag maxf fs f = (if length fs < maxf then Some (fs @ [f]) else None)"

definition read_reg_body ::
  "'k kern \<Rightarrow> (nat \<Rightarrow> u32) \<Rightarrow> u32 \<Rightarrow> u8 list \<Rightarrow> nat \<Rightarrow> nat \<Rightarrow> TDes8 \<times> TRegisterFlag list \<Rightarrow>
     ((TErr \<times> TDes8 \<times> TRegisterFlag list) + (TDes8 \<times> TRegisterFlag list)) option" where
  "read_reg_body K regs flags ids maxf i s =
     (let (vals, fs) = s in do {
        (err, reg) \<leftarrow> GetTRegisterInfo ids (of_nat i) (kUninit K);
        if err \<noteq> KErrNone then Some (Inl (err, vals, fs))
        else
          let tag = snd (GetRegister reg (mk_tag 0 0 (kUninit K, kUninit K))) in
          if iValue tag = access_word EAccessUnknown then Some (Inl (KErrArgument, vals, fs))
          else
            let (err, armReg) = GetKernelRegisterId K reg (kUninit K) in
            if err = KErrNotSupported \<or> iValue tag = access_word EAccessNone
               \<or> iValue tag = access_word EAccessWriteOnly
            then do {
              fs \<leftarrow> append_flag maxf fs ENotSupported;
              if dlen vals + unat (iSize tag) > length (dbuf vals) then Some (Inl (KErrArgument, vals, fs))
              else do { vals \<leftarrow> des_setlen vals (dlen vals + unat (iSize tag)); Some (Inr (vals, fs)) }
            }
            else if iSize tag = 4 then do {
              fs \<leftarrow> append_flag maxf fs (if GetFlagAtOffset flags armReg then EValid else EInValid);
              if dlen vals + 4 > length (dbuf vals) then Some (Inl (KErrArgument, vals, fs))
              else do { vals \<leftarrow> des_append vals (le32 (regs (unat armReg))); Some (Inr (vals, fs)) }
            }
            else do {
              fs \<leftarrow> append_flag maxf fs EBadSize;
              vals \<leftarrow> des_setlen vals (dlen vals + unat (iSize tag));
              Some (Inr (vals, fs))
            }
      })"

definition DoReadRegisters ::
  "'k kern \<Rightarrow> 'k \<Rightarrow> DThread option \<Rightarrow> u8 list \<Rightarrow> TDes8 \<Rightarrow> nat \<Rightarrow> TRegisterFlag list \<Rightarrow>
     (TErr \<times> TDes8 \<times> TRegisterFlag list) option" where
  "DoReadRegisters K k aThread ids vals maxf fs =
     (case aThread of
        None \<Rightarrow> Some (KErrArgument, vals, fs)
      | Some t \<Rightarrow> do {
          let (regs, flags) = kUserContext K k t;
          res \<leftarrow> ix_loop (read_reg_body K regs flags ids maxf) [0..<length ids div 4] (vals\<lparr>dlen := 0\<rparr>, []);
          Some (case res of Inl r \<Rightarrow> r | Inr (vals, fs) \<Rightarrow> (KErrNone, vals, fs))
        })"

section \<open>Writing registers\<close>

definition DoWriteRegistersRange ::
  "'k kern \<Rightarrow> 'k \<Rightarrow> DThread option \<Rightarrow> u16 \<Rightarrow> u16 \<Rightarrow> u8 list \<Rightarrow> 'k \<times> TErr" where
  "DoWriteRegistersRange K k aThread aFirst aLast aValues =
     (case aThread of
        None \<Rightarrow> (k, KErrArgument)
      | Some t \<Rightarrow>
          if sint aFirst < 0 \<or> int (kArmRegCount K) \<le> sint aLast then (k, KErrArgument)
          else if (sint aLast - sint aFirst + 1) * 4 > int (length aValues) then (k, KErrArgument)
          else
            let regs = fst (kUserContext K k t); first = nat (sint aFirst) in
            (kSetUserContext K k t (\<lambda>r. if first \<le> r \<and> int r \<le> sint aLast
               then of_le (take 4 (drop (4 * (r - first)) aValues)) else regs r), KErrNone))"

definition write_reg_body ::
  "'k kern \<Rightarrow> u32 \<Rightarrow> u8 list \<Rightarrow> u8 list \<Rightarrow> nat \<Rightarrow> nat \<Rightarrow> (nat \<Rightarrow> u32) \<times> TRegisterFlag list \<times> nat \<Rightarrow>
     ((TErr \<times> TRegisterFlag list) + ((nat \<Rightarrow> u32) \<times> TRegisterFlag list \<times> nat)) option" where
  "write_reg_body K flags ids vals maxf i s =
     (let (regs, fs, off) = s in do {
        (err, reg) \<leftarrow> GetTRegisterInfo ids (of_nat i) (kUninit K);
        if err \<noteq> KErrNone then Some (Inl (err, fs))
        else
          let tag = snd (GetRegister reg (mk_tag 0 0 (kUninit K, kUninit K))) in
          if iValue tag = access_word EAccessUnknown then Some (Inl (KErrArgument, fs))
          else
            let (err, armReg) = GetKernelRegisterId K reg (kUninit K); off' = off + unat (iSize tag) in
            if err = KErrNotSupported \<or> iValue tag = access_word EAccessNone
               \<or> iValue tag = access_word EAccessReadOnly
            then do { fs \<leftarrow> append_flag maxf fs ENotSupported; Some (Inr (regs, fs, off')) }
            else if GetFlagAtOffset flags armReg then
              if iSize tag = 4 then do {
                fs \<leftarrow> append_flag maxf fs EValid;
                if off + 4 > length vals then Some (Inl (KErrArgument, fs))
                else Some (Inr (regs(unat armReg := of_le (take 4 (drop off vals))), fs, off'))
              }
              else do { fs \<leftarrow> append_flag maxf fs EBadSize; Some (Inr (regs, fs, off')) }
            else do { fs \<leftarrow> append_flag maxf fs EInValid; Some (Inr (regs, fs, off')) }
      })"

definition DoWriteRegisters ::
  "'k kern \<Rightarrow> 'k \<Rightarrow> DThread option \<Rightarrow> u8 list \<Rightarrow> u8 list \<Rightarrow> nat \<Rightarrow> TRegisterFlag list \<Rightarrow>
     ('k \<times> TErr \<times> TRegisterFlag list) option" where
  "DoWriteRegisters K k aThread ids vals maxf fs =
     (case aThread of
        None \<Rightarrow> Some (k, KErrArgument, fs)
      | Some t \<Rightarrow> do {
          let (regs, flags) = kUserContext K k t;
          res \<leftarrow> ix_loop (write_reg_body K flags ids vals maxf) [0..<length ids div 4] (regs, [], 0);
          Some (case res of
                  Inl (err, fs) \<Rightarrow> (k, err, fs)
                | Inr (regs, fs, off) \<Rightarrow> (kSetUserContext K k t regs, KErrNone, fs))
        })"

section \<open>Reading one register\<close>

definition ReadRegister :: "'k kern \<Rightarrow> 'k \<Rightarrow> DThread option \<Rightarrow> int \<Rightarrow> u32" where
  "ReadRegister K k aThread aNum =
     (case aThread of
        None \<Rightarrow> 0
      | Some t \<Rightarrow>
          if aNum < 0 \<or> int (kArmRegCount K) \<le> aNum then 0 else fst (kUserContext K k t) (nat aNum))"

text \<open>
  Three small buffers are allocated; the register is read into the second and its flag into the third.
  A flag other than EValid becomes the return code.  The result is the code and the new contents of the
  variable \<open>aValue\<close>.
\<close>

definition ReadDebugRegisterValue ::
  "'k kern \<Rightarrow> 'k \<Rightarrow> DThread option \<Rightarrow> u32 \<Rightarrow> u32 \<Rightarrow> (TErr \<times> u32) option" where
  "ReadDebugRegisterValue K k aThread aDebugRegisterId aValue =
     (if \<not> kAllocOk K k 0 then Some (KErrNoMemory, aValue)
      else if \<not> kAllocOk K k 1 then Some (KErrNoMemory, aValue)
      else if \<not> kAllocOk K k 2 then Some (KErrNoMemory, aValue)
      else do {
        (err, vals, fs) \<leftarrow> DoReadRegisters K k aThread (le32 aDebugRegisterId)
                             \<lparr>dbuf = le32 (kUninit K), dlen = 0\<rparr> 1 [];
        Some (if err = KErrNone then
                case fs of
                  [] \<Rightarrow> (KErrFlag ENotSet, aValue)
                | f # _ \<Rightarrow> if f = EValid then (err, of_le (dbuf vals)) else (KErrFlag f, aValue)
              else (err, aValue))
      })"

definition ReadKernelRegisterValue ::
  "'k kern \<Rightarrow> 'k \<Rightarrow> DThread option \<Rightarrow> u32 \<Rightarrow> u32 \<Rightarrow> (TErr \<times> u32) option" where
  "ReadKernelRegisterValue K k aThread aKernelRegisterId aValue =
     (let (err, regId) = GetDebugRegisterId K aKernelRegisterId (kUninit K) in
      if err \<noteq> KErrNone then Some (err, aValue)
      else ReadDebugRegisterValue K k aThread regId aValue)"

end
