(* ===== verification/RegisterProps.thy ===== *)
theory RegisterProps
  imports Registers DemoKernel
begin

text \<open>
  Properties of register access and of the functionality block: what reading one register returns, the
  translation of register ids, writing and reading back, the sizes of the block and the tables that are
  shorter than their headers say.
\<close>

lemma GetTRegisterInfo_one: "GetTRegisterInfo (le32 w) 0 v = Some (KErrNone, w)"
proof -
  have "take 4 (le32 w) = le32 w" by simp
  then show ?thesis by (simp add: GetTRegisterInfo_def of_le_le32)
qed

lemma kernel_id_core:
  assumes "rn < 17"
  shows "GetKernelRegisterId K (push_bit 8 (of_nat rn)) x = (KErrNone, of_nat rn)"
proof -
  have "rn \<in> set [0..<17]" using assms by simp
  moreover have "\<forall>rn\<in>set [0..<17]. IsCoreReg (push_bit 8 (of_nat rn)) \<and> (of_nat rn :: u32) < 17"
    by code_simp
  ultimately show ?thesis
    using core_id[of rn] assms by (simp add: GetKernelRegisterId_def)
qed

lemma debug_id_core:
  assumes "rn < 17"
  shows "GetDebugRegisterId K (of_nat rn) x = (KErrNone, push_bit 8 (of_nat rn))"
proof -
  have "(of_nat rn :: u32) < 17"
    using assms by (simp add: word_less_nat_alt unsigned_of_nat take_bit_nat_eq_self)
  then show ?thesis by (simp add: GetDebugRegisterId_def)
qed

lemma unat_small: "rn < 17 \<Longrightarrow> unat (of_nat rn :: u32) = rn"
  by (simp add: unsigned_of_nat take_bit_nat_eq_self)

lemma overwrite_all: "length bs = length buf \<Longrightarrow> overwrite buf 0 bs = bs"
  by (simp add: overwrite_def)

text \<open>One iteration for a user mode register.\<close>

lemma read_body_core:
  assumes "rn < 17" "dlen vals + 4 \<le> length (dbuf vals)" "length fs < maxf"
    and "GetTRegisterInfo ids (of_nat i) (kUninit K) = Some (KErrNone, push_bit 8 (of_nat rn))"
  shows "read_reg_body K regs flags ids maxf i (vals, fs) =
    Some (Inr (\<lparr>dbuf = overwrite (dbuf vals) (dlen vals) (le32 (regs rn)), dlen = dlen vals + 4\<rparr>,
               fs @ [if GetFlagAtOffset flags (of_nat rn) then EValid else EInValid]))"
proof -
  have tag: "snd (GetRegister (push_bit 8 (of_nat rn)) t) = mk_tag 2 4 (push_bit 8 (of_nat rn), 3)" for t
    using core_reg_tag[of rn t] assms(1) by simp
  show ?thesis
    using assms unfolding read_reg_body_def
    by (simp add: tag kernel_id_core unat_small append_flag_def des_append_def mk_tag_def Let_def)
qed

lemma read_kernel_register_core:
  assumes "rn < 17" "\<forall>n<3. kAllocOk K k n" "kUserContext K k t = (regs, flags)"
  shows "ReadKernelRegisterValue K k (Some t) (of_nat rn) old =
    Some (if GetFlagAtOffset flags (of_nat rn) then (KErrNone, regs rn) else (KErrFlag EInValid, old))"
proof -
  have "read_reg_body K regs flags (le32 (push_bit 8 (of_nat rn))) 1 0
      (\<lparr>dbuf = le32 (kUninit K), dlen = 0\<rparr>, []) =
    Some (Inr (\<lparr>dbuf = le32 (regs rn), dlen = 4\<rparr>,
      [if GetFlagAtOffset flags (of_nat rn) then EValid else EInValid]))"
    using assms(1) by (subst read_body_core[of rn]) (simp_all add: GetTRegisterInfo_one overwrite_all)
  then show ?thesis
    using assms by (simp add: ReadKernelRegisterValue_def debug_id_core ReadDebugRegisterValue_def
        DoReadRegisters_def of_le_le32)
qed

text \<open>Reading one of the registers R0 to R15 and CPSR of an existing thread returns, when the three small
  buffers can be allocated, KErrNone and the register's value if the kernel marks the register as valid,
  and the flag EInValid with the variable unchanged if it does not.\<close>

theorem read_kernel_register:
  assumes "rn < 17" "\<forall>n<3. kAllocOk K k n" "kUserContext K k t = (regs, flags)"
  shows "ReadKernelRegisterValue K k (Some t) (of_nat rn) old =
    Some (if GetFlagAtOffset flags (of_nat rn) then (KErrNone, regs rn) else (KErrFlag EInValid, old))"
  by (rule read_kernel_register_core[OF assms])

theorem read_kernel_register_witness:
  "ReadKernelRegisterValue demoK demo0 (Some demo_thread) (of_nat 15) 7 = Some (KErrNone, 0)"
proof -
  have "kUserContext demoK demo0 demo_thread =
      (\<lambda>i. if i < length (dregs demo0) then dregs demo0 ! i else 0, 0x1FFFF)" "\<forall>n<3. kAllocOk demoK demo0 n"
    by (simp_all add: demoK_def)
  from read_kernel_register[OF _ this(2,1), of 15] show ?thesis
    by (simp add: demo0_def GetFlagAtOffset_def)
qed

lemma dacr_tag: "GetRegister 0x00300f01 tag = (KErrNotSupported, unknown_tag 0x00300f01 tag)"
proof -
  have "\<not> IsCoreReg 0x00300f01" "GetCRm 0x00300f01 \<noteq> 3"
    by code_simp+
  then show ?thesis
    by (simp add: GetRegister_def DebugFunctionalityRegistersCoProInfo_def mk_tag_def Let_def)
qed

lemma dacr_kernel_id: "GetKernelRegisterId K 0x00300f01 y = (KErrNotSupported, y)"
proof -
  have "\<not> IsCoreReg 0x00300f01" "GetCRm 0x00300f01 \<noteq> 3"
    by code_simp+
  then show ?thesis by (simp add: GetKernelRegisterId_def)
qed

text \<open>The two translations of register ids are inverse on R0 to R15 and CPSR.  They are not on the DACR:
  the id that GetDebugRegisterId gives for it (0x00300f01) has CRn = 3 and CRm = 0, and GetKernelRegisterId
  and GetRegister look for CRm = 3, so the driver refuses the very id it produces.\<close>

theorem register_id_round_trip:
  assumes "rn < 17"
  shows "GetKernelRegisterId K (snd (GetDebugRegisterId K (of_nat rn) x)) y = (KErrNone, of_nat rn) \<and>
     GetKernelRegisterId K 0x00300f01 y = (KErrNotSupported, y) \<and>
     fst (GetRegister 0x00300f01 tag) = KErrNotSupported"
  by (simp add: debug_id_core[OF assms] kernel_id_core[OF assms] dacr_kernel_id dacr_tag)

theorem register_id_round_trip_witness:
  "GetKernelRegisterId demoK (snd (GetDebugRegisterId demoK (of_nat 13) 0)) 0 = (KErrNone, 13)"
  using register_id_round_trip[of 13 demoK 0 0] by simp

text \<open>Reading the DACR fails: for the kernel's index of the DACR, when it is not one of the first 17,
  ReadKernelRegisterValue returns KErrArgument and leaves the variable alone.\<close>

theorem dacr_is_unreadable:
  assumes "kEArmDacr K \<ge> 17" "\<forall>n<3. kAllocOk K k n"
  shows "ReadKernelRegisterValue K k (Some t) (kEArmDacr K) old = Some (KErrArgument, old)"
proof -
  have *: "iValue (snd (GetRegister 0x00300f01 tag)) = access_word EAccessUnknown" for tag
    by (simp add: dacr_tag unknown_tag_def)
  obtain regs flags where u: "kUserContext K k t = (regs, flags)" by fastforce
  have "read_reg_body K regs flags (le32 0x00300f01) 1 0 s = Some (Inl (KErrArgument, s))" for s
    by (cases s) (simp add: read_reg_body_def GetTRegisterInfo_one *)
  moreover have "\<not> kEArmDacr K < 17"
    using assms(1) by (simp add: not_less)
  ultimately show ?thesis
    using assms u by (simp add: ReadKernelRegisterValue_def GetDebugRegisterId_def
        ReadDebugRegisterValue_def DoReadRegisters_def)
qed

theorem dacr_is_unreadable_witness:
  "ReadKernelRegisterValue demoK demo0 (Some demo_thread) 32 7 = Some (KErrArgument, 7)"
  using dacr_is_unreadable[of demoK demo0 demo_thread 7] by (simp add: demoK_def)

lemma write_body_core:
  assumes "rn < 17" "GetFlagAtOffset flags (of_nat rn)"
  shows "write_reg_body K flags (le32 (push_bit 8 (of_nat rn))) (le32 v) 1 0 (regs, [], 0) =
    Some (Inr (regs(rn := v), [EValid], 4))"
proof -
  have tag: "snd (GetRegister (push_bit 8 (of_nat rn)) t) = mk_tag 2 4 (push_bit 8 (of_nat rn), 3)" for t
    using core_reg_tag[of rn t] assms(1) by simp
  have "take 4 (le32 v) = le32 v" by simp
  then show ?thesis
    using assms unfolding write_reg_body_def
    by (simp add: tag kernel_id_core unat_small append_flag_def mk_tag_def Let_def GetTRegisterInfo_one of_le_le32)
qed

text \<open>Writing one of the registers R0 to R15 and CPSR that the kernel marks as valid, and reading it back,
  gives the value written; the only assumption on the kernel is that ThreadGetUserContext returns what
  ThreadSetUserContext stored.\<close>

theorem write_then_read_register:
  assumes "rn < 17" "kUserContext K k t = (regs, flags)" "GetFlagAtOffset flags (of_nat rn)"
    and "\<And>r. kUserContext K (kSetUserContext K k t r) t = (r, flags)"
    and "\<forall>k n. n < 3 \<longrightarrow> kAllocOk K k n"
  shows "\<exists>k'. DoWriteRegisters K k (Some t) (le32 (push_bit 8 (of_nat rn))) (le32 v) 1 [] =
      Some (k', KErrNone, [EValid]) \<and>
    ReadKernelRegisterValue K k' (Some t) (of_nat rn) old = Some (KErrNone, v)"
proof -
  let ?k = "kSetUserContext K k t (regs(rn := v))"
  have "DoWriteRegisters K k (Some t) (le32 (push_bit 8 (of_nat rn))) (le32 v) 1 [] = Some (?k, KErrNone, [EValid])"
    using assms(2) write_body_core[OF assms(1,3), of K v regs] by (simp add: DoWriteRegisters_def)
  moreover have "ReadKernelRegisterValue K ?k (Some t) (of_nat rn) old = Some (KErrNone, v)"
    using assms(3,5) by (subst read_kernel_register_core[OF assms(1) _ assms(4)]) simp_all
  ultimately show ?thesis by blast
qed

theorem write_then_read_register_witness:
  "\<exists>k'. DoWriteRegisters funK (\<lambda>i. 0) (Some demo_thread) (le32 (push_bit 8 (of_nat 3))) (le32 42) 1 [] =
      Some (k', KErrNone, [EValid]) \<and>
    ReadKernelRegisterValue funK k' (Some demo_thread) (of_nat 3) 0 = Some (KErrNone, 42)"
  by (rule write_then_read_register) (simp_all add: funK_def GetFlagAtOffset_def)

lemma block_size: "unat (ComputeBlockSize b) = sizeof_TTagHeader + sizeof_TTag * unat (iNumTags b)"
proof -
  have "unat (iNumTags b) < 65536"
    using unsigned_less[of "iNumTags b"] by simp
  moreover have "unat (ucast (iNumTags b) :: u32) = unat (iNumTags b)"
    using \<open>unat (iNumTags b) < 65536\<close> by (simp add: unsigned_ucast_eq take_bit_nat_eq_self)
  ultimately show ?thesis
    by (simp add: ComputeBlockSize_def unat_word_ariths)
qed

text \<open>AppendBlock returns exactly when the header promises no more tags than the table holds and the
  bytes fit in the descriptor, and then it has added exactly ComputeBlockSize bytes.\<close>

theorem append_block_size:
  "case AppendBlock b d of
     None \<Rightarrow> length (iTagArray b) < unat (iNumTags b) \<or> length (dbuf d) < dlen d + unat (ComputeBlockSize b)
   | Some e \<Rightarrow> unat (iNumTags b) \<le> length (iTagArray b) \<and> dlen e = dlen d + unat (ComputeBlockSize b) \<and>
       dlen e \<le> length (dbuf d)"
proof (cases "AppendBlock b d")
  case None
  show ?thesis
  proof (rule ccontr)
    assume "\<not> ?thesis"
    then have fit: "unat (iNumTags b) \<le> length (iTagArray b)" "dlen d + (4 + 12 * unat (iNumTags b)) \<le> length (dbuf d)"
      using None by (auto simp: block_size)
    then obtain e where e: "des_append d (le16 (iTagHdrId b) @ le16 (iNumTags b)) = Some e"
      by (auto simp: des_append_def le16_def)
    have "append_tags (iTagArray b) [0..<unat (iNumTags b)] e \<noteq> None"
      using des_append_Some[OF e] fit by (intro append_tags_Some) (auto simp: le16_def)
    then show False using None e by (auto simp: AppendBlock_def)
  qed
next
  case (Some e)
  then obtain d1 where d1: "des_append d (le16 (iTagHdrId b) @ le16 (iNumTags b)) = Some d1"
    and e: "append_tags (iTagArray b) [0..<unat (iNumTags b)] d1 = Some e"
    by (auto simp: AppendBlock_def bind_eq_Some_conv)
  have "unat (iNumTags b) \<le> length (iTagArray b)"
    using append_tags_in_range[OF e] by (auto simp: not_less[symmetric])
  moreover have "dlen e \<le> length (dbuf e)"
    using d1 append_tags_fits[OF e] by (auto simp: des_append_def split: if_splits)
  ultimately show ?thesis
    using Some append_tags_length[OF e] des_append_Some[OF d1] by (simp add: block_size le16_def)
qed

text \<open>The debug functionality block can never be assembled within its tables: with a descriptor that is
  too small GetDebugFunctionality returns EFalse, and with any other it reads past the end of the first
  table, whose header says ECoreLast = 14 tags where there are 12.\<close>

theorem functionality_core_overrun:
  "GetDebugFunctionality kKilo evSize d = (if length (dbuf d) < 1392 then Some (False, d) else None)"
proof -
  have size: "GetDebugFunctionalityBufSize kKilo evSize = 1392"
    by (simp add: GetDebugFunctionalityBufSize_def df_blocks_def ComputeBlockSize_def
        DebugFunctionalityCore_def DebugFunctionalityMemory_def DebugFunctionalityRegistersCore_def
        DebugFunctionalityRegistersCoPro_def DebugFunctionalityBreakpoints_def DebugFunctionalityStepping_def
        DebugFunctionalityExecution_def DebugFunctionalityEvents_def DebugFunctionalityApiConstants_def
        DebugFunctionalityList_def DebugFunctionalityKillObjects_def DebugFunctionalitySecurity_def)
  have "AppendBlock DebugFunctionalityCore d = None"
  proof (rule ccontr)
    assume "AppendBlock DebugFunctionalityCore d \<noteq> None"
    then obtain d1 e where "append_tags (iTagArray DebugFunctionalityCore) [0..<14] d1 = Some e"
      by (auto simp: AppendBlock_def bind_eq_Some_conv DebugFunctionalityCore_def)
    from append_tags_in_range[OF this] have "13 < length (iTagArray DebugFunctionalityCore)"
      by simp
    then show False
      by (simp add: DebugFunctionalityCore_def)
  qed
  then show ?thesis
    by (simp add: GetDebugFunctionality_def size df_blocks_def)
qed

end
