(* ===== verification/ChannelMemory.thy ===== *)
theory ChannelMemory
  imports BreakpointSteps
begin

text \<open>
  Reading and writing a target's memory through the channel (DoReadMemory, DoWriteMemory, ReadMemory and
  WriteMemory of src/rm_debug_kerneldriver.cpp).  A read hides the agents' breakpoints by copying the
  saved instructions over them; a write stores the overwritten instruction in the entry.

  The copies are memcpy calls without a bound.  The model keeps what falls inside the buffer and records
  how many bytes fall behind its end (overrun) or are taken from behind it (over-read).
\<close>

section \<open>The fix-up loops\<close>

text \<open>The switch on the mode that both loops contain: the size of the copy, or None for the return of
  KErrNotSupported.\<close>

fun fixup_size :: "TArchitectureMode \<Rightarrow> nat option" where
  "fixup_size EArmMode = Some 4"
| "fixup_size EThumbMode = Some 2"
| "fixup_size EThumb2EEMode = None"
| "fixup_size (EOtherMode _) = None"

definition in_block :: "TBreakEntry \<Rightarrow> u32 \<Rightarrow> u32 \<Rightarrow> bool" where
  "in_block e aAddress aLength \<longleftrightarrow> aAddress \<le> iAddress e \<and> iAddress e < aAddress + aLength"

text \<open>The state of the read loop is the buffer and the largest overrun so far.\<close>

definition read_fix_body ::
  "D_RMD_Breakpoints \<Rightarrow> u32 \<Rightarrow> u32 \<Rightarrow> nat \<Rightarrow> u8 list \<times> nat \<Rightarrow> ((TErr \<times> u8 list \<times> nat) + (u8 list \<times> nat)) option" where
  "read_fix_body m aAddress aLength i s =
     (let (buf, over) = s; e = iBreakPointList m ! i in
      if \<not> IsTemporaryBreak m e \<and> in_block e aAddress aLength then
        case fixup_size (iMode e) of
          None \<Rightarrow> Some (Inl (KErrNotSupported, buf, over))
        | Some n \<Rightarrow>
            let off = unat (iAddress e - aAddress) in
            Some (Inr (overwrite buf off (take n (iInstruction e)), max over (off + n - length buf)))
      else Some (Inr (buf, over)))"

definition DoReadMemory ::
  "'k kern \<Rightarrow> 'k \<Rightarrow> D_RMD_Breakpoints \<Rightarrow> DThread option \<Rightarrow> u32 \<Rightarrow> u32 \<Rightarrow> TDes8 \<Rightarrow> (TErr \<times> TDes8 \<times> nat) option" where
  "DoReadMemory K k m aThread aAddress aLength aData =
     (if length (dbuf aData) < unat aLength then Some (KErrArgument, aData, 0)
      else
        let (x, buf) = TryToReadMemory K k aThread aAddress (dbuf aData) (unat aLength);
            (r, err) = xtrap x KErrNone;
            err = (if r = KErrNone then err else r)
        in if err \<noteq> KErrNone then Some (err, aData\<lparr>dbuf := buf\<rparr>, 0)
           else do {
             res \<leftarrow> break_walk GetNextBreak (\<lambda>_. m) (read_fix_body m aAddress aLength) None (buf, 0);
             Some (case res of
                     Inl (err, buf, over) \<Rightarrow> (err, \<lparr>dbuf = buf, dlen = unat aLength\<rparr>, over)
                   | Inr (buf, over) \<Rightarrow> (KErrNone, \<lparr>dbuf = buf, dlen = unat aLength\<rparr>, over))
           })"

text \<open>
  The write loop copies the bytes just written into the entry and then the breakpoint instruction to the
  breakpoint's address, with memcpy: in the address space of the driver, not of the target.  \<open>local\<close> is the
  list of those copies.
\<close>

definition bytes_from :: "u8 \<Rightarrow> u8 list \<Rightarrow> nat \<Rightarrow> nat \<Rightarrow> u8 list" where
  "bytes_from junk buf off n = map (\<lambda>j. if off + j < length buf then buf ! (off + j) else junk) [0..<n]"

definition write_fix_body ::
  "'k kern \<Rightarrow> u8 list \<Rightarrow> u32 \<Rightarrow> u32 \<Rightarrow> nat \<Rightarrow> D_RMD_Breakpoints \<times> (u32 \<times> u8 list) list \<Rightarrow>
     ((TErr \<times> D_RMD_Breakpoints \<times> (u32 \<times> u8 list) list) + (D_RMD_Breakpoints \<times> (u32 \<times> u8 list) list)) option" where
  "write_fix_body K buf aAddress aLength i s =
     (let (m, local) = s; e = iBreakPointList m ! i in
      if \<not> IsTemporaryBreak m e \<and> in_block e aAddress aLength then
        case fixup_size (iMode e) of
          None \<Rightarrow> Some (Inl (KErrNotSupported, m, local))
        | Some n \<Rightarrow>
            let off = unat (iAddress e - aAddress);
                e' = e\<lparr>iInstruction := overwrite (iInstruction e) 0 (bytes_from (ucast (kUninit K)) buf off n)\<rparr>
            in Some (Inr (m\<lparr>iBreakPointList := (iBreakPointList m)[i := e']\<rparr>,
                          local @ [(iAddress e, take n (le32 (BreakInst (iMode e))))]))
      else Some (Inr (m, local)))"

definition DoWriteMemory ::
  "'k kern \<Rightarrow> 'k \<Rightarrow> D_RMD_Breakpoints \<Rightarrow> DThread \<Rightarrow> u32 \<Rightarrow> u32 \<Rightarrow> TDes8 \<Rightarrow>
     ('k \<times> TErr \<times> D_RMD_Breakpoints \<times> (u32 \<times> u8 list) list) option" where
  "DoWriteMemory K k m aThread aAddress aLength aData =
     (if dlen aData < unat aLength then Some (k, KErrArgument, m, [])
      else
        let (k, x) = TryToWriteMemory K k aThread aAddress (take (unat aLength) (dbuf aData));
            (r, err) = xtrap x KErrNone;
            err = (if r = KErrNone then err else r)
        in if err \<noteq> KErrNone then Some (k, err, m, [])
           else do {
             res \<leftarrow> break_walk GetNextBreak fst (write_fix_body K (dbuf aData) aAddress aLength) None (m, []);
             Some (case res of
                     Inl (err, m, local) \<Rightarrow> (k, err, m, local)
                   | Inr (m, local) \<Rightarrow> (k, KErrNone, m, local))
           })"

section \<open>The requests\<close>

text \<open>TRM_DebugMemoryInfo: the address, the length and the client's descriptor (NULL is None), of which the
  model has the address and what Kern::ThreadDesRead makes of it.\<close>

record TRM_DebugMemoryInfo =
  dmAddress :: u32
  dmLength :: u32
  dmData :: "(u32 \<times> TErr \<times> TDes8) option"

definition ReadMemory ::
  "'k kern \<Rightarrow> 'k \<Rightarrow> D_RMD_Breakpoints \<Rightarrow> DThread option \<Rightarrow> TRM_DebugMemoryInfo carg \<Rightarrow> ('k \<times> TErr \<times> nat) option" where
  "ReadMemory K k m aThread aMemoryInfo =
     (case aMemoryInfo of
        NullArg \<Rightarrow> Some (k, KErrArgument, 0)
      | BadArg err \<Rightarrow> Some (k, err, 0)
      | Arg info \<Rightarrow>
          (case dmData info of
             None \<Rightarrow> Some (k, KErrArgument, 0)
           | Some (dst, _) \<Rightarrow>
               if \<not> kAllocOk K k 0 then Some (k, KErrNoMemory, 0)
               else do {
                 (err, d, over) \<leftarrow> DoReadMemory K k m aThread (dmAddress info) (dmLength info)
                     \<lparr>dbuf = replicate (unat (dmLength info)) (ucast (kUninit K)), dlen = 0\<rparr>;
                 if err = KErrNone then
                   let (k, err) = kClientWrite K k dst (take (dlen d) (dbuf d)) in Some (k, err, over)
                 else Some (k, err, over)
               }))"

definition WriteMemory ::
  "'k kern \<Rightarrow> 'k \<Rightarrow> D_RMD_Breakpoints \<Rightarrow> DThread \<Rightarrow> TRM_DebugMemoryInfo carg \<Rightarrow>
     ('k \<times> TErr \<times> D_RMD_Breakpoints \<times> (u32 \<times> u8 list) list) option" where
  "WriteMemory K k m aThread aMemoryInfo =
     (case aMemoryInfo of
        NullArg \<Rightarrow> Some (k, KErrArgument, m, [])
      | BadArg err \<Rightarrow> Some (k, err, m, [])
      | Arg info \<Rightarrow>
          (case dmData info of
             None \<Rightarrow> Some (k, KErrArgument, m, [])
           | Some (src, err, d) \<Rightarrow>
               if \<not> kAllocOk K k 0 then Some (k, KErrNoMemory, m, [])
               else if err \<noteq> KErrNone then Some (k, err, m, [])
               else DoWriteMemory K k m aThread (dmAddress info) (dmLength info) d))"

section \<open>Lemmas\<close>

lemma in_block_offset:
  assumes "in_block e a n"
  shows "unat (iAddress e - a) < unat n" "a + of_nat (unat (iAddress e - a)) = iAddress e"
proof -
  show "a + of_nat (unat (iAddress e - a)) = iAddress e" by simp
  show "unat (iAddress e - a) < unat n"
  proof -
    have "unat (a + n) \<le> unat a + unat n"
      by (simp add: unat_word_ariths)
    moreover have "unat a \<le> unat (iAddress e)" "unat (iAddress e) < unat (a + n)"
      using assms by (simp_all add: in_block_def word_le_nat_alt word_less_nat_alt)
    moreover have "unat (iAddress e - a) = unat (iAddress e) - unat a"
      using assms by (simp add: in_block_def unat_sub)
    ultimately show ?thesis by linarith
  qed
qed

lemma brk_inv_walkable: "brk_inv m \<Longrightarrow> walkable m"
  using ids_ok_walkable by (auto simp: brk_inv_def)

text \<open>Both walks are loops over all indices.\<close>

lemma read_walk:
  assumes "walkable m"
  shows "break_walk GetNextBreak (\<lambda>_. m) (read_fix_body m a n) None s = ix_loop (read_fix_body m a n) [0..<Count m] s"
  by (rule brk_walk.walk_all) (use assms in auto)

lemma write_fix_body_ids:
  "write_fix_body K buf a n i (m, l) = Some (Inr (m', l')) \<Longrightarrow>
   map iBreakId (iBreakPointList m') = map iBreakId (iBreakPointList m)"
proof -
  assume *: "write_fix_body K buf a n i (m, l) = Some (Inr (m', l'))"
  show ?thesis
  proof (cases "i < Count m")
    case True
    then show ?thesis
      using * by (auto simp: write_fix_body_def Let_def map_update list_update_same_conv
          split: if_splits option.splits)
  next
    case False
    then show ?thesis
      using * by (auto simp: write_fix_body_def Let_def not_less list_update_beyond split: if_splits option.splits simp del: map_update)
  qed
qed

lemma write_walk:
  assumes "walkable m"
  shows "break_walk GetNextBreak fst (write_fix_body K buf a n) None (m, l) =
    ix_loop (write_fix_body K buf a n) [0..<Count m] (m, l)"
proof (rule brk_walk.walk_all)
  fix i s s' assume *: "walkable (fst s)" "Count (fst s) = Count m" "write_fix_body K buf a n i s = Some (Inr s')"
  have "map iBreakId (iBreakPointList (fst s')) = map iBreakId (iBreakPointList (fst s))"
    using write_fix_body_ids *(3) by (metis prod.collapse)
  then show "walkable (fst s') \<and> Count (fst s') = Count m"
    using * by (metis walkable_def length_map list.map_disc_iff)
qed (use assms in auto)

lemma user_break:
  assumes "brk_inv m" "\<not> not_ready m" "i < Count m"
  shows "IsTemporaryBreak m (iBreakPointList m ! i) \<longleftrightarrow> i < NUMBER_OF_TEMP_BREAKPOINTS"
  using ids_ok_temp[of "map iBreakId (iBreakPointList m)" "iNextBreakId m" i] assms
  by (simp add: brk_inv_def IsTemporaryBreak_def priv_IsTemporaryBreak_def)

end
