(* ===== verification/MemoryProps.thy ===== *)
theory MemoryProps
  imports ChannelMemory BreakpointProps
begin

text \<open>
  Properties of memory access: a read shows the program's own bytes where an agent's breakpoint replaced
  them, a write followed by a read returns what was written, and the copies that leave the buffer or go to
  the wrong address space.
\<close>

section \<open>Reading\<close>

text \<open>Byte \<open>j\<close> of a block at \<open>a\<close> is covered by an agent breakpoint that starts in the block.\<close>

definition covered :: "TBreakEntry \<Rightarrow> u32 \<Rightarrow> u32 \<Rightarrow> nat \<Rightarrow> bool" where
  "covered e a n j \<longleftrightarrow> in_block e a n \<and> unat (iAddress e - a) \<le> j \<and> j < unat (iAddress e - a) + BreakSize (iMode e)"

lemma fixup_supported: "iMode e = EArmMode \<or> iMode e = EThumbMode \<Longrightarrow> fixup_size (iMode e) = Some (BreakSize (iMode e))"
  by auto

text \<open>The state of the read loop before entry \<open>i\<close>: every byte that is not yet the original one is covered by a
  later breakpoint.\<close>

definition read_inv :: "D_RMD_Breakpoints \<Rightarrow> u32 \<Rightarrow> u32 \<Rightarrow> (u32 \<Rightarrow> u8) \<Rightarrow> nat \<Rightarrow> nat \<Rightarrow> u8 list \<times> nat \<Rightarrow> bool" where
  "read_inv m a n orig len i s \<longleftrightarrow>
     length (fst s) = len \<and>
     (\<forall>j<unat n. fst s ! j = orig (a + of_nat j) \<or>
        (\<exists>i'\<ge>i. 10 \<le> i' \<and> i' < Count m \<and> covered (iBreakPointList m ! i') a n j))"

lemma read_fix_step:
  assumes "brk_inv m" "\<not> not_ready m" "i < Count m" "read_inv m a n orig len i s" "unat n \<le> len"
    and "\<And>e. e \<in> set (drop 10 (iBreakPointList m)) \<Longrightarrow> in_block e a n \<Longrightarrow>
       (iMode e = EArmMode \<or> iMode e = EThumbMode) \<and> length (iInstruction e) = 4 \<and>
       (\<forall>d<BreakSize (iMode e). iInstruction e ! d = orig (iAddress e + of_nat d))"
  shows "\<exists>s'. read_fix_body m a n i s = Some (Inr s') \<and> read_inv m a n orig len (Suc i) s'"
proof -
  let ?e = "iBreakPointList m ! i"
  obtain buf over where s: "s = (buf, over)" by (cases s)
  show ?thesis
  proof (cases "10 \<le> i \<and> in_block ?e a n")
    case False
    then have "read_fix_body m a n i s = Some (Inr s)"
      using user_break[OF assms(1-3)] s by (auto simp: read_fix_body_def)
    moreover have "read_inv m a n orig len (Suc i) s"
      using assms(4) False unfolding read_inv_def covered_def by (metis Suc_leI le_neq_implies_less)
    ultimately show ?thesis by blast
  next
    case True
    let ?off = "unat (iAddress ?e - a)"
    have mem: "?e \<in> set (drop 10 (iBreakPointList m))"
      using True assms(3) by (auto simp: in_set_conv_nth intro: exI[of _ "i - 10"])
    note e = assms(6)[OF mem conjunct2[OF True]]
    let ?n = "BreakSize (iMode ?e)"
    have n: "?n \<le> 4" "fixup_size (iMode ?e) = Some ?n"
      using e by auto
    have off: "?off < unat n" by (rule in_block_offset) (use True in simp)
    define buf' where "buf' = overwrite buf ?off (take ?n (iInstruction ?e))"
    have len: "length buf = len" using assms(4) s by (simp add: read_inv_def)
    have step: "read_fix_body m a n i s = Some (Inr (buf', max over (?off + ?n - length buf)))"
      using user_break[OF assms(1-3)] True n s by (simp add: read_fix_body_def buf'_def Let_def)
    have nth: "buf' ! j = (if ?off \<le> j \<and> j < ?off + ?n then iInstruction ?e ! (j - ?off) else buf ! j)"
      if "j < unat n" for j
      unfolding buf'_def
      by (subst overwrite_nth) (use that len off assms(5) n e in \<open>auto simp: min_def\<close>)
    have "buf' ! j = orig (a + of_nat j)" if "?off \<le> j" "j < ?off + ?n" "j < unat n" for j
    proof -
      have "iInstruction ?e ! (j - ?off) = orig (iAddress ?e + of_nat (j - ?off))"
        using e that by auto
      moreover have "iAddress ?e + of_nat (j - ?off) = a + of_nat j"
        using that(1) by (simp add: of_nat_diff)
      moreover have "buf' ! j = iInstruction ?e ! (j - ?off)"
        using nth that by simp
      ultimately show ?thesis by simp
    qed
    note restored = this
    have "buf' ! j = orig (a + of_nat j) \<or>
        (\<exists>i'\<ge>Suc i. 10 \<le> i' \<and> i' < Count m \<and> covered (iBreakPointList m ! i') a n j)" if "j < unat n" for j
    proof (cases "covered ?e a n j")
      case True
      then show ?thesis using restored that by (simp add: covered_def)
    next
      case False
      then have "buf' ! j = buf ! j" using nth[OF that] True by (auto simp: covered_def)
      moreover have "buf ! j = orig (a + of_nat j) \<or>
          (\<exists>i'\<ge>i. 10 \<le> i' \<and> i' < Count m \<and> covered (iBreakPointList m ! i') a n j)"
        using assms(4) s that by (simp add: read_inv_def)
      ultimately show ?thesis using False by (metis Suc_leI le_neq_implies_less)
    qed
    moreover have "length buf' = len"
      using len off assms(5) by (simp add: buf'_def)
    ultimately have "read_inv m a n orig len (Suc i) (buf', max over (?off + ?n - length buf))"
      by (simp add: read_inv_def)
    then show ?thesis using step by blast
  qed
qed

lemma read_fix_loop:
  assumes "brk_inv m" "\<not> not_ready m" "read_inv m a n orig len 0 s" "unat n \<le> len"
    and "\<And>e. e \<in> set (drop 10 (iBreakPointList m)) \<Longrightarrow> in_block e a n \<Longrightarrow>
       (iMode e = EArmMode \<or> iMode e = EThumbMode) \<and> length (iInstruction e) = 4 \<and>
       (\<forall>d<BreakSize (iMode e). iInstruction e ! d = orig (iAddress e + of_nat d))"
  shows "i \<le> Count m \<Longrightarrow> \<exists>s'. ix_loop (read_fix_body m a n) [0..<i] s = Some (Inr s') \<and> read_inv m a n orig len i s'"
proof (induction i)
  case (Suc i)
  then obtain s1 where s1: "ix_loop (read_fix_body m a n) [0..<i] s = Some (Inr s1)" "read_inv m a n orig len i s1"
    by auto
  obtain s2 where "read_fix_body m a n i s1 = Some (Inr s2)" "read_inv m a n orig len (Suc i) s2"
    using read_fix_step[OF assms(1,2) _ s1(2) assms(4,5)] Suc.prems by auto
  then show ?case using s1(1) by (simp add: ix_loop_append)
qed (use assms(3) in simp)

lemma read_memory_core:
  assumes "brk_inv m" "\<not> not_ready m" "unat n \<le> length (dbuf d)"
    and "kRawRead K k t a (unat n) = (Inr KErrNone, raw)"
    and "\<And>e. e \<in> set (drop 10 (iBreakPointList m)) \<Longrightarrow> in_block e a n \<Longrightarrow>
       (iMode e = EArmMode \<or> iMode e = EThumbMode) \<and> length (iInstruction e) = 4 \<and>
       (\<forall>d<BreakSize (iMode e). iInstruction e ! d = orig (iAddress e + of_nat d))"
    and "\<And>j. j < unat n \<Longrightarrow> raw j = orig (a + of_nat j) \<or>
       (\<exists>e\<in>set (drop 10 (iBreakPointList m)). covered e a n j)"
  shows "\<exists>d' over. DoReadMemory K k m (Some t) a n d = Some (KErrNone, d', over) \<and>
     take (dlen d') (dbuf d') = map (\<lambda>j. orig (a + of_nat j)) [0..<unat n]"
proof -
  let ?buf = "overwrite (dbuf d) 0 (map raw [0..<unat n])"
  have "read_inv m a n orig (length (dbuf d)) 0 (?buf, 0)"
    unfolding read_inv_def
  proof (intro conjI allI impI)
    fix j assume j: "j < unat n"
    then have "?buf ! j = raw j"
      using assms(3) by (subst overwrite_nth) auto
    moreover have "\<exists>i'\<ge>0. 10 \<le> i' \<and> i' < Count m \<and> covered (iBreakPointList m ! i') a n j"
      if "e \<in> set (drop 10 (iBreakPointList m))" "covered e a n j" for e
    proof -
      note mem = that
      obtain i where "i < Count m - 10" "e = iBreakPointList m ! (10 + i)"
        using mem(1) assms(1) by (auto simp: in_set_conv_nth brk_inv_def ids_ok_def)
      then show ?thesis using mem(2) by (intro exI[of _ "10 + i"]) auto
    qed
    ultimately show "fst (?buf, 0) ! j = orig (a + of_nat j) \<or>
        (\<exists>i'\<ge>0. 10 \<le> i' \<and> i' < Count m \<and> covered (iBreakPointList m ! i') a n j)"
      using assms(6)[OF j] by (metis fst_conv)
  qed (use assms(3) in simp)
  from read_fix_loop[OF assms(1,2) this assms(3,5) order_refl]
  obtain s' where s': "ix_loop (read_fix_body m a n) [0..<Count m] (?buf, 0) = Some (Inr s')"
      "read_inv m a n orig (length (dbuf d)) (Count m) s'"
    by blast
  obtain buf over where "s' = (buf, over)" by (cases s')
  note loop = s'(1)[unfolded this] and inv = s'(2)[unfolded this]
  have "buf ! j = orig (a + of_nat j)" if "j < unat n" for j
    using inv that unfolding read_inv_def by (metis fst_conv leD)
  moreover have "length buf = length (dbuf d)"
    using inv by (simp add: read_inv_def)
  ultimately have "take (unat n) buf = map (\<lambda>j. orig (a + of_nat j)) [0..<unat n]"
    using assms(3) by (intro nth_equalityI) simp_all
  moreover have "DoReadMemory K k m (Some t) a n d = Some (KErrNone, \<lparr>dbuf = buf, dlen = unat n\<rparr>, over)"
    using assms(3,4) loop
    by (simp add: DoReadMemory_def TryToReadMemory_def read_walk[OF brk_inv_walkable[OF assms(1)]])
  ultimately show ?thesis by auto
qed


definition demo_armed :: D_RMD_Breakpoints where
  "demo_armed = demo_mgr\<lparr>iNextBreakId := 20, iBreakPointList := iBreakPointList demo_mgr @
     [(mk_TBreakEntry 12 5 True 0x8000 EArmMode)\<lparr>iInstruction := [1, 2, 3, 4]\<rparr>]\<rparr>"

lemma demo_armed_inv: "brk_inv demo_armed" "\<not> not_ready demo_armed"
proof -
  have "brk_tame (demo_brk 12 5 True 0x8000) demo_armed"
    by (auto simp: brk_tame_def tame_def demo_armed_def demo_brk_def mk_TBreakEntry_def key_def nth_append)
  then show "brk_inv demo_armed" by (rule brk_inv_tame[OF demo_brk_inv])
  show "\<not> not_ready demo_armed" by (simp add: demo_armed_def not_ready_def)
qed

lemma demo_armed_user:
  "drop 10 (iBreakPointList demo_armed) = [(mk_TBreakEntry 12 5 True 0x8000 EArmMode)\<lparr>iInstruction := [1, 2, 3, 4]\<rparr>]"
  by (simp add: demo_armed_def)


text \<open>The fix-up copy of a read has no bound: reading \<open>n < 4\<close> bytes, with a buffer of exactly that size (as
  ReadMemory allocates it), at the address of an agent's ARM breakpoint writes at least \<open>4 - n\<close> bytes behind
  the buffer.\<close>

theorem read_memory_overrun:
  assumes "brk_inv m" "\<not> not_ready m" "0 < n" "unat n < 4"
    and "e \<in> set (drop 10 (iBreakPointList m))" "iAddress e = a" "iMode e = EArmMode" "a < a + n"
    and "\<And>f. f \<in> set (drop 10 (iBreakPointList m)) \<Longrightarrow> iMode f = EArmMode \<or> iMode f = EThumbMode"
    and "kRawRead K k t a (unat n) = (Inr KErrNone, raw)" "kAllocOk K k 0"
  shows "\<exists>k' err over. ReadMemory K k m (Some t) (Arg \<lparr>dmAddress = a, dmLength = n, dmData = Some desc\<rparr>) =
      Some (k', err, over) \<and> 4 - unat n \<le> over"
proof -
  let ?xs = "iBreakPointList m"
  have ten: "10 \<le> Count m" using assms(1) by (simp add: brk_inv_def ids_ok_def)
  then obtain p where p: "10 \<le> p" "p < Count m" "?xs ! p = e"
    using assms(5) by (auto simp: in_set_conv_nth) (metis add.commute le_add1 less_diff_conv)
  let ?Q = "\<lambda>i (s :: u8 list \<times> nat). length (fst s) = unat n \<and> (p < i \<longrightarrow> 4 - unat n \<le> snd s)"
  have off: "unat (iAddress f - a) \<le> unat n" if "in_block f a n" for f
    using in_block_offset(1)[OF that] by simp
  have body: "\<exists>s'. read_fix_body m a n i s = Some (Inr s') \<and> ?Q (Suc i) s'" if i: "i < Count m" and Q: "?Q i s" for i s
  proof -
    have mode: "fixup_size (iMode (?xs ! i)) \<noteq> None" if "10 \<le> i"
    proof -
      have "?xs ! i \<in> set (drop 10 ?xs)"
        using that i by (auto simp: in_set_conv_nth intro: exI[of _ "i - 10"])
      from assms(9)[OF this] show ?thesis by auto
    qed
    have blk: "in_block e a n" using assms(6,8) by (simp add: in_block_def)
    show ?thesis
    proof (cases "10 \<le> i \<and> in_block (?xs ! i) a n")
      case True
      then obtain w where w: "fixup_size (iMode (?xs ! i)) = Some w" using mode by auto
      obtain buf over where s: "s = (buf, over)" by (cases s)
      let ?o = "unat (iAddress (?xs ! i) - a)"
      have "read_fix_body m a n i s =
          Some (Inr (overwrite buf ?o (take w (iInstruction (?xs ! i))), max over (?o + w - length buf)))"
        using True user_break[OF assms(1,2) i] w s by (simp add: read_fix_body_def Let_def)
      moreover have "?o \<le> length buf" using off[of "?xs ! i"] True Q s by simp
      moreover have "4 - unat n \<le> max over (?o + w - length buf)" if "p < Suc i"
      proof (cases "i = p")
        case True
        then have "w = 4" "?o = 0" using p(3) assms(6,7) w by simp_all
        then show ?thesis using Q s by simp
      next
        case False
        then have "4 - unat n \<le> over" using that Q s by simp
        then show ?thesis by (rule max.coboundedI1)
      qed
      moreover have "length (overwrite buf ?o (take w (iInstruction (?xs ! i)))) = unat n"
        using calculation(2) Q s by simp
      ultimately show ?thesis
        by (intro exI[of _ "(overwrite buf ?o (take w (iInstruction (?xs ! i))), max over (?o + w - length buf))"])
          simp
    next
      case False
      then have "read_fix_body m a n i s = Some (Inr s)"
        using user_break[OF assms(1,2) i] by (cases s) (auto simp: read_fix_body_def)
      moreover have "p \<noteq> i" using False p blk by auto
      ultimately show ?thesis
        using Q by (intro exI[of _ s]) simp
    qed
  qed
  have loop: "\<exists>s'. ix_loop (read_fix_body m a n) [0..<i] s = Some (Inr s') \<and> ?Q i s'"
    if "i \<le> Count m" "?Q 0 s" for i s
    using that(1)
  proof (induction i)
    case (Suc i)
    then obtain s1 where "ix_loop (read_fix_body m a n) [0..<i] s = Some (Inr s1)" "?Q i s1" by auto
    then show ?case using body[of i s1] Suc.prems by (auto simp: ix_loop_append)
  qed (use that(2) in simp)
  let ?d = "replicate (unat n) (ucast (kUninit K)) :: u8 list"
  obtain buf over where fin: "ix_loop (read_fix_body m a n) [0..<Count m] (overwrite ?d 0 (map raw [0..<unat n]), 0)
      = Some (Inr (buf, over))" "4 - unat n \<le> over"
    using loop[of "Count m" "(overwrite ?d 0 (map raw [0..<unat n]), 0)"] p(2) by auto
  then have "DoReadMemory K k m (Some t) a n \<lparr>dbuf = ?d, dlen = 0\<rparr> =
      Some (KErrNone, \<lparr>dbuf = buf, dlen = unat n\<rparr>, over)"
    using assms(10)
    by (simp add: DoReadMemory_def TryToReadMemory_def read_walk[OF brk_inv_walkable[OF assms(1)]])
  then show ?thesis
    using fin(2) assms(11) by (auto simp: ReadMemory_def split: prod.splits)
qed

theorem read_memory_overrun_witness:
  "\<exists>k' err over. ReadMemory demoK demo0 demo_armed (Some demo_thread)
      (Arg \<lparr>dmAddress = 0x8000, dmLength = 1, dmData = Some (0, KErrNone, \<lparr>dbuf = [], dlen = 0\<rparr>)\<rparr>) =
      Some (k', err, over) \<and> 3 \<le> over"
proof -
  have "kRawRead demoK demo0 demo_thread 0x8000 (unat (1::u32)) =
      (Inr KErrNone, \<lambda>i. demo_byte demo0 (0x8000 + of_nat i))"
    by (simp add: demoK_def)
  from read_memory_overrun[OF demo_armed_inv _ _ _ _ _ _ _ this, of "hd (drop 10 (iBreakPointList demo_armed))"]
  show ?thesis
    by (auto simp: demo_armed_user mk_TBreakEntry_def demoK_def)
qed

section \<open>Writing\<close>

text \<open>What a write leaves in an entry, and the copies it makes.\<close>

definition stored :: "'k kern \<Rightarrow> u8 list \<Rightarrow> u32 \<Rightarrow> u32 \<Rightarrow> TBreakEntry \<Rightarrow> TBreakEntry" where
  "stored K buf a n e =
     (if in_block e a n
      then e\<lparr>iInstruction := overwrite (iInstruction e) 0
               (bytes_from (ucast (kUninit K)) buf (unat (iAddress e - a)) (BreakSize (iMode e)))\<rparr>
      else e)"

definition local_copies :: "u32 \<Rightarrow> u32 \<Rightarrow> TBreakEntry list \<Rightarrow> (u32 \<times> u8 list) list" where
  "local_copies a n es =
     map (\<lambda>e. (iAddress e, take (BreakSize (iMode e)) (le32 (BreakInst (iMode e))))) (filter (\<lambda>e. in_block e a n) es)"

lemma write_fix_loop:
  assumes "brk_inv m" "\<not> not_ready m"
    and "\<And>e. e \<in> set (drop 10 (iBreakPointList m)) \<Longrightarrow> in_block e a n \<Longrightarrow> iMode e = EArmMode \<or> iMode e = EThumbMode"
  shows "i \<le> Count m \<Longrightarrow> ix_loop (write_fix_body K buf a n) [0..<i] (m, []) =
     Some (Inr (m\<lparr>iBreakPointList := take 10 (take i (iBreakPointList m)) @
         map (stored K buf a n) (drop 10 (take i (iBreakPointList m))) @ drop i (iBreakPointList m)\<rparr>,
       local_copies a n (drop 10 (take i (iBreakPointList m)))))"
proof (induction i)
  case (Suc i)
  let ?xs = "iBreakPointList m" and ?e = "iBreakPointList m ! i"
  let ?ys = "take 10 (take i ?xs) @ map (stored K buf a n) (drop 10 (take i ?xs)) @ drop i ?xs"
  let ?m = "m\<lparr>iBreakPointList := ?ys\<rparr>" and ?l = "local_copies a n (drop 10 (take i ?xs))"
  have i: "i < Count m" using Suc.prems by simp
  have pre: "length (take 10 (take i ?xs) @ map (stored K buf a n) (drop 10 (take i ?xs))) = i"
    using i by simp
  have nth: "?ys ! i = ?e"
    using i pre by (metis append_assoc nth_append_length Cons_nth_drop_Suc)
  have temp: "IsTemporaryBreak ?m ?e \<longleftrightarrow> i < 10"
    using user_break[OF assms(1,2) i] by (simp add: IsTemporaryBreak_def not_ready_def)
  have upd: "?ys[i := f] = take 10 (take i ?xs) @ map (stored K buf a n) (drop 10 (take i ?xs)) @ f # drop (Suc i) ?xs" for f
    using i pre by (subst Cons_nth_drop_Suc[OF i, symmetric]) (simp add: list_update_append)
  show ?case
  proof (cases "10 \<le> i")
    case True
    have mem: "?e \<in> set (drop 10 ?xs)"
      using True i by (auto simp: in_set_conv_nth intro: exI[of _ "i - 10"])
    have snoc: "take 10 (take (Suc i) ?xs) = take 10 (take i ?xs)"
      "drop 10 (take (Suc i) ?xs) = drop 10 (take i ?xs) @ [?e]"
      using True i by (simp_all add: take_Suc_conv_app_nth)
    have "write_fix_body K buf a n i (?m, ?l) = Some (Inr (m\<lparr>iBreakPointList := ?ys[i := stored K buf a n ?e]\<rparr>,
        ?l @ local_copies a n [?e]))"
    proof (cases "in_block ?e a n")
      case True
      then show ?thesis
        using assms(3)[OF mem True] temp \<open>10 \<le> i\<close> nth
        by (simp add: write_fix_body_def fixup_supported stored_def local_copies_def Let_def)
    next
      case False
      moreover have "?ys[i := ?e] = ?ys"
        using nth by (metis list_update_id)
      ultimately show ?thesis
        using temp nth by (simp add: write_fix_body_def stored_def local_copies_def del: list_update_append)
    qed
    then show ?thesis
      using Suc.IH i snoc upd by (simp add: ix_loop_append local_copies_def)
  next
    case False
    have "take 10 (take (Suc i) ?xs) = take 10 (take i ?xs) @ [?e]" "drop 10 (take (Suc i) ?xs) = []"
      "drop 10 (take i ?xs) = []"
      using False i by (simp_all add: take_Suc_conv_app_nth)
    then show ?thesis
      using Suc.IH i temp nth False
      by (simp add: ix_loop_append write_fix_body_def Cons_nth_drop_Suc)
  qed
qed (simp add: local_copies_def)

lemma write_memory_core:
  assumes "brk_inv m" "\<not> not_ready m" "unat n \<le> dlen d"
    and "kRawWrite K k t a (take (unat n) (dbuf d)) = (k', Inr KErrNone)"
    and "\<And>e. e \<in> set (drop 10 (iBreakPointList m)) \<Longrightarrow> in_block e a n \<Longrightarrow> iMode e = EArmMode \<or> iMode e = EThumbMode"
  defines "m' \<equiv> m\<lparr>iBreakPointList := take 10 (iBreakPointList m) @
      map (stored K (dbuf d) a n) (drop 10 (iBreakPointList m))\<rparr>"
  shows "DoWriteMemory K k m t a n d = Some (k', KErrNone, m', local_copies a n (drop 10 (iBreakPointList m)))"
    and "brk_inv m'"
proof -
  have loop: "ix_loop (write_fix_body K (dbuf d) a n) [0..<Count m] (m, []) =
     Some (Inr (m\<lparr>iBreakPointList := take 10 (take (Count m) (iBreakPointList m)) @
         map (stored K (dbuf d) a n) (drop 10 (take (Count m) (iBreakPointList m))) @ drop (Count m) (iBreakPointList m)\<rparr>,
       local_copies a n (drop 10 (take (Count m) (iBreakPointList m)))))"
    by (rule write_fix_loop[OF assms(1,2) _ order_refl]) (rule assms(5))
  show "DoWriteMemory K k m t a n d = Some (k', KErrNone, m', local_copies a n (drop 10 (iBreakPointList m)))"
    using assms(3,4) loop
    by (simp add: DoWriteMemory_def TryToWriteMemory_def write_walk[OF brk_inv_walkable[OF assms(1)]] m'_def)
  have ids: "map iBreakId (map (stored K (dbuf d) a n) xs) = map iBreakId xs" for xs
    by (simp add: stored_def)
  have "map iBreakId (iBreakPointList m') = map iBreakId (iBreakPointList m)"
    using ids[of "drop 10 (iBreakPointList m)"] unfolding m'_def
    by (simp del: map_map) (metis append_take_drop_id map_append)
  moreover have "key (iBreakPointList m' ! i) = key (iBreakPointList m ! i)" if "i < Count m" "10 \<le> i" for i
    using that by (simp add: m'_def nth_append stored_def key_def)
  ultimately have "brk_tame m m'"
    by (simp add: brk_tame_def tame_def m'_def)
  then show "brk_inv m'" by (rule brk_inv_tame[OF assms(1)])
qed

text \<open>A successful DoWriteMemory stores the new bytes in the entry of every agent breakpoint that starts in
  the block and changes nothing else of the manager, so the invariant holds afterwards; but the breakpoint
  instructions are copied to those addresses in the driver's own address space: the target is written once,
  with the client's data, and its breakpoints are gone from memory while the entries remain.\<close>

theorem write_memory_effect:
  assumes "brk_inv m" "\<not> not_ready m" "unat n \<le> dlen d"
    and "kRawWrite K k t a (take (unat n) (dbuf d)) = (k', Inr KErrNone)"
    and "\<And>e. e \<in> set (drop 10 (iBreakPointList m)) \<Longrightarrow> in_block e a n \<Longrightarrow> iMode e = EArmMode \<or> iMode e = EThumbMode"
  shows "\<exists>m'. DoWriteMemory K k m t a n d = Some (k', KErrNone, m', local_copies a n (drop 10 (iBreakPointList m))) \<and>
     iBreakPointList m' = take 10 (iBreakPointList m) @ map (stored K (dbuf d) a n) (drop 10 (iBreakPointList m)) \<and>
     brk_inv m'"
  using write_memory_core[OF assms] by simp

theorem write_memory_effect_witness:
  "\<exists>m'. DoWriteMemory demoK demo0 demo_armed demo_thread 0x8000 4 \<lparr>dbuf = [9, 8, 7, 6], dlen = 4\<rparr> =
     Some (demo_put 0x8000 [9, 8, 7, 6] demo0, KErrNone, m', [(0x8000, [0xF4, 0x23, 0xF1, 0xE7])])"
proof -
  have "kRawWrite demoK demo0 demo_thread 0x8000 (take (unat (4::u32)) (dbuf \<lparr>dbuf = [9, 8, 7, 6], dlen = 4\<rparr>)) =
      (demo_put 0x8000 [9, 8, 7, 6] demo0, Inr KErrNone)"
    by (simp add: demoK_def)
  from write_memory_effect[OF demo_armed_inv _ this] show ?thesis
    by (auto simp: demo_armed_user mk_TBreakEntry_def local_copies_def in_block_def le32_def KArmBreakPoint_def)
qed

lemma stored_instruction:
  assumes "\<And>e. e \<in> set us \<Longrightarrow> in_block e a n \<Longrightarrow>
       (iMode e = EArmMode \<or> iMode e = EThumbMode) \<and> length (iInstruction e) = 4 \<and>
       unat (iAddress e - a) + BreakSize (iMode e) \<le> unat n"
    and "unat n \<le> dlen d" "dlen d \<le> length (dbuf d)"
    and "e \<in> set (map (stored K (dbuf d) a n) us)" "in_block e a n"
  shows "(iMode e = EArmMode \<or> iMode e = EThumbMode) \<and> length (iInstruction e) = 4 \<and>
      (\<forall>b<BreakSize (iMode e). iInstruction e ! b = dbuf d ! unat (iAddress e + of_nat b - a))"
proof -
  obtain f where f: "f \<in> set us" "e = stored K (dbuf d) a n f"
    using assms(4) by auto
  then have blk: "in_block f a n"
    using assms(5) by (auto simp: stored_def in_block_def split: if_splits)
  note fs = assms(1)[OF f(1) blk]
  let ?o = "unat (iAddress f - a)"
  have n32: "unat n < 2 ^ 32" using unsigned_less[of n] by simp
  have "iInstruction e ! b = dbuf d ! unat (iAddress e + of_nat b - a)" if b: "b < BreakSize (iMode f)" for b
  proof -
    have "iAddress f + of_nat b - a = of_nat (?o + b)" by simp
    moreover have "unat (of_nat (?o + b) :: u32) = ?o + b"
      using take_bit_nat_eq_self[of "?o + b" 32] fs b n32 by (simp add: unsigned_of_nat del: of_nat_add)
    ultimately have addr: "unat (iAddress f + of_nat b - a) = ?o + b" by metis
    have "iInstruction e ! b = bytes_from (ucast (kUninit K)) (dbuf d) ?o (BreakSize (iMode f)) ! b"
      using f(2) blk fs b by (auto simp: stored_def overwrite_nth bytes_from_def)
    also have "\<dots> = dbuf d ! (?o + b)"
      using fs b assms(2,3) by (auto simp: bytes_from_def)
    finally show ?thesis using f(2) blk addr by (simp add: stored_def)
  qed
  moreover have "iMode e = iMode f" "length (iInstruction e) = 4"
    using f(2) blk fs by (auto simp: stored_def)
  ultimately show ?thesis using fs by auto
qed

text \<open>C25: Writing a block and reading it back returns the bytes written, also where agents' breakpoints lie
  in the block, provided they lie in it entirely; of the kernel it is assumed that a raw read returns what
  the raw write of the same block stored.\<close>

theorem write_then_read_memory:
  assumes "brk_inv m" "\<not> not_ready m" "unat n \<le> dlen d" "dlen d \<le> length (dbuf d)"
    and "kRawWrite K k t a (take (unat n) (dbuf d)) = (k', Inr KErrNone)"
    and "kRawRead K k' t a (unat n) = (Inr KErrNone, raw)"
    and "\<And>e. e \<in> set (drop 10 (iBreakPointList m)) \<Longrightarrow> in_block e a n \<Longrightarrow>
       (iMode e = EArmMode \<or> iMode e = EThumbMode) \<and> length (iInstruction e) = 4 \<and>
       unat (iAddress e - a) + BreakSize (iMode e) \<le> unat n"
    and "unat n \<le> length (dbuf d2)" "\<And>j. j < unat n \<Longrightarrow> raw j = dbuf d ! j"
  shows "\<exists>m' copies d' over. DoWriteMemory K k m t a n d = Some (k', KErrNone, m', copies) \<and>
     DoReadMemory K k' m' (Some t) a n d2 = Some (KErrNone, d', over) \<and>
     take (dlen d') (dbuf d') = take (unat n) (dbuf d)"
proof -
  have modes: "\<And>e. e \<in> set (drop 10 (iBreakPointList m)) \<Longrightarrow> in_block e a n \<Longrightarrow> iMode e = EArmMode \<or> iMode e = EThumbMode"
    using assms(7) by blast
  define m' where "m' = m\<lparr>iBreakPointList := take 10 (iBreakPointList m) @
      map (stored K (dbuf d) a n) (drop 10 (iBreakPointList m))\<rparr>"
  note w = write_memory_core[OF assms(1-3,5) modes, folded m'_def]
  have ten: "10 \<le> Count m" using assms(1) by (simp add: brk_inv_def ids_ok_def)
  have users: "drop 10 (iBreakPointList m') = map (stored K (dbuf d) a n) (drop 10 (iBreakPointList m))"
    using ten by (simp add: m'_def)
  let ?orig = "\<lambda>x. dbuf d ! unat (x - a)"
  have saved: "(iMode e = EArmMode \<or> iMode e = EThumbMode) \<and> length (iInstruction e) = 4 \<and>
      (\<forall>b<BreakSize (iMode e). iInstruction e ! b = ?orig (iAddress e + of_nat b))"
    if "e \<in> set (drop 10 (iBreakPointList m'))" "in_block e a n" for e
    using stored_instruction[OF assms(7,3,4), where e = e] that unfolding users by blast
  have index: "?orig (a + of_nat j) = dbuf d ! j" if "j < unat n" for j
  proof -
    have "unat n < 2 ^ LENGTH(32)" by (rule unsigned_less)
    then have "unat (of_nat j :: u32) = j" using that by (simp add: unsigned_of_nat take_bit_nat_eq_self)
    then show ?thesis by simp
  qed
  have ready: "\<not> not_ready m'" using assms(2) by (simp add: m'_def not_ready_def)
  have raw: "raw j = ?orig (a + of_nat j) \<or> (\<exists>e\<in>set (drop 10 (iBreakPointList m')). covered e a n j)"
    if "j < unat n" for j
    using index[OF that] assms(9)[OF that] by simp
  from read_memory_core[where orig = ?orig, OF w(2) ready assms(8,6) saved raw]
  obtain d' over where r: "DoReadMemory K k' m' (Some t) a n d2 = Some (KErrNone, d', over)"
      "take (dlen d') (dbuf d') = map (\<lambda>j. ?orig (a + of_nat j)) [0..<unat n]"
    by blast
  have "map (\<lambda>j. ?orig (a + of_nat j)) [0..<unat n] = take (unat n) (dbuf d)"
    using assms(3,4) index by (intro nth_equalityI) auto
  with r w(1) show ?thesis by auto
qed

theorem write_then_read_memory_witness:
  "\<exists>k' m' copies d' over.
     DoWriteMemory demoK demo0 demo_armed demo_thread 0x8000 4 \<lparr>dbuf = [9, 8, 7, 6], dlen = 4\<rparr> = Some (k', KErrNone, m', copies) \<and>
     DoReadMemory demoK k' m' (Some demo_thread) 0x8000 4 \<lparr>dbuf = replicate 4 0, dlen = 0\<rparr> = Some (KErrNone, d', over) \<and>
     take (dlen d') (dbuf d') = [9, 8, 7, 6]"
proof -
  let ?k = "demo_put 0x8000 [9, 8, 7, 6] demo0" and ?d = "\<lparr>dbuf = [9, 8, 7, 6], dlen = 4\<rparr>"
  have lt4: "j < 4 \<Longrightarrow> j = 0 \<or> j = 1 \<or> j = 2 \<or> j = 3" for j :: nat by auto
  have w: "kRawWrite demoK demo0 demo_thread 0x8000 (take (unat (4::u32)) (dbuf ?d)) = (?k, Inr KErrNone)"
    by (simp add: demoK_def)
  have r: "kRawRead demoK ?k demo_thread 0x8000 (unat (4::u32)) = (Inr KErrNone, \<lambda>i. demo_byte ?k (0x8000 + of_nat i))"
    by (simp add: demoK_def)
  have bytes: "demo_byte ?k (0x8000 + of_nat j) = dbuf ?d ! j" if "j < unat (4::u32)" for j
    using that by (auto simp: demo_byte_def demo_put_def upt_rec dest!: lt4)
  have "\<exists>m' copies d' over. DoWriteMemory demoK demo0 demo_armed demo_thread 0x8000 4 ?d = Some (?k, KErrNone, m', copies) \<and>
     DoReadMemory demoK ?k m' (Some demo_thread) 0x8000 4 \<lparr>dbuf = replicate 4 0, dlen = 0\<rparr> = Some (KErrNone, d', over) \<and>
     take (dlen d') (dbuf d') = take (unat (4::u32)) (dbuf ?d)"
    by (rule write_then_read_memory[OF demo_armed_inv _ _ w r _ _ bytes])
      (auto simp: demo_armed_user mk_TBreakEntry_def in_block_def)
  then show ?thesis by (intro exI[of _ ?k]) simp
qed

end
