(* ===== verification/ArmDecode.thy ===== *)
theory ArmDecode
  imports RmdPrelude
begin

text \<open>
  The field extraction of src/d_rmd_stepping.inl, the two bit counts (DRMDStepping::BitCount and
  DRM_DebugChannel::Bitcount), the condition check and the data-processing table of
  src/d_rmd_stepping.cpp.  Every function has the width of the source: 32 bit for ARM, 16 bit for Thumb.
  The lemmas compare them with the tables of the ARM architecture manual the comments cite, written
  independently as the reference definitions \<^verbatim>\<open>ConditionPassed\<close>, \<^verbatim>\<open>alu\<close> and \<^verbatim>\<open>branch_offset\<close>.
\<close>

unbundle bit_operations_syntax

section \<open>Bits\<close>

definition IsBitSet :: "u32 \<Rightarrow> nat \<Rightarrow> u32" where
  "IsBitSet aBitset aNum = aBitset AND push_bit aNum 1"

definition BitCount :: "u32 \<Rightarrow> u32" where
  "BitCount aVal = foldl (\<lambda>num i. if push_bit i 1 AND aVal \<noteq> 0 then num + 1 else num) 0 [0..<32]"

text \<open>The loop of Bitcount deletes the lowest bit until none is left; each round makes the value smaller.\<close>

lemma and_dec_less: "v \<noteq> 0 \<Longrightarrow> v AND (v - 1) < (v :: u32)"
proof -
  assume "v \<noteq> 0"
  moreover have "v AND (v - 1) \<le> v - 1"
    by (rule word_and_le1)
  moreover have "v - 1 < v"
    using \<open>v \<noteq> 0\<close> by (simp add: word_less_nat_alt unat_minus_one unat_gt_0)
  ultimately show ?thesis by (meson le_less_trans)
qed

function Bitcount_loop :: "u32 \<Rightarrow> u32 \<Rightarrow> u32" where
  "Bitcount_loop nbits val = (if val = 0 then nbits else Bitcount_loop (nbits + 1) (val AND (val - 1)))"
  by pat_completeness auto

termination
  by (relation "measure (\<lambda>(n, v). unat v)") (simp_all add: and_dec_less unat_mono)

declare Bitcount_loop.simps [simp del]

definition Bitcount :: "u32 \<Rightarrow> u32" where
  "Bitcount val = Bitcount_loop 0 val"

section \<open>Fields of an instruction\<close>

definition t2opcode16special :: "u16 \<Rightarrow> u16" where
  "t2opcode16special aInst = ucast (ucast (drop_bit 5 (aInst AND 0x03C0)) :: u8)"

definition t2opcode16 :: "u16 \<Rightarrow> u16" where
  "t2opcode16 aInst = drop_bit 9 (aInst AND 0xFC00)"

definition arm_opcode :: "u32 \<Rightarrow> u32" where "arm_opcode aInst = drop_bit 25 (aInst AND 0x0E000000)"
definition arm_rm :: "u32 \<Rightarrow> u32" where "arm_rm aInst = aInst AND 0x0000000F"
definition arm_rs :: "u32 \<Rightarrow> u32" where "arm_rs aInst = drop_bit 8 (aInst AND 0x00000F00)"
definition arm_rd :: "u32 \<Rightarrow> u32" where "arm_rd aInst = drop_bit 12 (aInst AND 0x0000F000)"
definition arm_rn :: "u32 \<Rightarrow> u32" where "arm_rn aInst = drop_bit 16 (aInst AND 0x000F0000)"
definition arm_load :: "u32 \<Rightarrow> u32" where "arm_load aInst = drop_bit 20 (aInst AND 0x00100000)"
definition arm_data_shift :: "u32 \<Rightarrow> u32" where "arm_data_shift aInst = drop_bit 5 (aInst AND 0x00000060)"
definition arm_data_c :: "u32 \<Rightarrow> u32" where "arm_data_c aInst = drop_bit 7 (aInst AND 0x00000F80)"
definition arm_data_imm :: "u32 \<Rightarrow> u32" where "arm_data_imm aInst = aInst AND 0x000000FF"
definition arm_data_rot :: "u32 \<Rightarrow> u32" where "arm_data_rot aInst = drop_bit 8 (aInst AND 0x00000F00)"
definition arm_single_imm :: "u32 \<Rightarrow> u32" where "arm_single_imm aInst = aInst AND 0x00000FFF"
definition arm_single_byte :: "u32 \<Rightarrow> u32" where "arm_single_byte aInst = drop_bit 22 (aInst AND 0x00400000)"
definition arm_single_u :: "u32 \<Rightarrow> u32" where "arm_single_u aInst = drop_bit 23 (aInst AND 0x00800000)"
definition arm_single_pre :: "u32 \<Rightarrow> u32" where "arm_single_pre aInst = drop_bit 24 (aInst AND 0x01000000)"
definition arm_block_reglist :: "u32 \<Rightarrow> u32" where "arm_block_reglist aInst = aInst AND 0x0000FFFF"
definition arm_block_u :: "u32 \<Rightarrow> u32" where "arm_block_u aInst = drop_bit 23 (aInst AND 0x00800000)"
definition arm_block_pre :: "u32 \<Rightarrow> u32" where "arm_block_pre aInst = drop_bit 24 (aInst AND 0x01000000)"

definition arm_b_addr :: "u32 \<Rightarrow> u32" where
  "arm_b_addr aInst =
     (if aInst AND 0x00800000 \<noteq> 0 then (aInst AND 0x00FFFFFF) OR 0xFF000000 else aInst AND 0x00FFFFFF)"

definition arm_instr_b_dest :: "u32 \<Rightarrow> u32 \<Rightarrow> u32" where
  "arm_instr_b_dest aInst aAddress = push_bit 2 (arm_b_addr aInst) + (aAddress + 8)"

definition thumb_b_addr :: "u32 \<Rightarrow> u32" where
  "thumb_b_addr aInst =
     (let aVal = push_bit 11 (aInst AND 0x07FF) OR drop_bit 16 (aInst AND 0x07FF0000) in
      if aInst AND 0x0400 \<noteq> 0 then aVal OR 0xFFC00000 else aVal)"

definition thumb_instr_b_dest :: "u32 \<Rightarrow> u32 \<Rightarrow> u32" where
  "thumb_instr_b_dest aInst aAddress = push_bit 1 (thumb_b_addr aInst) + (aAddress + 4)"

definition arm_carry_bit :: u32 where "arm_carry_bit = 0x20000000"

definition thumb_opcode :: "u16 \<Rightarrow> u16" where "thumb_opcode aInst = drop_bit 11 (aInst AND 0xF800)"
definition thumb_inst_7_15 :: "u16 \<Rightarrow> u16" where "thumb_inst_7_15 aInst = drop_bit 7 (aInst AND 0xFF80)"
definition thumb_inst_8_15 :: "u16 \<Rightarrow> u16" where "thumb_inst_8_15 aInst = drop_bit 8 (aInst AND 0xFF00)"

section \<open>Conditions and the data-processing table\<close>

text \<open>TBool is an int: N is 8 or 0, Z 4 or 0, C 2 or 0 and V 1 or 0.\<close>

definition IsExecuted :: "u8 \<Rightarrow> u32 \<Rightarrow> bool" where
  "IsExecuted aCondition aStatusRegister =
     (let flags = drop_bit 28 aStatusRegister AND 0x0000000F;
          N = flags AND 0x00000008; Z = flags AND 0x00000004;
          C = flags AND 0x00000002; V = flags AND 0x00000001
      in if aCondition = 0 then Z \<noteq> 0
         else if aCondition = 1 then Z = 0
         else if aCondition = 2 then C \<noteq> 0
         else if aCondition = 3 then C = 0
         else if aCondition = 4 then N \<noteq> 0
         else if aCondition = 5 then N = 0
         else if aCondition = 6 then V \<noteq> 0
         else if aCondition = 7 then V = 0
         else if aCondition = 8 then C \<noteq> 0 \<and> Z = 0
         else if aCondition = 9 then C = 0 \<or> Z \<noteq> 0
         else if aCondition = 10 then N = V
         else if aCondition = 11 then N \<noteq> V
         else if aCondition = 12 then N = V \<and> Z = 0
         else if aCondition = 13 then Z \<noteq> 0 \<or> N \<noteq> V
         else if aCondition = 14 \<or> aCondition = 15 then True
         else False)"

text \<open>In cases 5 to 7 the conditional operator of C++ takes the whole sum as its condition.\<close>

definition DecodeDataProcessingInstruction :: "u8 \<Rightarrow> u32 \<Rightarrow> u32 \<Rightarrow> u32 \<Rightarrow> u32 \<Rightarrow> u32" where
  "DecodeDataProcessingInstruction aOpcode aOp1 aOp2 aStatusRegister aBreakAddress =
     (if aOpcode = 0 then aOp1 AND aOp2
      else if aOpcode = 1 then aOp1 XOR aOp2
      else if aOpcode = 2 then aOp1 - aOp2
      else if aOpcode = 3 then aOp2 - aOp1
      else if aOpcode = 4 then aOp1 + aOp2
      else if aOpcode = 5 then (if aOp1 + aOp2 + (aStatusRegister AND arm_carry_bit) \<noteq> 0 then 1 else 0)
      else if aOpcode = 6 then (if aOp1 - aOp2 - (aStatusRegister AND arm_carry_bit) \<noteq> 0 then 0 else 1)
      else if aOpcode = 7 then (if aOp2 - aOp1 - (aStatusRegister AND arm_carry_bit) \<noteq> 0 then 0 else 1)
      else if aOpcode = 12 then aOp1 OR aOp2
      else if aOpcode = 13 then aOp2
      else if aOpcode = 14 then aOp1 AND NOT aOp2
      else if aOpcode = 15 then NOT aOp2
      else aBreakAddress)"

section \<open>Reference definitions\<close>

text \<open>The number of set bits.\<close>

definition pop_count :: "u32 \<Rightarrow> nat" where
  "pop_count v = card {i. i < 32 \<and> bit v i}"

text \<open>ConditionPassed of the architecture manual: three bits choose a test, the lowest negates it.\<close>

definition flag_N :: "u32 \<Rightarrow> bool" where "flag_N sr = bit sr 31"
definition flag_Z :: "u32 \<Rightarrow> bool" where "flag_Z sr = bit sr 30"
definition flag_C :: "u32 \<Rightarrow> bool" where "flag_C sr = bit sr 29"
definition flag_V :: "u32 \<Rightarrow> bool" where "flag_V sr = bit sr 28"

definition condition_test :: "nat \<Rightarrow> u32 \<Rightarrow> bool" where
  "condition_test b sr =
     [flag_Z sr, flag_C sr, flag_N sr, flag_V sr, flag_C sr \<and> \<not> flag_Z sr, flag_N sr = flag_V sr,
      flag_N sr = flag_V sr \<and> \<not> flag_Z sr, True] ! b"

definition ConditionPassed :: "nat \<Rightarrow> u32 \<Rightarrow> bool" where
  "ConditionPassed cond sr =
     (if odd cond \<and> cond \<noteq> 15 then \<not> condition_test (cond div 2) sr else condition_test (cond div 2) sr)"

text \<open>The result of the data-processing operations that write a register.\<close>

definition carry_in :: "u32 \<Rightarrow> u32" where
  "carry_in sr = (if flag_C sr then 1 else 0)"

definition alu :: "nat \<Rightarrow> u32 \<Rightarrow> u32 \<Rightarrow> u32 \<Rightarrow> u32" where
  "alu opc a b sr =
     [a AND b, a XOR b, a - b, b - a, a + b, a + b + carry_in sr, a - b - (1 - carry_in sr),
      b - a - (1 - carry_in sr), 0, 0, 0, 0, a OR b, b, a AND NOT b, NOT b] ! opc"

text \<open>The target of a branch whose offset field has n bits, in units of \<open>2 ^ s\<close> bytes, relative to \<open>base\<close>.\<close>

definition branch_offset :: "nat \<Rightarrow> nat \<Rightarrow> u32 \<Rightarrow> int" where
  "branch_offset n s inst = 2 ^ s * signed_take_bit (n - 1) (uint inst)"

section \<open>The two bit counts\<close>

lemma clear_lowest:
  fixes v :: u32
  assumes "bit v l" and least: "\<And>i. i < l \<Longrightarrow> \<not> bit v i"
  shows "v AND (v - 1) = unset_bit l v"
proof -
  have l: "l < 32" using assms(1) bit_imp_le_length by fastforce
  have "v = unset_bit l v OR push_bit l 1"
    by (rule bit_word_eqI) (use assms l in \<open>auto simp: bit_simps\<close>)
  also have "\<dots> = unset_bit l v + push_bit l 1"
    by (rule disjunctive_add_eq_or [symmetric], rule bit_word_eqI) (auto simp: bit_simps)
  finally have "v - 1 = unset_bit l v + mask l"
    by (simp add: mask_eq_exp_minus_1 push_bit_eq_mult)
  also have "\<dots> = unset_bit l v OR mask l"
    by (rule disjunctive_add_eq_or, rule bit_word_eqI) (use least in \<open>auto simp: bit_simps\<close>)
  finally have "v - 1 = unset_bit l v OR mask l" .
  then show ?thesis
    by (intro bit_word_eqI) (use least in \<open>auto simp: bit_simps\<close>)
qed

lemma pop_count_drop:
  assumes "v \<noteq> 0"
  shows "pop_count v = Suc (pop_count (v AND (v - 1)))"
proof -
  obtain n where "bit v n"
    using assms by (metis bit_0_eq bit_eq_iff bot_apply bot_bool_def)
  define l where "l = (LEAST i. bit v i)"
  have l: "bit v l" "\<And>i. i < l \<Longrightarrow> \<not> bit v i"
    using \<open>bit v n\<close> unfolding l_def by (auto intro: LeastI dest: not_less_Least)
  have "l < 32" using l(1) bit_imp_le_length by fastforce
  have cl: "v AND (v - 1) = unset_bit l v" by (rule clear_lowest[OF l])
  have "{i. i < 32 \<and> bit v i} = insert l {i. i < 32 \<and> bit (unset_bit l v) i}"
    using l(1) \<open>l < 32\<close> by (auto simp: bit_simps)
  then show ?thesis
    by (simp add: pop_count_def cl bit_simps)
qed

lemma pop_count_le: "pop_count v \<le> 32"
  using card_mono[of "{..<32}" "{i. i < 32 \<and> bit v i}"] by (auto simp: pop_count_def)

lemma Bitcount_loop_pop: "Bitcount_loop n v = n + of_nat (pop_count v)"
proof (induction n v rule: Bitcount_loop.induct)
  case (1 n v)
  show ?case
  proof (cases "v = 0")
    case True
    then show ?thesis by (simp add: Bitcount_loop.simps[of n 0] pop_count_def)
  next
    case False
    then show ?thesis using 1[OF False] by (simp add: Bitcount_loop.simps[of n v] pop_count_drop[OF False])
  qed
qed

lemma Bitcount_pop: "Bitcount v = of_nat (pop_count v)"
  by (simp add: Bitcount_def Bitcount_loop_pop)

lemma BitCount_pop: "BitCount v = of_nat (pop_count v)"
proof -
  have "foldl (\<lambda>num i. if push_bit i 1 AND v \<noteq> 0 then num + 1 else num) 0 [0..<k] =
      (of_nat (card {i. i < k \<and> bit v i}) :: u32)" if "k \<le> 32" for k
    using that
  proof (induction k)
    case (Suc k)
    have "push_bit k 1 AND v \<noteq> 0 \<longleftrightarrow> bit v k"
      using Suc.prems by (simp add: and_exp_eq_0_iff_not_bit push_bit_eq_mult ac_simps)
    moreover have "{i. i < Suc k \<and> bit v i} =
        (if bit v k then insert k {i. i < k \<and> bit v i} else {i. i < k \<and> bit v i})"
      by (auto simp: less_Suc_eq)
    ultimately show ?case using Suc by simp
  qed simp
  then show ?thesis by (simp add: BitCount_def pop_count_def)
qed

lemma and_bit_nz: "(w AND 2 ^ n :: u32) \<noteq> 0 \<longleftrightarrow> bit w n"
  by (simp add: and_exp_eq_0_iff_not_bit)

section \<open>Conditions\<close>

lemma flag_bits:
  fixes sr :: u32
  shows "(drop_bit 28 sr AND 0xF) AND 8 = (if flag_N sr then 8 else 0)"
    "(drop_bit 28 sr AND 0xF) AND 4 = (if flag_Z sr then 4 else 0)"
    "(drop_bit 28 sr AND 0xF) AND 2 = (if flag_C sr then 2 else 0)"
    "(drop_bit 28 sr AND 0xF) AND 1 = (if flag_V sr then 1 else 0)"
proof -
  have *: "(drop_bit 28 sr AND 0xF) AND push_bit k 1 = (if bit sr (28 + k) then push_bit k 1 else 0)"
    if "k < 4" for k
  proof (rule bit_word_eqI)
    fix n assume "n < LENGTH(32)"
    have "bit (0xF :: u32) k"
      using that by (auto simp: less_Suc_eq numeral_eq_Suc)
    then show "bit ((drop_bit 28 sr AND 0xF) AND push_bit k 1) n =
        bit (if bit sr (28 + k) then push_bit k 1 else 0 :: u32) n"
      using that by (cases "n = k") (auto simp: bit_simps)
  qed
  show "(drop_bit 28 sr AND 0xF) AND 8 = (if flag_N sr then 8 else 0)" using *[of 3] by (simp add: flag_N_def)
  show "(drop_bit 28 sr AND 0xF) AND 4 = (if flag_Z sr then 4 else 0)" using *[of 2] by (simp add: flag_Z_def)
  show "(drop_bit 28 sr AND 0xF) AND 2 = (if flag_C sr then 2 else 0)" using *[of 1] by (simp add: flag_C_def)
  show "(drop_bit 28 sr AND 0xF) AND 1 = (if flag_V sr then 1 else 0)" using *[of 0] by (simp add: flag_V_def)
qed

lemma below_16: "cond < 16 \<longleftrightarrow> cond = 15 \<or> cond = 11 \<or> cond = 7 \<or> cond = 3 \<or> cond = 14 \<or> cond = 10 \<or> cond = 6 \<or> cond = 2
    \<or> cond = 13 \<or> cond = 9 \<or> cond = 5 \<or> cond = 1 \<or> cond = 12 \<or> cond = 8 \<or> cond = 4 \<or> cond = (0 :: nat)"
  by presburger

lemma IsExecuted_cases:
  assumes "cond < 16"
  shows "IsExecuted (of_nat cond) sr \<longleftrightarrow>
    (if flag_N sr \<and> flag_V sr \<and> cond \<in> {10, 11, 12, 13} then cond \<in> {11, 13} else ConditionPassed cond sr)"
  using assms unfolding below_16 IsExecuted_def Let_def flag_bits
  by (elim disjE) (simp_all add: ConditionPassed_def condition_test_def)

section \<open>Data processing and branches\<close>

lemma data_processing_alu:
  assumes "opc < 16" "opc \<notin> {5, 6, 7, 8, 9, 10, 11}"
  shows "DecodeDataProcessingInstruction (of_nat opc) a b sr old = alu opc a b sr"
  using assms unfolding below_16
  by (elim disjE) (simp_all add: DecodeDataProcessingInstruction_def alu_def)

lemma data_processing_carry:
  assumes "opc \<in> {5, 6, 7}"
  shows "DecodeDataProcessingInstruction (of_nat opc) a b sr old \<in> {0, 1}"
  using assms by (elim insertE emptyE) (simp_all add: DecodeDataProcessingInstruction_def)

lemma of_int_signed_take_bit:
  assumes "n < 32"
  shows "of_int (signed_take_bit n (uint w)) = (signed_take_bit n w :: u32)"
  by (rule bit_word_eqI) (use assms in \<open>auto simp: bit_simps min_def\<close>)

lemma arm_b_addr_sext: "arm_b_addr w = signed_take_bit 23 w"
proof -
  have m: "(0x00FFFFFF :: u32) = mask 24" "(0x00800000 :: u32) = push_bit 23 1"
      "(0xFF000000 :: u32) = push_bit 24 (mask 8)"
    by (simp_all add: mask_eq_exp_minus_1 push_bit_eq_mult)
  have b: "w AND 0x00800000 \<noteq> 0 \<longleftrightarrow> bit w 23" using and_bit_nz[of w 23] by simp
  have eq: "arm_b_addr w =
      (if bit w 23 then (w AND mask 24) OR push_bit 24 (mask 8) else w AND mask 24)"
    unfolding arm_b_addr_def b unfolding m ..
  show ?thesis
  proof (rule bit_word_eqI)
    fix n assume "n < LENGTH(32)"
    consider "n < 23" | "n = 23" | "23 < n" by linarith
    then show "bit (arm_b_addr w) n = bit (signed_take_bit 23 w) n"
      unfolding eq by cases (use \<open>n < LENGTH(32)\<close> in \<open>auto simp: bit_simps min_def\<close>)
  qed
qed

lemma arm_branch_target:
  "arm_instr_b_dest inst a = a + 8 + of_int (branch_offset 24 2 inst)"
  by (simp add: arm_instr_b_dest_def branch_offset_def arm_b_addr_sext of_int_signed_take_bit push_bit_eq_mult)

lemma thumb_b_addr_sext:
  "thumb_b_addr w = signed_take_bit 21 (push_bit 11 (take_bit 11 w) OR take_bit 11 (drop_bit 16 w))"
proof -
  have m: "(0x07FF :: u32) = mask 11" "(0x07FF0000 :: u32) = push_bit 16 (mask 11)"
      "(0x0400 :: u32) = push_bit 10 1" "(0xFFC00000 :: u32) = push_bit 22 (mask 10)"
    by (simp_all add: mask_eq_exp_minus_1 push_bit_eq_mult)
  have b: "w AND 0x0400 \<noteq> 0 \<longleftrightarrow> bit w 10" using and_bit_nz[of w 10] by simp
  have eq: "thumb_b_addr w =
      (if bit w 10 then (push_bit 11 (w AND mask 11) OR drop_bit 16 (w AND push_bit 16 (mask 11))) OR push_bit 22 (mask 10)
       else push_bit 11 (w AND mask 11) OR drop_bit 16 (w AND push_bit 16 (mask 11)))"
    unfolding thumb_b_addr_def b Let_def unfolding m ..
  show ?thesis
  proof (rule bit_word_eqI)
    fix n assume "n < LENGTH(32)"
    consider "n < 21" | "n = 21" | "21 < n" by linarith
    then show "bit (thumb_b_addr w) n =
        bit (signed_take_bit 21 (push_bit 11 (take_bit 11 w) OR take_bit 11 (drop_bit 16 w))) n"
      unfolding eq by cases (use \<open>n < LENGTH(32)\<close> in \<open>auto simp: bit_simps min_def\<close>)
  qed
qed

text \<open>The two halves of a Thumb BL hold 11 bits each, the first half the high ones.\<close>

lemma thumb_branch_target:
  "thumb_instr_b_dest inst a =
    a + 4 + of_int (branch_offset 22 1 (push_bit 11 (take_bit 11 inst) OR take_bit 11 (drop_bit 16 inst)))"
  unfolding thumb_instr_b_dest_def branch_offset_def thumb_b_addr_sext
  by (simp add: of_int_signed_take_bit push_bit_eq_mult)

end
