(* ===== verification/Stepping.thy ===== *)
theory Stepping
  imports ChannelMemory Registers ArmDecode
begin

text \<open>
  DRMDStepping (src/d_rmd_stepping.cpp): the address of the instruction that runs after the current one,
  for ARM and Thumb, and the temporary breakpoint set there for a step.

  Points to read the definitions with:
  - \<open>m\<close> is the break manager, through which DoReadMemory hides breakpoints; a fault is None;
  - a failing ReadKernelRegisterValue whose code is only logged leaves its output as it was, which is
    what \<open>reg_or_old\<close> returns;
  - ReturnIfError in a function that returns an address returns the error code as the address
    (kErrWord is the number of an error code);
  - a C++ condition \<open>inst & MASK == VALUE\<close> is \<open>inst & (MASK == VALUE)\<close>, and \<open>inst & MASK >> n\<close> is
    \<open>inst & (MASK >> n)\<close>; both are written out;
  - the processor id, the constant ECpuJf (which a build may lack) and the build switch of the v6T2
    decodings are the record cpu.
\<close>

record cpu =
  mrc_cpuid :: u32
  ECpuJf :: "u32 option"
  v6t2_decodings :: bool

definition PC_REGISTER :: u32 where "PC_REGISTER = 15"
definition LINK_REGISTER :: u32 where "LINK_REGISTER = 14"
definition SP_REGISTER :: u32 where "SP_REGISTER = 13"
definition STATUS_REGISTER :: u32 where "STATUS_REGISTER = 16"

section \<open>Reading the target\<close>

text \<open>DoReadMemory into a fresh TBuf8 of n bytes.\<close>

definition read_buf ::
  "'k kern \<Rightarrow> 'k \<Rightarrow> D_RMD_Breakpoints \<Rightarrow> DThread option \<Rightarrow> u32 \<Rightarrow> nat \<Rightarrow> (TErr \<times> u8 list) option" where
  "read_buf K k m aThread aAddress n = do {
     (err, d, over) \<leftarrow> DoReadMemory K k m aThread aAddress (of_nat n)
        \<lparr>dbuf = replicate n (ucast (kUninit K)), dlen = 0\<rparr>;
     Some (err, dbuf d)
   }"

definition ReadMem32 ::
  "'k kern \<Rightarrow> 'k \<Rightarrow> D_RMD_Breakpoints \<Rightarrow> DThread option \<Rightarrow> u32 \<Rightarrow> u32 \<Rightarrow> (TErr \<times> u32) option" where
  "ReadMem32 K k m aThread aAddress aValue = do {
     (err, valBuf) \<leftarrow> read_buf K k m aThread aAddress 4;
     Some (if err \<noteq> KErrNone then (err, aValue) else (KErrNone, of_le valBuf))
   }"

definition ReadMem16 ::
  "'k kern \<Rightarrow> 'k \<Rightarrow> D_RMD_Breakpoints \<Rightarrow> DThread option \<Rightarrow> u32 \<Rightarrow> u16 \<Rightarrow> (TErr \<times> u16) option" where
  "ReadMem16 K k m aThread aAddress aValue = do {
     (err, valBuf) \<leftarrow> read_buf K k m aThread aAddress 2;
     Some (if err \<noteq> KErrNone then (err, aValue) else (KErrNone, ucast (of_le valBuf)))
   }"

definition ReadMem8 ::
  "'k kern \<Rightarrow> 'k \<Rightarrow> D_RMD_Breakpoints \<Rightarrow> DThread option \<Rightarrow> u32 \<Rightarrow> u8 \<Rightarrow> (TErr \<times> u8) option" where
  "ReadMem8 K k m aThread aAddress aValue = do {
     (err, valBuf) \<leftarrow> read_buf K k m aThread aAddress 1;
     Some (if err \<noteq> KErrNone then (err, aValue) else (KErrNone, ucast (of_le valBuf)))
   }"

definition RegisterValue :: "'k kern \<Rightarrow> 'k \<Rightarrow> DThread option \<Rightarrow> u32 \<Rightarrow> u32 \<Rightarrow> (TErr \<times> u32) option" where
  "RegisterValue K k aThread aKernelRegisterId aValue = ReadKernelRegisterValue K k aThread aKernelRegisterId aValue"

definition reg_or_old :: "'k kern \<Rightarrow> 'k \<Rightarrow> DThread option \<Rightarrow> u32 \<Rightarrow> u32 \<Rightarrow> u32 option" where
  "reg_or_old K k aThread rn old = do {
     (err, v) \<leftarrow> ReadKernelRegisterValue K k aThread rn old;
     Some v
   }"

definition CurrentPC :: "'k kern \<Rightarrow> 'k \<Rightarrow> DThread option \<Rightarrow> u32 \<Rightarrow> (TErr \<times> u32) option" where
  "CurrentPC K k aThread aPC = do {
     (err, aPC) \<leftarrow> ReadKernelRegisterValue K k aThread PC_REGISTER aPC;
     Some (if err \<noteq> KErrNone then (KErrGeneral, aPC) else (KErrNone, aPC))
   }"

definition CurrentCPSR :: "'k kern \<Rightarrow> 'k \<Rightarrow> DThread option \<Rightarrow> u32 \<Rightarrow> (TErr \<times> u32) option" where
  "CurrentCPSR K k aThread aCPSR = do {
     (err, aCPSR) \<leftarrow> ReadKernelRegisterValue K k aThread STATUS_REGISTER aCPSR;
     Some (if err \<noteq> KErrNone then (KErrGeneral, aCPSR) else (KErrNone, aCPSR))
   }"

definition instruction_byte ::
  "'k kern \<Rightarrow> 'k \<Rightarrow> D_RMD_Breakpoints \<Rightarrow> DThread option \<Rightarrow> u32 \<Rightarrow> nat \<Rightarrow> u32 \<Rightarrow> (TErr + u32) option" where
  "instruction_byte K k m aThread pc i inst = do {
     (err, instruction) \<leftarrow> read_buf K k m aThread (pc + of_nat i) 1;
     Some (if err \<noteq> KErrNone then Inl err else Inr (push_bit 8 inst OR of_le instruction))
   }"

definition CurrentInstruction ::
  "'k kern \<Rightarrow> 'k \<Rightarrow> D_RMD_Breakpoints \<Rightarrow> DThread option \<Rightarrow> u32 \<Rightarrow> (TErr \<times> u32) option" where
  "CurrentInstruction K k m aThread aInstruction = do {
     (err, pc) \<leftarrow> CurrentPC K k aThread (kUninit K);
     if err \<noteq> KErrNone then Some (err, aInstruction)
     else do {
       res \<leftarrow> ix_loop (instruction_byte K k m aThread pc) [3, 2, 1, 0] 0;
       Some (case res of Inl err \<Rightarrow> (err, aInstruction) | Inr inst \<Rightarrow> (KErrNone, inst))
     }
   }"

definition CurrentArchMode :: "cpu \<Rightarrow> 'k kern \<Rightarrow> u32 \<Rightarrow> TErr + TArchitectureMode" where
  "CurrentArchMode c K aCpsr =
     (if (case ECpuJf c of None \<Rightarrow> False | Some jf \<Rightarrow> aCpsr AND jf \<noteq> 0) then
        if aCpsr AND kEThumbMask K \<noteq> 0 then Inr EThumb2EEMode else Inl KErrNotSupported
      else if aCpsr AND kEThumbMask K \<noteq> 0 then Inr EThumbMode
      else Inr EArmMode)"

definition IsPreviousInstructionMovePCToLR ::
  "'k kern \<Rightarrow> 'k \<Rightarrow> D_RMD_Breakpoints \<Rightarrow> DThread option \<Rightarrow> bool option" where
  "IsPreviousInstructionMovePCToLR K k m aThread = do {
     address \<leftarrow> reg_or_old K k aThread PC_REGISTER 0;
     (err, previousInstruction) \<leftarrow> read_buf K k m aThread (address - 4) 4;
     Some (if err \<noteq> KErrNone then False
           else of_le previousInstruction AND 0x0FFFFFFF = 0x01A0E00F)
   }"

text \<open>
  A shift by 32 of a 32-bit value is undefined in C++.  ShiftedRegValue guards its shifts; the rotation
  of an immediate by 0 (below) does not, and is written here as the ARM shifter does it: the result is 0.
\<close>

definition ShiftedRegValue ::
  "'k kern \<Rightarrow> 'k \<Rightarrow> DThread option \<Rightarrow> u32 \<Rightarrow> u32 \<Rightarrow> u32 \<Rightarrow> u32 option" where
  "ShiftedRegValue K k aThread aInstruction aCurrentPC aStatusRegister =
     (let shift = (if aInstruction AND 0x10 \<noteq> 0
                   then (if arm_rs aInstruction = PC_REGISTER then aCurrentPC + 8 else aStatusRegister) AND 0xFF
                   else arm_data_c aInstruction);
          rm = arm_rm aInstruction
      in do {
        res \<leftarrow> (if rm = PC_REGISTER then Some (aCurrentPC + (if aInstruction AND 0x10 \<noteq> 0 then 12 else 8))
               else reg_or_old K k aThread rm 0);
        Some (if arm_data_shift aInstruction = 0 then
                (if shift \<ge> 32 then 0 else push_bit (unat shift) res)
              else if arm_data_shift aInstruction = 1 then
                (if shift \<ge> 32 then 0 else drop_bit (unat shift) res)
              else if arm_data_shift aInstruction = 2 then
                (let shift = (if shift \<ge> 32 then 31 else shift) in
                 if res AND 0x80000000 \<noteq> 0 then NOT (drop_bit (unat shift) (NOT res)) else drop_bit (unat shift) res)
              else
                (let shift = shift AND 31 in
                 if shift = 0
                 then drop_bit 1 res OR (if aStatusRegister AND arm_carry_bit \<noteq> 0 then 0x80000000 else 0)
                 else drop_bit (unat shift) res OR push_bit (unat (32 - shift)) res))
      })"

section \<open>ARM instructions\<close>

text \<open>What PCAfterInstructionExecutes computes: its result and its two output parameters.\<close>

record pc_out =
  breakAddress :: u32
  newRangeEnd :: u32
  changingModes :: bool

text \<open>A value becomes the break address; its lowest bit may change the mode.\<close>

definition interwork :: "u32 \<Rightarrow> u32 \<Rightarrow> pc_out \<Rightarrow> pc_out" where
  "interwork changes a out =
     out\<lparr>breakAddress := a AND 0xFFFFFFFE,
         changingModes := (if a AND 0x00000001 = changes then True else changingModes out)\<rparr>"

text \<open>The break address is read from memory; on an error it stays as it is.\<close>

definition load_pc ::
  "'k kern \<Rightarrow> 'k \<Rightarrow> D_RMD_Breakpoints \<Rightarrow> DThread option \<Rightarrow> u32 \<Rightarrow> u32 \<Rightarrow> pc_out \<Rightarrow> pc_out option" where
  "load_pc K k m aThread changes base out = do {
     (err, destination) \<leftarrow> read_buf K k m aThread base 4;
     Some (if err = KErrNone then interwork changes (of_le destination) out else out)
   }"

definition arm_dp_register ::
  "'k kern \<Rightarrow> 'k \<Rightarrow> DThread option \<Rightarrow> u32 \<Rightarrow> u32 \<Rightarrow> u32 \<Rightarrow> pc_out \<Rightarrow> pc_out option" where
  "arm_dp_register K k aThread inst aCurrentPC aStatusRegister out =
     (if arm_rd inst = PC_REGISTER then do {
        rn \<leftarrow> (if arm_rn inst \<noteq> PC_REGISTER then reg_or_old K k aThread (arm_rn inst) (aCurrentPC + 8)
              else Some (aCurrentPC + 8));
        shifter \<leftarrow> ShiftedRegValue K k aThread inst aCurrentPC aStatusRegister;
        Some (out\<lparr>breakAddress := DecodeDataProcessingInstruction (ucast (drop_bit 21 (inst AND 0x01E00000)))
                    rn shifter aStatusRegister (breakAddress out)\<rparr>)
      }
      else Some out)"

definition arm_bx :: "'k kern \<Rightarrow> 'k \<Rightarrow> DThread option \<Rightarrow> u32 \<Rightarrow> pc_out \<Rightarrow> pc_out option" where
  "arm_bx K k aThread inst out = do {
     a \<leftarrow> reg_or_old K k aThread (inst AND 0x0000000F) (breakAddress out);
     Some (interwork 1 a out)
   }"

definition arm_case0 ::
  "'k kern \<Rightarrow> 'k \<Rightarrow> DThread option \<Rightarrow> u32 \<Rightarrow> u32 \<Rightarrow> u32 \<Rightarrow> pc_out \<Rightarrow> pc_out option" where
  "arm_case0 K k aThread inst aCurrentPC aStatusRegister out =
     (if drop_bit 4 (inst AND 0x00000010) = 0 then
        if drop_bit 23 (inst AND 0x01800000) = 2 then Some out
        else arm_dp_register K k aThread inst aCurrentPC aStatusRegister out
      else if drop_bit 7 (inst AND 0x00000080) = 0 then
        if drop_bit 20 (inst AND 0x01900000) = 0x10 then
          if drop_bit 4 (inst AND 0x000000F0) = 1 then
            if drop_bit 22 (inst AND 0x00400000) = 0 then arm_bx K k aThread inst out else Some out
          else if drop_bit 4 (inst AND 0x000000F0) = 3 then arm_bx K k aThread inst out
          else Some out
        else if drop_bit 23 (inst AND 0x01800000) = 2 then Some out
        else arm_dp_register K k aThread inst aCurrentPC aStatusRegister out
      else Some out)"

definition arm_case1 ::
  "'k kern \<Rightarrow> 'k \<Rightarrow> DThread option \<Rightarrow> u32 \<Rightarrow> u32 \<Rightarrow> pc_out \<Rightarrow> pc_out option" where
  "arm_case1 K k aThread inst aStatusRegister out =
     (if drop_bit 23 (inst AND 0x01800000) = 2 then Some out
      else if arm_rd inst = PC_REGISTER then do {
        rn \<leftarrow> reg_or_old K k aThread (arm_rn inst) (kUninit K);
        let shifter = drop_bit (unat (arm_data_rot inst)) (arm_data_imm inst) OR
                      push_bit (unat (32 - arm_data_rot inst)) (arm_data_imm inst);
        Some (out\<lparr>breakAddress := DecodeDataProcessingInstruction (ucast (drop_bit 21 (inst AND 0x01E00000)))
                    rn shifter aStatusRegister (breakAddress out)\<rparr>)
      }
      else Some out)"

definition arm_case2 ::
  "'k kern \<Rightarrow> 'k \<Rightarrow> D_RMD_Breakpoints \<Rightarrow> DThread option \<Rightarrow> u32 \<Rightarrow> u32 \<Rightarrow> pc_out \<Rightarrow> pc_out option" where
  "arm_case2 K k m aThread inst aCurrentPC out =
     (if arm_load inst \<noteq> 0 \<and> arm_rd inst = PC_REGISTER then do {
        base \<leftarrow> reg_or_old K k aThread (arm_rn inst) (kUninit K);
        let base = (if arm_rn inst = PC_REGISTER then aCurrentPC + 8 else base);
        let base = (if arm_single_pre inst \<noteq> 0 then
                      if arm_single_u inst \<noteq> 0 then base + arm_single_imm inst else base - arm_single_imm inst
                    else base);
        load_pc K k m aThread 1 base out
      }
      else Some out)"

definition arm_case3 ::
  "'k kern \<Rightarrow> 'k \<Rightarrow> D_RMD_Breakpoints \<Rightarrow> DThread option \<Rightarrow> u32 \<Rightarrow> u32 \<Rightarrow> u32 \<Rightarrow> pc_out \<Rightarrow> pc_out option" where
  "arm_case3 K k m aThread inst aCurrentPC aStatusRegister out =
     (if inst AND 0xF0000000 \<noteq> 0xF0000000 \<and> inst AND 0x00000010 = 0 \<and>
         arm_load inst \<noteq> 0 \<and> arm_rd inst = PC_REGISTER then do {
        base \<leftarrow> (if arm_rn inst = PC_REGISTER then Some (aCurrentPC + 8) else reg_or_old K k aThread (arm_rn inst) 0);
        base \<leftarrow> (if arm_single_pre inst \<noteq> 0 then do {
                   offset \<leftarrow> ShiftedRegValue K k aThread inst aCurrentPC aStatusRegister;
                   Some (if arm_single_u inst \<noteq> 0 then base + offset else base - offset)
                 } else Some base);
        load_pc K k m aThread 1 base out
      }
      else Some out)"

definition block_offset :: "u32 \<Rightarrow> u32" where
  "block_offset inst =
     (if arm_block_u inst \<noteq> 0
      then Bitcount (arm_block_reglist inst) * 4 - 4 + (if arm_block_pre inst \<noteq> 0 then 4 else 0)
      else if arm_block_pre inst \<noteq> 0 then - 4 else 0)"

definition arm_case4 ::
  "'k kern \<Rightarrow> 'k \<Rightarrow> D_RMD_Breakpoints \<Rightarrow> DThread option \<Rightarrow> u32 \<Rightarrow> pc_out \<Rightarrow> pc_out option" where
  "arm_case4 K k m aThread inst out =
     (if inst AND 0xF0000000 \<noteq> 0xF0000000 \<and> arm_load inst \<noteq> 0 \<and> drop_bit 15 (inst AND 0x00008000) \<noteq> 0 then do {
        temp \<leftarrow> reg_or_old K k aThread (arm_rn inst) 0;
        load_pc K k m aThread 1 (temp + block_offset inst) out
      }
      else Some out)"

definition arm_case5 :: "u32 \<Rightarrow> u32 \<Rightarrow> pc_out \<Rightarrow> pc_out" where
  "arm_case5 inst aCurrentPC out =
     (if inst AND 0xF0000000 = 0xF0000000
      then out\<lparr>breakAddress := arm_instr_b_dest inst aCurrentPC AND 0xFFFFFFFE, changingModes := True\<rparr>
      else out\<lparr>breakAddress := arm_instr_b_dest inst aCurrentPC\<rparr>)"

definition arm_step ::
  "'k kern \<Rightarrow> 'k \<Rightarrow> D_RMD_Breakpoints \<Rightarrow> DThread option \<Rightarrow> u32 \<Rightarrow> u32 \<Rightarrow> pc_out \<Rightarrow> pc_out option" where
  "arm_step K k m aThread aCurrentPC aStatusRegister out = do {
     (err, inst) \<leftarrow> CurrentInstruction K k m aThread (kUninit K);
     if err \<noteq> KErrNone then Some (out\<lparr>breakAddress := kErrWord K err\<rparr>)
     else if IsExecuted (ucast (drop_bit 28 inst AND 0x0000000F)) aStatusRegister then
       if arm_opcode inst = 0 then arm_case0 K k aThread inst aCurrentPC aStatusRegister out
       else if arm_opcode inst = 1 then arm_case1 K k aThread inst aStatusRegister out
       else if arm_opcode inst = 2 then arm_case2 K k m aThread inst aCurrentPC out
       else if arm_opcode inst = 3 then arm_case3 K k m aThread inst aCurrentPC aStatusRegister out
       else if arm_opcode inst = 4 then arm_case4 K k m aThread inst out
       else if arm_opcode inst = 5 then Some (arm_case5 inst aCurrentPC out)
       else Some out
     else Some out
   }"

section \<open>The v6T2 decodings\<close>

text \<open>
  Each block returns Inl when it leaves the switch (a \<open>break\<close> or an error return) and Inr when the code
  goes on to the next block.  \<open>and_eq\<close> is the C++ expression \<open>x & mask == val\<close>.
\<close>

definition and_eq :: "u32 \<Rightarrow> int \<Rightarrow> int \<Rightarrow> u32" where
  "and_eq x msk val = x AND (if msk = val then 1 else 0)"

definition with_register ::
  "'k kern \<Rightarrow> 'k \<Rightarrow> DThread option \<Rightarrow> u32 \<Rightarrow> u32 \<Rightarrow> pc_out \<Rightarrow> (u32 \<Rightarrow> (pc_out + pc_out) option) \<Rightarrow>
     (pc_out + pc_out) option" where
  "with_register K k aThread n old out cont = do {
     (err, v) \<leftarrow> RegisterValue K k aThread n old;
     if err \<noteq> KErrNone then Some (Inl (out\<lparr>breakAddress := kErrWord K err\<rparr>)) else cont v
   }"

definition with_mem32 ::
  "'k kern \<Rightarrow> 'k \<Rightarrow> D_RMD_Breakpoints \<Rightarrow> DThread option \<Rightarrow> u32 \<Rightarrow> u32 \<Rightarrow> pc_out \<Rightarrow>
     (u32 \<Rightarrow> (pc_out + pc_out) option) \<Rightarrow> (pc_out + pc_out) option" where
  "with_mem32 K k m aThread a old out cont = do {
     (err, v) \<leftarrow> ReadMem32 K k m aThread a old;
     if err \<noteq> KErrNone then Some (Inl (out\<lparr>breakAddress := kErrWord K err\<rparr>)) else cont v
   }"

text \<open>The loops that add four for each of the registers 0 to 14 in a list.\<close>

definition skip_registers :: "u32 \<Rightarrow> u32 \<Rightarrow> u32" where
  "skip_registers registers address =
     foldl (\<lambda>a i. if IsBitSet registers i \<noteq> 0 then a + 4 else a) address [0..<15]"

definition t2_cbz ::
  "'k kern \<Rightarrow> 'k \<Rightarrow> DThread option \<Rightarrow> u16 \<Rightarrow> u32 \<Rightarrow> pc_out \<Rightarrow> (pc_out + pc_out) option" where
  "t2_cbz K k aThread inst aCurrentPC out =
     (if inst AND 0xF500 = 0xB100 then
        let op = drop_bit 11 (ucast inst AND 0x0800 :: u32);
            i = drop_bit 9 (ucast inst AND 0x0200 :: u32);
            imm5 = drop_bit 3 (ucast inst AND 0x00F8 :: u32);
            Rn = ucast inst AND 0x0007 :: u32;
            imm32 = push_bit 6 i OR push_bit 1 imm5
        in with_register K k aThread Rn 0 out (\<lambda>RnVal.
             Some (Inr (if (op \<noteq> 0) = (RnVal \<noteq> 0) then out\<lparr>breakAddress := aCurrentPC + imm32\<rparr> else out)))
      else Some (Inr out))"

definition t2_it :: "u16 \<Rightarrow> pc_out \<Rightarrow> (pc_out + pc_out) option" where
  "t2_it inst out =
     (if inst AND 0xFF00 = 0xBF00 then
        let firstcond = ucast inst AND drop_bit 4 0x00F0 :: u32; mask = ucast inst AND 0x000F :: u32 in
        if firstcond = 0xF then Some (Inl out)
        else if firstcond = 0xE \<and> BitCount mask \<noteq> 1 then Some (Inl out)
        else Some (Inr out)
      else Some (Inr out))"

definition t2_subs_pc_lr ::
  "'k kern \<Rightarrow> 'k \<Rightarrow> DThread option \<Rightarrow> u32 \<Rightarrow> pc_out \<Rightarrow> (pc_out + pc_out) option" where
  "t2_subs_pc_lr K k aThread inst32 out =
     (if and_eq inst32 0xFFFFFF00 0xF3DE8F00 \<noteq> 0 then
        let imm32 = inst32 AND 0x000000FF in
        with_register K k aThread 14 (kUninit K) out (\<lambda>lrVal.
          Some (Inr (out\<lparr>breakAddress := lrVal - imm32\<rparr>)))
      else Some (Inr out))"

definition t2_b_t3 :: "u32 \<Rightarrow> u32 \<Rightarrow> pc_out \<Rightarrow> (pc_out + pc_out) option" where
  "t2_b_t3 inst32 aCurrentPC out =
     (if and_eq inst32 0xF800D000 0xF0008000 \<noteq> 0 then
        let S = inst32 AND drop_bit 26 0x04000000;
            imm6 = inst32 AND drop_bit 16 0x003F0000;
            J1 = inst32 AND drop_bit 13 0x00002000;
            J2 = inst32 AND drop_bit 11 0x00000800;
            imm11 = inst32 AND 0x000007FF;
            imm32 = (if S \<noteq> 0 then 0xFFFFFFFF else 0);
            imm32 = push_bit 1 imm32 OR J2;
            imm32 = push_bit 1 imm32 OR J1;
            imm32 = push_bit 6 imm32 OR imm6;
            imm32 = push_bit 11 imm32 OR imm11;
            imm32 = push_bit 1 imm32 OR 0
        in Some (Inr (out\<lparr>breakAddress := aCurrentPC + imm32\<rparr>))
      else Some (Inr out))"

definition t2_b_t4 :: "u32 \<Rightarrow> u32 \<Rightarrow> pc_out \<Rightarrow> (pc_out + pc_out) option" where
  "t2_b_t4 inst32 aCurrentPC out =
     (if and_eq inst32 0xF800D000 0xF0009000 \<noteq> 0 then
        let S = inst32 AND drop_bit 26 0x04000000;
            imm10 = inst32 AND drop_bit 16 0x03FF0000;
            J1 = inst32 AND drop_bit 12 0x00002000;
            J2 = inst32 AND drop_bit 11 0x00000800;
            imm11 = inst32 AND 0x000003FF;
            I1 = (if J1 XOR S = 0 then 1 else 0);
            I2 = (if J2 XOR S = 0 then 1 else 0);
            imm32 = (if S \<noteq> 0 then 0xFFFFFFFF else 0);
            imm32 = push_bit 1 imm32 OR S;
            imm32 = push_bit 1 imm32 OR I1;
            imm32 = push_bit 1 imm32 OR I2;
            imm32 = push_bit 10 imm32 OR imm10;
            imm32 = push_bit 11 imm32 OR imm11;
            imm32 = push_bit 1 imm32 OR 0
        in Some (Inr (out\<lparr>breakAddress := aCurrentPC + imm32\<rparr>))
      else Some (Inr out))"

definition t2_tbb ::
  "'k kern \<Rightarrow> 'k \<Rightarrow> D_RMD_Breakpoints \<Rightarrow> DThread option \<Rightarrow> u32 \<Rightarrow> u32 \<Rightarrow> pc_out \<Rightarrow> (pc_out + pc_out) option" where
  "t2_tbb K k m aThread inst32 aCurrentPC out =
     (if and_eq inst32 0xFFF0FFE0 0xE8D0F000 \<noteq> 0 then
        let Rn = inst32 AND drop_bit 16 0x000F0000;
            H = inst32 AND drop_bit 4 0x00000010;
            Rm = inst32 AND 0x0000000F
        in if Rm = 13 \<or> Rm = 15 then Some (Inl out)
           else with_register K k aThread Rn (kUninit K) out (\<lambda>address.
             with_register K k aThread Rm (kUninit K) out (\<lambda>offset.
               let address = (if H \<noteq> 0 then address + push_bit 1 offset else address + offset) in
               with_mem32 K k m aThread address (kUninit K) out (\<lambda>halfwords.
                 Some (Inl (out\<lparr>breakAddress := aCurrentPC + 2 * halfwords\<rparr>)))))
      else Some (Inr out))"

definition t2_ldmdb ::
  "'k kern \<Rightarrow> 'k \<Rightarrow> D_RMD_Breakpoints \<Rightarrow> DThread option \<Rightarrow> u32 \<Rightarrow> pc_out \<Rightarrow> (pc_out + pc_out) option" where
  "t2_ldmdb K k m aThread inst32 out =
     (if and_eq inst32 0xFFD02000 0xE9100000 \<noteq> 0 then
        let Rn = inst32 AND drop_bit 16 0x000F0000;
            P = inst32 AND drop_bit 15 0x00008000;
            M = inst32 AND drop_bit 14 0x00004000;
            registers = inst32 AND 0x00001FFF
        in if Rn = 15 \<or> BitCount registers < 2 \<or> (P = 1 \<and> M = 1) then Some (Inl out)
           else with_register K k aThread Rn (kUninit K) out (\<lambda>address.
             let address = skip_registers registers (address - 4 * BitCount registers) in
             if IsBitSet registers 15 \<noteq> 0
             then with_mem32 K k m aThread address 0 out (\<lambda>RnVal. Some (Inl (out\<lparr>breakAddress := RnVal\<rparr>)))
             else Some (Inl out))
      else Some (Inr out))"

definition t2_pop_t2 ::
  "'k kern \<Rightarrow> 'k \<Rightarrow> D_RMD_Breakpoints \<Rightarrow> DThread option \<Rightarrow> u32 \<Rightarrow> pc_out \<Rightarrow> (pc_out + pc_out) option" where
  "t2_pop_t2 K k m aThread inst32 out =
     (if and_eq inst32 0xFFFF2000 0xE8BD0000 \<noteq> 0 then
        let registers = inst32 AND 0x00001FFF;
            P = inst32 AND 0x00008000;
            M = inst32 AND 0x00004000
        in if BitCount registers < 2 \<or> (P = 1 \<and> M = 1) then Some (Inl out)
           else with_register K k aThread 13 (kUninit K) out (\<lambda>address.
             let address = skip_registers registers address in
             if IsBitSet registers 15 \<noteq> 0
             then with_mem32 K k m aThread address (breakAddress out) out (\<lambda>v. Some (Inr (out\<lparr>breakAddress := v\<rparr>)))
             else Some (Inr out))
      else Some (Inr out))"

text \<open>The mask of the next condition has nine digits in the source.\<close>

definition t2_pop_t3 ::
  "'k kern \<Rightarrow> 'k \<Rightarrow> D_RMD_Breakpoints \<Rightarrow> DThread option \<Rightarrow> u32 \<Rightarrow> pc_out \<Rightarrow> (pc_out + pc_out) option" where
  "t2_pop_t3 K k m aThread inst32 out =
     (if and_eq inst32 0xFFFF0FFFF 0xF85D0B04 \<noteq> 0 then
        let Rt = inst32 AND drop_bit 12 0x0000F000;
            registers = push_bit (unat Rt) 1
        in if Rt = 13 \<or> Rt = 15 then Some (Inl out)
           else with_register K k aThread 13 (kUninit K) out (\<lambda>address.
             let address = skip_registers registers address in
             if IsBitSet registers 15 \<noteq> 0
             then with_mem32 K k m aThread address (breakAddress out) out (\<lambda>v. Some (Inl (out\<lparr>breakAddress := v\<rparr>)))
             else Some (Inl out))
      else Some (Inr out))"

definition t2_ldm ::
  "'k kern \<Rightarrow> 'k \<Rightarrow> D_RMD_Breakpoints \<Rightarrow> DThread option \<Rightarrow> u32 \<Rightarrow> pc_out \<Rightarrow> (pc_out + pc_out) option" where
  "t2_ldm K k m aThread inst32 out =
     (if inst32 AND 0xFFD02000 = 0xE8900000 then
        let Rn = inst32 AND drop_bit 16 0x000F0000;
            P = inst32 AND drop_bit 15 0x00008000;
            M = inst32 AND drop_bit 14 0x00004000;
            registers = inst32 AND 0x0000FFFF;
            register_list = inst32 AND 0x00001FFF
        in if Rn = 15 \<or> BitCount register_list < 2 \<or> (P = 1 \<and> M = 1) then Some (Inl out)
           else with_register K k aThread Rn (kUninit K) out (\<lambda>RnVal.
             let address = skip_registers registers RnVal in
             if IsBitSet registers 15 \<noteq> 0
             then with_mem32 K k m aThread address (breakAddress out) out (\<lambda>v. Some (Inl (out\<lparr>breakAddress := v\<rparr>)))
             else Some (Inl out))
      else Some (Inr out))"

text \<open>The three RFE decodings share their reads; \<open>res\<close> picks the result from the register and the address.\<close>

definition rfe ::
  "'k kern \<Rightarrow> 'k \<Rightarrow> D_RMD_Breakpoints \<Rightarrow> DThread option \<Rightarrow> u32 \<Rightarrow> bool \<Rightarrow> bool \<Rightarrow> (u32 \<Rightarrow> u32 \<Rightarrow> u32) \<Rightarrow> pc_out \<Rightarrow>
     (pc_out + pc_out) option" where
  "rfe K k m aThread inst32 increment wordhigher res out =
     (let Rn = drop_bit 16 (inst32 AND 0x000F0000) in
      if Rn = 15 then Some (Inl out)
      else with_register K k aThread Rn 0 out (\<lambda>RnVal.
        with_mem32 K k m aThread RnVal 0 out (\<lambda>address.
          let address = (if increment then address - 8 else address);
              address = (if wordhigher then address + 4 else address)
          in Some (Inl (out\<lparr>breakAddress := res RnVal address\<rparr>)))))"

definition t2_rfe_t1 ::
  "'k kern \<Rightarrow> 'k \<Rightarrow> D_RMD_Breakpoints \<Rightarrow> DThread option \<Rightarrow> u32 \<Rightarrow> pc_out \<Rightarrow> (pc_out + pc_out) option" where
  "t2_rfe_t1 K k m aThread inst32 out =
     (if inst32 AND 0xFFD0FFFF = 0xE810C000
      then rfe K k m aThread inst32 False False (\<lambda>RnVal address. address) out
      else Some (Inr out))"

definition t2_rfe_t2 ::
  "'k kern \<Rightarrow> 'k \<Rightarrow> D_RMD_Breakpoints \<Rightarrow> DThread option \<Rightarrow> u32 \<Rightarrow> pc_out \<Rightarrow> (pc_out + pc_out) option" where
  "t2_rfe_t2 K k m aThread inst32 out =
     (if inst32 AND 0xFFD0FFFF = 0xE990C000
      then rfe K k m aThread inst32 True False (\<lambda>RnVal address. RnVal) out
      else Some (Inr out))"

definition t2_rfe_a1 ::
  "'k kern \<Rightarrow> 'k \<Rightarrow> D_RMD_Breakpoints \<Rightarrow> DThread option \<Rightarrow> u32 \<Rightarrow> pc_out \<Rightarrow> (pc_out + pc_out) option" where
  "t2_rfe_a1 K k m aThread inst32 out =
     (if inst32 AND 0xFE50FFFF = 0xF8100A00 then
        let P = drop_bit 24 (inst32 AND 0x01000000); U = drop_bit 23 (inst32 AND 0x00800000)
        in rfe K k m aThread inst32 (U = 1) (P = U) (\<lambda>RnVal address. address) out
      else Some (Inr out))"

text \<open>Lines 869 to 875 (BXJ) only write a log message and have no block here.\<close>

fun run_blocks :: "('s \<Rightarrow> ('r + 's) option) list \<Rightarrow> 's \<Rightarrow> ('r + 's) option" where
  "run_blocks [] s = Some (Inr s)"
| "run_blocks (b # bs) s =
     (case b s of
        None \<Rightarrow> None
      | Some (Inl r) \<Rightarrow> Some (Inl r)
      | Some (Inr s') \<Rightarrow> run_blocks bs s')"

definition v6t2_step ::
  "'k kern \<Rightarrow> 'k \<Rightarrow> D_RMD_Breakpoints \<Rightarrow> DThread option \<Rightarrow> u16 \<Rightarrow> u32 \<Rightarrow> u32 \<Rightarrow> pc_out \<Rightarrow> (pc_out + pc_out) option" where
  "v6t2_step K k m aThread inst inst32 aCurrentPC out =
     run_blocks
       [t2_cbz K k aThread inst aCurrentPC,
        t2_it inst,
        t2_subs_pc_lr K k aThread inst32,
        t2_b_t3 inst32 aCurrentPC,
        t2_b_t4 inst32 aCurrentPC,
        t2_tbb K k m aThread inst32 aCurrentPC,
        t2_ldmdb K k m aThread inst32,
        t2_pop_t2 K k m aThread inst32,
        t2_pop_t3 K k m aThread inst32,
        t2_ldm K k m aThread inst32,
        t2_rfe_t1 K k m aThread inst32,
        t2_rfe_t2 K k m aThread inst32,
        t2_rfe_a1 K k m aThread inst32] out"

section \<open>Thumb instructions\<close>

text \<open>BLX(2) and BX; MOV and ADD to the PC; POP; the branches; the two halves of BL and BLX.\<close>

definition thumb_rm :: "u16 \<Rightarrow> u32" where
  "thumb_rm inst = drop_bit 3 (ucast inst AND 0x0078)"

definition thumb_data ::
  "'k kern \<Rightarrow> 'k \<Rightarrow> DThread option \<Rightarrow> u16 \<Rightarrow> u32 \<Rightarrow> pc_out \<Rightarrow> pc_out option" where
  "thumb_data K k aThread inst aCurrentPC out =
     (if thumb_inst_7_15 inst = 0x08F \<or> thumb_inst_7_15 inst = 0x08E then do {
        a \<leftarrow> reg_or_old K k aThread (thumb_rm inst) (breakAddress out);
        Some (interwork 0 a out)
      }
      else if thumb_inst_8_15 inst = 0x46 \<and> inst AND 0x87 = 0x87 then do {
        a \<leftarrow> reg_or_old K k aThread (thumb_rm inst) (breakAddress out);
        Some (out\<lparr>breakAddress := a\<rparr>)
      }
      else if thumb_inst_8_15 inst = 0x44 \<and> inst AND 0x87 = 0x87 then do {
        a \<leftarrow> reg_or_old K k aThread (thumb_rm inst) (breakAddress out);
        Some (out\<lparr>breakAddress := a + (aCurrentPC + 4)\<rparr>)
      }
      else Some out)"

definition thumb_pop ::
  "'k kern \<Rightarrow> 'k \<Rightarrow> D_RMD_Breakpoints \<Rightarrow> DThread option \<Rightarrow> u16 \<Rightarrow> pc_out \<Rightarrow> pc_out option" where
  "thumb_pop K k m aThread inst out =
     (if thumb_inst_8_15 inst = 0xBD then do {
        offset \<leftarrow> reg_or_old K k aThread SP_REGISTER 0;
        load_pc K k m aThread 0 (offset + Bitcount (ucast inst AND 0x00FF) * 4) out
      }
      else Some out)"

definition thumb_b1 :: "u16 \<Rightarrow> u32 \<Rightarrow> u32 \<Rightarrow> pc_out \<Rightarrow> pc_out" where
  "thumb_b1 inst aCurrentPC aStatusRegister out =
     (if thumb_inst_8_15 inst < 0xDE \<and> IsExecuted (ucast (drop_bit 8 (inst AND 0x0F00))) aStatusRegister then
        let offset = push_bit 1 (ucast inst AND 0x000000FF) :: u32;
            offset = (if offset AND 0x00000100 \<noteq> 0 then offset OR 0xFFFFFF00 else offset)
        in out\<lparr>breakAddress := aCurrentPC + 4 + offset\<rparr>
      else out)"

definition thumb_b2 :: "u16 \<Rightarrow> u32 \<Rightarrow> pc_out \<Rightarrow> pc_out" where
  "thumb_b2 inst aCurrentPC out =
     (let offset = push_bit 1 (ucast inst AND 0x000007FF) :: u32;
          offset = (if offset AND 0x00000800 \<noteq> 0 then offset OR 0xFFFFF800 else offset)
      in out\<lparr>breakAddress := aCurrentPC + 4 + offset\<rparr>)"

definition thumb_blx1 :: "'k kern \<Rightarrow> 'k \<Rightarrow> DThread option \<Rightarrow> u16 \<Rightarrow> pc_out \<Rightarrow> pc_out option" where
  "thumb_blx1 K k aThread inst out =
     (if inst AND 0x0001 = 0 then do {
        a \<leftarrow> reg_or_old K k aThread LINK_REGISTER (breakAddress out);
        let a = a + push_bit 1 (ucast inst AND 0x07FF);
        Some (out\<lparr>breakAddress := a AND 0xFFFFFFFC,
                  changingModes := (if a AND 0x00000001 = 0 then True else changingModes out)\<rparr>)
      }
      else Some out)"

definition thumb_bl_prefix :: "u32 \<Rightarrow> u32 \<Rightarrow> u32 \<Rightarrow> pc_out \<Rightarrow> pc_out" where
  "thumb_bl_prefix cpuid inst32 aCurrentPC out =
     (if cpuid = 0xC0 then
        let a = thumb_instr_b_dest inst32 aCurrentPC;
            out = out\<lparr>newRangeEnd := newRangeEnd out + 4\<rparr>
        in if drop_bit 27 inst32 = 0x1D
           then out\<lparr>breakAddress := a AND 0xFFFFFFFC,
                    changingModes := (if a AND 0x00000001 = 0 then True else changingModes out)\<rparr>
           else out\<lparr>breakAddress := a\<rparr>
      else out\<lparr>newRangeEnd := newRangeEnd out + 2\<rparr>)"

definition thumb_bl :: "'k kern \<Rightarrow> 'k \<Rightarrow> DThread option \<Rightarrow> u16 \<Rightarrow> pc_out \<Rightarrow> pc_out option" where
  "thumb_bl K k aThread inst out = do {
     a \<leftarrow> reg_or_old K k aThread LINK_REGISTER (breakAddress out);
     Some (out\<lparr>breakAddress := a + push_bit 1 (ucast inst AND 0x07FF)\<rparr>)
   }"

definition thumb_switch ::
  "'k kern \<Rightarrow> 'k \<Rightarrow> D_RMD_Breakpoints \<Rightarrow> DThread option \<Rightarrow> u32 \<Rightarrow> u16 \<Rightarrow> u32 \<Rightarrow> u32 \<Rightarrow> u32 \<Rightarrow> pc_out \<Rightarrow> pc_out option" where
  "thumb_switch K k m aThread cpuid inst inst32 aCurrentPC aStatusRegister out =
     (if thumb_opcode inst = 0x08 then thumb_data K k aThread inst aCurrentPC out
      else if thumb_opcode inst = 0x13 then Some out
      else if thumb_opcode inst = 0x17 then thumb_pop K k m aThread inst out
      else if thumb_opcode inst = 0x1A \<or> thumb_opcode inst = 0x1B
        then Some (thumb_b1 inst aCurrentPC aStatusRegister out)
      else if thumb_opcode inst = 0x1C then Some (thumb_b2 inst aCurrentPC out)
      else if thumb_opcode inst = 0x1D then thumb_blx1 K k aThread inst out
      else if thumb_opcode inst = 0x1E then Some (thumb_bl_prefix cpuid inst32 aCurrentPC out)
      else if thumb_opcode inst = 0x1F then thumb_bl K k aThread inst out
      else Some out)"

definition thumb_step ::
  "cpu \<Rightarrow> 'k kern \<Rightarrow> 'k \<Rightarrow> D_RMD_Breakpoints \<Rightarrow> DThread option \<Rightarrow> u32 \<Rightarrow> u32 \<Rightarrow> pc_out \<Rightarrow> pc_out option" where
  "thumb_step c K k m aThread aCurrentPC aStatusRegister out = do {
     (err, inst32) \<leftarrow> CurrentInstruction K k m aThread (kUninit K);
     if err \<noteq> KErrNone then Some (out\<lparr>breakAddress := kErrWord K err\<rparr>)
     else do {
       let inst = (ucast (inst32 AND 0xFFFF) :: u16);
       res \<leftarrow> (if v6t2_decodings c then v6t2_step K k m aThread inst inst32 aCurrentPC out else Some (Inr out));
       (case res of
          Inl out \<Rightarrow> Some out
        | Inr out \<Rightarrow> thumb_switch K k m aThread (drop_bit 8 (mrc_cpuid c) AND 0xFF) inst inst32 aCurrentPC
                      aStatusRegister out)
     }
   }"

section \<open>PCAfterInstructionExecutes and ModifyBreaksForStep\<close>

definition PCAfterInstructionExecutes ::
  "cpu \<Rightarrow> 'k kern \<Rightarrow> 'k \<Rightarrow> D_RMD_Breakpoints \<Rightarrow> DThread option \<Rightarrow> u32 \<Rightarrow> u32 \<Rightarrow> u32 \<Rightarrow> u32 \<Rightarrow> bool \<Rightarrow> pc_out option" where
  "PCAfterInstructionExecutes c K k m aThread aCurrentPC aStatusRegister aInstSize aNewRangeEnd aChangingModes =
     (let out = \<lparr>breakAddress = aCurrentPC + aInstSize, newRangeEnd = aNewRangeEnd, changingModes = aChangingModes\<rparr>
      in do {
        (err, cpsr) \<leftarrow> CurrentCPSR K k aThread (kUninit K);
        if err \<noteq> KErrNone then Some (out\<lparr>breakAddress := kErrWord K err\<rparr>)
        else (case CurrentArchMode c K cpsr of
                Inl err \<Rightarrow> Some (out\<lparr>breakAddress := kErrWord K err\<rparr>)
              | Inr EArmMode \<Rightarrow> arm_step K k m aThread aCurrentPC aStatusRegister out
              | Inr EThumbMode \<Rightarrow> thumb_step c K k m aThread aCurrentPC aStatusRegister out
              | Inr _ \<Rightarrow> Some out)
      })"

text \<open>The two walks of ModifyBreaksForStep: an agent's breakpoint at the address ends the steps there,
  and otherwise the first free temporary entry is filled and written to the target.\<close>

definition step_existing_body ::
  "DThread \<Rightarrow> u32 \<Rightarrow> nat \<Rightarrow> D_RMD_Breakpoints \<Rightarrow> (D_RMD_Breakpoints + D_RMD_Breakpoints) option" where
  "step_existing_body aThread address i m =
     (let e = iBreakPointList m ! i in
      if \<not> IsTemporaryBreak m e \<and> iAddress e = address \<and>
         (iThreadSpecific e \<and> iId e = tId aThread \<or>
          \<not> iThreadSpecific e \<and> iId e = pId (iOwningProcess aThread))
      then Some (Inl (m\<lparr>iBreakPointList := (iBreakPointList m)[i := e\<lparr>iNumSteps := 0\<rparr>]\<rparr>))
      else Some (Inr m))"

definition step_entry :: "DThread \<Rightarrow> u32 \<Rightarrow> bool \<Rightarrow> bool \<Rightarrow> u32 \<Rightarrow> TBreakEntry \<Rightarrow> TBreakEntry" where
  "step_entry aThread address realThumbMode aResumeOnceOutOfRange aNumSteps e =
     e\<lparr>iId := tId aThread, iAddress := address, iThreadSpecific := True,
       iMode := (if realThumbMode then EThumbMode else EArmMode),
       iResumeOnceOutOfRange := aResumeOnceOutOfRange, iSteppingInto := True,
       iRangeStart := 0, iRangeEnd := 0, iNumSteps := aNumSteps\<rparr>"

definition step_temp_body ::
  "'k kern \<Rightarrow> DThread \<Rightarrow> u32 \<Rightarrow> bool \<Rightarrow> bool \<Rightarrow> u32 \<Rightarrow> nat \<Rightarrow> 'k \<times> D_RMD_Breakpoints \<Rightarrow>
     (('k \<times> D_RMD_Breakpoints \<times> TErr) + ('k \<times> D_RMD_Breakpoints)) option" where
  "step_temp_body K aThread address realThumbMode aResumeOnceOutOfRange aNumSteps i s =
     (let (k, m) = s; e = iBreakPointList m ! i in
      if IsTemporaryBreak m e \<and> iAddress e = 0 then
        let e = step_entry aThread address realThumbMode aResumeOnceOutOfRange aNumSteps e;
            m = m\<lparr>iBreakPointList := (iBreakPointList m)[i := e]\<rparr>;
            (k, e, err) = DoEnableBreak K k m e True
        in Some (Inl (k, m\<lparr>iBreakPointList := (iBreakPointList m)[i := e]\<rparr>, err))
      else Some (Inr (k, m)))"

definition ModifyBreaksForStep ::
  "cpu \<Rightarrow> 'k kern \<Rightarrow> 'k \<Rightarrow> D_RMD_Breakpoints \<Rightarrow> DThread option \<Rightarrow> u32 \<Rightarrow> u32 \<Rightarrow> bool \<Rightarrow> bool \<Rightarrow> u32 \<Rightarrow>
     ('k \<times> D_RMD_Breakpoints \<times> TErr) option" where
  "ModifyBreaksForStep c K k m aThread aRangeStart aRangeEnd aResumeOnceOutOfRange aCheckForStubs aNumSteps =
     (case aThread of
        None \<Rightarrow> Some (k, m, KErrArgument)
      | Some thread \<Rightarrow> do {
          (err, currentPC) \<leftarrow> CurrentPC K k aThread (kUninit K);
          if err \<noteq> KErrNone then Some (k, m, err)
          else do {
            (k, m, err) \<leftarrow> DisableBreakAtAddress K k m currentPC;
            if err \<noteq> KErrNone then Some (k, m, err)
            else do {
              (err, statusRegister) \<leftarrow> CurrentCPSR K k aThread (kUninit K);
              if err \<noteq> KErrNone then Some (k, m, err)
              else do {
                let thumbMode = statusRegister AND kEThumbMask K \<noteq> 0;
                out \<leftarrow> PCAfterInstructionExecutes c K k m aThread currentPC statusRegister
                        (if thumbMode then 2 else 4) aRangeEnd False;
                res \<leftarrow> break_walk GetNextBreak id (step_existing_body thread (breakAddress out)) None m;
                (case res of
                   Inl m \<Rightarrow> Some (k, m, KErrNone)
                 | Inr m \<Rightarrow> do {
                     let realThumbMode = (thumbMode \<and> \<not> changingModes out \<or> \<not> thumbMode \<and> changingModes out);
                     res \<leftarrow> break_walk GetNextBreak snd
                       (step_temp_body K thread (breakAddress out) realThumbMode aResumeOnceOutOfRange aNumSteps)
                       None (k, m);
                     Some (case res of Inl r \<Rightarrow> r | Inr (k, m) \<Rightarrow> (k, m, KErrNoMemory))
                   })
              }
            }
          }
        })"

end
