(* ===== verification/StepLemmas.thy ===== *)
theory StepLemmas
  imports Stepping RegisterProps
begin

text \<open>
  Facts about DRMDStepping: reading the target always returns, so PCAfterInstructionExecutes and
  ModifyBreaksForStep return for every instruction; the two walks of ModifyBreaksForStep change the list
  as the invariant of the break manager allows.
\<close>

section \<open>Every register and memory read returns\<close>

definition returns :: "'a option \<Rightarrow> bool" where
  "returns f \<longleftrightarrow> f \<noteq> None"

lemma returns_Some [simp, intro!]: "returns (Some x)"
  by (simp add: returns_def)

lemma returns_bind [intro!]:
  "returns f \<Longrightarrow> (\<And>x. f = Some x \<Longrightarrow> returns (g x)) \<Longrightarrow> returns (Option.bind f g)"
  by (cases f) (auto simp: returns_def)

lemma returns_if [intro!]: "(c \<Longrightarrow> returns a) \<Longrightarrow> (\<not> c \<Longrightarrow> returns b) \<Longrightarrow> returns (if c then a else b)"
  by simp

lemma returns_prod [intro!]: "(\<And>a b. p = (a, b) \<Longrightarrow> returns (f a b)) \<Longrightarrow> returns (case p of (a, b) \<Rightarrow> f a b)"
  by (cases p) simp

lemma returns_sum [intro!]:
  "(\<And>a. x = Inl a \<Longrightarrow> returns (f a)) \<Longrightarrow> (\<And>a. x = Inr a \<Longrightarrow> returns (g a)) \<Longrightarrow> returns (case_sum f g x)"
  by (cases x) auto

lemma returnsE: "returns f \<Longrightarrow> (\<And>x. f = Some x \<Longrightarrow> P) \<Longrightarrow> P"
  by (auto simp: returns_def)

lemma field_le: "drop_bit n (w AND c) \<le> drop_bit n (c :: u32)"
proof -
  have "unat (w AND c) \<le> unat c"
    using word_and_le1[of w c] by (simp only: word_le_nat_alt)
  then show ?thesis
    by (simp only: word_le_nat_alt unat_drop_bit_eq) (simp add: drop_bit_eq_div div_le_mono)
qed

lemma register_fields:
  "arm_rn w < 17" "arm_rm w < 17" "w AND 0xF < 17" "w AND 7 < 17" "drop_bit 16 (w AND 0xF0000) < 17"
  "thumb_rm i < 17"
  using field_le[of 16 w "0xF0000"] field_le[of 3 "ucast i" "0x78"] word_and_le1[of w "0xF"] word_and_le1[of w "7"]
  by (simp_all add: arm_rn_def arm_rm_def thumb_rm_def le_less_trans[of _ 15 17] le_less_trans[of _ 7 17])

lemma read_kernel_total:
  assumes "\<forall>n<3. kAllocOk K k n" "rn < 17"
  shows "returns (ReadKernelRegisterValue K k (Some t) rn old)"
proof -
  obtain regs flags where "kUserContext K k t = (regs, flags)" by fastforce
  moreover have "unat rn < 17" using assms(2) by (simp add: word_less_nat_alt)
  ultimately show ?thesis
    using read_kernel_register_core[of "unat rn" K k t regs flags old] assms(1) by simp
qed

lemma reg_total:
  "\<forall>n<3. kAllocOk K k n \<Longrightarrow> rn < 17 \<Longrightarrow> returns (reg_or_old K k (Some t) rn old)"
  using read_kernel_total[of K k rn t old] by (auto simp: reg_or_old_def)

lemma read_fix_total: "returns (ix_loop (read_fix_body m a n) is s)"
  unfolding returns_def not_None_eq
  by (rule ix_loop_total[where Q = "\<lambda>_. True"])
    (auto simp: read_fix_body_def Let_def split: prod.splits option.splits)

lemma read_buf_total:
  assumes "walkable m"
  shows "returns (read_buf K k m t a n)"
proof -
  have "returns (DoReadMemory K k m t a (of_nat n) d)" for d
    unfolding DoReadMemory_def read_walk[OF assms] Let_def
    by (auto intro: read_fix_total)
  then show ?thesis
    unfolding read_buf_def by auto
qed

lemma instruction_total:
  assumes "walkable m" "\<forall>n<3. kAllocOk K k n"
  shows "returns (CurrentInstruction K k m (Some t) old)"
proof -
  have "returns (ix_loop (instruction_byte K k m (Some t) pc) is s)" for pc "is" s
    unfolding returns_def not_None_eq
  proof (rule ix_loop_total[where Q = "\<lambda>_. True"])
    fix i s
    obtain err b where "read_buf K k m (Some t) (pc + of_nat i) 1 = Some (err, b)"
      using read_buf_total[OF assms(1), of K k "Some t" "pc + of_nat i" 1] by (auto elim: returnsE)
    then show "\<exists>x. instruction_byte K k m (Some t) pc i s = Some x \<and> case_sum (\<lambda>_. True) (\<lambda>_. True) x"
      by (auto simp: instruction_byte_def)
  qed simp
  then show ?thesis
    unfolding CurrentInstruction_def CurrentPC_def PC_REGISTER_def
    by (auto intro!: read_kernel_total[OF assms(2)] simp del: ix_loop.simps)
qed

section \<open>PCAfterInstructionExecutes returns\<close>

lemma shifted_total:
  "\<forall>n<3. kAllocOk K k n \<Longrightarrow> returns (ShiftedRegValue K k (Some t) inst pc sr)"
  unfolding ShiftedRegValue_def Let_def by (auto intro!: reg_total register_fields)

lemma load_pc_total: "walkable m \<Longrightarrow> returns (load_pc K k m t b a out)"
  unfolding load_pc_def by (auto intro!: read_buf_total)

lemmas step_total = reg_total register_fields shifted_total load_pc_total read_kernel_total read_buf_total

lemma arm_dp_total:
  "\<forall>n<3. kAllocOk K k n \<Longrightarrow> returns (arm_dp_register K k (Some t) inst pc sr out)"
  unfolding arm_dp_register_def by (auto intro!: step_total)

lemma arm_bx_total: "\<forall>n<3. kAllocOk K k n \<Longrightarrow> returns (arm_bx K k (Some t) inst out)"
  unfolding arm_bx_def by (auto intro!: step_total)

lemma arm_cases_total:
  assumes "walkable m" "\<forall>n<3. kAllocOk K k n"
  shows "returns (arm_case0 K k (Some t) inst pc sr out)" "returns (arm_case1 K k (Some t) inst sr out)"
    "returns (arm_case2 K k m (Some t) inst pc out)" "returns (arm_case3 K k m (Some t) inst pc sr out)"
    "returns (arm_case4 K k m (Some t) inst out)"
  unfolding arm_case0_def arm_case1_def arm_case2_def arm_case3_def arm_case4_def Let_def
  using assms by (auto intro!: step_total arm_dp_total arm_bx_total)

lemma arm_step_total:
  assumes "walkable m" "\<forall>n<3. kAllocOk K k n"
  shows "returns (arm_step K k m (Some t) pc sr out)"
  unfolding arm_step_def by (auto intro!: instruction_total arm_cases_total assms)

lemma with_register_total:
  "\<forall>n<3. kAllocOk K k n \<Longrightarrow> n < 17 \<Longrightarrow> (\<And>v. returns (cont v)) \<Longrightarrow>
   returns (with_register K k (Some t) n old out cont)"
  unfolding with_register_def RegisterValue_def by (auto intro!: step_total)

lemma with_mem32_total:
  "walkable m \<Longrightarrow> (\<And>v. returns (cont v)) \<Longrightarrow> returns (with_mem32 K k m t a old out cont)"
  unfolding with_mem32_def ReadMem32_def by (auto intro!: step_total)

lemma run_blocks_total: "(\<And>b s. b \<in> set bs \<Longrightarrow> returns (b s)) \<Longrightarrow> returns (run_blocks bs s)"
proof (induction bs arbitrary: s)
  case (Cons b bs)
  then have "returns (b s)" by simp
  then obtain x where "b s = Some x" by (rule returnsE)
  moreover have "returns (run_blocks bs s')" for s' using Cons by simp
  ultimately show ?case by (cases x) simp_all
qed simp

text \<open>Most of the v6T2 conditions are never true: they compare the mask with the value.\<close>

lemma and_eq_dead: "a \<noteq> b \<Longrightarrow> and_eq x a b = 0"
  by (simp add: and_eq_def)

lemmas dead_blocks = t2_subs_pc_lr_def t2_b_t3_def t2_b_t4_def t2_tbb_def t2_ldmdb_def t2_pop_t2_def t2_pop_t3_def

lemma dead_block_skips:
  "t2_subs_pc_lr K k t inst32 = (\<lambda>out. Some (Inr out))" "t2_b_t3 inst32 pc = (\<lambda>out. Some (Inr out))"
  "t2_b_t4 inst32 pc = (\<lambda>out. Some (Inr out))" "t2_tbb K k m t inst32 pc = (\<lambda>out. Some (Inr out))"
  "t2_ldmdb K k m t inst32 = (\<lambda>out. Some (Inr out))" "t2_pop_t2 K k m t inst32 = (\<lambda>out. Some (Inr out))"
  "t2_pop_t3 K k m t inst32 = (\<lambda>out. Some (Inr out))"
  by (simp_all add: dead_blocks and_eq_dead fun_eq_iff)

lemma v6t2_live:
  "v6t2_step K k m t inst inst32 pc out =
    run_blocks [t2_cbz K k t inst pc, t2_it inst, t2_ldm K k m t inst32, t2_rfe_t1 K k m t inst32,
      t2_rfe_t2 K k m t inst32, t2_rfe_a1 K k m t inst32] out"
  unfolding v6t2_step_def dead_block_skips by (simp split: option.splits sum.splits)

lemma v6t2_total:
  assumes "walkable m" "\<forall>n<3. kAllocOk K k n"
  shows "returns (v6t2_step K k m (Some t) inst inst32 pc out)"
proof -
  have m: "drop_bit 16 0x000F0000 = (0xF :: u32)" by code_simp
  have rfe: "returns (rfe K k m (Some t) inst32 a b res out)" for a b res out
    unfolding rfe_def Let_def by (auto intro!: with_register_total with_mem32_total step_total assms)
  show ?thesis
    unfolding v6t2_live
    by (rule run_blocks_total)
      (auto simp: t2_cbz_def t2_it_def t2_ldm_def t2_rfe_t1_def t2_rfe_t2_def t2_rfe_a1_def Let_def m
        intro!: with_register_total with_mem32_total step_total assms rfe)
qed

lemma thumb_switch_total:
  assumes "walkable m" "\<forall>n<3. kAllocOk K k n"
  shows "returns (thumb_switch K k m (Some t) cpuid inst inst32 pc sr out)"
  unfolding thumb_switch_def thumb_data_def thumb_pop_def thumb_blx1_def thumb_bl_def Let_def
  by (auto simp: SP_REGISTER_def LINK_REGISTER_def intro!: step_total assms)

lemma thumb_step_total:
  assumes "walkable m" "\<forall>n<3. kAllocOk K k n"
  shows "returns (thumb_step c K k m (Some t) pc sr out)"
  unfolding thumb_step_def Let_def
  by (auto intro!: instruction_total v6t2_total thumb_switch_total assms)

lemma pc_after_total:
  assumes "walkable m" "\<forall>n<3. kAllocOk K k n"
  shows "returns (PCAfterInstructionExecutes c K k m (Some t) pc sr sz re cm)"
  unfolding PCAfterInstructionExecutes_def CurrentCPSR_def STATUS_REGISTER_def Let_def
  by (auto intro!: step_total arm_step_total thumb_step_total assms split: TArchitectureMode.splits)

section \<open>The walks of ModifyBreaksForStep\<close>

text \<open>What a step may do to the list: agent entries keep their keys, at most one temporary entry changes, and
  that one was free and is now the step's.\<close>

definition step_slot :: "DThread \<Rightarrow> u32 \<Rightarrow> TBreakEntry \<Rightarrow> TBreakEntry \<Rightarrow> bool" where
  "step_slot t n e e' \<longleftrightarrow>
     iAddress e = 0 \<and> iBreakId e' = iBreakId e \<and> iId e' = tId t \<and> iThreadSpecific e' \<and> iNumSteps e' = n \<and>
     iMode e' \<in> {EArmMode, EThumbMode}"

definition temps_step :: "DThread \<Rightarrow> u32 \<Rightarrow> TBreakEntry list \<Rightarrow> TBreakEntry list \<Rightarrow> bool" where
  "temps_step t n xs ys \<longleftrightarrow>
     take 10 ys = take 10 xs \<or>
     (\<exists>i<10. step_slot t n (xs ! i) (ys ! i) \<and> (\<forall>j<i. iAddress (xs ! j) \<noteq> 0) \<and>
        take 10 ys = (take 10 xs)[i := ys ! i])"

lemma step_existing_walk:
  assumes "brk_inv m" "\<not> not_ready m"
  shows "\<exists>x. break_walk GetNextBreak id (step_existing_body t a) None m = Some x \<and>
    case_sum (\<lambda>m'. brk_tame m m' \<and> take 10 (iBreakPointList m') = take 10 (iBreakPointList m)) (\<lambda>m'. m' = m) x"
proof -
  have "break_walk GetNextBreak id (step_existing_body t a) None m =
      ix_loop (step_existing_body t a) [0..<Count m] m"
    by (rule brk_walk.walk_all)
      (use assms(1) in \<open>auto simp: step_existing_body_def Let_def brk_inv_walkable split: if_splits\<close>)
  moreover have "\<exists>x. ix_loop (step_existing_body t a) [0..<Count m] m = Some x \<and>
    case_sum (\<lambda>m'. brk_tame m m' \<and> take 10 (iBreakPointList m') = take 10 (iBreakPointList m)) (\<lambda>m'. m' = m) x"
  proof (rule ix_loop_rule)
    fix i s assume i: "i \<in> set [0..<Count m]" and s: "s = m"
    let ?e = "iBreakPointList m ! i"
    let ?m = "m\<lparr>iBreakPointList := (iBreakPointList m)[i := ?e\<lparr>iNumSteps := 0\<rparr>]\<rparr>"
    have "brk_tame m ?m"
      using i by (auto simp: brk_tame_def key_def intro!: tame_update)
    moreover have "take 10 (iBreakPointList ?m) = take 10 (iBreakPointList m)" if "\<not> IsTemporaryBreak m ?e"
      using that i user_break[OF assms, of i] by simp
    ultimately show "\<exists>x. step_existing_body t a i s = Some x \<and>
        case_sum (\<lambda>m'. brk_tame m m' \<and> take 10 (iBreakPointList m') = take 10 (iBreakPointList m)) (\<lambda>m'. m' = m) x"
      using s by (auto simp: step_existing_body_def Let_def)
  qed simp
  ultimately show ?thesis by simp
qed

lemma DoEnable_entry:
  "DoEnableBreak K k m e b = (k', e', err) \<Longrightarrow> \<exists>ins. e' = e\<lparr>iInstruction := ins\<rparr>"
  by (auto simp: DoEnableBreak_def split: if_splits dest: enable_entry intro: exI[of _ "iInstruction e"])

lemma step_temp_walk:
  assumes "brk_inv m" "\<not> not_ready m"
  shows "\<exists>x. break_walk GetNextBreak snd (step_temp_body K t a th r n) None (k, m) = Some x \<and>
    case_sum (\<lambda>(k', m', err). brk_tame m m' \<and> temps_step t n (iBreakPointList m) (iBreakPointList m'))
      (\<lambda>s. s = (k, m) \<and> (\<forall>i<10. iAddress (iBreakPointList m ! i) \<noteq> 0)) x"
proof -
  let ?f = "step_temp_body K t a th r n"
  let ?R = "\<lambda>(k', m', err). brk_tame m m' \<and> temps_step t n (iBreakPointList m) (iBreakPointList m')"
  have len: "10 \<le> Count m" using assms(1) by (auto simp: brk_inv_def ids_ok_def)
  have walk: "break_walk GetNextBreak snd ?f None (k, m) = ix_loop ?f [0..<Count m] (k, m)"
  proof (rule brk_walk.walk_all)
    fix i s s' assume "walkable (snd s)" "Count (snd s) = Count m" "?f i s = Some (Inr s')"
    then show "walkable (snd s') \<and> Count (snd s') = Count m"
      by (auto simp: step_temp_body_def Let_def split: if_splits prod.splits)
  qed (use assms(1) brk_inv_walkable in auto)
  have loop: "\<exists>x. ix_loop ?f [0..<j] (k, m) = Some x \<and>
      case_sum ?R (\<lambda>s. s = (k, m) \<and> (\<forall>i<j. i < 10 \<longrightarrow> iAddress (iBreakPointList m ! i) \<noteq> 0)) x"
    if "j \<le> Count m" for j
    using that
  proof (induction j)
    case (Suc j)
    then obtain x where x: "ix_loop ?f [0..<j] (k, m) = Some x"
      "case_sum ?R (\<lambda>s. s = (k, m) \<and> (\<forall>i<j. i < 10 \<longrightarrow> iAddress (iBreakPointList m ! i) \<noteq> 0)) x"
      by auto
    show ?case
    proof (cases x)
      case (Inl y)
      then show ?thesis using x by (auto simp: ix_loop_append)
    next
      case (Inr s)
      have s: "s = (k, m)" and free: "\<forall>i<j. i < 10 \<longrightarrow> iAddress (iBreakPointList m ! i) \<noteq> 0"
        using x Inr by auto
      let ?e = "iBreakPointList m ! j"
      have temp: "IsTemporaryBreak m ?e \<longleftrightarrow> j < 10"
        using user_break[OF assms] Suc.prems by simp
      show ?thesis
      proof (cases "IsTemporaryBreak m ?e \<and> iAddress ?e = 0")
        case False
        then have "?f j s = Some (Inr s)" by (auto simp: step_temp_body_def s)
        then show ?thesis using x Inr s free False temp by (auto simp: ix_loop_append less_Suc_eq)
      next
        case True
        let ?g = "step_entry t a th r n ?e"
        let ?m = "m\<lparr>iBreakPointList := (iBreakPointList m)[j := ?g]\<rparr>"
        obtain k' e' err where en: "DoEnableBreak K k ?m ?g True = (k', e', err)" by (metis prod_cases3)
        from DoEnable_entry[OF this] obtain ins where e': "e' = ?g\<lparr>iInstruction := ins\<rparr>" by blast
        let ?m' = "m\<lparr>iBreakPointList := (iBreakPointList m)[j := e']\<rparr>"
        have "?f j s = Some (Inl (k', ?m', err))"
          using True en by (simp add: step_temp_body_def s Let_def)
        moreover have "brk_tame m ?m'"
          using Suc.prems True temp by (auto simp: brk_tame_def e' step_entry_def intro!: tame_update)
        moreover have "temps_step t n (iBreakPointList m) (iBreakPointList ?m')"
          unfolding temps_step_def using Suc.prems True temp free
          by (intro disjI2 exI[of _ j]) (auto simp: step_slot_def e' step_entry_def take_update_swap)
        ultimately show ?thesis using x Inr s by (auto simp: ix_loop_append)
      qed
    qed
  qed simp
  from loop[of "Count m"] obtain x where x: "ix_loop ?f [0..<Count m] (k, m) = Some x"
    "case_sum ?R (\<lambda>s. s = (k, m) \<and> (\<forall>i<Count m. i < 10 \<longrightarrow> iAddress (iBreakPointList m ! i) \<noteq> 0)) x"
    by auto
  then show ?thesis
    unfolding walk using len by (cases x) auto
qed

lemma disable_temps:
  assumes "DisableBreakAtAddress K k m a = Some (k', m', err)"
  shows "take 10 (iBreakPointList m') = take 10 (iBreakPointList m)"
proof (cases "not_ready m")
  case False
  have "\<exists>x. ix_loop (disable_body K a) [10..<Count m] (k, m) = Some x \<and>
     case_sum (\<lambda>(_, m', _). take 10 (iBreakPointList m') = take 10 (iBreakPointList m))
       (\<lambda>(_, m'). take 10 (iBreakPointList m') = take 10 (iBreakPointList m)) x"
    by (rule ix_loop_rule) (auto simp: disable_body_def Let_def split: option.splits prod.splits)
  then obtain x where "ix_loop (disable_body K a) [10..<Count m] (k, m) = Some x"
    "case_sum (\<lambda>(_, m', _). take 10 (iBreakPointList m') = take 10 (iBreakPointList m))
       (\<lambda>(_, m'). take 10 (iBreakPointList m') = take 10 (iBreakPointList m)) x"
    by blast
  then show ?thesis
    using assms False
    by (cases x) (auto simp: DisableBreakAtAddress_def priv_DisableBreakAtAddress_def)
qed (use assms in \<open>simp add: DisableBreakAtAddress_def\<close>)

section \<open>Reading with no breakpoint in the way\<close>

lemma read_buf_plain:
  assumes "brk_inv m" "\<not> not_ready m" "n < 2 ^ 32"
    and "\<And>e. e \<in> set (drop 10 (iBreakPointList m)) \<Longrightarrow> \<not> in_block e a (of_nat n)"
    and "kRawRead K k t a n = (Inr KErrNone, raw)"
  shows "read_buf K k m (Some t) a n = Some (KErrNone, map raw [0..<n])"
proof -
  have un: "unat (of_nat n :: u32) = n" using assms(3) by (simp add: unat_of_nat take_bit_nat_eq_self)
  have id: "read_fix_body m a (of_nat n) i s = Some (Inr s)" if "i < Count m" for i s
  proof (cases "i < 10")
    case True
    then show ?thesis using that user_break[OF assms(1,2), of i]
      by (auto simp: read_fix_body_def Let_def split: prod.splits)
  next
    case False
    then have "iBreakPointList m ! i \<in> set (drop 10 (iBreakPointList m))"
      using that by (auto simp: in_set_conv_nth intro!: exI[of _ "i - 10"])
    then show ?thesis using assms(4) by (auto simp: read_fix_body_def Let_def split: prod.splits)
  qed
  have "ix_loop (read_fix_body m a (of_nat n)) is s = Some (Inr s)" if "\<forall>i\<in>set is. i < Count m" for "is" s
    using that by (induction "is") (auto simp: id)
  then have "ix_loop (read_fix_body m a (of_nat n)) [0..<Count m] s = Some (Inr s)" for s
    by simp
  then show ?thesis
    using assms(5) read_walk[OF brk_inv_walkable[OF assms(1)], of a "of_nat n"]
    by (simp add: read_buf_def DoReadMemory_def un TryToReadMemory_def overwrite_def)
qed

lemma current_instruction_plain:
  assumes "brk_inv m" "\<not> not_ready m"
    and "\<And>e i. e \<in> set (drop 10 (iBreakPointList m)) \<Longrightarrow> i < 4 \<Longrightarrow> \<not> in_block e (pc + of_nat i) 1"
    and "ReadKernelRegisterValue K k (Some t) 15 (kUninit K) = Some (KErrNone, pc)"
    and "\<And>i. i < 4 \<Longrightarrow> kRawRead K k t (pc + of_nat i) 1 = (Inr KErrNone, raw i)"
  shows "CurrentInstruction K k m (Some t) old = Some (KErrNone, of_le [raw 0 0, raw 1 0, raw 2 0, raw 3 0])"
proof -
  have b: "read_buf K k m (Some t) (pc + of_nat i) 1 = Some (KErrNone, [raw i 0])" if "i < 4" for i
    using read_buf_plain[OF assms(1,2), of 1 "pc + of_nat i"] assms(3)[OF _ that] assms(5)[OF that] by simp
  have "instruction_byte K k m (Some t) pc i inst = Some (Inr (push_bit 8 inst OR ucast (raw i 0)))"
    if "i < 4" for i inst
    using b[OF that] by (simp add: instruction_byte_def)
  then show ?thesis
    using assms(4) by (simp add: CurrentInstruction_def CurrentPC_def PC_REGISTER_def push_bit_or push_bit_push_bit ac_simps)
qed

end
