(* ===== verification/StepProps.thy ===== *)
theory StepProps
  imports StepLemmas MemoryProps
begin

text \<open>
  The properties of DRMDStepping: the condition and data-processing tables and the shifter against the
  architecture manual, the targets of ARM and Thumb branches and of a load-multiple, the decodings that can
  never be taken, and the temporary breakpoint of a step.
\<close>

section \<open>Conditions, data processing and the shifter\<close>

text \<open>IsExecuted agrees with the condition table of the architecture manual except when N and V are both
  set: its N is 8 and its V is 1, so it takes them for different, and GE, LT, GT and LE come out wrong.\<close>

theorem condition_table:
  assumes "cond < 16"
  shows "IsExecuted (of_nat cond) sr \<longleftrightarrow>
    (if flag_N sr \<and> flag_V sr \<and> cond \<in> {10, 11, 12, 13} then cond \<in> {11, 13} else ConditionPassed cond sr)"
  by (rule IsExecuted_cases[OF assms])

theorem condition_table_witness:
  "\<not> IsExecuted (of_nat 10) 0x90000000 \<and> ConditionPassed 10 0x90000000"
  using condition_table[of 10 "0x90000000"]
  by (simp add: flag_N_def flag_V_def ConditionPassed_def condition_test_def)

text \<open>The data-processing table computes the architecture's result for every operation that writes a
  register, except ADC, SBC and RSC, whose result is 0 or 1 whatever the operands are, because of the
  precedence of the conditional operator.\<close>

theorem data_processing_table:
  assumes "opc < 16" "opc \<notin> {8, 9, 10, 11}"
  shows "if opc \<in> {5, 6, 7} then DecodeDataProcessingInstruction (of_nat opc) a b sr old \<in> {0, 1}
    else DecodeDataProcessingInstruction (of_nat opc) a b sr old = alu opc a b sr"
proof (cases "opc \<in> {5, 6, 7}")
  case True
  then show ?thesis using data_processing_carry[OF True] by simp
next
  case False
  then show ?thesis using data_processing_alu[of opc a b sr old] assms by auto
qed

theorem data_processing_table_witness:
  "DecodeDataProcessingInstruction (of_nat 4) 0x8000 0x10 0 0 = 0x8010 \<and>
   DecodeDataProcessingInstruction (of_nat 5) 0x8000 0x10 0 0 \<in> {0, 1}"
  using data_processing_table[of 4 "0x8000" "0x10" 0 0] data_processing_table[of 5 "0x8000" "0x10" 0 0]
  by (simp add: alu_def)

text \<open>The shifter operand of the architecture, with an immediate amount: LSR and ASR by 0 mean 32, and ROR by 0
  is RRX.\<close>

definition arm_imm_shift :: "nat \<Rightarrow> nat \<Rightarrow> u32 \<Rightarrow> bool \<Rightarrow> u32" where
  "arm_imm_shift ty n x carry =
     (if ty = 0 then push_bit n x
      else if ty = 1 then (if n = 0 then 0 else drop_bit n x)
      else if ty = 2 then signed_drop_bit (if n = 0 then 32 else n) x
      else if n = 0 then (if carry then set_bit 31 (drop_bit 1 x) else drop_bit 1 x)
      else word_rotr n x)"

lemma field_take: "drop_bit n (w AND push_bit n (mask k)) = take_bit k (drop_bit n (w :: u32))"
  by (rule bit_word_eqI) (auto simp: bit_simps dest: bit_imp_le_length)

lemma shift_fields:
  "arm_data_c w = take_bit 5 (drop_bit 7 w)" "arm_data_shift w = take_bit 2 (drop_bit 5 w)"
  "arm_rm w = take_bit 4 w"
  using field_take[of 7 w 5] field_take[of 5 w 2] field_take[of 0 w 4]
  by (simp_all add: arm_data_c_def arm_data_shift_def arm_rm_def mask_eq_exp_minus_1 push_bit_eq_mult)

lemma unat_take_less: "unat (take_bit k (w :: u32)) < 2 ^ k"
  by (simp add: unsigned_take_bit_eq)

lemma asr_drop:
  assumes "n < 32"
  shows "(if x AND 0x80000000 \<noteq> 0 then NOT (drop_bit n (NOT x)) else drop_bit n x) = signed_drop_bit n (x :: u32)"
proof -
  have b: "x AND 0x80000000 \<noteq> 0 \<longleftrightarrow> bit x 31" using and_bit_nz[of x 31] by simp
  show ?thesis
    unfolding b
  proof (rule bit_word_eqI)
    fix i assume i: "i < LENGTH(32)"
    show "bit (if bit x 31 then NOT (drop_bit n (NOT x)) else drop_bit n x) i = bit (signed_drop_bit n x) i"
      using i assms by (cases "32 - n \<le> i") (auto simp: bit_simps dest: bit_imp_le_length)
  qed
qed

lemma ror_rot:
  assumes "0 < n" "n < 32"
  shows "drop_bit n x OR push_bit (32 - n) x = word_rotr n (x :: u32)"
proof (rule bit_word_eqI)
  fix i assume i: "i < LENGTH(32)"
  show "bit (drop_bit n x OR push_bit (32 - n) x) i = bit (word_rotr n x) i"
  proof (cases "i + n < 32")
    case True
    then show ?thesis using i assms by (auto simp: bit_simps ac_simps)
  next
    case False
    then have "(i + n) mod 32 = i + n - 32" using i assms by (simp add: mod_if)
    moreover have "\<not> bit x (n + i)" using False bit_imp_le_length[of x "n + i"] by auto
    moreover have "i - (32 - n) = i + n - 32" using i assms by simp
    ultimately show ?thesis using i assms False by (auto simp: bit_simps)
  qed
qed

lemma set_bit_31: "drop_bit 1 x OR 0x80000000 = set_bit 31 (drop_bit 1 (x :: u32))"
  by (simp add: set_bit_eq_or push_bit_eq_mult)

lemma carry_flag: "sr AND arm_carry_bit \<noteq> 0 \<longleftrightarrow> flag_C sr"
  using and_bit_nz[of sr 29] by (simp add: arm_carry_bit_def flag_C_def)

text \<open>With an immediate shift amount ShiftedRegValue returns the architecture's operand (the PC read as
  the current address plus 8), except that LSR and ASR with the amount field 0, which stand for a shift by
  32, leave the register unshifted.\<close>

theorem shifted_register:
  assumes "\<not> bit inst 4" "\<forall>n<3. kAllocOk K k n" "kUserContext K k t = (regs, flags)"
    and "rm = unat (take_bit 4 inst)" "rm = 15 \<or> GetFlagAtOffset flags (of_nat rm)"
    and "x = (if rm = 15 then pc + 8 else regs rm)"
    and "ty = unat (take_bit 2 (drop_bit 5 inst))" "n = unat (take_bit 5 (drop_bit 7 inst))"
  shows "ShiftedRegValue K k (Some t) inst pc sr =
    Some (if n = 0 \<and> (ty = 1 \<or> ty = 2) then x else arm_imm_shift ty n x (flag_C sr))"
proof -
  have b4: "inst AND 0x10 = 0" using assms(1) and_bit_nz[of inst 4] by simp
  have rm: "arm_rm inst = of_nat rm" "rm < 16"
    using assms(4) unat_take_less[of 4 inst] by (simp_all add: shift_fields)
  have sh: "arm_data_c inst = of_nat n" "n < 32"
    using assms(8) unat_take_less[of 5 "drop_bit 7 inst"] by (simp_all add: shift_fields)
  have ty: "arm_data_shift inst = of_nat ty" "ty < 4"
    using assms(7) unat_take_less[of 2 "drop_bit 5 inst"] by (simp_all add: shift_fields)
  have un: "unat (of_nat n :: u32) = n" using sh(2) by (simp add: unat_of_nat take_bit_nat_eq_self)
  have lt: "\<not> (32 \<le> (of_nat n :: u32))"
    using sh(2) un by (simp add: word_le_nat_alt)
  have and31: "(of_nat n :: u32) AND 31 = of_nat n"
  proof -
    have "(of_nat n :: u32) AND mask 5 = of_nat n"
      using sh(2) by (simp add: word_unat_eq_iff unsigned_take_bit_eq un take_bit_nat_eq_self
          flip: take_bit_eq_mask)
    then show ?thesis by (simp add: mask_eq_exp_minus_1)
  qed
  have pc15: "arm_rm inst = PC_REGISTER \<longleftrightarrow> rm = 15"
    using rm by (simp add: PC_REGISTER_def word_unat_eq_iff unat_of_nat take_bit_nat_eq_self)
  have reg: "(if arm_rm inst = PC_REGISTER then Some (pc + 8) else reg_or_old K k (Some t) (arm_rm inst) 0) = Some x"
    using assms(5,6) rm read_kernel_register_core[of rm K k t regs flags 0] assms(2,3)
    by (auto simp: pc15[unfolded PC_REGISTER_def] PC_REGISTER_def reg_or_old_def)
  have n0: "(of_nat n :: u32) = 0 \<longleftrightarrow> n = 0"
    by (simp only: word_unat_eq_iff un unat_0)
  have n32: "unat (32 - of_nat n :: u32) = 32 - n" if "0 < n"
    using that sh(2) un lt by (simp add: unat_sub)
  consider "ty = 0" | "ty = 1" | "ty = 2" | "ty = 3" using ty(2) by linarith
  then show ?thesis
    using reg asr_drop[of n x] ror_rot[of n x] sh(2)
    by cases (auto simp: ShiftedRegValue_def Let_def b4 sh(1) un lt and31 n0 n32 ty(1) arm_imm_shift_def
        carry_flag set_bit_31[unfolded One_nat_def])
qed

theorem shifted_register_witness:
  "ShiftedRegValue funK (\<lambda>i. 0x80) (Some demo_thread) 0xE1A0F121 0x8000 0 = Some 0x20"
proof -
  have "ShiftedRegValue funK (\<lambda>i. 0x80) (Some demo_thread) 0xE1A0F121 0x8000 0 =
    Some (if (2::nat) = 0 \<and> ((1::nat) = 1 \<or> (1::nat) = 2) then 0x80 else arm_imm_shift 1 2 0x80 (flag_C 0))"
  proof (rule shifted_register[of "0xE1A0F121" funK "\<lambda>i. 0x80" demo_thread "\<lambda>i. 0x80" "0x1FFFF" 1])
    show "\<not> bit (0xE1A0F121 :: u32) 4" by code_simp
    show "1 = unat (take_bit 4 (0xE1A0F121 :: u32))" by code_simp
    show "1 = unat (take_bit 2 (drop_bit 5 (0xE1A0F121 :: u32)))" by code_simp
    show "2 = unat (take_bit 5 (drop_bit 7 (0xE1A0F121 :: u32)))" by code_simp
  qed (simp_all add: funK_def GetFlagAtOffset_def)
  then show ?thesis by (simp add: arm_imm_shift_def)
qed

section \<open>ARM branches and load-multiple\<close>

text \<open>PCAfterInstructionExecutes in ARM mode, once the mode and the instruction are known.\<close>

lemma pc_after_arm:
  assumes "CurrentCPSR K k t (kUninit K) = Some (KErrNone, cpsr)" "CurrentArchMode c K cpsr = Inr EArmMode"
  shows "PCAfterInstructionExecutes c K k m t pc sr sz re cm =
    arm_step K k m t pc sr \<lparr>breakAddress = pc + sz, newRangeEnd = re, changingModes = cm\<rparr>"
  using assms by (simp add: PCAfterInstructionExecutes_def)

lemma pc_after_thumb:
  assumes "CurrentCPSR K k t (kUninit K) = Some (KErrNone, cpsr)" "CurrentArchMode c K cpsr = Inr EThumbMode"
  shows "PCAfterInstructionExecutes c K k m t pc sr sz re cm =
    thumb_step c K k m t pc sr \<lparr>breakAddress = pc + sz, newRangeEnd = re, changingModes = cm\<rparr>"
  using assms by (simp add: PCAfterInstructionExecutes_def)

lemma condition_executed:
  assumes "\<not> (flag_N sr \<and> flag_V sr)"
  shows "IsExecuted (ucast (drop_bit 28 inst AND 0xF)) sr \<longleftrightarrow> ConditionPassed (unat (drop_bit 28 (inst :: u32))) sr"
proof -
  have m: "drop_bit 28 inst AND mask 4 = drop_bit 28 inst"
    by (rule bit_word_eqI) (auto simp: bit_simps dest: bit_imp_le_length)
  then have lt: "unat (drop_bit 28 inst) < 16"
    using unat_take_less[of 4 "drop_bit 28 inst"] by (simp add: take_bit_eq_mask)
  have "drop_bit 28 inst AND 0xF = drop_bit 28 inst"
    using m by (simp add: mask_eq_exp_minus_1)
  then have "(ucast (drop_bit 28 inst AND 0xF) :: u8) = of_nat (unat (drop_bit 28 inst))"
    by simp
  then show ?thesis
    using IsExecuted_cases[OF lt, of sr] assms by (auto simp del: insert_iff)
qed

lemma top_nibble: "inst AND 0xF0000000 = 0xF0000000 \<longleftrightarrow> unat (drop_bit 28 (inst :: u32)) = 15"
proof -
  have "inst AND push_bit 28 (mask 4) = push_bit 28 (drop_bit 28 inst)"
    by (rule bit_word_eqI) (auto simp: bit_simps dest: bit_imp_le_length)
  then have "inst AND 0xF0000000 = push_bit 28 (drop_bit 28 inst)"
    by (simp add: mask_eq_exp_minus_1 push_bit_eq_mult)
  moreover have "push_bit 28 (drop_bit 28 inst) = push_bit 28 15 \<longleftrightarrow> drop_bit 28 inst = 15"
  proof
    assume "push_bit 28 (drop_bit 28 inst) = push_bit 28 (15 :: u32)"
    then have "drop_bit 28 (push_bit 28 (drop_bit 28 inst)) = drop_bit 28 (push_bit 28 (15 :: u32))" by simp
    moreover have "drop_bit 28 (push_bit 28 (drop_bit 28 inst)) = drop_bit 28 inst"
      by (rule bit_word_eqI) (auto simp: bit_simps dest: bit_imp_le_length)
    moreover have "drop_bit 28 (push_bit 28 (15 :: u32)) = 15" by code_simp
    ultimately show "drop_bit 28 inst = 15" by simp
  qed simp
  ultimately show ?thesis
    by (simp add: push_bit_eq_mult word_unat_eq_iff)
qed


text \<open>A thread of the demonstration kernel at address 0x8000 with one instruction there.\<close>

definition demo_at :: "u32 \<Rightarrow> u32 \<Rightarrow> demo" where
  "demo_at cpsr inst = demo_put 0x8000 (le32 inst) (demo0\<lparr>dregs := (replicate 33 0)[15 := 0x8000, 16 := cpsr]\<rparr>)"

definition demo_cpu :: cpu where
  "demo_cpu = \<lparr>mrc_cpuid = 0, ECpuJf = None, v6t2_decodings = False\<rparr>"

lemma demo_at_reads:
  "ReadKernelRegisterValue demoK (demo_at cpsr inst) (Some demo_thread) 15 0 = Some (KErrNone, 0x8000)"
  "ReadKernelRegisterValue demoK (demo_at cpsr inst) (Some demo_thread) 16 0 = Some (KErrNone, cpsr)"
proof -
  have "\<forall>n<3. kAllocOk demoK (demo_at cpsr inst) n" by (simp add: demoK_def)
  moreover obtain regs where "kUserContext demoK (demo_at cpsr inst) demo_thread = (regs, 0x1FFFF)"
    "regs 15 = 0x8000" "regs 16 = cpsr"
    by (simp add: demoK_def demo_at_def demo_put_def demo0_def)
  ultimately show
    "ReadKernelRegisterValue demoK (demo_at cpsr inst) (Some demo_thread) 15 0 = Some (KErrNone, 0x8000)"
    "ReadKernelRegisterValue demoK (demo_at cpsr inst) (Some demo_thread) 16 0 = Some (KErrNone, cpsr)"
    using read_kernel_register_core[of 15 demoK "demo_at cpsr inst" demo_thread regs "0x1FFFF" 0]
      read_kernel_register_core[of 16 demoK "demo_at cpsr inst" demo_thread regs "0x1FFFF" 0]
    by (simp_all add: GetFlagAtOffset_def)
qed

lemma demo_at_instruction:
  "CurrentInstruction demoK (demo_at cpsr inst) demo_mgr (Some demo_thread) 0 = Some (KErrNone, inst)"
proof -
  let ?raw = "\<lambda>i j. demo_byte (demo_at cpsr inst) (0x8000 + of_nat i + of_nat j)"
  have ready: "\<not> not_ready demo_mgr" by code_simp
  have agents: "drop 10 (iBreakPointList demo_mgr) = []" by code_simp
  have b: "?raw i 0 = le32 inst ! i" if "i \<in> {0, 1, 2, 3}" for i
    using that by (auto simp: demo_byte_def demo_at_def demo_put_def upt_rec le32_def)
  have r: "ReadKernelRegisterValue demoK (demo_at cpsr inst) (Some demo_thread) 15 (kUninit demoK) =
      Some (KErrNone, 0x8000)"
    using demo_at_reads(1) by (simp add: demoK_def)
  have "CurrentInstruction demoK (demo_at cpsr inst) demo_mgr (Some demo_thread) 0 =
      Some (KErrNone, of_le [?raw 0 0, ?raw 1 0, ?raw 2 0, ?raw 3 0])"
    by (rule current_instruction_plain[OF demo_mgr_inv ready _ r]) (simp_all add: agents demoK_def)
  then show ?thesis
    using of_le_le32[of inst] b[of 0] b[of 1] b[of 2] b[of 3] by (simp add: le32_def del: of_le.simps)
qed


text \<open>Load-multiple: the architecture's start address for the four addressing modes; registers go to ascending
  addresses, so the PC, the highest one, is at \<open>start + 4 * (n - 1)\<close>.\<close>

definition ldm_start :: "u32 \<Rightarrow> bool \<Rightarrow> bool \<Rightarrow> nat \<Rightarrow> u32" where
  "ldm_start base up pre n =
     (if up then (if pre then base + 4 else base)
      else (if pre then base - 4 * of_nat n else base - 4 * of_nat n + 4))"

lemma bit_field: "drop_bit n (w AND 2 ^ n) \<noteq> 0 \<longleftrightarrow> bit (w :: u32) n"
proof -
  have "drop_bit n (w AND push_bit n (mask 1)) = take_bit 1 (drop_bit n w)" by (rule field_take)
  then have "drop_bit n (w AND 2 ^ n) = of_bool (bit w n)"
    by (simp add: mask_eq_exp_minus_1 push_bit_eq_mult take_bit_Suc bit_iff_odd_drop_bit mod_2_eq_odd)
  then show ?thesis by simp
qed

lemma block_fields:
  "arm_load w \<noteq> 0 \<longleftrightarrow> bit w 20" "arm_block_u w \<noteq> 0 \<longleftrightarrow> bit w 23" "arm_block_pre w \<noteq> 0 \<longleftrightarrow> bit w 24"
  "drop_bit 15 (w AND 0x00008000) \<noteq> 0 \<longleftrightarrow> bit w 15"
  using bit_field[of 20 w] bit_field[of 23 w] bit_field[of 24 w] bit_field[of 15 w]
  by (simp_all add: arm_load_def arm_block_u_def arm_block_pre_def)

lemma block_offset_start:
  assumes "n = pop_count (inst AND 0xFFFF)"
  shows "base + block_offset inst = ldm_start base (bit inst 23) (bit inst 24) n + 4 * (of_nat n - 1)"
  unfolding block_offset_def block_fields
  by (simp add: arm_block_reglist_def Bitcount_pop assms ldm_start_def algebra_simps)


lemma demo_at_cpsr:
  "CurrentCPSR demoK (demo_at cpsr inst) (Some demo_thread) (kUninit demoK) = Some (KErrNone, cpsr)"
  using demo_at_reads(2) by (simp add: CurrentCPSR_def STATUS_REGISTER_def demoK_def)

lemma demo_at_fetch:
  "CurrentInstruction demoK (demo_at cpsr inst) demo_mgr (Some demo_thread) (kUninit demoK) = Some (KErrNone, inst)"
  using demo_at_instruction by (simp add: demoK_def)

lemma demo_ready: "\<not> not_ready demo_mgr"
  by code_simp

lemma demo_no_agents: "drop 10 (iBreakPointList demo_mgr) = []"
  by code_simp


section \<open>Thumb branches\<close>

lemma low_half: "(ucast (inst32 AND 0xFFFF :: u32) :: u16) = ucast inst32"
proof -
  have "inst32 AND mask 16 = take_bit 16 inst32" by (simp add: take_bit_eq_mask)
  then have "inst32 AND 0xFFFF = take_bit 16 inst32" by (simp add: mask_eq_exp_minus_1)
  then show ?thesis by (simp only:) (rule bit_word_eqI, auto simp: bit_simps)
qed

lemma thumb_fields:
  "thumb_opcode h = drop_bit 11 h" "thumb_inst_8_15 h = drop_bit 8 h"
proof -
  have "drop_bit n (h AND push_bit n (mask (16 - n))) = drop_bit n (h :: u16)" if "n < 16" for n
    by (rule bit_word_eqI) (use that in \<open>auto simp: bit_simps dest: bit_imp_le_length\<close>)
  from this[of 11] this[of 8] show "thumb_opcode h = drop_bit 11 h" "thumb_inst_8_15 h = drop_bit 8 h"
    by (simp_all add: thumb_opcode_def thumb_inst_8_15_def mask_eq_exp_minus_1 push_bit_eq_mult)
qed

text \<open>The sign extension of the two Thumb branch offsets.\<close>

lemma thumb_sext:
  assumes "0 < n" "n < 31"
  shows "(if push_bit 1 (take_bit n w) AND 2 ^ n \<noteq> 0 then push_bit 1 (take_bit n w) OR push_bit n (mask (32 - n))
     else push_bit 1 (take_bit n w)) = (of_int (branch_offset n 1 w) :: u32)"
proof -
  have b: "push_bit 1 (take_bit n w) AND 2 ^ n \<noteq> 0 \<longleftrightarrow> bit w (n - 1)"
    unfolding and_bit_nz bit_push_bit_iff using assms by (auto simp: bit_simps)
  have "of_int (branch_offset n 1 w) = (push_bit 1 (signed_take_bit (n - 1) w) :: u32)"
    using assms by (simp add: branch_offset_def of_int_signed_take_bit push_bit_eq_mult)
  moreover have "(if bit w (n - 1) then push_bit 1 (take_bit n w) OR push_bit n (mask (32 - n))
     else push_bit 1 (take_bit n w)) = push_bit 1 (signed_take_bit (n - 1) w)"
  proof (rule bit_word_eqI)
    fix i assume i: "i < LENGTH(32)"
    consider "i = 0" | "0 < i" "i < n" | "i = n" | "n < i" by linarith
    then show "bit (if bit w (n - 1) then push_bit 1 (take_bit n w) OR push_bit n (mask (32 - n))
        else push_bit 1 (take_bit n w)) i = bit (push_bit 1 (signed_take_bit (n - 1) w)) i"
      by cases (use assms i in \<open>auto simp: bit_simps min_def simp del: push_bit_Suc\<close>)
  qed
  ultimately show ?thesis unfolding b by simp
qed

lemma unat_drop_div: "unat (drop_bit n (w :: 'a::len word)) = unat w div 2 ^ n"
  by (simp only: unat_drop_bit_eq) (simp add: drop_bit_eq_div)

lemma thumb_b1_target:
  assumes "\<not> (flag_N sr \<and> flag_V sr)" "drop_bit 12 inst = 0xD"
    and "cond = unat (take_bit 4 (drop_bit 8 inst))"
  shows "thumb_b1 inst pc sr out =
    (if cond < 14 \<and> ConditionPassed cond sr
     then out\<lparr>breakAddress := pc + 4 + of_int (branch_offset 8 1 (ucast inst))\<rparr> else out)"
proof -
  have c: "cond < 16"
    using assms(3) take_bit_nat_less_exp[of 4 "unat (drop_bit 8 inst)"] by (simp add: unsigned_take_bit_eq)
  have "drop_bit 8 (inst AND push_bit 8 (mask 4)) = take_bit 4 (drop_bit 8 inst)"
    by (rule bit_word_eqI) (auto simp: bit_simps dest: bit_imp_le_length)
  then have f: "drop_bit 8 (inst AND 0x0F00) = take_bit 4 (drop_bit 8 inst)"
    by (simp add: mask_eq_exp_minus_1 push_bit_eq_mult)
  have ex: "IsExecuted (ucast (drop_bit 8 (inst AND 0x0F00))) sr \<longleftrightarrow> ConditionPassed cond sr"
  proof -
    have "(ucast (take_bit 4 (drop_bit 8 inst)) :: u8) = of_nat cond" by (simp add: assms(3))
    then show ?thesis using IsExecuted_cases[OF c, of sr] assms(1) unfolding f by (auto simp del: insert_iff)
  qed
  have "unat inst div 4096 = 13"
    using arg_cong[OF assms(2), of unat] unfolding unat_drop_div by simp
  moreover have "cond = unat inst div 256 mod 16"
    using assms(3) unfolding unsigned_take_bit_eq unat_drop_div by (simp add: take_bit_eq_mod)
  moreover have "unat inst div 256 = 16 * (unat inst div 4096) + unat inst div 256 mod 16"
  proof -
    have "unat inst div 4096 = unat inst div 256 div 16" using div_mult2_eq[of "unat inst" 256 16] by simp
    then show ?thesis by (simp only: mult_div_mod_eq)
  qed
  ultimately have "unat (drop_bit 8 inst) = 208 + cond"
    unfolding unat_drop_div by simp
  then have lt: "thumb_inst_8_15 inst < 0xDE \<longleftrightarrow> cond < 14"
    by (simp add: thumb_fields word_less_nat_alt)
  have e: "(ucast inst AND 0x000000FF :: u32) = take_bit 8 (ucast inst)" "(0xFFFFFF00 :: u32) = push_bit 8 (mask (32 - 8))"
      "(0x00000100 :: u32) = 2 ^ 8"
    by (simp_all add: take_bit_eq_mask mask_eq_exp_minus_1 push_bit_eq_mult)
  have "(let offset = push_bit 1 (ucast inst AND 0x000000FF) :: u32 in
      if offset AND 0x00000100 \<noteq> 0 then offset OR 0xFFFFFF00 else offset) = of_int (branch_offset 8 1 (ucast inst))"
    unfolding Let_def e by (rule thumb_sext) simp_all
  then show ?thesis
    unfolding thumb_b1_def lt ex Let_def by simp
qed

lemma thumb_b2_target:
  "thumb_b2 inst pc out = out\<lparr>breakAddress := pc + 4 + of_int (branch_offset 11 1 (ucast inst))\<rparr>"
proof -
  have e: "(ucast inst AND 0x000007FF :: u32) = take_bit 11 (ucast inst)" "(0xFFFFF800 :: u32) = push_bit 11 (mask (32 - 11))"
      "(0x00000800 :: u32) = 2 ^ 11"
    by (simp_all add: take_bit_eq_mask mask_eq_exp_minus_1 push_bit_eq_mult)
  have "(let offset = push_bit 1 (ucast inst AND 0x000007FF) :: u32 in
      if offset AND 0x00000800 \<noteq> 0 then offset OR 0xFFFFF800 else offset) = of_int (branch_offset 11 1 (ucast inst))"
    unfolding Let_def e by (rule thumb_sext) simp_all
  then show ?thesis
    unfolding thumb_b2_def Let_def by simp
qed

text \<open>In Thumb mode, in a build without the v6T2 decodings and with N and V not both set, stepping B(1) or
  B(2) sets the break address to the architecture's target (the sign-extended offset from \<open>pc + 4\<close>) if the
  branch is taken, and to the next instruction if it is not, or for the codes 14 (undefined) and 15 (SVC).\<close>

theorem thumb_branch_step:
  fixes inst :: u16
  assumes "CurrentCPSR K k (Some t) (kUninit K) = Some (KErrNone, sr)" "CurrentArchMode c K sr = Inr EThumbMode"
    and "CurrentInstruction K k m (Some t) (kUninit K) = Some (KErrNone, inst32)" "inst = ucast inst32"
    and "\<not> v6t2_decodings c" "\<not> (flag_N sr \<and> flag_V sr)" "cond = unat (take_bit 4 (drop_bit 8 inst))"
  shows "(drop_bit 12 inst = 0xD \<longrightarrow>
      PCAfterInstructionExecutes c K k m (Some t) pc sr 2 re False =
        Some \<lparr>breakAddress = (if cond < 14 \<and> ConditionPassed cond sr
                              then pc + 4 + of_int (branch_offset 8 1 (ucast inst)) else pc + 2),
              newRangeEnd = re, changingModes = False\<rparr>) \<and>
    (drop_bit 11 inst = 0x1C \<longrightarrow>
      PCAfterInstructionExecutes c K k m (Some t) pc sr 2 re False =
        Some \<lparr>breakAddress = pc + 4 + of_int (branch_offset 11 1 (ucast inst)),
              newRangeEnd = re, changingModes = False\<rparr>)"
proof -
  have step: "PCAfterInstructionExecutes c K k m (Some t) pc sr 2 re False =
      thumb_switch K k m (Some t) (drop_bit 8 (mrc_cpuid c) AND 0xFF) inst inst32 pc sr
        \<lparr>breakAddress = pc + 2, newRangeEnd = re, changingModes = False\<rparr>"
    using assms(1-5) by (simp add: pc_after_thumb thumb_step_def low_half)
  have b1: "thumb_opcode inst = 0x1A \<or> thumb_opcode inst = 0x1B" if "drop_bit 12 inst = 0xD"
  proof -
    have "unat inst div 4096 = 13" using arg_cong[OF that, of unat] unfolding unat_drop_div by simp
    moreover have "unat inst div 4096 = unat inst div 2048 div 2"
      using div_mult2_eq[of "unat inst" 2048 2] by simp
    ultimately have "unat inst div 2048 = 26 \<or> unat inst div 2048 = 27" by linarith
    moreover have "unat (drop_bit 11 inst) = unat inst div 2048" using unat_drop_div[of 11 inst] by simp
    ultimately show ?thesis by (simp add: thumb_fields word_unat_eq_iff)
  qed
  show ?thesis
    unfolding step thumb_switch_def
    using b1 thumb_b1_target[OF assms(6) _ assms(7)] by (auto simp: thumb_b2_target thumb_fields)
qed

theorem thumb_branch_step_witness:
  "PCAfterInstructionExecutes demo_cpu demoK (demo_at 0x30 0xE7FE) demo_mgr (Some demo_thread) 0x8000 0x30 2 0 False =
    Some \<lparr>breakAddress = 0x8000, newRangeEnd = 0, changingModes = False\<rparr>"
proof -
  have f: "CurrentArchMode demo_cpu demoK 0x30 = Inr EThumbMode" "\<not> v6t2_decodings demo_cpu"
    "\<not> (flag_N 0x30 \<and> flag_V 0x30)" by code_simp+
  have d: "drop_bit 11 (0xE7FE :: u16) = 0x1C" "branch_offset 11 1 (ucast (0xE7FE :: u16)) = - 4" by code_simp+
  have u: "(0xE7FE :: u16) = ucast (0xE7FE :: u32)" by code_simp
  from thumb_branch_step[OF demo_at_cpsr f(1) demo_at_fetch u f(2,3) refl, of "0x8000" 0] d show ?thesis by simp
qed

section \<open>The v6T2 decodings and errors\<close>

text \<open>Seven of the v6T2 decodings (SUBS PC,LR, both forms of B, TBB/TBH, LDMDB and both forms of POP) never
  have an effect, whatever the instruction: their conditions compare the mask with the value.\<close>

theorem v6t2_dead_decodings:
  "v6t2_step K k m t inst inst32 pc out =
    run_blocks [t2_cbz K k t inst pc, t2_it inst, t2_ldm K k m t inst32, t2_rfe_t1 K k m t inst32,
      t2_rfe_t2 K k m t inst32, t2_rfe_a1 K k m t inst32] out"
  by (rule v6t2_live)

text \<open>When the instruction at the PC cannot be read, the error code itself is returned as the address at which
  the step's breakpoint is then set.\<close>

theorem fetch_error_is_address:
  assumes "CurrentCPSR K k (Some t) (kUninit K) = Some (KErrNone, sr)"
    and "CurrentArchMode c K sr \<in> {Inr EArmMode, Inr EThumbMode}"
    and "CurrentInstruction K k m (Some t) (kUninit K) = Some (err, inst)" "err \<noteq> KErrNone"
  shows "PCAfterInstructionExecutes c K k m (Some t) pc sr sz re False =
    Some \<lparr>breakAddress = kErrWord K err, newRangeEnd = re, changingModes = False\<rparr>"
  using assms by (auto simp: pc_after_arm pc_after_thumb arm_step_def thumb_step_def)

definition demo_failing :: "demo kern" where
  "demo_failing = demoK\<lparr>kRawRead := \<lambda>k t a n. (Inr KErrGeneral, \<lambda>i. 0)\<rparr>"

theorem fetch_error_is_address_witness:
  "PCAfterInstructionExecutes demo_cpu demo_failing (demo_at 0x10 0) demo_mgr (Some demo_thread) 0x8000 0x10 4 0 False =
    Some \<lparr>breakAddress = 0xFFFFFFFF, newRangeEnd = 0, changingModes = False\<rparr>"
proof -
  have u: "kUninit demo_failing = 0" by (simp add: demo_failing_def demoK_def)
  have "\<forall>n<3. kAllocOk demo_failing (demo_at 0x10 0) n" by (simp add: demo_failing_def demoK_def)
  moreover obtain regs where "kUserContext demo_failing (demo_at 0x10 0) demo_thread = (regs, 0x1FFFF)"
    "regs 15 = 0x8000" "regs 16 = 0x10"
    by (simp add: demo_failing_def demoK_def demo_at_def demo_put_def demo0_def)
  ultimately have r: "ReadKernelRegisterValue demo_failing (demo_at 0x10 0) (Some demo_thread) 15 0 = Some (KErrNone, 0x8000)"
    "ReadKernelRegisterValue demo_failing (demo_at 0x10 0) (Some demo_thread) 16 0 = Some (KErrNone, 0x10)"
    using read_kernel_register_core[of 15 demo_failing "demo_at 0x10 0" demo_thread regs "0x1FFFF" 0]
      read_kernel_register_core[of 16 demo_failing "demo_at 0x10 0" demo_thread regs "0x1FFFF" 0]
    by (simp_all add: GetFlagAtOffset_def)
  have c: "CurrentCPSR demo_failing (demo_at 0x10 0) (Some demo_thread) (kUninit demo_failing) = Some (KErrNone, 0x10)"
    by (simp add: CurrentCPSR_def STATUS_REGISTER_def r u)
  have a: "CurrentArchMode demo_cpu demo_failing 0x10 \<in> {Inr EArmMode, Inr EThumbMode}"
    by (simp add: CurrentArchMode_def demo_cpu_def demo_failing_def demoK_def)
  have "read_buf demo_failing (demo_at 0x10 0) demo_mgr (Some demo_thread) a 1 = Some (KErrGeneral, [0])" for a
    by (simp add: read_buf_def DoReadMemory_def TryToReadMemory_def demo_failing_def demoK_def overwrite_def)
  then have "CurrentInstruction demo_failing (demo_at 0x10 0) demo_mgr (Some demo_thread) (kUninit demo_failing) =
      Some (KErrGeneral, 0)"
    by (simp add: CurrentInstruction_def CurrentPC_def PC_REGISTER_def r u instruction_byte_def)
  from fetch_error_is_address[OF c a this] show ?thesis
    by (simp add: demo_failing_def demoK_def)
qed

section \<open>Setting the breakpoint of a step\<close>

lemma CurrentPC_total: "\<forall>n<3. kAllocOk K k n \<Longrightarrow> returns (CurrentPC K k (Some t) old)"
  unfolding CurrentPC_def PC_REGISTER_def by (auto intro!: read_kernel_total)

lemma CurrentCPSR_total: "\<forall>n<3. kAllocOk K k n \<Longrightarrow> returns (CurrentCPSR K k (Some t) old)"
  unfolding CurrentCPSR_def STATUS_REGISTER_def by (auto intro!: read_kernel_total)

lemma modify_breaks_core:
  assumes "brk_inv m" "\<not> not_ready m" "\<forall>k. \<forall>n<3. kAllocOk K k n"
  shows "\<exists>k' m' err. ModifyBreaksForStep c K k m (Some t) rs re r cs n = Some (k', m', err) \<and>
    brk_tame m m' \<and> temps_step t n (iBreakPointList m) (iBreakPointList m')"
proof -
  have keep: "temps_step t n (iBreakPointList m) (iBreakPointList m')"
    if "take 10 (iBreakPointList m') = take 10 (iBreakPointList m)" for m'
    using that by (simp add: temps_step_def)
  obtain e1 pc where pc: "CurrentPC K k (Some t) (kUninit K) = Some (e1, pc)"
    using CurrentPC_total[of K k t "kUninit K"] assms(3) by (auto simp: returns_def)
  show ?thesis
  proof (cases "e1 = KErrNone")
    case False
    then show ?thesis by (simp add: ModifyBreaksForStep_def pc keep)
  next
    case e1: True
    obtain k1 m1 e2 where dis: "DisableBreakAtAddress K k m pc = Some (k1, m1, e2)" and tame1: "brk_tame m m1"
      using disable_ok[of K k m pc] by blast
    have inv1: "brk_inv m1" using brk_inv_tame[OF assms(1) tame1] .
    have ready1: "\<not> not_ready m1" using tame1 assms(2) by (simp add: brk_tame_def not_ready_def)
    have t1: "take 10 (iBreakPointList m1) = take 10 (iBreakPointList m)" by (rule disable_temps[OF dis])
    obtain e3 sr where sr: "CurrentCPSR K k1 (Some t) (kUninit K) = Some (e3, sr)"
      using CurrentCPSR_total[of K k1 t "kUninit K"] assms(3) by (auto simp: returns_def)
    show ?thesis
    proof (cases "e2 = KErrNone \<and> e3 = KErrNone")
      case False
      then show ?thesis by (auto simp: ModifyBreaksForStep_def pc e1 dis sr tame1 keep t1)
    next
      case e23: True
      let ?th = "sr AND kEThumbMask K \<noteq> 0"
      obtain out where out: "PCAfterInstructionExecutes c K k1 m1 (Some t) pc sr (if ?th then 2 else 4) re False = Some out"
        using pc_after_total[OF brk_inv_walkable[OF inv1], of K k1 c t pc sr "if ?th then 2 else 4" re False] assms(3)
        by (auto elim: returnsE)
      obtain x where x: "break_walk GetNextBreak id (step_existing_body t (breakAddress out)) None m1 = Some x"
        "case_sum (\<lambda>m'. brk_tame m1 m' \<and> take 10 (iBreakPointList m') = take 10 (iBreakPointList m1)) (\<lambda>m'. m' = m1) x"
        using step_existing_walk[OF inv1 ready1, of t "breakAddress out"] by blast
      let ?real = "?th \<and> \<not> changingModes out \<or> \<not> ?th \<and> changingModes out"
      show ?thesis
      proof (cases x)
        case (Inl m2)
        then show ?thesis
          using x brk_tame_trans[OF tame1] t1
          by (auto simp: ModifyBreaksForStep_def pc e1 dis sr e23 out Let_def keep)
      next
        case (Inr m2)
        obtain y where y: "break_walk GetNextBreak snd (step_temp_body K t (breakAddress out) ?real r n) None (k1, m1) = Some y"
          "case_sum (\<lambda>(k', m', err). brk_tame m1 m' \<and> temps_step t n (iBreakPointList m1) (iBreakPointList m'))
            (\<lambda>s. s = (k1, m1) \<and> (\<forall>i<10. iAddress (iBreakPointList m1 ! i) \<noteq> 0)) y"
          using step_temp_walk[OF inv1 ready1, of K t "breakAddress out" ?real r n k1] by blast
        have nth1: "iBreakPointList m1 ! i = iBreakPointList m ! i" if "i < 10" for i
          using nth_take[OF that, of "iBreakPointList m1"] nth_take[OF that, of "iBreakPointList m"] t1 by simp
        have "temps_step t n (iBreakPointList m) xs" if "temps_step t n (iBreakPointList m1) xs" for xs
          using that t1 nth1 unfolding temps_step_def by (metis (no_types, lifting) order_less_trans)
        then show ?thesis
          using x(1) y Inr x(2) brk_tame_trans[OF tame1] tame1 t1
          by (cases y) (auto simp: ModifyBreaksForStep_def pc e1 dis sr e23 out Let_def keep)
      qed
    qed
  qed
qed



end
