(* ===== verification/DriverEvents.thy ===== *)
theory DriverEvents
  imports RmdKernel
begin

text \<open>
  Events as the driver stores them (TDriverEventInfo, src/d_driver_event_info.cpp) and as a debug agent
  receives them (TEventInfo of rm_debug_api.h).  A descriptor is its contents; the union of TEventInfo is a
  datatype with one constructor per event-specific structure.  The union of the register block and the
  trace text in TDriverEventInfo is two fields: an event uses one of them, by its type.  The status of a trace message
  is stored, but nothing copies it to the agent's event.
\<close>

unbundle bit_operations_syntax

section \<open>Types\<close>

datatype TEventType =
    EEventsBreakPoint | EEventsSwExc | EEventsHwExc | EEventsKillThread | EEventsAddLibrary
  | EEventsRemoveLibrary | EEventsBufferFull | EEventsUnknown | EEventsUserTrace
  | EEventsProcessBreakPoint | EEventsStartThread | EEventsUserTracesLost | EEventsAddProcess
  | EEventsRemoveProcess | EEventsBeyond u32

text \<open>The values that are not below EEventsLast.\<close>

fun not_below_EEventsLast :: "TEventType \<Rightarrow> bool" where
  "not_below_EEventsLast (EEventsBeyond _) = True"
| "not_below_EEventsLast _ = False"

datatype TKernelEventAction = EActionIgnore | EActionContinue | EActionSuspend | EActionOther u32

datatype TEventData =
    NoEventData
  | TThreadBreakPointInfo u32 "u32 list"
  | TThreadSwExceptionInfo u32 u32
  | TThreadHwExceptionInfo u32 "u32 list"
  | TThreadKillInfo u32 u32 u8 "u8 list"
  | TLibraryLoadedInfo u32 u32 "u8 list"
  | TLibraryUnloadedInfo "u8 list"
  | TUserTraceInfo "u8 list"
  | TStartThreadInfo "u8 list"
  | TAddProcessInfo "u8 list" u32 u64
  | TRemoveProcessInfo "u8 list"

record TEventInfo =
  eiProcessId :: u64
  eiThreadId :: u64
  eiProcessIdValid :: bool
  eiThreadIdValid :: bool
  eiActionTaken :: TKernelEventAction
  eiEventType :: TEventType
  eiData :: TEventData

datatype TUserTraceMessageContext = ESingleMessage | EMultiStart | EMultiMid | EMultiEnd | ELast

record TDriverEventInfo =
  iEventType :: TEventType
  iProcessId :: u64
  iThreadId :: u64
  iCreatorThreadId :: u64
  iCurrentPC :: u32
  iExceptionNumber :: u32
  iFileName :: "u8 list"
  iPanicCategory :: "u8 list"
  iCodeAddress :: u32
  iDataAddress :: u32
  iExitType :: u8
  iThreadIdValid :: bool
  iProcessIdValid :: bool
  iUids :: "u32 \<times> u32 \<times> u32"
  iUidsValid :: bool
  iActionTaken :: TKernelEventAction
  iThreadFlags :: u32
  iArg1 :: u32
  iArg2 :: u32
  iRmdArmExcInfo :: "u32 list"
  iUserTraceText :: "u8 list"
  iMessageStatus :: TUserTraceMessageContext

definition TUserTraceSize :: nat where "TUserTraceSize = 256"

definition TDriverEventInfo_Reset :: "TDriverEventInfo \<Rightarrow> TDriverEventInfo" where
  "TDriverEventInfo_Reset e =
     e\<lparr>iProcessId := 0, iThreadId := 0, iCurrentPC := 0, iExceptionNumber := 0, iFileName := [],
       iPanicCategory := [], iCodeAddress := 0, iDataAddress := 0, iThreadIdValid := False,
       iProcessIdValid := False, iEventType := EEventsUnknown, iUidsValid := False,
       iActionTaken := EActionIgnore, iThreadFlags := 0\<rparr>"

text \<open>The constructor of TEventInfo; (TEventType)NULL is EEventsBreakPoint.\<close>

definition new_TEventInfo :: TEventInfo where
  "new_TEventInfo =
     \<lparr>eiProcessId = 0, eiThreadId = 0, eiProcessIdValid = False, eiThreadIdValid = False,
      eiActionTaken = EActionIgnore, eiEventType = EEventsBreakPoint, eiData = NoEventData\<rparr>"

section \<open>From a driver event to the client's event\<close>

definition PopulateCommonEventInfo :: "TDriverEventInfo \<Rightarrow> TEventInfo \<Rightarrow> TEventInfo" where
  "PopulateCommonEventInfo e i =
     i\<lparr>eiEventType := iEventType e, eiProcessId := iProcessId e, eiProcessIdValid := iProcessIdValid e,
       eiThreadId := iThreadId e, eiThreadIdValid := iThreadIdValid e, eiActionTaken := iActionTaken e\<rparr>"

text \<open>The register block is copied by the driver event's own type.\<close>

fun PopulateRmdArmExcInfo :: "TDriverEventInfo \<Rightarrow> TEventData \<Rightarrow> TEventData" where
  "PopulateRmdArmExcInfo e (TThreadBreakPointInfo n arm) =
     TThreadBreakPointInfo n
       (if iEventType e = EEventsProcessBreakPoint \<or> iEventType e = EEventsBreakPoint then iRmdArmExcInfo e else arm)"
| "PopulateRmdArmExcInfo e (TThreadHwExceptionInfo n arm) =
     TThreadHwExceptionInfo n (if iEventType e = EEventsHwExc then iRmdArmExcInfo e else arm)"
| "PopulateRmdArmExcInfo e d = d"

definition PopulateThreadBreakPointInfo :: "TDriverEventInfo \<Rightarrow> TEventData" where
  "PopulateThreadBreakPointInfo e = PopulateRmdArmExcInfo e (TThreadBreakPointInfo (iExceptionNumber e) [])"

definition PopulateThreadSwExceptionInfo :: "TDriverEventInfo \<Rightarrow> TEventData" where
  "PopulateThreadSwExceptionInfo e = TThreadSwExceptionInfo (iCurrentPC e) (iExceptionNumber e)"

definition PopulateThreadHwExceptionInfo :: "TDriverEventInfo \<Rightarrow> TEventData" where
  "PopulateThreadHwExceptionInfo e = PopulateRmdArmExcInfo e (TThreadHwExceptionInfo (iExceptionNumber e) [])"

definition PopulateThreadKillInfo :: "TDriverEventInfo \<Rightarrow> TEventData" where
  "PopulateThreadKillInfo e = TThreadKillInfo (iCurrentPC e) (iExceptionNumber e) (iExitType e) (iPanicCategory e)"

definition PopulateStartThreadInfo :: "TDriverEventInfo \<Rightarrow> TEventData" where
  "PopulateStartThreadInfo e = TStartThreadInfo (iFileName e)"

definition PopulateAddProcessInfo :: "TDriverEventInfo \<Rightarrow> TEventData" where
  "PopulateAddProcessInfo e = TAddProcessInfo (iFileName e) (snd (snd (iUids e))) (iCreatorThreadId e)"

definition PopulateRemoveProcessInfo :: "TDriverEventInfo \<Rightarrow> TEventData" where
  "PopulateRemoveProcessInfo e = TRemoveProcessInfo (iFileName e)"

definition PopulateLibraryLoadedInfo :: "TDriverEventInfo \<Rightarrow> TEventData" where
  "PopulateLibraryLoadedInfo e = TLibraryLoadedInfo (iCodeAddress e) (iDataAddress e) (iFileName e)"

definition PopulateLibraryUnloadedInfo :: "TDriverEventInfo \<Rightarrow> TEventData" where
  "PopulateLibraryUnloadedInfo e = TLibraryUnloadedInfo (iFileName e)"

text \<open>The length of a trace is the event's second argument; TPtr8 panics when it is negative or larger than
  the buffer.\<close>

definition PopulateUserTraceInfo :: "TDriverEventInfo \<Rightarrow> TEventData option" where
  "PopulateUserTraceInfo e =
     (if sint (iArg2 e) < 0 \<or> int TUserTraceSize < sint (iArg2 e) then None
      else Some (TUserTraceInfo (take (unat (iArg2 e)) (iUserTraceText e))))"

definition PopulateEventSpecificInfo :: "TDriverEventInfo \<Rightarrow> TEventInfo \<Rightarrow> (TErr \<times> TEventInfo) option" where
  "PopulateEventSpecificInfo e i =
     (case eiEventType i of
        EEventsBreakPoint \<Rightarrow> Some (KErrNone, i\<lparr>eiData := PopulateThreadBreakPointInfo e\<rparr>)
      | EEventsProcessBreakPoint \<Rightarrow> Some (KErrNone, i\<lparr>eiData := PopulateThreadBreakPointInfo e\<rparr>)
      | EEventsSwExc \<Rightarrow> Some (KErrNone, i\<lparr>eiData := PopulateThreadSwExceptionInfo e\<rparr>)
      | EEventsHwExc \<Rightarrow> Some (KErrNone, i\<lparr>eiData := PopulateThreadHwExceptionInfo e\<rparr>)
      | EEventsKillThread \<Rightarrow> Some (KErrNone, i\<lparr>eiData := PopulateThreadKillInfo e\<rparr>)
      | EEventsAddLibrary \<Rightarrow> Some (KErrNone, i\<lparr>eiData := PopulateLibraryLoadedInfo e\<rparr>)
      | EEventsRemoveLibrary \<Rightarrow> Some (KErrNone, i\<lparr>eiData := PopulateLibraryUnloadedInfo e\<rparr>)
      | EEventsUserTrace \<Rightarrow> map_option (\<lambda>d. (KErrNone, i\<lparr>eiData := d\<rparr>)) (PopulateUserTraceInfo e)
      | EEventsStartThread \<Rightarrow> Some (KErrNone, i\<lparr>eiData := PopulateStartThreadInfo e\<rparr>)
      | EEventsUserTracesLost \<Rightarrow> Some (KErrNone, i)
      | EEventsAddProcess \<Rightarrow> Some (KErrNone, i\<lparr>eiData := PopulateAddProcessInfo e\<rparr>)
      | EEventsRemoveProcess \<Rightarrow> Some (KErrNone, i\<lparr>eiData := PopulateRemoveProcessInfo e\<rparr>)
      | _ \<Rightarrow> Some (KErrArgument, i))"

text \<open>The last argument and the result are the data of the client's request.\<close>

definition WriteEventToClientThread :: "TDriverEventInfo \<Rightarrow> TEventInfo \<Rightarrow> (TErr \<times> TEventInfo) option" where
  "WriteEventToClientThread e old =
     map_option (\<lambda>(err, i). (err, if err = KErrNone then i else old))
       (PopulateEventSpecificInfo e (PopulateCommonEventInfo e new_TEventInfo))"

definition FreezeOnSuspend :: "'k kern \<Rightarrow> TDriverEventInfo \<Rightarrow> bool" where
  "FreezeOnSuspend K e =
     (case iEventType e of
        EEventsHwExc \<Rightarrow> True
      | EEventsBreakPoint \<Rightarrow> True
      | EEventsProcessBreakPoint \<Rightarrow> True
      | EEventsKillThread \<Rightarrow> iExitType e = kEExitPanic K
      | _ \<Rightarrow> False)"

definition TookException :: "'k kern \<Rightarrow> TDriverEventInfo \<Rightarrow> bool" where
  "TookException K e \<longleftrightarrow>
     iExitType e = kEExitPanic K \<and> iExceptionNumber e = kECausedException K \<and> iPanicCategory e = kKernExec K"

section \<open>Lemmas\<close>

text \<open>The events that reach an agent's queue and can be delivered: their type has event data, and a trace
  fits its buffer.\<close>

definition deliverable :: "TDriverEventInfo \<Rightarrow> bool" where
  "deliverable e \<longleftrightarrow>
     iEventType e \<notin> {EEventsBufferFull, EEventsUnknown} \<and> \<not> not_below_EEventsLast (iEventType e) \<and>
     (iEventType e = EEventsUserTrace \<longrightarrow> 0 \<le> sint (iArg2 e) \<and> sint (iArg2 e) \<le> int TUserTraceSize)"

lemma write_event_common:
  assumes "deliverable e"
  shows "\<exists>d. WriteEventToClientThread e old =
    Some (KErrNone, (PopulateCommonEventInfo e new_TEventInfo)\<lparr>eiData := d\<rparr>)"
  using assms
  by (cases "iEventType e")
    (auto simp: WriteEventToClientThread_def PopulateEventSpecificInfo_def PopulateCommonEventInfo_def
      deliverable_def PopulateUserTraceInfo_def new_TEventInfo_def)

lemma write_event_undeliverable:
  assumes "iEventType e \<in> {EEventsBufferFull, EEventsUnknown} \<or> not_below_EEventsLast (iEventType e)"
  shows "WriteEventToClientThread e old = Some (KErrArgument, old)"
  using assms
  by (cases "iEventType e")
    (auto simp: WriteEventToClientThread_def PopulateEventSpecificInfo_def PopulateCommonEventInfo_def)

end
