(* ===== verification/FrozenThreads.thy ===== *)
theory FrozenThreads
  imports RmdKernel
begin

text \<open>
  Suspending and freezing threads (DProcessTracker::FreezeThread, FSWait, ResumeFrozenThread, SuspendThread
  and ResumeThread of src/d_process_tracker.cpp).  The state is the kernel and the list
  iFrozenThreadSemaphores, of which the model keeps the ids of the owning threads: an NThread is the
  \<open>iNThread\<close> member of a DThread, so comparing the owner's address is comparing the thread.
\<close>

type_synonym frozen = "u64 list"

definition FreezeThread :: "'k kern \<Rightarrow> 'k \<Rightarrow> frozen \<Rightarrow> frozen \<times> TErr" where
  "FreezeThread K k fr =
     (if kAllocOk K k 0 then
        let err = kAppend K k (length fr) in
        (if err = KErrNone then fr @ [tId (kCurrentThread K k)] else fr, err)
      else (fr, KErrNoMemory))"

definition FSWait :: "'k kern \<Rightarrow> 'k \<Rightarrow> frozen \<Rightarrow> 'k" where
  "FSWait K k fr =
     (let current = tId (kCurrentThread K k) in
      if current \<in> set fr then kFSWait K k current else k)"

definition ResumeFrozenThread :: "'k kern \<Rightarrow> 'k \<Rightarrow> frozen \<Rightarrow> DThread \<Rightarrow> 'k \<times> frozen \<times> TErr" where
  "ResumeFrozenThread K k fr aThread =
     (case find_index (\<lambda>i. i = tId aThread) fr of
        Some i \<Rightarrow> (kFSSignal K k (tId aThread), remove_nth i fr, KErrNone)
      | None \<Rightarrow> (k, fr, KErrNotFound))"

text \<open>The model's None is a read through a NULL thread.\<close>

definition SuspendThread :: "'k kern \<Rightarrow> 'k \<Rightarrow> frozen \<Rightarrow> DThread option \<Rightarrow> bool \<Rightarrow> ('k \<times> frozen \<times> TErr) option" where
  "SuspendThread K k fr aTargetThread aFreezeThread =
     (if \<not> aFreezeThread then
        (case aTargetThread of
           None \<Rightarrow> Some (k, fr, KErrBadHandle)
         | Some t \<Rightarrow> Some (kThreadSuspend K k t, fr, KErrNone))
      else (case aTargetThread of
              None \<Rightarrow> None
            | Some t \<Rightarrow>
                if tId (kCurrentThread K k) \<noteq> tId t then Some (k, fr, KErrBadHandle)
                else let (fr, err) = FreezeThread K k fr in Some (k, fr, err)))"

definition ResumeThread :: "'k kern \<Rightarrow> 'k \<Rightarrow> frozen \<Rightarrow> DThread \<Rightarrow> 'k \<times> frozen \<times> TErr" where
  "ResumeThread K k fr aTargetThread =
     (let (k, fr, err) = ResumeFrozenThread K k fr aTargetThread in
      if err = KErrNotFound then (kThreadResume K k aTargetThread, fr, KErrNone)
      else (k, fr, err))"

section \<open>Lemmas\<close>

text \<open>How often a thread is frozen: freezing adds one, resuming takes one.\<close>

lemma count_remove_first:
  "find_index (\<lambda>i. i = x) xs = Some j \<Longrightarrow> count_list (remove_nth j xs) y = count_list xs y - (if y = x then 1 else 0)"
proof (induction xs arbitrary: j)
  case (Cons a xs)
  show ?case
  proof (cases "a = x")
    case True
    then show ?thesis using Cons.prems by (auto simp: remove_nth_def)
  next
    case False
    then obtain i where i: "find_index (\<lambda>i. i = x) xs = Some i" "j = Suc i"
      using Cons.prems by auto
    have "x \<in> set xs" using find_index_SomeD[OF i(1)] by auto
    then have "0 < count_list xs x" by (metis count_list_0_iff gr0I)
    then show ?thesis using Cons.IH[OF i(1)] False i(2) by (auto simp: remove_nth_def)
  qed
qed simp

lemma freeze_count:
  assumes "SuspendThread K k fr (Some t) True = Some (k', fr', KErrNone)"
  shows "k' = k" "count_list fr' x = count_list fr x + (if x = tId t then 1 else 0)"
  using assms by (auto simp: SuspendThread_def FreezeThread_def Let_def split: if_splits)

lemma resume_count:
  "ResumeThread K k fr t = (k', fr', err) \<Longrightarrow>
   err = KErrNone \<and> count_list fr' x = count_list fr x - (if x = tId t then 1 else 0)"
proof -
  assume r: "ResumeThread K k fr t = (k', fr', err)"
  show ?thesis
  proof (cases "find_index (\<lambda>i. i = tId t) fr")
    case None
    then have "tId t \<notin> set fr" by (auto simp: find_index_None)
    then show ?thesis using r None
      by (auto simp: ResumeThread_def ResumeFrozenThread_def count_notin)
  next
    case (Some i)
    then show ?thesis using r count_remove_first[OF Some, of x]
      by (auto simp: ResumeThread_def ResumeFrozenThread_def)
  qed
qed

end
