(* ===== verification/DebugAgents.thy ===== *)
theory DebugAgents
  imports DriverEvents FrozenThreads
begin

text \<open>
  A debug agent and its queue of kernel events (DDebugAgent, src/d_debug_agent.cpp and
  inc/d_debug_agent.inl): a ring buffer of 128 slots that stops taking user traces when fewer than 64 are
  free.  The client's request (TClientDataRequest) is its data; completing it is an output, the list of
  \<open>completion\<close>s: the client thread, the code and the data at that moment.  An index outside the ring buffer
  would panic (None).
\<close>

definition KNumberOfEventsToQueue :: u32 where "KNumberOfEventsToQueue = 128"
definition KCriticalBufferSize :: u32 where "KCriticalBufferSize = 64"

record DDebugAgent =
  agId :: u64
  iEventActions :: "TEventType \<Rightarrow> TKernelEventAction"
  iRequestData :: TEventInfo
  iClientThread :: "u64 option"
  iEventQueue :: "TDriverEventInfo list"
  iHead :: u32
  iTail :: u32
  iFreeSlots :: u32
  iIgnoringTrace :: bool
  iEventBalance :: u32
  iAgentDying :: bool

type_synonym completion = "u64 option \<times> TErr \<times> TEventInfo"

section \<open>Construction\<close>

text \<open>\<open>junk\<close> stands for the members of a TDriverEventInfo that its constructor leaves as they are.\<close>

fun construct_loop :: "'k kern \<Rightarrow> 'k \<Rightarrow> TDriverEventInfo \<Rightarrow> nat list \<Rightarrow> TDriverEventInfo list \<Rightarrow> TErr \<times> TDriverEventInfo list" where
  "construct_loop K k e [] q = (KErrNone, q)"
| "construct_loop K k e (i # is) q =
     (let err = kAppend K k i in if err \<noteq> KErrNone then (err, q) else construct_loop K k e is (q @ [e]))"

definition Construct :: "'k kern \<Rightarrow> 'k \<Rightarrow> TDriverEventInfo \<Rightarrow> DDebugAgent \<Rightarrow> TErr \<times> DDebugAgent" where
  "Construct K k junk ag =
     (let (err, q) = construct_loop K k (TDriverEventInfo_Reset junk) [0..<unat KNumberOfEventsToQueue] (iEventQueue ag);
          ag = ag\<lparr>iEventQueue := q\<rparr>
      in if err \<noteq> KErrNone then (err, ag) else (kCreateRequest K k, ag))"

definition new_DDebugAgent :: "u64 \<Rightarrow> DDebugAgent" where
  "new_DDebugAgent aId =
     \<lparr>agId = aId, iEventActions = (\<lambda>_. EActionIgnore), iRequestData = new_TEventInfo, iClientThread = None,
      iEventQueue = [], iHead = 0, iTail = 0, iFreeSlots = KNumberOfEventsToQueue, iIgnoringTrace = False,
      iEventBalance = 0, iAgentDying = False\<rparr>"

text \<open>\<open>n\<close> is the number of allocations the caller has made.\<close>

definition DDebugAgent_New :: "'k kern \<Rightarrow> 'k \<Rightarrow> nat \<Rightarrow> TDriverEventInfo \<Rightarrow> u64 \<Rightarrow> DDebugAgent option" where
  "DDebugAgent_New K k n junk aId =
     (if \<not> kAllocOk K k n then None
      else let (err, agent) = Construct K k junk (new_DDebugAgent aId) in
        if err \<noteq> KErrNone then None
        else if kSemaphoreCreate K k \<noteq> KErrNone then None
        else Some agent)"

section \<open>Actions\<close>

definition SetEventAction :: "DDebugAgent \<Rightarrow> TEventType \<Rightarrow> TKernelEventAction \<Rightarrow> DDebugAgent \<times> TErr" where
  "SetEventAction ag aEvent aEventAction =
     (if not_below_EEventsLast aEvent then (ag, KErrArgument)
      else (ag\<lparr>iEventActions := (iEventActions ag)(aEvent := aEventAction)\<rparr>, KErrNone))"

definition EventAction :: "DDebugAgent \<Rightarrow> TEventType \<Rightarrow> TErr + TKernelEventAction" where
  "EventAction ag aEvent = (if not_below_EEventsLast aEvent then Inl KErrArgument else Inr (iEventActions ag aEvent))"

section \<open>The ring buffer\<close>

definition NumberOfEmptySlots :: "DDebugAgent \<Rightarrow> u32" where
  "NumberOfEmptySlots ag = iFreeSlots ag"

definition BufferEmpty :: "DDebugAgent \<Rightarrow> bool" where
  "BufferEmpty ag \<longleftrightarrow> NumberOfEmptySlots ag = KNumberOfEventsToQueue"

definition BufferFull :: "DDebugAgent \<Rightarrow> bool" where
  "BufferFull ag \<longleftrightarrow> NumberOfEmptySlots ag = 0"

definition BufferCanStoreEvent :: "DDebugAgent \<Rightarrow> bool" where
  "BufferCanStoreEvent ag \<longleftrightarrow> word_sless 0 (NumberOfEmptySlots ag)"

text \<open>The comparison is with an unsigned constant.\<close>

definition BufferAtCriticalLevel :: "DDebugAgent \<Rightarrow> bool" where
  "BufferAtCriticalLevel ag \<longleftrightarrow> NumberOfEmptySlots ag < KNumberOfEventsToQueue - KCriticalBufferSize"

definition IncrementHeadPosition :: "DDebugAgent \<Rightarrow> DDebugAgent" where
  "IncrementHeadPosition ag =
     ag\<lparr>iHead := (iHead ag + 1) mod KNumberOfEventsToQueue, iFreeSlots := iFreeSlots ag - 1\<rparr>"

definition IncrementTailPosition :: "DDebugAgent \<Rightarrow> DDebugAgent" where
  "IncrementTailPosition ag =
     ag\<lparr>iTail := (iTail ag + 1) mod KNumberOfEventsToQueue, iFreeSlots := iFreeSlots ag + 1\<rparr>"

definition slot :: "DDebugAgent \<Rightarrow> u32 \<Rightarrow> TDriverEventInfo option" where
  "slot ag i = (if unat i < length (iEventQueue ag) then Some (iEventQueue ag ! unat i) else None)"

definition set_slot :: "DDebugAgent \<Rightarrow> u32 \<Rightarrow> TDriverEventInfo \<Rightarrow> DDebugAgent" where
  "set_slot ag i e = ag\<lparr>iEventQueue := (iEventQueue ag)[unat i := e]\<rparr>"

definition QueueEvent :: "DDebugAgent \<Rightarrow> TDriverEventInfo \<Rightarrow> DDebugAgent option" where
  "QueueEvent ag aEventInfo =
     (if BufferFull ag then Some ag
      else do {
        old \<leftarrow> slot ag (iHead ag);
        (if \<not> BufferAtCriticalLevel ag then
           Some (IncrementHeadPosition (set_slot (ag\<lparr>iIgnoringTrace := False\<rparr>) (iHead ag) aEventInfo))
         else if BufferCanStoreEvent ag then
           if iEventType aEventInfo = EEventsUserTrace then
             if \<not> iIgnoringTrace ag then
               Some ((IncrementHeadPosition
                 (set_slot ag (iHead ag) ((TDriverEventInfo_Reset old)\<lparr>iEventType := EEventsUserTracesLost\<rparr>)))
                 \<lparr>iIgnoringTrace := True\<rparr>)
             else Some ag
           else Some (IncrementHeadPosition (set_slot ag (iHead ag) aEventInfo))
         else Some (IncrementHeadPosition
                (set_slot ag (iHead ag) ((TDriverEventInfo_Reset old)\<lparr>iEventType := EEventsBufferFull\<rparr>))))
      })"

section \<open>Requests of the client\<close>

text \<open>The oldest event goes to the request and its slot is emptied: shared by GetEvent and NotifyEvent.\<close>

definition release_tail :: "DDebugAgent \<Rightarrow> TDriverEventInfo \<Rightarrow> DDebugAgent" where
  "release_tail ag e =
     IncrementTailPosition (set_slot (ag\<lparr>iEventBalance := iEventBalance ag - 1\<rparr>) (iTail ag) (TDriverEventInfo_Reset e))"

definition GetEvent :: "'k kern \<Rightarrow> 'k \<Rightarrow> DDebugAgent \<Rightarrow> u64 option \<Rightarrow> (DDebugAgent \<times> completion list) option" where
  "GetEvent K k ag aClientThread =
     (if kSetStatus K k \<noteq> KErrNone then Some (ag, [])
      else
        let ag = ag\<lparr>iEventBalance := iEventBalance ag + 1, iClientThread := aClientThread\<rparr> in
        if BufferEmpty ag then Some (ag, [])
        else do {
          e \<leftarrow> slot ag (iTail ag);
          (err, d) \<leftarrow> WriteEventToClientThread e (iRequestData ag);
          let ag = ag\<lparr>iRequestData := d\<rparr>;
          Some (if err \<noteq> KErrNone then (ag, [])
                else (release_tail ag e, [(iClientThread ag, KErrNone, d)]))
        })"

definition CancelGetEvent :: "DDebugAgent \<Rightarrow> DDebugAgent \<times> completion list \<times> TErr" where
  "CancelGetEvent ag =
     (ag\<lparr>iEventBalance := 0, iClientThread := None\<rparr>, [(iClientThread ag, KErrCancel, iRequestData ag)], KErrNone)"

section \<open>Notification of kernel events\<close>

text \<open>Whether the event takes the agent itself down.\<close>

definition problematic :: "'k kern \<Rightarrow> DDebugAgent \<Rightarrow> TDriverEventInfo \<Rightarrow> bool" where
  "problematic K ag e \<longleftrightarrow>
     iProcessId e = agId ag \<and> iEventType e \<in> {EEventsSwExc, EEventsHwExc, EEventsKillThread} \<and>
     (iThreadFlags e AND (kFlagProcessCritical K OR kFlagSystemCritical K) \<noteq> 0 \<and>
        (iEventType e \<noteq> EEventsKillThread \<or> iExitType e \<noteq> kEExitKill K) \<or>
      iThreadFlags e AND (kFlagProcessPermanent K OR kFlagSystemPermanent K) \<noteq> 0)"

text \<open>The suspension of the thread; errors of SuspendThread are only logged.\<close>

definition notify_suspend ::
  "'k kern \<Rightarrow> 'k \<Rightarrow> frozen \<Rightarrow> TDriverEventInfo \<Rightarrow> ('k \<times> frozen) option" where
  "notify_suspend K k fr e =
     (let currentThread = (if iEventType e = EEventsAddLibrary \<or> iEventType e = EEventsRemoveLibrary
                           then OpenThreadHandle K k (iThreadId e) else Some (kCurrentThread K k))
      in if iEventType e \<noteq> EEventsBreakPoint \<and> iEventType e \<noteq> EEventsProcessBreakPoint
         then map_option (\<lambda>(k, fr, err). (k, fr)) (SuspendThread K k fr currentThread (FreezeOnSuspend K e))
         else Some (k, fr))"

definition notify_deliver ::
  "DDebugAgent \<Rightarrow> TDriverEventInfo \<Rightarrow> TKernelEventAction \<Rightarrow> (DDebugAgent \<times> completion list) option" where
  "notify_deliver ag aEventInfo action = do {
     ag \<leftarrow> QueueEvent ag (aEventInfo\<lparr>iActionTaken := action\<rparr>);
     if iClientThread ag \<noteq> None \<and> word_sless 0 (iEventBalance ag) then do {
       e \<leftarrow> slot ag (iTail ag);
       (err, d) \<leftarrow> WriteEventToClientThread e (iRequestData ag);
       let ag = ag\<lparr>iRequestData := d\<rparr>;
       Some (release_tail ag e, [(iClientThread ag, KErrNone, d)])
     }
     else Some (ag, [])
   }"

text \<open>The action to take: an agent that is going down does not suspend threads any more.\<close>

definition notify_action :: "'k kern \<Rightarrow> DDebugAgent \<Rightarrow> TDriverEventInfo \<Rightarrow> DDebugAgent \<times> TKernelEventAction" where
  "notify_action K ag aEventInfo =
     (let action = iEventActions ag (iEventType aEventInfo);
          ag = (if problematic K ag aEventInfo then ag\<lparr>iAgentDying := True\<rparr> else ag)
      in (ag, if iAgentDying ag \<and> action = EActionSuspend then EActionIgnore else action))"

definition NotifyEvent ::
  "'k kern \<Rightarrow> 'k \<Rightarrow> frozen \<Rightarrow> DDebugAgent \<Rightarrow> TDriverEventInfo \<Rightarrow>
     ('k \<times> frozen \<times> DDebugAgent \<times> completion list) option" where
  "NotifyEvent K k fr ag aEventInfo =
     (if not_below_EEventsLast (iEventType aEventInfo) then Some (k, fr, ag, [])
      else
        let (ag, action) = notify_action K ag aEventInfo in
        case action of
          EActionSuspend \<Rightarrow> do {
            (k, fr) \<leftarrow> notify_suspend K k fr aEventInfo;
            (ag, cs) \<leftarrow> notify_deliver ag aEventInfo action;
            Some (k, fr, ag, cs)
          }
        | EActionContinue \<Rightarrow> do {
            (ag, cs) \<leftarrow> notify_deliver ag aEventInfo action;
            Some (k, fr, ag, cs)
          }
        | _ \<Rightarrow> Some (k, fr, ag, []))"

end
