(* ===== verification/ProcessTracker.thy ===== *)
theory ProcessTracker
  imports DebugAgents
begin

text \<open>
  Which agents debug which process (DTargetProcess, src/d_target_process.cpp, and DProcessTracker,
  src/d_process_tracker.cpp).  A name is its bytes; names are compared after folding case.  A pointer to an
  agent is a reference to its place (\<open>agent_ref\<close>).  An index outside an array panics (None).
\<close>

section \<open>DTargetProcess\<close>

record DTargetProcess =
  iProcessName :: "u8 list option"
  iAgentList :: "DDebugAgent list"

definition new_DTargetProcess :: DTargetProcess where
  "new_DTargetProcess = \<lparr>iProcessName = None, iAgentList = []\<rparr>"

definition SetProcessName :: "'k kern \<Rightarrow> 'k \<Rightarrow> nat \<Rightarrow> DTargetProcess \<Rightarrow> u8 list \<Rightarrow> DTargetProcess \<times> TErr" where
  "SetProcessName K k n p aProcessName =
     (if length aProcessName < 1 then (p, KErrArgument)
      else if iProcessName p \<noteq> None then (p, KErrNotReady)
      else if \<not> kAllocOk K k n then (p, KErrNoMemory)
      else (p\<lparr>iProcessName := Some aProcessName\<rparr>, KErrNone))"

definition ProcessName :: "DTargetProcess \<Rightarrow> u8 list" where
  "ProcessName p = (case iProcessName p of None \<Rightarrow> [] | Some n \<Rightarrow> n)"

text \<open>The place of the agent in the list.\<close>

definition Agent :: "DTargetProcess \<Rightarrow> u64 \<Rightarrow> nat option" where
  "Agent p aAgentId = find_index (\<lambda>a. agId a = aAgentId) (iAgentList p)"

definition AddAgent :: "'k kern \<Rightarrow> 'k \<Rightarrow> nat \<Rightarrow> TDriverEventInfo \<Rightarrow> DTargetProcess \<Rightarrow> u64 \<Rightarrow> DTargetProcess \<times> TErr" where
  "AddAgent K k n junk p aAgentId =
     (case DDebugAgent_New K k n junk aAgentId of
        None \<Rightarrow> (p, KErrNoMemory)
      | Some agent \<Rightarrow>
          let err = kAppend K k (length (iAgentList p)) in
          (if err = KErrNone then p\<lparr>iAgentList := agent # iAgentList p\<rparr> else p, err))"

definition RemoveAgent :: "DTargetProcess \<Rightarrow> u64 \<Rightarrow> DTargetProcess \<times> TErr" where
  "RemoveAgent p aAgentId =
     (case find_index (\<lambda>a. agId a = aAgentId) (iAgentList p) of
        Some i \<Rightarrow> (p\<lparr>iAgentList := remove_nth i (iAgentList p)\<rparr>, KErrNone)
      | None \<Rightarrow> (p, KErrNotFound))"

definition AgentCount :: "DTargetProcess \<Rightarrow> nat" where
  "AgentCount p = length (iAgentList p)"

text \<open>Every agent of the process is told, in the order of the list.\<close>

fun notify_agents ::
  "'k kern \<Rightarrow> 'k \<Rightarrow> frozen \<Rightarrow> TDriverEventInfo \<Rightarrow> DDebugAgent list \<Rightarrow>
     ('k \<times> frozen \<times> DDebugAgent list \<times> completion list) option" where
  "notify_agents K k fr e [] = Some (k, fr, [], [])"
| "notify_agents K k fr e (a # as) = do {
     (k, fr, a, out) \<leftarrow> NotifyEvent K k fr a e;
     (k, fr, as, outs) \<leftarrow> notify_agents K k fr e as;
     Some (k, fr, a # as, out @ outs)
   }"

definition DTargetProcess_NotifyEvent ::
  "'k kern \<Rightarrow> 'k \<Rightarrow> frozen \<Rightarrow> DTargetProcess \<Rightarrow> TDriverEventInfo \<Rightarrow>
     ('k \<times> frozen \<times> DTargetProcess \<times> completion list) option" where
  "DTargetProcess_NotifyEvent K k fr p e =
     map_option (\<lambda>(k, fr, as, outs). (k, fr, p\<lparr>iAgentList := as\<rparr>, outs)) (notify_agents K k fr e (iAgentList p))"

section \<open>DProcessTracker\<close>

record DProcessTracker =
  iProcesses :: "DTargetProcess list"
  iAgentsAttachedToAll :: "DDebugAgent list"
  iFrozenThreadSemaphores :: frozen

definition new_DProcessTracker :: DProcessTracker where
  "new_DProcessTracker = \<lparr>iProcesses = [], iAgentsAttachedToAll = [], iFrozenThreadSemaphores = []\<rparr>"

text \<open>The destructor lets every frozen thread go.\<close>

definition delete_DProcessTracker :: "'k kern \<Rightarrow> 'k \<Rightarrow> DProcessTracker \<Rightarrow> 'k \<times> DProcessTracker" where
  "delete_DProcessTracker K k t = (fold (\<lambda>i k. kFSSignal K k i) (iFrozenThreadSemaphores t) k, new_DProcessTracker)"

definition valid_name :: "'k kern \<Rightarrow> u8 list \<Rightarrow> bool" where
  "valid_name K aProcessName \<longleftrightarrow> \<not> (length aProcessName < 1 \<or> kMaxPath K \<le> length aProcessName)"

definition CompareF_eq :: "'k kern \<Rightarrow> u8 list \<Rightarrow> u8 list \<Rightarrow> bool" where
  "CompareF_eq K a b \<longleftrightarrow> map (kFold K) a = map (kFold K) b"

definition attach_all_name :: "u8 list" where
  "attach_all_name = [42]"

datatype agent_ref = AttachedToAll nat | OfProcess nat nat

definition find_by_name :: "'k kern \<Rightarrow> DProcessTracker \<Rightarrow> u8 list \<Rightarrow> nat option" where
  "find_by_name K t aProcessName = find_index (\<lambda>p. CompareF_eq K (ProcessName p) aProcessName) (iProcesses t)"

definition FindProcess :: "'k kern \<Rightarrow> DProcessTracker \<Rightarrow> u8 list \<Rightarrow> nat option" where
  "FindProcess K t aProcessName = (if \<not> valid_name K aProcessName then None else find_by_name K t aProcessName)"

text \<open>The last agent with the id among those attached to all, else the process's own.\<close>

definition last_index :: "('a \<Rightarrow> bool) \<Rightarrow> 'a list \<Rightarrow> nat option" where
  "last_index P xs = map_option (\<lambda>i. length xs - 1 - i) (find_index P (rev xs))"

definition FindAgentForProcessAndId :: "'k kern \<Rightarrow> DProcessTracker \<Rightarrow> u8 list \<Rightarrow> u64 \<Rightarrow> agent_ref option" where
  "FindAgentForProcessAndId K t aProcessName aAgentId =
     (if aProcessName = attach_all_name then
        map_option AttachedToAll (last_index (\<lambda>a. agId a = aAgentId) (iAgentsAttachedToAll t))
      else
        case FindProcess K t aProcessName of
          None \<Rightarrow> None
        | Some i \<Rightarrow> map_option (OfProcess i) (Agent (iProcesses t ! i) aAgentId))"

fun agent_at :: "DProcessTracker \<Rightarrow> agent_ref \<Rightarrow> DDebugAgent" where
  "agent_at t (AttachedToAll i) = iAgentsAttachedToAll t ! i"
| "agent_at t (OfProcess i j) = iAgentList (iProcesses t ! i) ! j"

fun put_agent :: "DProcessTracker \<Rightarrow> agent_ref \<Rightarrow> DDebugAgent \<Rightarrow> DProcessTracker" where
  "put_agent t (AttachedToAll i) a = t\<lparr>iAgentsAttachedToAll := (iAgentsAttachedToAll t)[i := a]\<rparr>"
| "put_agent t (OfProcess i j) a =
     t\<lparr>iProcesses := (iProcesses t)[i := (iProcesses t ! i)\<lparr>iAgentList := (iAgentList (iProcesses t ! i))[j := a]\<rparr>]\<rparr>"

definition AttachProcess ::
  "'k kern \<Rightarrow> 'k \<Rightarrow> TDriverEventInfo \<Rightarrow> DProcessTracker \<Rightarrow> u8 list \<Rightarrow> u64 \<Rightarrow> DProcessTracker \<times> TErr" where
  "AttachProcess K k junk t aProcessName aAgentId =
     (if \<not> valid_name K aProcessName then (t, KErrArgument)
      else if aProcessName = attach_all_name then
        (if FindAgentForProcessAndId K t aProcessName aAgentId \<noteq> None then (t, KErrAlreadyExists)
         else case DDebugAgent_New K k 0 junk aAgentId of
           None \<Rightarrow> (t, KErrNoMemory)
         | Some agent \<Rightarrow>
             let err = kAppend K k (length (iAgentsAttachedToAll t)) in
             (if err = KErrNone then t\<lparr>iAgentsAttachedToAll := iAgentsAttachedToAll t @ [agent]\<rparr> else t, err))
      else if \<not> kAllocOk K k 0 then (t, KErrNoMemory)
      else
        let (tmpProcess, err) = SetProcessName K k 1 new_DTargetProcess aProcessName in
        if err \<noteq> KErrNone then (t, err)
        else case find_by_name K t aProcessName of
          Some found \<Rightarrow>
            (t\<lparr>iProcesses := (iProcesses t)[found := fst (AddAgent K k 2 junk (iProcesses t ! found) aAgentId)]\<rparr>, KErrNone)
        | None \<Rightarrow>
            let tmpProcess = fst (AddAgent K k 2 junk tmpProcess aAgentId);
                err = kAppend K k (length (iProcesses t))
            in (if err = KErrNone then t\<lparr>iProcesses := iProcesses t @ [tmpProcess]\<rparr> else t, err))"

definition DetachProcess :: "'k kern \<Rightarrow> DProcessTracker \<Rightarrow> u8 list \<Rightarrow> u64 \<Rightarrow> DProcessTracker \<times> TErr" where
  "DetachProcess K t aProcessName aAgentId =
     (if \<not> valid_name K aProcessName then (t, KErrArgument)
      else if aProcessName = attach_all_name then
        (case find_index (\<lambda>a. agId a = aAgentId) (iAgentsAttachedToAll t) of
           Some i \<Rightarrow> (t\<lparr>iAgentsAttachedToAll := remove_nth i (iAgentsAttachedToAll t)\<rparr>, KErrNone)
         | None \<Rightarrow> (t, KErrNotFound))
      else
        (case find_by_name K t aProcessName of
           None \<Rightarrow> (t, KErrNotFound)
         | Some foundIdx \<Rightarrow>
             let p = fst (RemoveAgent (iProcesses t ! foundIdx) aAgentId) in
             (if AgentCount p = 0 then t\<lparr>iProcesses := remove_nth foundIdx (iProcesses t)\<rparr>
              else t\<lparr>iProcesses := (iProcesses t)[foundIdx := p]\<rparr>, KErrNone)))"

text \<open>The last loop of DetachAgent runs over the number of agents there were at its start.\<close>

definition detach_all_body :: "u64 \<Rightarrow> nat \<Rightarrow> DDebugAgent list \<Rightarrow> (unit + DDebugAgent list) option" where
  "detach_all_body aAgentId i as =
     (if length as \<le> i then None
      else if agId (as ! i) = aAgentId then Some (Inr (remove_nth i as))
      else Some (Inr as))"

text \<open>The loop from the last process down, which removes the processes without agents.\<close>

definition detach_process_body :: "nat \<Rightarrow> DTargetProcess list \<Rightarrow> (unit + DTargetProcess list) option" where
  "detach_process_body i ps =
     (if length ps \<le> i then None
      else if AgentCount (ps ! i) = 0 then Some (Inr (remove_nth i ps))
      else Some (Inr ps))"

definition DetachAgent :: "DProcessTracker \<Rightarrow> u64 \<Rightarrow> (DProcessTracker \<times> TErr) option" where
  "DetachAgent t aAgentId =
     (let ps = map (\<lambda>p. fst (RemoveAgent p aAgentId)) (iProcesses t) in
      case ix_loop detach_process_body (rev [0..<length ps]) ps of
        Some (Inr ps) \<Rightarrow>
          (case ix_loop (detach_all_body aAgentId) [0..<length (iAgentsAttachedToAll t)] (iAgentsAttachedToAll t) of
             Some (Inr as) \<Rightarrow> Some (t\<lparr>iProcesses := ps, iAgentsAttachedToAll := as\<rparr>, KErrNone)
           | _ \<Rightarrow> None)
      | _ \<Rightarrow> None)"

section \<open>Routing of process events\<close>

text \<open>The position after the last backslash, 0 when there is none.\<close>

definition after_backslash :: "u8 list \<Rightarrow> nat" where
  "after_backslash name = (case last_index (\<lambda>b. b = 92) name of None \<Rightarrow> 0 | Some i \<Rightarrow> Suc i)"

text \<open>The search stops at the first process when neither name has a backslash.\<close>

fun fuzzy_loop :: "'k kern \<Rightarrow> u8 list \<Rightarrow> nat \<Rightarrow> DTargetProcess list \<Rightarrow> nat option" where
  "fuzzy_loop K aProcessName i [] = None"
| "fuzzy_loop K aProcessName i (p # ps) =
     (let procListBackSlash = after_backslash (ProcessName p);
          eventBackSlash = after_backslash aProcessName
      in if procListBackSlash = 0 \<and> eventBackSlash = 0 then None
         else if CompareF_eq K (drop eventBackSlash aProcessName) (drop procListBackSlash (ProcessName p)) then Some i
         else fuzzy_loop K aProcessName (Suc i) ps)"

definition FuzzyFindProcess :: "'k kern \<Rightarrow> DProcessTracker \<Rightarrow> u8 list \<Rightarrow> nat option" where
  "FuzzyFindProcess K t aProcessName =
     (if \<not> valid_name K aProcessName then None else fuzzy_loop K aProcessName 0 (iProcesses t))"

definition GetCurrentAgentAttachedToAll :: "DProcessTracker \<Rightarrow> nat option" where
  "GetCurrentAgentAttachedToAll t =
     (if 0 < length (iAgentsAttachedToAll t) then Some (length (iAgentsAttachedToAll t) - 1) else None)"

definition NotifyAgentsForProcessEvent ::
  "'k kern \<Rightarrow> 'k \<Rightarrow> DProcessTracker \<Rightarrow> u8 list \<Rightarrow> TDriverEventInfo \<Rightarrow> bool \<Rightarrow>
     ('k \<times> DProcessTracker \<times> completion list \<times> bool) option" where
  "NotifyAgentsForProcessEvent K k t aProcessName aEvent aAllowFuzzy =
     (let process = (case FindProcess K t aProcessName of
                       None \<Rightarrow> if aAllowFuzzy then FuzzyFindProcess K t aProcessName else None
                     | Some i \<Rightarrow> Some i)
      in case process of
        Some i \<Rightarrow> do {
          (k, fr, p, outs) \<leftarrow> DTargetProcess_NotifyEvent K k (iFrozenThreadSemaphores t) (iProcesses t ! i) aEvent;
          Some (k, t\<lparr>iProcesses := (iProcesses t)[i := p], iFrozenThreadSemaphores := fr\<rparr>, outs, True)
        }
      | None \<Rightarrow>
          (case GetCurrentAgentAttachedToAll t of
             Some i \<Rightarrow> do {
               (k, fr, a, outs) \<leftarrow> NotifyEvent K k (iFrozenThreadSemaphores t) (iAgentsAttachedToAll t ! i) aEvent;
               Some (k, t\<lparr>iAgentsAttachedToAll := (iAgentsAttachedToAll t)[i := a], iFrozenThreadSemaphores := fr\<rparr>,
                     outs, True)
             }
           | None \<Rightarrow> Some (k, t, [], False)))"

end
