(* ===== verification/EventQueue.thy ===== *)
theory EventQueue
  imports RmdPrelude
begin

text \<open>
  The interface between the sources of kernel events and a client that fetches them: an event is put, the
  oldest waiting one is fetched.  The abstract state is a list of what is waiting and a flag; the laws say
  that putting refines \<open>aput\<close> and that fetching takes the head.  The lemmas carry this to any interleaving of
  puts and fetches, and show that fetching empties the queue in order.
\<close>

datatype 'e queue_op = Put 'e | Fetch

text \<open>A sequence of operations and everything the client received, in order.\<close>

fun run_queue ::
  "('e \<Rightarrow> 's \<Rightarrow> 's option) \<Rightarrow> ('s \<Rightarrow> ('s \<times> 'o list) option) \<Rightarrow> 'e queue_op list \<Rightarrow> 's \<Rightarrow> ('s \<times> 'o list) option" where
  "run_queue put fetch [] s = Some (s, [])"
| "run_queue put fetch (Put e # ops) s = do { s \<leftarrow> put e s; run_queue put fetch ops s }"
| "run_queue put fetch (Fetch # ops) s = do {
     (s, out) \<leftarrow> fetch s;
     (s, outs) \<leftarrow> run_queue put fetch ops s;
     Some (s, out @ outs)
   }"

text \<open>The same on the abstract state.\<close>

fun run_spec ::
  "('e \<Rightarrow> 'c list \<times> bool \<Rightarrow> 'c list \<times> bool) \<Rightarrow> 'e queue_op list \<Rightarrow> 'c list \<times> bool \<Rightarrow> ('c list \<times> bool) \<times> 'c list" where
  "run_spec aput [] q = (q, [])"
| "run_spec aput (Put e # ops) q = run_spec aput ops (aput e q)"
| "run_spec aput (Fetch # ops) ([], b) = run_spec aput ops ([], b)"
| "run_spec aput (Fetch # ops) (c # cs, b) = (case run_spec aput ops (cs, b) of (q, outs) \<Rightarrow> (q, c # outs))"

locale event_queue =
  fixes ok :: "'s \<Rightarrow> bool"
    and view :: "'s \<Rightarrow> 'c list \<times> bool"
    and put :: "'e \<Rightarrow> 's \<Rightarrow> 's option"
    and aput :: "'e \<Rightarrow> 'c list \<times> bool \<Rightarrow> 'c list \<times> bool"
    and fetch :: "'s \<Rightarrow> ('s \<times> 'o list) option"
    and fine :: "'e \<Rightarrow> bool"
    and good :: "'c \<Rightarrow> bool"
    and received :: "'o \<Rightarrow> 'c"
  assumes put_law: "ok s \<Longrightarrow> \<exists>s'. put e s = Some s' \<and> ok s' \<and> view s' = aput e (view s)"
    and aput_law: "fine e \<Longrightarrow> \<exists>new. fst (aput e q) = fst q @ new \<and> (\<forall>c\<in>set new. good c)"
    and fetch_some: "ok s \<Longrightarrow> view s = (c # cs, b) \<Longrightarrow> good c \<Longrightarrow>
      \<exists>s' out. fetch s = Some (s', [out]) \<and> ok s' \<and> view s' = (cs, b) \<and> received out = c"
    and fetch_none: "ok s \<Longrightarrow> view s = ([], b) \<Longrightarrow>
      \<exists>s'. fetch s = Some (s', []) \<and> ok s' \<and> view s' = ([], b)"
begin

lemma simulation:
  assumes "ok s" "\<forall>c\<in>set (fst (view s)). good c" "\<And>e. Put e \<in> set ops \<Longrightarrow> fine e"
  shows "\<exists>s' outs. run_queue put fetch ops s = Some (s', outs) \<and> ok s' \<and>
    run_spec aput ops (view s) = (view s', map received outs)"
  using assms
proof (induction ops arbitrary: s)
  case (Cons op ops)
  obtain cs b where v: "view s = (cs, b)" by (cases "view s") auto
  show ?case
  proof (cases op)
    case (Put e)
    obtain s' where s': "put e s = Some s'" "ok s'" "view s' = aput e (view s)"
      using put_law[OF Cons.prems(1)] by blast
    moreover have "\<forall>c\<in>set (fst (view s')). good c"
      using aput_law[of e "view s"] Cons.prems(2,3) Put s'(3) by fastforce
    ultimately show ?thesis
      using Cons.IH[of s'] Cons.prems(3) Put by simp
  next
    case Fetch
    show ?thesis
    proof (cases cs)
      case Nil
      then obtain s' where s': "fetch s = Some (s', [])" "ok s'" "view s' = ([], b)"
        using fetch_none[OF Cons.prems(1)] v by blast
      then show ?thesis
        using Cons.IH[of s'] Cons.prems(3) Fetch Nil v by fastforce
    next
      case c: (Cons c cs')
      then obtain s' out where s': "fetch s = Some (s', [out])" "ok s'" "view s' = (cs', b)" "received out = c"
        using fetch_some[OF Cons.prems(1)] v Cons.prems(2) by fastforce
      then obtain s'' outs where "run_queue put fetch ops s' = Some (s'', outs)" "ok s''"
        "run_spec aput ops (cs', b) = (view s'', map received outs)"
        using Cons.IH[of s'] Cons.prems(2,3) c v by fastforce
      then show ?thesis using s' Fetch c v by simp
    qed
  qed
qed simp

lemma drain:
  assumes "ok s" "view s = (cs, b)" "\<forall>c\<in>set cs. good c"
  shows "\<exists>s' outs. run_queue put fetch (replicate (length cs) Fetch) s = Some (s', outs) \<and> ok s' \<and>
    map received outs = cs \<and> view s' = ([], b)"
  using assms
proof (induction cs arbitrary: s)
  case (Cons c cs)
  obtain s' out where s': "fetch s = Some (s', [out])" "ok s'" "view s' = (cs, b)" "received out = c"
    using fetch_some[OF Cons.prems(1,2)] Cons.prems(3) by auto
  then show ?case using Cons.IH[of s'] Cons.prems(3) by auto
qed simp

end

end
