(* ===== verification/AgentQueue.thy ===== *)
theory AgentQueue
  imports DebugAgents EventQueue
begin

text \<open>
  The ring buffer of a debug agent against a list: the well-formedness invariant of DDebugAgent, the events
  waiting in it in order, what QueueEvent and release of the oldest slot do to them, and the interface
  \<open>event_queue\<close> with the laws of a first-in first-out queue of events, interpreted on QueueEvent and GetEvent.
\<close>

section \<open>Rings in arrays\<close>

definition ring :: "'a list \<Rightarrow> nat \<Rightarrow> nat \<Rightarrow> 'a list" where
  "ring q t n = map (\<lambda>i. q ! ((t + i) mod length q)) [0..<n]"

lemma length_ring [simp]: "length (ring q t n) = n"
  by (simp add: ring_def)

lemma ring_index_inj:
  assumes "(t + i) mod L = (t + j) mod L" "i < L" "j < (L::nat)"
  shows "i = j"
proof -
  have *: "a = b" if "a \<le> b" "(t + b) mod L = (t + a) mod L" "b < L" for a b
  proof -
    have "L dvd (t + b) - (t + a)"
      using that by (intro mod_eq_dvd_iff_nat[THEN iffD1]) auto
    moreover have "b - a < L" using that by simp
    ultimately show ?thesis using that(1) by (auto dest: dvd_imp_le)
  qed
  show ?thesis
    using *[of i j] *[of j i] assms by (cases "i \<le> j") auto
qed

lemma ring_update_outside:
  assumes "n \<le> length q" "p < length q" "\<And>i. i < n \<Longrightarrow> p \<noteq> (t + i) mod length q"
  shows "ring (q[p := x]) t n = ring q t n"
  using assms by (auto simp: ring_def nth_list_update)

lemma ring_snoc:
  assumes "n < length q"
  shows "ring (q[(t + n) mod length q := x]) t (Suc n) = ring q t n @ [x]"
proof -
  have p: "(t + n) mod length q < length q" using assms by (intro mod_less_divisor) auto
  have "ring (q[(t + n) mod length q := x]) t n = ring q t n"
    by (rule ring_update_outside) (use assms p ring_index_inj[of t n "length q"] in force)+
  moreover have "ring q' t (Suc n) = ring q' t n @ [q' ! ((t + n) mod length q')]" for q' :: "'a list"
    by (simp add: ring_def)
  ultimately show ?thesis using p by simp
qed

lemma ring_Cons:
  assumes "0 < n" "t < length q"
  shows "ring q t n = q ! t # ring q ((t + 1) mod length q) (n - 1)"
proof -
  obtain m where n: "n = Suc m" using assms(1) by (cases n) auto
  have "ring q t (Suc m) = q ! (t mod length q) # map (\<lambda>i. q ! ((t + Suc i) mod length q)) [0..<m]"
    by (simp only: ring_def upt_conv_Cons map_Suc_upt[symmetric] map_map o_def list.map) (simp add: o_def upt_rec map_Suc_upt[symmetric] del: upt_Suc)
  moreover have "(t + Suc i) mod length q = ((t + 1) mod length q + i) mod length q" for i
    by (simp add: mod_simps)
  ultimately show ?thesis using assms n by (simp add: ring_def)
qed

lemma ring_drop:
  assumes "0 < n" "n \<le> length q" "t < length q"
  shows "ring (q[t := x]) ((t + 1) mod length q) (n - 1) = ring q ((t + 1) mod length q) (n - 1)"
proof (rule ring_update_outside)
  fix i assume "i < n - 1"
  then have "(t + 0) mod length q \<noteq> (t + Suc i) mod length q"
    using ring_index_inj[of t 0 "length q" "Suc i"] assms by linarith
  then show "t \<noteq> ((t + 1) mod length q + i) mod length q"
    using assms(3) by (simp add: mod_simps)
qed (use assms in auto)

section \<open>The invariant of an agent\<close>

definition used :: "DDebugAgent \<Rightarrow> nat" where
  "used ag = 128 - unat (iFreeSlots ag)"

definition ag_inv :: "DDebugAgent \<Rightarrow> bool" where
  "ag_inv ag \<longleftrightarrow>
     length (iEventQueue ag) = 128 \<and> unat (iTail ag) < 128 \<and> unat (iFreeSlots ag) \<le> 128 \<and>
     unat (iHead ag) = (unat (iTail ag) + used ag) mod 128 \<and>
     (\<forall>i < unat (iFreeSlots ag). iEventType (iEventQueue ag ! ((unat (iHead ag) + i) mod 128)) = EEventsUnknown)"

text \<open>The events waiting, oldest first.\<close>

definition waiting :: "DDebugAgent \<Rightarrow> TDriverEventInfo list" where
  "waiting ag = ring (iEventQueue ag) (unat (iTail ag)) (used ag)"

lemma length_waiting [simp]: "length (waiting ag) = used ag"
  by (simp add: waiting_def)

lemma ag_inv_simps [simp]:
  "ag_inv (ag\<lparr>iIgnoringTrace := b\<rparr>) = ag_inv ag" "ag_inv (ag\<lparr>iEventBalance := n\<rparr>) = ag_inv ag"
  "ag_inv (ag\<lparr>iClientThread := c\<rparr>) = ag_inv ag" "ag_inv (ag\<lparr>iRequestData := d\<rparr>) = ag_inv ag"
  "ag_inv (ag\<lparr>iAgentDying := b\<rparr>) = ag_inv ag" "ag_inv (ag\<lparr>iEventActions := f\<rparr>) = ag_inv ag"
  by (simp_all add: ag_inv_def used_def)

lemma waiting_simps [simp]:
  "waiting (ag\<lparr>iIgnoringTrace := b\<rparr>) = waiting ag" "waiting (ag\<lparr>iEventBalance := n\<rparr>) = waiting ag"
  "waiting (ag\<lparr>iClientThread := c\<rparr>) = waiting ag" "waiting (ag\<lparr>iRequestData := d\<rparr>) = waiting ag"
  "waiting (ag\<lparr>iAgentDying := b\<rparr>) = waiting ag" "waiting (ag\<lparr>iEventActions := f\<rparr>) = waiting ag"
  by (simp_all add: waiting_def used_def)

lemma unat_next: "unat w < 128 \<Longrightarrow> unat ((w + 1) mod 128 :: u32) = (unat w + 1) mod 128"
proof -
  assume "unat w < 128"
  then have "unat (w + 1) = unat w + 1" by (simp add: unat_word_ariths)
  then show ?thesis by (simp add: unat_mod_distrib)
qed

lemma buffer_full_iff: "BufferFull ag \<longleftrightarrow> unat (iFreeSlots ag) = 0"
  by (simp add: BufferFull_def NumberOfEmptySlots_def unat_eq_0)

lemma ag_inv_head: "ag_inv ag \<Longrightarrow> unat (iHead ag) < 128"
  by (simp add: ag_inv_def)

lemma buffer_empty_iff: "ag_inv ag \<Longrightarrow> BufferEmpty ag \<longleftrightarrow> waiting ag = []"
proof -
  assume "ag_inv ag"
  then have "waiting ag = [] \<longleftrightarrow> unat (iFreeSlots ag) = unat (128 :: u32)"
    unfolding length_0_conv[symmetric] length_waiting by (auto simp: used_def ag_inv_def)
  then show ?thesis
    by (simp only: BufferEmpty_def NumberOfEmptySlots_def KNumberOfEventsToQueue_def word_unat_eq_iff)
qed

section \<open>Putting an event\<close>

text \<open>Storing at the head appends to the waiting events and keeps the invariant.\<close>

lemma store_at_head:
  assumes "ag_inv ag" "iFreeSlots ag \<noteq> 0"
  shows "ag_inv (IncrementHeadPosition (set_slot ag (iHead ag) e))"
    "waiting (IncrementHeadPosition (set_slot ag (iHead ag) e)) = waiting ag @ [e]"
proof -
  let ?ag = "IncrementHeadPosition (set_slot ag (iHead ag) e)"
  define t n where tn: "t = unat (iTail ag)" "n = used ag"
  have f: "unat (iFreeSlots ag - 1) = unat (iFreeSlots ag) - 1"
    using assms(2) by (simp add: unat_minus_one)
  have f0: "0 < unat (iFreeSlots ag)"
    using assms(2) by (simp add: unat_gt_0)
  have inv: "length (iEventQueue ag) = 128" "t < 128" "unat (iFreeSlots ag) \<le> 128"
    "unat (iHead ag) = (t + n) mod 128"
    using assms(1) by (simp_all add: ag_inv_def tn)
  have n: "n < 128" "used ?ag = Suc n"
    using f f0 inv(3) by (simp_all add: tn used_def IncrementHeadPosition_def set_slot_def)
  have q: "iEventQueue ?ag = (iEventQueue ag)[(t + n) mod 128 := e]" "iTail ?ag = iTail ag"
    "unat (iFreeSlots ?ag) = unat (iFreeSlots ag) - 1" "iHead ?ag = (iHead ag + 1) mod 128"
    by (simp_all add: IncrementHeadPosition_def set_slot_def inv(4) f KNumberOfEventsToQueue_def)
  have h: "unat (iHead ?ag) = (t + Suc n) mod 128"
    unfolding q(4) by (subst unat_next) (simp_all add: inv(4) mod_simps)
  show "waiting ?ag = waiting ag @ [e]"
    using ring_snoc[of n "iEventQueue ag" t e] n inv(1) by (simp add: waiting_def q tn[symmetric])
  have "iEventType (iEventQueue ?ag ! ((unat (iHead ?ag) + i) mod 128)) = EEventsUnknown"
    if i: "i < unat (iFreeSlots ?ag)" for i
  proof -
    have e: "(unat (iHead ?ag) + i) mod 128 = (unat (iHead ag) + Suc i) mod 128"
      unfolding h inv(4) mod_add_left_eq by simp
    have "(unat (iHead ag) + Suc i) mod 128 \<noteq> (unat (iHead ag) + 0) mod 128"
      using ring_index_inj[of "unat (iHead ag)" "Suc i" 128 0] i inv(3) unfolding q(3) by linarith
    then have "(unat (iHead ag) + Suc i) mod 128 \<noteq> (t + n) mod 128"
      by (simp add: inv(4))
    then have "iEventQueue ?ag ! ((unat (iHead ?ag) + i) mod 128) = iEventQueue ag ! ((unat (iHead ag) + Suc i) mod 128)"
      unfolding q(1) e by simp
    moreover have "\<forall>i < unat (iFreeSlots ag). iEventType (iEventQueue ag ! ((unat (iHead ag) + i) mod 128)) = EEventsUnknown"
      using assms(1) unfolding ag_inv_def by blast
    moreover have "Suc i < unat (iFreeSlots ag)" using i q(3) by linarith
    ultimately show ?thesis by metis
  qed
  then show "ag_inv ?ag"
    unfolding ag_inv_def using inv q(1,2,3) h n(2) by (auto simp: tn)
qed

text \<open>Releasing the oldest event.\<close>

lemma release_tail_spec:
  assumes "ag_inv ag" "waiting ag \<noteq> []"
  shows "ag_inv (release_tail ag e)" "waiting (release_tail ag e) = tl (waiting ag)"
proof -
  let ?ag = "release_tail ag e"
  define t n where tn: "t = unat (iTail ag)" "n = used ag"
  have "0 < n" using assms(2) unfolding length_greater_0_conv[symmetric] tn by simp
  then have f0: "unat (iFreeSlots ag) < 128" by (simp add: tn used_def)
  have f: "unat (iFreeSlots ag + 1) = unat (iFreeSlots ag) + 1"
    using f0 by (simp add: unat_word_ariths)
  have inv: "length (iEventQueue ag) = 128" "t < 128" "unat (iHead ag) = (t + n) mod 128" "n \<le> 128"
    using assms(1) by (simp_all add: ag_inv_def tn used_def)
  have q: "iEventQueue ?ag = (iEventQueue ag)[t := TDriverEventInfo_Reset e]" "iHead ?ag = iHead ag"
    "unat (iFreeSlots ?ag) = unat (iFreeSlots ag) + 1" "iTail ?ag = (iTail ag + 1) mod 128"
    by (simp_all add: release_tail_def IncrementTailPosition_def set_slot_def tn f KNumberOfEventsToQueue_def)
  have n: "used ?ag = n - 1" by (simp add: used_def q(3) tn)
  have t: "unat (iTail ?ag) = (t + 1) mod 128"
    unfolding q(4) by (subst unat_next) (use inv(2) in \<open>simp_all add: tn\<close>)
  show "waiting ?ag = tl (waiting ag)"
    using ring_Cons[of n t "iEventQueue ag"] ring_drop[of n "iEventQueue ag" t "TDriverEventInfo_Reset e"]
      \<open>0 < n\<close> inv(1,2,4) by (simp add: waiting_def q(1) t n tn[symmetric])
  have "iEventType (iEventQueue ?ag ! ((unat (iHead ?ag) + i) mod 128)) = EEventsUnknown"
    if i: "i < unat (iFreeSlots ?ag)" for i
  proof (cases "(unat (iHead ag) + i) mod 128 = t")
    case True
    then show ?thesis using inv(1,2) by (simp add: q TDriverEventInfo_Reset_def)
  next
    case False
    have "i \<noteq> unat (iFreeSlots ag)"
    proof
      assume "i = unat (iFreeSlots ag)"
      then have "(unat (iHead ag) + i) mod 128 = (t + (n + i)) mod 128" "n + i = 128"
        using f0 by (auto simp: inv(3) mod_simps tn used_def add.assoc)
      then show False using False inv(2) by simp
    qed
    then have "i < unat (iFreeSlots ag)" using i q(3) by simp
    moreover have "\<forall>i < unat (iFreeSlots ag). iEventType (iEventQueue ag ! ((unat (iHead ag) + i) mod 128)) = EEventsUnknown"
      using assms(1) unfolding ag_inv_def by blast
    ultimately show ?thesis using False unfolding q by simp
  qed
  moreover have "(t + n) mod 128 = ((t + 1) mod 128 + (n - 1)) mod 128"
    using \<open>0 < n\<close> unfolding mod_add_left_eq by simp
  ultimately show "ag_inv ?ag"
    unfolding ag_inv_def using inv q(1,2,3) t n f0 by auto
qed

section \<open>The abstract queue\<close>

text \<open>What a client will receive for an event, and the queue as the client sees it: what is to come and
  whether traces are being dropped.\<close>

type_synonym client_event = "(TErr \<times> TEventInfo) option"

definition client_view :: "TDriverEventInfo \<Rightarrow> client_event" where
  "client_view e = PopulateEventSpecificInfo e (PopulateCommonEventInfo e new_TEventInfo)"

definition queue_view :: "DDebugAgent \<Rightarrow> client_event list \<times> bool" where
  "queue_view ag = (map client_view (waiting ag), iIgnoringTrace ag)"

definition traces_lost :: client_event where
  "traces_lost = Some (KErrNone, new_TEventInfo\<lparr>eiEventType := EEventsUserTracesLost\<rparr>)"

fun spec_put :: "TDriverEventInfo \<Rightarrow> client_event list \<times> bool \<Rightarrow> client_event list \<times> bool" where
  "spec_put e (es, dropping) =
     (if length es = 128 then (es, dropping)
      else if length es \<le> 64 then (es @ [client_view e], False)
      else if iEventType e \<noteq> EEventsUserTrace then (es @ [client_view e], dropping)
      else if dropping then (es, True)
      else (es @ [traces_lost], True))"

lemma client_view_lost:
  "client_view ((TDriverEventInfo_Reset e)\<lparr>iEventType := EEventsUserTracesLost\<rparr>) = traces_lost"
  by (simp add: client_view_def traces_lost_def PopulateEventSpecificInfo_def PopulateCommonEventInfo_def
      TDriverEventInfo_Reset_def new_TEventInfo_def)

lemma write_event_view:
  "WriteEventToClientThread e old = map_option (\<lambda>(err, i). (err, if err = KErrNone then i else old)) (client_view e)"
  by (simp add: WriteEventToClientThread_def client_view_def)

lemma at_critical_iff:
  "ag_inv ag \<Longrightarrow> BufferAtCriticalLevel ag \<longleftrightarrow> 64 < used ag"
  by (auto simp: BufferAtCriticalLevel_def NumberOfEmptySlots_def KNumberOfEventsToQueue_def
      KCriticalBufferSize_def used_def ag_inv_def word_less_nat_alt)

lemma sint_small: "unat (w :: u32) < 2 ^ 31 \<Longrightarrow> sint w = int (unat w)"
proof -
  assume "unat w < 2 ^ 31"
  then have n: "unat w < 2147483648" by simp
  have "signed_take_bit 31 (int (unat w)) = int (unat w)"
  proof (rule signed_take_bit_int_eq_self)
    show "- (2 ^ 31) \<le> int (unat w)" by (rule order_trans[of _ 0]) (simp, rule of_nat_0_le_iff)
    have "int (unat w) < 2147483648" using n by linarith
    then show "int (unat w) < 2 ^ 31" by simp
  qed
  then show ?thesis unfolding sint_uint by simp
qed

lemma free_slots_zero: "iFreeSlots ag = 0 \<longleftrightarrow> unat (iFreeSlots ag) = 0"
  by (simp add: unat_eq_0)

lemma can_store_iff:
  assumes "ag_inv ag"
  shows "BufferCanStoreEvent ag \<longleftrightarrow> iFreeSlots ag \<noteq> 0"
proof -
  have "unat (iFreeSlots ag) \<le> 128" using assms by (simp add: ag_inv_def)
  then have "sint (iFreeSlots ag) = int (unat (iFreeSlots ag))" by (intro sint_small) simp
  then show ?thesis
    unfolding free_slots_zero BufferCanStoreEvent_def NumberOfEmptySlots_def word_sless_alt
    by (simp only: signed_0 of_nat_0_less_iff neq0_conv)
qed

lemma used_full: "ag_inv ag \<Longrightarrow> used ag = 128 \<longleftrightarrow> iFreeSlots ag = 0"
  unfolding free_slots_zero ag_inv_def used_def by arith

lemma head_slot: "ag_inv ag \<Longrightarrow> \<exists>s. slot ag (iHead ag) = Some s"
  using ag_inv_head[of ag] by (simp add: slot_def ag_inv_def)

text \<open>Storing one event at the head, as the branches of QueueEvent do.\<close>

lemma store_view:
  assumes "ag_inv ag" "iFreeSlots ag \<noteq> 0"
  shows "ag_inv (IncrementHeadPosition (set_slot ag (iHead ag) e)) \<and>
    queue_view (IncrementHeadPosition (set_slot ag (iHead ag) e)) =
      (map client_view (waiting ag) @ [client_view e], iIgnoringTrace ag)"
  using store_at_head[OF assms, of e]
  by (simp add: queue_view_def) (simp add: IncrementHeadPosition_def set_slot_def)

lemma queue_event_core:
  assumes "ag_inv ag"
  shows "\<exists>ag'. QueueEvent ag e = Some ag' \<and> ag_inv ag' \<and> queue_view ag' = spec_put e (queue_view ag)"
proof (cases "BufferFull ag")
  case True
  then show ?thesis
    using assms used_full[OF assms]
    by (simp add: QueueEvent_def queue_view_def BufferFull_def NumberOfEmptySlots_def)
next
  case False
  then have free: "iFreeSlots ag \<noteq> 0" "used ag \<noteq> 128"
    using used_full[OF assms] by (simp_all add: BufferFull_def NumberOfEmptySlots_def)
  obtain old where old: "slot ag (iHead ag) = Some old"
    using head_slot[OF assms] by blast
  note unfolds = QueueEvent_def False old at_critical_iff[OF assms] can_store_iff[OF assms]
  show ?thesis
  proof (cases "used ag \<le> 64")
    case True
    then show ?thesis
      using store_view[of "ag\<lparr>iIgnoringTrace := False\<rparr>" e] assms free by (simp add: unfolds queue_view_def)
  next
    case critical: False
    show ?thesis
    proof (cases "iEventType e = EEventsUserTrace \<and> \<not> iIgnoringTrace ag")
      case True
      then show ?thesis
        using store_view[OF assms free(1), of "(TDriverEventInfo_Reset old)\<lparr>iEventType := EEventsUserTracesLost\<rparr>"]
          critical free by (simp add: unfolds queue_view_def client_view_lost)
    next
      case False
      then show ?thesis
        using store_view[OF assms free(1), of e] assms critical free by (auto simp: unfolds queue_view_def)
    qed
  qed
qed

text \<open>What QueueEvent leaves alone.\<close>

lemma queue_event_frame:
  assumes "QueueEvent ag e = Some ag'"
  shows "iEventBalance ag' = iEventBalance ag \<and> iClientThread ag' = iClientThread ag \<and>
    iRequestData ag' = iRequestData ag \<and> iEventActions ag' = iEventActions ag \<and> agId ag' = agId ag \<and>
    iAgentDying ag' = iAgentDying ag"
  using assms
  by (auto simp: QueueEvent_def IncrementHeadPosition_def set_slot_def split: if_splits bind_splits)

text \<open>An event never makes the queue shorter, and never leaves an empty queue empty.\<close>

lemma spec_put_appends: "\<exists>new. fst (spec_put e q) = fst q @ new \<and> set new \<subseteq> {client_view e, traces_lost}"
  by (cases q) auto

lemma spec_put_nonempty: "fst (spec_put e q) \<noteq> []"
  by (cases q) auto

section \<open>Fetching\<close>

lemma waiting_tail_slot:
  assumes "ag_inv ag" "waiting ag = e # es"
  shows "slot ag (iTail ag) = Some e"
proof -
  have "0 < used ag" using assms(2) by (metis length_waiting length_greater_0_conv list.distinct(1))
  then show ?thesis
    using assms ring_Cons[of "used ag" "unat (iTail ag)" "iEventQueue ag"]
    by (simp add: slot_def ag_inv_def waiting_def)
qed

lemma release_tail_frame [simp]:
  "iIgnoringTrace (release_tail ag e) = iIgnoringTrace ag" "iClientThread (release_tail ag e) = iClientThread ag"
  "iRequestData (release_tail ag e) = iRequestData ag" "iEventBalance (release_tail ag e) = iEventBalance ag - 1"
  by (simp_all add: release_tail_def IncrementTailPosition_def set_slot_def)

text \<open>The three outcomes of a request: nothing waiting, the oldest event delivered, the oldest event
  undeliverable.\<close>

lemma get_event_empty:
  assumes "ag_inv ag" "kSetStatus K k = KErrNone" "waiting ag = []"
  shows "GetEvent K k ag th = Some (ag\<lparr>iEventBalance := iEventBalance ag + 1, iClientThread := th\<rparr>, [])"
proof -
  have "BufferEmpty (ag\<lparr>iEventBalance := iEventBalance ag + 1, iClientThread := th\<rparr>)"
    using buffer_empty_iff[OF assms(1)] assms(3) by (simp add: BufferEmpty_def NumberOfEmptySlots_def)
  then show ?thesis by (simp add: GetEvent_def assms(2))
qed

lemma get_event_waiting:
  assumes "ag_inv ag" "kSetStatus K k = KErrNone" "waiting ag = e # es"
  shows "GetEvent K k ag th =
    (case WriteEventToClientThread e (iRequestData ag) of
       None \<Rightarrow> None
     | Some (err, d) \<Rightarrow>
         let ag' = ag\<lparr>iEventBalance := iEventBalance ag + 1, iClientThread := th, iRequestData := d\<rparr> in
         Some (if err \<noteq> KErrNone then (ag', []) else (release_tail ag' e, [(th, KErrNone, d)])))"
proof -
  let ?ag = "ag\<lparr>iEventBalance := iEventBalance ag + 1, iClientThread := th\<rparr>"
  have "\<not> BufferEmpty ?ag"
    using buffer_empty_iff[OF assms(1)] assms(3) by (simp add: BufferEmpty_def NumberOfEmptySlots_def)
  moreover have "slot ?ag (iTail ag) = Some e"
    using waiting_tail_slot[OF assms(1,3)] by (simp add: slot_def split: if_splits)
  ultimately show ?thesis
    by (auto simp: GetEvent_def assms(2) Let_def slot_def split: option.splits if_splits)
qed

lemma get_event_ag_inv:
  assumes "ag_inv ag" "GetEvent K k ag th = Some (ag', cs)"
  shows "ag_inv ag'"
proof (cases "kSetStatus K k = KErrNone")
  case True
  show ?thesis
  proof (cases "waiting ag")
    case Nil
    then show ?thesis using get_event_empty[OF assms(1) True] assms by auto
  next
    case (Cons e es)
    show ?thesis
      using assms(2) unfolding get_event_waiting[OF assms(1) True Cons] Let_def
      by (auto split: option.splits if_splits intro!: release_tail_spec(1) simp: assms(1) Cons)
  qed
qed (use assms in \<open>simp add: GetEvent_def\<close>)

section \<open>The queue of an agent is an event queue\<close>

definition agent_pending :: "DDebugAgent \<Rightarrow> client_event list" where
  "agent_pending ag = fst (queue_view ag)"

definition agent_put :: "TDriverEventInfo \<Rightarrow> DDebugAgent \<Rightarrow> DDebugAgent option" where
  "agent_put e ag = QueueEvent ag e"

definition agent_fetch :: "'k kern \<Rightarrow> 'k \<Rightarrow> u64 \<Rightarrow> DDebugAgent \<Rightarrow> (DDebugAgent \<times> completion list) option" where
  "agent_fetch K k th ag = GetEvent K k ag (Some th)"

fun received_event :: "completion \<Rightarrow> client_event" where
  "received_event (th, err, d) = Some (err, d)"

fun good_event :: "client_event \<Rightarrow> bool" where
  "good_event (Some (KErrNone, d)) = True"
| "good_event _ = False"

lemma good_event_iff: "good_event c \<longleftrightarrow> (\<exists>d. c = Some (KErrNone, d))"
  by (cases c rule: good_event.cases) auto

lemma deliverable_good: "deliverable e \<Longrightarrow> good_event (client_view e)"
  using write_event_common[of e new_TEventInfo]
  by (auto simp: write_event_view good_event_iff split: if_splits)

interpretation agq: event_queue "\<lambda>ag. ag_inv ag \<and> kSetStatus K k = KErrNone" queue_view agent_put spec_put
  "agent_fetch K k th" deliverable good_event received_event
  for K :: "'k kern" and k :: 'k and th :: u64
proof (unfold_locales, goal_cases)
  case (1 ag e)
  then show ?case using queue_event_core[of ag e] by (simp add: agent_put_def)
next
  case (2 e q)
  moreover have "good_event traces_lost" by (simp add: traces_lost_def)
  ultimately show ?case
    using spec_put_appends[of e q] deliverable_good[of e] by blast
next
  case (3 ag c cs b)
  then obtain e es where e: "waiting ag = e # es" "c = client_view e" "cs = map client_view es" "b = iIgnoringTrace ag"
    by (auto simp: queue_view_def)
  obtain d where d: "client_view e = Some (KErrNone, d)"
    using 3 e(2) good_event_iff by auto
  let ?ag = "ag\<lparr>iEventBalance := iEventBalance ag + 1, iClientThread := Some th, iRequestData := d\<rparr>"
  have "agent_fetch K k th ag = Some (release_tail ?ag e, [(Some th, KErrNone, d)])"
    using 3 get_event_waiting[of ag K k e es] e d by (simp add: agent_fetch_def write_event_view)
  then show ?case
    using release_tail_spec[of ?ag e] 3 e d by (auto simp: queue_view_def)
next
  case (4 ag b)
  then have "waiting ag = []" by (simp add: queue_view_def)
  then show ?case
    using get_event_empty[of ag K k] 4 by (auto simp: agent_fetch_def queue_view_def)
qed

end
