(* ===== verification/AgentProps.thy ===== *)
theory AgentProps
  imports AgentQueue DemoKernel
begin

text \<open>
  What the event queue of a debug agent guarantees: construction, the states an agent can reach by
  notifications and the client's requests, delivery in order, and the suspension rules of NotifyEvent.
\<close>

section \<open>Construction\<close>

lemma construct_loop_done:
  "construct_loop K k e is q = (KErrNone, q') \<Longrightarrow> q' = q @ replicate (length is) e"
  by (induction "is" arbitrary: q) (fastforce simp: Let_def split: if_splits)+

lemma new_agent:
  assumes "DDebugAgent_New K k n junk aId = Some ag"
  shows "ag = (new_DDebugAgent aId)\<lparr>iEventQueue := replicate 128 (TDriverEventInfo_Reset junk)\<rparr>"
proof -
  obtain q where q: "construct_loop K k (TDriverEventInfo_Reset junk) [0..<unat KNumberOfEventsToQueue] [] = (KErrNone, q)"
    and ag: "ag = (new_DDebugAgent aId)\<lparr>iEventQueue := q\<rparr>"
    using assms
    by (auto simp: DDebugAgent_New_def Construct_def Let_def new_DDebugAgent_def split: if_splits prod.splits)
  have "q = replicate 128 (TDriverEventInfo_Reset junk)"
    using construct_loop_done[OF q] by (simp add: KNumberOfEventsToQueue_def)
  then show ?thesis using ag by simp
qed

lemma new_agent_inv: "DDebugAgent_New K k n junk aId = Some ag \<Longrightarrow> ag_inv ag \<and> waiting ag = []"
  by (drule new_agent)
    (simp add: ag_inv_def used_def new_DDebugAgent_def KNumberOfEventsToQueue_def TDriverEventInfo_Reset_def
      waiting_def ring_def)

section \<open>Notification\<close>

text \<open>The delivery part of NotifyEvent, on the queue the client sees.\<close>

lemma notify_deliver_core:
  assumes "ag_inv ag" "fst (spec_put (e\<lparr>iActionTaken := action\<rparr>) (queue_view ag)) = c # cs"
  shows "\<exists>ag1. QueueEvent ag (e\<lparr>iActionTaken := action\<rparr>) = Some ag1 \<and> ag_inv ag1 \<and> agent_pending ag1 = c # cs \<and>
    notify_deliver ag e action =
      (if iClientThread ag \<noteq> None \<and> word_sless 0 (iEventBalance ag)
       then map_option (\<lambda>(err, i). let d = (if err = KErrNone then i else iRequestData ag) in
              (release_tail (ag1\<lparr>iRequestData := d\<rparr>) (hd (waiting ag1)), [(iClientThread ag, KErrNone, d)])) c
       else Some (ag1, []))"
proof -
  obtain ag1 where ag1: "QueueEvent ag (e\<lparr>iActionTaken := action\<rparr>) = Some ag1" "ag_inv ag1"
    "queue_view ag1 = spec_put (e\<lparr>iActionTaken := action\<rparr>) (queue_view ag)"
    using queue_event_core[OF assms(1)] by blast
  then have p: "agent_pending ag1 = c # cs" using assms(2) by (simp add: agent_pending_def)
  then obtain e1 es where w: "waiting ag1 = e1 # es" "client_view e1 = c"
    by (auto simp: agent_pending_def queue_view_def)
  note fr = queue_event_frame[OF ag1(1)]
  show ?thesis
    using ag1 p w waiting_tail_slot[OF ag1(2) w(1)] fr
    by (cases c) (auto simp: notify_deliver_def write_event_view Let_def)
qed

text \<open>The invariant, and that delivery takes at most the oldest event away.\<close>

lemma notify_deliver_view:
  assumes "ag_inv ag" "notify_deliver ag e action = Some (ag', out)"
  shows "ag_inv ag' \<and>
    (let cs = fst (spec_put (e\<lparr>iActionTaken := action\<rparr>) (queue_view ag)) in agent_pending ag' \<in> {cs, tl cs})"
proof -
  obtain c cs where c: "fst (spec_put (e\<lparr>iActionTaken := action\<rparr>) (queue_view ag)) = c # cs"
    using spec_put_nonempty by (metis neq_Nil_conv)
  obtain ag1 where ag1: "ag_inv ag1" "agent_pending ag1 = c # cs"
    "notify_deliver ag e action =
      (if iClientThread ag \<noteq> None \<and> word_sless 0 (iEventBalance ag)
       then map_option (\<lambda>(err, i). let d = (if err = KErrNone then i else iRequestData ag) in
              (release_tail (ag1\<lparr>iRequestData := d\<rparr>) (hd (waiting ag1)), [(iClientThread ag, KErrNone, d)])) c
       else Some (ag1, []))"
    using notify_deliver_core[OF assms(1) c] by blast
  have "waiting ag1 \<noteq> []" using ag1(2) by (auto simp: agent_pending_def queue_view_def)
  then have "ag_inv (release_tail (ag1\<lparr>iRequestData := d\<rparr>) x)"
    "agent_pending (release_tail (ag1\<lparr>iRequestData := d\<rparr>) x) = cs" for d x
    using release_tail_spec[of "ag1\<lparr>iRequestData := d\<rparr>" x] ag1(1,2)
    by (simp_all add: agent_pending_def queue_view_def map_tl)
  then show ?thesis
    using assms(2) ag1(1,2) unfolding ag1(3) c Let_def by (auto simp: Let_def split: if_splits)
qed

lemma notify_action_agent:
  "notify_action K ag e = (ag0, act) \<Longrightarrow> ag0 = ag \<or> ag0 = ag\<lparr>iAgentDying := True\<rparr>"
  by (auto simp: notify_action_def Let_def split: if_splits)

text \<open>A notification either leaves the queue alone or delivers to it.\<close>

lemma notify_event_forms:
  assumes "NotifyEvent K k fr ag e = Some (k', fr', ag', out)"
    "notify_action K ag e = (ag0, act)" "\<not> not_below_EEventsLast (iEventType e)"
  shows "if act = EActionSuspend then
           notify_suspend K k fr e = Some (k', fr') \<and> notify_deliver ag0 e act = Some (ag', out)
         else if act = EActionContinue then k' = k \<and> fr' = fr \<and> notify_deliver ag0 e act = Some (ag', out)
         else k' = k \<and> fr' = fr \<and> ag' = ag0 \<and> out = []"
  using assms by (cases act) (auto simp: NotifyEvent_def split: bind_splits)

lemma notify_event_inv:
  assumes "ag_inv ag" "NotifyEvent K k fr ag e = Some (k', fr', ag', out)"
  shows "ag_inv ag'"
proof (cases "not_below_EEventsLast (iEventType e)")
  case False
  obtain ag0 act where a: "notify_action K ag e = (ag0, act)" by (cases "notify_action K ag e") auto
  then have "ag_inv ag0" using notify_action_agent[OF a] assms(1) by auto
  then show ?thesis
    using notify_event_forms[OF assms(2) a False] notify_deliver_view[of ag0 e act ag' out] by (auto split: if_splits)
qed (use assms in \<open>simp add: NotifyEvent_def\<close>)

section \<open>Reachable agents\<close>

text \<open>The states an agent goes through while the events it is notified of satisfy \<open>P\<close>; the kernel may be in
  any state at each step.\<close>

inductive agent_reach :: "'k kern \<Rightarrow> (TDriverEventInfo \<Rightarrow> bool) \<Rightarrow> DDebugAgent \<Rightarrow> bool" for K P where
  created: "DDebugAgent_New K k n junk aId = Some ag \<Longrightarrow> agent_reach K P ag"
| notified: "agent_reach K P ag \<Longrightarrow> P e \<Longrightarrow> NotifyEvent K k fr ag e = Some (k', fr', ag', out) \<Longrightarrow> agent_reach K P ag'"
| fetched: "agent_reach K P ag \<Longrightarrow> GetEvent K k ag th = Some (ag', out) \<Longrightarrow> agent_reach K P ag'"
| cancelled: "agent_reach K P ag \<Longrightarrow> agent_reach K P (fst (CancelGetEvent ag))"
| action_set: "agent_reach K P ag \<Longrightarrow> agent_reach K P (fst (SetEventAction ag ev act))"

lemma agent_reach_inv: "agent_reach K P ag \<Longrightarrow> ag_inv ag"
proof (induction rule: agent_reach.induct)
  case (created k n junk aId ag)
  show ?case using new_agent_inv[OF created] by simp
next
  case (notified ag e k fr k' fr' ag' out)
  show ?case by (rule notify_event_inv[OF notified.IH notified.hyps(3)])
next
  case (fetched ag k th ag' out)
  show ?case by (rule get_event_ag_inv[OF fetched.IH fetched.hyps(2)])
qed (simp_all add: CancelGetEvent_def SetEventAction_def)

lemma head_slot_free:
  assumes "ag_inv ag" "\<not> BufferFull ag"
  shows "\<exists>s. slot ag (iHead ag) = Some s \<and> iEventType s = EEventsUnknown"
proof -
  have "0 < unat (iFreeSlots ag)" using assms(2) by (simp add: buffer_full_iff)
  moreover have "\<forall>i < unat (iFreeSlots ag). iEventType (iEventQueue ag ! ((unat (iHead ag) + i) mod 128)) = EEventsUnknown"
    using assms(1) unfolding ag_inv_def by blast
  ultimately have "iEventType (iEventQueue ag ! ((unat (iHead ag) + 0) mod 128)) = EEventsUnknown" by blast
  then show ?thesis
    using ag_inv_head[OF assms(1)] assms(1) by (simp add: slot_def ag_inv_def)
qed

text \<open>When only deliverable events are notified, everything waiting can be delivered.\<close>

lemma spec_put_good:
  assumes "\<forall>c\<in>set (fst q). good_event c" "good_event (client_view e)"
  shows "\<forall>c\<in>set (fst (spec_put e q)). good_event c"
proof -
  have "good_event traces_lost" by (simp add: traces_lost_def)
  then show ?thesis using assms by (cases q) auto
qed

lemma notify_event_good:
  assumes "ag_inv ag" "NotifyEvent K k fr ag e = Some (k', fr', ag', out)" "deliverable e"
    "\<forall>c\<in>set (agent_pending ag). good_event c"
  shows "\<forall>c\<in>set (agent_pending ag'). good_event c"
proof -
  have ev: "\<not> not_below_EEventsLast (iEventType e)" using assms(3) by (simp add: deliverable_def)
  obtain ag0 act where a: "notify_action K ag e = (ag0, act)" by (cases "notify_action K ag e") auto
  then have ag0: "ag_inv ag0" "queue_view ag0 = queue_view ag"
    using notify_action_agent[OF a] assms(1) by (auto simp: queue_view_def)
  define cs where "cs = fst (spec_put (e\<lparr>iActionTaken := act\<rparr>) (queue_view ag))"
  have "deliverable (e\<lparr>iActionTaken := act\<rparr>)" using assms(3) by (simp add: deliverable_def)
  then have cs: "\<forall>c\<in>set cs. good_event c"
    unfolding cs_def by (intro spec_put_good deliverable_good) (use assms(4) in \<open>simp_all add: agent_pending_def\<close>)
  show ?thesis
  proof (cases "act = EActionSuspend \<or> act = EActionContinue")
    case True
    then have "notify_deliver ag0 e act = Some (ag', out)"
      using notify_event_forms[OF assms(2) a ev] by (auto split: if_splits)
    then have "agent_pending ag' \<in> {cs, tl cs}"
      using notify_deliver_view[OF ag0(1)] ag0(2) unfolding cs_def Let_def by metis
    then show ?thesis using cs by (cases cs) auto
  next
    case False
    then show ?thesis
      using notify_event_forms[OF assms(2) a ev] assms(4) ag0(2) by (auto simp: agent_pending_def)
  qed
qed

lemma get_event_pending:
  assumes "ag_inv ag" "GetEvent K k ag th = Some (ag', out)"
  shows "agent_pending ag' \<in> {agent_pending ag, tl (agent_pending ag)}"
proof (cases "kSetStatus K k = KErrNone")
  case True
  show ?thesis
  proof (cases "waiting ag")
    case Nil
    then show ?thesis
      using get_event_empty[OF assms(1) True] assms by (auto simp: agent_pending_def queue_view_def)
  next
    case (Cons e es)
    have "waiting (release_tail (ag\<lparr>iEventBalance := n, iClientThread := c, iRequestData := d\<rparr>) e) = es" for n c d
      using release_tail_spec(2)[of "ag\<lparr>iEventBalance := n, iClientThread := c, iRequestData := d\<rparr>" e] assms(1) Cons
      by simp
    then show ?thesis
      using assms(2) unfolding get_event_waiting[OF assms(1) True Cons] Let_def
      by (auto split: option.splits if_splits simp: agent_pending_def queue_view_def Cons)
  qed
qed (use assms in \<open>simp add: GetEvent_def\<close>)

lemma agent_reach_good: "agent_reach K deliverable ag \<Longrightarrow> \<forall>c\<in>set (agent_pending ag). good_event c"
proof (induction rule: agent_reach.induct)
  case (created k n junk aId ag)
  show ?case using new_agent_inv[OF created] by (simp add: agent_pending_def queue_view_def)
next
  case (notified ag e k fr k' fr' ag' out)
  show ?case
    by (rule notify_event_good[OF agent_reach_inv[OF notified.hyps(1)] notified.hyps(3,2) notified.IH])
next
  case (fetched ag k th ag' out)
  have "set (agent_pending ag') \<subseteq> set (agent_pending ag)"
    using get_event_pending[OF agent_reach_inv[OF fetched.hyps(1)] fetched.hyps(2)]
    by (auto dest: list.set_sel(2)) (metis list.sel(2) list.set_sel(2))
  then show ?case using fetched.IH by blast
qed (simp_all add: CancelGetEvent_def SetEventAction_def agent_pending_def queue_view_def)

section \<open>The buffer-full event\<close>

text \<open>rm_debug_api.h says that the last free slot is given to an event EEventsBufferFull.  The branch of QueueEvent that
  stores it needs a buffer that is neither full nor able to store, so no agent ever has one.\<close>

definition no_full :: "DDebugAgent \<Rightarrow> bool" where
  "no_full ag \<longleftrightarrow> (\<forall>s\<in>set (iEventQueue ag). iEventType s \<noteq> EEventsBufferFull)"

lemma no_full_simps [simp]:
  "no_full (ag\<lparr>iIgnoringTrace := b\<rparr>) = no_full ag" "no_full (ag\<lparr>iEventBalance := n\<rparr>) = no_full ag"
  "no_full (ag\<lparr>iClientThread := c\<rparr>) = no_full ag" "no_full (ag\<lparr>iRequestData := d\<rparr>) = no_full ag"
  "no_full (ag\<lparr>iAgentDying := b\<rparr>) = no_full ag" "no_full (ag\<lparr>iEventActions := f\<rparr>) = no_full ag"
  "no_full (IncrementHeadPosition ag) = no_full ag" "no_full (IncrementTailPosition ag) = no_full ag"
  by (simp_all add: no_full_def IncrementHeadPosition_def IncrementTailPosition_def)

lemma no_full_set_slot: "no_full ag \<Longrightarrow> iEventType e \<noteq> EEventsBufferFull \<Longrightarrow> no_full (set_slot ag i e)"
  using set_update_subset_insert[of "iEventQueue ag" "unat i" e] by (auto simp: no_full_def set_slot_def)

lemma no_full_release: "no_full ag \<Longrightarrow> no_full (release_tail ag e)"
  by (simp add: release_tail_def no_full_set_slot TDriverEventInfo_Reset_def)

lemma queue_event_no_full:
  assumes "ag_inv ag" "no_full ag" "iEventType e \<noteq> EEventsBufferFull" "QueueEvent ag e = Some ag'"
  shows "no_full ag'"
proof (cases "BufferFull ag")
  case False
  then have "BufferCanStoreEvent ag" using can_store_iff[OF assms(1)] by (simp add: BufferFull_def NumberOfEmptySlots_def)
  then show ?thesis
    using assms(2-4) False by (auto simp: QueueEvent_def no_full_set_slot split: if_splits bind_splits)
qed (use assms in \<open>simp add: QueueEvent_def\<close>)

lemma notify_deliver_no_full:
  assumes "ag_inv ag" "no_full ag" "iEventType e \<noteq> EEventsBufferFull" "notify_deliver ag e act = Some (ag', out)"
  shows "no_full ag'"
proof -
  obtain ag1 where ag1: "QueueEvent ag (e\<lparr>iActionTaken := act\<rparr>) = Some ag1"
    using assms(4) by (auto simp: notify_deliver_def split: bind_splits)
  have "no_full ag1" by (rule queue_event_no_full[OF assms(1,2) _ ag1]) (simp add: assms(3))
  then show ?thesis
    using assms(4) ag1 by (auto simp: notify_deliver_def Let_def no_full_release split: if_splits bind_splits)
qed

lemma notify_event_no_full:
  assumes "ag_inv ag" "no_full ag" "iEventType e \<noteq> EEventsBufferFull" "NotifyEvent K k fr ag e = Some (k', fr', ag', out)"
  shows "no_full ag'"
proof (cases "not_below_EEventsLast (iEventType e)")
  case False
  obtain ag0 act where a: "notify_action K ag e = (ag0, act)" by (cases "notify_action K ag e") auto
  then have "ag_inv ag0" "no_full ag0" using notify_action_agent[OF a] assms(1,2) by auto
  then show ?thesis
    using notify_event_forms[OF assms(4) a False] notify_deliver_no_full[of ag0 e act ag' out] assms(3)
    by (auto split: if_splits)
qed (use assms in \<open>simp add: NotifyEvent_def\<close>)

lemma get_event_no_full: "no_full ag \<Longrightarrow> GetEvent K k ag th = Some (ag', out) \<Longrightarrow> no_full ag'"
  by (auto simp: GetEvent_def Let_def no_full_release split: if_splits bind_splits)

lemma buffer_full_never_queued:
  "agent_reach K (\<lambda>e. iEventType e \<noteq> EEventsBufferFull) ag \<Longrightarrow> \<forall>s\<in>set (iEventQueue ag). iEventType s \<noteq> EEventsBufferFull"
  unfolding no_full_def[symmetric]
proof (induction rule: agent_reach.induct)
  case (created k n junk aId ag)
  then show ?case using new_agent[OF created] by (simp add: no_full_def TDriverEventInfo_Reset_def)
next
  case (notified ag e k fr k' fr' ag' out)
  show ?case
    by (rule notify_event_no_full[OF agent_reach_inv[OF notified.hyps(1)] notified.IH notified.hyps(2,3)])
next
  case (fetched ag k th ag' out)
  show ?case by (rule get_event_no_full[OF fetched.IH fetched.hyps(2)])
qed (simp_all add: CancelGetEvent_def SetEventAction_def)

section \<open>An agent that is going down\<close>

text \<open>Several notifications in a row.\<close>

fun notify_all ::
  "'k kern \<Rightarrow> 'k \<Rightarrow> frozen \<Rightarrow> DDebugAgent \<Rightarrow> TDriverEventInfo list \<Rightarrow>
     ('k \<times> frozen \<times> DDebugAgent \<times> completion list) option" where
  "notify_all K k fr ag [] = Some (k, fr, ag, [])"
| "notify_all K k fr ag (e # es) = do {
     (k, fr, ag, out) \<leftarrow> NotifyEvent K k fr ag e;
     (k, fr, ag, outs) \<leftarrow> notify_all K k fr ag es;
     Some (k, fr, ag, out @ outs)
   }"

lemma notify_deliver_dying:
  assumes "notify_deliver ag e act = Some (ag', out)"
  shows "iAgentDying ag' = iAgentDying ag"
proof -
  obtain ag1 where "QueueEvent ag (e\<lparr>iActionTaken := act\<rparr>) = Some ag1"
    using assms by (auto simp: notify_deliver_def split: bind_splits)
  then show ?thesis
    using assms queue_event_frame[of ag "e\<lparr>iActionTaken := act\<rparr>" ag1]
    by (auto simp: notify_deliver_def Let_def release_tail_def IncrementTailPosition_def set_slot_def
        split: if_splits bind_splits)
qed

lemma dying_notify:
  assumes "iAgentDying ag \<or> problematic K ag e" "NotifyEvent K k fr ag e = Some (k', fr', ag', out)"
    "\<not> not_below_EEventsLast (iEventType e)"
  shows "k' = k \<and> fr' = fr \<and> iAgentDying ag'"
proof -
  obtain ag0 act where a: "notify_action K ag e = (ag0, act)" by (cases "notify_action K ag e") auto
  then have "iAgentDying ag0" "act \<noteq> EActionSuspend"
    using assms(1) by (auto simp: notify_action_def Let_def split: if_splits)
  then show ?thesis
    using notify_event_forms[OF assms(2) a assms(3)] notify_deliver_dying by (auto split: if_splits)
qed

lemma dying_notify_all:
  "iAgentDying ag \<Longrightarrow> notify_all K k fr ag es = Some (k', fr', ag', out) \<Longrightarrow> k' = k \<and> fr' = fr \<and> iAgentDying ag'"
proof (induction es arbitrary: k fr ag out)
  case (Cons e es)
  obtain k1 fr1 ag1 out1 outs where s: "NotifyEvent K k fr ag e = Some (k1, fr1, ag1, out1)"
    "notify_all K k1 fr1 ag1 es = Some (k', fr', ag', outs)"
    using Cons.prems(2) by (auto split: bind_splits)
  have "k1 = k \<and> fr1 = fr \<and> iAgentDying ag1"
  proof (cases "not_below_EEventsLast (iEventType e)")
    case True
    then show ?thesis using s(1) Cons.prems(1) by (simp add: NotifyEvent_def)
  next
    case False
    then show ?thesis using dying_notify[OF _ s(1)] Cons.prems(1) by blast
  qed
  then show ?case using Cons.IH s(2) by blast
qed simp

section \<open>A concrete agent\<close>

definition demo_event :: "TEventType \<Rightarrow> TDriverEventInfo" where
  "demo_event ty =
     \<lparr>iEventType = ty, iProcessId = 4, iThreadId = 5, iCreatorThreadId = 0, iCurrentPC = 0x8000,
      iExceptionNumber = 0, iFileName = [], iPanicCategory = [], iCodeAddress = 0, iDataAddress = 0, iExitType = 2,
      iThreadIdValid = True, iProcessIdValid = True, iUids = (0, 0, 0), iUidsValid = False,
      iActionTaken = EActionIgnore, iThreadFlags = 1, iArg1 = 0, iArg2 = 3, iRmdArmExcInfo = [],
      iUserTraceText = [65, 66, 67], iMessageStatus = ESingleMessage\<rparr>"

definition demo_agent :: DDebugAgent where
  "demo_agent = (new_DDebugAgent 4)\<lparr>iEventQueue := replicate 128 (TDriverEventInfo_Reset (demo_event EEventsUnknown))\<rparr>"

lemma construct_loop_all:
  "(\<And>i. kAppend K k i = KErrNone) \<Longrightarrow> construct_loop K k e is q = (KErrNone, q @ replicate (length is) e)"
  by (induction "is" arbitrary: q) simp_all

lemma demo_agent_new: "DDebugAgent_New demoK demo0 0 (demo_event EEventsUnknown) 4 = Some demo_agent"
proof -
  have "construct_loop demoK demo0 e is q = (KErrNone, q @ replicate (length is) e)" for e "is" q
    by (rule construct_loop_all) (simp add: demoK_def)
  then have "DDebugAgent_New demoK demo0 0 (demo_event EEventsUnknown) 4 =
    Some ((new_DDebugAgent 4)\<lparr>iEventQueue := replicate 128 (TDriverEventInfo_Reset (demo_event EEventsUnknown))\<rparr>)"
    by (simp add: DDebugAgent_New_def Construct_def new_DDebugAgent_def KNumberOfEventsToQueue_def)
      (simp add: demoK_def)
  then show ?thesis by (simp add: demo_agent_def)
qed

lemma demo_agent_reach: "agent_reach demoK P demo_agent"
  by (rule agent_reach.created[OF demo_agent_new])

section \<open>Properties\<close>



text \<open>C29: Everything that waits is delivered: as many requests as there are waiting events return all of them,
  oldest first and each with KErrNone, and leave the queue empty.\<close>

theorem waiting_events_delivered:
  assumes "agent_reach K deliverable ag" "kSetStatus K k = KErrNone"
  shows "\<exists>ag' outs. run_queue agent_put (agent_fetch K k th) (replicate (used ag) Fetch) ag = Some (ag', outs) \<and>
    map received_event outs = map client_view (waiting ag) \<and> BufferEmpty ag' \<and>
    (\<forall>(th', err, d) \<in> set outs. err = KErrNone)"
proof -
  have inv: "ag_inv ag \<and> kSetStatus K k = KErrNone" using agent_reach_inv[OF assms(1)] assms(2) by simp
  have good: "\<forall>c\<in>set (map client_view (waiting ag)). good_event c"
    using agent_reach_good[OF assms(1)] by (simp add: agent_pending_def queue_view_def)
  obtain ag' outs where r: "run_queue agent_put (agent_fetch K k th) (replicate (used ag) Fetch) ag = Some (ag', outs)"
    "ag_inv ag'" "map received_event outs = map client_view (waiting ag)" "queue_view ag' = ([], iIgnoringTrace ag)"
    using agq.drain[OF inv _ good, of "iIgnoringTrace ag" th] by (auto simp: queue_view_def)
  have "BufferEmpty ag'" using buffer_empty_iff[OF r(2)] r(4) by (simp add: queue_view_def)
  moreover have "err = KErrNone" if "(th', err, d) \<in> set outs" for th' err d
  proof -
    have "received_event (th', err, d) \<in> set (map client_view (waiting ag))"
      unfolding r(3)[symmetric] set_map using that by (rule imageI)
    then show ?thesis using good by (auto simp: good_event_iff)
  qed
  ultimately show ?thesis using r(1,3) by blast
qed

theorem waiting_events_delivered_witness:
  "\<exists>ag' outs. run_queue agent_put (agent_fetch demoK demo0 9) (replicate (used demo_agent) Fetch) demo_agent = Some (ag', outs) \<and>
    map received_event outs = map client_view (waiting demo_agent) \<and> BufferEmpty ag' \<and>
    (\<forall>(th', err, d) \<in> set outs. err = KErrNone)"
  by (rule waiting_events_delivered[OF demo_agent_reach]) (simp add: demoK_def)

text \<open>The assertion of QueueEvent never fires: in every state an agent can reach, either the buffer is full
  or the slot at the head exists and is marked empty.\<close>

theorem head_slot_is_free:
  assumes "agent_reach K P ag"
  shows "BufferFull ag \<or> (\<exists>s. slot ag (iHead ag) = Some s \<and> iEventType s = EEventsUnknown)"
  using head_slot_free[OF agent_reach_inv[OF assms]] by blast

theorem head_slot_is_free_witness:
  "BufferFull demo_agent \<or> (\<exists>s. slot demo_agent (iHead demo_agent) = Some s \<and> iEventType s = EEventsUnknown)"
  by (rule head_slot_is_free[OF demo_agent_reach[where P = "\<lambda>_. True"]])

text \<open>C31: When a client is waiting, an event whose action is EActionContinue completes its request at once with the
  oldest waiting event (which is the new one when the queue was empty), the rest keeps waiting, and
  neither the kernel nor the frozen threads change.\<close>

theorem notify_event_delivers:
  assumes "agent_reach K deliverable ag" "deliverable e" "iEventActions ag (iEventType e) = EActionContinue"
    "iClientThread ag = Some th" "word_sless 0 (iEventBalance ag)"
  shows "\<exists>ag' d. NotifyEvent K k fr ag e = Some (k, fr, ag', [(Some th, KErrNone, d)]) \<and>
    fst (spec_put (e\<lparr>iActionTaken := EActionContinue\<rparr>) (queue_view ag)) = Some (KErrNone, d) # fst (queue_view ag') \<and>
    iEventBalance ag' = iEventBalance ag - 1"
proof -
  let ?e = "e\<lparr>iActionTaken := EActionContinue\<rparr>"
  obtain ag0 where a: "notify_action K ag e = (ag0, EActionContinue)"
    by (simp add: notify_action_def assms(3) Let_def)
  have ag0: "ag_inv ag0" "queue_view ag0 = queue_view ag" "iClientThread ag0 = Some th"
    "iEventBalance ag0 = iEventBalance ag"
    using notify_action_agent[OF a] agent_reach_inv[OF assms(1)] assms(4) by (auto simp: queue_view_def)
  obtain c cs where c: "fst (spec_put ?e (queue_view ag)) = c # cs"
    using spec_put_nonempty by (metis neq_Nil_conv)
  have "deliverable ?e" using assms(2) by (simp add: deliverable_def)
  then have "good_event (client_view ?e)" by (rule deliverable_good)
  then have "\<forall>c\<in>set (fst (spec_put ?e (queue_view ag))). good_event c"
    by (rule spec_put_good[OF agent_reach_good[OF assms(1), unfolded agent_pending_def]])
  then have "good_event c" unfolding c by (simp only: list.set_intros(1))
  then obtain d where d: "c = Some (KErrNone, d)" by (auto simp: good_event_iff)
  obtain ag1 where ag1: "QueueEvent ag0 ?e = Some ag1" "ag_inv ag1" "agent_pending ag1 = c # cs"
    "notify_deliver ag0 e EActionContinue =
      Some (release_tail (ag1\<lparr>iRequestData := d\<rparr>) (hd (waiting ag1)), [(Some th, KErrNone, d)])"
    using notify_deliver_core[OF ag0(1), of EActionContinue e c cs] c ag0 assms(5) d by auto
  have "waiting ag1 \<noteq> []" using ag1(3) by (auto simp: agent_pending_def queue_view_def)
  then have "agent_pending (release_tail (ag1\<lparr>iRequestData := d\<rparr>) (hd (waiting ag1))) = cs"
    using release_tail_spec(2)[of "ag1\<lparr>iRequestData := d\<rparr>"] ag1(2,3)
    by (simp add: agent_pending_def queue_view_def map_tl)
  then show ?thesis
    using a ag1(4) c d assms(2) queue_event_frame[OF ag1(1)] ag0(4)
    by (simp add: NotifyEvent_def deliverable_def agent_pending_def)
qed

definition demo_waiting_agent :: DDebugAgent where
  "demo_waiting_agent = (fst (SetEventAction demo_agent EEventsSwExc EActionContinue))
     \<lparr>iEventBalance := 1, iClientThread := Some 9\<rparr>"

lemma demo_waiting_agent_reach: "agent_reach demoK P demo_waiting_agent"
proof -
  let ?ag = "fst (SetEventAction demo_agent EEventsSwExc EActionContinue)"
  have r: "agent_reach demoK P ?ag" by (rule agent_reach.action_set[OF demo_agent_reach])
  have "waiting ?ag = []" using new_agent_inv[OF demo_agent_new] by (simp add: SetEventAction_def)
  then have "GetEvent demoK demo0 ?ag (Some 9) = Some (demo_waiting_agent, [])"
    using get_event_empty[OF agent_reach_inv[OF r], of demoK demo0 "Some 9"]
    by (simp add: demoK_def) (simp add: demo_waiting_agent_def SetEventAction_def demo_agent_def new_DDebugAgent_def)
  then show ?thesis by (rule agent_reach.fetched[OF r])
qed

theorem notify_event_delivers_witness:
  "\<exists>ag' d. NotifyEvent demoK demo0 [] demo_waiting_agent (demo_event EEventsSwExc) = Some (demo0, [], ag', [(Some 9, KErrNone, d)]) \<and>
    fst (spec_put ((demo_event EEventsSwExc)\<lparr>iActionTaken := EActionContinue\<rparr>) (queue_view demo_waiting_agent)) =
      Some (KErrNone, d) # fst (queue_view ag') \<and>
    iEventBalance ag' = iEventBalance demo_waiting_agent - 1"
  by (rule notify_event_delivers[OF demo_waiting_agent_reach])
    (simp_all add: deliverable_def demo_event_def demo_waiting_agent_def SetEventAction_def word_sless_alt)

text \<open>From the moment an agent's own critical or permanent thread takes an exception or dies, no notification
  suspends or freezes a thread for it.\<close>

theorem dying_agent_never_suspends:
  assumes "problematic K ag e" "notify_all K k fr ag (e # es) = Some (k', fr', ag', outs)"
  shows "k' = k \<and> fr' = fr"
proof -
  have e: "\<not> not_below_EEventsLast (iEventType e)" using assms(1) by (auto simp: problematic_def)
  obtain k1 fr1 ag1 out1 outs1 where s: "NotifyEvent K k fr ag e = Some (k1, fr1, ag1, out1)"
    "notify_all K k1 fr1 ag1 es = Some (k', fr', ag', outs1)"
    using assms(2) by (auto split: bind_splits)
  have "k1 = k \<and> fr1 = fr \<and> iAgentDying ag1"
    by (rule dying_notify[OF disjI2[OF assms(1)] s(1) e])
  then show ?thesis using dying_notify_all[OF _ s(2)] by blast
qed

theorem dying_agent_never_suspends_witness:
  "\<exists>k' fr' ag' outs. problematic demoK demo_agent (demo_event EEventsHwExc) \<and>
    notify_all demoK demo0 [5] demo_agent [demo_event EEventsHwExc] = Some (k', fr', ag', outs) \<and>
    k' = demo0 \<and> fr' = [5]"
proof -
  have p: "problematic demoK demo_agent (demo_event EEventsHwExc)"
    by (simp add: problematic_def demoK_def demo_event_def demo_agent_def new_DDebugAgent_def)
  have n: "notify_all demoK demo0 [5] demo_agent [demo_event EEventsHwExc] =
    Some (demo0, [5], demo_agent\<lparr>iAgentDying := True\<rparr>, [])"
    using p by (simp add: NotifyEvent_def notify_action_def)
      (simp add: demo_event_def demo_agent_def new_DDebugAgent_def)
  from dying_agent_never_suspends[OF p n] show ?thesis by (intro exI conjI) (rule p, rule n, simp_all)
qed

end
