(* ===== verification/TrackerProps.thy ===== *)
theory TrackerProps
  imports ProcessTracker AgentProps
begin

text \<open>
  What the process tracker guarantees: attaching and finding, attaching and detaching, the invariant of the
  process list, and the faults and lost errors of AttachProcess and DetachAgent.
\<close>

section \<open>Searches\<close>

lemma CompareF_eq_refl [simp]: "CompareF_eq K a a"
  by (simp add: CompareF_eq_def)

lemma CompareF_eq_trans: "CompareF_eq K a b \<Longrightarrow> CompareF_eq K b c \<Longrightarrow> CompareF_eq K a c"
  by (simp add: CompareF_eq_def)

lemma find_index_snoc:
  "find_index P (xs @ [x]) =
     (case find_index P xs of Some i \<Rightarrow> Some i | None \<Rightarrow> if P x then Some (length xs) else None)"
  by (induction xs) (auto split: option.splits)

lemma last_index_snoc: "P x \<Longrightarrow> last_index P (xs @ [x]) = Some (length xs)"
  by (simp add: last_index_def)

lemma last_index_None: "last_index P xs = None \<longleftrightarrow> (\<forall>x\<in>set xs. \<not> P x)"
  by (simp add: last_index_def find_index_None)

lemma remove_nth_snoc: "remove_nth (length xs) (xs @ [x]) = xs"
  by (simp add: remove_nth_def)

lemma new_agent_id: "DDebugAgent_New K k n junk aId = Some ag \<Longrightarrow> agId ag = aId"
  by (drule new_agent) (simp add: new_DDebugAgent_def)

section \<open>Shapes of a successful attach\<close>

lemma AddAgent_ok:
  assumes "DDebugAgent_New K k n junk aId = Some ag" "\<forall>n. kAppend K k n = KErrNone"
  shows "AddAgent K k n junk p aId = (p\<lparr>iAgentList := ag # iAgentList p\<rparr>, KErrNone)"
  using assms by (simp add: AddAgent_def)

lemma AddAgent_name: "ProcessName (fst (AddAgent K k n junk p aId)) = ProcessName p"
  by (simp add: AddAgent_def Let_def ProcessName_def split: option.splits)

text \<open>How AttachProcess changes the tracker when the agent could be created.\<close>

lemma attach_shape:
  assumes "AttachProcess K k junk t name aId = (t', KErrNone)" "\<forall>n. kAppend K k n = KErrNone"
    "DDebugAgent_New K k (if name = attach_all_name then 0 else 2) junk aId = Some ag"
  shows "valid_name K name \<and>
    (if name = attach_all_name then
       FindAgentForProcessAndId K t name aId = None \<and>
       t' = t\<lparr>iAgentsAttachedToAll := iAgentsAttachedToAll t @ [ag]\<rparr>
     else case find_by_name K t name of
       Some i \<Rightarrow> t' = t\<lparr>iProcesses := (iProcesses t)[i := (iProcesses t ! i)\<lparr>iAgentList := ag # iAgentList (iProcesses t ! i)\<rparr>]\<rparr>
     | None \<Rightarrow> t' = t\<lparr>iProcesses := iProcesses t @ [\<lparr>iProcessName = Some name, iAgentList = [ag]\<rparr>]\<rparr>)"
proof (cases "name = attach_all_name")
  case True
  then show ?thesis using assms
    by (auto simp: AttachProcess_def Let_def split: if_splits option.splits)
next
  case False
  then have "AddAgent K k 2 junk p aId = (p\<lparr>iAgentList := ag # iAgentList p\<rparr>, KErrNone)" for p
    using AddAgent_ok assms(2,3) by simp
  then show ?thesis using assms(1,2) False
    by (auto simp: AttachProcess_def SetProcessName_def new_DTargetProcess_def Let_def split: if_splits option.splits)
qed

lemma find_by_name_SomeD:
  "find_by_name K t name = Some i \<Longrightarrow> i < length (iProcesses t) \<and> CompareF_eq K (ProcessName (iProcesses t ! i)) name"
  unfolding find_by_name_def by (drule find_index_SomeD) simp

lemma find_index_update:
  "find_index P xs = Some i \<Longrightarrow> P x \<Longrightarrow> find_index P (xs[i := x]) = Some i"
proof (induction xs arbitrary: i)
  case (Cons y ys)
  then show ?case by (cases i) (auto split: if_splits)
qed simp

text \<open>The name of a process decides whether it is found; its agents do not matter.\<close>

lemma find_by_name_update:
  assumes "find_by_name K t name = Some i"
  shows "find_by_name K (t\<lparr>iProcesses := (iProcesses t)[i := (iProcesses t ! i)\<lparr>iAgentList := as\<rparr>]\<rparr>) name = Some i"
  using find_by_name_SomeD[OF assms] assms unfolding find_by_name_def
  by (simp add: find_index_update ProcessName_def)

lemma find_by_name_new:
  assumes "find_by_name K t name = None"
  shows "find_by_name K (t\<lparr>iProcesses := iProcesses t @ [\<lparr>iProcessName = Some name, iAgentList = as\<rparr>]\<rparr>) name =
    Some (length (iProcesses t))"
  using assms by (simp add: find_by_name_def find_index_snoc ProcessName_def)

section \<open>Names are unique\<close>

definition process_names :: "'k kern \<Rightarrow> DProcessTracker \<Rightarrow> u8 list list" where
  "process_names K t = map (\<lambda>p. map (kFold K) (ProcessName p)) (iProcesses t)"

definition tracker_inv :: "'k kern \<Rightarrow> DProcessTracker \<Rightarrow> bool" where
  "tracker_inv K t \<longleftrightarrow> distinct (process_names K t) \<and> (\<forall>p\<in>set (iProcesses t). valid_name K (ProcessName p)) \<and>
     distinct (map agId (iAgentsAttachedToAll t))"

lemma process_names_update [simp]:
  "ProcessName p = ProcessName (iProcesses t ! i) \<Longrightarrow>
   process_names K (t\<lparr>iProcesses := (iProcesses t)[i := p]\<rparr>) = process_names K t"
  by (cases "i < length (iProcesses t)")
    (auto simp: process_names_def map_update list_update_same_conv list_update_beyond)

lemma tracker_inv_update:
  assumes "tracker_inv K t" "ProcessName p = ProcessName (iProcesses t ! i)"
  shows "tracker_inv K (t\<lparr>iProcesses := (iProcesses t)[i := p]\<rparr>)"
proof (cases "i < length (iProcesses t)")
  case True
  then have "valid_name K (ProcessName p)" using assms by (simp add: tracker_inv_def)
  then show ?thesis
    using assms set_update_subset_insert[of "iProcesses t" i p] by (auto simp: tracker_inv_def)
qed (use assms in \<open>simp add: list_update_beyond\<close>)

lemma distinct_remove_nth: "distinct xs \<Longrightarrow> distinct (remove_nth i xs)"
  by (simp add: remove_nth_def set_take_disj_set_drop_if_distinct)

lemma tracker_inv_remove:
  assumes "tracker_inv K t"
  shows "tracker_inv K (t\<lparr>iProcesses := remove_nth i (iProcesses t)\<rparr>)"
  using assms set_remove_nth_subset[of i "iProcesses t"] distinct_remove_nth[of "process_names K t" i]
  by (auto simp: tracker_inv_def process_names_def map_remove_nth)

lemma tracker_inv_agents:
  "tracker_inv K t \<Longrightarrow> distinct (map agId as) \<Longrightarrow> tracker_inv K (t\<lparr>iAgentsAttachedToAll := as\<rparr>)"
  by (simp add: tracker_inv_def process_names_def)

lemma tracker_inv_frozen [simp]: "tracker_inv K (t\<lparr>iFrozenThreadSemaphores := fr\<rparr>) = tracker_inv K t"
  by (simp add: tracker_inv_def process_names_def)

lemma tracker_inv_append:
  assumes "tracker_inv K t" "find_by_name K t name = None" "valid_name K name" "ProcessName p = name"
  shows "tracker_inv K (t\<lparr>iProcesses := iProcesses t @ [p]\<rparr>)"
  using assms by (auto simp: tracker_inv_def process_names_def find_by_name_def find_index_None CompareF_eq_def)

lemma attach_inv:
  assumes "tracker_inv K t"
  shows "tracker_inv K (fst (AttachProcess K k junk t name aId))"
proof (cases "name = attach_all_name")
  case True
  then show ?thesis
    using assms new_agent_id[of K k 0 junk aId]
    by (auto simp: AttachProcess_def Let_def FindAgentForProcessAndId_def last_index_None
        intro!: tracker_inv_agents split: option.splits) (auto simp: tracker_inv_def)
next
  case False
  show ?thesis
  proof (cases "find_by_name K t name")
    case None
    have "ProcessName (fst (AddAgent K k 2 junk \<lparr>iProcessName = Some name, iAgentList = []\<rparr> aId)) = name"
      by (simp add: AddAgent_name) (simp add: ProcessName_def)
    from tracker_inv_append[OF assms None _ this] show ?thesis
      using False assms None
      by (auto simp: AttachProcess_def SetProcessName_def new_DTargetProcess_def Let_def)
  next
    case (Some i)
    then show ?thesis
      using False assms tracker_inv_update[OF assms AddAgent_name]
      by (auto simp: AttachProcess_def SetProcessName_def new_DTargetProcess_def Let_def)
  qed
qed

lemma RemoveAgent_name [simp]: "ProcessName (fst (RemoveAgent p aId)) = ProcessName p"
  by (simp add: RemoveAgent_def ProcessName_def split: option.splits)

lemma detach_inv:
  assumes "tracker_inv K t"
  shows "tracker_inv K (fst (DetachProcess K t name aId))"
  using assms tracker_inv_remove tracker_inv_update[OF assms RemoveAgent_name]
    distinct_remove_nth[of "map agId (iAgentsAttachedToAll t)"]
  by (auto simp: DetachProcess_def Let_def tracker_inv_def map_remove_nth process_names_def
      intro!: tracker_inv_agents split: option.splits)

section \<open>DetachAgent\<close>

lemma detach_process_loop:
  "\<exists>ps'. ix_loop detach_process_body (rev [0..<length ps]) ps = Some (Inr ps') \<and> set ps' \<subseteq> set ps \<and>
     (distinct (map f ps) \<longrightarrow> distinct (map f ps'))"
proof -
  let ?Q = "\<lambda>ps'. set ps' \<subseteq> set ps \<and> (distinct (map f ps) \<longrightarrow> distinct (map f ps'))"
  have "\<exists>x. ix_loop detach_process_body (rev [0..<length ps]) ps = Some x \<and> case_sum (\<lambda>_. False) ?Q x"
  proof (rule ix_loop_down[where size_of = length])
    fix i qs assume q: "i < length qs" "?Q qs"
    show "\<exists>x. detach_process_body i qs = Some x \<and> case_sum (\<lambda>_. False) (\<lambda>s'. ?Q s' \<and> i \<le> length s') x"
    proof (cases "AgentCount (qs ! i) = 0")
      case True
      then show ?thesis
        using q set_remove_nth_subset[of i qs] distinct_remove_nth[of "map f qs" i]
        by (auto simp: detach_process_body_def map_remove_nth)
    qed (use q in \<open>simp add: detach_process_body_def\<close>)
  qed simp_all
  then obtain x where x: "ix_loop detach_process_body (rev [0..<length ps]) ps = Some x" "case_sum (\<lambda>_. False) ?Q x"
    by blast
  then show ?thesis by (cases x) auto
qed

text \<open>Once the list is shorter than the bound, the loop runs out of it.\<close>

lemma detach_all_short:
  "length bs < n \<Longrightarrow> i < n \<Longrightarrow> ix_loop (detach_all_body x) [i..<n] bs = None"
proof (induction "n - i" arbitrary: i bs)
  case (Suc m)
  have u: "[i..<n] = i # [Suc i..<n]" using Suc.prems(2) by (rule upt_conv_Cons)
  show ?case
  proof (cases "length bs \<le> i")
    case False
    then have "ix_loop (detach_all_body x) [Suc i..<n] cs = None" if "length cs \<le> length bs" for cs
      using Suc.hyps(1)[of "Suc i" cs] Suc.hyps(2) Suc.prems that by simp
    then show ?thesis using False by (simp add: u detach_all_body_def)
  qed (simp add: u detach_all_body_def)
qed simp

lemma detach_all_loop:
  "j \<le> length as \<Longrightarrow>
   ix_loop (detach_all_body x) [j..<length as] as =
     (case find_index (\<lambda>a. agId a = x) (drop j as) of
        None \<Rightarrow> Some (Inr as)
      | Some d \<Rightarrow> if j + d + 1 = length as then Some (Inr (remove_nth (j + d) as)) else None)"
proof (induction "length as - j" arbitrary: j)
  case (Suc m)
  then have j: "j < length as" by simp
  then have u: "[j..<length as] = j # [Suc j..<length as]" "drop j as = as ! j # drop (Suc j) as"
    by (simp_all add: upt_conv_Cons Cons_nth_drop_Suc)
  show ?case
  proof (cases "agId (as ! j) = x")
    case True
    then show ?thesis
      using j detach_all_short[of "remove_nth j as" "length as" "Suc j"] by (auto simp: u detach_all_body_def)
  next
    case False
    then show ?thesis
      using j Suc.hyps(1)[of "Suc j"] Suc.hyps(2) by (auto simp: u detach_all_body_def split: option.splits)
  qed
qed simp

lemma detach_agent_inv:
  assumes "tracker_inv K t" "DetachAgent t aId = Some (t', err)"
  shows "tracker_inv K t'"
proof -
  let ?ps = "map (\<lambda>p. fst (RemoveAgent p aId)) (iProcesses t)"
  obtain ps' where ps': "ix_loop detach_process_body (rev [0..<length ?ps]) ?ps = Some (Inr ps')" "set ps' \<subseteq> set ?ps"
    "distinct (map (\<lambda>p. map (kFold K) (ProcessName p)) ?ps) \<longrightarrow> distinct (map (\<lambda>p. map (kFold K) (ProcessName p)) ps')"
    using detach_process_loop by blast
  obtain as where "t' = t\<lparr>iProcesses := ps', iAgentsAttachedToAll := as\<rparr>"
    "as = iAgentsAttachedToAll t \<or> (\<exists>i. as = remove_nth i (iAgentsAttachedToAll t))"
    using assms(2) ps'(1) detach_all_loop[of 0 "iAgentsAttachedToAll t" aId]
    by (auto simp: DetachAgent_def Let_def split: option.splits if_splits sum.splits)
  then show ?thesis
    using assms(1) ps'(2,3) distinct_remove_nth[of "map agId (iAgentsAttachedToAll t)"]
    by (auto simp: tracker_inv_def process_names_def o_def map_remove_nth)
qed

section \<open>Reachable trackers\<close>

lemma put_agent_inv:
  "tracker_inv K t \<Longrightarrow> agId a = agId (agent_at t r) \<Longrightarrow> tracker_inv K (put_agent t r a)"
proof (cases r)
  case (AttachedToAll i)
  assume "tracker_inv K t" "agId a = agId (agent_at t r)"
  moreover from this have "map agId ((iAgentsAttachedToAll t)[i := a]) = map agId (iAgentsAttachedToAll t)"
    using AttachedToAll
    by (cases "i < length (iAgentsAttachedToAll t)") (auto simp: map_update list_update_same_conv list_update_beyond)
  ultimately show ?thesis using AttachedToAll by (simp add: tracker_inv_def process_names_def)
next
  case (OfProcess i j)
  assume "tracker_inv K t"
  then show ?thesis unfolding OfProcess put_agent.simps
    by (rule tracker_inv_update) (simp add: ProcessName_def)
qed

lemma queue_frame_id: "notify_deliver ag e act = Some (ag', out) \<Longrightarrow> agId ag' = agId ag"
proof -
  assume n: "notify_deliver ag e act = Some (ag', out)"
  then obtain ag1 where "QueueEvent ag (e\<lparr>iActionTaken := act\<rparr>) = Some ag1"
    by (auto simp: notify_deliver_def split: bind_splits)
  then show ?thesis
    using n queue_event_frame[of ag "e\<lparr>iActionTaken := act\<rparr>" ag1]
    by (auto simp: notify_deliver_def Let_def release_tail_def IncrementTailPosition_def set_slot_def
        split: if_splits bind_splits)
qed

lemma notify_event_id:
  assumes "NotifyEvent K k fr ag e = Some (k', fr', ag', out)"
  shows "agId ag' = agId ag"
proof (cases "not_below_EEventsLast (iEventType e)")
  case False
  obtain ag0 act where a: "notify_action K ag e = (ag0, act)" by (cases "notify_action K ag e") auto
  then show ?thesis
    using notify_event_forms[OF assms a False] notify_action_agent[OF a] queue_frame_id[of ag0 e act ag' out]
    by (auto split: if_splits)
qed (use assms in \<open>simp add: NotifyEvent_def\<close>)

lemma notify_process_inv:
  assumes "tracker_inv K t" "NotifyAgentsForProcessEvent K k t name e fz = Some (k', t', outs, found)"
  shows "tracker_inv K t'"
proof -
  define process where "process = (case FindProcess K t name of
    None \<Rightarrow> if fz then FuzzyFindProcess K t name else None | Some i \<Rightarrow> Some i)"
  note n = assms(2)[unfolded NotifyAgentsForProcessEvent_def process_def[symmetric] Let_def]
  show ?thesis
  proof (cases process)
    case (Some i)
    obtain k1 fr p where p: "DTargetProcess_NotifyEvent K k (iFrozenThreadSemaphores t) (iProcesses t ! i) e = Some (k1, fr, p, outs)"
      "t' = t\<lparr>iProcesses := (iProcesses t)[i := p], iFrozenThreadSemaphores := fr\<rparr>"
      using n unfolding Some by (auto split: bind_splits)
    have "ProcessName p = ProcessName (iProcesses t ! i)"
      using p(1) by (auto simp: DTargetProcess_NotifyEvent_def ProcessName_def)
    then show ?thesis using tracker_inv_update[OF assms(1)] p(2) by simp
  next
    case None
    show ?thesis
    proof (cases "GetCurrentAgentAttachedToAll t")
      case None
      then show ?thesis using n \<open>process = None\<close> assms(1) by simp
    next
      case (Some i)
      obtain k1 fr a where a: "NotifyEvent K k (iFrozenThreadSemaphores t) (iAgentsAttachedToAll t ! i) e = Some (k1, fr, a, outs)"
        "t' = t\<lparr>iAgentsAttachedToAll := (iAgentsAttachedToAll t)[i := a], iFrozenThreadSemaphores := fr\<rparr>"
        using n \<open>process = None\<close> Some by (auto split: bind_splits)
      have "agId a = agId (agent_at t (AttachedToAll i))" using notify_event_id[OF a(1)] by simp
      from put_agent_inv[OF assms(1) this] show ?thesis using a(2) by simp
    qed
  qed
qed

text \<open>The states of the tracker under requests of the channel and kernel events; \<open>agent\<close> is any change of one agent
  (a request of its client).\<close>

inductive tracker_reach :: "'k kern \<Rightarrow> DProcessTracker \<Rightarrow> bool" for K where
  created: "tracker_reach K new_DProcessTracker"
| attached: "tracker_reach K t \<Longrightarrow> tracker_reach K (fst (AttachProcess K k junk t name aId))"
| detached: "tracker_reach K t \<Longrightarrow> tracker_reach K (fst (DetachProcess K t name aId))"
| agent_detached: "tracker_reach K t \<Longrightarrow> DetachAgent t aId = Some (t', err) \<Longrightarrow> tracker_reach K t'"
| notified: "tracker_reach K t \<Longrightarrow> NotifyAgentsForProcessEvent K k t name e fz = Some (k', t', outs, found) \<Longrightarrow>
    tracker_reach K t'"
| agent: "tracker_reach K t \<Longrightarrow> agId a = agId (agent_at t r) \<Longrightarrow> tracker_reach K (put_agent t r a)"
| frozen: "tracker_reach K t \<Longrightarrow> tracker_reach K (t\<lparr>iFrozenThreadSemaphores := fr\<rparr>)"

lemma tracker_reach_inv: "tracker_reach K t \<Longrightarrow> tracker_inv K t"
proof (induction rule: tracker_reach.induct)
  case (agent_detached t aId t' err)
  show ?case by (rule detach_agent_inv[OF agent_detached.IH agent_detached.hyps(2)])
next
  case (notified t k name e fz k' t' outs found)
  show ?case by (rule notify_process_inv[OF notified.IH notified.hyps(2)])
qed (simp_all add: attach_inv detach_inv put_agent_inv, simp add: tracker_inv_def process_names_def new_DProcessTracker_def)

section \<open>Properties\<close>

text \<open>A kernel with room for everything: \<open>demoK\<close>, and its result for attaching agent 9 to the process "a".\<close>

definition demo_junk :: TDriverEventInfo where
  "demo_junk = demo_event EEventsUnknown"

definition demo_new_agent :: "u64 \<Rightarrow> DDebugAgent" where
  "demo_new_agent aId = (new_DDebugAgent aId)\<lparr>iEventQueue := replicate 128 (TDriverEventInfo_Reset demo_junk)\<rparr>"

lemma demo_new_agent: "DDebugAgent_New demoK demo0 n demo_junk aId = Some (demo_new_agent aId)"
proof -
  have "construct_loop demoK demo0 e is q = (KErrNone, q @ replicate (length is) e)" for e "is" q
    by (rule construct_loop_all) (simp add: demoK_def)
  then show ?thesis
    by (simp add: DDebugAgent_New_def Construct_def new_DDebugAgent_def KNumberOfEventsToQueue_def demo_new_agent_def)
      (simp add: demoK_def)
qed

lemma demo_append: "\<forall>n. kAppend demoK demo0 n = KErrNone"
  by (simp add: demoK_def)

lemma demo_attach:
  "AttachProcess demoK demo0 demo_junk new_DProcessTracker [97] 9 =
     (new_DProcessTracker\<lparr>iProcesses := [\<lparr>iProcessName = Some [97], iAgentList = [demo_new_agent 9]\<rparr>]\<rparr>, KErrNone)"
proof -
  have "valid_name demoK [97]" "kAllocOk demoK demo0 n" for n
    by (simp_all add: valid_name_def demoK_def)
  then show ?thesis
    using demo_append
    by (simp add: AttachProcess_def SetProcessName_def new_DTargetProcess_def find_by_name_def AddAgent_def demo_new_agent
        attach_all_name_def new_DProcessTracker_def)
qed



text \<open>After a successful attach the agent is found under the name and its id, and it is the agent just created,
  with an empty queue and every event ignored.\<close>

theorem attach_then_find:
  assumes "AttachProcess K k junk t name aId = (t', KErrNone)" "\<forall>n. kAppend K k n = KErrNone"
    "DDebugAgent_New K k (if name = attach_all_name then 0 else 2) junk aId = Some ag"
  shows "\<exists>r. FindAgentForProcessAndId K t' name aId = Some r \<and> agent_at t' r = ag"
proof -
  have ag: "agId ag = aId" using new_agent_id[OF assms(3)] .
  note s = attach_shape[OF assms]
  show ?thesis
  proof (cases "name = attach_all_name")
    case True
    then show ?thesis
      using s ag by (simp add: FindAgentForProcessAndId_def last_index_snoc)
  next
    case False
    show ?thesis
    proof (cases "find_by_name K t name")
      case None
      then show ?thesis
        using s False ag find_by_name_new[OF None, of "[ag]"]
        by (simp add: FindAgentForProcessAndId_def FindProcess_def Agent_def)
    next
      case (Some i)
      then have i: "i < length (iProcesses t)" using find_by_name_SomeD by blast
      then show ?thesis
        using s False ag find_by_name_update[OF Some] Some
        by (simp add: FindAgentForProcessAndId_def FindProcess_def Agent_def)
    qed
  qed
qed

theorem attach_then_find_witness:
  "\<exists>r. FindAgentForProcessAndId demoK
      (new_DProcessTracker\<lparr>iProcesses := [\<lparr>iProcessName = Some [97], iAgentList = [demo_new_agent 9]\<rparr>]\<rparr>) [97] 9 = Some r \<and>
    agent_at (new_DProcessTracker\<lparr>iProcesses := [\<lparr>iProcessName = Some [97], iAgentList = [demo_new_agent 9]\<rparr>]\<rparr>) r =
      demo_new_agent 9"
  by (rule attach_then_find[OF demo_attach demo_append demo_new_agent])

text \<open>C24: In every reachable state of the tracker no two tracked processes have names that are equal up to case,
  every name is valid, and no agent is attached to all twice.\<close>

theorem tracker_names_unique:
  assumes "tracker_reach K t"
  shows "distinct (map (\<lambda>p. map (kFold K) (ProcessName p)) (iProcesses t)) \<and>
    (\<forall>p\<in>set (iProcesses t). valid_name K (ProcessName p)) \<and> distinct (map agId (iAgentsAttachedToAll t))"
  using tracker_reach_inv[OF assms] by (simp add: tracker_inv_def process_names_def)

theorem tracker_names_unique_witness:
  "distinct (map (\<lambda>p. map (kFold demoK) (ProcessName p)) (iProcesses (fst (AttachProcess demoK demo0 demo_junk new_DProcessTracker [97] 9))))"
  using tracker_names_unique[OF tracker_reach.attached[OF tracker_reach.created, of demoK demo0 demo_junk "[97]" 9]]
  by (rule conjunct1)

text \<open>DetachAgent indexes past the end of the agents attached to all exactly when the agent is among them and is
  not the last one: the loop bound is taken before the removal.\<close>

theorem detach_agent_faults:
  "DetachAgent t aId = None \<longleftrightarrow>
     (\<exists>i. find_index (\<lambda>a. agId a = aId) (iAgentsAttachedToAll t) = Some i \<and> i + 1 < length (iAgentsAttachedToAll t))"
proof -
  let ?ps = "map (\<lambda>p. fst (RemoveAgent p aId)) (iProcesses t)"
  obtain ps' where ps: "ix_loop detach_process_body (rev [0..<length ?ps]) ?ps = Some (Inr ps')"
    using detach_process_loop[of ?ps "\<lambda>_. ()"] by blast
  note d = DetachAgent_def Let_def ps[simplified] detach_all_loop[of 0 "iAgentsAttachedToAll t" aId, simplified]
  show ?thesis
  proof (cases "find_index (\<lambda>a. agId a = aId) (iAgentsAttachedToAll t)")
    case None
    then show ?thesis by (simp add: d)
  next
    case (Some i)
    then show ?thesis using find_index_SomeD[OF Some] by (auto simp: d)
  qed
qed

text \<open>When the agent of a new process cannot be created, AttachProcess still returns KErrNone and tracks the process
  without agents; its events are then reported as delivered although no agent hears of them.\<close>

theorem attach_error_lost:
  assumes "AttachProcess K k junk t name aId = (t', KErrNone)" "name \<noteq> attach_all_name"
    "DDebugAgent_New K k 2 junk aId = None" "find_by_name K t name = None"
  shows "NotifyAgentsForProcessEvent K k' t' name e fuzzy = Some (k', t', [], True)"
proof -
  have t': "valid_name K name" "t' = t\<lparr>iProcesses := iProcesses t @ [\<lparr>iProcessName = Some name, iAgentList = []\<rparr>]\<rparr>"
    using assms
    by (auto simp: AttachProcess_def SetProcessName_def new_DTargetProcess_def AddAgent_def Let_def split: if_splits)
  have f: "FindProcess K t' name = Some (length (iProcesses t))"
    unfolding t'(2) using find_by_name_new[OF assms(4), of "[]"] t'(1) by (simp add: FindProcess_def)
  show ?thesis
    unfolding NotifyAgentsForProcessEvent_def f by (simp add: t'(2) DTargetProcess_NotifyEvent_def)
qed

theorem attach_error_lost_witness:
  "NotifyAgentsForProcessEvent (demoK\<lparr>kSemaphoreCreate := \<lambda>_. KErrNoMemory\<rparr>) demo0
     (new_DProcessTracker\<lparr>iProcesses := [\<lparr>iProcessName = Some [97], iAgentList = []\<rparr>]\<rparr>) [97] (demo_event EEventsSwExc) False =
   Some (demo0, new_DProcessTracker\<lparr>iProcesses := [\<lparr>iProcessName = Some [97], iAgentList = []\<rparr>]\<rparr>, [], True)"
proof (rule attach_error_lost)
  let ?K = "demoK\<lparr>kSemaphoreCreate := \<lambda>_. KErrNoMemory\<rparr>"
  show n: "DDebugAgent_New ?K demo0 2 demo_junk 9 = None"
    by (simp add: DDebugAgent_New_def Let_def split: prod.split)
  have "valid_name ?K [97]" "kAllocOk ?K demo0 n" "kAppend ?K demo0 n = KErrNone" for n
    by (simp_all add: valid_name_def demoK_def)
  then show "AttachProcess ?K demo0 demo_junk new_DProcessTracker [97] 9 =
      (new_DProcessTracker\<lparr>iProcesses := [\<lparr>iProcessName = Some [97], iAgentList = []\<rparr>]\<rparr>, KErrNone)"
    using n by (simp add: AttachProcess_def SetProcessName_def new_DTargetProcess_def find_by_name_def AddAgent_def
        attach_all_name_def new_DProcessTracker_def)
qed (simp_all add: attach_all_name_def find_by_name_def new_DProcessTracker_def)

end
