(* ===== verification/ListManager.thy ===== *)
theory ListManager
  imports ProcessTracker
begin

text \<open>
  The listings of threads, processes, code segments and XIP libraries (TListManager, src/d_list_manager.cpp).
  The kernel's containers and the ROM are the record \<open>lists\<close>; NULL in a container is None.  An entry is stored
  field by field at the offsets the classes of rm_debug_api.h have on the target (eight-byte alignment, enumerations
  of four bytes); bytes that no field covers keep what the buffer held.  A store outside the buffer is a
  fault (None).  aDataSize is a 32-bit number throughout.
\<close>

section \<open>What the kernel shows\<close>

text \<open>Of the system context of a thread only the stack pointer and the flags are used.\<close>

record list_thread =
  ltThread :: DThread
  ltNDead :: bool
  ltMDead :: bool
  ltFullName :: "u8 list"
  ltSupervisorStack :: u32
  ltSupervisorStackSize :: u32
  ltSystemR13 :: u32
  ltSystemFlags :: u32

text \<open>lpFileName: None without a code segment, Some None for one without a name.\<close>

record list_process =
  lpProcess :: DProcess
  lpFileName :: "u8 list option option"
  lpFullName :: "u8 list"
  lpUid3 :: u32

record TModuleMemoryInfo =
  miCodeBase :: u32
  miCodeSize :: u32
  miConstDataSize :: u32
  miInitialisedDataBase :: u32
  miInitialisedDataSize :: u32
  miUninitialisedDataSize :: u32

record list_codeseg =
  lcMemoryInfo :: "TErr + TModuleMemoryInfo"
  lcXIP :: u32
  lcIsExe :: bool
  lcIsDll :: bool
  lcFileName :: "u8 list option"
  lcUid3 :: u32

record TRomEntry =
  reAddressLin :: u32
  reAtt :: u32
  reNameLength :: u8
  reName :: "u8 list"

record TRomImageHeader =
  riUid1 :: u32
  riHardwareVariant :: u32
  riCodeAddress :: u32
  riTextSize :: u32
  riCodeSize :: u32
  riDataBssLinearBase :: u32
  riDataSize :: u32
  riBssSize :: u32

text \<open>lProcesses is None when the kernel has no container of processes.  lProcessCodeSegs is what TraverseCodeSegs
  collects.  romEntryHead is the size of a TRomEntry without its name, romCompatible the check of
  THardwareVariant against the active variant.\<close>

record 'k lists =
  lThreads :: "'k \<Rightarrow> list_thread option list"
  lProcesses :: "'k \<Rightarrow> list_process option list option"
  lCodeSegs :: "'k \<Rightarrow> list_codeseg list"
  lProcessCodeSegs :: "'k \<Rightarrow> DProcess \<Rightarrow> list_codeseg list"
  romRootDirectoryList :: u32
  romWord :: "u32 \<Rightarrow> u32"
  romEntryAt :: "u32 \<Rightarrow> TRomEntry"
  romHeaderAt :: "u32 \<Rightarrow> TRomImageHeader"
  romEntryHead :: u32
  romCompatible :: "u32 \<Rightarrow> bool"
  kDynamicLibraryUid :: u32

section \<open>Storing entries\<close>

definition Align4 :: "u32 \<Rightarrow> u32" where
  "Align4 n = (n + 3) AND 0xFFFFFFFC"

definition des_store :: "TDes8 \<Rightarrow> nat \<Rightarrow> u8 list \<Rightarrow> TDes8 option" where
  "des_store d off bs =
     (if off + length bs \<le> length (dbuf d) then Some (d\<lparr>dbuf := overwrite (dbuf d) off bs\<rparr>) else None)"

text \<open>Fields at offsets from the position of an entry.\<close>

fun store_fields :: "TDes8 \<Rightarrow> nat \<Rightarrow> (nat \<times> u8 list) list \<Rightarrow> TDes8 option" where
  "store_fields d pos [] = Some d"
| "store_fields d pos ((off, bs) # fs) = do { d \<leftarrow> des_store d (pos + off) bs; store_fields d pos fs }"

fun flag_word :: "TRegisterFlag \<Rightarrow> u32" where
  "flag_word ENotSet = 0"
| "flag_word EInValid = 1"
| "flag_word EValid = 2"
| "flag_word ENotSupported = 3"
| "flag_word EBadSize = 4"

definition widen :: "u8 list \<Rightarrow> u8 list" where
  "widen bs = concat (map (\<lambda>b. [b, 0]) bs)"

definition CopyAndExpandDes :: "u8 list \<Rightarrow> nat \<Rightarrow> TErr + u8 list" where
  "CopyAndExpandDes aSrc aDestMax = (if aDestMax < length aSrc * 2 then Inl KErrArgument else Inr (widen aSrc))"

definition name_length :: "u8 list \<Rightarrow> u16" where
  "name_length n = of_nat (length n)"

definition too_big :: "u32 \<Rightarrow> nat \<Rightarrow> TErr" where
  "too_big aDataSize n = (if n < unat aDataSize then KErrTooBig else KErrNone)"

section \<open>Threads\<close>

definition sizeof_TThreadListEntry :: u32 where "sizeof_TThreadListEntry = 48"

text \<open>The supervisor stack pointer and whether it is valid; the register number of the stack pointer is 13.\<close>

definition thread_stack :: "'k kern \<Rightarrow> 'k \<Rightarrow> list_thread \<Rightarrow> u32 \<times> TRegisterFlag" where
  "thread_stack K k t =
     (if tId (ltThread t) \<noteq> tId (kCurrentThread K k)
      then (ltSystemR13 t, if ltSystemFlags t AND push_bit 13 1 \<noteq> 0 then EValid else EInValid)
      else (0, EInValid))"

definition thread_fields :: "'k kern \<Rightarrow> 'k \<Rightarrow> list_thread \<Rightarrow> (nat \<times> u8 list) list" where
  "thread_fields K k t =
     [(8, le64 (pId (iOwningProcess (ltThread t)))), (0, le64 (tId (ltThread t))),
      (16, le32 (ltSupervisorStack t)), (24, [1]), (20, le32 (ltSupervisorStackSize t)), (25, [1]),
      (44, le16 (name_length (ltFullName t))), (32, le32 (flag_word (snd (thread_stack K k t)))),
      (28, le32 (fst (thread_stack K k t))), (46, widen (ltFullName t))]"

definition AppendThreadData :: "'k kern \<Rightarrow> 'k \<Rightarrow> list_thread \<Rightarrow> TDes8 \<times> u32 \<Rightarrow> (TDes8 \<times> u32) option" where
  "AppendThreadData K k t s =
     (let (aBuffer, aDataSize) = s;
          aDataSize = Align4 (aDataSize + 2 * ucast (name_length (ltFullName t)) + sizeof_TThreadListEntry - 2)
      in if unat aDataSize \<le> length (dbuf aBuffer) then do {
           d \<leftarrow> store_fields aBuffer (dlen aBuffer) (thread_fields K k t);
           d \<leftarrow> des_setlen d (unat aDataSize);
           Some (d, aDataSize)
         }
         else Some (aBuffer, aDataSize))"

definition thread_listed :: "bool \<Rightarrow> u64 \<Rightarrow> list_thread \<Rightarrow> bool" where
  "thread_listed aGlobal aTargetProcessId t \<longleftrightarrow>
     \<not> ltNDead t \<and> \<not> ltMDead t \<and> (aGlobal \<or> aTargetProcessId = pId (iOwningProcess (ltThread t)))"

fun thread_loop ::
  "'k kern \<Rightarrow> 'k \<Rightarrow> bool \<Rightarrow> u64 \<Rightarrow> list_thread option list \<Rightarrow> TDes8 \<times> u32 \<Rightarrow> (TDes8 \<times> u32) option" where
  "thread_loop K k g pid [] s = Some s"
| "thread_loop K k g pid (None # ts) s = thread_loop K k g pid ts s"
| "thread_loop K k g pid (Some t # ts) s =
     (if thread_listed g pid t then do { s \<leftarrow> AppendThreadData K k t s; thread_loop K k g pid ts s }
      else thread_loop K k g pid ts s)"

type_synonym listing = "(TDes8 \<times> u32 \<times> TErr) option"

definition GetThreadList :: "'k kern \<Rightarrow> 'k lists \<Rightarrow> 'k \<Rightarrow> TDes8 \<Rightarrow> bool \<Rightarrow> u64 \<Rightarrow> listing" where
  "GetThreadList K L k aBuffer aGlobal aTargetProcessId = do {
     (d, n) \<leftarrow> thread_loop K k aGlobal aTargetProcessId (lThreads L k) (aBuffer\<lparr>dlen := 0\<rparr>, 0);
     Some (d, n, too_big n (dlen d))
   }"

definition GetGlobalThreadList :: "'k kern \<Rightarrow> 'k lists \<Rightarrow> 'k \<Rightarrow> TDes8 \<Rightarrow> listing" where
  "GetGlobalThreadList K L k aBuffer = GetThreadList K L k aBuffer True 0"

text \<open>The size is the caller's variable, which an early return leaves as it is.\<close>

definition GetThreadListForProcess :: "'k kern \<Rightarrow> 'k lists \<Rightarrow> 'k \<Rightarrow> TDes8 \<Rightarrow> u32 \<Rightarrow> u64 \<Rightarrow> listing" where
  "GetThreadListForProcess K L k aBuffer n aTargetProcessId =
     (case OpenProcessHandle K k aTargetProcessId of
        None \<Rightarrow> Some (aBuffer, n, KErrArgument)
      | Some p \<Rightarrow> GetThreadList K L k aBuffer False aTargetProcessId)"

definition GetThreadListForThread :: "'k kern \<Rightarrow> 'k lists \<Rightarrow> 'k \<Rightarrow> TDes8 \<Rightarrow> u32 \<Rightarrow> u64 \<Rightarrow> listing" where
  "GetThreadListForThread K L k aBuffer n aTargetThreadId =
     (case OpenThreadHandle K k aTargetThreadId of
        None \<Rightarrow> Some (aBuffer, n, KErrArgument)
      | Some t \<Rightarrow> GetThreadListForProcess K L k aBuffer n (pId (iOwningProcess t)))"

section \<open>Processes\<close>

definition sizeof_TProcessListEntry :: u32 where "sizeof_TProcessListEntry = 24"

text \<open>The names are two descriptors behind the entry; iAttributes is not stored.\<close>

definition process_entry ::
  "TDes8 \<Rightarrow> list_process \<Rightarrow> u8 list option \<Rightarrow> (TErr \<times> TDes8) option" where
  "process_entry aBuffer p fileName =
     (let fileNameLength = (case fileName of None \<Rightarrow> 0 | Some n \<Rightarrow> name_length n);
          dynamicNameLength = name_length (lpFullName p); pos = dlen aBuffer
      in do {
        d \<leftarrow> store_fields aBuffer pos [(0, le64 (pId (lpProcess p))), (16, le16 fileNameLength),
               (18, le16 dynamicNameLength), (8, le32 (lpUid3 p))];
        case (case fileName of None \<Rightarrow> Inr [] | Some n \<Rightarrow> CopyAndExpandDes n (unat fileNameLength * 2)) of
          Inl err \<Rightarrow> Some (KErrGeneral, d)
        | Inr bs \<Rightarrow> do {
            d \<leftarrow> store_fields d pos [(20, bs)];
            (case CopyAndExpandDes (lpFullName p) (unat dynamicNameLength * 2) of
               Inl err \<Rightarrow> Some (KErrGeneral, d)
             | Inr bs \<Rightarrow> map_option (\<lambda>d. (KErrNone, d)) (store_fields d pos [(20 + 2 * unat fileNameLength, bs)]))
          }
      })"

text \<open>One process: Inl is an early return.\<close>

definition append_process :: "list_process \<Rightarrow> TDes8 \<times> u32 \<Rightarrow> ((TDes8 \<times> u32 \<times> TErr) + (TDes8 \<times> u32)) option" where
  "append_process p s =
     (let (aBuffer, aDataSize) = s in do {
        fileName \<leftarrow> (case lpFileName p of None \<Rightarrow> Some None | Some None \<Rightarrow> None | Some (Some n) \<Rightarrow> Some (Some n));
        let fileNameLength = (case fileName of None \<Rightarrow> 0 | Some n \<Rightarrow> name_length n);
        let dynamicNameLength = name_length (lpFullName p);
        let aDataSize = Align4 (aDataSize + 2 * ucast fileNameLength + 2 * ucast dynamicNameLength + sizeof_TProcessListEntry - 2);
        if unat aDataSize \<le> length (dbuf aBuffer) then do {
          (err, d) \<leftarrow> process_entry aBuffer p fileName;
          if err \<noteq> KErrNone then Some (Inl (d, aDataSize, err))
          else do { d \<leftarrow> des_setlen d (unat aDataSize); Some (Inr (d, aDataSize)) }
        }
        else Some (Inr (aBuffer, aDataSize))
      })"

fun process_loop :: "list_process option list \<Rightarrow> TDes8 \<times> u32 \<Rightarrow> ((TDes8 \<times> u32 \<times> TErr) + (TDes8 \<times> u32)) option" where
  "process_loop [] s = Some (Inr s)"
| "process_loop (None # ps) s = process_loop ps s"
| "process_loop (Some p # ps) s =
     (case append_process p s of None \<Rightarrow> None | Some (Inl r) \<Rightarrow> Some (Inl r) | Some (Inr s) \<Rightarrow> process_loop ps s)"

text \<open>The length of the buffer is not set to 0 first, as GetThreadList does.\<close>

definition GetProcessList :: "'k lists \<Rightarrow> 'k \<Rightarrow> TDes8 \<Rightarrow> u32 \<Rightarrow> listing" where
  "GetProcessList L k aBuffer n =
     (case lProcesses L k of
        None \<Rightarrow> Some (aBuffer, n, KErrNotFound)
      | Some ps \<Rightarrow>
          map_option (\<lambda>r. case r of Inl r \<Rightarrow> r | Inr (d, n) \<Rightarrow> (d, n, too_big n (dlen d))) (process_loop ps (aBuffer, 0)))"

section \<open>Code segments\<close>

datatype TCodeSegType = EUnknownCodeSegType | EExeCodeSegType | EDllCodeSegType

fun code_seg_type_word :: "TCodeSegType \<Rightarrow> u32" where
  "code_seg_type_word EUnknownCodeSegType = 0"
| "code_seg_type_word EExeCodeSegType = 1"
| "code_seg_type_word EDllCodeSegType = 2"

definition GetCodeSegType :: "list_codeseg \<Rightarrow> TCodeSegType" where
  "GetCodeSegType c = (if lcIsExe c then EExeCodeSegType else if lcIsDll c then EDllCodeSegType else EUnknownCodeSegType)"

definition sizeof_TCodeSegListEntry :: u32 where "sizeof_TCodeSegListEntry = 44"

definition code_seg_fields :: "TModuleMemoryInfo \<Rightarrow> u32 \<Rightarrow> TCodeSegType \<Rightarrow> u8 list \<Rightarrow> u32 \<Rightarrow> (nat \<times> u8 list) list" where
  "code_seg_fields mi xip ty name uid3 =
     [(0, le32 (miCodeBase mi)), (4, le32 (miCodeSize mi)), (8, le32 (miConstDataSize mi)),
      (12, le32 (miInitialisedDataBase mi)), (16, le32 (miInitialisedDataSize mi)), (20, le32 (miUninitialisedDataSize mi)),
      (24, le32 xip), (28, le32 (code_seg_type_word ty)), (40, le16 (name_length name)), (32, le32 uid3)]"

definition AppendCodeSegData ::
  "TDes8 \<Rightarrow> u32 \<Rightarrow> TModuleMemoryInfo \<Rightarrow> u32 \<Rightarrow> TCodeSegType \<Rightarrow> u8 list \<Rightarrow> u32 \<Rightarrow> listing" where
  "AppendCodeSegData aBuffer aDataSize aMemoryInfo aIsXip aCodeSegType aFileName aUid3 =
     (let aDataSize = Align4 (aDataSize + sizeof_TCodeSegListEntry + 2 * ucast (name_length aFileName) - 2);
          pos = dlen aBuffer
      in if unat aDataSize \<le> length (dbuf aBuffer) then do {
           d \<leftarrow> store_fields aBuffer pos (code_seg_fields aMemoryInfo aIsXip aCodeSegType aFileName aUid3);
           (case CopyAndExpandDes aFileName (unat (name_length aFileName) * 2) of
              Inl err \<Rightarrow> Some (d, aDataSize, KErrGeneral)
            | Inr bs \<Rightarrow> do {
                d \<leftarrow> store_fields d pos [(42, bs)];
                d \<leftarrow> des_setlen d (unat aDataSize);
                Some (d, aDataSize, KErrNone)
              })
         }
         else Some (aBuffer, aDataSize, KErrNone))"

text \<open>One code segment: its memory information, then its entry.  Reading the name of one without a name is a fault.\<close>

definition append_code_seg :: "list_codeseg \<Rightarrow> TDes8 \<times> u32 \<Rightarrow> ((TErr \<times> TDes8 \<times> u32) + (TDes8 \<times> u32)) option" where
  "append_code_seg c s =
     (let (aBuffer, aDataSize) = s in
      case lcMemoryInfo c of
        Inl err \<Rightarrow> Some (Inl (err, aBuffer, aDataSize))
      | Inr mi \<Rightarrow> do {
          name \<leftarrow> lcFileName c;
          (d, n, err) \<leftarrow> AppendCodeSegData aBuffer aDataSize mi (lcXIP c) (GetCodeSegType c) name (lcUid3 c);
          Some (if err \<noteq> KErrNone then Inl (err, d, n) else Inr (d, n))
        })"

fun code_seg_loop :: "list_codeseg list \<Rightarrow> TDes8 \<times> u32 \<Rightarrow> ((TErr \<times> TDes8 \<times> u32) + (TDes8 \<times> u32)) option" where
  "code_seg_loop [] s = Some (Inr s)"
| "code_seg_loop (c # cs) s =
     (case append_code_seg c s of None \<Rightarrow> None | Some (Inl r) \<Rightarrow> Some (Inl r) | Some (Inr s) \<Rightarrow> code_seg_loop cs s)"

text \<open>The sizes are compared with the capacity of the buffer, whose length is not set to 0 first.\<close>

definition GetGlobalCodeSegList :: "'k lists \<Rightarrow> 'k \<Rightarrow> TDes8 \<Rightarrow> listing" where
  "GetGlobalCodeSegList L k aBuffer =
     map_option (\<lambda>r. case r of Inl (err, d, n) \<Rightarrow> (d, n, err)
                           | Inr (d, n) \<Rightarrow> (d, n, too_big n (length (dbuf d))))
       (code_seg_loop (lCodeSegs L k) (aBuffer, 0))"

definition GetCodeSegListForProcess :: "'k kern \<Rightarrow> 'k lists \<Rightarrow> 'k \<Rightarrow> TDes8 \<Rightarrow> u32 \<Rightarrow> u64 \<Rightarrow> listing" where
  "GetCodeSegListForProcess K L k aBuffer n aTargetProcessId =
     (case OpenProcessHandle K k aTargetProcessId of
        None \<Rightarrow> Some (aBuffer, n, KErrArgument)
      | Some p \<Rightarrow>
          map_option (\<lambda>r. let (err, d, n) = (case r of Inl r \<Rightarrow> r | Inr (d, n) \<Rightarrow> (KErrNone, d, n))
                          in (d, n, if too_big n (length (dbuf d)) = KErrTooBig then KErrTooBig else err))
            (code_seg_loop (lProcessCodeSegs L k p) (aBuffer, 0)))"

definition GetCodeSegListForThread :: "'k kern \<Rightarrow> 'k lists \<Rightarrow> 'k \<Rightarrow> TDes8 \<Rightarrow> u32 \<Rightarrow> u64 \<Rightarrow> listing" where
  "GetCodeSegListForThread K L k aBuffer n aTargetThreadId =
     (let processId = (case OpenThreadHandle K k aTargetThreadId of None \<Rightarrow> 0 | Some t \<Rightarrow> pId (iOwningProcess t))
      in if processId = 0 then Some (aBuffer, n, KErrArgument)
         else GetCodeSegListForProcess K L k aBuffer n processId)"

section \<open>The directories of the ROM\<close>

text \<open>TDesC8::Find: the position of the first occurrence.\<close>

fun des_find :: "u8 list \<Rightarrow> u8 list \<Rightarrow> nat option" where
  "des_find sub [] = (if sub = [] then Some 0 else None)"
| "des_find sub (b # bs) =
     (if take (length sub) (b # bs) = sub then Some 0 else map_option Suc (des_find sub bs))"

definition KBackSlash :: "u8 list" where "KBackSlash = [92, 0]"
definition KForwardSlash :: "u8 list" where "KForwardSlash = [47, 0]"
definition KZColon :: "u8 list" where "KZColon = [122, 0, 58, 0]"

text \<open>\<open>z:\sys\bin\\<close> in two-byte characters.\<close>

definition KZSysBin :: "u8 list" where
  "KZSysBin = widen [122, 58, 92, 115, 121, 115, 92, 98, 105, 110, 92]"

lemma des_find_less: "des_find sub s = Some i \<Longrightarrow> sub \<noteq> [] \<Longrightarrow> i < length s"
  by (induction s arbitrary: i) (auto split: if_splits)

text \<open>The result is the error and the folders; growing the array may fail.\<close>

function SplitDirectoryName :: "'k kern \<Rightarrow> 'k \<Rightarrow> u8 list \<Rightarrow> u8 list list \<Rightarrow> TErr \<times> u8 list list" where
  "SplitDirectoryName K k string folders =
     (if string = [] then (KErrNone, folders)
      else
        let offset = (case des_find KBackSlash string of None \<Rightarrow> length string | Some i \<Rightarrow> i);
            adjustedOffset = (if offset = length string then offset else offset + length KBackSlash);
            err = kAppend K k (length folders)
        in if err \<noteq> KErrNone then (err, folders)
           else SplitDirectoryName K k (drop adjustedOffset string) (folders @ [take offset string]))"
  by auto
termination
  by (relation "measure (\<lambda>(K, k, s, f). length s)") (auto simp: KBackSlash_def split: option.splits)

text \<open>The entries from an address on, as many as the counts behind them say.\<close>

fun dir_loop ::
  "'k kern \<Rightarrow> 'k \<Rightarrow> 'k lists \<Rightarrow> nat \<Rightarrow> u32 \<Rightarrow> TRomEntry list \<Rightarrow> TErr \<times> TRomEntry list" where
  "dir_loop K k L 0 address entries = (KErrNone, entries)"
| "dir_loop K k L (Suc n) address entries =
     (let romEntry = romEntryAt L address; err = kAppend K k (length entries) in
      if err \<noteq> KErrNone then (err, entries)
      else dir_loop K k L n (address + Align4 (romEntryHead L + 2 * ucast (reNameLength romEntry))) (entries @ [romEntry]))"

definition GetDirectoryContents ::
  "'k kern \<Rightarrow> 'k \<Rightarrow> 'k lists \<Rightarrow> TRomEntry list \<Rightarrow> u32 \<Rightarrow> TErr \<times> TRomEntry list" where
  "GetDirectoryContents K k L aRomEntryArray aAddress =
     (let sizeInBytes = romWord L aAddress;
          initialAddress = aAddress + 4;
          filesAndDirectories = romWord L (initialAddress + sizeInBytes);
          subDirCount = unat (filesAndDirectories AND 0xFFFF);
          filesCount = unat (drop_bit 16 filesAndDirectories)
      in dir_loop K k L (subDirCount + filesCount) initialAddress aRomEntryArray)"

definition KEntryAttXIP :: u32 where "KEntryAttXIP = 0x0080"
definition KEntryAttDir :: u32 where "KEntryAttDir = 0x0010"

definition FindDirectory :: "'k kern \<Rightarrow> 'k \<Rightarrow> 'k lists \<Rightarrow> u8 list \<Rightarrow> u32 \<Rightarrow> TErr + u32" where
  "FindDirectory K k L aDirectory aAddress =
     (let (err, dirContents) = GetDirectoryContents K k L [] aAddress in
      if err \<noteq> KErrNone then Inl err
      else case find (\<lambda>e. reAtt e AND KEntryAttDir \<noteq> 0 \<and>
                       CompareF_eq K aDirectory (take (unat (reNameLength e) * 2) (reName e))) dirContents of
             Some e \<Rightarrow> Inr (reAddressLin e)
           | None \<Rightarrow> Inl KErrNotFound)"

text \<open>The recursion takes the folders out of the caller's array, which is part of the result.  An empty array
  panics.\<close>

fun directory_entries ::
  "'k kern \<Rightarrow> 'k \<Rightarrow> 'k lists \<Rightarrow> TRomEntry list \<Rightarrow> u8 list list \<Rightarrow> u32 \<Rightarrow> (TErr \<times> TRomEntry list \<times> u8 list list) option" where
  "directory_entries K k L entries [] aAddress = None"
| "directory_entries K k L entries (f # fs) aAddress =
     (case FindDirectory K k L f aAddress of
        Inl err \<Rightarrow> Some (err, entries, f # fs)
      | Inr address \<Rightarrow>
          if fs = [] then
            let (err, entries) = GetDirectoryContents K k L entries address in Some (err, entries, f # fs)
          else directory_entries K k L entries fs address)"

text \<open>One section of the ROM after the other.\<close>

fun root_loop ::
  "'k kern \<Rightarrow> 'k \<Rightarrow> 'k lists \<Rightarrow> nat \<Rightarrow> u32 \<Rightarrow> TRomEntry list \<Rightarrow> u8 list list \<Rightarrow> (TErr \<times> TRomEntry list) option" where
  "root_loop K k L 0 rootDirectoryPointer entries folders = Some (KErrNone, entries)"
| "root_loop K k L (Suc n) rootDirectoryPointer entries folders = do {
     let rootDirectoryPointer = rootDirectoryPointer + 8;
     (err, entries, folders) \<leftarrow> directory_entries K k L entries folders (romWord L rootDirectoryPointer);
     if err \<noteq> KErrNone then Some (err, entries) else root_loop K k L n rootDirectoryPointer entries folders
   }"

definition GetDirectoryEntries ::
  "'k kern \<Rightarrow> 'k \<Rightarrow> 'k lists \<Rightarrow> u8 list \<Rightarrow> (TErr \<times> TRomEntry list) option" where
  "GetDirectoryEntries K k L aDirectoryName =
     (if des_find KForwardSlash aDirectoryName \<noteq> None then Some (KErrArgument, [])
      else
        let (err, folders) = SplitDirectoryName K k aDirectoryName [] in
        if err \<noteq> KErrNone then Some (err, [])
        else case folders of
          [] \<Rightarrow> Some (KErrArgument, [])
        | z # folders \<Rightarrow>
            if \<not> CompareF_eq K z KZColon then Some (KErrArgument, [])
            else if \<exists>f\<in>set folders. f = [] then Some (KErrArgument, [])
            else root_loop K k L (unat (romWord L (romRootDirectoryList L))) (romRootDirectoryList L) [] folders)"

section \<open>XIP libraries\<close>

definition sizeof_TXipLibraryListEntry :: u32 where "sizeof_TXipLibraryListEntry = 36"

definition xip_candidate :: "'k lists \<Rightarrow> TRomEntry \<Rightarrow> bool" where
  "xip_candidate L e \<longleftrightarrow>
     reAtt e AND KEntryAttXIP \<noteq> 0 \<and> reAtt e AND KEntryAttDir = 0 \<and>
     riUid1 (romHeaderAt L (reAddressLin e)) = kDynamicLibraryUid L \<and>
     romCompatible L (riHardwareVariant (romHeaderAt L (reAddressLin e)))"

definition xip_fields :: "TRomImageHeader \<Rightarrow> nat \<Rightarrow> (nat \<times> u8 list) list" where
  "xip_fields h fullNameLength16 =
     [(0, le32 (riCodeAddress h)), (4, le32 (riTextSize h)), (8, le32 (riCodeSize h - riTextSize h)),
      (12, le32 (riDataBssLinearBase h)), (16, le32 (riDataSize h)), (20, le32 (riBssSize h)),
      (32, le16 (of_nat fullNameLength16))]"

text \<open>The name is appended piecewise to a descriptor of its own.\<close>

definition append_xip :: "'k lists \<Rightarrow> TRomEntry \<Rightarrow> TDes8 \<times> u32 \<Rightarrow> (TDes8 \<times> u32) option" where
  "append_xip L e s =
     (let (aBuffer, aDataSize) = s;
          fullNameLength16 = length KZSysBin div 2 + unat (reNameLength e);
          aDataSize = aDataSize + Align4 (of_nat (2 * fullNameLength16) + sizeof_TXipLibraryListEntry - 2)
      in if unat aDataSize \<le> length (dbuf aBuffer) then do {
           d \<leftarrow> store_fields aBuffer (dlen aBuffer) (xip_fields (romHeaderAt L (reAddressLin e)) fullNameLength16);
           let name = KZSysBin @ take (2 * unat (reNameLength e)) (reName e);
           d \<leftarrow> (if length name \<le> 2 * fullNameLength16 then store_fields d (dlen aBuffer) [(34, name)] else None);
           d \<leftarrow> des_setlen d (unat aDataSize);
           Some (d, aDataSize)
         }
         else Some (aBuffer, aDataSize))"

fun xip_loop :: "'k lists \<Rightarrow> TRomEntry list \<Rightarrow> TDes8 \<times> u32 \<Rightarrow> (TDes8 \<times> u32) option" where
  "xip_loop L [] s = Some s"
| "xip_loop L (e # es) s =
     (if xip_candidate L e then do { s \<leftarrow> append_xip L e s; xip_loop L es s } else xip_loop L es s)"

definition GetXipLibrariesList :: "'k kern \<Rightarrow> 'k lists \<Rightarrow> 'k \<Rightarrow> TDes8 \<Rightarrow> u32 \<Rightarrow> listing" where
  "GetXipLibrariesList K L k aBuffer n = do {
     (err, entries) \<leftarrow> GetDirectoryEntries K k L KZSysBin;
     if err \<noteq> KErrNone then Some (aBuffer, n, err)
     else do {
       (d, n) \<leftarrow> xip_loop L entries (aBuffer, 0);
       Some (d, n, if unat n = dlen d then KErrNone else KErrTooBig)
     }
   }"

end
