(* ===== verification/ListProps.thy ===== *)
theory ListProps
  imports ListManager TrackerProps
begin

text \<open>
  The listings against the client's view of them: the buffer of a thread listing parses, with the loop the API
  documents, to the threads that were listed; the size that is returned is the size a second call needs; and where
  the listings of processes and of XIP libraries go wrong.
\<close>

section \<open>Storing and reading fields\<close>

lemma overwrite_read:
  assumes "off + length bs \<le> length buf"
  shows "take (length bs) (drop off (overwrite buf off bs)) = bs"
  using assms by (simp add: overwrite_def)

lemma overwrite_keep:
  assumes "off + length bs \<le> length buf" "a + n \<le> off \<or> off + length bs \<le> a"
  shows "take n (drop a (overwrite buf off bs)) = take n (drop a buf)"
proof (rule nth_equalityI)
  show "length (take n (drop a (overwrite buf off bs))) = length (take n (drop a buf))" using assms(1) by simp
  fix i assume "i < length (take n (drop a (overwrite buf off bs)))"
  then have i: "i < n" "a + i < length buf" using assms(1) by auto
  then have "take n (drop a (overwrite buf off bs)) ! i = overwrite buf off bs ! (a + i)"
    "take n (drop a buf) ! i = buf ! (a + i)" using assms(1) by simp_all
  moreover have no: "\<not> (off \<le> a + i \<and> a + i < off + length bs)" using assms(2) i(1) by linarith
  have "overwrite buf off bs ! (a + i) = buf ! (a + i)"
    using overwrite_nth[of "a + i" buf off bs] assms(1) i(2) unfolding if_not_P[OF no] by simp
  ultimately show "take n (drop a (overwrite buf off bs)) ! i = take n (drop a buf) ! i" by simp
qed

lemma des_store_eq:
  "des_store d off bs = Some d' \<longleftrightarrow> off + length bs \<le> length (dbuf d) \<and> d' = d\<lparr>dbuf := overwrite (dbuf d) off bs\<rparr>"
  by (auto simp: des_store_def)

definition fields_in :: "nat \<Rightarrow> (nat \<times> u8 list) list \<Rightarrow> bool" where
  "fields_in n fs \<longleftrightarrow> (\<forall>f\<in>set fs. fst f + length (snd f) \<le> n)"

lemma store_fields_returns:
  "fields_in n fs \<Longrightarrow> pos + n \<le> length (dbuf d) \<Longrightarrow>
   \<exists>d'. store_fields d pos fs = Some d' \<and> length (dbuf d') = length (dbuf d) \<and> dlen d' = dlen d"
proof (induction fs arbitrary: d)
  case (Cons f fs)
  obtain off bs where f: "f = (off, bs)" by (cases f)
  have "off + length bs \<le> n" using Cons.prems(1) f by (simp add: fields_in_def)
  then have "des_store d (pos + off) bs = Some (d\<lparr>dbuf := overwrite (dbuf d) (pos + off) bs\<rparr>)"
    using Cons.prems(2) by (simp add: des_store_eq)
  moreover have "length (overwrite (dbuf d) (pos + off) bs) = length (dbuf d)"
    using Cons.prems(2) \<open>off + length bs \<le> n\<close> by simp
  ultimately show ?case
    using Cons.IH[of "d\<lparr>dbuf := overwrite (dbuf d) (pos + off) bs\<rparr>"] Cons.prems f by (simp add: fields_in_def)
qed simp

text \<open>Bytes that no field covers are kept.\<close>

lemma store_fields_keep:
  "store_fields d pos fs = Some d' \<Longrightarrow> \<forall>f\<in>set fs. a + n \<le> pos + fst f \<or> pos + fst f + length (snd f) \<le> a \<Longrightarrow>
   take n (drop a (dbuf d')) = take n (drop a (dbuf d))"
proof (induction fs arbitrary: d)
  case (Cons f fs)
  obtain off bs where f: "f = (off, bs)" by (cases f)
  obtain d1 where d1: "des_store d (pos + off) bs = Some d1" "store_fields d1 pos fs = Some d'"
    using Cons.prems(1) f by (auto simp: bind_eq_Some_conv)
  have "take n (drop a (dbuf d')) = take n (drop a (dbuf d1))" using Cons.IH[OF d1(2)] Cons.prems(2) by simp
  also have "\<dots> = take n (drop a (dbuf d))"
    using d1(1) Cons.prems(2) f overwrite_keep[of "pos + off" bs "dbuf d" a n] by (auto simp: des_store_eq)
  finally show ?case .
qed simp

fun disjoint_fields :: "(nat \<times> u8 list) list \<Rightarrow> bool" where
  "disjoint_fields [] = True"
| "disjoint_fields (f # fs) \<longleftrightarrow>
     (\<forall>g\<in>set fs. fst f + length (snd f) \<le> fst g \<or> fst g + length (snd g) \<le> fst f) \<and> disjoint_fields fs"

lemma store_fields_read:
  "store_fields d pos fs = Some d' \<Longrightarrow> disjoint_fields fs \<Longrightarrow> (off, bs) \<in> set fs \<Longrightarrow>
   take (length bs) (drop (pos + off) (dbuf d')) = bs"
proof (induction fs arbitrary: d)
  case (Cons f fs)
  obtain off1 bs1 where f: "f = (off1, bs1)" by (cases f)
  obtain d1 where d1: "des_store d (pos + off1) bs1 = Some d1" "store_fields d1 pos fs = Some d'"
    using Cons.prems(1) f by (auto simp: bind_eq_Some_conv)
  show ?case
  proof (cases "(off, bs) = f")
    case True
    then have "take (length bs) (drop (pos + off) (dbuf d')) = take (length bs) (drop (pos + off) (dbuf d1))"
      using store_fields_keep[OF d1(2), of "pos + off" "length bs"] Cons.prems(2) f by fastforce
    then show ?thesis
      using d1(1) True f overwrite_read[of "pos + off" bs "dbuf d"] by (simp add: des_store_eq)
  next
    case False
    then show ?thesis using Cons.IH[OF d1(2)] Cons.prems by auto
  qed
qed simp

section \<open>Numbers and names\<close>

definition narrow :: "u8 list \<Rightarrow> u8 list" where
  "narrow bs = map (\<lambda>i. bs ! (2 * i)) [0..<length bs div 2]"

lemma widen_Cons [simp]: "widen (b # bs) = b # 0 # widen bs"
  by (simp add: widen_def)

lemma widen_Nil [simp]: "widen [] = []"
  by (simp add: widen_def)

lemma length_widen [simp]: "length (widen bs) = 2 * length bs"
  by (induction bs) simp_all

lemma widen_nth: "i < length bs \<Longrightarrow> widen bs ! (2 * i) = bs ! i"
proof (induction bs arbitrary: i)
  case (Cons b bs)
  then show ?case by (cases i) simp_all
qed simp

lemma narrow_widen [simp]: "narrow (widen bs) = bs"
  by (rule nth_equalityI) (simp_all add: narrow_def widen_nth)

section \<open>The client's view of a thread listing\<close>

text \<open>The loop of the API documentation: the entry at the pointer, then the pointer moves by the aligned size of the
  entry (TThreadListEntry::GetSize).  An entry is read as the thread's and the process's id and the name.\<close>

definition GetSize_thread :: "u8 list \<Rightarrow> nat" where
  "GetSize_thread bs = unat (Align4 (sizeof_TThreadListEntry - 2 + 2 * ucast (of_le16 (take 2 (drop 44 bs)))))"

function parse_threads :: "u8 list \<Rightarrow> (u64 \<times> u64 \<times> u8 list) list" where
  "parse_threads bs =
     (if length bs < GetSize_thread bs \<or> GetSize_thread bs = 0 then []
      else (of_le64 (take 8 bs), of_le64 (take 8 (drop 8 bs)),
            narrow (take (2 * unat (of_le16 (take 2 (drop 44 bs)))) (drop 46 bs))) # parse_threads (drop (GetSize_thread bs) bs))"
  by auto
termination
  by (relation "measure length") auto

declare parse_threads.simps [simp del]

definition thread_view :: "list_thread \<Rightarrow> u64 \<times> u64 \<times> u8 list" where
  "thread_view t = (tId (ltThread t), pId (iOwningProcess (ltThread t)), ltFullName t)"

text \<open>Names fit a TFileName; the size of an entry is then a multiple of 4 of at least 48.\<close>

definition thread_size :: "list_thread \<Rightarrow> nat" where
  "thread_size t = 4 * ((49 + 2 * length (ltFullName t)) div 4)"

lemma align4_unat:
  assumes "unat n + 3 < 4294967296"
  shows "unat (Align4 n) = 4 * ((unat n + 3) div 4)"
proof -
  have s: "Suc (Suc (j - 2)) = j" if "2 \<le> j" for j :: nat using that by simp
  have m: "(0xFFFFFFFC :: u32) = NOT (mask 2)" by (simp add: mask_eq_exp_minus_1)
  have "(n + 3) AND 0xFFFFFFFC = push_bit 2 (drop_bit 2 (n + 3))"
    unfolding m by (rule bit_word_eqI) (auto simp: bit_simps s not_less)
  moreover have "unat (n + 3) = unat n + 3"
    using assms by (simp add: unat_word_ariths)
  moreover have "unat (push_bit 2 (drop_bit 2 w)) = 4 * (unat w div 4)" for w :: u32
  proof -
    have "4 * (unat w div 4) < 4294967296" using unsigned_less[of w, where 'a = nat] by simp
    then show ?thesis
      unfolding unsigned_push_bit_eq unat_drop_bit_eq
      unfolding drop_bit_eq_div push_bit_eq_mult
      by (simp add: take_bit_nat_eq_self mult.commute)
  qed
  ultimately show ?thesis by (simp add: Align4_def)
qed

lemma unat_ucast16: "unat (ucast (w :: u16) :: u32) = unat w"
proof -
  have "unat w < 65536" using unsigned_less[of w, where 'a = nat] by simp
  then show ?thesis by (simp add: unsigned_ucast_eq take_bit_nat_eq_self)
qed

lemma name_length_unat: "length n < 65536 \<Longrightarrow> unat (name_length n) = length n"
  by (simp add: name_length_def unat_of_nat)

lemma entry_end:
  assumes "length name < 65536" "unat n mod 4 = 0" "unat n + 4 * ((49 + 2 * length name) div 4) < 4294967288"
  shows "unat (Align4 (n + 2 * ucast (name_length name) + 48 - 2)) = unat n + 4 * ((49 + 2 * length name) div 4)"
proof -
  have l: "unat (2 * ucast (name_length name) :: u32) = 2 * length name"
    using assms(1) name_length_unat[OF assms(1)] by (simp add: unat_word_ariths unat_ucast16)
  have "unat (n + 2 * ucast (name_length name) + 48 - 2) = unat n + 2 * length name + 46"
  proof -
    have b: "n + 2 * ucast (name_length name) + 48 - 2 = n + 2 * ucast (name_length name) + 46" by simp
    show ?thesis unfolding b using assms(3) l by (simp only: unat_word_ariths) simp
  qed
  then have "unat (Align4 (n + 2 * ucast (name_length name) + 48 - 2)) = 4 * ((unat n + 2 * length name + 46 + 3) div 4)"
    using assms(3) by (subst align4_unat) simp_all
  then show ?thesis using assms(2) by presburger
qed

text \<open>The threads of a container that are listed.\<close>

definition listed_threads :: "bool \<Rightarrow> u64 \<Rightarrow> list_thread option list \<Rightarrow> list_thread list" where
  "listed_threads g pid ts = concat (map (\<lambda>t. case t of None \<Rightarrow> [] | Some t \<Rightarrow> if thread_listed g pid t then [t] else []) ts)"

lemma thread_size_bound: "46 + 2 * length (ltFullName t) \<le> thread_size t"
  unfolding thread_size_def by presburger

lemma length_le16 [simp]: "length (le16 w) = 2"
  by (simp add: le16_def)

lemma thread_fields_shape:
  "fields_in (thread_size t) (thread_fields K k t)" "disjoint_fields (thread_fields K k t)"
  unfolding thread_fields_def fields_in_def using thread_size_bound[of t] by simp_all

lemma append_thread:
  assumes "length (ltFullName t) < 65536" "unat n mod 4 = 0" "unat n + thread_size t < 4294967288"
    "dlen d = unat n" "unat n + thread_size t \<le> length (dbuf d)"
  shows "\<exists>d' n'. AppendThreadData K k t (d, n) = Some (d', n') \<and> unat n' = unat n + thread_size t \<and> dlen d' = unat n' \<and>
    length (dbuf d') = length (dbuf d) \<and> take (unat n) (dbuf d') = take (unat n) (dbuf d) \<and>
    (\<forall>f\<in>set (thread_fields K k t). take (length (snd f)) (drop (unat n + fst f) (dbuf d')) = snd f)"
proof -
  let ?n = "Align4 (n + 2 * ucast (name_length (ltFullName t)) + 48 - 2)"
  have n: "unat ?n = unat n + thread_size t"
    using entry_end[OF assms(1,2)] assms(3) by (simp add: thread_size_def)
  obtain d1 where d1: "store_fields d (unat n) (thread_fields K k t) = Some d1" "length (dbuf d1) = length (dbuf d)" "dlen d1 = dlen d"
    using store_fields_returns[OF thread_fields_shape(1)[of t K k] assms(5)] by auto
  have "take (unat n) (drop 0 (dbuf d1)) = take (unat n) (drop 0 (dbuf d))"
    by (rule store_fields_keep[OF d1(1)]) simp
  moreover have "\<forall>f\<in>set (thread_fields K k t). take (length (snd f)) (drop (unat n + fst f) (dbuf d1)) = snd f"
    using store_fields_read[OF d1(1) thread_fields_shape(2)] by auto
  ultimately show ?thesis
    using n d1 assms(4,5) by (simp add: AppendThreadData_def Let_def sizeof_TThreadListEntry_def des_setlen_def)
qed

lemma parse_entry:
  assumes "length (ltFullName t) < 65536" "thread_size t < 4294967288" "thread_size t \<le> length bs"
    "\<forall>f\<in>set (thread_fields K k t). take (length (snd f)) (drop (fst f) bs) = snd f"
  shows "parse_threads bs = thread_view t # parse_threads (drop (thread_size t) bs)"
proof -
  have f: "take 8 bs = le64 (tId (ltThread t))" "take 8 (drop 8 bs) = le64 (pId (iOwningProcess (ltThread t)))"
    "take 2 (drop 44 bs) = le16 (name_length (ltFullName t))" "take (2 * length (ltFullName t)) (drop 46 bs) = widen (ltFullName t)"
    using assms(4) by (simp_all add: thread_fields_def)
  have "unat (Align4 (0 + 2 * ucast (name_length (ltFullName t)) + 48 - 2)) = thread_size t"
    using entry_end[of "ltFullName t" 0] assms(1,2) by (simp add: thread_size_def)
  then have g: "GetSize_thread bs = thread_size t"
    unfolding GetSize_thread_def f(3) of_le16_le16 sizeof_TThreadListEntry_def by (simp add: add.commute)
  then show ?thesis
    using f assms(3) thread_size_bound[of t] name_length_unat[OF assms(1)]
    by (subst parse_threads.simps) (simp add: of_le64_le64 of_le16_le16 thread_view_def)
qed

lemma parse_nil: "parse_threads [] = []"
proof -
  have "GetSize_thread [] = 48"
    by (simp add: GetSize_thread_def of_le16_def sizeof_TThreadListEntry_def Align4_def)
  then show ?thesis by (subst parse_threads.simps) simp
qed

definition total_size :: "list_thread list \<Rightarrow> nat" where
  "total_size ts = sum_list (map thread_size ts)"

lemma total_size_simps [simp]: "total_size [] = 0" "total_size (t # ts) = thread_size t + total_size ts"
  by (simp_all add: total_size_def)

lemma listed_simps [simp]:
  "listed_threads g pid [] = []" "listed_threads g pid (None # ts) = listed_threads g pid ts"
  "listed_threads g pid (Some t # ts) = (if thread_listed g pid t then t # listed_threads g pid ts else listed_threads g pid ts)"
  by (simp_all add: listed_threads_def)

lemma thread_size_mod: "thread_size t mod 4 = 0"
  by (simp add: thread_size_def)

lemma window:
  "m + l \<le> n \<Longrightarrow> take l (drop m (take n xs)) = take l (drop m xs)"
  by (simp add: drop_take)

text \<open>When there is room, the listed threads follow one another in the buffer.\<close>

lemma thread_loop_fits:
  assumes "length (dbuf d) < 2147483648"
  shows "\<forall>t\<in>set (listed_threads g pid ts). length (ltFullName t) < 65536 \<Longrightarrow> dlen d = unat n \<Longrightarrow> unat n mod 4 = 0 \<Longrightarrow>
   unat n + total_size (listed_threads g pid ts) \<le> length (dbuf d) \<Longrightarrow>
   \<exists>d' n'. thread_loop K k g pid ts (d, n) = Some (d', n') \<and> unat n' = unat n + total_size (listed_threads g pid ts) \<and>
     dlen d' = unat n' \<and> length (dbuf d') = length (dbuf d) \<and> take (unat n) (dbuf d') = take (unat n) (dbuf d) \<and>
     parse_threads (take (total_size (listed_threads g pid ts)) (drop (unat n) (dbuf d'))) = map thread_view (listed_threads g pid ts)"
  using assms
proof (induction ts arbitrary: d n)
  case (Cons ot ts)
  show ?case
  proof (cases "\<exists>t. ot = Some t \<and> thread_listed g pid t")
    case False
    then show ?thesis using Cons.IH[of d n] Cons.prems by (cases ot) auto
  next
    case True
    then obtain t where t: "ot = Some t" "thread_listed g pid t" by blast
    let ?R = "total_size (listed_threads g pid ts)"
    have len: "length (ltFullName t) < 65536" and sz: "unat n + thread_size t + ?R \<le> length (dbuf d)"
      using Cons.prems t by simp_all
    obtain d1 n1 where a: "AppendThreadData K k t (d, n) = Some (d1, n1)" "unat n1 = unat n + thread_size t" "dlen d1 = unat n1"
      "length (dbuf d1) = length (dbuf d)" "take (unat n) (dbuf d1) = take (unat n) (dbuf d)"
      and f: "\<forall>f\<in>set (thread_fields K k t). take (length (snd f)) (drop (unat n + fst f) (dbuf d1)) = snd f"
      using append_thread[OF len Cons.prems(3), of d K k] Cons.prems(2,5) sz by auto
    have n1: "unat n1 mod 4 = 0" using a(2) Cons.prems(3) thread_size_mod[of t] by presburger
    obtain d2 n2 where r: "thread_loop K k g pid ts (d1, n1) = Some (d2, n2)" "unat n2 = unat n1 + ?R" "dlen d2 = unat n2"
      "length (dbuf d2) = length (dbuf d1)" "take (unat n1) (dbuf d2) = take (unat n1) (dbuf d1)"
      "parse_threads (take ?R (drop (unat n1) (dbuf d2))) = map thread_view (listed_threads g pid ts)"
      using Cons.IH[of d1 n1] Cons.prems(1,5) a(2,3,4) n1 sz t by auto
    let ?bs = "take (thread_size t + ?R) (drop (unat n) (dbuf d2))"
    have pre: "take (unat n) (dbuf d2) = take (unat n) (dbuf d)"
      using r(5) a(2,5) by (metis le_add1 min.absorb1 take_take)
    have "take (length (snd f)) (drop (fst f) ?bs) = snd f" if "f \<in> set (thread_fields K k t)" for f
    proof -
      have "fst f + length (snd f) \<le> thread_size t"
        using thread_fields_shape(1)[of t K k] that by (simp add: fields_in_def)
      then have i: "fst f + length (snd f) \<le> thread_size t + ?R" "unat n + fst f + length (snd f) \<le> unat n1"
        using a(2) by simp_all
      have "take (length (snd f)) (drop (fst f) ?bs) = take (length (snd f)) (drop (unat n + fst f) (dbuf d2))"
        unfolding window[OF i(1)] by (simp add: add.commute)
      also have "\<dots> = take (length (snd f)) (drop (unat n + fst f) (take (unat n1) (dbuf d2)))"
        unfolding window[OF i(2)] ..
      also have "\<dots> = take (length (snd f)) (drop (unat n + fst f) (dbuf d1))"
        unfolding r(5) window[OF i(2)] ..
      finally show ?thesis using f that by simp
    qed
    moreover have "thread_size t \<le> length ?bs" using sz a(4) r(4) by simp
    ultimately have "parse_threads ?bs = thread_view t # parse_threads (drop (thread_size t) ?bs)"
      using len sz Cons.prems(5) by (intro parse_entry) auto
    moreover have "drop (thread_size t) ?bs = take ?R (drop (unat n1) (dbuf d2))"
      using a(2) by (simp add: drop_take add.commute)
    ultimately show ?thesis using t a r pre by simp
  qed
qed (simp add: parse_nil)

text \<open>The size is the total whether there is room or not.\<close>

lemma append_thread_size:
  assumes "length (ltFullName t) < 65536" "unat n mod 4 = 0" "unat n + thread_size t < 4294967288"
    "dlen d \<le> length (dbuf d)" "dlen d = unat n \<or> length (dbuf d) < unat n"
  shows "\<exists>d' n'. AppendThreadData K k t (d, n) = Some (d', n') \<and> unat n' = unat n + thread_size t \<and>
    length (dbuf d') = length (dbuf d) \<and> dlen d' \<le> length (dbuf d') \<and> (dlen d' = unat n' \<or> length (dbuf d') < unat n')"
proof (cases "unat n + thread_size t \<le> length (dbuf d)")
  case True
  then have "dlen d = unat n" using assms(5) by auto
  from append_thread[OF assms(1-3) this True, of K k] show ?thesis using True by auto
next
  case False
  have "unat (Align4 (n + 2 * ucast (name_length (ltFullName t)) + 48 - 2)) = unat n + thread_size t"
    using entry_end[OF assms(1,2)] assms(3) by (simp add: thread_size_def)
  then show ?thesis
    using False assms(4) by (simp add: AppendThreadData_def sizeof_TThreadListEntry_def)
qed

lemma thread_loop_size:
  "\<forall>t\<in>set (listed_threads g pid ts). length (ltFullName t) < 65536 \<Longrightarrow> unat n mod 4 = 0 \<Longrightarrow>
   unat n + total_size (listed_threads g pid ts) < 4294967288 \<Longrightarrow> dlen d \<le> length (dbuf d) \<Longrightarrow>
   dlen d = unat n \<or> length (dbuf d) < unat n \<Longrightarrow>
   \<exists>d' n'. thread_loop K k g pid ts (d, n) = Some (d', n') \<and> unat n' = unat n + total_size (listed_threads g pid ts) \<and>
     length (dbuf d') = length (dbuf d) \<and> dlen d' \<le> length (dbuf d') \<and> (dlen d' = unat n' \<or> length (dbuf d') < unat n')"
proof (induction ts arbitrary: d n)
  case (Cons ot ts)
  show ?case
  proof (cases "\<exists>t. ot = Some t \<and> thread_listed g pid t")
    case False
    then show ?thesis using Cons.IH[of n d] Cons.prems by (cases ot) auto
  next
    case True
    then obtain t where t: "ot = Some t" "thread_listed g pid t" by blast
    obtain d1 n1 where a: "AppendThreadData K k t (d, n) = Some (d1, n1)" "unat n1 = unat n + thread_size t"
      "length (dbuf d1) = length (dbuf d)" "dlen d1 \<le> length (dbuf d1)" "dlen d1 = unat n1 \<or> length (dbuf d1) < unat n1"
    proof -
      have "length (ltFullName t) < 65536" "unat n + thread_size t < 4294967288" using Cons.prems(1,3) t by simp_all
      from append_thread_size[OF this(1) Cons.prems(2) this(2) Cons.prems(4,5), of K k] show ?thesis
        by (elim exE conjE) (rule that; assumption)
    qed
    have m: "unat n1 mod 4 = 0" using a(2) Cons.prems(2) thread_size_mod[of t] by presburger
    have s: "unat n1 + total_size (listed_threads g pid ts) < 4294967288" using Cons.prems(3) a(2) t by simp
    have l: "\<forall>t\<in>set (listed_threads g pid ts). length (ltFullName t) < 65536" using Cons.prems(1) t by simp
    from Cons.IH[OF l m s a(4,5)] obtain d2 n2 where "thread_loop K k g pid ts (d1, n1) = Some (d2, n2)"
      "unat n2 = unat n1 + total_size (listed_threads g pid ts)" "length (dbuf d2) = length (dbuf d1)"
      "dlen d2 \<le> length (dbuf d2)" "dlen d2 = unat n2 \<or> length (dbuf d2) < unat n2"
      by (elim exE conjE) (rule that; assumption)
    then show ?thesis using a t by simp
  qed
qed auto

section \<open>Properties\<close>

text \<open>C19: A thread listing returns the size of all listed threads, whether they fit the buffer or not, and KErrTooBig
  exactly when they do not; when they fit, whatever the buffer held before, the loop that the API documents reads
  back the ids and the names of the listed threads in their order.\<close>

theorem thread_listing:
  assumes "\<forall>t\<in>set (listed_threads g pid (lThreads L k)). length (ltFullName t) < 65536"
    "total_size (listed_threads g pid (lThreads L k)) < 4294967288" "length (dbuf buf) < 2147483648"
  shows "\<exists>d. GetThreadList K L k buf g pid = Some (d, of_nat (total_size (listed_threads g pid (lThreads L k))),
      if total_size (listed_threads g pid (lThreads L k)) \<le> length (dbuf buf) then KErrNone else KErrTooBig) \<and>
    (total_size (listed_threads g pid (lThreads L k)) \<le> length (dbuf buf) \<longrightarrow>
     parse_threads (take (dlen d) (dbuf d)) = map thread_view (listed_threads g pid (lThreads L k)))"
proof -
  let ?ts = "listed_threads g pid (lThreads L k)" and ?d = "buf\<lparr>dlen := 0\<rparr>"
  obtain d n where r: "thread_loop K k g pid (lThreads L k) (?d, 0) = Some (d, n)" "unat n = total_size ?ts"
    "length (dbuf d) = length (dbuf buf)" "dlen d \<le> length (dbuf d)" "dlen d = unat n \<or> length (dbuf d) < unat n"
    using thread_loop_size[of g pid "lThreads L k" 0 ?d K k] assms(1,2) by auto
  have n: "n = of_nat (total_size ?ts)" using r(2)[symmetric] by simp
  have "parse_threads (take (dlen d) (dbuf d)) = map thread_view ?ts" if "total_size ?ts \<le> length (dbuf buf)"
    using thread_loop_fits[of ?d g pid "lThreads L k" 0 K k] assms(1,3) that r(1) by auto
  moreover have "GetThreadList K L k buf g pid = Some (d, n, too_big n (dlen d))"
    by (simp add: GetThreadList_def r(1))
  moreover have "too_big n (dlen d) = (if total_size ?ts \<le> length (dbuf buf) then KErrNone else KErrTooBig)"
    using r(2-5) by (simp add: too_big_def) linarith
  ultimately show ?thesis by (simp add: n)
qed

text \<open>A directory search takes the folders it has passed out of the caller's array.\<close>

lemma find_directory_error: "FindDirectory K k L f a \<noteq> Inl KErrNone"
  by (auto simp: FindDirectory_def split: prod.splits option.splits)

lemma directory_entries_folders:
  "directory_entries K k L es fs a = Some (KErrNone, es', fs') \<Longrightarrow> fs \<noteq> [] \<and> fs' = [last fs]"
  by (induction fs arbitrary: a)
    (auto simp: Let_def find_directory_error split: sum.splits if_splits prod.splits)

lemma split_sys_bin:
  "\<forall>n. kAppend K k n = KErrNone \<Longrightarrow>
   SplitDirectoryName K k KZSysBin [] = (KErrNone, [widen [122, 58], widen [115, 121, 115], widen [98, 105, 110]])"
  by (simp add: KZSysBin_def KBackSlash_def)

text \<open>With two sections in the ROM the search for z:\sys\bin looks in the second for a directory "bin" in its root:
  when there is none the listing of XIP libraries fails with that error, whatever the first section holds.\<close>

theorem second_rom_section_fails:
  assumes "\<forall>n. kAppend K k n = KErrNone" "romWord L (romRootDirectoryList L) = 2"
    "directory_entries K k L [] [widen [115, 121, 115], widen [98, 105, 110]] (romWord L (romRootDirectoryList L + 8)) =
       Some (KErrNone, es, fs)"
    "FindDirectory K k L (widen [98, 105, 110]) (romWord L (romRootDirectoryList L + 16)) = Inl err" "err \<noteq> KErrNone"
  shows "GetXipLibrariesList K L k buf n = Some (buf, n, err)"
proof -
  have "fs = [widen [98, 105, 110]]" using directory_entries_folders[OF assms(3)] by simp
  then have "root_loop K k L (Suc (Suc 0)) (romRootDirectoryList L) [] [widen [115, 121, 115], widen [98, 105, 110]] =
      Some (err, es)"
    using assms(3,4,5) by (simp add: add.assoc del: widen_Cons directory_entries.simps(2)) simp
  moreover have "unat (romWord L (romRootDirectoryList L)) = Suc (Suc 0)" by (simp add: assms(2))
  moreover have "des_find KForwardSlash KZSysBin = None" by (simp add: KForwardSlash_def KZSysBin_def)
  moreover have "CompareF_eq K (widen [122, 58]) KZColon" by (simp add: CompareF_eq_def KZColon_def)
  ultimately have "GetDirectoryEntries K k L KZSysBin = Some (err, es)"
    unfolding GetDirectoryEntries_def split_sys_bin[OF assms(1)] by (simp del: widen_Cons) simp
  then show ?thesis using assms(5) by (simp add: GetXipLibrariesList_def)
qed

text \<open>The listing of processes appends behind what the caller's buffer holds, and checks only the size of the list
  against its capacity: with a full buffer the first entry that fits an empty one is stored behind its end.\<close>

theorem process_list_behind_buffer:
  assumes "lProcesses L k = Some (Some p # ps)" "lpFileName p = None" "dlen buf = length (dbuf buf)"
    "length (lpFullName p) < 1000" "24 + 2 * length (lpFullName p) + 3 \<le> length (dbuf buf)"
  shows "GetProcessList L k buf n = None"
proof -
  have l: "unat (2 * ucast (name_length (lpFullName p)) :: u32) = 2 * length (lpFullName p)"
    using assms(4) name_length_unat[of "lpFullName p"] by (simp add: unat_word_ariths unat_ucast16)
  have "unat (2 * ucast (name_length (lpFullName p)) + 22 :: u32) = 2 * length (lpFullName p) + 22"
    using assms(4) l by (simp only: unat_word_ariths) simp
  then have "unat (Align4 (2 * ucast (name_length (lpFullName p)) + 22)) \<le> length (dbuf buf)"
    using assms(4,5) by (subst align4_unat) simp_all
  then show ?thesis
    using assms(1,2,3) by (simp add: GetProcessList_def append_process_def process_entry_def des_store_def
        sizeof_TProcessListEntry_def Let_def add.commute)
qed

section \<open>Concrete listings\<close>

text \<open>One thread, one process, and a ROM of two sections (their roots at 0x100 and 0x200) that share the directories
  "sys" (at 0x300) and "bin" (at 0x400, empty).\<close>

definition demo_list_thread :: list_thread where
  "demo_list_thread =
     \<lparr>ltThread = demo_thread, ltNDead = False, ltMDead = False, ltFullName = [97], ltSupervisorStack = 0x1000,
      ltSupervisorStackSize = 0x400, ltSystemR13 = 0, ltSystemFlags = 0\<rparr>"

definition demo_list_process :: list_process where
  "demo_list_process = \<lparr>lpProcess = demo_process, lpFileName = None, lpFullName = [97], lpUid3 = 0\<rparr>"

definition demo_directory :: "u8 list \<Rightarrow> u32 \<Rightarrow> TRomEntry" where
  "demo_directory n a = \<lparr>reAddressLin = a, reAtt = KEntryAttDir, reNameLength = of_nat (length n), reName = widen n\<rparr>"

definition demoL :: "demo lists" where
  "demoL =
     \<lparr>lThreads = (\<lambda>k. [Some demo_list_thread, None]), lProcesses = (\<lambda>k. Some [Some demo_list_process]),
      lCodeSegs = (\<lambda>k. []), lProcessCodeSegs = (\<lambda>k p. []), romRootDirectoryList = 0,
      romWord = (\<lambda>a. if a = 0 then 2 else if a = 8 then 0x100 else if a = 16 then 0x200
                    else if a = 0x104 \<or> a = 0x204 \<or> a = 0x304 then 1 else 0),
      romEntryAt = (\<lambda>a. if a = 0x304 then demo_directory [98, 105, 110] 0x400 else demo_directory [115, 121, 115] 0x300),
      romHeaderAt = (\<lambda>a. \<lparr>riUid1 = 0, riHardwareVariant = 0, riCodeAddress = 0, riTextSize = 0, riCodeSize = 0,
                          riDataBssLinearBase = 0, riDataSize = 0, riBssSize = 0\<rparr>),
      romEntryHead = 12, romCompatible = (\<lambda>v. True), kDynamicLibraryUid = 0x10000079\<rparr>"

lemma demo_listed: "listed_threads True 0 (lThreads demoL k) = [demo_list_thread]"
  by (simp add: demoL_def thread_listed_def) (simp add: demo_list_thread_def)

theorem thread_listing_witness:
  "\<exists>d. GetThreadList demoK demoL demo0 \<lparr>dbuf = replicate 100 0xFF, dlen = 7\<rparr> True 0 = Some (d, 48, KErrNone) \<and>
    parse_threads (take (dlen d) (dbuf d)) = [(5, 4, [97])]"
proof -
  have "total_size [demo_list_thread] = 48" by (simp add: thread_size_def demo_list_thread_def)
  moreover have "length (ltFullName demo_list_thread) < 65536" "thread_view demo_list_thread = (5, 4, [97])"
    by (simp_all add: demo_list_thread_def thread_view_def demo_thread_def demo_process_def)
  ultimately show ?thesis
    using thread_listing[of True 0 demoL demo0 "\<lparr>dbuf = replicate 100 0xFF, dlen = 7\<rparr>" demoK]
    unfolding demo_listed by simp
qed

lemma demo_contents:
  "GetDirectoryContents demoK demo0 demoL [] 0x100 = (KErrNone, [demo_directory [115, 121, 115] 0x300])"
  "GetDirectoryContents demoK demo0 demoL [] 0x200 = (KErrNone, [demo_directory [115, 121, 115] 0x300])"
  "GetDirectoryContents demoK demo0 demoL [] 0x300 = (KErrNone, [demo_directory [98, 105, 110] 0x400])"
  "GetDirectoryContents demoK demo0 demoL [] 0x400 = (KErrNone, [])"
  using demo_append by (simp_all add: GetDirectoryContents_def) (simp_all add: demoL_def)

lemma demo_same_name: "CompareF_eq demoK (widen n) (widen n)"
  by (simp add: CompareF_eq_def)

lemma demo_other_name: "\<not> CompareF_eq demoK (widen [98, 105, 110]) (widen [115, 121, 115])"
  by (simp add: CompareF_eq_def demoK_def)

lemma demo_find_sys: "FindDirectory demoK demo0 demoL (widen [115, 121, 115]) 0x100 = Inr 0x300"
  using demo_same_name[of "[115, 121, 115]"]
  by (simp add: FindDirectory_def demo_contents demo_directory_def KEntryAttDir_def)

lemma demo_find_bin: "FindDirectory demoK demo0 demoL (widen [98, 105, 110]) 0x300 = Inr 0x400"
  using demo_same_name[of "[98, 105, 110]"]
  by (simp add: FindDirectory_def demo_contents demo_directory_def KEntryAttDir_def)

theorem second_rom_section_fails_witness:
  "GetXipLibrariesList demoK demoL demo0 \<lparr>dbuf = replicate 100 0, dlen = 0\<rparr> 0 =
     Some (\<lparr>dbuf = replicate 100 0, dlen = 0\<rparr>, 0, KErrNotFound)"
proof (rule second_rom_section_fails)
  have r: "romRootDirectoryList demoL = 0" "romWord demoL 0 = 2" "romWord demoL 8 = 0x100" "romWord demoL 16 = 0x200"
    by (simp_all add: demoL_def)
  show "\<forall>n. kAppend demoK demo0 n = KErrNone" by (rule demo_append)
  show "romWord demoL (romRootDirectoryList demoL) = 2" by (simp add: r)
  show "directory_entries demoK demo0 demoL [] [widen [115, 121, 115], widen [98, 105, 110]]
      (romWord demoL (romRootDirectoryList demoL + 8)) = Some (KErrNone, [], [widen [98, 105, 110]])"
    using demo_find_sys demo_find_bin by (simp add: r demo_contents)
  show "FindDirectory demoK demo0 demoL (widen [98, 105, 110]) (romWord demoL (romRootDirectoryList demoL + 16)) =
      Inl KErrNotFound"
    using demo_other_name by (simp add: r FindDirectory_def demo_contents demo_directory_def)
qed simp

theorem process_list_behind_buffer_witness:
  "GetProcessList demoL demo0 \<lparr>dbuf = replicate 100 0, dlen = 100\<rparr> 0 = None"
  by (rule process_list_behind_buffer[where p = demo_list_process and ps = "[]"])
    (simp_all add: demoL_def demo_list_process_def)

end
