(* ===== verification/Channel.thy ===== *)
theory Channel
  imports Stepping ProcessTracker
begin

text \<open>
  The channel DRM_DebugChannel (src/rm_debug_kerneldriver.cpp): its state, the control of threads (suspend,
  resume, step), and the checks on processes.  The global TheDProcessTracker is part of the state.  What
  the driver reads of kernel objects beside their ids is the record \<open>objs\<close>; a code segment is described by
  its answers.
\<close>

section \<open>Kernel objects\<close>

text \<open>oFileName: the file name of the process's code segment, None without a code segment, Some None when the
  segment has no name.  oMemoryInfo is DCodeSeg::GetMemoryInfo: code base, code size, data base.  oUserRead is
  kumemget from the address space of the current thread, with the bytes it copied, also when it fails, and oDynamicCode lists the libraries of
  DProcess::iDynamicCode.  oTerminate is DebugSupport::TerminateProcess.\<close>

record 'k objs =
  oFileName :: "'k \<Rightarrow> DProcess \<Rightarrow> u8 list option option"
  oName :: "'k \<Rightarrow> DProcess \<Rightarrow> u8 list option"
  oUids :: "'k \<Rightarrow> DProcess \<Rightarrow> u32 \<times> u32 \<times> u32"
  oMemoryInfo :: "'k \<Rightarrow> DProcess \<Rightarrow> TErr \<times> u32 \<times> u32 \<times> u32"
  oDebugAttributes :: "'k \<Rightarrow> DProcess \<Rightarrow> u32"
  oEDebugAllowed :: u32
  oSecureId :: "'k \<Rightarrow> DProcess \<Rightarrow> u32"
  oFlags :: "'k \<Rightarrow> DThread \<Rightarrow> u32"
  oExitType :: "'k \<Rightarrow> DThread \<Rightarrow> u8"
  oExitReason :: "'k \<Rightarrow> DThread \<Rightarrow> u32"
  oExitCategory :: "'k \<Rightarrow> DThread \<Rightarrow> u8 list"
  oUserRead :: "'k \<Rightarrow> u32 \<Rightarrow> u32 \<Rightarrow> TErr \<times> u8 list"
  oTerminate :: "'k \<Rightarrow> DProcess \<Rightarrow> u32 \<Rightarrow> 'k"
  oDynamicCode :: "'k \<Rightarrow> DProcess \<Rightarrow> u64 list"
  oMaxName :: nat
  oExcCodeAbort :: u32
  oExcDataAbort :: u32
  oExcInvalidOpCode :: u32

section \<open>The state of the channel\<close>

record TProcessInfo =
  piId :: u32
  piCodeAddress :: u32
  piCodeSize :: u32
  piDataAddress :: u32

record DRM_DebugChannel =
  chClientThread :: DThread
  chDebugProcessList :: "TProcessInfo list"
  chBreakManager :: D_RMD_Breakpoints
  chTracker :: DProcessTracker

text \<open>A change of the frozen threads, as SuspendThread and ResumeThread return it.\<close>

definition set_frozen :: "DRM_DebugChannel \<Rightarrow> frozen \<Rightarrow> DRM_DebugChannel" where
  "set_frozen ch fr = ch\<lparr>chTracker := (chTracker ch)\<lparr>iFrozenThreadSemaphores := fr\<rparr>\<rparr>"

abbreviation frozen_of :: "DRM_DebugChannel \<Rightarrow> frozen" where
  "frozen_of ch \<equiv> iFrozenThreadSemaphores (chTracker ch)"

section \<open>Suspending, resuming and stepping\<close>

definition DoSuspendThread ::
  "'k kern \<Rightarrow> 'k \<Rightarrow> DRM_DebugChannel \<Rightarrow> DThread option \<Rightarrow> ('k \<times> DRM_DebugChannel \<times> TErr) option" where
  "DoSuspendThread K k ch aThread =
     (case aThread of
        None \<Rightarrow> Some (k, ch, KErrArgument)
      | Some t \<Rightarrow>
          map_option (\<lambda>(k, fr, err). (k, set_frozen ch fr, err)) (SuspendThread K k (frozen_of ch) (Some t) False))"

definition tracker_resume ::
  "'k kern \<Rightarrow> 'k \<Rightarrow> DRM_DebugChannel \<Rightarrow> DThread \<Rightarrow> 'k \<times> DRM_DebugChannel \<times> TErr" where
  "tracker_resume K k ch t = (let (k, fr, err) = ResumeThread K k (frozen_of ch) t in (k, set_frozen ch fr, err))"

text \<open>aStepInto is not used by the code; aUserRequest is handed on to the stepper.\<close>

definition DoStepRange ::
  "cpu \<Rightarrow> 'k kern \<Rightarrow> 'k \<Rightarrow> DRM_DebugChannel \<Rightarrow> DThread option \<Rightarrow> u32 \<Rightarrow> u32 \<Rightarrow> bool \<Rightarrow> bool \<Rightarrow> u32 \<Rightarrow> bool \<Rightarrow>
     ('k \<times> DRM_DebugChannel \<times> TErr) option" where
  "DoStepRange c K k ch aThread aStartAddress aStopAddress aStepInto aResumeOnceOutOfRange aNumSteps aUserRequest =
     (case aThread of
        None \<Rightarrow> Some (k, ch, KErrArgument)
      | Some t \<Rightarrow> do {
          let startAddress = (if aStartAddress AND 1 \<noteq> 0 then aStartAddress + 1 else aStartAddress);
          let stopAddress = (if aStopAddress AND 1 \<noteq> 0 then aStopAddress + 1 else aStopAddress);
          (k, m, err) \<leftarrow> ModifyBreaksForStep c K k (chBreakManager ch) aThread startAddress stopAddress
                           aResumeOnceOutOfRange aUserRequest aNumSteps;
          let ch = ch\<lparr>chBreakManager := m\<rparr>;
          Some (if err \<noteq> KErrNone then (k, ch, err) else tracker_resume K k ch t)
        })"

definition resume_body :: "D_RMD_Breakpoints \<Rightarrow> u32 \<Rightarrow> nat \<Rightarrow> unit \<Rightarrow> (unit + unit) option" where
  "resume_body m currentPC i s =
     (let e = iBreakPointList m ! i in
      if \<not> IsTemporaryBreak m e \<and> iAddress e = currentPC then Some (Inl ()) else Some (Inr ()))"

text \<open>The call of DoStepRange has one argument fewer than it means to: ETrue goes to aNumSteps and aUserRequest
  keeps its default.\<close>

definition DoResumeThread ::
  "cpu \<Rightarrow> 'k kern \<Rightarrow> 'k \<Rightarrow> DRM_DebugChannel \<Rightarrow> DThread option \<Rightarrow> ('k \<times> DRM_DebugChannel \<times> TErr) option" where
  "DoResumeThread c K k ch aThread =
     (case aThread of
        None \<Rightarrow> Some (k, ch, KErrArgument)
      | Some t \<Rightarrow> do {
          (err, currentPC) \<leftarrow> ReadKernelRegisterValue K k aThread PC_REGISTER (kUninit K);
          let currentPC = (if err \<noteq> KErrNone then 0xFFFFFFFF else currentPC);
          let m = chBreakManager ch;
          res \<leftarrow> break_walk GetNextBreak (\<lambda>_. m) (resume_body m currentPC) None ();
          (case res of
             Inl _ \<Rightarrow> DoStepRange c K k ch aThread currentPC (currentPC + 1) True True 1 False
           | Inr _ \<Rightarrow> Some (tracker_resume K k ch t))
        })"

text \<open>TRM_DebugStepInfo as it is read from the client.\<close>

record TRM_DebugStepInfo =
  siStartAddress :: u32
  siStopAddress :: u32
  siStepInto :: bool

text \<open>The flags are shifted by one parameter: EFalse is aResumeOnceOutOfRange and ETrue the number of steps.\<close>

definition StepRange ::
  "cpu \<Rightarrow> 'k kern \<Rightarrow> 'k \<Rightarrow> DRM_DebugChannel \<Rightarrow> DThread option \<Rightarrow> TRM_DebugStepInfo carg \<Rightarrow>
     ('k \<times> DRM_DebugChannel \<times> TErr) option" where
  "StepRange c K k ch aThread aStepInfo =
     (case aStepInfo of
        NullArg \<Rightarrow> Some (k, ch, KErrArgument)
      | BadArg err \<Rightarrow> Some (k, ch, err)
      | Arg info \<Rightarrow>
          DoStepRange c K k ch aThread (siStartAddress info) (siStopAddress info) (siStepInto info) False 1 False)"

definition Step ::
  "cpu \<Rightarrow> 'k kern \<Rightarrow> 'k \<Rightarrow> DRM_DebugChannel \<Rightarrow> u32 \<Rightarrow> u32 \<Rightarrow> ('k \<times> DRM_DebugChannel \<times> TErr) option" where
  "Step c K k ch aThreadId aNumSteps =
     (case OpenThreadHandle K k (ucast aThreadId) of
        None \<Rightarrow> Some (k, ch, KErrArgument)
      | Some thread \<Rightarrow> do {
          (err, startAddress) \<leftarrow> ReadKernelRegisterValue K k (Some thread) PC_REGISTER (kUninit K);
          if err \<noteq> KErrNone then Some (k, ch, err)
          else DoStepRange c K k ch (Some thread) startAddress startAddress True False aNumSteps True
        })"

section \<open>Processes\<close>

definition KillProcess :: "'k kern \<Rightarrow> 'k objs \<Rightarrow> 'k \<Rightarrow> u32 \<Rightarrow> u32 \<Rightarrow> 'k \<times> TErr" where
  "KillProcess K J k aProcessId aReason =
     (case OpenProcessHandle K k (ucast aProcessId) of
        None \<Rightarrow> (k, KErrArgument)
      | Some process \<Rightarrow> (oTerminate J k process aReason, KErrNone))"

definition IsDebuggable :: "'k kern \<Rightarrow> 'k objs \<Rightarrow> 'k \<Rightarrow> u32 \<Rightarrow> TErr" where
  "IsDebuggable K J k aProcessId =
     (case OpenProcessHandle K k (ucast aProcessId) of
        None \<Rightarrow> KErrPermissionDenied
      | Some process \<Rightarrow>
          if oDebugAttributes J k process AND oEDebugAllowed J \<noteq> 0 then KErrNone else KErrPermissionDenied)"

definition KUidDebugSecurityServer :: u32 where
  "KUidDebugSecurityServer = 0x102834E2"

definition DoSecurityCheck :: "'k objs \<Rightarrow> 'k \<Rightarrow> DRM_DebugChannel \<Rightarrow> bool" where
  "DoSecurityCheck J k ch \<longleftrightarrow> oSecureId J k (iOwningProcess (chClientThread ch)) = KUidDebugSecurityServer"

section \<open>Notifying agents\<close>

text \<open>The agents of the i-th tracked process, and the agent that attached to all last.\<close>

definition notify_process ::
  "'k kern \<Rightarrow> 'k \<Rightarrow> DRM_DebugChannel \<Rightarrow> nat \<Rightarrow> TDriverEventInfo \<Rightarrow>
     ('k \<times> DRM_DebugChannel \<times> completion list) option" where
  "notify_process K k ch i e =
     (let t = chTracker ch in
      map_option (\<lambda>(k, fr, p, outs).
          (k, ch\<lparr>chTracker := t\<lparr>iProcesses := (iProcesses t)[i := p], iFrozenThreadSemaphores := fr\<rparr>\<rparr>, outs))
        (DTargetProcess_NotifyEvent K k (iFrozenThreadSemaphores t) (iProcesses t ! i) e))"

definition notify_attached_to_all ::
  "'k kern \<Rightarrow> 'k \<Rightarrow> DRM_DebugChannel \<Rightarrow> nat \<Rightarrow> TDriverEventInfo \<Rightarrow>
     ('k \<times> DRM_DebugChannel \<times> completion list) option" where
  "notify_attached_to_all K k ch i e =
     (let t = chTracker ch in
      map_option (\<lambda>(k, fr, a, outs).
          (k, ch\<lparr>chTracker := t\<lparr>iAgentsAttachedToAll := (iAgentsAttachedToAll t)[i := a], iFrozenThreadSemaphores := fr\<rparr>\<rparr>,
           outs))
        (NotifyEvent K k (iFrozenThreadSemaphores t) (iAgentsAttachedToAll t ! i) e))"

text \<open>The process is looked up by the lower 32 bits of its id; reading the name of a code segment that has none is a
  fault.\<close>

definition NotifyAgentsFromEventPid ::
  "'k kern \<Rightarrow> 'k objs \<Rightarrow> 'k \<Rightarrow> DRM_DebugChannel \<Rightarrow> TDriverEventInfo \<Rightarrow>
     ('k \<times> DRM_DebugChannel \<times> completion list \<times> bool) option" where
  "NotifyAgentsFromEventPid K J k ch e =
     (let pid = ucast (iProcessId e) :: u32 in
      case OpenProcessHandle K k (ucast pid) of
        None \<Rightarrow> Some (k, ch, [], False)
      | Some targetProcess \<Rightarrow> do {
          foundProcess \<leftarrow> (case oFileName J k targetProcess of
              Some None \<Rightarrow> None
            | Some (Some name) \<Rightarrow> Some (FindProcess K (chTracker ch) name)
            | None \<Rightarrow> (case oName J k targetProcess of
                         Some name \<Rightarrow> Some (FindProcess K (chTracker ch) name)
                       | None \<Rightarrow> Some None));
          (case foundProcess of
             Some i \<Rightarrow> map_option (\<lambda>(k, ch, outs). (k, ch, outs, True)) (notify_process K k ch i e)
           | None \<Rightarrow>
               (case GetCurrentAgentAttachedToAll (chTracker ch) of
                  Some i \<Rightarrow> map_option (\<lambda>(k, ch, outs). (k, ch, outs, True)) (notify_attached_to_all K k ch i e)
                | None \<Rightarrow> Some (k, ch, [], False)))
        })"

end
