(* ===== verification/ChannelEvents.thy ===== *)
theory ChannelEvents
  imports Channel
begin

text \<open>
  The kernel events: the handlers of DRM_DebugChannel (src/rm_debug_kerneldriver.cpp) and their dispatch
  (DRM_DebugEventHandler, src/rm_debug_eventhandler.cpp).  A handler gets the two machine words of the kernel's
  call and the objects they point to (NULL is None); it returns the new state, the completed requests and its
  TBool.  Debug assertions are not modelled.  Copying a name that is longer than the event's buffer panics.
\<close>

type_synonym 'k handled = "('k \<times> DRM_DebugChannel \<times> completion list \<times> bool) option"

definition nothing :: "'k \<Rightarrow> DRM_DebugChannel \<Rightarrow> 'k handled" where
  "nothing k ch = Some (k, ch, [], False)"

text \<open>A handler that returns EFalse whatever the agents say.\<close>

definition returns_false :: "'k handled \<Rightarrow> 'k handled" where
  "returns_false r = map_option (\<lambda>(k, ch, outs, b). (k, ch, outs, False)) r"

definition copy_name :: "'k objs \<Rightarrow> u8 list \<Rightarrow> u8 list option" where
  "copy_name J name = (if length name \<le> oMaxName J then Some name else None)"

text \<open>The members of an event that come from a thread.\<close>

definition event_of_thread :: "TDriverEventInfo \<Rightarrow> DThread \<Rightarrow> TDriverEventInfo" where
  "event_of_thread junk t =
     (TDriverEventInfo_Reset junk)\<lparr>iProcessId := pId (iOwningProcess t), iProcessIdValid := True,
        iThreadId := tId t, iThreadIdValid := True\<rparr>"

text \<open>NotifyAgentsForProcessEvent of the tracker, on the channel's state.\<close>

definition notify_process_event ::
  "'k kern \<Rightarrow> 'k \<Rightarrow> DRM_DebugChannel \<Rightarrow> u8 list \<Rightarrow> TDriverEventInfo \<Rightarrow> bool \<Rightarrow> 'k handled" where
  "notify_process_event K k ch name e fuzzy =
     map_option (\<lambda>(k, t, outs, b). (k, ch\<lparr>chTracker := t\<rparr>, outs, b))
       (NotifyAgentsForProcessEvent K k (chTracker ch) name e fuzzy)"

section \<open>Processes and threads\<close>

text \<open>The test of the error is inverted: the memory information is used when it could not be obtained.\<close>

definition process_code :: "'k objs \<Rightarrow> 'k \<Rightarrow> DProcess \<Rightarrow> u32 \<times> u32" where
  "process_code J k p =
     (case oFileName J k p of
        None \<Rightarrow> (0, 0)
      | Some _ \<Rightarrow> (case oMemoryInfo J k p of (err, base, len, data) \<Rightarrow> if err \<noteq> KErrNone then (base, len) else (0, 0)))"

definition RemoveProcess :: "'k kern \<Rightarrow> 'k objs \<Rightarrow> 'k \<Rightarrow> DRM_DebugChannel \<Rightarrow> DProcess option \<Rightarrow> 'k handled" where
  "RemoveProcess K J k ch aProcess =
     (case aProcess of
        None \<Rightarrow> nothing k ch
      | Some p \<Rightarrow>
          let (codeAddress, codeSize) = process_code J k p;
              (ch, codeAddress, codeSize) =
                (if codeAddress = 0 \<or> codeSize = 0 then
                   (case find_index (\<lambda>i. ucast (piId i) = pId p) (chDebugProcessList ch) of
                      None \<Rightarrow> (ch, codeAddress, codeSize)
                    | Some i \<Rightarrow> (ch\<lparr>chDebugProcessList := remove_nth i (chDebugProcessList ch)\<rparr>,
                               piCodeAddress (chDebugProcessList ch ! i), piCodeSize (chDebugProcessList ch ! i)))
                 else (ch, codeAddress, codeSize))
          in if codeAddress = 0 \<or> codeSize = 0 then nothing k ch
             else do {
               (k, m) \<leftarrow> RemoveBreaksForProcess K k (chBreakManager ch) (pId p) codeAddress codeSize;
               nothing k (ch\<lparr>chBreakManager := m\<rparr>)
             })"

definition StartThread ::
  "'k kern \<Rightarrow> 'k objs \<Rightarrow> TDriverEventInfo \<Rightarrow> 'k \<Rightarrow> DRM_DebugChannel \<Rightarrow> DThread option \<Rightarrow> 'k handled" where
  "StartThread K J junk k ch aThread =
     (case aThread of
        None \<Rightarrow> nothing k ch
      | Some t \<Rightarrow>
          let info = (event_of_thread junk t)\<lparr>iEventType := EEventsStartThread\<rparr> in
          case oFileName J k (iOwningProcess t) of
            Some (Some name) \<Rightarrow> do {
              n \<leftarrow> copy_name J name;
              returns_false (notify_process_event K k ch name (info\<lparr>iFileName := n\<rparr>) False)
            }
          | _ \<Rightarrow> nothing k ch)"

definition HandleAddProcessEvent ::
  "'k kern \<Rightarrow> 'k objs \<Rightarrow> TDriverEventInfo \<Rightarrow> 'k \<Rightarrow> DRM_DebugChannel \<Rightarrow> DProcess option \<Rightarrow> DThread option \<Rightarrow> 'k handled" where
  "HandleAddProcessEvent K J junk k ch aProcess aThread =
     (case aProcess of
        None \<Rightarrow> nothing k ch
      | Some p \<Rightarrow>
          let info = (TDriverEventInfo_Reset junk)\<lparr>iEventType := EEventsAddProcess, iProcessId := pId p,
                iCreatorThreadId := (case aThread of None \<Rightarrow> 0 | Some t \<Rightarrow> tId t), iProcessIdValid := True,
                iUids := oUids J k p, iUidsValid := True\<rparr>
          in case oName J k p of
            Some name \<Rightarrow> do {
              n \<leftarrow> copy_name J name;
              returns_false (notify_process_event K k ch name (info\<lparr>iFileName := n\<rparr>) True)
            }
          | None \<Rightarrow> nothing k ch)"

definition HandleRemoveProcessEvent ::
  "'k kern \<Rightarrow> 'k objs \<Rightarrow> TDriverEventInfo \<Rightarrow> 'k \<Rightarrow> DRM_DebugChannel \<Rightarrow> DProcess option \<Rightarrow> 'k handled" where
  "HandleRemoveProcessEvent K J junk k ch aProcess =
     (case aProcess of
        None \<Rightarrow> nothing k ch
      | Some p \<Rightarrow>
          let info = (TDriverEventInfo_Reset junk)\<lparr>iEventType := EEventsRemoveProcess, iProcessId := pId p,
                iProcessIdValid := True\<rparr>
          in case oName J k p of
            Some name \<Rightarrow> do {
              n \<leftarrow> copy_name J name;
              returns_false (notify_process_event K k ch name (info\<lparr>iFileName := n\<rparr>) True)
            }
          | None \<Rightarrow> nothing k ch)"

section \<open>Libraries\<close>

text \<open>A library: its code segment is described by its uids and what GetMemoryInfo answers.\<close>

record DLibrary =
  libId :: u64
  libName :: "u8 list"
  libCodeSeg :: "((u32 \<times> u32 \<times> u32) \<times> TErr \<times> u32 \<times> u32 \<times> u32) option"
  libMapCount :: int

definition other_process :: "DRM_DebugChannel \<Rightarrow> DThread \<Rightarrow> bool" where
  "other_process ch t \<longleftrightarrow> tId t \<noteq> tId (chClientThread ch) \<and>
     pId (iOwningProcess t) \<noteq> pId (iOwningProcess (chClientThread ch))"

definition AddLibrary ::
  "'k kern \<Rightarrow> 'k objs \<Rightarrow> TDriverEventInfo \<Rightarrow> 'k \<Rightarrow> DRM_DebugChannel \<Rightarrow> u32 \<Rightarrow> u32 \<Rightarrow> DLibrary option \<Rightarrow> DThread option \<Rightarrow> 'k handled" where
  "AddLibrary K J junk k ch a1 a2 aLibrary aThread =
     (case (aLibrary, aThread) of
        (Some lib, Some t) \<Rightarrow>
          if other_process ch t then
            case libCodeSeg lib of
              None \<Rightarrow> nothing k ch
            | Some (uids, err, base, len, data) \<Rightarrow>
                if err \<noteq> KErrNone then nothing k ch
                else do {
                  n \<leftarrow> copy_name J (libName lib);
                  returns_false (NotifyAgentsFromEventPid K J k ch
                    ((event_of_thread junk t)\<lparr>iEventType := EEventsAddLibrary, iUids := uids, iUidsValid := True,
                       iCodeAddress := base, iDataAddress := data, iFileName := n, iArg1 := a1, iArg2 := a2\<rparr>))
                }
          else nothing k ch
      | _ \<Rightarrow> nothing k ch)"

text \<open>One notification for each entry of the library in the process's dynamic code.\<close>

fun remove_library_loop ::
  "'k kern \<Rightarrow> 'k objs \<Rightarrow> TDriverEventInfo \<Rightarrow> nat \<Rightarrow> 'k \<Rightarrow> DRM_DebugChannel \<Rightarrow> ('k \<times> DRM_DebugChannel \<times> completion list) option" where
  "remove_library_loop K J e 0 k ch = Some (k, ch, [])"
| "remove_library_loop K J e (Suc n) k ch = do {
     (k, ch, out, b) \<leftarrow> NotifyAgentsFromEventPid K J k ch e;
     (k, ch, outs) \<leftarrow> remove_library_loop K J e n k ch;
     Some (k, ch, out @ outs)
   }"

definition RemoveLibrary ::
  "'k kern \<Rightarrow> 'k objs \<Rightarrow> TDriverEventInfo \<Rightarrow> 'k \<Rightarrow> DRM_DebugChannel \<Rightarrow> u32 \<Rightarrow> u32 \<Rightarrow> DLibrary option \<Rightarrow> 'k handled" where
  "RemoveLibrary K J junk k ch a1 a2 aLibrary =
     (let t = kCurrentThread K k; p = iOwningProcess t in
      case aLibrary of
        None \<Rightarrow> nothing k ch
      | Some lib \<Rightarrow>
          if other_process ch t then
            if libMapCount lib \<noteq> 0 then nothing k ch
            else case libCodeSeg lib of
              None \<Rightarrow> nothing k ch
            | Some (uids, err, base, len, data) \<Rightarrow>
                if err \<noteq> KErrNone then nothing k ch
                else
                  let ch = ch\<lparr>chBreakManager := InvalidateLibraryBreakPoints (chBreakManager ch) base len\<rparr>;
                      entries = count_list (oDynamicCode J k p) (libId lib)
                  in if entries = 0 then nothing k ch
                     else do {
                       n \<leftarrow> copy_name J (libName lib);
                       (k, ch, outs) \<leftarrow> remove_library_loop K J
                         ((TDriverEventInfo_Reset junk)\<lparr>iEventType := EEventsRemoveLibrary, iFileName := n,
                            iProcessId := pId p, iProcessIdValid := True, iThreadId := 0xFFFFFFFF, iThreadIdValid := False,
                            iUids := uids, iUidsValid := True, iArg1 := a1, iArg2 := a2\<rparr>) entries k ch;
                       Some (k, ch, outs, False)
                     }
          else nothing k ch)"

section \<open>Threads that die, raise exceptions or trace\<close>

definition HandleEventKillThread ::
  "'k kern \<Rightarrow> 'k objs \<Rightarrow> TDriverEventInfo \<Rightarrow> 'k \<Rightarrow> DRM_DebugChannel \<Rightarrow> u32 \<Rightarrow> u32 \<Rightarrow> 'k handled" where
  "HandleEventKillThread K J junk k ch a1 a2 =
     (let t = kCurrentThread K k; info = event_of_thread junk t in do {
        (err, pc) \<leftarrow> ReadKernelRegisterValue K k (Some t) 14 (iCurrentPC info);
        category \<leftarrow> (if oExitType J k t = kEExitPanic K then copy_name J (oExitCategory J k t) else Some (iPanicCategory info));
        let info = info\<lparr>iCurrentPC := pc, iPanicCategory := category, iExceptionNumber := oExitReason J k t,
               iExitType := oExitType J k t, iEventType := EEventsKillThread, iThreadFlags := oFlags J k t\<rparr>;
        (k, m) \<leftarrow> DoRemoveThreadBreaks K k (chBreakManager ch) (iThreadId info);
        (k, ch, outs, b) \<leftarrow> NotifyAgentsFromEventPid K J k (ch\<lparr>chBreakManager := m\<rparr>) (info\<lparr>iArg1 := a1, iArg2 := a2\<rparr>);
        Some (k, ch, outs, True)
      })"

definition HandleSwException ::
  "'k kern \<Rightarrow> 'k objs \<Rightarrow> TDriverEventInfo \<Rightarrow> 'k \<Rightarrow> DRM_DebugChannel \<Rightarrow> u32 \<Rightarrow> u32 \<Rightarrow> 'k handled" where
  "HandleSwException K J junk k ch a1 a2 =
     (let t = kCurrentThread K k; info = event_of_thread junk t in do {
        (err, pc) \<leftarrow> ReadKernelRegisterValue K k (Some t) PC_REGISTER (iCurrentPC info);
        returns_false (NotifyAgentsFromEventPid K J k ch
          (info\<lparr>iCurrentPC := pc, iExceptionNumber := a1, iEventType := EEventsSwExc, iThreadFlags := oFlags J k t,
             iArg1 := a1, iArg2 := a2\<rparr>))
      })"

text \<open>The length of the trace is not checked against the buffer of the event: copying more bytes than that overruns the
  driver's stack (None).  A read that fails may have copied some bytes.\<close>

definition HandleUserTrace ::
  "'k kern \<Rightarrow> 'k objs \<Rightarrow> TDriverEventInfo \<Rightarrow> 'k \<Rightarrow> DRM_DebugChannel \<Rightarrow> u32 \<Rightarrow> u32 \<Rightarrow> 'k handled" where
  "HandleUserTrace K J junk k ch a1 a2 =
     (let info = (event_of_thread junk (kCurrentThread K k))\<lparr>iEventType := EEventsUserTrace, iArg1 := a1, iArg2 := a2\<rparr>;
          (err, text) = oUserRead J k a1 a2
      in if TUserTraceSize < length text then None
         else if err \<noteq> KErrNone then nothing k ch
         else returns_false (NotifyAgentsFromEventPid K J k ch (info\<lparr>iUserTraceText := text, iMessageStatus := ESingleMessage\<rparr>)))"

section \<open>Hardware exceptions and breakpoints\<close>

text \<open>The register block is a list in the order of TRmdArmExcInfo: iCpsr, iExcCode, iR13Svc, iR4 to iR11, iR14Svc,
  iFaultAddress, iFaultStatus, iSpsrSvc, iR13, iR14, iR0 to iR3, iR12, iR15.\<close>

definition exc_iExcCode :: nat where "exc_iExcCode = 1"
definition exc_iR15 :: nat where "exc_iR15 = 22"

definition info_R15 :: "TDriverEventInfo \<Rightarrow> u32" where
  "info_R15 e = iRmdArmExcInfo e ! exc_iR15"

text \<open>Whether an entry is the breakpoint the thread of the event has run into.\<close>

definition break_hit :: "TDriverEventInfo \<Rightarrow> TBreakEntry \<Rightarrow> bool" where
  "break_hit info e \<longleftrightarrow>
     (iThreadSpecific e \<and> iId e = iThreadId info \<or> \<not> iThreadSpecific e \<and> iId e = iProcessId info) \<and>
     iAddress e = info_R15 info"

definition hit_type :: "TBreakEntry \<Rightarrow> TEventType" where
  "hit_type e = (if iThreadSpecific e then EEventsBreakPoint else EEventsProcessBreakPoint)"

text \<open>The search for it: Inl is its index.\<close>

definition hit_body :: "D_RMD_Breakpoints \<Rightarrow> TDriverEventInfo \<Rightarrow> nat \<Rightarrow> unit \<Rightarrow> (nat + unit) option" where
  "hit_body m info i s = (if break_hit info (iBreakPointList m ! i) then Some (Inl i) else Some (Inr ()))"

text \<open>A return inside the loop (Inl), or leaving the loop to notify the agents (Inr).\<close>

type_synonym 'k hit_result = "(('k \<times> DRM_DebugChannel \<times> completion list \<times> bool) + ('k \<times> DRM_DebugChannel)) option"

text \<open>A temporary breakpoint is cleared; then the thread makes its remaining steps or runs on.  Errors of clearing are
  only logged.\<close>

definition temporary_hit ::
  "cpu \<Rightarrow> 'k kern \<Rightarrow> 'k objs \<Rightarrow> 'k \<Rightarrow> DRM_DebugChannel \<Rightarrow> TDriverEventInfo \<Rightarrow> DThread \<Rightarrow> u32 \<Rightarrow> TBreakEntry \<Rightarrow> 'k hit_result" where
  "temporary_hit c K J k ch info aCurrentThread breakId tempBreakEntry =
     (let (k, m, err) = DoClearBreak K k (chBreakManager ch) breakId False;
          ch = ch\<lparr>chBreakManager := m\<rparr>;
          steps = iNumSteps tempBreakEntry - 1
      in if steps \<noteq> 0 then do {
           (k, ch, err) \<leftarrow> DoStepRange c K k ch (Some aCurrentThread) (info_R15 info) (info_R15 info) True
                            (iResumeOnceOutOfRange tempBreakEntry) steps True;
           if err \<noteq> KErrNone then
             map_option (\<lambda>(k, ch, outs, b). Inl (k, ch, outs, True)) (NotifyAgentsFromEventPid K J k ch info)
           else Some (Inl (k, ch, [], True))
         }
         else if iResumeOnceOutOfRange tempBreakEntry then
           map_option (\<lambda>(k, ch, err). Inl (k, ch, [], True)) (DoResumeThread c K k ch (Some aCurrentThread))
         else Some (Inr (k, ch)))"

definition needToResume :: "TDriverEventInfo \<Rightarrow> TBreakEntry \<Rightarrow> bool" where
  "needToResume info e \<longleftrightarrow>
     iThreadSpecific e \<and> iId e \<noteq> iThreadId info \<or> \<not> iThreadSpecific e \<and> iId e \<noteq> iProcessId info"

text \<open>The body of the loop for the breakpoint at index i.\<close>

definition breakpoint_hit ::
  "cpu \<Rightarrow> 'k kern \<Rightarrow> 'k objs \<Rightarrow> 'k \<Rightarrow> DRM_DebugChannel \<Rightarrow> TDriverEventInfo \<Rightarrow> DThread \<Rightarrow> nat \<Rightarrow> 'k hit_result" where
  "breakpoint_hit c K J k ch info aCurrentThread i =
     (let tempBreakEntry = iBreakPointList (chBreakManager ch) ! i in do {
        (k, m, err) \<leftarrow> DoEnableDisabledBreak K k (chBreakManager ch) (iThreadId info);
        let ch = ch\<lparr>chBreakManager := m\<rparr>;
        let breakEntry = iBreakPointList m ! i;
        res \<leftarrow> (if IsTemporaryBreak m breakEntry
                then temporary_hit c K J k ch info aCurrentThread (iBreakId breakEntry) tempBreakEntry
                else Some (Inr (k, ch)));
        (case res of
           Inl r \<Rightarrow> Some (Inl r)
         | Inr (k, ch) \<Rightarrow>
             if needToResume info tempBreakEntry then
               map_option (\<lambda>(k, ch, err). Inl (k, ch, [], False)) (DoResumeThread c K k ch (Some aCurrentThread))
             else Some (Inr (k, ch)))
      })"

text \<open>Whether the instruction at the PC is the breakpoint instruction of the current state; the buffer is zero before
  the read, whose error is only logged.  A trap of the read is a fault.\<close>

definition at_breakpoint_instruction ::
  "'k kern \<Rightarrow> 'k \<Rightarrow> TDriverEventInfo \<Rightarrow> DThread \<Rightarrow> bool option" where
  "at_breakpoint_instruction K k info aCurrentThread = do {
     (err, regValue) \<leftarrow> ReadKernelRegisterValue K k (Some aCurrentThread) STATUS_REGISTER (kUninit K);
     let thumb = (regValue AND kEThumbMask K \<noteq> 0);
     let inst = (if thumb then ucast KThumbBreakPoint else KArmBreakPoint);
     let instSize = (if thumb then 2 else 4);
     let (x, bytes) = kRawRead K k aCurrentThread (info_R15 info) instSize;
     (case x of
        Inl r \<Rightarrow> None
      | Inr err \<Rightarrow>
          Some (take instSize (le32 inst) =
            (if err = KErrNone then map bytes [0..<instSize] else replicate instSize 0)))
   }"

definition HandleInvalidOpCodeException ::
  "cpu \<Rightarrow> 'k kern \<Rightarrow> 'k objs \<Rightarrow> 'k \<Rightarrow> DRM_DebugChannel \<Rightarrow> TDriverEventInfo \<Rightarrow> DThread \<Rightarrow> 'k handled" where
  "HandleInvalidOpCodeException c K J k ch info aCurrentThread = do {
     isBreak \<leftarrow> at_breakpoint_instruction K k info aCurrentThread;
     if \<not> isBreak then map_option (\<lambda>(k, ch, outs, b). (k, ch, outs, False)) (NotifyAgentsFromEventPid K J k ch info)
     else do {
       (k, ch, err) \<leftarrow> DoSuspendThread K k ch (Some aCurrentThread);
       if err \<noteq> KErrNone \<and> err \<noteq> KErrAlreadyExists then nothing k ch
       else do {
         let m = chBreakManager ch;
         found \<leftarrow> break_walk GetNextBreak (\<lambda>_. m) (hit_body m info) None ();
         (case found of
            Inr _ \<Rightarrow> map_option (\<lambda>(k, ch, outs, b). (k, ch, outs, False)) (NotifyAgentsFromEventPid K J k ch info)
          | Inl i \<Rightarrow> do {
              let info = info\<lparr>iEventType := hit_type (iBreakPointList m ! i)\<rparr>;
              res \<leftarrow> breakpoint_hit c K J k ch info aCurrentThread i;
              (case res of
                 Inl r \<Rightarrow> Some r
               | Inr (k, ch) \<Rightarrow>
                   map_option (\<lambda>(k, ch, outs, b). (k, ch, outs, True)) (NotifyAgentsFromEventPid K J k ch info))
            })
       }
     }
   }"

text \<open>Every member of the exception's registers is copied but iExcCode.\<close>

definition HandleHwException ::
  "cpu \<Rightarrow> 'k kern \<Rightarrow> 'k objs \<Rightarrow> TDriverEventInfo \<Rightarrow> 'k \<Rightarrow> DRM_DebugChannel \<Rightarrow> u32 \<Rightarrow> u32 \<Rightarrow> u32 list option \<Rightarrow> 'k handled" where
  "HandleHwException c K J junk k ch a1 a2 aExcInfo =
     (case aExcInfo of
        None \<Rightarrow> nothing k ch
      | Some exc \<Rightarrow>
          let t = kCurrentThread K k; code = exc ! exc_iExcCode;
              info = (event_of_thread junk t)\<lparr>iRmdArmExcInfo := exc[exc_iExcCode := iRmdArmExcInfo junk ! exc_iExcCode]\<rparr>
          in if 2 < code then nothing k ch
             else
               let info = info\<lparr>iExceptionNumber := (if code = 0 then oExcCodeAbort J else if code = 1 then oExcDataAbort J
                                                  else oExcInvalidOpCode J),
                     iEventType := EEventsHwExc, iThreadFlags := oFlags J k t, iArg1 := a1, iArg2 := a2\<rparr>
               in if oExcInvalidOpCode J = iExceptionNumber info then HandleInvalidOpCodeException c K J k ch info t
                  else returns_false (NotifyAgentsFromEventPid K J k ch info))"

section \<open>Dispatch\<close>

text \<open>The kernel's events by handler; a kernel event number is EEventLimit or above for the last two.\<close>

datatype TKernelEvent =
    EEventUserTrace u32 u32
  | EEventRemoveLibrary u32 u32 "DLibrary option"
  | EEventAddLibrary u32 u32 "DLibrary option" "DThread option"
  | EEventStartThread "DThread option"
  | EEventSwExc u32 u32
  | EEventHwExc u32 u32 "u32 list option"
  | EEventKillThread u32 u32
  | EEventAddProcess "DProcess option" "DThread option"
  | EEventRemoveProcess "DProcess option"
  | EEventUnsupported
  | EEventAtLimit
  | EEventPastLimit

datatype TEventResult = ERunNext | EExcHandled

fun handle_event ::
  "cpu \<Rightarrow> 'k kern \<Rightarrow> 'k objs \<Rightarrow> TDriverEventInfo \<Rightarrow> 'k \<Rightarrow> DRM_DebugChannel \<Rightarrow> TKernelEvent \<Rightarrow> 'k handled" where
  "handle_event c K J junk k ch (EEventUserTrace a1 a2) = HandleUserTrace K J junk k ch a1 a2"
| "handle_event c K J junk k ch (EEventRemoveLibrary a1 a2 lib) = RemoveLibrary K J junk k ch a1 a2 lib"
| "handle_event c K J junk k ch (EEventAddLibrary a1 a2 lib t) = AddLibrary K J junk k ch a1 a2 lib t"
| "handle_event c K J junk k ch (EEventStartThread t) = StartThread K J junk k ch t"
| "handle_event c K J junk k ch (EEventSwExc a1 a2) = HandleSwException K J junk k ch a1 a2"
| "handle_event c K J junk k ch (EEventHwExc a1 a2 exc) = HandleHwException c K J junk k ch a1 a2 exc"
| "handle_event c K J junk k ch (EEventKillThread a1 a2) = HandleEventKillThread K J junk k ch a1 a2"
| "handle_event c K J junk k ch (EEventAddProcess p t) = HandleAddProcessEvent K J junk k ch p t"
| "handle_event c K J junk k ch (EEventRemoveProcess p) = HandleRemoveProcessEvent K J junk k ch p"
| "handle_event c K J junk k ch ev = nothing k ch"

definition is_HwExc :: "TKernelEvent \<Rightarrow> bool" where
  "is_HwExc ev = (case ev of EEventHwExc _ _ _ \<Rightarrow> True | _ \<Rightarrow> False)"

definition is_KillThread :: "TKernelEvent \<Rightarrow> bool" where
  "is_KillThread ev = (case ev of EEventKillThread _ _ \<Rightarrow> True | _ \<Rightarrow> False)"

text \<open>After the handler, a thread that was frozen while its exception or death was handled waits.\<close>

definition HandleSpecificEvent ::
  "cpu \<Rightarrow> 'k kern \<Rightarrow> 'k objs \<Rightarrow> TDriverEventInfo \<Rightarrow> 'k \<Rightarrow> DRM_DebugChannel \<Rightarrow> TKernelEvent \<Rightarrow> 'k handled" where
  "HandleSpecificEvent c K J junk k ch ev = do {
     (k, ch, outs, ret) \<leftarrow> handle_event c K J junk k ch ev;
     Some (if is_HwExc ev \<or> is_KillThread ev then FSWait K k (frozen_of ch) else k, ch, outs, ret)
   }"

text \<open>The limit is compared with \<open>>\<close>, so an event whose number is the limit indexes past the end of the table of handlers
  (None).\<close>

definition HandleEvent ::
  "cpu \<Rightarrow> 'k kern \<Rightarrow> 'k objs \<Rightarrow> TDriverEventInfo \<Rightarrow> bool \<Rightarrow> 'k \<Rightarrow> DRM_DebugChannel \<Rightarrow> TKernelEvent \<Rightarrow>
     ('k \<times> DRM_DebugChannel \<times> completion list \<times> TEventResult) option" where
  "HandleEvent c K J junk iTracking k ch ev =
     (if \<not> iTracking then Some (k, ch, [], ERunNext)
      else if ev = EEventPastLimit then Some (k, ch, [], ERunNext)
      else if tId (chClientThread ch) = tId (kCurrentThread K k) then Some (k, ch, [], ERunNext)
      else if ev = EEventAtLimit then None
      else if ev = EEventUnsupported then Some (k, ch, [], ERunNext)
      else map_option (\<lambda>(k, ch, outs, ret). (k, ch, outs, if ret \<and> is_HwExc ev then EExcHandled else ERunNext))
             (HandleSpecificEvent c K J junk k ch ev))"

end
