(* ===== verification/ChannelRequests.thy ===== *)
theory ChannelRequests
  imports ChannelEvents ListManager
begin

text \<open>
  The requests of the client (src/rm_debug_kerneldriver.cpp): DoControl and the requests behind it, the asynchronous
  request for events with its cancellation, the message functions, and the creation of the channel.  A structure in
  the client's memory is its value (\<open>carg\<close>) and a descriptor there is what the kernel answers about it
  (\<open>client_des\<close>).  DLogicalChannel::SendMsg is the kernel's: it runs HandleMsg in the driver's thread
  and returns the completion code.
\<close>

section \<open>Descriptors of the client\<close>

text \<open>cdInfo is Kern::ThreadGetDesInfo (and GetDesLength, GetDesMaxLength): an error, or the length and the maximum
  length; cdRead is the result of Kern::ThreadDesRead.\<close>

record client_des =
  cdAddress :: u32
  cdInfo :: "TErr + (nat \<times> nat)"
  cdRead :: "TErr \<times> u8 list"

text \<open>A kernel that counts its allocations from the next one on, for what is called after one was made.\<close>

definition after_alloc :: "'k kern \<Rightarrow> 'k kern" where
  "after_alloc K = K\<lparr>kAllocOk := (\<lambda>k n. kAllocOk K k (Suc n))\<rparr>"

text \<open>The maximum length is taken as unsigned, so an error code becomes a large length.  The result is the code and the
  descriptor, None while its pointer is NULL.  \<open>n\<close> is the number of allocations made before.\<close>

definition AllocAndReadDes ::
  "'k kern \<Rightarrow> 'k \<Rightarrow> nat \<Rightarrow> DThread option \<Rightarrow> client_des \<Rightarrow> TDes8 option \<Rightarrow> bool \<Rightarrow> TErr \<times> TDes8 option" where
  "AllocAndReadDes K k n aThread aSrcDes aDestDes aReadFromClient =
     (if aThread = None then (KErrArgument, aDestDes)
      else if aDestDes \<noteq> None then (KErrArgument, aDestDes)
      else
        let srcMaxLength = (case cdInfo aSrcDes of Inl err \<Rightarrow> unat (kErrWord K err) | Inr (l, mx) \<Rightarrow> mx);
            empty = replicate srcMaxLength (ucast (kUninit K))
        in if srcMaxLength = 0 then (KErrNone, None)
           else if \<not> kAllocOk K k n then (KErrNoMemory, None)
           else if aReadFromClient then
             (fst (cdRead aSrcDes), Some \<lparr>dbuf = overwrite empty 0 (snd (cdRead aSrcDes)), dlen = length (snd (cdRead aSrcDes))\<rparr>)
           else (KErrNone, Some \<lparr>dbuf = empty, dlen = srcMaxLength\<rparr>))"

text \<open>A descriptor whose pointer is NULL is empty.\<close>

definition des_of :: "TDes8 option \<Rightarrow> TDes8" where
  "des_of d = (case d of None \<Rightarrow> \<lparr>dbuf = [], dlen = 0\<rparr> | Some d \<Rightarrow> d)"

definition des_bytes :: "TDes8 \<Rightarrow> u8 list" where
  "des_bytes d = take (dlen d) (dbuf d)"

section \<open>Breakpoints\<close>

text \<open>sbBreakId is the client's address for the id, 0 for NULL.\<close>

record TSetBreakInfo =
  sbBreakId :: u32
  sbId :: u64
  sbAddress :: u32
  sbMode :: TArchitectureMode
  sbThreadSpecific :: bool

definition break_process :: "'k kern \<Rightarrow> 'k \<Rightarrow> TSetBreakInfo \<Rightarrow> DProcess option" where
  "break_process K k info =
     (if sbThreadSpecific info then
        case OpenThreadHandle K k (sbId info) of
          None \<Rightarrow> None | Some thread \<Rightarrow> OpenProcessHandle K k (pId (iOwningProcess thread))
      else OpenProcessHandle K k (sbId info))"

text \<open>The process is added to the debugged ones; the id is cut to 32 bits there, and a failure to grow the array is
  ignored.\<close>

definition add_debug_process ::
  "'k kern \<Rightarrow> 'k objs \<Rightarrow> 'k \<Rightarrow> TProcessInfo list \<Rightarrow> DProcess \<Rightarrow> TErr \<times> TProcessInfo list" where
  "add_debug_process K J k ps p =
     (if \<exists>i\<in>set ps. ucast (piId i) = pId p then (KErrNone, ps)
      else if oFileName J k p = None then (KErrNotFound, ps)
      else case oMemoryInfo J k p of
        (err, base, len, data) \<Rightarrow>
          if err \<noteq> KErrNone then (err, ps)
          else (KErrNone, if kAppend K k (length ps) = KErrNone
                then ps @ [\<lparr>piId = ucast (pId p), piCodeAddress = base, piCodeSize = len, piDataAddress = data\<rparr>] else ps))"

definition SetBreak ::
  "'k kern \<Rightarrow> 'k objs \<Rightarrow> 'k \<Rightarrow> DRM_DebugChannel \<Rightarrow> TSetBreakInfo carg \<Rightarrow> ('k \<times> DRM_DebugChannel \<times> TErr) option" where
  "SetBreak K J k ch aBreakInfo =
     (case aBreakInfo of
        NullArg \<Rightarrow> Some (k, ch, KErrArgument)
      | BadArg err \<Rightarrow> Some (k, ch, err)
      | Arg info \<Rightarrow>
          (case break_process K k info of
             None \<Rightarrow> Some (k, ch, KErrNotFound)
           | Some process \<Rightarrow>
               let (err, ps) = add_debug_process K J k (chDebugProcessList ch) process;
                   ch = ch\<lparr>chDebugProcessList := ps\<rparr>
               in if sbBreakId info = 0 then Some (k, ch, KErrArgument)
                  else if err \<noteq> KErrNone then Some (k, ch, err)
                  else do {
                    (k, m, err, iBreakId) \<leftarrow> DoSetBreak K k (chBreakManager ch) (kUninit K) (sbId info)
                                               (sbThreadSpecific info) (sbAddress info) (sbMode info);
                    let ch = ch\<lparr>chBreakManager := m\<rparr>;
                    Some (if err \<noteq> KErrNone then (k, ch, err)
                          else let (k, err) = kClientWrite K k (sbBreakId info) (le32 iBreakId) in (k, ch, err))
                  }))"

section \<open>Registers\<close>

record TRM_DebugRegisterInfo =
  riFirstRegister :: u16
  riLastRegister :: u16
  riValues :: "client_des option"

definition register_bytes :: "TRM_DebugRegisterInfo \<Rightarrow> nat" where
  "register_bytes info = unat (word_of_int ((sint (riLastRegister info) - sint (riFirstRegister info) + 1) * 4) :: u32)"

definition ReadRegistersLegacy ::
  "'k kern \<Rightarrow> 'k \<Rightarrow> DThread option \<Rightarrow> TRM_DebugRegisterInfo carg \<Rightarrow> ('k \<times> TErr) option" where
  "ReadRegistersLegacy K k aThread aRegisterInfo =
     (case aRegisterInfo of
        NullArg \<Rightarrow> Some (k, KErrArgument)
      | BadArg err \<Rightarrow> Some (k, err)
      | Arg info \<Rightarrow>
          (case riValues info of
             None \<Rightarrow> Some (k, KErrArgument)
           | Some dst \<Rightarrow>
               if \<not> kAllocOk K k 0 then Some (k, KErrNoMemory)
               else do {
                 (err, d) \<leftarrow> DoReadRegistersRange K k aThread (riFirstRegister info) (riLastRegister info)
                               \<lparr>dbuf = replicate (register_bytes info) (ucast (kUninit K)), dlen = 0\<rparr>;
                 Some (if err = KErrNone then kClientWrite K k (cdAddress dst) (des_bytes d) else (k, err))
               }))"

definition WriteRegistersLegacy ::
  "'k kern \<Rightarrow> 'k \<Rightarrow> DThread option \<Rightarrow> TRM_DebugRegisterInfo carg \<Rightarrow> 'k \<times> TErr" where
  "WriteRegistersLegacy K k aThread aRegisterInfo =
     (case aRegisterInfo of
        NullArg \<Rightarrow> (k, KErrArgument)
      | BadArg err \<Rightarrow> (k, err)
      | Arg info \<Rightarrow>
          (case riValues info of
             None \<Rightarrow> (k, KErrArgument)
           | Some src \<Rightarrow>
               if \<not> kAllocOk K k 0 then (k, KErrNoMemory)
               else if fst (cdRead src) = KErrNone
               then DoWriteRegistersRange K k aThread (riFirstRegister info) (riLastRegister info) (snd (cdRead src))
               else (k, fst (cdRead src))))"

record TRM_DebugRegisterInformation =
  riIds :: "client_des option"
  riVals :: "client_des option"
  riFlags :: "client_des option"

definition flag_bytes :: "TRegisterFlag list \<Rightarrow> u8 list" where
  "flag_bytes fs = map (\<lambda>f. ucast (flag_word f)) fs"

text \<open>The ids, the values and the flags are allocated one after the other; the values are read from the client only for
  writing.  Inl is an early return.\<close>

definition register_buffers ::
  "'k kern \<Rightarrow> 'k \<Rightarrow> DThread \<Rightarrow> bool \<Rightarrow> TRM_DebugRegisterInformation \<Rightarrow> TErr + (client_des \<times> client_des \<times> TDes8 \<times> TDes8 \<times> TDes8)" where
  "register_buffers K k aClient readValues info =
     (case (riIds info, riVals info, riFlags info) of
        (Some i, Some v, Some f) \<Rightarrow>
          (case AllocAndReadDes K k 0 (Some aClient) i None True of (err, ids) \<Rightarrow>
             if err \<noteq> KErrNone then Inl err
             else case AllocAndReadDes K k 1 (Some aClient) v None readValues of (err, vals) \<Rightarrow>
               if err \<noteq> KErrNone then Inl err
               else case AllocAndReadDes K k 2 (Some aClient) f None False of (err, flags) \<Rightarrow>
                 if err \<noteq> KErrNone then Inl err else Inr (v, f, des_of ids, des_of vals, des_of flags))
      | _ \<Rightarrow> Inl KErrArgument)"

definition ReadRegisters ::
  "'k kern \<Rightarrow> 'k \<Rightarrow> DThread \<Rightarrow> DThread option \<Rightarrow> TRM_DebugRegisterInformation carg \<Rightarrow> ('k \<times> TErr) option" where
  "ReadRegisters K k aClient aThread aRegisterInfo =
     (case aRegisterInfo of
        NullArg \<Rightarrow> Some (k, KErrArgument)
      | BadArg err \<Rightarrow> Some (k, err)
      | Arg info \<Rightarrow>
          (case register_buffers K k aClient False info of
             Inl err \<Rightarrow> Some (k, err)
           | Inr (v, f, ids, vals, flags) \<Rightarrow> do {
               (err, vals, fs) \<leftarrow> DoReadRegisters K k aThread (des_bytes ids) vals (length (dbuf flags)) [];
               Some (if err \<noteq> KErrNone then (k, err)
                     else let (k, err) = kClientWrite K k (cdAddress v) (des_bytes vals) in
                       if err \<noteq> KErrNone then (k, err) else kClientWrite K k (cdAddress f) (flag_bytes fs))
             }))"

definition WriteRegisters ::
  "'k kern \<Rightarrow> 'k \<Rightarrow> DThread \<Rightarrow> DThread option \<Rightarrow> TRM_DebugRegisterInformation carg \<Rightarrow> ('k \<times> TErr) option" where
  "WriteRegisters K k aClient aThread aRegisterInfo =
     (case aRegisterInfo of
        NullArg \<Rightarrow> Some (k, KErrArgument)
      | BadArg err \<Rightarrow> Some (k, err)
      | Arg info \<Rightarrow>
          (case register_buffers K k aClient True info of
             Inl err \<Rightarrow> Some (k, err)
           | Inr (v, f, ids, vals, flags) \<Rightarrow> do {
               (k, err, fs) \<leftarrow> DoWriteRegisters K k aThread (des_bytes ids) (des_bytes vals) (length (dbuf flags)) [];
               Some (if err \<noteq> KErrNone then (k, err) else kClientWrite K k (cdAddress f) (flag_bytes fs))
             }))"

section \<open>Listings\<close>

datatype TListId = EProcesses | EThreads | ECodeSegs | EXipLibraries | EOtherList
datatype TListScope = EScopeNone | EScopeGlobal | EScopeProcessSpecific | EScopeThreadSpecific | EOtherScope

record TListInformation =
  liType :: TListId
  liListScope :: TListScope
  liBuffer :: client_des
  liDataSize :: u32
  liTargetId :: u64

fun get_list :: "'k kern \<Rightarrow> 'k lists \<Rightarrow> 'k \<Rightarrow> TListId \<Rightarrow> TListScope \<Rightarrow> TDes8 \<Rightarrow> u64 \<Rightarrow> listing" where
  "get_list K L k EXipLibraries EScopeGlobal d i = GetXipLibrariesList K L k d 0"
| "get_list K L k EThreads EScopeGlobal d i = GetGlobalThreadList K L k d"
| "get_list K L k EThreads EScopeProcessSpecific d i = GetThreadListForProcess K L k d 0 i"
| "get_list K L k EThreads EScopeThreadSpecific d i = GetThreadListForThread K L k d 0 i"
| "get_list K L k EProcesses EScopeGlobal d i = GetProcessList L k d 0"
| "get_list K L k ECodeSegs EScopeGlobal d i = GetGlobalCodeSegList L k d"
| "get_list K L k ECodeSegs EScopeProcessSpecific d i = GetCodeSegListForProcess K L k d 0 i"
| "get_list K L k ECodeSegs EScopeThreadSpecific d i = GetCodeSegListForThread K L k d 0 i"
| "get_list K L k EOtherList s d i = Some (d, 0, KErrNotSupported)"
| "get_list K L k ty s d i = Some (d, 0, KErrArgument)"

definition GetList ::
  "'k kern \<Rightarrow> 'k lists \<Rightarrow> 'k \<Rightarrow> DThread \<Rightarrow> TListInformation carg \<Rightarrow> ('k \<times> TErr) option" where
  "GetList K L k aClient aListInformation =
     (case aListInformation of
        NullArg \<Rightarrow> Some (k, KErrArgument)
      | BadArg err \<Rightarrow> Some (k, err)
      | Arg info \<Rightarrow>
          (case AllocAndReadDes K k 0 (Some aClient) (liBuffer info) None True of (err, buffer) \<Rightarrow>
             if err \<noteq> KErrNone then Some (k, err)
             else do {
               (d, dataSize, err) \<leftarrow> get_list K L k (liType info) (liListScope info) (des_of buffer) (liTargetId info);
               let (k, err) = (if err = KErrNone then kClientWrite K k (cdAddress (liBuffer info)) (des_bytes d) else (k, err));
               let (k, writeErr) = kClientWrite K k (liDataSize info) (le32 dataSize);
               Some (k, if writeErr \<noteq> KErrNone then writeErr else err)
             }))"

end
