(* ===== verification/ChannelControl.thy ===== *)
theory ChannelControl
  imports ChannelRequests
begin

text \<open>
  The requests about processes and agents, DoControl with its dispatch, the asynchronous request for events, and
  the messages of the channel (src/rm_debug_kerneldriver.cpp); the start and the end of the event handler
  (src/rm_debug_eventhandler.cpp).  Whether the event handler exists and tracks is part of the state of the messages.
\<close>

section \<open>Processes and agents\<close>

text \<open>The name of the target process: its length is checked, room for it is allocated, and it is read.\<close>

definition read_name :: "'k kern \<Rightarrow> 'k \<Rightarrow> client_des \<Rightarrow> TErr + u8 list" where
  "read_name K k a1 =
     (case cdInfo a1 of
        Inl err \<Rightarrow> Inl err
      | Inr (len, mx) \<Rightarrow>
          if len < 1 \<or> kMaxPath K \<le> len then Inl KErrArgument
          else if \<not> kAllocOk K k 0 then Inl KErrNoMemory
          else if fst (cdRead a1) \<noteq> KErrNone then Inl (fst (cdRead a1))
          else Inr (snd (cdRead a1)))"

text \<open>\<open>a2\<close> is the agent's id as Kern::ThreadRawRead reads it.\<close>

definition req_AttachProcess ::
  "'k kern \<Rightarrow> 'k \<Rightarrow> TDriverEventInfo \<Rightarrow> DRM_DebugChannel \<Rightarrow> client_des \<Rightarrow> TErr + u64 \<Rightarrow> DRM_DebugChannel \<times> TErr" where
  "req_AttachProcess K k junk ch a1 a2 =
     (case read_name K k a1 of
        Inl err \<Rightarrow> (ch, err)
      | Inr name \<Rightarrow>
          (case a2 of
             Inl err \<Rightarrow> (ch, err)
           | Inr debugAgentId \<Rightarrow>
               let (t, err) = AttachProcess (after_alloc K) k junk (chTracker ch) name debugAgentId
               in (ch\<lparr>chTracker := t\<rparr>, err)))"

definition req_DetachProcess ::
  "'k kern \<Rightarrow> 'k \<Rightarrow> DRM_DebugChannel \<Rightarrow> client_des \<Rightarrow> TErr + u64 \<Rightarrow> DRM_DebugChannel \<times> TErr" where
  "req_DetachProcess K k ch a1 a2 =
     (case read_name K k a1 of
        Inl err \<Rightarrow> (ch, err)
      | Inr name \<Rightarrow>
          (case a2 of
             Inl err \<Rightarrow> (ch, err)
           | Inr debugAgentId \<Rightarrow>
               let (t, err) = DetachProcess K (chTracker ch) name debugAgentId in (ch\<lparr>chTracker := t\<rparr>, err)))"

definition req_DetachAgent ::
  "DRM_DebugChannel \<Rightarrow> TErr + u64 \<Rightarrow> (DRM_DebugChannel \<times> TErr) option" where
  "req_DetachAgent ch a1 =
     (case a1 of
        Inl err \<Rightarrow> Some (ch, err)
      | Inr debugAgentId \<Rightarrow>
          map_option (\<lambda>(t, err). (ch\<lparr>chTracker := t\<rparr>, err)) (DetachAgent (chTracker ch) debugAgentId))"

text \<open>TRM_DebugEventActionInfo with its event and action as the enumerations they are cast to.\<close>

record TRM_DebugEventActionInfo =
  eaEvent :: TEventType
  eaAction :: TKernelEventAction
  eaAgentId :: u64

text \<open>The maximum length is checked like the length.\<close>

definition req_SetEventAction ::
  "'k kern \<Rightarrow> 'k \<Rightarrow> DRM_DebugChannel \<Rightarrow> client_des \<Rightarrow> TErr + TRM_DebugEventActionInfo \<Rightarrow> DRM_DebugChannel \<times> TErr" where
  "req_SetEventAction K k ch a1 a2 =
     (case cdInfo a1 of
        Inl err \<Rightarrow> (ch, err)
      | Inr (len, mx) \<Rightarrow>
          if len < 1 \<or> kMaxPath K \<le> len then (ch, KErrArgument)
          else if mx < 1 \<or> kMaxPath K \<le> mx then (ch, KErrArgument)
          else case read_name K k a1 of
            Inl err \<Rightarrow> (ch, err)
          | Inr name \<Rightarrow>
              (case a2 of
                 Inl err \<Rightarrow> (ch, err)
               | Inr info \<Rightarrow>
                   (case FindAgentForProcessAndId K (chTracker ch) name (eaAgentId info) of
                      None \<Rightarrow> (ch, KErrNotFound)
                    | Some r \<Rightarrow>
                        let (ag, err) = SetEventAction (agent_at (chTracker ch) r) (eaEvent info) (eaAction info)
                        in (ch\<lparr>chTracker := put_agent (chTracker ch) r ag\<rparr>, err))))"

section \<open>DoControl\<close>

datatype TControl =
    EControlIsDebuggable u32
  | EControlSetBreak "TSetBreakInfo carg"
  | EControlClearBreak u32
  | EControlModifyBreak "TModifyBreakInfo carg"
  | EControlModifyProcessBreak "TModifyBreakInfo carg"
  | EControlBreakInfo "TGetBreakInfo carg"
  | EControlSuspendThread u32
  | EControlResumeThread u32
  | EControlStepRange u32 "TRM_DebugStepInfo carg"
  | EControlReadMemory u32 "TRM_DebugMemoryInfo carg"
  | EControlWriteMemory u32 "TRM_DebugMemoryInfo carg"
  | EControlReadRegistersLegacy u32 "TRM_DebugRegisterInfo carg"
  | EControlWriteRegistersLegacy u32 "TRM_DebugRegisterInfo carg"
  | EControlReadRegisters u32 "TRM_DebugRegisterInformation carg"
  | EControlWriteRegisters u32 "TRM_DebugRegisterInformation carg"
  | EControlGetDebugFunctionalityBufSize u32
  | EControlGetDebugFunctionality u32
  | EControlAttachProcess client_des "TErr + u64"
  | EControlDetachProcess client_des "TErr + u64"
  | EControlDetachAgent "TErr + u64"
  | EControlSetEventAction client_des "TErr + TRM_DebugEventActionInfo"
  | EControlGetMemoryOperationMaxBlockSize u32
  | EControlGetList "TListInformation carg"
  | EControlStep u32 u32
  | EControlKillProcess u32 u32
  | EControlUnknown

text \<open>The thread of the functions that need one: its 32-bit id.\<close>

fun control_thread :: "TControl \<Rightarrow> u32 option" where
  "control_thread (EControlSuspendThread i) = Some i"
| "control_thread (EControlResumeThread i) = Some i"
| "control_thread (EControlStepRange i a) = Some i"
| "control_thread (EControlReadMemory i a) = Some i"
| "control_thread (EControlWriteMemory i b) = Some i"
| "control_thread (EControlReadRegistersLegacy i c) = Some i"
| "control_thread (EControlWriteRegistersLegacy i c) = Some i"
| "control_thread (EControlReadRegisters i e) = Some i"
| "control_thread (EControlWriteRegisters i e) = Some i"
| "control_thread _ = None"

type_synonym 'k control_result = "('k \<times> DRM_DebugChannel \<times> TErr) option"

text \<open>GetDebugFunctionality returns False, and then the error is KErrGeneral, when the buffer is too small.  kKilo and the
  size of an event are constants of the build.\<close>

definition debug_functionality :: "'k kern \<Rightarrow> u32 \<times> u32 \<Rightarrow> 'k \<Rightarrow> u32 \<Rightarrow> ('k \<times> TErr) option" where
  "debug_functionality K C k a1 =
     (let dfsize = unat (GetDebugFunctionalityBufSize (fst C) (snd C)) in
      if \<not> kAllocOk K k 0 then Some (k, KErrNoMemory)
      else do {
        (ok, d) \<leftarrow> GetDebugFunctionality (fst C) (snd C) \<lparr>dbuf = replicate dfsize 0, dlen = 0\<rparr>;
        Some (if ok then kClientWrite K k a1 (des_bytes d) else (k, KErrGeneral))
      })"

text \<open>The second switch; \<open>threadObj\<close> is the thread that was opened, if any.\<close>

fun control_switch ::
  "cpu \<Rightarrow> 'k kern \<Rightarrow> 'k objs \<Rightarrow> 'k lists \<Rightarrow> u32 \<times> u32 \<Rightarrow> TDriverEventInfo \<Rightarrow> 'k \<Rightarrow> DRM_DebugChannel \<Rightarrow> DThread option \<Rightarrow>
     TControl \<Rightarrow> 'k control_result" where
  "control_switch c K J L C junk k ch threadObj (EControlIsDebuggable pid) = Some (k, ch, IsDebuggable K J k pid)"
| "control_switch c K J L C junk k ch threadObj (EControlSetBreak a) = SetBreak K J k ch a"
| "control_switch c K J L C junk k ch threadObj (EControlClearBreak i) =
     (let (k, m, err) = DoClearBreak K k (chBreakManager ch) i False in Some (k, ch\<lparr>chBreakManager := m\<rparr>, err))"
| "control_switch c K J L C junk k ch threadObj (EControlModifyBreak a) =
     (let (k, m, err) = DoModifyBreak K k (chBreakManager ch) (map (\<lambda>i. ucast (piId i)) (chDebugProcessList ch)) a
      in Some (k, ch\<lparr>chBreakManager := m\<rparr>, err))"
| "control_switch c K J L C junk k ch threadObj (EControlModifyProcessBreak a) =
     (let (k, m, err) = DoModifyProcessBreak K k (chBreakManager ch) a in Some (k, ch\<lparr>chBreakManager := m\<rparr>, err))"
| "control_switch c K J L C junk k ch threadObj (EControlBreakInfo a) =
     (let (k, err) = DoBreakInfo K k (chBreakManager ch) a in Some (k, ch, err))"
| "control_switch c K J L C junk k ch threadObj (EControlSuspendThread i) = DoSuspendThread K k ch threadObj"
| "control_switch c K J L C junk k ch threadObj (EControlResumeThread i) = DoResumeThread c K k ch threadObj"
| "control_switch c K J L C junk k ch threadObj (EControlStepRange i a) = StepRange c K k ch threadObj a"
| "control_switch c K J L C junk k ch threadObj (EControlReadMemory i a) =
     map_option (\<lambda>(k, err, over). (k, ch, err)) (ReadMemory K k (chBreakManager ch) threadObj a)"
| "control_switch c K J L C junk k ch threadObj (EControlWriteMemory i a) = do {
     t \<leftarrow> threadObj;
     map_option (\<lambda>(k, err, m, local). (k, ch\<lparr>chBreakManager := m\<rparr>, err)) (WriteMemory K k (chBreakManager ch) t a)
   }"
| "control_switch c K J L C junk k ch threadObj (EControlReadRegistersLegacy i a) =
     map_option (\<lambda>(k, err). (k, ch, err)) (ReadRegistersLegacy K k threadObj a)"
| "control_switch c K J L C junk k ch threadObj (EControlWriteRegistersLegacy i a) =
     (let (k, err) = WriteRegistersLegacy K k threadObj a in Some (k, ch, err))"
| "control_switch c K J L C junk k ch threadObj (EControlReadRegisters i a) =
     map_option (\<lambda>(k, err). (k, ch, err)) (ReadRegisters K k (chClientThread ch) threadObj a)"
| "control_switch c K J L C junk k ch threadObj (EControlWriteRegisters i a) =
     map_option (\<lambda>(k, err). (k, ch, err)) (WriteRegisters K k (chClientThread ch) threadObj a)"
| "control_switch c K J L C junk k ch threadObj (EControlGetDebugFunctionalityBufSize a) =
     (let (k, err) = kClientWrite K k a (le32 (GetDebugFunctionalityBufSize (fst C) (snd C))) in Some (k, ch, err))"
| "control_switch c K J L C junk k ch threadObj (EControlGetDebugFunctionality a) =
     map_option (\<lambda>(k, err). (k, ch, err)) (debug_functionality K C k a)"
| "control_switch c K J L C junk k ch threadObj (EControlAttachProcess a1 a2) =
     (let (ch, err) = req_AttachProcess K k junk ch a1 a2 in Some (k, ch, err))"
| "control_switch c K J L C junk k ch threadObj (EControlDetachProcess a1 a2) =
     (let (ch, err) = req_DetachProcess K k ch a1 a2 in Some (k, ch, err))"
| "control_switch c K J L C junk k ch threadObj (EControlDetachAgent a1) =
     map_option (\<lambda>(ch, err). (k, ch, err)) (req_DetachAgent ch a1)"
| "control_switch c K J L C junk k ch threadObj (EControlSetEventAction a1 a2) =
     (let (ch, err) = req_SetEventAction K k ch a1 a2 in Some (k, ch, err))"
| "control_switch c K J L C junk k ch threadObj (EControlGetMemoryOperationMaxBlockSize a) =
     (let (k, err) = kClientWrite K k a (le32 (GetMemoryOperationMaxBlockSize (fst C))) in Some (k, ch, err))"
| "control_switch c K J L C junk k ch threadObj (EControlGetList a) =
     map_option (\<lambda>(k, err). (k, ch, err)) (GetList K L k (chClientThread ch) a)"
| "control_switch c K J L C junk k ch threadObj (EControlStep i n) = Step c K k ch i n"
| "control_switch c K J L C junk k ch threadObj (EControlKillProcess i r) =
     (let (k, err) = KillProcess K J k i r in Some (k, ch, err))"
| "control_switch c K J L C junk k ch threadObj EControlUnknown = Some (k, ch, KErrGeneral)"

definition DoControl ::
  "cpu \<Rightarrow> 'k kern \<Rightarrow> 'k objs \<Rightarrow> 'k lists \<Rightarrow> u32 \<times> u32 \<Rightarrow> TDriverEventInfo \<Rightarrow> 'k \<Rightarrow> DRM_DebugChannel \<Rightarrow> TControl \<Rightarrow>
     'k control_result" where
  "DoControl c K J L C junk k ch f =
     (case control_thread f of
        None \<Rightarrow> control_switch c K J L C junk k ch None f
      | Some i \<Rightarrow>
          (case OpenThreadHandle K k (ucast i) of
             None \<Rightarrow> Some (k, ch, KErrBadHandle)
           | Some t \<Rightarrow> control_switch c K J L C junk k ch (Some t) f))"

section \<open>Events for the client\<close>

text \<open>The last component is the code with which the request's status is completed at once, if it is.\<close>

definition DoRequest ::
  "'k kern \<Rightarrow> 'k \<Rightarrow> DRM_DebugChannel \<Rightarrow> nat \<Rightarrow> TErr + (u8 list \<times> u64) \<Rightarrow>
     (DRM_DebugChannel \<times> completion list \<times> TErr option) option" where
  "DoRequest K k ch aReqNo a2 =
     (if aReqNo \<noteq> 0 then Some (ch, [], Some KErrNotSupported)
      else case a2 of
        Inl err \<Rightarrow> Some (ch, [], Some KErrArgument)
      | Inr (name, agentId) \<Rightarrow>
          (case FindAgentForProcessAndId K (chTracker ch) name agentId of
             None \<Rightarrow> Some (ch, [], Some KErrNotFound)
           | Some r \<Rightarrow>
               map_option (\<lambda>(ag, outs). (ch\<lparr>chTracker := put_agent (chTracker ch) r ag\<rparr>, outs, None))
                 (GetEvent K k (agent_at (chTracker ch) r) (Some (tId (chClientThread ch))))))"

definition DoCancel ::
  "'k kern \<Rightarrow> DRM_DebugChannel \<Rightarrow> TErr + (u8 list \<times> u64) \<Rightarrow> DRM_DebugChannel \<times> completion list" where
  "DoCancel K ch info =
     (case info of
        Inl err \<Rightarrow> (ch, [])
      | Inr (name, iAgentId) \<Rightarrow>
          (case FindAgentForProcessAndId K (chTracker ch) name iAgentId of
             None \<Rightarrow> (ch, [])
           | Some r \<Rightarrow>
               let (ag, outs, err) = CancelGetEvent (agent_at (chTracker ch) r)
               in (ch\<lparr>chTracker := put_agent (chTracker ch) r ag\<rparr>, outs)))"

text \<open>Resetting the request and pointing it at the client's status; only SetStatus can fail.\<close>

definition PreAsyncGetValue :: "'k kern \<Rightarrow> 'k \<Rightarrow> TErr" where
  "PreAsyncGetValue K k = kSetStatus K k"

section \<open>Messages\<close>

datatype TMessage =
    EClose
  | ECancel "TErr + (u8 list \<times> u64)"
  | ERequest nat "TErr + (u8 list \<times> u64)"
  | EControl TControl

text \<open>The channel with its event handler: None when there is none, else whether it tracks.\<close>

record 'k driver =
  drKernel :: 'k
  drChannel :: DRM_DebugChannel
  drHandler :: "bool option"

definition Start :: "'k driver \<Rightarrow> 'k driver \<times> TErr" where
  "Start d = (d\<lparr>drHandler := map_option (\<lambda>b. True) (drHandler d)\<rparr>, KErrNone)"

definition Stop :: "'k driver \<Rightarrow> 'k driver \<times> TErr" where
  "Stop d = (d\<lparr>drHandler := map_option (\<lambda>b. False) (drHandler d)\<rparr>, KErrNone)"

text \<open>The result is the completion code of the message, and the requests and the status completed on the way.\<close>

definition HandleMsg ::
  "cpu \<Rightarrow> 'k kern \<Rightarrow> 'k objs \<Rightarrow> 'k lists \<Rightarrow> u32 \<times> u32 \<Rightarrow> TDriverEventInfo \<Rightarrow> 'k driver \<Rightarrow> TMessage \<Rightarrow>
     ('k driver \<times> completion list \<times> TErr option \<times> TErr) option" where
  "HandleMsg c K J L C junk d msg =
     (case msg of
        EClose \<Rightarrow> Some (if drHandler d \<noteq> None then (fst (Stop d))\<lparr>drHandler := None\<rparr> else d, [], None, KErrNone)
      | ECancel info \<Rightarrow>
          let (ch, outs) = DoCancel K (drChannel d) info in Some (d\<lparr>drChannel := ch\<rparr>, outs, None, KErrNone)
      | ERequest n a2 \<Rightarrow>
          map_option (\<lambda>(ch, outs, status). (d\<lparr>drChannel := ch\<rparr>, outs, status, KErrNone)) (DoRequest K (drKernel d) (drChannel d) n a2)
      | EControl f \<Rightarrow>
          map_option (\<lambda>(k, ch, err). (d\<lparr>drKernel := k, drChannel := ch\<rparr>, [], None, err))
            (DoControl c K J L C junk (drKernel d) (drChannel d) f))"

definition SendRequest ::
  "cpu \<Rightarrow> 'k kern \<Rightarrow> 'k objs \<Rightarrow> 'k lists \<Rightarrow> u32 \<times> u32 \<Rightarrow> TDriverEventInfo \<Rightarrow> 'k driver \<Rightarrow> nat \<Rightarrow> TErr + (u8 list \<times> u64) \<Rightarrow>
     ('k driver \<times> completion list \<times> TErr option \<times> TErr) option" where
  "SendRequest c K J L C junk d n a2 =
     (let err = (if n = 0 then PreAsyncGetValue K (drKernel d) else KErrNotSupported) in
      if err = KErrNone then HandleMsg c K J L C junk d (ERequest n a2) else Some (d, [], None, err))"

text \<open>An error of SendRequest also completes the client's status.  The lock is the event handler's, which must exist
  before and after.\<close>

definition SendMsg ::
  "cpu \<Rightarrow> 'k kern \<Rightarrow> 'k objs \<Rightarrow> 'k lists \<Rightarrow> u32 \<times> u32 \<Rightarrow> TDriverEventInfo \<Rightarrow> 'k driver \<Rightarrow> TMessage \<Rightarrow>
     ('k driver \<times> completion list \<times> TErr option \<times> TErr) option" where
  "SendMsg c K J L C junk d msg =
     (if drHandler d = None then None
      else do {
        (d, outs, status, err) \<leftarrow> (case msg of
            ERequest n a2 \<Rightarrow>
              map_option (\<lambda>(d, outs, status, err). (d, outs, if err \<noteq> KErrNone then Some err else status, err))
                (SendRequest c K J L C junk d n a2)
          | _ \<Rightarrow> HandleMsg c K J L C junk d msg);
        (if drHandler d = None then None else Some (d, outs, status, err))
      })"

section \<open>Creation\<close>

text \<open>What creating the channel asks of the kernel beside allocations: whether the version is supported, the error of
  reading the client's argument (None when there is none), the code modifier, the semaphore of the break manager,
  and what the event handler's creation needs.\<close>

record create_env =
  ceCreateRequest :: TErr
  ceVersionSupported :: bool
  ceInfo :: "TErr option"
  ceCodeModifier :: TErr
  ceBreakSemaphore :: TErr
  ceDeviceOpen :: TErr
  ceClientOpen :: TErr
  ceHandlerSemaphore :: TErr
  ceHandlerAdd :: TErr

definition Create :: "create_env \<Rightarrow> TErr" where
  "Create E =
     (if ceDeviceOpen E \<noteq> KErrNone then ceDeviceOpen E
      else if ceClientOpen E \<noteq> KErrNone then ceClientOpen E
      else if ceHandlerSemaphore E \<noteq> KErrNone then ceHandlerSemaphore E
      else ceHandlerAdd E)"

definition new_DRM_DebugChannel :: "'k kern \<Rightarrow> 'k \<Rightarrow> DProcessTracker \<Rightarrow> DRM_DebugChannel" where
  "new_DRM_DebugChannel K k t =
     \<lparr>chClientThread = kCurrentThread K k, chDebugProcessList = [], chBreakManager = new_D_RMD_Breakpoints K k, chTracker = t\<rparr>"

text \<open>The error of the break manager's Init is ignored, as is that of creating the queue.\<close>

definition DoCreate ::
  "'k kern \<Rightarrow> 'k objs \<Rightarrow> create_env \<Rightarrow> 'k \<Rightarrow> DRM_DebugChannel \<Rightarrow> 'k driver \<times> TErr" where
  "DoCreate K J E k ch =
     (let d = \<lparr>drKernel = k, drChannel = ch, drHandler = None\<rparr> in
      if ceCreateRequest E \<noteq> KErrNone then (d, ceCreateRequest E)
      else if \<not> ceVersionSupported E then (d, KErrNotSupported)
      else if \<not> DoSecurityCheck J k ch then (d, KErrPermissionDenied)
      else if ceInfo E \<noteq> None \<and> ceInfo E \<noteq> Some KErrNone then (d, the (ceInfo E))
      else if \<not> kAllocOk K k 0 then (d, KErrNoMemory)
      else
        let d = d\<lparr>drChannel := ch\<lparr>chBreakManager := fst (Init (ceBreakSemaphore E) (new_D_RMD_Breakpoints K k))\<rparr>\<rparr> in
        if \<not> kAllocOk K k 1 then (d, KErrNoMemory)
        else if ceCodeModifier E \<noteq> KErrNone then (d, ceCodeModifier E)
        else if \<not> kAllocOk K k 2 then (d, KErrNoMemory)
        else
          let d = d\<lparr>drHandler := Some False\<rparr> in
          if Create E \<noteq> KErrNone then (d, Create E) else Start d)"

end
