(* ===== verification/ChannelLemmas.thy ===== *)
theory ChannelLemmas
  imports ChannelEvents TrackerProps StepProps
begin

text \<open>
  Every kernel event, whatever its handler does with breakpoints, agents and threads, returns and keeps the
  invariants of the break manager, the tracker and the event queues.  The hypotheses about the kernel are the
  record of facts \<open>kernel_ok\<close>; \<open>keeps\<close> is the predicate the lemmas compose with.
\<close>

section \<open>Agents that can always deliver\<close>

definition agent_ok :: "DDebugAgent \<Rightarrow> bool" where
  "agent_ok ag \<longleftrightarrow> ag_inv ag \<and> None \<notin> set (agent_pending ag)"

text \<open>An event whose trace, if it is one, fits the buffer.\<close>

definition event_fine :: "TDriverEventInfo \<Rightarrow> bool" where
  "event_fine e \<longleftrightarrow> (iEventType e = EEventsUserTrace \<longrightarrow> 0 \<le> sint (iArg2 e) \<and> sint (iArg2 e) \<le> int TUserTraceSize)"

lemma event_fine_view: "event_fine e \<Longrightarrow> client_view (e\<lparr>iActionTaken := a\<rparr>) \<noteq> None"
  by (cases "iEventType e")
    (auto simp: event_fine_def client_view_def PopulateEventSpecificInfo_def PopulateCommonEventInfo_def
      PopulateUserTraceInfo_def)

lemma new_agent_ok: "DDebugAgent_New K k n junk aId = Some ag \<Longrightarrow> agent_ok ag"
  using new_agent_inv by (fastforce simp: agent_ok_def agent_pending_def queue_view_def)

lemma spec_put_fine:
  assumes "None \<notin> set (fst q)" "client_view e \<noteq> None"
  shows "None \<notin> set (fst (spec_put e q))"
proof -
  have "traces_lost \<noteq> None" "None \<noteq> traces_lost" by (simp_all add: traces_lost_def)
  then show ?thesis using assms by (cases q) auto
qed

lemma notify_deliver_returns:
  assumes "agent_ok ag" "event_fine e"
  shows "\<exists>ag' out. notify_deliver ag e act = Some (ag', out) \<and> agent_ok ag'"
proof -
  let ?e = "e\<lparr>iActionTaken := act\<rparr>"
  have inv: "ag_inv ag" using assms(1) by (simp add: agent_ok_def)
  have fine: "None \<notin> set (fst (spec_put ?e (queue_view ag)))"
    using assms event_fine_view by (intro spec_put_fine) (simp_all add: agent_ok_def agent_pending_def)
  obtain c cs where c: "fst (spec_put ?e (queue_view ag)) = c # cs"
    using spec_put_nonempty by (metis neq_Nil_conv)
  then obtain d where d: "c = Some d" using fine by (cases c) auto
  obtain ag1 where "notify_deliver ag e act =
      (if iClientThread ag \<noteq> None \<and> word_sless 0 (iEventBalance ag)
       then map_option (\<lambda>(err, i). let d = (if err = KErrNone then i else iRequestData ag) in
              (release_tail (ag1\<lparr>iRequestData := d\<rparr>) (hd (waiting ag1)), [(iClientThread ag, KErrNone, d)])) c
       else Some (ag1, []))"
    using notify_deliver_core[OF inv c] by blast
  then obtain ag' out where r: "notify_deliver ag e act = Some (ag', out)"
    using d by (cases d) (auto simp: Let_def split: if_splits)
  have "agent_pending ag' \<in> {c # cs, cs}" "ag_inv ag'"
    using notify_deliver_view[OF inv r] c by (auto simp: Let_def)
  then show ?thesis using r fine c by (auto simp: agent_ok_def)
qed

lemma agent_ok_dying [simp]: "agent_ok (ag\<lparr>iAgentDying := b\<rparr>) = agent_ok ag"
  by (simp add: agent_ok_def agent_pending_def queue_view_def)

text \<open>Library events are the only ones whose thread may be gone, and they never freeze.\<close>

lemma notify_suspend_returns: "\<exists>k' fr'. notify_suspend K k fr e = Some (k', fr')"
  by (cases "iEventType e")
    (auto simp: notify_suspend_def SuspendThread_def FreezeOnSuspend_def Let_def split: option.splits prod.splits)

lemma notify_event_returns:
  assumes "agent_ok ag" "event_fine e"
  shows "\<exists>k' fr' ag' out. NotifyEvent K k fr ag e = Some (k', fr', ag', out) \<and> agent_ok ag' \<and> agId ag' = agId ag"
proof -
  obtain ag0 act where a: "notify_action K ag e = (ag0, act)" by (cases "notify_action K ag e") auto
  then have ag0: "agent_ok ag0" using notify_action_agent[OF a] assms(1) by auto
  obtain ag' out where d: "notify_deliver ag0 e act = Some (ag', out)" "agent_ok ag'"
    using notify_deliver_returns[OF ag0 assms(2)] by blast
  obtain k' fr' where s: "notify_suspend K k fr e = Some (k', fr')" using notify_suspend_returns[of K k fr e] by blast
  have "\<exists>k' fr' ag' out. NotifyEvent K k fr ag e = Some (k', fr', ag', out) \<and> agent_ok ag'"
    using a d s assms(1) ag0 by (cases act) (auto simp: NotifyEvent_def)
  then show ?thesis using notify_event_id by metis
qed

section \<open>The tracker\<close>

definition tracker_ok :: "'k kern \<Rightarrow> DProcessTracker \<Rightarrow> bool" where
  "tracker_ok K t \<longleftrightarrow> tracker_inv K t \<and>
     (\<forall>p\<in>set (iProcesses t). \<forall>a\<in>set (iAgentList p). agent_ok a) \<and> (\<forall>a\<in>set (iAgentsAttachedToAll t). agent_ok a)"

lemma notify_agents_returns:
  "\<forall>a\<in>set as. agent_ok a \<Longrightarrow> event_fine e \<Longrightarrow>
   \<exists>k' fr' as' outs. notify_agents K k fr e as = Some (k', fr', as', outs) \<and> (\<forall>a\<in>set as'. agent_ok a)"
proof (induction as arbitrary: k fr)
  case (Cons a as)
  obtain k1 fr1 a1 out where a1: "NotifyEvent K k fr a e = Some (k1, fr1, a1, out)" "agent_ok a1"
    using notify_event_returns[of a e K k fr] Cons.prems by auto
  obtain k2 fr2 as2 outs where "notify_agents K k1 fr1 e as = Some (k2, fr2, as2, outs)" "\<forall>a\<in>set as2. agent_ok a"
    using Cons.IH[of k1 fr1] Cons.prems by auto
  then show ?case using a1 by simp
qed simp

lemma process_event_returns:
  assumes "tracker_ok K t" "i < length (iProcesses t)" "event_fine e"
  shows "\<exists>k' fr p outs. DTargetProcess_NotifyEvent K k fr0 (iProcesses t ! i) e = Some (k', fr, p, outs) \<and>
    tracker_ok K (t\<lparr>iProcesses := (iProcesses t)[i := p], iFrozenThreadSemaphores := fr\<rparr>)"
proof -
  have "\<forall>a\<in>set (iAgentList (iProcesses t ! i)). agent_ok a"
    using assms(1,2) by (auto simp: tracker_ok_def)
  then obtain k' fr as outs where r: "notify_agents K k fr0 e (iAgentList (iProcesses t ! i)) = Some (k', fr, as, outs)"
    "\<forall>a\<in>set as. agent_ok a"
    using notify_agents_returns[OF _ assms(3), of "iAgentList (iProcesses t ! i)" K k fr0] by blast
  let ?p = "(iProcesses t ! i)\<lparr>iAgentList := as\<rparr>"
  have "tracker_inv K (t\<lparr>iProcesses := (iProcesses t)[i := ?p]\<rparr>)"
    using assms(1) by (intro tracker_inv_update) (simp_all add: tracker_ok_def ProcessName_def)
  then have "tracker_ok K (t\<lparr>iProcesses := (iProcesses t)[i := ?p], iFrozenThreadSemaphores := fr\<rparr>)"
    using assms(1) r(2) set_update_subset_insert[of "iProcesses t" i ?p]
    by (auto simp: tracker_ok_def tracker_inv_def process_names_def)
  then show ?thesis using r(1) by (auto simp: DTargetProcess_NotifyEvent_def)
qed

lemma attached_event_returns:
  assumes "tracker_ok K t" "i < length (iAgentsAttachedToAll t)" "event_fine e"
  shows "\<exists>k' fr a outs. NotifyEvent K k fr0 (iAgentsAttachedToAll t ! i) e = Some (k', fr, a, outs) \<and>
    tracker_ok K (t\<lparr>iAgentsAttachedToAll := (iAgentsAttachedToAll t)[i := a], iFrozenThreadSemaphores := fr\<rparr>)"
proof -
  have "agent_ok (iAgentsAttachedToAll t ! i)" using assms(1,2) by (simp add: tracker_ok_def)
  then obtain k' fr a outs where r: "NotifyEvent K k fr0 (iAgentsAttachedToAll t ! i) e = Some (k', fr, a, outs)"
    "agent_ok a" "agId a = agId (agent_at t (AttachedToAll i))"
    using notify_event_returns[OF _ assms(3)] by (metis agent_at.simps(1))
  have "tracker_inv K (t\<lparr>iAgentsAttachedToAll := (iAgentsAttachedToAll t)[i := a]\<rparr>)"
    using put_agent_inv[of K t a "AttachedToAll i"] assms(1) r(3) by (simp add: tracker_ok_def)
  then have "tracker_ok K (t\<lparr>iAgentsAttachedToAll := (iAgentsAttachedToAll t)[i := a], iFrozenThreadSemaphores := fr\<rparr>)"
    using assms(1) r(2) set_update_subset_insert[of "iAgentsAttachedToAll t" i a]
    by (auto simp: tracker_ok_def tracker_inv_def process_names_def)
  then show ?thesis using r(1) by blast
qed

lemma fuzzy_loop_bound: "fuzzy_loop K name n ps = Some i \<Longrightarrow> n \<le> i \<and> i < n + length ps"
  by (induction ps arbitrary: n) (fastforce simp: Let_def split: if_splits)+

lemma find_process_bound: "FindProcess K t name = Some i \<Longrightarrow> i < length (iProcesses t)"
  using find_by_name_SomeD by (auto simp: FindProcess_def split: if_splits)

lemma fuzzy_bound: "FuzzyFindProcess K t name = Some i \<Longrightarrow> i < length (iProcesses t)"
  using fuzzy_loop_bound[of K name 0 "iProcesses t" i] by (auto simp: FuzzyFindProcess_def split: if_splits)

lemma attached_bound: "GetCurrentAgentAttachedToAll t = Some i \<Longrightarrow> i < length (iAgentsAttachedToAll t)"
  by (auto simp: GetCurrentAgentAttachedToAll_def split: if_splits)

section \<open>The channel\<close>

definition chan_ok :: "'k kern \<Rightarrow> u32 \<Rightarrow> DRM_DebugChannel \<Rightarrow> bool" where
  "chan_ok K N ch \<longleftrightarrow> brk_inv (chBreakManager ch) \<and> \<not> not_ready (chBreakManager ch) \<and>
     iNextBreakId (chBreakManager ch) = N \<and> tracker_ok K (chTracker ch)"

text \<open>What is asked of the kernel: allocations succeed, reads of the current thread's code do not trap, code segments
  have names, names fit the buffers of an event, and a read of user memory copies no more than it was asked for.\<close>

definition kernel_ok :: "'k kern \<Rightarrow> 'k objs \<Rightarrow> bool" where
  "kernel_ok K J \<longleftrightarrow>
     (\<forall>k n. kAllocOk K k n) \<and> (\<forall>k t a n r. fst (kRawRead K k t a n) \<noteq> Inl r) \<and>
     (\<forall>k p. oFileName J k p \<noteq> Some None) \<and> (\<forall>k p name. oFileName J k p = Some (Some name) \<longrightarrow> length name \<le> oMaxName J) \<and>
     (\<forall>k p name. oName J k p = Some name \<longrightarrow> length name \<le> oMaxName J) \<and>
     (\<forall>k t. length (oExitCategory J k t) \<le> oMaxName J) \<and> (\<forall>k a n. length (snd (oUserRead J k a n)) \<le> unat n)"

definition keeps :: "'k kern \<Rightarrow> u32 \<Rightarrow> 'k handled \<Rightarrow> bool" where
  "keeps K N r \<longleftrightarrow> (\<exists>k ch outs b. r = Some (k, ch, outs, b) \<and> chan_ok K N ch)"

lemma keeps_Some [simp]: "keeps K N (Some (k, ch, outs, b)) = chan_ok K N ch"
  by (simp add: keeps_def)

lemma keeps_map: "keeps K N r \<Longrightarrow> keeps K N (map_option (\<lambda>(k, ch, outs, b). (k, ch, outs, f b)) r)"
  by (auto simp: keeps_def)

lemma keeps_returns_false: "keeps K N r \<Longrightarrow> keeps K N (returns_false r)"
  unfolding returns_false_def by (auto simp: keeps_def)

lemma keeps_nothing [simp]: "keeps K N (nothing k ch) = chan_ok K N ch"
  by (simp add: nothing_def)

lemma tracker_ok_frozen [simp]: "tracker_ok K (t\<lparr>iFrozenThreadSemaphores := fr\<rparr>) = tracker_ok K t"
  by (simp add: tracker_ok_def)

lemma chan_ok_frozen [simp]: "chan_ok K N (set_frozen ch fr) = chan_ok K N ch"
  by (simp add: chan_ok_def set_frozen_def)

lemma notify_pid_keeps:
  assumes "chan_ok K N ch" "kernel_ok K J" "event_fine e"
  shows "keeps K N (NotifyAgentsFromEventPid K J k ch e)"
proof -
  have t: "tracker_ok K (chTracker ch)" using assms(1) by (simp add: chan_ok_def)
  have proc: "keeps K N (map_option (\<lambda>(k, ch, outs). (k, ch, outs, True)) (notify_process K k ch i e))"
    if i: "i < length (iProcesses (chTracker ch))" for i
  proof -
    obtain k' fr p outs where "DTargetProcess_NotifyEvent K k (frozen_of ch) (iProcesses (chTracker ch) ! i) e = Some (k', fr, p, outs)"
      "tracker_ok K ((chTracker ch)\<lparr>iProcesses := (iProcesses (chTracker ch))[i := p], iFrozenThreadSemaphores := fr\<rparr>)"
      using process_event_returns[OF t i assms(3), of k "frozen_of ch"] by blast
    then show ?thesis using assms(1) by (simp add: notify_process_def Let_def chan_ok_def)
  qed
  have all: "keeps K N (map_option (\<lambda>(k, ch, outs). (k, ch, outs, True)) (notify_attached_to_all K k ch i e))"
    if i: "GetCurrentAgentAttachedToAll (chTracker ch) = Some i" for i
  proof -
    obtain k' fr a outs where "NotifyEvent K k (frozen_of ch) (iAgentsAttachedToAll (chTracker ch) ! i) e = Some (k', fr, a, outs)"
      "tracker_ok K ((chTracker ch)\<lparr>iAgentsAttachedToAll := (iAgentsAttachedToAll (chTracker ch))[i := a], iFrozenThreadSemaphores := fr\<rparr>)"
      using attached_event_returns[OF t attached_bound[OF i] assms(3), of k "frozen_of ch"] by blast
    then show ?thesis using assms(1) by (simp add: notify_attached_to_all_def Let_def chan_ok_def)
  qed
  show ?thesis
  proof (cases "OpenProcessHandle K k (ucast (ucast (iProcessId e) :: u32))")
    case None
    then show ?thesis using assms(1) by (simp add: NotifyAgentsFromEventPid_def)
  next
    case (Some p)
    have "oFileName J k p \<noteq> Some None" using assms(2) by (simp add: kernel_ok_def)
    then obtain found where "(case oFileName J k p of Some None \<Rightarrow> None
        | Some (Some name) \<Rightarrow> Some (FindProcess K (chTracker ch) name)
        | None \<Rightarrow> (case oName J k p of Some name \<Rightarrow> Some (FindProcess K (chTracker ch) name) | None \<Rightarrow> Some None)) = Some found"
      "\<And>i. found = Some i \<Longrightarrow> i < length (iProcesses (chTracker ch))"
      using find_process_bound by (cases "oFileName J k p"; cases "oName J k p") auto
    then show ?thesis
      using proc all assms(1) Some
      by (cases found; cases "GetCurrentAgentAttachedToAll (chTracker ch)")
        (auto simp: NotifyAgentsFromEventPid_def Let_def)
  qed
qed

lemma notify_process_event_keeps:
  assumes "chan_ok K N ch" "event_fine e"
  shows "keeps K N (notify_process_event K k ch name e fz)"
proof -
  let ?t = "chTracker ch"
  have t: "tracker_ok K ?t" using assms(1) by (simp add: chan_ok_def)
  define found where "found = (case FindProcess K ?t name of
    None \<Rightarrow> if fz then FuzzyFindProcess K ?t name else None | Some i \<Rightarrow> Some i)"
  have "\<exists>k' t' outs b. NotifyAgentsForProcessEvent K k ?t name e fz = Some (k', t', outs, b) \<and> tracker_ok K t'"
  proof (cases found)
    case (Some i)
    then have "i < length (iProcesses ?t)"
      using find_process_bound fuzzy_bound by (auto simp: found_def split: option.splits if_splits)
    from process_event_returns[OF t this assms(2), of k "frozen_of ch"] show ?thesis
      using Some by (auto simp: NotifyAgentsForProcessEvent_def found_def[symmetric] Let_def)
  next
    case None
    show ?thesis
    proof (cases "GetCurrentAgentAttachedToAll ?t")
      case None
      then show ?thesis using t \<open>found = None\<close>
        by (auto simp: NotifyAgentsForProcessEvent_def found_def[symmetric] Let_def)
    next
      case (Some i)
      from attached_event_returns[OF t attached_bound[OF Some] assms(2), of k "frozen_of ch"] show ?thesis
        using Some \<open>found = None\<close>
        by (auto simp: NotifyAgentsForProcessEvent_def found_def[symmetric] Let_def)
    qed
  qed
  then show ?thesis using assms(1) by (auto simp: notify_process_event_def chan_ok_def)
qed

section \<open>Threads\<close>

lemma kernel_ok_alloc: "kernel_ok K J \<Longrightarrow> kAllocOk K k n"
  by (simp add: kernel_ok_def)

lemma tame_ready: "brk_tame m m' \<Longrightarrow> not_ready m' = not_ready m"
  by (simp add: brk_tame_def not_ready_def)

lemma chan_ok_breaks:
  assumes "chan_ok K N ch" "brk_tame (chBreakManager ch) m"
  shows "chan_ok K N (ch\<lparr>chBreakManager := m\<rparr>)"
  using assms(1) brk_inv_tame[OF _ assms(2)] tame_ready[OF assms(2)] assms(2) by (simp add: chan_ok_def brk_tame_def)

lemma tracker_resume_ok:
  "chan_ok K N ch \<Longrightarrow> \<exists>k' ch' err. tracker_resume K k ch t = (k', ch', err) \<and> chan_ok K N ch'"
  by (simp add: tracker_resume_def Let_def split: prod.splits)

lemma step_range_returns:
  assumes "chan_ok K N ch" "kernel_ok K J"
  shows "\<exists>k' ch' err. DoStepRange c K k ch (Some t) a b into r n u = Some (k', ch', err) \<and> chan_ok K N ch'"
proof -
  obtain k1 m err where m: "ModifyBreaksForStep c K k (chBreakManager ch) (Some t)
      (if a AND 1 \<noteq> 0 then a + 1 else a) (if b AND 1 \<noteq> 0 then b + 1 else b) r u n = Some (k1, m, err)"
    "brk_tame (chBreakManager ch) m"
    using modify_breaks_core[of "chBreakManager ch" K c k t] assms kernel_ok_alloc[OF assms(2)]
    unfolding chan_ok_def by blast
  have ok: "chan_ok K N (ch\<lparr>chBreakManager := m\<rparr>)"
    by (rule chan_ok_breaks[OF assms(1) m(2)])
  show ?thesis
    using m(1) ok tracker_resume_ok[OF ok, of k1 t] by (auto simp: DoStepRange_def Let_def)
qed

lemma walkable_ok: "chan_ok K N ch \<Longrightarrow> walkable (chBreakManager ch)"
  using ids_ok_walkable by (auto simp: chan_ok_def brk_inv_def)

text \<open>A walk that only looks is the search over all entries.\<close>

lemma search_loop:
  "ix_loop (\<lambda>i s. if P i then Some (Inl (f i)) else Some (Inr ())) is () =
   Some (case find P is of Some i \<Rightarrow> Inl (f i) | None \<Rightarrow> Inr ())"
  by (induction "is") auto

lemma search_walk:
  assumes "walkable m"
  shows "break_walk GetNextBreak (\<lambda>_. m) (\<lambda>i s. if P i then Some (Inl (f i)) else Some (Inr ())) None () =
    Some (case find P [0..<Count m] of Some i \<Rightarrow> Inl (f i) | None \<Rightarrow> Inr ())"
proof -
  have "break_walk GetNextBreak (\<lambda>_. m) (\<lambda>i s. if P i then Some (Inl (f i)) else Some (Inr ())) None () =
    ix_loop (\<lambda>i s. if P i then Some (Inl (f i)) else Some (Inr ())) [0..<Count m] ()"
    by (rule brk_walk.walk_all) (use assms in auto)
  then show ?thesis by (simp add: search_loop)
qed

lemma resume_walk:
  "walkable m \<Longrightarrow> break_walk GetNextBreak (\<lambda>_. m) (resume_body m pc) None () =
     Some (case find (\<lambda>i. \<not> IsTemporaryBreak m (iBreakPointList m ! i) \<and> iAddress (iBreakPointList m ! i) = pc) [0..<Count m]
       of Some i \<Rightarrow> Inl () | None \<Rightarrow> Inr ())"
  unfolding resume_body_def Let_def
  by (rule search_walk[of m "\<lambda>i. \<not> IsTemporaryBreak m (iBreakPointList m ! i) \<and> iAddress (iBreakPointList m ! i) = pc" "\<lambda>_. ()"])

lemma hit_walk:
  "walkable m \<Longrightarrow> break_walk GetNextBreak (\<lambda>_. m) (hit_body m info) None () =
     Some (case find (\<lambda>i. break_hit info (iBreakPointList m ! i)) [0..<Count m] of Some i \<Rightarrow> Inl i | None \<Rightarrow> Inr ())"
  unfolding hit_body_def by (rule search_walk[of m "\<lambda>i. break_hit info (iBreakPointList m ! i)" "\<lambda>i. i"])

lemma resume_returns:
  assumes "chan_ok K N ch" "kernel_ok K J"
  shows "\<exists>k' ch' err. DoResumeThread c K k ch (Some t) = Some (k', ch', err) \<and> chan_ok K N ch'"
proof -
  obtain err pc where pc: "ReadKernelRegisterValue K k (Some t) 15 (kUninit K) = Some (err, pc)"
    using read_kernel_total[of K k 15 t "kUninit K"] kernel_ok_alloc[OF assms(2)] by (auto elim: returnsE)
  define pc' where "pc' = (if err \<noteq> KErrNone then 0xFFFFFFFF else pc)"
  obtain x where x: "break_walk GetNextBreak (\<lambda>_. chBreakManager ch) (resume_body (chBreakManager ch) pc') None () = Some x"
    by (simp add: resume_walk[OF walkable_ok[OF assms(1)]])
  show ?thesis
    using pc x step_range_returns[OF assms, of c k t pc' "pc' + 1" True True 1 False] tracker_resume_ok[OF assms(1), of k t]
    by (cases x) (auto simp: DoResumeThread_def PC_REGISTER_def pc'_def Let_def)
qed

lemma suspend_returns:
  "chan_ok K N ch \<Longrightarrow> \<exists>k' ch'. DoSuspendThread K k ch (Some t) = Some (k', ch', KErrNone) \<and> chan_ok K N ch' \<and>
     chBreakManager ch' = chBreakManager ch"
  by (simp add: DoSuspendThread_def SuspendThread_def) (simp add: set_frozen_def)

lemma clear_ready: "DoClearBreak K k m b ign = (k', m', err) \<Longrightarrow> not_ready m' = not_ready m"
  by (auto simp: DoClearBreak_def priv_DoClearBreak_def not_ready_def Let_def split: option.splits prod.splits if_splits)

lemma remove_thread_ready:
  assumes "DoRemoveThreadBreaks K k m t = Some (k', m')"
  shows "not_ready m' = not_ready m"
proof (cases "not_ready m")
  case False
  let ?Q = "\<lambda>s. not_ready (snd s) = not_ready m"
  obtain res where r: "ix_loop (remove_thread_body K t) (rev [0..<Count m]) (k, m) = Some res"
    "(k', m') = (case res of Inl r \<Rightarrow> r | Inr r \<Rightarrow> r)"
    using assms False by (auto simp: DoRemoveThreadBreaks_def priv_DoRemoveThreadBreaks_def split: bind_splits)
  have "case_sum ?Q ?Q res"
  proof (rule ix_loop_invariant[OF r(1)])
    fix i s x assume "?Q s" "remove_thread_body K t i s = Some x"
    then show "case_sum ?Q ?Q x"
      by (auto simp: remove_thread_body_def priv_DoClearBreak_def not_ready_def Let_def
          split: option.splits prod.splits if_splits)
  qed simp
  then show ?thesis using r(2) by (cases res) auto
qed (use assms in \<open>simp add: DoRemoveThreadBreaks_def\<close>)

end
