(* ===== verification/ChannelProps.thy ===== *)
theory ChannelProps
  imports ChannelLemmas
begin

text \<open>
  The handlers of the kernel events compose: each of them returns and keeps the invariants of the channel, so every
  dispatched event does.  The properties of the breakpoint handler follow.
\<close>

section \<open>Small pieces\<close>

lemma event_fine_other: "iEventType e \<noteq> EEventsUserTrace \<Longrightarrow> event_fine e"
  by (simp add: event_fine_def)

lemma copy_name_fits: "length n \<le> oMaxName J \<Longrightarrow> copy_name J n = Some n"
  by (simp add: copy_name_def)

lemma copy_file_name: "kernel_ok K J \<Longrightarrow> oFileName J k p = Some (Some n) \<Longrightarrow> copy_name J n = Some n"
  by (auto simp: kernel_ok_def copy_name_def)

lemma copy_object_name: "kernel_ok K J \<Longrightarrow> oName J k p = Some n \<Longrightarrow> copy_name J n = Some n"
  by (auto simp: kernel_ok_def copy_name_def)

lemma copy_exit_category: "kernel_ok K J \<Longrightarrow> copy_name J (oExitCategory J k t) = Some (oExitCategory J k t)"
  by (simp add: kernel_ok_def copy_name_def)

lemma register_returns:
  assumes "kernel_ok K J" "rn < 17"
  shows "\<exists>err w. ReadKernelRegisterValue K k (Some t) rn old = Some (err, w)"
  using read_kernel_total[of K k rn t old] assms(2) kernel_ok_alloc[OF assms(1)] by (auto elim: returnsE)

lemma keeps_with: "keeps K N r \<Longrightarrow> keeps K N (map_option (\<lambda>(k, ch, outs, b). (k, ch, outs, v)) r)"
  by (auto simp: keeps_def)

section \<open>The handlers of processes, threads and libraries\<close>

lemma start_thread_keeps:
  assumes "chan_ok K N ch" "kernel_ok K J"
  shows "keeps K N (StartThread K J junk k ch t)"
  using assms copy_file_name[OF assms(2)]
  by (auto simp: StartThread_def Let_def split: option.splits
      intro!: keeps_returns_false notify_process_event_keeps event_fine_other)

lemma add_process_keeps:
  assumes "chan_ok K N ch" "kernel_ok K J"
  shows "keeps K N (HandleAddProcessEvent K J junk k ch p t)"
  using assms copy_object_name[OF assms(2)]
  by (auto simp: HandleAddProcessEvent_def Let_def split: option.splits
      intro!: keeps_returns_false notify_process_event_keeps event_fine_other)

lemma remove_process_event_keeps:
  assumes "chan_ok K N ch" "kernel_ok K J"
  shows "keeps K N (HandleRemoveProcessEvent K J junk k ch p)"
  using assms copy_object_name[OF assms(2)]
  by (auto simp: HandleRemoveProcessEvent_def Let_def split: option.splits
      intro!: keeps_returns_false notify_process_event_keeps event_fine_other)

lemma add_library_keeps:
  assumes "chan_ok K N ch" "kernel_ok K J" "\<And>l. lib = Some l \<Longrightarrow> length (libName l) \<le> oMaxName J"
  shows "keeps K N (AddLibrary K J junk k ch a1 a2 lib t)"
  using assms
  by (auto simp: AddLibrary_def Let_def copy_name_fits split: option.splits prod.splits
      intro!: keeps_returns_false notify_pid_keeps event_fine_other)

lemma remove_library_loop_keeps:
  assumes "kernel_ok K J" "event_fine e"
  shows "chan_ok K N ch \<Longrightarrow> \<exists>k' ch' outs. remove_library_loop K J e n k ch = Some (k', ch', outs) \<and> chan_ok K N ch'"
proof (induction n arbitrary: k ch)
  case (Suc n)
  obtain k1 ch1 out b where n1: "NotifyAgentsFromEventPid K J k ch e = Some (k1, ch1, out, b)" "chan_ok K N ch1"
    using notify_pid_keeps[OF Suc.prems assms] unfolding keeps_def by blast
  obtain k2 ch2 outs where "remove_library_loop K J e n k1 ch1 = Some (k2, ch2, outs)" "chan_ok K N ch2"
    using Suc.IH[OF n1(2)] by blast
  then show ?case using n1 by simp
qed simp

lemma remove_library_keeps:
  assumes "chan_ok K N ch" "kernel_ok K J" "\<And>l. lib = Some l \<Longrightarrow> length (libName l) \<le> oMaxName J"
  shows "keeps K N (RemoveLibrary K J junk k ch a1 a2 lib)"
proof (cases lib)
  case (Some l)
  have ok: "chan_ok K N (ch\<lparr>chBreakManager := InvalidateLibraryBreakPoints (chBreakManager ch) base len\<rparr>)" for base len
    by (rule chan_ok_breaks[OF assms(1) invalidate_tame])
  have loop: "keeps K N (do {
      (k, ch, outs) \<leftarrow> remove_library_loop K J e n k (ch\<lparr>chBreakManager := InvalidateLibraryBreakPoints (chBreakManager ch) base len\<rparr>);
      Some (k, ch, outs, False) })" if "iEventType e = EEventsRemoveLibrary" for e n base len
    using remove_library_loop_keeps[OF assms(2) event_fine_other ok[of base len], of e n k] that by auto
  show ?thesis
    using assms(1) ok copy_name_fits[OF assms(3)[OF Some]] Some
    by (auto simp: RemoveLibrary_def Let_def split: option.splits prod.splits intro!: loop)
qed (use assms(1) in \<open>simp add: RemoveLibrary_def Let_def\<close>)

section \<open>The handlers of threads\<close>

lemma kill_thread_keeps:
  assumes "chan_ok K N ch" "kernel_ok K J"
  shows "keeps K N (HandleEventKillThread K J junk k ch a1 a2)"
proof -
  let ?t = "kCurrentThread K k"
  let ?info = "event_of_thread junk ?t"
  obtain err pc where pc: "ReadKernelRegisterValue K k (Some ?t) 14 (iCurrentPC ?info) = Some (err, pc)"
    using register_returns[OF assms(2), of 14 k ?t] by force
  obtain k1 m where m: "DoRemoveThreadBreaks K k (chBreakManager ch) (iThreadId ?info) = Some (k1, m)" "brk_inv m"
    "iNextBreakId m = iNextBreakId (chBreakManager ch)"
    using remove_thread_ok[of "chBreakManager ch" K k "iThreadId ?info"] assms(1) unfolding chan_ok_def by blast
  have ok: "chan_ok K N (ch\<lparr>chBreakManager := m\<rparr>)"
    using m remove_thread_ready[OF m(1)] assms(1) by (simp add: chan_ok_def)
  have n: "keeps K N (do {(k, ch, outs, b) \<leftarrow> NotifyAgentsFromEventPid K J k1 (ch\<lparr>chBreakManager := m\<rparr>) e; Some (k, ch, outs, True)})"
    if "iEventType e = EEventsKillThread" for e
    using notify_pid_keeps[OF ok assms(2) event_fine_other, of e k1] that by (auto simp: keeps_def)
  show ?thesis
    using pc m(1) copy_exit_category[OF assms(2)]
    by (auto simp: HandleEventKillThread_def Let_def intro!: n)
qed

lemma sw_exception_keeps:
  assumes "chan_ok K N ch" "kernel_ok K J"
  shows "keeps K N (HandleSwException K J junk k ch a1 a2)"
proof -
  let ?t = "kCurrentThread K k"
  obtain err pc where "ReadKernelRegisterValue K k (Some ?t) 15 (iCurrentPC (event_of_thread junk ?t)) = Some (err, pc)"
    using register_returns[OF assms(2), of 15 k ?t] by force
  then show ?thesis
    using assms by (auto simp: HandleSwException_def PC_REGISTER_def Let_def
        intro!: keeps_returns_false notify_pid_keeps event_fine_other)
qed

lemma user_trace_keeps:
  assumes "chan_ok K N ch" "kernel_ok K J" "unat a2 \<le> TUserTraceSize"
  shows "keeps K N (HandleUserTrace K J junk k ch a1 a2)"
proof -
  have u: "uint a2 \<le> int TUserTraceSize" unfolding uint_nat using assms(3) by linarith
  then have "sint a2 = uint a2"
    unfolding sint_uint
    by (intro signed_take_bit_int_eq_self) (rule order_trans[of _ 0], simp_all add: TUserTraceSize_def)
  then have "event_fine e" if "iArg2 e = a2" for e
    using that u by (simp add: event_fine_def)
  moreover have "length (snd (oUserRead J k a1 a2)) \<le> unat a2" using assms(2) by (simp add: kernel_ok_def)
  then have "length (snd (oUserRead J k a1 a2)) \<le> TUserTraceSize" using assms(3) by simp
  ultimately show ?thesis
    using assms by (auto simp: HandleUserTrace_def Let_def split: prod.splits
        intro!: keeps_returns_false notify_pid_keeps)
qed

section \<open>The breakpoint handler\<close>

text \<open>What a result of the body of the loop keeps.\<close>

definition hit_keeps :: "'k kern \<Rightarrow> u32 \<Rightarrow> 'k hit_result \<Rightarrow> bool" where
  "hit_keeps K N r \<longleftrightarrow> (case r of None \<Rightarrow> False | Some (Inl (k, ch, outs, b)) \<Rightarrow> chan_ok K N ch | Some (Inr (k, ch)) \<Rightarrow> chan_ok K N ch)"

lemma chan_ok_clear:
  assumes "chan_ok K N ch" "DoClearBreak K k (chBreakManager ch) b ign = (k', m, err)"
  shows "chan_ok K N (ch\<lparr>chBreakManager := m\<rparr>)"
  using assms(1) DoClear_inv[OF _ assms(2)] clear_ready[OF assms(2)] by (simp add: chan_ok_def)

lemma temporary_hit_keeps:
  assumes "chan_ok K N ch" "kernel_ok K J" "event_fine info"
  shows "hit_keeps K N (temporary_hit c K J k ch info t b e)"
proof -
  obtain k1 m err where c: "DoClearBreak K k (chBreakManager ch) b False = (k1, m, err)"
    by (cases "DoClearBreak K k (chBreakManager ch) b False") auto
  define ch1 where "ch1 = ch\<lparr>chBreakManager := m\<rparr>"
  have ok: "chan_ok K N ch1" unfolding ch1_def by (rule chan_ok_clear[OF assms(1) c])
  define n where "n = iNumSteps e - 1"
  define r where "r = iResumeOnceOutOfRange e"
  obtain k2 ch2 err2 where s: "DoStepRange c K k1 ch1 (Some t) (info_R15 info) (info_R15 info) True r n True =
      Some (k2, ch2, err2)" "chan_ok K N ch2"
    using step_range_returns[OF ok assms(2), of c k1 t "info_R15 info" "info_R15 info" True r n True] by blast
  obtain k3 ch3 outs b3 where q: "NotifyAgentsFromEventPid K J k2 ch2 info = Some (k3, ch3, outs, b3)" "chan_ok K N ch3"
    using notify_pid_keeps[OF s(2) assms(2,3), of k2] unfolding keeps_def by blast
  obtain k4 ch4 err4 where d: "DoResumeThread c K k1 ch1 (Some t) = Some (k4, ch4, err4)" "chan_ok K N ch4"
    using resume_returns[OF ok assms(2), of c k1 t] by blast
  show ?thesis
    using ok s q d unfolding temporary_hit_def c Let_def ch1_def[symmetric] n_def[symmetric] r_def[symmetric] prod.case
    by (simp add: hit_keeps_def)
qed

lemma breakpoint_hit_keeps:
  assumes "chan_ok K N ch" "kernel_ok K J" "event_fine info"
  shows "hit_keeps K N (breakpoint_hit c K J k ch info t i)"
proof -
  obtain k1 m err where e: "DoEnableDisabledBreak K k (chBreakManager ch) (iThreadId info) = Some (k1, m, err)"
    "brk_tame (chBreakManager ch) m"
    using enable_disabled_ok[of K k "chBreakManager ch" "iThreadId info"] by blast
  define ch1 where "ch1 = ch\<lparr>chBreakManager := m\<rparr>"
  have ok: "chan_ok K N ch1" unfolding ch1_def by (rule chan_ok_breaks[OF assms(1) e(2)])
  define tmp where "tmp = iBreakPointList (chBreakManager ch) ! i"
  define res where "res = (if IsTemporaryBreak m (iBreakPointList m ! i)
     then temporary_hit c K J k1 ch1 info t (iBreakId (iBreakPointList m ! i)) tmp else Some (Inr (k1, ch1)))"
  have res: "hit_keeps K N res"
    using temporary_hit_keeps[OF ok assms(2,3)] ok by (simp add: res_def hit_keeps_def)
  have unf: "breakpoint_hit c K J k ch info t i = res \<bind> (\<lambda>res. case res of
         Inl r \<Rightarrow> Some (Inl r)
       | Inr (k, ch) \<Rightarrow>
           if needToResume info tmp then
             map_option (\<lambda>(k, ch, err). Inl (k, ch, [], False)) (DoResumeThread c K k ch (Some t))
           else Some (Inr (k, ch)))"
    unfolding breakpoint_hit_def e(1) Let_def res_def tmp_def ch1_def by simp
  show ?thesis
  proof (cases res)
    case (Some x)
    show ?thesis
    proof (cases x)
      case (Inr s)
      obtain k2 ch2 where s: "s = (k2, ch2)" by (cases s)
      have ok2: "chan_ok K N ch2" using res Some Inr s by (simp add: hit_keeps_def)
      obtain k3 ch3 err3 where "DoResumeThread c K k2 ch2 (Some t) = Some (k3, ch3, err3)" "chan_ok K N ch3"
        using resume_returns[OF ok2 assms(2), of c k2 t] by blast
      then show ?thesis unfolding unf using Some Inr s ok2 by (simp add: hit_keeps_def)
    next
      case (Inl r)
      then show ?thesis unfolding unf using res Some by simp
    qed
  qed (use res in \<open>simp add: hit_keeps_def\<close>)
qed


lemma at_breakpoint_returns:
  assumes "kernel_ok K J"
  shows "\<exists>b. at_breakpoint_instruction K k info t = Some b"
proof -
  obtain err w where "ReadKernelRegisterValue K k (Some t) 16 (kUninit K) = Some (err, w)"
    using register_returns[OF assms, of 16 k t "kUninit K"] by force
  moreover have "\<exists>e bytes. kRawRead K k t a n = (Inr e, bytes)" for a n
  proof -
    have "fst (kRawRead K k t a n) \<noteq> Inl r" for r using assms by (simp add: kernel_ok_def)
    then show ?thesis by (cases "kRawRead K k t a n"; cases "fst (kRawRead K k t a n)") simp_all
  qed
  ultimately show ?thesis
    by (auto simp: at_breakpoint_instruction_def STATUS_REGISTER_def Let_def split: prod.splits sum.splits)
      (metis prod.inject sum.distinct(1))+
qed

lemma hit_type_other: "event_fine (info\<lparr>iEventType := hit_type e\<rparr>)"
  by (rule event_fine_other) (simp add: hit_type_def)

lemma breakpoint_keeps:
  assumes "chan_ok K N ch" "kernel_ok K J"
  shows "keeps K N (do {
      res \<leftarrow> breakpoint_hit c K J k ch (info\<lparr>iEventType := hit_type e\<rparr>) t i;
      (case res of
         Inl r \<Rightarrow> Some r
       | Inr (k, ch) \<Rightarrow> map_option (\<lambda>(k, ch, outs, b). (k, ch, outs, True))
                        (NotifyAgentsFromEventPid K J k ch (info\<lparr>iEventType := hit_type e\<rparr>)))})"
  using breakpoint_hit_keeps[OF assms hit_type_other, where c = c and k = k and info1 = info and e1 = e and t = t and i = i] notify_pid_keeps[OF _ assms(2) hit_type_other]
  by (auto simp: hit_keeps_def split: option.splits sum.splits intro!: keeps_with)

lemma invalid_op_code_keeps:
  assumes "chan_ok K N ch" "kernel_ok K J" "event_fine info"
  shows "keeps K N (HandleInvalidOpCodeException c K J k ch info t)"
proof -
  obtain b where b: "at_breakpoint_instruction K k info t = Some b"
    using at_breakpoint_returns[OF assms(2)] by blast
  obtain k1 ch1 where s: "DoSuspendThread K k ch (Some t) = Some (k1, ch1, KErrNone)" "chan_ok K N ch1"
    using suspend_returns[OF assms(1), of k t] by blast
  define found where "found = find (\<lambda>i. break_hit info (iBreakPointList (chBreakManager ch1) ! i)) [0..<Count (chBreakManager ch1)]"
  have w: "break_walk GetNextBreak (\<lambda>_. chBreakManager ch1) (hit_body (chBreakManager ch1) info) None () =
      Some (case found of Some i \<Rightarrow> Inl i | None \<Rightarrow> Inr ())"
    unfolding found_def by (rule hit_walk[OF walkable_ok[OF s(2)]])
  show ?thesis
    using b s w breakpoint_keeps[OF s(2) assms(2), where c = c and k = k1 and info = info and t = t]
      keeps_with[OF notify_pid_keeps[OF s(2) assms(2,3), of k1]] keeps_with[OF notify_pid_keeps[OF assms, of k]]
    by (cases b; cases found) (simp_all add: HandleInvalidOpCodeException_def Let_def)
qed

lemma hw_exception_keeps:
  assumes "chan_ok K N ch" "kernel_ok K J"
  shows "keeps K N (HandleHwException c K J junk k ch a1 a2 exc)"
  using assms by (auto simp: HandleHwException_def Let_def split: option.splits
      intro!: keeps_returns_false notify_pid_keeps event_fine_other invalid_op_code_keeps)

section \<open>Dispatch\<close>

text \<open>The events that are handled without a fault: traces that fit the buffer, library names that fit.\<close>

fun event_ok :: "'k objs \<Rightarrow> TKernelEvent \<Rightarrow> bool" where
  "event_ok J (EEventUserTrace a1 a2) \<longleftrightarrow> unat a2 \<le> TUserTraceSize"
| "event_ok J (EEventAddLibrary a1 a2 (Some l) t) \<longleftrightarrow> length (libName l) \<le> oMaxName J"
| "event_ok J (EEventRemoveLibrary a1 a2 (Some l)) \<longleftrightarrow> length (libName l) \<le> oMaxName J"
| "event_ok J EEventAtLimit \<longleftrightarrow> False"
| "event_ok J ev \<longleftrightarrow> True"

lemma handle_event_keeps:
  assumes "chan_ok K N ch" "kernel_ok K J" "event_ok J ev"
  shows "keeps K N (handle_event c K J junk k ch ev)"
proof (cases ev)
  case (EEventAddLibrary a1 a2 lib t)
  then show ?thesis using assms by (cases lib) (auto intro!: add_library_keeps)
next
  case (EEventRemoveLibrary a1 a2 lib)
  then show ?thesis using assms by (cases lib) (auto intro!: remove_library_keeps)
qed (use assms in \<open>auto intro!: user_trace_keeps start_thread_keeps sw_exception_keeps hw_exception_keeps
        kill_thread_keeps add_process_keeps remove_process_event_keeps\<close>)

lemma handle_event_core:
  assumes "chan_ok K N ch" "kernel_ok K J" "event_ok J ev"
  shows "\<exists>k' ch' outs r. HandleEvent c K J junk b k ch ev = Some (k', ch', outs, r) \<and> chan_ok K N ch'"
proof -
  obtain k1 ch1 outs ret where "handle_event c K J junk k ch ev = Some (k1, ch1, outs, ret)" "chan_ok K N ch1"
    using handle_event_keeps[OF assms, of c junk k] unfolding keeps_def by blast
  then show ?thesis
    using assms(1,3) by (auto simp: HandleEvent_def HandleSpecificEvent_def)
qed

section \<open>What a breakpoint does\<close>

lemma agent_break_not_temporary:
  assumes "chan_ok K N ch" "i < Count (chBreakManager ch)"
  shows "IsTemporaryBreak (chBreakManager ch) (iBreakPointList (chBreakManager ch) ! i) \<longleftrightarrow> i < NUMBER_OF_TEMP_BREAKPOINTS"
  using assms ids_ok_temp[of "map iBreakId (iBreakPointList (chBreakManager ch))" _ i]
  by (auto simp: chan_ok_def brk_inv_def IsTemporaryBreak_def priv_IsTemporaryBreak_def)

lemma tame_break_id:
  assumes "brk_tame m m'" "i < Count m"
  shows "iBreakId (iBreakPointList m' ! i) = iBreakId (iBreakPointList m ! i)" "Count m' = Count m"
proof -
  have "map iBreakId (iBreakPointList m') ! i = map iBreakId (iBreakPointList m) ! i" "length (iBreakPointList m') = Count m"
    using assms(1) tame_length by (auto simp: brk_tame_def tame_def)
  then show "iBreakId (iBreakPointList m' ! i) = iBreakId (iBreakPointList m ! i)" "Count m' = Count m"
    using assms(2) by simp_all
qed

lemma find_upt_bound: "find P [0..<n] = Some i \<Longrightarrow> i < n \<and> P i"
  by (auto simp: find_Some_iff)

lemma hit_not_resumed: "break_hit info e \<Longrightarrow> \<not> needToResume (info\<lparr>iEventType := ty\<rparr>) e"
  by (auto simp: break_hit_def needToResume_def)

lemma suspend_thread:
  "DoSuspendThread K k ch (Some t) = Some (kThreadSuspend K k t, ch, KErrNone)"
  by (simp add: DoSuspendThread_def SuspendThread_def set_frozen_def)

lemma hit_search:
  assumes "chan_ok K N ch"
  shows "break_walk GetNextBreak (\<lambda>_. chBreakManager ch) (hit_body (chBreakManager ch) info) None () =
    Some (case find (\<lambda>i. break_hit info (iBreakPointList (chBreakManager ch) ! i)) [0..<Count (chBreakManager ch)] of
      Some i \<Rightarrow> Inl i | None \<Rightarrow> Inr ())"
  by (rule hit_walk[OF walkable_ok[OF assms]])

text \<open>C13: A thread that runs into a breakpoint of an agent is suspended, the breakpoints it had disabled for a step
  are enabled, and then the agents are told of a thread or a process breakpoint, with an event that is otherwise the
  exception's; the handler answers that the exception is dealt with.  The branch that would let the thread go on
  (needToResume) is never taken.\<close>

theorem breakpoint_stops_thread:
  assumes "chan_ok K N ch" "at_breakpoint_instruction K k info t = Some True"
    "find (\<lambda>i. break_hit info (iBreakPointList (chBreakManager ch) ! i)) [0..<Count (chBreakManager ch)] = Some i"
    "NUMBER_OF_TEMP_BREAKPOINTS \<le> i"
    "DoEnableDisabledBreak K (kThreadSuspend K k t) (chBreakManager ch) (iThreadId info) = Some (k1, m, err)"
  shows "HandleInvalidOpCodeException c K J k ch info t =
    map_option (\<lambda>(k, ch, outs, b). (k, ch, outs, True))
      (NotifyAgentsFromEventPid K J k1 (ch\<lparr>chBreakManager := m\<rparr>)
        (info\<lparr>iEventType := if iThreadSpecific (iBreakPointList (chBreakManager ch) ! i) then EEventsBreakPoint
                          else EEventsProcessBreakPoint\<rparr>))"
proof -
  let ?m = "chBreakManager ch"
  have i: "i < Count ?m" "break_hit info (iBreakPointList ?m ! i)" using find_upt_bound[OF assms(3)] by simp_all
  have tame: "brk_tame ?m m" using enable_disabled_ok[of K "kThreadSuspend K k t" ?m "iThreadId info"] assms(5) by auto
  have temp: "\<not> IsTemporaryBreak m (iBreakPointList m ! i)"
  proof -
    have "\<not> IsTemporaryBreak ?m (iBreakPointList ?m ! i)"
      using agent_break_not_temporary[OF assms(1) i(1)] assms(4) by simp
    then show ?thesis using tame_break_id(1)[OF tame i(1)] tame_ready[OF tame]
      by (simp add: IsTemporaryBreak_def priv_IsTemporaryBreak_def split: if_splits)
  qed
  let ?info = "info\<lparr>iEventType := hit_type (iBreakPointList ?m ! i)\<rparr>"
  have "breakpoint_hit c K J (kThreadSuspend K k t) ch ?info t i = Some (Inr (k1, ch\<lparr>chBreakManager := m\<rparr>))"
    using temp assms(5) hit_not_resumed[OF i(2)] by (simp add: breakpoint_hit_def Let_def)
  then show ?thesis
    using assms(2,3) hit_search[OF assms(1), of info]
    by (simp add: HandleInvalidOpCodeException_def suspend_thread Let_def hit_type_def)
qed

text \<open>When the instruction is a breakpoint instruction but no entry of the list matches the thread and its PC, the
  thread is suspended all the same, the agents are told of the hardware exception as it came, and the handler answers
  that the exception is not dealt with; nothing takes the suspension back.\<close>

theorem stray_breakpoint_suspends:
  assumes "chan_ok K N ch" "at_breakpoint_instruction K k info t = Some True"
    "\<forall>e\<in>set (iBreakPointList (chBreakManager ch)). \<not> break_hit info e"
  shows "HandleInvalidOpCodeException c K J k ch info t =
    returns_false (NotifyAgentsFromEventPid K J (kThreadSuspend K k t) ch info)"
proof -
  have "find (\<lambda>i. break_hit info (iBreakPointList (chBreakManager ch) ! i)) [0..<Count (chBreakManager ch)] = None"
    using assms(3) by (auto simp: find_None_iff)
  then show ?thesis
    using assms(2) hit_search[OF assms(1), of info]
    by (simp add: HandleInvalidOpCodeException_def suspend_thread Let_def returns_false_def)
qed


section \<open>Concrete events\<close>

text \<open>Objects without names, and a channel whose break manager has one breakpoint of process 4.\<close>

definition demoJ :: "demo objs" where
  "demoJ =
     \<lparr>oFileName = (\<lambda>k p. None), oName = (\<lambda>k p. Some [97]), oUids = (\<lambda>k p. (0, 0, 0)),
      oMemoryInfo = (\<lambda>k p. (KErrNone, 0x8000, 0x1000, 0x400000)), oDebugAttributes = (\<lambda>k p. 1), oEDebugAllowed = 1,
      oSecureId = (\<lambda>k p. KUidDebugSecurityServer), oFlags = (\<lambda>k t. 0), oExitType = (\<lambda>k t. 0),
      oExitReason = (\<lambda>k t. 0), oExitCategory = (\<lambda>k t. []), oUserRead = (\<lambda>k a n. (KErrNone, replicate (unat n) 65)),
      oTerminate = (\<lambda>k p r. k), oDynamicCode = (\<lambda>k p. []), oMaxName = 80,
      oExcCodeAbort = 0, oExcDataAbort = 1, oExcInvalidOpCode = 2\<rparr>"

definition demo_client :: DThread where
  "demo_client = \<lparr>tId = 77, iOwningProcess = \<lparr>pId = 78\<rparr>, iCsCount = 0, iCsFunction = 0, iSuspendCount = 0\<rparr>"

definition demo_channel :: "u64 \<Rightarrow> DRM_DebugChannel" where
  "demo_channel i =
     \<lparr>chClientThread = demo_client, chDebugProcessList = [], chBreakManager = demo_brk 12 i False 0x8000,
      chTracker = new_DProcessTracker\<rparr>"

text \<open>The exception registers with the PC at 0x8000, and a memory with the ARM breakpoint instruction there.\<close>

definition demo_exc :: TDriverEventInfo where
  "demo_exc = (demo_event EEventsHwExc)\<lparr>iRmdArmExcInfo := replicate 22 0 @ [0x8000]\<rparr>"

definition demo_hit :: demo where
  "demo_hit = demo_put 0x8000 (le32 KArmBreakPoint) demo0"

lemma demo_kernel_ok: "kernel_ok demoK demoJ"
  by (simp add: kernel_ok_def demoK_def demoJ_def)

lemma demo_chan_ok: "chan_ok demoK 20 (demo_channel i)"
  using demo_brk_inv[of i False "0x8000"]
  by (simp add: chan_ok_def demo_channel_def demo_brk_def not_ready_def tracker_ok_def tracker_inv_def process_names_def
      new_DProcessTracker_def)

lemma demo_info_R15: "info_R15 demo_exc = 0x8000"
  by (simp add: info_R15_def demo_exc_def exc_iR15_def nth_append)

lemma demo_fields:
  "kUserContext demoK k t = (\<lambda>i. if i < length (dregs k) then dregs k ! i else 0, 0x1FFFF)" "kAllocOk demoK k n"
  "kRawRead demoK k t a n = (Inr KErrNone, \<lambda>i. demo_byte k (a + of_nat i))" "kUninit demoK = 0"
  "kEThumbMask demoK = 0x20" "kThreadSuspend demoK k t = k" "kThreadResume demoK k t = k"
  "kThreadFromId demoK k i = (if i = 5 then Some demo_thread else None)" "kThreadOpen demoK k t = KErrNone"
  "kProcessFromId demoK k i = (if i = 4 then Some demo_process else None)" "kProcessOpen demoK k p = KErrNone"
  by (simp_all add: demoK_def)

lemma demo_register:
  assumes "rn < 17"
  shows "ReadKernelRegisterValue demoK k (Some t) (of_nat rn) 0 =
    Some (KErrNone, if rn < length (dregs k) then dregs k ! rn else 0)"
proof -
  have "rn \<in> set [0..<17]" using assms by simp
  then have "GetFlagAtOffset 0x1FFFF (of_nat rn)" by (auto simp: GetFlagAtOffset_def upt_rec)
  then show ?thesis
    using read_kernel_register_core[OF assms, of demoK k t _ "0x1FFFF" 0] by (simp add: demo_fields)
qed

lemma demo_hit_register: "ReadKernelRegisterValue demoK demo_hit (Some t) 16 0 = Some (KErrNone, 0)"
  using demo_register[of 16 demo_hit t] by (simp add: demo_hit_def demo_put_def demo0_def)

lemma demo_at_breakpoint: "at_breakpoint_instruction demoK demo_hit demo_exc t = Some True"
  by (simp add: at_breakpoint_instruction_def STATUS_REGISTER_def demo_fields demo_hit_register demo_info_R15)
    (simp add: demo_byte_def demo_hit_def demo_put_def upt_rec le32_def)

lemma demo_entries:
  "iBreakPointList (chBreakManager (demo_channel i)) =
     map (\<lambda>n. (default_TBreakEntry 0)\<lparr>iBreakId := of_nat n\<rparr>) [0..<10] @ [mk_TBreakEntry 12 i False 0x8000 EArmMode]"
  by (simp add: demo_channel_def demo_brk_def)

lemma demo_free_entry: "\<not> break_hit demo_exc ((default_TBreakEntry 0)\<lparr>iBreakId := b\<rparr>)"
  by (simp add: break_hit_def demo_info_R15 default_TBreakEntry_def TBreakEntry_Reset_def)

lemma demo_find_hit:
  "find (\<lambda>i. break_hit demo_exc (iBreakPointList (chBreakManager (demo_channel 4)) ! i))
     [0..<Count (chBreakManager (demo_channel 4))] = Some 10"
proof -
  have "break_hit demo_exc (mk_TBreakEntry 12 4 False 0x8000 EArmMode)"
    by (simp add: break_hit_def demo_info_R15 mk_TBreakEntry_def) (simp add: demo_exc_def demo_event_def)
  then show ?thesis unfolding demo_entries by (simp add: upt_rec nth_append demo_free_entry)
qed

lemma demo_not_told:
  "iProcessId e = 4 \<Longrightarrow> NotifyAgentsFromEventPid demoK demoJ k (demo_channel i\<lparr>chBreakManager := m\<rparr>) e =
     Some (k, demo_channel i\<lparr>chBreakManager := m\<rparr>, [], False)"
  by (simp add: NotifyAgentsFromEventPid_def OpenProcessHandle_def demo_fields)
    (simp add: demoJ_def demo_channel_def FindProcess_def find_by_name_def new_DProcessTracker_def GetCurrentAgentAttachedToAll_def)

theorem breakpoint_stops_thread_witness:
  "\<exists>k' m'. HandleInvalidOpCodeException demo_cpu demoK demoJ demo_hit (demo_channel 4) demo_exc demo_thread =
     Some (k', demo_channel 4\<lparr>chBreakManager := m'\<rparr>, [], True)"
proof -
  obtain k1 m err where d: "DoEnableDisabledBreak demoK (kThreadSuspend demoK demo_hit demo_thread)
      (chBreakManager (demo_channel 4)) (iThreadId demo_exc) = Some (k1, m, err)"
    using enable_disabled_ok[of demoK "kThreadSuspend demoK demo_hit demo_thread" "chBreakManager (demo_channel 4)" "iThreadId demo_exc"]
    by blast
  have "iProcessId (demo_exc\<lparr>iEventType := ty\<rparr>) = 4" for ty by (simp add: demo_exc_def demo_event_def)
  then show ?thesis
    using breakpoint_stops_thread[OF demo_chan_ok demo_at_breakpoint demo_find_hit _ d, of demo_cpu demoJ]
    by (simp add: demo_not_told) blast
qed

theorem stray_breakpoint_suspends_witness:
  "HandleInvalidOpCodeException demo_cpu demoK demoJ demo_hit (demo_channel 6) demo_exc demo_thread =
     Some (demo_hit, demo_channel 6, [], False)"
proof -
  have "iProcessId demo_exc = 4" by (simp add: demo_exc_def demo_event_def)
  moreover from this have "\<not> break_hit demo_exc (mk_TBreakEntry 12 6 False 0x8000 EArmMode)"
    by (simp add: break_hit_def mk_TBreakEntry_def)
  ultimately show ?thesis
    using stray_breakpoint_suspends[OF demo_chan_ok[of 6] demo_at_breakpoint, of demo_cpu demoJ]
      demo_not_told[where e = demo_exc and k = demo_hit and i = 6 and m = "chBreakManager (demo_channel 6)"]
    by (simp add: demo_entries demo_free_entry demo_fields returns_false_def)
qed


end
