(* ===== verification/ControlLemmas.thy ===== *)
theory ControlLemmas
  imports ChannelControl ChannelProps
begin

text \<open>
  The requests of the client keep the invariants of the channel: each function of DoControl, the requests for events
  and their cancellation.  Only SetBreak advances the next breakpoint id.
\<close>

section \<open>The agents of a tracker\<close>

definition all_agents :: "DProcessTracker \<Rightarrow> DDebugAgent set" where
  "all_agents t = (\<Union>p\<in>set (iProcesses t). set (iAgentList p)) \<union> set (iAgentsAttachedToAll t)"

lemma tracker_ok_agents: "tracker_ok K t \<longleftrightarrow> tracker_inv K t \<and> (\<forall>a\<in>all_agents t. agent_ok a)"
  by (auto simp: tracker_ok_def all_agents_def)

lemma add_agent_agents:
  "a \<in> set (iAgentList (fst (AddAgent K k n junk p aId))) \<Longrightarrow>
   a \<in> set (iAgentList p) \<or> DDebugAgent_New K k n junk aId = Some a"
  by (auto simp: AddAgent_def Let_def split: option.splits if_splits)

lemma attach_agents:
  assumes "a \<in> all_agents (fst (AttachProcess K k junk t name aId))"
  shows "a \<in> all_agents t \<or> (\<exists>n. DDebugAgent_New K k n junk aId = Some a)"
proof (cases "name = attach_all_name")
  case True
  then show ?thesis
    using assms by (auto simp: AttachProcess_def all_agents_def Let_def split: option.splits if_splits)
next
  case False
  show ?thesis
  proof (cases "find_by_name K t name")
    case None
    then show ?thesis
      using assms False add_agent_agents[of a K k 2 junk]
      by (fastforce simp: AttachProcess_def SetProcessName_def new_DTargetProcess_def all_agents_def Let_def
          split: if_splits prod.splits)
  next
    case (Some i)
    have "set ((iProcesses t)[i := p]) \<subseteq> insert p (set (iProcesses t))" for p by (rule set_update_subset_insert)
    moreover have "iProcesses t ! i \<in> set (iProcesses t)" using find_by_name_SomeD[OF Some] by simp
    ultimately show ?thesis
      using assms False Some add_agent_agents[of a K k 2 junk "iProcesses t ! i" aId]
      by (fastforce simp: AttachProcess_def SetProcessName_def new_DTargetProcess_def all_agents_def Let_def
          split: if_splits prod.splits)
  qed
qed

lemma remove_agent_agents: "set (iAgentList (fst (RemoveAgent p aId))) \<subseteq> set (iAgentList p)"
  using set_remove_nth_subset by (fastforce simp: RemoveAgent_def split: option.splits)

lemma all_agents_processes:
  "(\<And>p. p \<in> set ps \<Longrightarrow> set (iAgentList p) \<subseteq> all_agents t) \<Longrightarrow> all_agents (t\<lparr>iProcesses := ps\<rparr>) \<subseteq> all_agents t"
  by (auto simp: all_agents_def)

lemma detach_agents: "all_agents (fst (DetachProcess K t name aId)) \<subseteq> all_agents t"
proof (cases "name = attach_all_name")
  case True
  then show ?thesis
  proof (cases "find_index (\<lambda>a. agId a = aId) (iAgentsAttachedToAll t)")
    case (Some i)
    then show ?thesis
      using True set_remove_nth_subset[of i "iAgentsAttachedToAll t"]
      by (auto simp: DetachProcess_def all_agents_def Let_def)
  qed (simp add: DetachProcess_def Let_def)
next
  case False
  show ?thesis
  proof (cases "find_by_name K t name")
    case (Some i)
    let ?p = "fst (RemoveAgent (iProcesses t ! i) aId)"
    have "iProcesses t ! i \<in> set (iProcesses t)" using find_by_name_SomeD[OF Some] by simp
    then have sub: "set (iAgentList ?p) \<subseteq> all_agents t" "\<And>p. p \<in> set (iProcesses t) \<Longrightarrow> set (iAgentList p) \<subseteq> all_agents t"
      using remove_agent_agents[of "iProcesses t ! i" aId] by (auto simp: all_agents_def)
    then have "all_agents (t\<lparr>iProcesses := remove_nth i (iProcesses t)\<rparr>) \<subseteq> all_agents t"
      "all_agents (t\<lparr>iProcesses := (iProcesses t)[i := ?p]\<rparr>) \<subseteq> all_agents t"
      using set_update_subset_insert[of "iProcesses t" i ?p] set_remove_nth_subset[of i "iProcesses t"]
      by (blast intro!: all_agents_processes)+
    then show ?thesis using False Some by (simp add: DetachProcess_def Let_def)
  qed (use False in \<open>simp add: DetachProcess_def\<close>)
qed

lemma detach_agent_agents:
  assumes "DetachAgent t aId = Some (t', err)"
  shows "all_agents t' \<subseteq> all_agents t"
proof -
  let ?ps = "map (\<lambda>p. fst (RemoveAgent p aId)) (iProcesses t)"
  obtain ps' where ps': "ix_loop detach_process_body (rev [0..<length ?ps]) ?ps = Some (Inr ps')" "set ps' \<subseteq> set ?ps"
    using detach_process_loop by blast
  obtain as where "t' = t\<lparr>iProcesses := ps', iAgentsAttachedToAll := as\<rparr>"
    "as = iAgentsAttachedToAll t \<or> (\<exists>i. as = remove_nth i (iAgentsAttachedToAll t))"
    using assms ps'(1) detach_all_loop[of 0 "iAgentsAttachedToAll t" aId]
    by (auto simp: DetachAgent_def Let_def split: option.splits if_splits sum.splits)
  then show ?thesis
    using ps'(2) remove_agent_agents[of _ aId] set_remove_nth_subset[of _ "iAgentsAttachedToAll t"]
    by (fastforce simp: all_agents_def)
qed

lemma put_agent_agents: "all_agents (put_agent t r a) \<subseteq> insert a (all_agents t)"
proof (cases r)
  case (AttachedToAll i)
  then show ?thesis
    using set_update_subset_insert[of "iAgentsAttachedToAll t" i a] by (auto simp: all_agents_def)
next
  case (OfProcess i j)
  let ?p = "(iProcesses t ! i)\<lparr>iAgentList := (iAgentList (iProcesses t ! i))[j := a]\<rparr>"
  show ?thesis
  proof (cases "i < length (iProcesses t)")
    case True
    have "set ((iProcesses t)[i := ?p]) \<subseteq> insert ?p (set (iProcesses t))" by (rule set_update_subset_insert)
    moreover have "iProcesses t ! i \<in> set (iProcesses t)" using True by simp
    ultimately show ?thesis
      using OfProcess set_update_subset_insert[of "iAgentList (iProcesses t ! i)" j a]
      by (fastforce simp: all_agents_def)
  qed (use OfProcess in \<open>auto simp: all_agents_def list_update_beyond\<close>)
qed

lemma last_index_bound: "last_index P xs = Some i \<Longrightarrow> i < length xs"
  by (auto simp: last_index_def dest!: find_index_SomeD)

lemma found_agent:
  assumes "FindAgentForProcessAndId K t name aId = Some r"
  shows "agent_at t r \<in> all_agents t"
proof (cases "name = attach_all_name")
  case True
  then show ?thesis
    using assms last_index_bound[of "\<lambda>a. agId a = aId" "iAgentsAttachedToAll t"]
    by (auto simp: FindAgentForProcessAndId_def all_agents_def)
next
  case False
  then obtain i j where i: "FindProcess K t name = Some i" "Agent (iProcesses t ! i) aId = Some j" "r = OfProcess i j"
    using assms by (auto simp: FindAgentForProcessAndId_def split: option.splits)
  have "iProcesses t ! i \<in> set (iProcesses t)" using find_process_bound[OF i(1)] by simp
  moreover have "j < length (iAgentList (iProcesses t ! i))" using i(2) by (auto simp: Agent_def dest!: find_index_SomeD)
  then have "iAgentList (iProcesses t ! i) ! j \<in> set (iAgentList (iProcesses t ! i))" by simp
  ultimately show ?thesis using i(3) by (auto simp: all_agents_def)
qed

section \<open>Requests about agents\<close>

lemma after_alloc_inv [simp]: "tracker_inv (after_alloc K) t = tracker_inv K t"
  by (simp add: tracker_inv_def process_names_def valid_name_def after_alloc_def)

lemma chan_ok_tracker:
  "chan_ok K N ch \<Longrightarrow> tracker_ok K t \<Longrightarrow> chan_ok K N (ch\<lparr>chTracker := t\<rparr>)"
  by (simp add: chan_ok_def)

lemma attach_request_ok:
  assumes "chan_ok K N ch"
  shows "chan_ok K N (fst (req_AttachProcess K k junk ch a1 a2))"
proof -
  have t: "tracker_ok K (chTracker ch)" using assms by (simp add: chan_ok_def)
  have "tracker_ok K (fst (AttachProcess (after_alloc K) k junk (chTracker ch) name aId))" for name aId
  proof -
    have "agent_ok a" if "a \<in> all_agents (fst (AttachProcess (after_alloc K) k junk (chTracker ch) name aId))" for a
      using attach_agents[OF that] new_agent_ok[of "after_alloc K" k _ junk aId a] t
      by (elim disjE exE) (simp_all add: tracker_ok_agents)
    moreover have "tracker_inv (after_alloc K) (fst (AttachProcess (after_alloc K) k junk (chTracker ch) name aId))"
      using t by (intro attach_inv) (simp add: tracker_ok_agents)
    ultimately show ?thesis by (simp add: tracker_ok_agents)
  qed
  then show ?thesis
    using assms chan_ok_tracker[OF assms]
    by (auto simp: req_AttachProcess_def Let_def split: sum.splits prod.splits) (metis fst_conv)+
qed

lemma detach_request_ok:
  assumes "chan_ok K N ch"
  shows "chan_ok K N (fst (req_DetachProcess K k ch a1 a2))"
proof -
  have t: "tracker_ok K (chTracker ch)" using assms by (simp add: chan_ok_def)
  have "tracker_ok K (fst (DetachProcess K (chTracker ch) name aId))" for name aId
    using t detach_inv[of K "chTracker ch" name aId] detach_agents[of K "chTracker ch" name aId]
    by (auto simp: tracker_ok_agents)
  then show ?thesis
    using assms chan_ok_tracker[OF assms]
    by (auto simp: req_DetachProcess_def Let_def split: sum.splits prod.splits) (metis fst_conv)+
qed

lemma detach_agent_request_ok:
  assumes "chan_ok K N ch" "req_DetachAgent ch a1 = Some (ch', err)"
  shows "chan_ok K N ch'"
proof (cases a1)
  case (Inr aId)
  then obtain t where t: "DetachAgent (chTracker ch) aId = Some (t, err)" "ch' = ch\<lparr>chTracker := t\<rparr>"
    using assms(2) by (auto simp: req_DetachAgent_def)
  have "tracker_ok K (chTracker ch)" using assms(1) by (simp add: chan_ok_def)
  then have "tracker_ok K t"
    using detach_agent_inv[of K "chTracker ch" aId t err] detach_agent_agents[OF t(1)] t(1) by (auto simp: tracker_ok_agents)
  then show ?thesis using chan_ok_tracker[OF assms(1)] t(2) by simp
qed (use assms in \<open>simp add: req_DetachAgent_def\<close>)

lemma put_agent_ok:
  assumes "chan_ok K N ch" "agent_ok a" "agId a = agId (agent_at (chTracker ch) r)"
  shows "chan_ok K N (ch\<lparr>chTracker := put_agent (chTracker ch) r a\<rparr>)"
proof (rule chan_ok_tracker[OF assms(1)])
  have "tracker_ok K (chTracker ch)" using assms(1) by (simp add: chan_ok_def)
  then show "tracker_ok K (put_agent (chTracker ch) r a)"
    using put_agent_inv[of K "chTracker ch" a r] put_agent_agents[of "chTracker ch" r a] assms(2,3)
    by (auto simp: tracker_ok_agents)
qed

lemma found_agent_ok:
  "chan_ok K N ch \<Longrightarrow> FindAgentForProcessAndId K (chTracker ch) name aId = Some r \<Longrightarrow> agent_ok (agent_at (chTracker ch) r)"
  using found_agent[of K "chTracker ch" name aId r] by (simp add: chan_ok_def tracker_ok_agents)

lemma set_action_ok [simp]: "agent_ok (fst (SetEventAction ag e a)) = agent_ok ag" "agId (fst (SetEventAction ag e a)) = agId ag"
  by (auto simp: SetEventAction_def agent_ok_def agent_pending_def queue_view_def)

lemma cancel_ok [simp]: "agent_ok (fst (CancelGetEvent ag)) = agent_ok ag" "agId (fst (CancelGetEvent ag)) = agId ag"
  by (auto simp: CancelGetEvent_def agent_ok_def agent_pending_def queue_view_def)

lemma set_event_action_ok:
  assumes "chan_ok K N ch"
  shows "chan_ok K N (fst (req_SetEventAction K k ch a1 a2))"
  using assms put_agent_ok[OF assms, of "fst (SetEventAction (agent_at (chTracker ch) r) e a)" r for r e a]
    found_agent_ok[OF assms]
  by (auto simp: req_SetEventAction_def Let_def split: sum.splits prod.splits option.splits)
    (metis fst_conv set_action_ok)

end
