(* ===== verification/ControlProps.thy ===== *)
theory ControlProps
  imports ControlLemmas
begin

text \<open>
  Whatever the client asks and whatever the kernel reports, in any order, the channel keeps its invariants, and so
  every event of the kernel is handled without a fault.
\<close>

section \<open>Requests about breakpoints and memory\<close>

lemma set_break_ready:
  "DoSetBreak K k m b0 i ts a md = Some (k', m', err, b) \<Longrightarrow> not_ready m' = not_ready m"
  by (erule set_cases) (simp_all add: not_ready_def)

text \<open>The state after a request: the next breakpoint id has advanced by one at most.\<close>

definition chan_after :: "'k kern \<Rightarrow> u32 \<Rightarrow> DRM_DebugChannel \<Rightarrow> bool" where
  "chan_after K N ch \<longleftrightarrow> chan_ok K N ch \<or> chan_ok K (N + 1) ch"

lemma chan_after_ok [simp, intro]: "chan_ok K N ch \<Longrightarrow> chan_after K N ch"
  by (simp add: chan_after_def)

lemma set_break_request_ok:
  assumes "chan_ok K N ch" "N \<noteq> 0x7FFFFFFF" "SetBreak K J k ch a = Some (k', ch', err)"
  shows "chan_after K N ch'"
proof -
  let ?m = "chBreakManager ch"
  have tracker: "chan_ok K N (ch\<lparr>chDebugProcessList := ps\<rparr>)" for ps
    using assms(1) by (simp add: chan_ok_def)
  have break: "chan_after K N (ch\<lparr>chDebugProcessList := ps, chBreakManager := m\<rparr>)"
    if "DoSetBreak K k ?m b0 i ts addr md = Some (k1, m, e, b)" for ps b0 i ts addr md k1 m e b
  proof -
    have "brk_inv m" "iNextBreakId m = N \<or> iNextBreakId m = N + 1"
      using set_inv[OF _ that] assms(1,2) by (simp_all add: chan_ok_def)
    then show ?thesis using assms(1) set_break_ready[OF that] by (auto simp: chan_after_def chan_ok_def)
  qed
  show ?thesis
    using assms(1,3) tracker break
    by (auto simp: SetBreak_def Let_def split: carg.splits option.splits prod.splits if_splits bind_splits)
qed

lemma modify_ready:
  "DoModifyBreak K k m ps a = (k', m', err) \<Longrightarrow> not_ready m' = not_ready m"
  "DoModifyProcessBreak K k m a = (k', m', err) \<Longrightarrow> not_ready m' = not_ready m"
  by (auto simp: DoModifyBreak_def priv_DoModifyBreak_def DoModifyProcessBreak_def priv_DoModifyProcessBreak_def
      not_ready_def Let_def split: if_splits carg.splits option.splits prod.splits)

lemma breaks_ok:
  assumes "chan_ok K N ch" "brk_inv m \<and> iNextBreakId m = iNextBreakId (chBreakManager ch)"
    and "not_ready m = not_ready (chBreakManager ch)"
  shows "chan_ok K N (ch\<lparr>chBreakManager := m\<rparr>)"
  using assms by (simp add: chan_ok_def)

lemma clear_request_ok:
  assumes "chan_ok K N ch" "DoClearBreak K k (chBreakManager ch) b ign = (k', m', err)"
  shows "chan_ok K N (ch\<lparr>chBreakManager := m'\<rparr>)"
proof (rule breaks_ok[OF assms(1) _ clear_ready[OF assms(2)]])
  show "brk_inv m' \<and> iNextBreakId m' = iNextBreakId (chBreakManager ch)"
    using assms clear_inv[of "chBreakManager ch" K k b ign k' m' err]
    by (simp add: DoClearBreak_def chan_ok_def)
qed

lemma modify_request_ok:
  assumes "chan_ok K N ch" "DoModifyBreak K k (chBreakManager ch) ps a = (k', m', err)"
  shows "chan_ok K N (ch\<lparr>chBreakManager := m'\<rparr>)"
  using assms by (intro breaks_ok modify_ready(1) modify_inv) (simp_all add: chan_ok_def)

lemma modify_process_request_ok:
  assumes "chan_ok K N ch" "DoModifyProcessBreak K k (chBreakManager ch) a = (k', m', err)"
  shows "chan_ok K N (ch\<lparr>chBreakManager := m'\<rparr>)"
  using assms by (intro breaks_ok modify_ready(2) modify_process_inv) (simp_all add: chan_ok_def)

lemma write_fix_body_tame:
  assumes "write_fix_body K buf a n i (m, l) = Some x" "i < Count m"
  shows "case_sum (\<lambda>(err, m', l'). brk_tame m m') (\<lambda>(m', l'). brk_tame m m') x"
proof -
  have "brk_tame m (m\<lparr>iBreakPointList := (iBreakPointList m)[i := (iBreakPointList m ! i)\<lparr>iInstruction := s\<rparr>]\<rparr>)" for s
    using assms(2) by (auto simp: brk_tame_def key_def intro!: tame_update)
  moreover have "brk_tame m m" by (simp add: brk_tame_def tame_def)
  ultimately show ?thesis
    using assms(1) by (auto simp: write_fix_body_def Let_def split: if_splits option.splits)
qed

lemma write_memory_tame:
  assumes "chan_ok K N ch" "DoWriteMemory K k (chBreakManager ch) t a n d = Some (k', err, m', local)"
  shows "brk_tame (chBreakManager ch) m'"
proof -
  let ?m = "chBreakManager ch"
  have refl: "brk_tame ?m ?m" by (simp add: brk_tame_def tame_def)
  have "case_sum (\<lambda>(err, m', l'). brk_tame ?m m') (\<lambda>(m', l'). brk_tame ?m m') res"
    if "ix_loop (write_fix_body K buf a n) [0..<Count ?m] (?m, []) = Some res" for buf res
  proof (rule ix_loop_invariant[OF that])
    fix i s x
    assume i: "i \<in> set [0..<Count ?m]" "case s of (m', l') \<Rightarrow> brk_tame ?m m'" "write_fix_body K buf a n i s = Some x"
    obtain m1 l1 where s: "s = (m1, l1)" by (cases s)
    have "i < Count m1" using i(1,2) s tame_length by (auto simp: brk_tame_def)
    then show "case_sum (\<lambda>(err, m', l'). brk_tame ?m m') (\<lambda>(m', l'). brk_tame ?m m') x"
      using write_fix_body_tame[of K buf a n i m1 l1 x] i s brk_tame_trans[of ?m m1]
      by (cases x) auto
  qed (use refl in simp)
  then show ?thesis
    using assms(2) refl
    by (fastforce simp: DoWriteMemory_def Let_def write_walk[OF walkable_ok[OF assms(1)]]
        split: prod.splits if_splits sum.splits bind_splits)
qed

lemma write_request_ok:
  assumes "chan_ok K N ch" "WriteMemory K k (chBreakManager ch) t a = Some (k', err, m', local)"
  shows "chan_ok K N (ch\<lparr>chBreakManager := m'\<rparr>)"
proof (rule chan_ok_breaks[OF assms(1)])
  have "brk_tame (chBreakManager ch) (chBreakManager ch)" by (simp add: brk_tame_def tame_def)
  then show "brk_tame (chBreakManager ch) m'"
    using assms(2) write_memory_tame[OF assms(1)]
    by (auto simp: WriteMemory_def split: carg.splits option.splits prod.splits if_splits)
qed

section \<open>Every request\<close>

lemma step_request_ok:
  assumes "chan_ok K N ch" "kernel_ok K J" "DoStepRange c K k ch t a b into r n u = Some (k', ch', err)"
  shows "chan_ok K N ch'"
proof (cases t)
  case (Some th)
  then show ?thesis using step_range_returns[OF assms(1,2), of c k th a b into r n u] assms(3) by auto
qed (use assms in \<open>simp add: DoStepRange_def\<close>)

lemma thread_requests_ok:
  assumes "chan_ok K N ch" "kernel_ok K J"
  shows "DoSuspendThread K k ch t = Some (k', ch', err) \<Longrightarrow> chan_ok K N ch'"
    and "DoResumeThread c K k ch t = Some (k', ch', err) \<Longrightarrow> chan_ok K N ch'"
    and "StepRange c K k ch t a = Some (k', ch', err) \<Longrightarrow> chan_ok K N ch'"
    and "Step c K k ch i n = Some (k', ch', err) \<Longrightarrow> chan_ok K N ch'"
proof -
  show "DoSuspendThread K k ch t = Some (k', ch', err) \<Longrightarrow> chan_ok K N ch'"
  proof (cases t)
    case (Some th)
    then show "DoSuspendThread K k ch t = Some (k', ch', err) \<Longrightarrow> chan_ok K N ch'"
      using assms(1) suspend_thread[of K k ch th] by simp
  qed (use assms in \<open>auto simp: DoSuspendThread_def SuspendThread_def\<close>)
  show "DoResumeThread c K k ch t = Some (k', ch', err) \<Longrightarrow> chan_ok K N ch'"
  proof (cases t)
    case (Some th)
    then show "DoResumeThread c K k ch t = Some (k', ch', err) \<Longrightarrow> chan_ok K N ch'"
      using resume_returns[OF assms, of c k th] by auto
  qed (use assms in \<open>simp add: DoResumeThread_def\<close>)
  show "StepRange c K k ch t a = Some (k', ch', err) \<Longrightarrow> chan_ok K N ch'"
    using step_request_ok[OF assms] assms(1) by (auto simp: StepRange_def split: carg.splits)
  show "Step c K k ch i n = Some (k', ch', err) \<Longrightarrow> chan_ok K N ch'"
    using step_request_ok[OF assms] assms(1)
    by (auto simp: Step_def split: option.splits prod.splits if_splits bind_splits)
qed

lemma control_switch_ok:
  assumes "chan_ok K N ch" "kernel_ok K J" "N \<noteq> 0x7FFFFFFF"
    and "control_switch c K J L C junk k ch th f = Some (k', ch', err)"
  shows "chan_after K N ch'"
proof (cases f)
  case (EControlSetBreak a)
  then show ?thesis using assms set_break_request_ok[of K N ch J k a k' ch' err] by simp
next
  case (EControlClearBreak i)
  then show ?thesis using assms(4) clear_request_ok[OF assms(1)] by (auto simp: Let_def split: prod.splits)
next
  case (EControlModifyBreak a)
  then show ?thesis using assms(4) modify_request_ok[OF assms(1)] by (auto simp: Let_def split: prod.splits)
next
  case (EControlModifyProcessBreak a)
  then show ?thesis using assms(4) modify_process_request_ok[OF assms(1)] by (auto simp: Let_def split: prod.splits)
next
  case (EControlWriteMemory i a)
  then show ?thesis using assms(4) write_request_ok[OF assms(1)] by (auto split: prod.splits bind_splits)
next
  case (EControlDetachAgent a)
  then show ?thesis using assms(4) detach_agent_request_ok[OF assms(1)] by auto
next
  case (EControlAttachProcess a1 a2)
  then show ?thesis using assms(4) attach_request_ok[OF assms(1), of k junk a1 a2]
    by (auto simp: Let_def split: prod.splits)
next
  case (EControlDetachProcess a1 a2)
  then show ?thesis using assms(4) detach_request_ok[OF assms(1), of k a1 a2]
    by (auto simp: Let_def split: prod.splits)
next
  case (EControlSetEventAction a1 a2)
  then show ?thesis using assms(4) set_event_action_ok[OF assms(1), of k a1 a2]
    by (auto simp: Let_def split: prod.splits)
qed (use assms(1,4) thread_requests_ok[OF assms(1,2)] in
      \<open>auto simp: Let_def intro!: chan_after_ok split: prod.splits\<close>)

lemma do_control_ok:
  assumes "chan_ok K N ch" "kernel_ok K J" "N \<noteq> 0x7FFFFFFF"
    and "DoControl c K J L C junk k ch f = Some (k', ch', err)"
  shows "chan_after K N ch'"
  using assms(1,4) control_switch_ok[OF assms(1-3)] by (auto simp: DoControl_def split: option.splits)

lemma do_request_ok:
  assumes "chan_ok K N ch" "DoRequest K k ch n a2 = Some (ch', outs, status)"
  shows "chan_ok K N ch'"
proof -
  have "chan_ok K N (ch\<lparr>chTracker := put_agent (chTracker ch) r ag\<rparr>)"
    if f: "FindAgentForProcessAndId K (chTracker ch) name i = Some r"
      and g: "GetEvent K k (agent_at (chTracker ch) r) th = Some (ag, cs)" for name i r th ag cs
  proof -
    have a: "agent_ok (agent_at (chTracker ch) r)" by (rule found_agent_ok[OF assms(1) f])
    have "agent_pending ag \<in> {agent_pending (agent_at (chTracker ch) r), tl (agent_pending (agent_at (chTracker ch) r))}"
      "ag_inv ag"
      using a get_event_pending[OF _ g] get_event_ag_inv[OF _ g] by (simp_all add: agent_ok_def)
    then have "agent_ok ag"
      using a by (cases "agent_pending (agent_at (chTracker ch) r)") (auto simp: agent_ok_def)
    moreover have "agId ag = agId (agent_at (chTracker ch) r)"
      using g by (auto simp: GetEvent_def Let_def release_tail_def IncrementTailPosition_def set_slot_def
          split: if_splits prod.splits bind_splits)
    ultimately show ?thesis by (rule put_agent_ok[OF assms(1)])
  qed
  then show ?thesis using assms by (auto simp: DoRequest_def split: if_splits sum.splits prod.splits option.splits)
qed

lemma do_cancel_ok:
  assumes "chan_ok K N ch"
  shows "chan_ok K N (fst (DoCancel K ch info))"
  using assms put_agent_ok[OF assms, of "fst (CancelGetEvent (agent_at (chTracker ch) r))" r for r] found_agent_ok[OF assms]
  by (auto simp: DoCancel_def Let_def split: sum.splits prod.splits option.splits) (metis fst_conv cancel_ok)

section \<open>Messages\<close>

definition driver_after :: "'k kern \<Rightarrow> u32 \<Rightarrow> 'k driver \<Rightarrow> bool" where
  "driver_after K N d \<longleftrightarrow> chan_after K N (drChannel d)"

lemma handle_msg_ok:
  assumes "chan_ok K N (drChannel d)" "kernel_ok K J" "N \<noteq> 0x7FFFFFFF"
    and "HandleMsg c K J L C junk d msg = Some (d', outs, status, err)"
  shows "driver_after K N d'"
proof (cases msg)
  case (EControl f)
  then show ?thesis
    using assms(4) do_control_ok[OF assms(1-3), of c L C junk "drKernel d" f] by (auto simp: HandleMsg_def driver_after_def)
next
  case (ERequest n a2)
  then show ?thesis using assms(4) do_request_ok[OF assms(1)] by (auto simp: HandleMsg_def driver_after_def)
next
  case (ECancel info)
  then show ?thesis
    using assms(4) do_cancel_ok[OF assms(1), of info] by (auto simp: HandleMsg_def driver_after_def Let_def split: prod.splits)
next
  case EClose
  then show ?thesis using assms(1,4) by (auto simp: HandleMsg_def Stop_def driver_after_def split: if_splits)
qed

lemma send_msg_ok:
  assumes "chan_ok K N (drChannel d)" "kernel_ok K J" "N \<noteq> 0x7FFFFFFF"
    and "SendMsg c K J L C junk d msg = Some (d', outs, status, err)"
  shows "driver_after K N d'"
proof -
  have msg: "driver_after K N d1" if "HandleMsg c K J L C junk d m = Some (d1, o1, s1, e1)" for m d1 o1 s1 e1
    by (rule handle_msg_ok[OF assms(1-3) that])
  have "driver_after K N d" using assms(1) by (simp add: driver_after_def)
  then show ?thesis
    using assms(4) msg by (auto simp: SendMsg_def SendRequest_def Let_def split: TMessage.splits if_splits bind_splits)
qed

section \<open>Creation\<close>

lemma new_break_manager_ok:
  assumes "\<forall>n. kAppend K k n = KErrNone" "tracker_ok K (chTracker ch)"
  shows "chan_ok K 10 (ch\<lparr>chBreakManager := fst (Init KErrNone (new_D_RMD_Breakpoints K k))\<rparr>)"
proof -
  have "brk_inv (new_D_RMD_Breakpoints K k)" using assms(1) by (intro new_inv) blast
  then show ?thesis
    using assms(2) by (simp add: chan_ok_def Init_def not_ready_def new_D_RMD_Breakpoints_def brk_inv_def)
qed

lemma create_ok:
  assumes "DoCreate K J E k (new_DRM_DebugChannel K k t) = (d, KErrNone)" "ceBreakSemaphore E = KErrNone"
    and "\<forall>n. kAppend K k n = KErrNone" "tracker_ok K t"
  shows "chan_ok K 10 (drChannel d)" "drHandler d = Some True"
proof -
  show "chan_ok K 10 (drChannel d)"
    using assms(1,2) new_break_manager_ok[OF assms(3), of "new_DRM_DebugChannel K k t"] assms(4)
    by (auto simp: DoCreate_def Let_def Start_def new_DRM_DebugChannel_def split: if_splits)
  show "drHandler d = Some True"
    using assms(1) by (auto simp: DoCreate_def Let_def Start_def split: if_splits)
qed

section \<open>Every state the channel reaches\<close>

text \<open>A kernel event finds its handler with the tracking flag the channel has set; between events the rest of the
  kernel does what it likes with its own state.  The tracker is the driver's, so a channel that is opened after the
  last one was closed finds the agents that did not detach.  \<open>n\<close> counts the messages.\<close>

inductive channel_reach ::
  "cpu \<Rightarrow> 'k kern \<Rightarrow> 'k objs \<Rightarrow> 'k lists \<Rightarrow> u32 \<times> u32 \<Rightarrow> TDriverEventInfo \<Rightarrow> nat \<Rightarrow> 'k driver \<Rightarrow> bool"
  for c K J L C junk where
  created: "\<lbrakk>DoCreate K J E k (new_DRM_DebugChannel K k new_DProcessTracker) = (d, KErrNone); ceBreakSemaphore E = KErrNone; \<forall>n. kAppend K k n = KErrNone\<rbrakk> \<Longrightarrow>
    channel_reach c K J L C junk 0 d"
| reopened: "\<lbrakk>channel_reach c K J L C junk n d0; DoCreate K J E k (new_DRM_DebugChannel K k (chTracker (drChannel d0))) = (d, KErrNone);
      ceBreakSemaphore E = KErrNone; \<forall>n. kAppend K k n = KErrNone; drHandler d0 = None\<rbrakk> \<Longrightarrow>
    channel_reach c K J L C junk n d"
| kernel: "channel_reach c K J L C junk n d \<Longrightarrow> channel_reach c K J L C junk n (d\<lparr>drKernel := k\<rparr>)"
| event: "\<lbrakk>channel_reach c K J L C junk n d; event_ok J ev; drHandler d = Some b;
      HandleEvent c K J junk b (drKernel d) (drChannel d) ev = Some (k, ch, outs, r)\<rbrakk> \<Longrightarrow>
    channel_reach c K J L C junk n (d\<lparr>drKernel := k, drChannel := ch\<rparr>)"
| msg: "\<lbrakk>channel_reach c K J L C junk n d; SendMsg c K J L C junk d m = Some (d', outs, status, err)\<rbrakk> \<Longrightarrow>
    channel_reach c K J L C junk (Suc n) d'"
| closed: "\<lbrakk>channel_reach c K J L C junk n d; HandleMsg c K J L C junk d EClose = Some (d', outs, status, err)\<rbrakk> \<Longrightarrow>
    channel_reach c K J L C junk n d'"

lemma chan_ok_next: "chan_ok K N ch \<Longrightarrow> N = iNextBreakId (chBreakManager ch)"
  by (simp add: chan_ok_def)

lemma channel_reach_ok:
  assumes "channel_reach c K J L C junk n d" "kernel_ok K J" "n < 0x7FFFFFF5"
  shows "\<exists>N. chan_ok K N (drChannel d) \<and> unat N \<le> 10 + n"
  using assms
proof (induction rule: channel_reach.induct)
  case (created E k d)
  have "tracker_ok K new_DProcessTracker"
    by (simp add: new_DProcessTracker_def tracker_ok_def tracker_inv_def process_names_def)
  then have "chan_ok K 10 (drChannel d)" using create_ok(1)[OF created(1-3)] by blast
  then show ?case by (intro exI[of _ 10]) simp
next
  case (reopened n d0 E k d)
  then have "tracker_ok K (chTracker (drChannel d0))" by (auto simp: chan_ok_def)
  then have "chan_ok K 10 (drChannel d)" using create_ok(1)[OF reopened.hyps(2-4)] by blast
  then show ?case by (intro exI[of _ 10]) simp
next
  case (event n d ev b k ch outs r)
  then obtain N where N: "chan_ok K N (drChannel d)" "unat N \<le> 10 + n" by auto
  have "chan_ok K N ch"
    using handle_event_core[OF N(1) event.prems(1) event.hyps(2), of c junk b "drKernel d"] event.hyps(4) by auto
  then show ?case using N(2) by auto
next
  case (msg n d m d' outs status err)
  then obtain N where N: "chan_ok K N (drChannel d)" "unat N \<le> 10 + n" by auto
  have lt: "unat N < 0x7FFFFFFF" using N(2) msg.prems(2) by simp
  then have ne: "N \<noteq> 0x7FFFFFFF" by auto
  have "unat (N + 1) = unat N + 1" using lt by (simp add: unat_word_ariths)
  moreover have "driver_after K N d'" by (rule send_msg_ok[OF N(1) msg.prems(1) ne msg.hyps(2)])
  ultimately show ?case using N(2) by (auto simp: driver_after_def chan_after_def)
next
  case (closed n d d' outs status err)
  then show ?case by (auto simp: HandleMsg_def Stop_def split: if_splits)
qed auto


section \<open>A concrete run\<close>

text \<open>The channel is created and one agent attaches to the process named a.\<close>

definition demo_env :: create_env where
  "demo_env =
     \<lparr>ceCreateRequest = KErrNone, ceVersionSupported = True, ceInfo = None, ceCodeModifier = KErrNone, ceBreakSemaphore = KErrNone,
      ceDeviceOpen = KErrNone, ceClientOpen = KErrNone, ceHandlerSemaphore = KErrNone, ceHandlerAdd = KErrNone\<rparr>"

definition demo_created :: "demo driver" where
  "demo_created = fst (DoCreate demoK demoJ demo_env demo0 (new_DRM_DebugChannel demoK demo0 new_DProcessTracker))"

definition demo_name :: client_des where
  "demo_name = \<lparr>cdAddress = 0x400000, cdInfo = Inr (1, 1), cdRead = (KErrNone, [97])\<rparr>"

definition demo_attach :: TMessage where
  "demo_attach = EControl (EControlAttachProcess demo_name (Inr 9))"

lemma demo_create: "DoCreate demoK demoJ demo_env demo0 (new_DRM_DebugChannel demoK demo0 new_DProcessTracker) = (demo_created, KErrNone)"
  by (simp add: demo_created_def DoCreate_def demo_env_def demo_fields Create_def Start_def DoSecurityCheck_def Let_def)
    (simp add: demoJ_def)

lemma demo_after_alloc: "after_alloc demoK = demoK"
  by (simp add: after_alloc_def demoK_def)

definition demo_tracker :: DProcessTracker where
  "demo_tracker = new_DProcessTracker\<lparr>iProcesses := [\<lparr>iProcessName = Some [97], iAgentList = [demo_new_agent 9]\<rparr>]\<rparr>"

definition demo_attached :: "demo driver" where
  "demo_attached = demo_created\<lparr>drChannel := drChannel demo_created\<lparr>chTracker := demo_tracker\<rparr>\<rparr>"

lemma demo_created_fields: "chTracker (drChannel demo_created) = new_DProcessTracker" "drHandler demo_created = Some True"
  "drKernel demo_created = demo0"
  by (simp_all add: demo_created_def DoCreate_def demo_env_def demo_fields Create_def Start_def DoSecurityCheck_def Let_def
      new_DRM_DebugChannel_def) (simp_all add: demoJ_def)

lemma demo_send: "SendMsg demo_cpu demoK demoJ demoL (4, 4) demo_junk demo_created demo_attach = Some (demo_attached, [], None, KErrNone)"
proof -
  have "read_name demoK demo0 demo_name = Inr [97]"
    by (simp add: read_name_def demo_name_def demo_fields) (simp add: demoK_def)
  then have "req_AttachProcess demoK demo0 demo_junk (drChannel demo_created) demo_name (Inr 9) =
      (drChannel demo_created\<lparr>chTracker := demo_tracker\<rparr>, KErrNone)"
    by (simp add: req_AttachProcess_def demo_after_alloc demo_created_fields TrackerProps.demo_attach demo_tracker_def)
  then show ?thesis
    by (simp add: SendMsg_def HandleMsg_def DoControl_def demo_attach_def demo_created_fields demo_attached_def)
qed

lemma demo_reach: "channel_reach demo_cpu demoK demoJ demoL (4, 4) demo_junk 1 demo_attached"
proof -
  have "channel_reach demo_cpu demoK demoJ demoL (4, 4) demo_junk 0 demo_created"
    by (rule created[OF demo_create]) (simp_all add: demo_env_def demo_append)
  from msg[OF this demo_send] show ?thesis by simp
qed


end
