(* ===== verification/DriverClient.thy ===== *)
theory DriverClient
  imports ChannelControl
begin

text \<open>
  The driver as the debug security server sees it: the inline functions of the handle RRM_DebugDriver
  (inc/rm_debug_kerneldriver.h).  Each packs its arguments and sends one message to the channel; thread and
  process ids are cut to 32 bits by the parameter types.  A descriptor or a variable of the server that the driver reads
  or writes is described to the channel by its address and its contents.
\<close>

section \<open>The machine\<close>

text \<open>Everything the driver is parameterised with, and the server's own memory as the server reads it: the bytes at an
  address and the contents of the descriptor at an address; mcWrite is the server's own store to its variables.  mcMaxName is KMaxName, the room for a name in
  TEventMetaData and TRMD_DebugCancelInfo.\<close>

record 'k machine =
  mcCpu :: cpu
  mcKern :: "'k kern"
  mcObjs :: "'k objs"
  mcLists :: "'k lists"
  mcConst :: "u32 \<times> u32"
  mcJunk :: TDriverEventInfo
  mcRead :: "'k \<Rightarrow> u32 \<Rightarrow> nat \<Rightarrow> u8 list"
  mcDes :: "'k \<Rightarrow> u32 \<Rightarrow> u8 list"
  mcWrite :: "'k \<Rightarrow> u32 \<Rightarrow> u8 list \<Rightarrow> 'k"
  mcMaxName :: nat

definition send_msg ::
  "'k machine \<Rightarrow> 'k driver \<Rightarrow> TMessage \<Rightarrow> ('k driver \<times> completion list \<times> TErr option \<times> TErr) option" where
  "send_msg M d msg = SendMsg (mcCpu M) (mcKern M) (mcObjs M) (mcLists M) (mcConst M) (mcJunk M) d msg"

text \<open>RBusLogicalChannel::DoControl and DoSvControl.\<close>

definition control :: "'k machine \<Rightarrow> 'k driver \<Rightarrow> TControl \<Rightarrow> ('k driver \<times> TErr) option" where
  "control M d f = map_option (\<lambda>(d, outs, status, err). (d, err)) (send_msg M d (EControl f))"

text \<open>A descriptor of the server: its address, its contents and its maximum length.\<close>

record server_des =
  sdAddress :: u32
  sdBytes :: "u8 list"
  sdMax :: nat

definition as_client_des :: "server_des \<Rightarrow> client_des" where
  "as_client_des s = \<lparr>cdAddress = sdAddress s, cdInfo = Inr (length (sdBytes s), sdMax s), cdRead = (KErrNone, sdBytes s)\<rparr>"

definition as_memory_des :: "server_des \<Rightarrow> u32 \<times> TErr \<times> TDes8" where
  "as_memory_des s = (sdAddress s, KErrNone, \<lparr>dbuf = sdBytes s, dlen = length (sdBytes s)\<rparr>)"

section \<open>Breakpoints\<close>

text \<open>The breakpoint id is written to the address that is passed.\<close>

definition RRM_SetBreak ::
  "'k machine \<Rightarrow> 'k driver \<Rightarrow> u32 \<Rightarrow> u32 \<Rightarrow> u32 \<Rightarrow> TArchitectureMode \<Rightarrow> ('k driver \<times> TErr) option" where
  "RRM_SetBreak M d aBreakId aThreadId aAddress aMode =
     control M d (EControlSetBreak (Arg \<lparr>sbBreakId = aBreakId, sbId = ucast aThreadId, sbAddress = aAddress,
       sbMode = aMode, sbThreadSpecific = True\<rparr>))"

definition RRM_SetProcessBreak ::
  "'k machine \<Rightarrow> 'k driver \<Rightarrow> u32 \<Rightarrow> u32 \<Rightarrow> u32 \<Rightarrow> TArchitectureMode \<Rightarrow> ('k driver \<times> TErr) option" where
  "RRM_SetProcessBreak M d aBreakId aProcessId aAddress aMode =
     control M d (EControlSetBreak (Arg \<lparr>sbBreakId = aBreakId, sbId = ucast aProcessId, sbAddress = aAddress,
       sbMode = aMode, sbThreadSpecific = False\<rparr>))"

definition RRM_ClearBreak :: "'k machine \<Rightarrow> 'k driver \<Rightarrow> u32 \<Rightarrow> ('k driver \<times> TErr) option" where
  "RRM_ClearBreak M d aBreakId = control M d (EControlClearBreak aBreakId)"

definition RRM_ModifyBreak ::
  "'k machine \<Rightarrow> 'k driver \<Rightarrow> u32 \<Rightarrow> u32 \<Rightarrow> u32 \<Rightarrow> TArchitectureMode \<Rightarrow> ('k driver \<times> TErr) option" where
  "RRM_ModifyBreak M d aBreakId aThreadId aAddress aMode =
     control M d (EControlModifyBreak (Arg \<lparr>mBreakId = aBreakId, mId = ucast aThreadId, mAddress = aAddress, mMode = aMode\<rparr>))"

definition RRM_ModifyProcessBreak ::
  "'k machine \<Rightarrow> 'k driver \<Rightarrow> u32 \<Rightarrow> u32 \<Rightarrow> u32 \<Rightarrow> TArchitectureMode \<Rightarrow> ('k driver \<times> TErr) option" where
  "RRM_ModifyProcessBreak M d aBreakId aProcessId aAddress aMode =
     control M d (EControlModifyProcessBreak (Arg \<lparr>mBreakId = aBreakId, mId = ucast aProcessId, mAddress = aAddress, mMode = aMode\<rparr>))"

text \<open>The four addresses are those of the caller's variables.\<close>

definition RRM_BreakInfo ::
  "'k machine \<Rightarrow> 'k driver \<Rightarrow> u32 \<Rightarrow> u32 \<Rightarrow> u32 \<Rightarrow> u32 \<Rightarrow> u32 \<Rightarrow> ('k driver \<times> TErr) option" where
  "RRM_BreakInfo M d aBreakId aId aAddress aMode aThreadSpecific =
     control M d (EControlBreakInfo (Arg \<lparr>gBreakId = aBreakId, gId = aId, gAddress = aAddress, gMode = aMode,
       gThreadSpecific = aThreadSpecific\<rparr>))"

section \<open>Threads and processes\<close>

definition RRM_SuspendThread :: "'k machine \<Rightarrow> 'k driver \<Rightarrow> u32 \<Rightarrow> ('k driver \<times> TErr) option" where
  "RRM_SuspendThread M d aThreadId = control M d (EControlSuspendThread aThreadId)"

definition RRM_ResumeThread :: "'k machine \<Rightarrow> 'k driver \<Rightarrow> u32 \<Rightarrow> ('k driver \<times> TErr) option" where
  "RRM_ResumeThread M d aThreadId = control M d (EControlResumeThread aThreadId)"

definition RRM_Step :: "'k machine \<Rightarrow> 'k driver \<Rightarrow> u32 \<Rightarrow> u32 \<Rightarrow> ('k driver \<times> TErr) option" where
  "RRM_Step M d aThreadId aNumSteps = control M d (EControlStep aThreadId aNumSteps)"

definition RRM_IsDebuggable :: "'k machine \<Rightarrow> 'k driver \<Rightarrow> u32 \<Rightarrow> ('k driver \<times> TErr) option" where
  "RRM_IsDebuggable M d aProcessId = control M d (EControlIsDebuggable aProcessId)"

definition RRM_KillProcess :: "'k machine \<Rightarrow> 'k driver \<Rightarrow> u32 \<Rightarrow> u32 \<Rightarrow> ('k driver \<times> TErr) option" where
  "RRM_KillProcess M d aProcessId aReason = control M d (EControlKillProcess aProcessId aReason)"

section \<open>Memory and registers\<close>

definition RRM_ReadMemory ::
  "'k machine \<Rightarrow> 'k driver \<Rightarrow> u32 \<Rightarrow> u32 \<Rightarrow> u32 \<Rightarrow> server_des \<Rightarrow> ('k driver \<times> TErr) option" where
  "RRM_ReadMemory M d aThreadId aAddress aLength aData =
     control M d (EControlReadMemory aThreadId (Arg \<lparr>dmAddress = aAddress, dmLength = aLength, dmData = Some (as_memory_des aData)\<rparr>))"

definition RRM_WriteMemory ::
  "'k machine \<Rightarrow> 'k driver \<Rightarrow> u32 \<Rightarrow> u32 \<Rightarrow> u32 \<Rightarrow> server_des \<Rightarrow> ('k driver \<times> TErr) option" where
  "RRM_WriteMemory M d aThreadId aAddress aLength aData =
     control M d (EControlWriteMemory aThreadId (Arg \<lparr>dmAddress = aAddress, dmLength = aLength, dmData = Some (as_memory_des aData)\<rparr>))"

definition register_information :: "server_des \<Rightarrow> server_des \<Rightarrow> server_des \<Rightarrow> TRM_DebugRegisterInformation" where
  "register_information ids values flags =
     \<lparr>riIds = Some (as_client_des ids), riVals = Some (as_client_des values), riFlags = Some (as_client_des flags)\<rparr>"

definition RRM_ReadRegisters ::
  "'k machine \<Rightarrow> 'k driver \<Rightarrow> u32 \<Rightarrow> server_des \<Rightarrow> server_des \<Rightarrow> server_des \<Rightarrow> ('k driver \<times> TErr) option" where
  "RRM_ReadRegisters M d aThreadId aRegisterIds aRegisterValues aRegisterFlags =
     control M d (EControlReadRegisters aThreadId (Arg (register_information aRegisterIds aRegisterValues aRegisterFlags)))"

definition RRM_WriteRegisters ::
  "'k machine \<Rightarrow> 'k driver \<Rightarrow> u32 \<Rightarrow> server_des \<Rightarrow> server_des \<Rightarrow> server_des \<Rightarrow> ('k driver \<times> TErr) option" where
  "RRM_WriteRegisters M d aThreadId aRegisterIds aRegisterValues aRegisterFlags =
     control M d (EControlWriteRegisters aThreadId (Arg (register_information aRegisterIds aRegisterValues aRegisterFlags)))"

definition RRM_GetMemoryOperationMaxBlockSize :: "'k machine \<Rightarrow> 'k driver \<Rightarrow> u32 \<Rightarrow> ('k driver \<times> TErr) option" where
  "RRM_GetMemoryOperationMaxBlockSize M d aMaxSize = control M d (EControlGetMemoryOperationMaxBlockSize aMaxSize)"

section \<open>Functionality and listings\<close>

definition RRM_GetDebugFunctionalityBufSize :: "'k machine \<Rightarrow> 'k driver \<Rightarrow> u32 \<Rightarrow> ('k driver \<times> TErr) option" where
  "RRM_GetDebugFunctionalityBufSize M d aBufSize = control M d (EControlGetDebugFunctionalityBufSize aBufSize)"

definition RRM_GetDebugFunctionality :: "'k machine \<Rightarrow> 'k driver \<Rightarrow> server_des \<Rightarrow> ('k driver \<times> TErr) option" where
  "RRM_GetDebugFunctionality M d aDebugFunctionality = control M d (EControlGetDebugFunctionality (sdAddress aDebugFunctionality))"

text \<open>The id of the agent is an argument that the code does not use.\<close>

definition RRM_GetList ::
  "'k machine \<Rightarrow> 'k driver \<Rightarrow> TListId \<Rightarrow> TListScope \<Rightarrow> u64 \<Rightarrow> u64 \<Rightarrow> server_des \<Rightarrow> u32 \<Rightarrow> ('k driver \<times> TErr) option" where
  "RRM_GetList M d aType aListScope aTargetId aDebugProcessId aBuffer aDataSize =
     control M d (EControlGetList (Arg \<lparr>liType = aType, liListScope = aListScope, liBuffer = as_client_des aBuffer,
       liDataSize = aDataSize, liTargetId = aTargetId\<rparr>))"

section \<open>Agents and events\<close>

text \<open>The name is a descriptor of the server; the id is in a TRM_DebugAgentId there.\<close>

definition RRM_AttachProcess :: "'k machine \<Rightarrow> 'k driver \<Rightarrow> server_des \<Rightarrow> u64 \<Rightarrow> ('k driver \<times> TErr) option" where
  "RRM_AttachProcess M d aProcessName aAgentId = control M d (EControlAttachProcess (as_client_des aProcessName) (Inr aAgentId))"

definition RRM_DetachProcess :: "'k machine \<Rightarrow> 'k driver \<Rightarrow> server_des \<Rightarrow> u64 \<Rightarrow> ('k driver \<times> TErr) option" where
  "RRM_DetachProcess M d aProcessName aAgentId = control M d (EControlDetachProcess (as_client_des aProcessName) (Inr aAgentId))"

definition RRM_DetachAgent :: "'k machine \<Rightarrow> 'k driver \<Rightarrow> u64 \<Rightarrow> ('k driver \<times> TErr) option" where
  "RRM_DetachAgent M d aAgentId = control M d (EControlDetachAgent (Inr aAgentId))"

definition RRM_SetEventAction ::
  "'k machine \<Rightarrow> 'k driver \<Rightarrow> server_des \<Rightarrow> TEventType \<Rightarrow> TKernelEventAction \<Rightarrow> u64 \<Rightarrow> ('k driver \<times> TErr) option" where
  "RRM_SetEventAction M d aProcessName aEvent aEventAction aAgentId =
     control M d (EControlSetEventAction (as_client_des aProcessName) (Inr \<lparr>eaEvent = aEvent, eaAction = aEventAction, eaAgentId = aAgentId\<rparr>))"

text \<open>The asynchronous request for the next event, with the requests the driver completes and the code with which the
  status of this one is completed at once, if it is; and its cancellation.  Copying a name into a buffer that is too
  short for it is a panic.\<close>

definition RRM_GetEvent ::
  "'k machine \<Rightarrow> 'k driver \<Rightarrow> u8 list \<Rightarrow> u64 \<Rightarrow> ('k driver \<times> completion list \<times> TErr option) option" where
  "RRM_GetEvent M d aProcessName aAgentId =
     (if mcMaxName M < length aProcessName then None
      else map_option (\<lambda>(d, outs, status, err). (d, outs, status)) (send_msg M d (ERequest 0 (Inr (aProcessName, aAgentId)))))"

definition RRM_CancelGetEvent ::
  "'k machine \<Rightarrow> 'k driver \<Rightarrow> u8 list \<Rightarrow> u64 \<Rightarrow> ('k driver \<times> completion list) option" where
  "RRM_CancelGetEvent M d aProcessName aAgentId =
     (if mcMaxName M < length aProcessName then None
      else map_option (\<lambda>(d, outs, status, err). (d, outs)) (send_msg M d (ECancel (Inr (aProcessName, aAgentId)))))"

end
