(* ===== verification/SecurityServer.thy ===== *)
theory SecurityServer
  imports DriverClient
begin

text \<open>
  The debug security server (src/debugsrv/runmodedebug/securityserver): CSecuritySvrServer and CProcessPair with the maps
  of attached processes, and what the server's code rests on.  A function that may leave is an \<open>act\<close> on the state of the
  server and the session at work: None is a panic, Inl the reason it leaves with.  Objects on the cleanup stack need no
  state.  User-side Symbian OS is a record of functions over the kernel state, like the kernel of the driver.
\<close>

section \<open>Messages of the clients\<close>

datatype TDebugServRqst =
    EDebugServOpen | EDebugServClose | EDebugServSuspendThread | EDebugServResumeThread | EDebugServReadMemory
  | EDebugServWriteMemory | EDebugServSetBreak | EDebugServClearBreak | EDebugServModifyBreak | EDebugServGetEvent
  | EDebugServCancelGetEvent | EDebugServAttachExecutable | EDebugServDetachExecutable
  | EDebugServGetDebugFunctionalityBufSize | EDebugServGetDebugFunctionality | EDebugServReadRegisters
  | EDebugServWriteRegisters | EDebugServSetEventAction | EDebugServBreakInfo | EDebugServGetList | EDebugServStep
  | EDebugServSetProcessBreak | EDebugServProcessBreakInfo | EDebugServKillProcess | EDebugServModifyProcessBreak
  | EDebugServReadCrashFlash | EDebugServWriteCrashFlash | EDebugServEraseCrashFlash | EDebugServEraseEntireCrashFlash
  | EDebugServAttachAll | EDebugServDetachAll | EDebugServOther u32

text \<open>What RMessage2 answers: the integers, what reading a descriptor with room for so many bytes (or 16-bit units) yields,
  the length and the maximum length of a descriptor, the error of writing so many bytes to one, the error of opening the
  client's thread, and the id of its process.\<close>

record RMessage2 =
  msHandle :: nat
  msFunction :: TDebugServRqst
  msInt :: "nat \<Rightarrow> u32"
  msRead :: "nat \<Rightarrow> nat \<Rightarrow> TErr + u8 list"
  msRead16 :: "nat \<Rightarrow> nat \<Rightarrow> TErr + u16 list"
  msDesLength :: "nat \<Rightarrow> TErr + nat"
  msDesMaxLength :: "nat \<Rightarrow> TErr + nat"
  msWrite :: "nat \<Rightarrow> nat \<Rightarrow> TErr"
  msClient :: TErr
  msClientProcess :: "TErr + u64"

text \<open>What the client sees: bytes written to an argument of its message, and the completion of the message.\<close>

datatype server_out = Written nat nat "u8 list" | Completed nat TErr

section \<open>Symbian OS for the server\<close>

datatype TCapability = ECapabilityTCB | ECapabilityAllFiles | ECapabilityOther nat

type_synonym TCapabilitySet = "TCapability set"

record TLocalDriveCapsV2 =
  lcPartitionType :: u16
  lcType :: u32
  lcEraseBlockSize :: u32
  lcSize :: u64

text \<open>The variables whose addresses the server hands to the driver.\<close>

datatype server_local =
    L_result | L_dfsize | L_dftext | L_maxSize | L_breakId | L_objectId | L_address | L_mode | L_threadSpecific | L_data
  | L_ids | L_values | L_flags | L_processName8 | L_buffer | L_size

text \<open>
  hThreadOpen, hThreadProcess and hProcessOpen are RThread::Open, RThread::Process and RProcess::Open; hFileName,
  hProcessCaps and hSecureId read an open process; hFold is the folding of TDesC16::CompareF; hAllocOk says whether
  the n-th allocation of a request succeeds and hAppend is the result of growing a pointer array; hHeapLength is the
  maximum length of an HBufC8 that was allocated for so many bytes.  hConnect, hOpen, hHeader and
  hXip are the file server: connecting, opening a file for reading, reading its first KRequiredImageHeaderSize
  bytes, and its XIP attribute; hRomSize to hE32SecureId describe the two image headers.  hLibraryInfo gives the capabilities of
  RLibrary::GetInfo.  hCreate to hResume run the token; hDrives to hNand are the local drives.  hDriveList, hDriveChar and hGetDir
  list executables.  hEventBytes is a TEventInfo in memory.
\<close>

record 'k host =
  hMachine :: "'k machine"
  hLocal :: "server_local \<Rightarrow> u32"
  hStack :: u8
  hThreadOpen :: "'k \<Rightarrow> u64 \<Rightarrow> TErr"
  hThreadProcess :: "'k \<Rightarrow> u64 \<Rightarrow> TErr + u64"
  hProcessOpen :: "'k \<Rightarrow> u64 \<Rightarrow> TErr"
  hFileName :: "'k \<Rightarrow> u64 \<Rightarrow> u16 list"
  hProcessCaps :: "'k \<Rightarrow> u64 \<Rightarrow> TCapabilitySet"
  hSecureId :: "'k \<Rightarrow> u64 \<Rightarrow> u32"
  hFold :: "u16 \<Rightarrow> u16"
  hAllocOk :: "nat \<Rightarrow> bool"
  hAppend :: "'k \<Rightarrow> nat \<Rightarrow> TErr"
  hHeapLength :: "nat \<Rightarrow> nat"
  hConnect :: "'k \<Rightarrow> TErr"
  hOpen :: "'k \<Rightarrow> u16 list \<Rightarrow> TErr"
  hHeader :: "'k \<Rightarrow> u16 list \<Rightarrow> TErr + u8 list"
  hXip :: "'k \<Rightarrow> u16 list \<Rightarrow> TErr + bool"
  hRomSize :: nat
  hE32Size :: nat
  hRomFlags :: "u8 list \<Rightarrow> u32"
  hE32Flags :: "u8 list \<Rightarrow> u32"
  hKRomImageDebuggable :: u32
  hKImageDebuggable :: u32
  hRomSecureId :: "u8 list \<Rightarrow> u32"
  hE32SecureId :: "u8 list \<Rightarrow> u32"
  hLibraryInfo :: "'k \<Rightarrow> u16 list \<Rightarrow> TErr + TCapabilitySet"
  hAllCaps :: TCapabilitySet
  hCreate :: "'k \<Rightarrow> u16 list \<Rightarrow> 'k \<times> (TErr + u64)"
  hRendezvousPending :: "'k \<Rightarrow> u64 \<Rightarrow> bool"
  hKill :: "'k \<Rightarrow> u64 \<Rightarrow> 'k"
  hResume :: "'k \<Rightarrow> u64 \<Rightarrow> 'k"
  hDrives :: nat
  hDriveConnect :: "'k \<Rightarrow> nat \<Rightarrow> TErr"
  hDriveCaps :: "'k \<Rightarrow> nat \<Rightarrow> TErr + TLocalDriveCapsV2"
  hDriveRead :: "'k \<Rightarrow> nat \<Rightarrow> u64 \<Rightarrow> nat \<Rightarrow> TErr \<times> u8 list"
  hDriveWrite :: "'k \<Rightarrow> nat \<Rightarrow> u64 \<Rightarrow> u8 list \<Rightarrow> 'k \<times> TErr"
  hDriveFormat :: "'k \<Rightarrow> nat \<Rightarrow> u64 \<Rightarrow> u32 \<Rightarrow> 'k \<times> TErr"
  hCrashLog :: u16
  hNand :: u32
  hDriveList :: "'k \<Rightarrow> TErr + bool list"
  hDriveChar :: "'k \<Rightarrow> nat \<Rightarrow> TErr + u16"
  hGetDir :: "'k \<Rightarrow> u16 list \<Rightarrow> TErr \<times> (u16 list list) option"
  hVersionSupported :: "u32 \<Rightarrow> bool"
  hEventBytes :: "TEventInfo \<Rightarrow> u8 list"

section \<open>The state\<close>

record CProcessPair =
  ppName :: "u16 list"
  ppId :: u64

record 'k server =
  svActive :: "CProcessPair list"
  svPassive :: "CProcessPair list"
  svSessionCount :: u32
  svShutdown :: bool
  svDriver :: "'k driver"

text \<open>CSecuritySvrAsync: asActive is the flag of the active object, asStatus the code the request was completed with at
  once, if it was.\<close>

record async =
  asProcessName :: "u8 list"
  asAgentId :: u64
  asActive :: bool
  asStatus :: "TErr option"
  asMessage :: "RMessage2 option"

record session =
  seAgent :: u64
  seHandlers :: "async list"
  seServerNotified :: bool
  seCaps :: TCapabilitySet
  seDrive :: "nat option"
  seDriveCaps :: TLocalDriveCapsV2
  seCrashConnected :: bool

text \<open>The server with the session at work, what the clients saw, and the allocations made so far.\<close>

record 'k dss =
  dsServer :: "'k server"
  dsSession :: session
  dsOuts :: "server_out list"
  dsAllocs :: nat

section \<open>Functions that may leave\<close>

type_synonym ('k, 'a) act = "'k dss \<Rightarrow> ('k dss \<times> (TErr + 'a)) option"

definition returnL :: "'a \<Rightarrow> ('k, 'a) act" where
  "returnL x = (\<lambda>s. Some (s, Inr x))"

definition leaveL :: "TErr \<Rightarrow> ('k, 'a) act" where
  "leaveL e = (\<lambda>s. Some (s, Inl e))"

definition panicL :: "('k, 'a) act" where
  "panicL = (\<lambda>s. None)"

definition bindL :: "('k, 'a) act \<Rightarrow> ('a \<Rightarrow> ('k, 'b) act) \<Rightarrow> ('k, 'b) act" where
  "bindL m f = (\<lambda>s. case m s of None \<Rightarrow> None | Some (s, Inl e) \<Rightarrow> Some (s, Inl e) | Some (s, Inr x) \<Rightarrow> f x s)"

definition thenL :: "('k, unit) act \<Rightarrow> ('k, 'b) act \<Rightarrow> ('k, 'b) act" where
  "thenL m f = bindL m (\<lambda>_. f)"

definition getL :: "('k dss \<Rightarrow> 'a) \<Rightarrow> ('k, 'a) act" where
  "getL f = (\<lambda>s. Some (s, Inr (f s)))"

definition updateL :: "('k dss \<Rightarrow> 'k dss) \<Rightarrow> ('k, unit) act" where
  "updateL f = (\<lambda>s. Some (f s, Inr ()))"

definition ofsumL :: "TErr + 'a \<Rightarrow> ('k, 'a) act" where
  "ofsumL x = (\<lambda>s. Some (s, x))"

text \<open>User::LeaveIfError leaves with a negative code; a register flag that is returned as a code is not negative.\<close>

fun is_error :: "TErr \<Rightarrow> bool" where
  "is_error KErrNone = False"
| "is_error (KErrFlag f) = False"
| "is_error (KErrSys i) = (i < 0)"
| "is_error e = True"

definition LeaveIfError :: "TErr \<Rightarrow> ('k, unit) act" where
  "LeaveIfError e = (if is_error e then leaveL e else returnL ())"

definition allocL :: "'k host \<Rightarrow> ('k, unit) act" where
  "allocL S = (\<lambda>s. if hAllocOk S (dsAllocs s) then Some (s\<lparr>dsAllocs := dsAllocs s + 1\<rparr>, Inr ())
     else Some (s, Inl KErrNoMemory))"

abbreviation ds_driver :: "'k dss \<Rightarrow> 'k driver" where
  "ds_driver s \<equiv> svDriver (dsServer s)"

abbreviation ds_kernel :: "'k dss \<Rightarrow> 'k" where
  "ds_kernel s \<equiv> drKernel (ds_driver s)"

definition set_driver :: "'k driver \<Rightarrow> 'k dss \<Rightarrow> 'k dss" where
  "set_driver d s = s\<lparr>dsServer := (dsServer s)\<lparr>svDriver := d\<rparr>\<rparr>"

definition set_kernel :: "'k \<Rightarrow> 'k dss \<Rightarrow> 'k dss" where
  "set_kernel k s = set_driver ((ds_driver s)\<lparr>drKernel := k\<rparr>) s"

definition set_session :: "(session \<Rightarrow> session) \<Rightarrow> 'k dss \<Rightarrow> 'k dss" where
  "set_session f s = s\<lparr>dsSession := f (dsSession s)\<rparr>"

definition add_out :: "server_out \<Rightarrow> 'k dss \<Rightarrow> 'k dss" where
  "add_out out s = s\<lparr>dsOuts := dsOuts s @ [out]\<rparr>"

text \<open>A call of the driver, whose code is returned, and the form that leaves with it.\<close>

definition callL :: "'k host \<Rightarrow> ('k machine \<Rightarrow> 'k driver \<Rightarrow> ('k driver \<times> TErr) option) \<Rightarrow> ('k, TErr) act" where
  "callL S f = (\<lambda>s. map_option (\<lambda>(d, err). (set_driver d s, Inr err)) (f (hMachine S) (ds_driver s)))"

definition callLeaveL :: "'k host \<Rightarrow> ('k machine \<Rightarrow> 'k driver \<Rightarrow> ('k driver \<times> TErr) option) \<Rightarrow> ('k, unit) act" where
  "callLeaveL S f = bindL (callL S f) LeaveIfError"

text \<open>Messages: RMessage2::WriteL and RMessage2::Complete.\<close>

definition WriteL :: "RMessage2 \<Rightarrow> nat \<Rightarrow> u8 list \<Rightarrow> ('k, unit) act" where
  "WriteL msg i bs = thenL (LeaveIfError (msWrite msg i (length bs))) (updateL (add_out (Written (msHandle msg) i bs)))"

definition CompleteM :: "RMessage2 \<Rightarrow> TErr \<Rightarrow> ('k, unit) act" where
  "CompleteM msg err = updateL (add_out (Completed (msHandle msg) err))"

section \<open>c_process_pair.cpp\<close>

definition ProcessIdMatches :: "CProcessPair \<Rightarrow> u64 \<Rightarrow> bool" where
  "ProcessIdMatches p aProcessId \<longleftrightarrow> ppId p = aProcessId"

definition ProcessNameMatches :: "'k host \<Rightarrow> CProcessPair \<Rightarrow> u16 list \<Rightarrow> bool" where
  "ProcessNameMatches S p aProcessName \<longleftrightarrow> map (hFold S) (ppName p) = map (hFold S) aProcessName"

definition Equals :: "'k host \<Rightarrow> CProcessPair \<Rightarrow> u16 list \<Rightarrow> u64 \<Rightarrow> bool" where
  "Equals S p aProcessName aProcessId \<longleftrightarrow> ProcessIdMatches p aProcessId \<and> ProcessNameMatches S p aProcessName"

text \<open>The object and its copy of the name are allocated.\<close>

definition CProcessPair_NewL :: "'k host \<Rightarrow> u16 list \<Rightarrow> u64 \<Rightarrow> ('k, CProcessPair) act" where
  "CProcessPair_NewL S aProcessName aProcessId =
     thenL (allocL S) (thenL (allocL S) (returnL \<lparr>ppName = aProcessName, ppId = aProcessId\<rparr>))"

section \<open>c_security_svr_server.cpp: the maps\<close>

definition star :: "u16 list" where
  "star = [42]"

text \<open>The result is the error and the server with the pair in its map.\<close>

definition attach_pair :: "'k host \<Rightarrow> 'k \<Rightarrow> 'k server \<Rightarrow> CProcessPair \<Rightarrow> bool \<Rightarrow> 'k server \<times> TErr" where
  "attach_pair S k sv p aPassive =
     (if list_ex (\<lambda>q. Equals S q (ppName p) (ppId p)) (svActive sv) then (sv, KErrAlreadyExists)
      else if list_ex (\<lambda>q. Equals S q (ppName p) (ppId p)) (svPassive sv) then (sv, KErrAlreadyExists)
      else if aPassive then
        (let err = hAppend S k (length (svPassive sv)) in
         (if err = KErrNone then sv\<lparr>svPassive := svPassive sv @ [p]\<rparr> else sv, err))
      else if list_ex (\<lambda>q. \<not> ProcessNameMatches S p star \<and> ProcessNameMatches S p (ppName q)) (svActive sv)
        then (sv, KErrInUse)
      else
        (let err = hAppend S k (length (svActive sv)) in
         (if err = KErrNone then sv\<lparr>svActive := svActive sv @ [p]\<rparr> else sv, err)))"

definition server_AttachProcessL :: "'k host \<Rightarrow> u16 list \<Rightarrow> u64 \<Rightarrow> bool \<Rightarrow> ('k, TErr) act" where
  "server_AttachProcessL S aTargetProcessName aDebugAgentProcessId aPassive =
     bindL (CProcessPair_NewL S aTargetProcessName aDebugAgentProcessId) (\<lambda>p s.
       let (sv, err) = attach_pair S (ds_kernel s) (dsServer s) p aPassive in Some (s\<lparr>dsServer := sv\<rparr>, Inr err))"

text \<open>The first entry with the name and the agent is removed, from the active map if it has one.\<close>

definition server_DetachProcess :: "'k host \<Rightarrow> 'k server \<Rightarrow> u16 list \<Rightarrow> u64 \<Rightarrow> 'k server \<times> TErr" where
  "server_DetachProcess S sv aTargetProcessName aDebugAgentProcessId =
     (case find_index (\<lambda>q. Equals S q aTargetProcessName aDebugAgentProcessId) (svActive sv) of
        Some i \<Rightarrow> (sv\<lparr>svActive := remove_nth i (svActive sv)\<rparr>, KErrNone)
      | None \<Rightarrow>
          (case find_index (\<lambda>q. Equals S q aTargetProcessName aDebugAgentProcessId) (svPassive sv) of
             Some i \<Rightarrow> (sv\<lparr>svPassive := remove_nth i (svPassive sv)\<rparr>, KErrNone)
           | None \<Rightarrow> (sv, KErrNotFound)))"

text \<open>From the last entry down; \<open>n\<close> is the index after the one looked at.\<close>

fun detach_loop :: "u64 \<Rightarrow> nat \<Rightarrow> CProcessPair list \<Rightarrow> CProcessPair list" where
  "detach_loop a 0 ps = ps"
| "detach_loop a (Suc i) ps = detach_loop a i (if ProcessIdMatches (ps ! i) a then remove_nth i ps else ps)"

definition DetachAllProcesses :: "'k server \<Rightarrow> u64 \<Rightarrow> 'k server" where
  "DetachAllProcesses sv a =
     sv\<lparr>svActive := detach_loop a (length (svActive sv)) (svActive sv),
        svPassive := detach_loop a (length (svPassive sv)) (svPassive sv)\<rparr>"

definition IsActiveDebugger :: "'k host \<Rightarrow> 'k server \<Rightarrow> u16 list \<Rightarrow> u64 \<Rightarrow> bool" where
  "IsActiveDebugger S sv aTargetProcessName aDebugAgentProcessId =
     list_ex (\<lambda>q. Equals S q aTargetProcessName aDebugAgentProcessId \<or>
                 (ProcessIdMatches q aDebugAgentProcessId \<and> ProcessNameMatches S q star)) (svActive sv)"

definition IsDebugged :: "'k host \<Rightarrow> 'k server \<Rightarrow> u16 list \<Rightarrow> bool \<Rightarrow> bool" where
  "IsDebugged S sv aTargetProcessName aPassive =
     list_ex (\<lambda>q. ProcessNameMatches S q aTargetProcessName) (if aPassive then svPassive sv else svActive sv)"

definition IsDebugger :: "'k host \<Rightarrow> 'k server \<Rightarrow> u16 list \<Rightarrow> u64 \<Rightarrow> bool" where
  "IsDebugger S sv aTargetProcessName aDebugAgentProcessId \<longleftrightarrow>
     IsActiveDebugger S sv aTargetProcessName aDebugAgentProcessId \<or>
     list_ex (\<lambda>q. Equals S q aTargetProcessName aDebugAgentProcessId) (svPassive sv)"

section \<open>c_security_svr_server.cpp: sessions and permissions\<close>

definition SessionClosed :: "'k server \<Rightarrow> 'k server" where
  "SessionClosed sv =
     (let n = svSessionCount sv - 1 in
      sv\<lparr>svSessionCount := n, svShutdown := (if sint n < 1 then True else svShutdown sv)\<rparr>)"

definition SessionOpened :: "'k server \<Rightarrow> 'k server" where
  "SessionOpened sv = sv\<lparr>svSessionCount := svSessionCount sv + 1, svShutdown := False\<rparr>"

definition GetProcessIdFromMessage :: "RMessage2 \<Rightarrow> TErr + u64" where
  "GetProcessIdFromMessage msg = (if msClient msg \<noteq> KErrNone then Inl (msClient msg) else msClientProcess msg)"

definition OEMTokenPermitsDebugL :: "TCapabilitySet \<Rightarrow> TCapabilitySet \<Rightarrow> bool" where
  "OEMTokenPermitsDebugL aTokenCaps aTargetCaps =
     (if ECapabilityAllFiles \<notin> aTokenCaps then False
      else if \<not> aTargetCaps \<subseteq> aTokenCaps then False
      else if ECapabilityAllFiles \<in> aTargetCaps then ECapabilityTCB \<in> aTokenCaps
      else True)"

definition OEMTokenPermitsFlashAccessL :: "TCapabilitySet \<Rightarrow> bool" where
  "OEMTokenPermitsFlashAccessL aTokenCaps \<longleftrightarrow> ECapabilityTCB \<in> aTokenCaps"

definition CheckAttachedProcess :: "'k host \<Rightarrow> 'k server \<Rightarrow> u16 list \<Rightarrow> RMessage2 \<Rightarrow> bool \<Rightarrow> bool" where
  "CheckAttachedProcess S sv aTargetProcessName msg aPassive =
     (case GetProcessIdFromMessage msg of
        Inl err \<Rightarrow> False
      | Inr clientProcessId \<Rightarrow>
          if aPassive then IsDebugger S sv aTargetProcessName clientProcessId
          else IsActiveDebugger S sv aTargetProcessName clientProcessId)"

text \<open>The part that the two forms of CheckAttached share: the target process is open.  The driver is asked only when the token does
  not permit it; the id is cut to 32 bits there.\<close>

definition check_process :: "'k host \<Rightarrow> u64 \<Rightarrow> RMessage2 \<Rightarrow> bool \<Rightarrow> ('k, bool) act" where
  "check_process S pid msg aPassive =
     bindL (getL (\<lambda>s. (hFileName S (ds_kernel s) pid,
                       OEMTokenPermitsDebugL (seCaps (dsSession s)) (hProcessCaps S (ds_kernel s) pid)))) (\<lambda>(name, permitted).
     bindL (if permitted then returnL KErrNone else callL S (\<lambda>M d. RRM_IsDebuggable M d (ucast pid))) (\<lambda>err.
     if err \<noteq> KErrNone then returnL False
     else getL (\<lambda>s. CheckAttachedProcess S (dsServer s) name msg aPassive)))"

definition CheckAttached_thread :: "'k host \<Rightarrow> u64 \<Rightarrow> RMessage2 \<Rightarrow> bool \<Rightarrow> ('k, bool) act" where
  "CheckAttached_thread S aTargetThreadId msg aPassive =
     bindL (getL (\<lambda>s. (hThreadOpen S (ds_kernel s) aTargetThreadId, hThreadProcess S (ds_kernel s) aTargetThreadId))) (\<lambda>(err, proc).
     if err \<noteq> KErrNone then returnL False
     else case proc of Inl err \<Rightarrow> returnL False | Inr pid \<Rightarrow> check_process S pid msg aPassive)"

definition CheckAttached_process :: "'k host \<Rightarrow> u64 \<Rightarrow> RMessage2 \<Rightarrow> bool \<Rightarrow> ('k, bool) act" where
  "CheckAttached_process S aTargetProcessId msg aPassive =
     bindL (getL (\<lambda>s. hProcessOpen S (ds_kernel s) aTargetProcessId)) (\<lambda>err.
     if err \<noteq> KErrNone then returnL False else check_process S aTargetProcessId msg aPassive)"

text \<open>A new session of the client; \<open>junk\<close> stands for the drive's capabilities, which are not initialised.  The version is that of
  TVersion packed in a word.\<close>

definition NewSessionL :: "'k host \<Rightarrow> TLocalDriveCapsV2 \<Rightarrow> u32 \<Rightarrow> RMessage2 \<Rightarrow> nat \<Rightarrow> TErr + session" where
  "NewSessionL S junk aRequiredVersion msg n =
     (if \<not> hVersionSupported S aRequiredVersion then Inl KErrNotSupported
      else if is_error (msClient msg) then Inl (msClient msg)
      else case msClientProcess msg of
        Inl err \<Rightarrow> Inl err
      | Inr processId \<Rightarrow>
          if \<not> hAllocOk S n then Inl KErrNoMemory
          else Inr \<lparr>seAgent = processId, seHandlers = [], seServerNotified = False, seCaps = {}, seDrive = None,
                    seDriveCaps = junk, seCrashConnected = False\<rparr>)"

end
