(* ===== verification/SecurityChecks.thy ===== *)
theory SecurityChecks
  imports SecurityServer
begin

text \<open>
  What the requests of a session check and read before they reach the driver (c_security_svr_session.cpp): the arguments
  of a message, memory and register arguments, the debug token of the agent, the headers of executables and the crash
  log partition; and the asynchronous handlers of events (c_security_svr_async.cpp).
\<close>

section \<open>Arguments\<close>

text \<open>A structure read from a client: what the client's descriptor does not cover keeps its value.\<close>

definition ReadObjectL :: "RMessage2 \<Rightarrow> nat \<Rightarrow> u8 list \<Rightarrow> ('k, u8 list) act" where
  "ReadObjectL msg i init = bindL (ofsumL (msRead msg i (length init))) (\<lambda>bs. returnL (overwrite init 0 bs))"

definition on_stack :: "'k host \<Rightarrow> nat \<Rightarrow> u8 list" where
  "on_stack S n = replicate n (hStack S)"

definition field32 :: "nat \<Rightarrow> u8 list \<Rightarrow> u32" where
  "field32 off bs = of_le (take 4 (drop off bs))"

definition ReadTThreadIdL :: "'k host \<Rightarrow> RMessage2 \<Rightarrow> nat \<Rightarrow> ('k, u64) act" where
  "ReadTThreadIdL S msg i = bindL (ReadObjectL msg i (on_stack S 8)) (\<lambda>bs. returnL (of_le64 bs))"

definition ReadTProcessIdL :: "'k host \<Rightarrow> RMessage2 \<Rightarrow> nat \<Rightarrow> ('k, u64) act" where
  "ReadTProcessIdL S msg i = bindL (ReadObjectL msg i (on_stack S 8)) (\<lambda>bs. returnL (of_le64 bs))"

definition WriteDataL :: "RMessage2 \<Rightarrow> nat \<Rightarrow> u8 list \<Rightarrow> ('k, unit) act" where
  "WriteDataL msg i bs = WriteL msg i bs"

text \<open>The variables of the server that the driver fills in.\<close>

definition setL :: "'k host \<Rightarrow> server_local \<Rightarrow> u8 list \<Rightarrow> ('k, unit) act" where
  "setL S x bs = updateL (\<lambda>s. set_kernel (mcWrite (hMachine S) (ds_kernel s) (hLocal S x) bs) s)"

definition bytesL :: "'k host \<Rightarrow> server_local \<Rightarrow> nat \<Rightarrow> ('k, u8 list) act" where
  "bytesL S x n = getL (\<lambda>s. mcRead (hMachine S) (ds_kernel s) (hLocal S x) n)"

definition desL :: "'k host \<Rightarrow> server_local \<Rightarrow> ('k, u8 list) act" where
  "desL S x = getL (\<lambda>s. mcDes (hMachine S) (ds_kernel s) (hLocal S x))"

definition local_des :: "'k host \<Rightarrow> server_local \<Rightarrow> u8 list \<Rightarrow> nat \<Rightarrow> server_des" where
  "local_des S x bs n = \<lparr>sdAddress = hLocal S x, sdBytes = bs, sdMax = n\<rparr>"

definition arch_mode :: "u32 \<Rightarrow> TArchitectureMode" where
  "arch_mode w = (if w = 1 then EArmMode else if w = 2 then EThumbMode else if w = 3 then EThumb2EEMode else EOtherMode w)"

section \<open>Whether the agent is attached\<close>

definition CheckAttachedL_thread :: "'k host \<Rightarrow> u64 \<Rightarrow> RMessage2 \<Rightarrow> bool \<Rightarrow> ('k, unit) act" where
  "CheckAttachedL_thread S aThreadId msg aPassive =
     bindL (CheckAttached_thread S aThreadId msg aPassive) (\<lambda>ok. if \<not> ok then leaveL KErrPermissionDenied else returnL ())"

definition CheckAttachedL_process :: "'k host \<Rightarrow> u64 \<Rightarrow> RMessage2 \<Rightarrow> bool \<Rightarrow> ('k, unit) act" where
  "CheckAttachedL_process S aProcessId msg aPassive =
     bindL (CheckAttached_process S aProcessId msg aPassive) (\<lambda>ok. if \<not> ok then leaveL KErrPermissionDenied else returnL ())"

text \<open>Not called.\<close>

definition PermitDebugL :: "u64 \<Rightarrow> u16 list \<Rightarrow> bool" where
  "PermitDebugL aDebugAgentProcessId aTargetProcessName = True"

section \<open>Memory and registers\<close>

record TMemoryInfo =
  miAddress :: u32
  miSize :: u32
  miAccess :: u32
  miEndianess :: u32

definition EAccess32 :: u32 where "EAccess32 = 4"
definition EEndLE8 :: u32 where "EEndLE8 = 0"

definition TMemoryInfo_bytes :: "TMemoryInfo \<Rightarrow> u8 list" where
  "TMemoryInfo_bytes i = le32 (miAddress i) @ le32 (miSize i) @ le32 (miAccess i) @ le32 (miEndianess i)"

definition new_TMemoryInfo :: TMemoryInfo where
  "new_TMemoryInfo = \<lparr>miAddress = 0, miSize = 0, miAccess = EAccess32, miEndianess = EEndLE8\<rparr>"

definition ReadTMemoryInfoL :: "RMessage2 \<Rightarrow> nat \<Rightarrow> ('k, TMemoryInfo) act" where
  "ReadTMemoryInfoL msg i = bindL (ReadObjectL msg i (TMemoryInfo_bytes new_TMemoryInfo)) (\<lambda>bs.
     returnL \<lparr>miAddress = field32 0 bs, miSize = field32 4 bs, miAccess = field32 8 bs, miEndianess = field32 12 bs\<rparr>)"

text \<open>The largest block the driver takes, asked for each time.\<close>

definition max_block_size :: "'k host \<Rightarrow> ('k, u32) act" where
  "max_block_size S =
     thenL (setL S L_maxSize (le32 0)) (
     thenL (callLeaveL S (\<lambda>M d. RRM_GetMemoryOperationMaxBlockSize M d (hLocal S L_maxSize))) (
     bindL (bytesL S L_maxSize 4) (\<lambda>bs. returnL (of_le bs))))"

definition requireL :: "bool \<Rightarrow> TErr \<Rightarrow> ('k, unit) act" where
  "requireL b e = (if b then returnL () else leaveL e)"

definition ValidateMemoryInfoL :: "'k host \<Rightarrow> TMemoryInfo \<Rightarrow> ('k, unit) act" where
  "ValidateMemoryInfoL S aMemoryInfo =
     thenL (requireL (miSize aMemoryInfo \<noteq> 0) KErrArgument) (
     bindL (max_block_size S) (\<lambda>maxSize.
     thenL (requireL (miSize aMemoryInfo \<le> maxSize) KErrArgument) (
     thenL (requireL (miAddress aMemoryInfo \<le> not (miSize aMemoryInfo) + 1) KErrArgument) (
     thenL (requireL (miAccess aMemoryInfo = EAccess32) KErrNotSupported) (
     thenL (requireL (miEndianess aMemoryInfo = EEndLE8) KErrNotSupported) (
     thenL (requireL (miAddress aMemoryInfo mod miAccess aMemoryInfo = 0) KErrArgument) (
     requireL (miSize aMemoryInfo mod miAccess aMemoryInfo = 0) KErrArgument)))))))"

definition sizeof_TRegisterInfo :: nat where "sizeof_TRegisterInfo = 4"
definition sizeof_flag :: nat where "sizeof_flag = 1"

text \<open>The number of registers is returned.\<close>

definition ValidateRegisterBuffersL :: "'k host \<Rightarrow> RMessage2 \<Rightarrow> ('k, nat) act" where
  "ValidateRegisterBuffersL S msg =
     bindL (ofsumL (msDesMaxLength msg 1)) (\<lambda>idsBufferLength.
     bindL (ofsumL (msDesMaxLength msg 2)) (\<lambda>valuesBufferLength.
     bindL (ofsumL (msDesMaxLength msg 3)) (\<lambda>flagsBufferLength.
     bindL (max_block_size S) (\<lambda>maxSize.
     thenL (requireL (\<not> (unat maxSize < idsBufferLength \<or> unat maxSize < valuesBufferLength \<or> unat maxSize < flagsBufferLength))
              KErrArgument) (
     thenL (requireL (idsBufferLength mod sizeof_TRegisterInfo = 0) KErrArgument) (
     thenL (requireL (flagsBufferLength mod sizeof_flag = 0) KErrArgument) (
     thenL (requireL (idsBufferLength \<noteq> 0) KErrArgument) (
     let aNumberOfRegisters = idsBufferLength div sizeof_TRegisterInfo in
     thenL (requireL (flagsBufferLength = aNumberOfRegisters * sizeof_flag) KErrArgument) (
     returnL aNumberOfRegisters)))))))))"

section \<open>Headers of executables\<close>

definition CheckSufficientData :: "'k host \<Rightarrow> u8 list \<Rightarrow> bool \<Rightarrow> bool" where
  "CheckSufficientData S aHeaderData aXip \<longleftrightarrow> (if aXip then hRomSize S else hE32Size S) \<le> length aHeaderData"

definition OpenFileHandleL :: "'k host \<Rightarrow> u16 list \<Rightarrow> ('k, unit) act" where
  "OpenFileHandleL S aFileName =
     bindL (getL (\<lambda>s. hOpen S (ds_kernel s) aFileName)) (\<lambda>err. if err \<noteq> KErrNone then leaveL err else returnL ())"

definition IsExecutableXipL :: "'k host \<Rightarrow> u16 list \<Rightarrow> ('k, bool) act" where
  "IsExecutableXipL S aExecutable = bindL (getL (\<lambda>s. hXip S (ds_kernel s) aExecutable)) ofsumL"

text \<open>The header as far as it can be read, and whether the file is XIP, checked to be long enough.\<close>

definition read_header :: "'k host \<Rightarrow> u16 list \<Rightarrow> ('k, u8 list) act" where
  "read_header S aFileName =
     thenL (bindL (getL (\<lambda>s. hConnect S (ds_kernel s))) LeaveIfError) (
     thenL (OpenFileHandleL S aFileName) (
     thenL (allocL S) (
     bindL (bindL (getL (\<lambda>s. hHeader S (ds_kernel s) aFileName)) ofsumL) (\<lambda>e32HdrBuf.
     bindL (IsExecutableXipL S aFileName) (\<lambda>xip.
     thenL (requireL (CheckSufficientData S e32HdrBuf xip) KErrGeneral) (returnL e32HdrBuf))))))"

definition IsDebugBitSet :: "'k host \<Rightarrow> u8 list \<Rightarrow> bool \<Rightarrow> bool" where
  "IsDebugBitSet S aHeaderData aXip =
     (if \<not> CheckSufficientData S aHeaderData aXip then False
      else if aXip then hRomFlags S aHeaderData AND hKRomImageDebuggable S \<noteq> 0
      else hE32Flags S aHeaderData AND hKImageDebuggable S \<noteq> 0)"

definition IsDebuggableL :: "'k host \<Rightarrow> u16 list \<Rightarrow> ('k, unit) act" where
  "IsDebuggableL S aFileName =
     bindL (read_header S aFileName) (\<lambda>e32HdrBuf.
     bindL (IsExecutableXipL S aFileName) (\<lambda>xip. requireL (IsDebugBitSet S e32HdrBuf xip) KErrPermissionDenied))"

definition GetSecureIdL_header :: "'k host \<Rightarrow> u8 list \<Rightarrow> bool \<Rightarrow> ('k, u32) act" where
  "GetSecureIdL_header S aHeaderData aXip =
     thenL (requireL (CheckSufficientData S aHeaderData aXip) KErrGeneral)
       (returnL (if aXip then hRomSecureId S aHeaderData else hE32SecureId S aHeaderData))"

definition GetSecureIdL :: "'k host \<Rightarrow> u16 list \<Rightarrow> ('k, u32) act" where
  "GetSecureIdL S aFileName =
     bindL (read_header S aFileName) (\<lambda>e32HdrBuf.
     bindL (IsExecutableXipL S aFileName) (GetSecureIdL_header S e32HdrBuf))"

section \<open>The debug token\<close>

definition ascii :: "string \<Rightarrow> u16 list" where
  "ascii s = map of_char s"

definition hex_digit :: "u32 \<Rightarrow> u16" where
  "hex_digit d = (if d < 10 then ucast d + 48 else ucast d + 55)"

definition hex8 :: "u32 \<Rightarrow> u16 list" where
  "hex8 w = map (\<lambda>i. hex_digit (drop_bit (4 * i) w AND 15)) [7, 6, 5, 4, 3, 2, 1, 0]"

definition token_name :: "u32 \<Rightarrow> u16 list" where
  "token_name sid = ascii ''OEMDebug_'' @ hex8 sid @ ascii ''.exe''"

definition set_caps :: "TCapabilitySet \<Rightarrow> 'k dss \<Rightarrow> 'k dss" where
  "set_caps c = set_session (\<lambda>se. se\<lparr>seCaps := c\<rparr>)"

text \<open>The token is started suspended, its capabilities are noted, and it is let run; the names are in two buffers that are
  allocated.\<close>

definition run_token :: "'k host \<Rightarrow> u16 list \<Rightarrow> ('k, unit) act" where
  "run_token S agentTokenName = (\<lambda>s.
     let (k, r) = hCreate S (ds_kernel s) agentTokenName; s = set_kernel k s in
     case r of
       Inl err \<Rightarrow> Some (s, Inr ())
     | Inr pid \<Rightarrow>
         let k = (if hRendezvousPending S k pid then k else hKill S k pid);
             s = set_caps (hProcessCaps S k pid) s
         in Some (set_kernel (hResume S k pid) s, Inr ()))"

definition GetDebugAgentOEMTokenCapsL :: "'k host \<Rightarrow> ('k, unit) act" where
  "GetDebugAgentOEMTokenCapsL S =
     bindL (getL (\<lambda>s. seCaps (dsSession s))) (\<lambda>caps.
     if ECapabilityAllFiles \<in> caps then returnL ()
     else
       thenL (bindL (getL (\<lambda>s. hProcessOpen S (ds_kernel s) (seAgent (dsSession s)))) LeaveIfError) (
       bindL (getL (\<lambda>s. hSecureId S (ds_kernel s) (seAgent (dsSession s)))) (\<lambda>sid.
       thenL (allocL S) (
       thenL (allocL S) (
       run_token S (token_name sid))))))"

definition CheckFlashAccessPermissionL :: "'k host \<Rightarrow> ('k, TErr) act" where
  "CheckFlashAccessPermissionL S =
     thenL (GetDebugAgentOEMTokenCapsL S)
       (getL (\<lambda>s. if OEMTokenPermitsFlashAccessL (seCaps (dsSession s)) then KErrNone else KErrPermissionDenied))"

section \<open>The crash log partition\<close>

text \<open>The drives from \<open>i\<close> on; the drive and its capabilities are members, so they keep what was read last.  True when the
  partition was found.\<close>

fun find_partition :: "'k host \<Rightarrow> 'k \<Rightarrow> nat list \<Rightarrow> session \<Rightarrow> session \<times> bool" where
  "find_partition S k [] se = (se, False)"
| "find_partition S k (i # is) se =
     (if hDriveConnect S k i \<noteq> KErrNone then find_partition S k is se
      else
        let se = se\<lparr>seDrive := Some i\<rparr> in
        case hDriveCaps S k i of
          Inl err \<Rightarrow> find_partition S k is se
        | Inr caps \<Rightarrow>
            let se = se\<lparr>seDriveCaps := caps\<rparr> in
            if lcPartitionType caps = hCrashLog S then (se\<lparr>seCrashConnected := True\<rparr>, True) else find_partition S k is se)"

definition ConnectCrashPartitionL :: "'k host \<Rightarrow> ('k, unit) act" where
  "ConnectCrashPartitionL S = (\<lambda>s.
     let (se, found) = find_partition S (ds_kernel s) [0..<hDrives S] ((dsSession s)\<lparr>seCrashConnected := False\<rparr>);
         s = s\<lparr>dsSession := se\<rparr>
     in if \<not> found then Some (s, Inl KErrNotFound)
        else if lcType (seDriveCaps se) = hNand S then Some (s, Inl KErrNotSupported)
        else Some (s, Inr ()))"

section \<open>Handlers of events\<close>

definition put_handler :: "nat \<Rightarrow> async \<Rightarrow> 'k dss \<Rightarrow> 'k dss" where
  "put_handler i h = set_session (\<lambda>se. se\<lparr>seHandlers := (seHandlers se)[i := h]\<rparr>)"

definition handler_at :: "'k dss \<Rightarrow> nat \<Rightarrow> async" where
  "handler_at s i = seHandlers (dsSession s) ! i"

definition new_async :: "u8 list \<Rightarrow> u64 \<Rightarrow> async" where
  "new_async aProcessName aAgentId =
     \<lparr>asProcessName = aProcessName, asAgentId = aAgentId, asActive = False, asStatus = None, asMessage = None\<rparr>"

text \<open>The object and its copy of the name are allocated.\<close>

definition CSecuritySvrAsync_NewL :: "'k host \<Rightarrow> u8 list \<Rightarrow> u64 \<Rightarrow> ('k, async) act" where
  "CSecuritySvrAsync_NewL S aProcessName aAgentId =
     thenL (allocL S) (thenL (allocL S) (returnL (new_async aProcessName aAgentId)))"

definition async_GetEvent :: "'k host \<Rightarrow> nat \<Rightarrow> RMessage2 \<Rightarrow> ('k, unit) act" where
  "async_GetEvent S i msg = (\<lambda>s.
     let h = handler_at s i in
     if asActive h then CompleteM msg KErrInUse s
     else map_option (\<lambda>(d, outs, status).
            (put_handler i (h\<lparr>asMessage := Some msg, asActive := True, asStatus := status\<rparr>) (set_driver d s), Inr ()))
          (RRM_GetEvent (hMachine S) (ds_driver s) (asProcessName h) (asAgentId h)))"

text \<open>CActive::Cancel with DoCancel: nothing when the handler is not active; that the request is then completed, which the
  active object waits for, is the driver's doing and not shown here.\<close>

definition async_Cancel :: "'k host \<Rightarrow> nat \<Rightarrow> ('k, unit) act" where
  "async_Cancel S i = (\<lambda>s.
     let h = handler_at s i in
     if \<not> asActive h then Some (s, Inr ())
     else case asMessage h of
       None \<Rightarrow> None
     | Some msg \<Rightarrow>
         map_option (\<lambda>(d, outs).
            (put_handler i (h\<lparr>asActive := False, asStatus := None\<rparr>) (add_out (Completed (msHandle msg) KErrCancel) (set_driver d s)), Inr ()))
          (RRM_CancelGetEvent (hMachine S) (ds_driver s) (asProcessName h) (asAgentId h)))"

text \<open>The destructor cancels; then the object leaves the array.\<close>

definition delete_handler :: "'k host \<Rightarrow> nat \<Rightarrow> ('k, unit) act" where
  "delete_handler S i =
     thenL (async_Cancel S i) (updateL (set_session (\<lambda>se. se\<lparr>seHandlers := remove_nth i (seHandlers se)\<rparr>)))"

definition find_handler :: "u8 list \<Rightarrow> ('k, nat option) act" where
  "find_handler name = getL (\<lambda>s. find_index (\<lambda>h. name = asProcessName h) (seHandlers (dsSession s)))"

text \<open>RunL and RunError, when the request was completed with a code and an event.\<close>

definition async_RunL :: "'k host \<Rightarrow> nat \<Rightarrow> TErr \<Rightarrow> TEventInfo \<Rightarrow> ('k, unit) act" where
  "async_RunL S i status info = (\<lambda>s.
     let h = handler_at s i; s = put_handler i (h\<lparr>asActive := False, asStatus := None\<rparr>) s in
     case asMessage h of
       None \<Rightarrow> None
     | Some msg \<Rightarrow>
         thenL (LeaveIfError status) (
         bindL (ofsumL (msDesMaxLength msg 1)) (\<lambda>maxLengthClientSide.
         thenL (WriteL msg 1 (take maxLengthClientSide (hEventBytes S info))) (
         CompleteM msg KErrNone))) s)"

definition async_RunError :: "nat \<Rightarrow> TErr \<Rightarrow> ('k, unit) act" where
  "async_RunError i aError = (\<lambda>s.
     case asMessage (handler_at s i) of None \<Rightarrow> None | Some msg \<Rightarrow> CompleteM msg aError s)"

definition async_run :: "'k host \<Rightarrow> nat \<Rightarrow> TErr \<Rightarrow> TEventInfo \<Rightarrow> ('k, unit) act" where
  "async_run S i status info = (\<lambda>s.
     case async_RunL S i status info s of
       Some (s, Inl err) \<Rightarrow> async_RunError i err s
     | r \<Rightarrow> r)"

end
