(* ===== verification/SecuritySession.thy ===== *)
theory SecuritySession
  imports SecurityChecks
begin

text \<open>
  A session of the debug security server (CSecuritySvrSession, c_security_svr_session.cpp): one definition per request, the
  dispatch in ServiceL, the completion of a request that left, and the end of the session.  The heap
  markers and the requests of debug builds are not modelled.
\<close>

section \<open>Threads\<close>

definition SuspendThreadL :: "'k host \<Rightarrow> RMessage2 \<Rightarrow> ('k, unit) act" where
  "SuspendThreadL S msg =
     bindL (ReadTThreadIdL S msg 0) (\<lambda>threadId.
     thenL (CheckAttachedL_thread S threadId msg False) (
     thenL (callLeaveL S (\<lambda>M d. RRM_SuspendThread M d (ucast threadId))) (
     CompleteM msg KErrNone)))"

text \<open>The driver's code completes the message, whatever it is.\<close>

definition ResumeThreadL :: "'k host \<Rightarrow> RMessage2 \<Rightarrow> ('k, unit) act" where
  "ResumeThreadL S msg =
     bindL (ReadTThreadIdL S msg 0) (\<lambda>threadId.
     thenL (CheckAttachedL_thread S threadId msg False) (
     bindL (callL S (\<lambda>M d. RRM_ResumeThread M d (ucast threadId))) (CompleteM msg)))"

definition StepL :: "'k host \<Rightarrow> RMessage2 \<Rightarrow> ('k, unit) act" where
  "StepL S msg =
     bindL (ReadTThreadIdL S msg 0) (\<lambda>threadId.
     thenL (CheckAttachedL_thread S threadId msg False) (
     thenL (callLeaveL S (\<lambda>M d. RRM_Step M d (ucast threadId) (msInt msg 1))) (
     CompleteM msg KErrNone)))"

definition KillProcessL :: "'k host \<Rightarrow> RMessage2 \<Rightarrow> ('k, unit) act" where
  "KillProcessL S msg =
     bindL (ReadTProcessIdL S msg 0) (\<lambda>processId.
     thenL (CheckAttachedL_process S processId msg False) (
     thenL (callLeaveL S (\<lambda>M d. RRM_KillProcess M d (ucast processId) (msInt msg 1))) (
     CompleteM msg KErrNone)))"

section \<open>Functionality\<close>

definition GetDebugFunctionalityBufSizeL :: "'k host \<Rightarrow> RMessage2 \<Rightarrow> ('k, unit) act" where
  "GetDebugFunctionalityBufSizeL S msg =
     thenL (setL S L_result (le32 0)) (
     thenL (callLeaveL S (\<lambda>M d. RRM_GetDebugFunctionalityBufSize M d (hLocal S L_result))) (
     bindL (bytesL S L_result 4) (\<lambda>bs. thenL (WriteL msg 0 bs) (CompleteM msg KErrNone))))"

definition GetDebugFunctionalityL :: "'k host \<Rightarrow> RMessage2 \<Rightarrow> ('k, unit) act" where
  "GetDebugFunctionalityL S msg =
     thenL (setL S L_dfsize (le32 0)) (
     thenL (callLeaveL S (\<lambda>M d. RRM_GetDebugFunctionalityBufSize M d (hLocal S L_dfsize))) (
     bindL (bytesL S L_dfsize 4) (\<lambda>dfsize.
     thenL (allocL S) (
     thenL (callLeaveL S (\<lambda>M d. RRM_GetDebugFunctionality M d (local_des S L_dftext [] (unat (of_le dfsize))))) (
     bindL (desL S L_dftext) (\<lambda>dftext.
     thenL (WriteL msg 0 dftext) (
     CompleteM msg KErrNone)))))))"

section \<open>Memory\<close>

definition ReadMemoryL :: "'k host \<Rightarrow> RMessage2 \<Rightarrow> ('k, unit) act" where
  "ReadMemoryL S msg =
     bindL (ReadTThreadIdL S msg 0) (\<lambda>threadId.
     thenL (CheckAttachedL_thread S threadId msg True) (
     bindL (ReadTMemoryInfoL msg 1) (\<lambda>targetMemory.
     thenL (ValidateMemoryInfoL S targetMemory) (
     thenL (allocL S) (
     thenL (callLeaveL S (\<lambda>M d. RRM_ReadMemory M d (ucast threadId) (miAddress targetMemory) (miSize targetMemory)
              (local_des S L_data [] (unat (miSize targetMemory))))) (
     bindL (desL S L_data) (\<lambda>data.
     thenL (WriteL msg 2 data) (
     CompleteM msg KErrNone))))))))"

definition WriteMemoryL :: "'k host \<Rightarrow> RMessage2 \<Rightarrow> ('k, unit) act" where
  "WriteMemoryL S msg =
     bindL (ReadTThreadIdL S msg 0) (\<lambda>threadId.
     thenL (CheckAttachedL_thread S threadId msg False) (
     bindL (ReadTMemoryInfoL msg 1) (\<lambda>targetMemory.
     thenL (ValidateMemoryInfoL S targetMemory) (
     thenL (allocL S) (
     bindL (ofsumL (msRead msg 2 (unat (miSize targetMemory)))) (\<lambda>data.
     thenL (callLeaveL S (\<lambda>M d. RRM_WriteMemory M d (ucast threadId) (miAddress targetMemory) (miSize targetMemory)
              (local_des S L_data data (unat (miSize targetMemory))))) (
     CompleteM msg KErrNone)))))))"

section \<open>Breakpoints\<close>

text \<open>TBreakInfo: the address and the mode.\<close>

definition ReadTBreakInfoL :: "'k host \<Rightarrow> RMessage2 \<Rightarrow> nat \<Rightarrow> ('k, u32 \<times> TArchitectureMode) act" where
  "ReadTBreakInfoL S msg i =
     bindL (ReadObjectL msg i (on_stack S 8)) (\<lambda>bs. returnL (field32 0 bs, arch_mode (field32 4 bs)))"

definition SetBreakL :: "'k host \<Rightarrow> RMessage2 \<Rightarrow> ('k, unit) act" where
  "SetBreakL S msg =
     bindL (ReadTThreadIdL S msg 0) (\<lambda>threadId.
     thenL (CheckAttachedL_thread S threadId msg False) (
     bindL (ReadTBreakInfoL S msg 1) (\<lambda>(address, mode).
     thenL (setL S L_breakId (le32 0)) (
     thenL (callLeaveL S (\<lambda>M d. RRM_SetBreak M d (hLocal S L_breakId) (ucast threadId) address mode)) (
     bindL (bytesL S L_breakId 4) (\<lambda>breakId.
     thenL (WriteDataL msg 2 breakId) (
     CompleteM msg KErrNone)))))))"

definition SetProcessBreakL :: "'k host \<Rightarrow> RMessage2 \<Rightarrow> ('k, unit) act" where
  "SetProcessBreakL S msg =
     bindL (ReadTProcessIdL S msg 0) (\<lambda>procId.
     thenL (CheckAttachedL_process S procId msg False) (
     bindL (ReadTBreakInfoL S msg 1) (\<lambda>(address, mode).
     thenL (setL S L_breakId (le32 0)) (
     thenL (callLeaveL S (\<lambda>M d. RRM_SetProcessBreak M d (hLocal S L_breakId) (ucast procId) address mode)) (
     bindL (bytesL S L_breakId 4) (\<lambda>breakId.
     thenL (WriteDataL msg 2 breakId) (
     CompleteM msg KErrNone)))))))"

text \<open>What the driver tells about a breakpoint: its object, address, mode, and whether it is of a thread.\<close>

definition break_info :: "'k host \<Rightarrow> u32 \<Rightarrow> ('k, u64 \<times> u8 list \<times> u8 list \<times> bool) act" where
  "break_info S breakId =
     thenL (callLeaveL S (\<lambda>M d. RRM_BreakInfo M d breakId (hLocal S L_objectId) (hLocal S L_address) (hLocal S L_mode)
              (hLocal S L_threadSpecific))) (
     bindL (bytesL S L_objectId 8) (\<lambda>objectId.
     bindL (bytesL S L_address 4) (\<lambda>address.
     bindL (bytesL S L_mode 4) (\<lambda>mode.
     bindL (bytesL S L_threadSpecific 4) (\<lambda>threadSpecific.
     returnL (of_le64 objectId, address, mode, of_le threadSpecific \<noteq> 0))))))"

definition ClearBreakL :: "'k host \<Rightarrow> RMessage2 \<Rightarrow> ('k, unit) act" where
  "ClearBreakL S msg =
     (let breakId = msInt msg 0 in
      thenL (setL S L_threadSpecific (le32 0)) (
      bindL (break_info S breakId) (\<lambda>(objectId, address, mode, threadSpecific).
      thenL (if threadSpecific then CheckAttachedL_thread S objectId msg False
             else CheckAttachedL_process S objectId msg False) (
      thenL (callLeaveL S (\<lambda>M d. RRM_ClearBreak M d breakId)) (
      CompleteM msg KErrNone)))))"

definition write_break_info :: "RMessage2 \<Rightarrow> u64 \<Rightarrow> u8 list \<Rightarrow> u8 list \<Rightarrow> ('k, unit) act" where
  "write_break_info msg objectId address mode =
     thenL (WriteDataL msg 1 (le64 objectId)) (
     thenL (WriteDataL msg 2 address) (
     thenL (WriteDataL msg 3 mode) (
     CompleteM msg KErrNone)))"

definition BreakInfoL :: "'k host \<Rightarrow> RMessage2 \<Rightarrow> ('k, unit) act" where
  "BreakInfoL S msg =
     thenL (setL S L_threadSpecific (le32 1)) (
     bindL (break_info S (msInt msg 0)) (\<lambda>(threadId, address, mode, threadSpecific).
     thenL (requireL threadSpecific KErrNotFound) (
     thenL (CheckAttachedL_thread S threadId msg False) (
     write_break_info msg threadId address mode))))"

definition ProcessBreakInfoL :: "'k host \<Rightarrow> RMessage2 \<Rightarrow> ('k, unit) act" where
  "ProcessBreakInfoL S msg =
     bindL (break_info S (msInt msg 0)) (\<lambda>(procId, address, mode, threadSpecific).
     thenL (requireL (\<not> threadSpecific) KErrNotFound) (
     thenL (CheckAttachedL_process S procId msg False) (
     write_break_info msg procId address mode)))"

text \<open>Whether the breakpoint is of a thread is not looked at: its object is taken for a thread, and for a process.\<close>

definition ModifyBreakL :: "'k host \<Rightarrow> RMessage2 \<Rightarrow> ('k, unit) act" where
  "ModifyBreakL S msg =
     (let breakId = msInt msg 0 in
      bindL (ReadTThreadIdL S msg 1) (\<lambda>threadId.
      bindL (break_info S breakId) (\<lambda>(checkThreadId, checkAddress, checkMode, threadSpecific).
      thenL (CheckAttachedL_thread S checkThreadId msg False) (
      thenL (CheckAttachedL_thread S threadId msg False) (
      thenL (callLeaveL S (\<lambda>M d. RRM_ModifyBreak M d breakId (ucast threadId) (msInt msg 2) (arch_mode (msInt msg 3)))) (
      CompleteM msg KErrNone))))))"

definition ModifyProcessBreakL :: "'k host \<Rightarrow> RMessage2 \<Rightarrow> ('k, unit) act" where
  "ModifyProcessBreakL S msg =
     (let breakId = msInt msg 0 in
      bindL (ReadTProcessIdL S msg 1) (\<lambda>processId.
      bindL (break_info S breakId) (\<lambda>(checkProcessId, checkAddress, checkMode, threadSpecific).
      thenL (CheckAttachedL_process S checkProcessId msg False) (
      thenL (CheckAttachedL_process S processId msg False) (
      thenL (callLeaveL S (\<lambda>M d. RRM_ModifyProcessBreak M d breakId (ucast processId) (msInt msg 2) (arch_mode (msInt msg 3)))) (
      CompleteM msg KErrNone))))))"

section \<open>Registers\<close>

text \<open>The maximum length of the values was answered without an error before, when the buffers were checked.\<close>

definition max_length2 :: "RMessage2 \<Rightarrow> ('k, nat) act" where
  "max_length2 msg = (case msDesMaxLength msg 2 of Inl err \<Rightarrow> panicL | Inr n \<Rightarrow> returnL n)"

definition ReadRegistersL :: "'k host \<Rightarrow> RMessage2 \<Rightarrow> ('k, unit) act" where
  "ReadRegistersL S msg =
     bindL (ReadTThreadIdL S msg 0) (\<lambda>threadId.
     thenL (CheckAttachedL_thread S threadId msg True) (
     bindL (ValidateRegisterBuffersL S msg) (\<lambda>numberOfRegisters.
     thenL (allocL S) (
     bindL (ofsumL (msRead msg 1 (numberOfRegisters * sizeof_TRegisterInfo))) (\<lambda>ids.
     bindL (max_length2 msg) (\<lambda>valuesLength.
     thenL (allocL S) (
     thenL (allocL S) (
     thenL (callLeaveL S (\<lambda>M d. RRM_ReadRegisters M d (ucast threadId)
              (local_des S L_ids ids (numberOfRegisters * sizeof_TRegisterInfo))
              (local_des S L_values [] (hHeapLength S valuesLength))
              (local_des S L_flags [] (hHeapLength S (numberOfRegisters * sizeof_flag))))) (
     bindL (desL S L_values) (\<lambda>values.
     bindL (desL S L_flags) (\<lambda>flags.
     thenL (WriteL msg 2 values) (
     thenL (WriteL msg 3 flags) (
     CompleteM msg KErrNone)))))))))))))"

definition WriteRegistersL :: "'k host \<Rightarrow> RMessage2 \<Rightarrow> ('k, unit) act" where
  "WriteRegistersL S msg =
     bindL (ReadTThreadIdL S msg 0) (\<lambda>threadId.
     thenL (CheckAttachedL_thread S threadId msg False) (
     bindL (ValidateRegisterBuffersL S msg) (\<lambda>numberOfRegisters.
     thenL (allocL S) (
     bindL (ofsumL (msRead msg 1 (numberOfRegisters * sizeof_TRegisterInfo))) (\<lambda>ids.
     bindL (max_length2 msg) (\<lambda>valuesLength.
     thenL (allocL S) (
     bindL (ofsumL (msRead msg 2 valuesLength)) (\<lambda>values.
     thenL (allocL S) (
     thenL (callLeaveL S (\<lambda>M d. RRM_WriteRegisters M d (ucast threadId)
              (local_des S L_ids ids (numberOfRegisters * sizeof_TRegisterInfo))
              (local_des S L_values values valuesLength)
              (local_des S L_flags [] (hHeapLength S (numberOfRegisters * sizeof_flag))))) (
     bindL (desL S L_flags) (\<lambda>flags.
     thenL (WriteL msg 3 flags) (
     CompleteM msg KErrNone))))))))))))"

section \<open>Attaching\<close>

text \<open>RBuf8::Copy of 16-bit text: a unit above 255 becomes 1.\<close>

definition copy8 :: "u16 list \<Rightarrow> u8 list" where
  "copy8 name = map (\<lambda>c. if 255 < c then 1 else ucast c) name"

text \<open>The handler for the name goes first in the array; when the array cannot grow the driver and the maps are told.\<close>

definition insert_handler :: "'k host \<Rightarrow> u16 list \<Rightarrow> u8 list \<Rightarrow> nat \<Rightarrow> ('k, unit) act" where
  "insert_handler S processName processName8 deslen =
     bindL (getL (\<lambda>s. seAgent (dsSession s))) (\<lambda>agent.
     bindL (CSecuritySvrAsync_NewL S processName8 agent) (\<lambda>handler.
     bindL (getL (\<lambda>s. hAppend S (ds_kernel s) (length (seHandlers (dsSession s))))) (\<lambda>err.
     if err \<noteq> KErrNone then
       bindL (callL S (\<lambda>M d. RRM_DetachProcess M d (local_des S L_processName8 processName8 deslen) agent)) (\<lambda>_.
       thenL (updateL (\<lambda>s. s\<lparr>dsServer := fst (server_DetachProcess S (dsServer s) processName agent)\<rparr>)) (
       LeaveIfError err))
     else updateL (set_session (\<lambda>se. se\<lparr>seHandlers := handler # seHandlers se\<rparr>)))))"

text \<open>What AttachProcessL does once the agent may debug the target.\<close>

definition attach_permitted :: "'k host \<Rightarrow> RMessage2 \<Rightarrow> u16 list \<Rightarrow> nat \<Rightarrow> bool \<Rightarrow> ('k, unit) act" where
  "attach_permitted S msg processName deslen passive =
     bindL (getL (\<lambda>s. seAgent (dsSession s))) (\<lambda>agent.
     thenL (bindL (server_AttachProcessL S processName agent passive) LeaveIfError) (
     thenL (allocL S) (
     let processName8 = copy8 processName in
     thenL (callLeaveL S (\<lambda>M d. RRM_AttachProcess M d (local_des S L_processName8 processName8 deslen) agent)) (
     thenL (insert_handler S processName processName8 deslen) (
     CompleteM msg KErrNone)))))"

definition AttachProcessL :: "'k host \<Rightarrow> RMessage2 \<Rightarrow> ('k, unit) act" where
  "AttachProcessL S msg =
     (let passive = (msInt msg 0 \<noteq> 0) in
      bindL (ofsumL (msDesLength msg 1)) (\<lambda>deslen.
      thenL (allocL S) (
      bindL (ofsumL (msRead16 msg 1 deslen)) (\<lambda>processName.
      bindL (GetSecureIdL S processName) (\<lambda>secureId.
      thenL (requireL (KUidDebugSecurityServer \<noteq> secureId) KErrPermissionDenied) (
      thenL (GetDebugAgentOEMTokenCapsL S) (
      bindL (getL (\<lambda>s. (hLibraryInfo S (ds_kernel s) processName, seCaps (dsSession s)))) (\<lambda>(info, tokenCaps).
      case info of
        Inl err \<Rightarrow> CompleteM msg err
      | Inr caps \<Rightarrow>
          thenL (if OEMTokenPermitsDebugL tokenCaps caps then returnL () else IsDebuggableL S processName) (
          attach_permitted S msg processName deslen passive)))))))))"

text \<open>The star is in a buffer on the stack, so nothing is allocated for it.\<close>

definition AttachAllL :: "'k host \<Rightarrow> RMessage2 \<Rightarrow> ('k, unit) act" where
  "AttachAllL S msg =
     thenL (GetDebugAgentOEMTokenCapsL S) (
     bindL (getL (\<lambda>s. (seCaps (dsSession s), seAgent (dsSession s)))) (\<lambda>(tokenCaps, agent).
     thenL (requireL (OEMTokenPermitsDebugL tokenCaps (hAllCaps S)) KErrPermissionDenied) (
     thenL (bindL (server_AttachProcessL S star agent False) LeaveIfError) (
     thenL (callLeaveL S (\<lambda>M d. RRM_AttachProcess M d (local_des S L_processName8 (copy8 star) 1) agent)) (
     thenL (insert_handler S star (copy8 star) 1) (
     CompleteM msg KErrNone))))))"

section \<open>Detaching\<close>

definition detach_pair :: "'k host \<Rightarrow> u16 list \<Rightarrow> ('k, unit) act" where
  "detach_pair S processName = bindL (\<lambda>s.
     let (sv, err) = server_DetachProcess S (dsServer s) processName (seAgent (dsSession s))
     in Some (s\<lparr>dsServer := sv\<rparr>, Inr err)) LeaveIfError"

definition DetachProcessL :: "'k host \<Rightarrow> RMessage2 \<Rightarrow> ('k, unit) act" where
  "DetachProcessL S msg =
     bindL (ofsumL (msDesLength msg 0)) (\<lambda>deslen.
     thenL (allocL S) (
     bindL (ofsumL (msRead16 msg 0 deslen)) (\<lambda>processName.
     thenL (detach_pair S processName) (
     thenL (allocL S) (
     let processName8 = copy8 processName in
     bindL (find_handler processName8) (\<lambda>found.
     thenL (case found of Some i \<Rightarrow> delete_handler S i | None \<Rightarrow> returnL ()) (
     bindL (getL (\<lambda>s. seAgent (dsSession s))) (\<lambda>agent.
     thenL (callLeaveL S (\<lambda>M d. RRM_DetachProcess M d (local_des S L_processName8 processName8 deslen) agent)) (
     CompleteM msg KErrNone)))))))))"

definition DetachAllL :: "'k host \<Rightarrow> RMessage2 \<Rightarrow> ('k, unit) act" where
  "DetachAllL S msg =
     thenL (detach_pair S star) (
     bindL (find_handler (copy8 star)) (\<lambda>found.
     thenL (case found of
              Some i \<Rightarrow>
                thenL (delete_handler S i) (
                bindL (getL (\<lambda>s. seAgent (dsSession s))) (\<lambda>agent.
                callLeaveL S (\<lambda>M d. RRM_DetachProcess M d (local_des S L_processName8 (copy8 star) 1) agent)))
            | None \<Rightarrow> leaveL KErrNotFound) (
     CompleteM msg KErrNone)))"

section \<open>Events\<close>

text \<open>The name in the message, of a process that the agent is actively attached to.\<close>

definition read_attached_name :: "'k host \<Rightarrow> RMessage2 \<Rightarrow> ('k, u16 list) act" where
  "read_attached_name S msg =
     bindL (ofsumL (msDesLength msg 0)) (\<lambda>deslen.
     thenL (allocL S) (
     bindL (ofsumL (msRead16 msg 0 deslen)) (\<lambda>processName.
     bindL (getL (\<lambda>s. CheckAttachedProcess S (dsServer s) processName msg False)) (\<lambda>attached.
     thenL (requireL attached KErrPermissionDenied) (returnL processName)))))"

definition GetEventL :: "'k host \<Rightarrow> RMessage2 \<Rightarrow> ('k, unit) act" where
  "GetEventL S msg =
     bindL (read_attached_name S msg) (\<lambda>processName.
     thenL (allocL S) (
     bindL (find_handler (copy8 processName)) (\<lambda>found.
     case found of Some i \<Rightarrow> async_GetEvent S i msg | None \<Rightarrow> leaveL KErrNotFound)))"

definition CancelGetEventL :: "'k host \<Rightarrow> RMessage2 \<Rightarrow> ('k, unit) act" where
  "CancelGetEventL S msg =
     bindL (read_attached_name S msg) (\<lambda>processName.
     thenL (allocL S) (
     bindL (find_handler (copy8 processName)) (\<lambda>found.
     thenL (case found of Some i \<Rightarrow> async_Cancel S i | None \<Rightarrow> leaveL KErrNotFound) (
     CompleteM msg KErrNone))))"

definition EEventsLast :: u32 where "EEventsLast = 14"
definition EActionLast :: u32 where "EActionLast = 3"

definition event_type :: "u32 \<Rightarrow> TEventType" where
  "event_type w =
     (if w < 14 then
        [EEventsBreakPoint, EEventsSwExc, EEventsHwExc, EEventsKillThread, EEventsAddLibrary, EEventsRemoveLibrary,
         EEventsBufferFull, EEventsUnknown, EEventsUserTrace, EEventsProcessBreakPoint, EEventsStartThread,
         EEventsUserTracesLost, EEventsAddProcess, EEventsRemoveProcess] ! unat w
      else EEventsBeyond w)"

definition kernel_action :: "u32 \<Rightarrow> TKernelEventAction" where
  "kernel_action w = (if w = 0 then EActionIgnore else if w = 1 then EActionContinue else if w = 2 then EActionSuspend
     else EActionOther w)"

definition SetEventActionL :: "'k host \<Rightarrow> RMessage2 \<Rightarrow> ('k, unit) act" where
  "SetEventActionL S msg =
     bindL (read_attached_name S msg) (\<lambda>processName.
     thenL (requireL (msInt msg 1 < EEventsLast) KErrArgument) (
     thenL (requireL (msInt msg 2 < EActionLast) KErrArgument) (
     thenL (allocL S) (
     bindL (getL (\<lambda>s. seAgent (dsSession s))) (\<lambda>agent.
     thenL (callLeaveL S (\<lambda>M d. RRM_SetEventAction M d (local_des S L_processName8 (copy8 processName) (length processName))
              (event_type (msInt msg 1)) (kernel_action (msInt msg 2)) agent)) (
     CompleteM msg KErrNone))))))"

end
