(* ===== verification/SecurityService.thy ===== *)
theory SecurityService
  imports SecuritySession "HOL-Library.Signed_Division"
begin

text \<open>
  The remaining requests of a session (c_security_svr_session.cpp): the listings, of which the one of executables is
  made here, and the crash log partition; then ServiceL, the completion of requests that left, and the end of a session.
\<close>

section \<open>The executables\<close>

definition sizeof_TExecutablesListEntry :: u32 where "sizeof_TExecutablesListEntry = 16"

definition le16s :: "u16 list \<Rightarrow> u8 list" where
  "le16s name = concat (map le16 name)"

definition executable_fields :: "'k host \<Rightarrow> 'k server \<Rightarrow> u16 list \<Rightarrow> (nat \<times> u8 list) list" where
  "executable_fields S sv aEntryName =
     [(0, [if IsDebugged S sv aEntryName False then 1 else 0]), (1, [if IsDebugged S sv aEntryName True then 1 else 0]),
      (12, le16 (of_nat (length aEntryName))), (14, le16s aEntryName)]"

definition AppendExecutableData :: "'k host \<Rightarrow> 'k server \<Rightarrow> u16 list \<Rightarrow> TDes8 \<times> u32 \<Rightarrow> (TDes8 \<times> u32) option" where
  "AppendExecutableData S sv aEntryName s =
     (let (aBuffer, aSize) = s;
          aSize = Align4 (aSize + sizeof_TExecutablesListEntry + 2 * of_nat (length aEntryName) - 2)
      in if unat aSize \<le> length (dbuf aBuffer) then do {
           d \<leftarrow> store_fields aBuffer (dlen aBuffer) (executable_fields S sv aEntryName);
           d \<leftarrow> des_setlen d (unat aSize);
           Some (d, aSize)
         } else Some (aBuffer, aSize))"

definition KColonSysBin :: "u16 list" where
  "KColonSysBin = ascii '':'' @ [92] @ ascii ''sys'' @ [92] @ ascii ''bin'' @ [92]"

text \<open>One file: its full name is put together in a buffer whose length is cut to 16 bits.\<close>

definition append_file :: "'k host \<Rightarrow> u16 list \<Rightarrow> u16 list \<Rightarrow> TDes8 \<times> u32 \<Rightarrow> ('k, TDes8 \<times> u32) act" where
  "append_file S dirName name d =
     thenL (allocL S) (
     if unat (of_nat (length dirName + length name) :: u16) < length dirName + length name then panicL
     else (\<lambda>s. map_option (\<lambda>d. (s, Inr d)) (AppendExecutableData S (dsServer s) (dirName @ name) d)))"

fun append_files :: "'k host \<Rightarrow> u16 list \<Rightarrow> u16 list list \<Rightarrow> TDes8 \<times> u32 \<Rightarrow> ('k, TDes8 \<times> u32) act" where
  "append_files S dirName [] d = returnL d"
| "append_files S dirName (name # names) d = bindL (append_file S dirName name d) (append_files S dirName names)"

text \<open>The drives with their validity, from number \<open>i\<close> on; a drive whose directory cannot be read is left out unless
  memory ran out.\<close>

fun append_drives :: "'k host \<Rightarrow> nat \<Rightarrow> bool list \<Rightarrow> TDes8 \<times> u32 \<Rightarrow> ('k, TDes8 \<times> u32) act" where
  "append_drives S i [] d = returnL d"
| "append_drives S i (valid # drives) d =
     (if \<not> valid then append_drives S (Suc i) drives d
      else
        bindL (bindL (getL (\<lambda>s. hDriveChar S (ds_kernel s) i)) ofsumL) (\<lambda>driveLetter.
        let dirName = driveLetter # KColonSysBin in
        bindL (getL (\<lambda>s. hGetDir S (ds_kernel s) dirName)) (\<lambda>(err, localDir).
        if err = KErrNoMemory then leaveL err
        else case localDir of
          None \<Rightarrow> append_drives S (Suc i) drives d
        | Some names \<Rightarrow> bindL (append_files S dirName names d) (append_drives S (Suc i) drives))))"

text \<open>The result is the code, the buffer and the size.\<close>

definition GetExecutablesListL :: "'k host \<Rightarrow> TDes8 \<Rightarrow> ('k, TErr \<times> TDes8 \<times> u32) act" where
  "GetExecutablesListL S aBuffer =
     thenL (bindL (getL (\<lambda>s. hConnect S (ds_kernel s))) LeaveIfError) (
     thenL (allocL S) (
     bindL (bindL (getL (\<lambda>s. hDriveList S (ds_kernel s))) ofsumL) (\<lambda>driveList.
     bindL (append_drives S 0 driveList (aBuffer\<lparr>dlen := 0\<rparr>, 0)) (\<lambda>(d, aSize).
     returnL (if unat aSize \<le> length (dbuf d) then KErrNone else KErrTooBig, d, aSize)))))"

section \<open>Listings\<close>

definition EExecutables :: u32 where "EExecutables = 4"

definition list_id :: "u32 \<Rightarrow> TListId" where
  "list_id w = (if w = 0 then EProcesses else if w = 1 then EThreads else if w = 2 then ECodeSegs
     else if w = 3 then EXipLibraries else EOtherList)"

definition list_scope :: "u32 \<Rightarrow> TListScope" where
  "list_scope w = (if w = 0 then EScopeNone else if w = 1 then EScopeGlobal else if w = 2 then EScopeProcessSpecific
     else if w = 4 then EScopeThreadSpecific else EOtherScope)"

text \<open>A buffer of negative length is a panic; the bytes of a new buffer are what the heap held.\<close>

definition list_buffer :: "'k host \<Rightarrow> RMessage2 \<Rightarrow> ('k, nat) act" where
  "list_buffer S msg = (case msDesMaxLength msg 1 of Inl err \<Rightarrow> panicL | Inr n \<Rightarrow> thenL (allocL S) (returnL n))"

definition finish_list :: "RMessage2 \<Rightarrow> TErr \<Rightarrow> u8 list \<Rightarrow> u8 list \<Rightarrow> ('k, unit) act" where
  "finish_list msg err buffer dataSize =
     thenL (if err = KErrNone then WriteL msg 1 buffer else returnL ()) (
     thenL (WriteL msg 2 dataSize) (
     CompleteM msg err))"

definition GetListL :: "'k host \<Rightarrow> RMessage2 \<Rightarrow> ('k, unit) act" where
  "GetListL S msg =
     thenL (allocL S) (
     bindL (ReadObjectL msg 0 (on_stack S 16)) (\<lambda>listDetails.
     let iListId = field32 0 listDetails; iListScope = field32 4 listDetails; iTargetId = of_le64 (drop 8 listDetails) in
     bindL (list_buffer S msg) (\<lambda>maxLength.
     thenL (setL S L_size (le32 0)) (
     if iListId = EExecutables then
       thenL (requireL (list_scope iListScope = EScopeGlobal) KErrArgument) (
       thenL (requireL (iTargetId = 0) KErrArgument) (
       bindL (GetExecutablesListL S \<lparr>dbuf = on_stack S maxLength, dlen = 0\<rparr>) (\<lambda>(err, d, dataSize).
       finish_list msg err (des_bytes d) (le32 dataSize))))
     else
       bindL (getL (\<lambda>s. seAgent (dsSession s))) (\<lambda>agent.
       bindL (callL S (\<lambda>M d. RRM_GetList M d (list_id iListId) (list_scope iListScope) iTargetId agent
                (local_des S L_buffer [] maxLength) (hLocal S L_size))) (\<lambda>err.
       bindL (desL S L_buffer) (\<lambda>buffer.
       bindL (bytesL S L_size 4) (\<lambda>dataSize.
       finish_list msg err buffer dataSize))))))))"

section \<open>The crash log\<close>

text \<open>What the four requests begin with; None when the message has been completed with a refusal.\<close>

definition flash_access :: "'k host \<Rightarrow> RMessage2 \<Rightarrow> ('k, unit) act \<Rightarrow> ('k, unit) act" where
  "flash_access S msg f =
     thenL (LeaveIfError (msClient msg)) (
     bindL (CheckFlashAccessPermissionL S) (\<lambda>err.
     if err \<noteq> KErrNone then CompleteM msg err
     else
       bindL (getL (\<lambda>s. seCrashConnected (dsSession s))) (\<lambda>connected.
       thenL (if \<not> connected then ConnectCrashPartitionL S else returnL ()) f)))"

text \<open>A request to the drive that was connected; without one it fails in the driver of the drive, which is a panic.\<close>

definition driveL :: "(nat \<Rightarrow> ('k, 'a) act) \<Rightarrow> ('k, 'a) act" where
  "driveL f = bindL (getL (\<lambda>s. seDrive (dsSession s))) (\<lambda>drive. case drive of None \<Rightarrow> panicL | Some i \<Rightarrow> f i)"

definition ReadCrashLogL :: "'k host \<Rightarrow> RMessage2 \<Rightarrow> ('k, unit) act" where
  "ReadCrashLogL S msg = flash_access S msg (
     let readPosition = msInt msg 0; readSize = msInt msg 2 in
     if sint readSize < 0 then panicL
     else
       thenL (allocL S) (
       driveL (\<lambda>i.
       bindL (getL (\<lambda>s. hDriveRead S (ds_kernel s) i (scast readPosition) (unat readSize))) (\<lambda>(err, readBuf).
       thenL (WriteL msg 1 readBuf) (
       CompleteM msg err)))))"

definition WriteCrashConfigL :: "'k host \<Rightarrow> RMessage2 \<Rightarrow> ('k, unit) act" where
  "WriteCrashConfigL S msg = flash_access S msg (
     bindL (ofsumL (msDesLength msg 1)) (\<lambda>deslen.
     thenL (allocL S) (
     bindL (ofsumL (msRead msg 1 deslen)) (\<lambda>dataBuf.
     let position = msInt msg 0 in
     driveL (\<lambda>i.
     bindL (\<lambda>s. let (k, err) = hDriveWrite S (ds_kernel s) i (ucast position) dataBuf in Some (set_kernel k s, Inr err)) (\<lambda>err.
     thenL (WriteL msg 2 (le32 (of_nat deslen))) (
     CompleteM msg err)))))))"

definition format_drive :: "'k host \<Rightarrow> nat \<Rightarrow> u64 \<Rightarrow> u32 \<Rightarrow> ('k, TErr) act" where
  "format_drive S i position n =
     (\<lambda>s. let (k, err) = hDriveFormat S (ds_kernel s) i position n in Some (set_kernel k s, Inr err))"

definition EraseCrashLogL :: "'k host \<Rightarrow> RMessage2 \<Rightarrow> ('k, unit) act" where
  "EraseCrashLogL S msg = flash_access S msg (
     driveL (\<lambda>i.
     bindL (getL (\<lambda>s. lcEraseBlockSize (seDriveCaps (dsSession s)))) (\<lambda>iEraseBlockSize.
     bindL (format_drive S i (scast (msInt msg 0)) (msInt msg 1 * iEraseBlockSize)) (CompleteM msg))))"

text \<open>The blocks that are left to erase; \<open>err\<close> is the code so far.\<close>

fun erase_blocks :: "'k host \<Rightarrow> nat \<Rightarrow> u32 \<Rightarrow> nat list \<Rightarrow> ('k, TErr) act" where
  "erase_blocks S i iEraseBlockSize [] = returnL KErrNone"
| "erase_blocks S i iEraseBlockSize (b # bs) =
     bindL (format_drive S i (ucast (of_nat b * iEraseBlockSize)) iEraseBlockSize) (\<lambda>err.
     if err \<noteq> KErrNone then returnL err else erase_blocks S i iEraseBlockSize bs)"

text \<open>Dividing by a block size of zero is a fault; the quotient is cut to 32 bits.\<close>

definition EraseEntireCrashLogL :: "'k host \<Rightarrow> RMessage2 \<Rightarrow> ('k, unit) act" where
  "EraseEntireCrashLogL S msg = flash_access S msg (
     driveL (\<lambda>i.
     bindL (getL (\<lambda>s. seDriveCaps (dsSession s))) (\<lambda>caps.
     if lcEraseBlockSize caps = 0 then panicL
     else
       let numberBlocks = word_of_int (sint (lcSize caps) sdiv uint (lcEraseBlockSize caps)) :: u32 in
       bindL (erase_blocks S i (lcEraseBlockSize caps) [0..<unat numberBlocks]) (CompleteM msg))))"

section \<open>ServiceL\<close>

fun service :: "'k host \<Rightarrow> TDebugServRqst \<Rightarrow> RMessage2 \<Rightarrow> ('k, unit) act" where
  "service S EDebugServResumeThread msg = ResumeThreadL S msg"
| "service S EDebugServSuspendThread msg = SuspendThreadL S msg"
| "service S EDebugServReadMemory msg = ReadMemoryL S msg"
| "service S EDebugServWriteMemory msg = WriteMemoryL S msg"
| "service S EDebugServSetBreak msg = SetBreakL S msg"
| "service S EDebugServClearBreak msg = ClearBreakL S msg"
| "service S EDebugServModifyBreak msg = ModifyBreakL S msg"
| "service S EDebugServModifyProcessBreak msg = ModifyProcessBreakL S msg"
| "service S EDebugServBreakInfo msg = BreakInfoL S msg"
| "service S EDebugServReadRegisters msg = ReadRegistersL S msg"
| "service S EDebugServWriteRegisters msg = WriteRegistersL S msg"
| "service S EDebugServGetEvent msg = GetEventL S msg"
| "service S EDebugServCancelGetEvent msg = CancelGetEventL S msg"
| "service S EDebugServAttachExecutable msg = AttachProcessL S msg"
| "service S EDebugServDetachExecutable msg = DetachProcessL S msg"
| "service S EDebugServAttachAll msg = AttachAllL S msg"
| "service S EDebugServDetachAll msg = DetachAllL S msg"
| "service S EDebugServGetDebugFunctionalityBufSize msg = GetDebugFunctionalityBufSizeL S msg"
| "service S EDebugServGetDebugFunctionality msg = GetDebugFunctionalityL S msg"
| "service S EDebugServSetEventAction msg = SetEventActionL S msg"
| "service S EDebugServGetList msg = GetListL S msg"
| "service S EDebugServStep msg = StepL S msg"
| "service S EDebugServSetProcessBreak msg = SetProcessBreakL S msg"
| "service S EDebugServProcessBreakInfo msg = ProcessBreakInfoL S msg"
| "service S EDebugServKillProcess msg = KillProcessL S msg"
| "service S EDebugServReadCrashFlash msg = ReadCrashLogL S msg"
| "service S EDebugServWriteCrashFlash msg = WriteCrashConfigL S msg"
| "service S EDebugServEraseCrashFlash msg = EraseCrashLogL S msg"
| "service S EDebugServEraseEntireCrashFlash msg = EraseEntireCrashLogL S msg"
| "service S f msg = leaveL KErrNotSupported"

definition ServiceL :: "'k host \<Rightarrow> RMessage2 \<Rightarrow> ('k, unit) act" where
  "ServiceL S msg = service S (msFunction msg) msg"

definition ServiceError :: "RMessage2 \<Rightarrow> TErr \<Rightarrow> ('k, unit) act" where
  "ServiceError msg aError = CompleteM msg aError"

text \<open>The framework hands the reason of a leave to ServiceError.\<close>

definition handle_request :: "'k host \<Rightarrow> RMessage2 \<Rightarrow> 'k dss \<Rightarrow> 'k dss option" where
  "handle_request S msg s =
     (case ServiceL S msg s of
        None \<Rightarrow> None
      | Some (s, Inl err) \<Rightarrow> map_option fst (ServiceError msg err s)
      | Some (s, Inr _) \<Rightarrow> Some s)"

section \<open>The end of a session\<close>

fun cancel_handlers :: "'k host \<Rightarrow> nat list \<Rightarrow> ('k, unit) act" where
  "cancel_handlers S [] = returnL ()"
| "cancel_handlers S (i # is) = thenL (async_Cancel S i) (cancel_handlers S is)"

definition close_session :: "'k host \<Rightarrow> ('k, unit) act" where
  "close_session S =
     bindL (getL dsSession) (\<lambda>se.
     thenL (cancel_handlers S [0..<length (seHandlers se)]) (
     thenL (updateL (set_session (\<lambda>se. se\<lparr>seHandlers := []\<rparr>))) (
     bindL (callL S (\<lambda>M d. RRM_DetachAgent M d (seAgent se))) (\<lambda>_.
     thenL (updateL (\<lambda>s. s\<lparr>dsServer := DetachAllProcesses (dsServer s) (seAgent se)\<rparr>)) (
     updateL (\<lambda>s. s\<lparr>dsServer := (if seServerNotified se then SessionClosed (dsServer s) else dsServer s)\<rparr>))))))"

end
