(* ===== verification/SecuritySystem.thy ===== *)
theory SecuritySystem
  imports SecurityService ControlProps
begin

text \<open>
  The debug security server with all its sessions over the driver: its histories, and the rules by which a property of the
  driver or of the server's maps is carried through every request.
\<close>

section \<open>The server with its sessions\<close>

text \<open>ssStopped: the scheduler was stopped by the timer.\<close>

record 'k system =
  ssServer :: "'k server"
  ssSessions :: "session list"
  ssOuts :: "server_out list"
  ssStopped :: bool

definition with_session :: "'k system \<Rightarrow> nat \<Rightarrow> 'k dss" where
  "with_session y i = \<lparr>dsServer = ssServer y, dsSession = ssSessions y ! i, dsOuts = ssOuts y, dsAllocs = 0\<rparr>"

definition put_session :: "'k system \<Rightarrow> nat \<Rightarrow> 'k dss \<Rightarrow> 'k system" where
  "put_session y i s = y\<lparr>ssServer := dsServer s, ssSessions := (ssSessions y)[i := dsSession s], ssOuts := dsOuts s\<rparr>"

text \<open>A new session is notified to the server when it is created.\<close>

definition open_session :: "'k host \<Rightarrow> TLocalDriveCapsV2 \<Rightarrow> u32 \<Rightarrow> RMessage2 \<Rightarrow> 'k system \<Rightarrow> 'k system" where
  "open_session S junk v msg y =
     (case NewSessionL S junk v msg 0 of
        Inl err \<Rightarrow> y
      | Inr se \<Rightarrow> y\<lparr>ssServer := SessionOpened (ssServer y), ssSessions := ssSessions y @ [se\<lparr>seServerNotified := True\<rparr>]\<rparr>)"

definition request_session :: "'k host \<Rightarrow> nat \<Rightarrow> RMessage2 \<Rightarrow> 'k system \<Rightarrow> 'k system option" where
  "request_session S i msg y = map_option (put_session y i) (handle_request S msg (with_session y i))"

definition event_session :: "'k host \<Rightarrow> nat \<Rightarrow> nat \<Rightarrow> TErr \<Rightarrow> TEventInfo \<Rightarrow> 'k system \<Rightarrow> 'k system option" where
  "event_session S i j status info y =
     map_option (\<lambda>(s, r). put_session y i s) (async_run S j status info (with_session y i))"

definition end_session :: "'k host \<Rightarrow> nat \<Rightarrow> 'k system \<Rightarrow> 'k system option" where
  "end_session S i y =
     map_option (\<lambda>(s, r). y\<lparr>ssServer := dsServer s, ssSessions := remove_nth i (ssSessions y), ssOuts := dsOuts s\<rparr>)
       (close_session S (with_session y i))"

definition expire_timer :: "'k system \<Rightarrow> 'k system" where
  "expire_timer y = y\<lparr>ssStopped := True, ssServer := (ssServer y)\<lparr>svShutdown := False\<rparr>\<rparr>"

definition new_system :: "'k driver \<Rightarrow> 'k system" where
  "new_system d =
     \<lparr>ssServer = \<lparr>svActive = [], svPassive = [], svSessionCount = 0, svShutdown = True, svDriver = d\<rparr>,
      ssSessions = [], ssOuts = [], ssStopped = False\<rparr>"

text \<open>An event of the kernel, as the driver's event handler handles it.\<close>

definition driver_event :: "'k machine \<Rightarrow> bool \<Rightarrow> 'k driver \<Rightarrow> TKernelEvent \<Rightarrow> 'k driver option" where
  "driver_event M b d ev =
     map_option (\<lambda>(k, ch, outs, r). d\<lparr>drKernel := k, drChannel := ch\<rparr>)
       (HandleEvent (mcCpu M) (mcKern M) (mcObjs M) (mcJunk M) b (drKernel d) (drChannel d) ev)"

definition put_driver :: "'k driver \<Rightarrow> 'k system \<Rightarrow> 'k system" where
  "put_driver d y = y\<lparr>ssServer := (ssServer y)\<lparr>svDriver := d\<rparr>\<rparr>"

text \<open>
  The histories of the server: sessions are opened, serve requests, have their event handlers run, and end; the timer
  expires while it runs; and between two of these the kernel changes and reports events to the driver.  A handler that was
  completed at once runs with that code.  No system has 2 ^ 31 sessions.
\<close>

inductive system_reach :: "'k host \<Rightarrow> 'k driver \<Rightarrow> 'k system \<Rightarrow> bool" for S d0 where
  started: "system_reach S d0 (new_system d0)"
| opened: "\<lbrakk>system_reach S d0 y; \<not> ssStopped y; length (ssSessions y) < 0x7FFFFFFF\<rbrakk> \<Longrightarrow>
    system_reach S d0 (open_session S junk v msg y)"
| served: "\<lbrakk>system_reach S d0 y; \<not> ssStopped y; i < length (ssSessions y); request_session S i msg y = Some y'\<rbrakk> \<Longrightarrow>
    system_reach S d0 y'"
| event: "\<lbrakk>system_reach S d0 y; \<not> ssStopped y; i < length (ssSessions y); j < length (seHandlers (ssSessions y ! i));
      asActive (seHandlers (ssSessions y ! i) ! j); asStatus (seHandlers (ssSessions y ! i) ! j) \<in> {None, Some status};
      event_session S i j status info y = Some y'\<rbrakk> \<Longrightarrow> system_reach S d0 y'"
| ended: "\<lbrakk>system_reach S d0 y; i < length (ssSessions y); end_session S i y = Some y'\<rbrakk> \<Longrightarrow> system_reach S d0 y'"
| expired: "\<lbrakk>system_reach S d0 y; svShutdown (ssServer y)\<rbrakk> \<Longrightarrow> system_reach S d0 (expire_timer y)"
| kernel: "system_reach S d0 y \<Longrightarrow> system_reach S d0 (put_driver ((svDriver (ssServer y))\<lparr>drKernel := k\<rparr>) y)"
| reported: "\<lbrakk>system_reach S d0 y; event_ok (mcObjs (hMachine S)) ev; drHandler (svDriver (ssServer y)) = Some b;
      driver_event (hMachine S) b (svDriver (ssServer y)) ev = Some d\<rbrakk> \<Longrightarrow> system_reach S d0 (put_driver d y)"

end
