(* ===== verification/SecurityFrame.thy ===== *)
theory SecurityFrame
  imports SecuritySystem
begin

text \<open>
  What a request of a session may do, as an interface: a relation between the states before and after that is reflexive
  and transitive and allows messages to the driver, changes of the kernel, of the session, of the output and of the
  allocations, and attaching and detaching of the session's own agent.  Whatever meets it holds of every request.
\<close>

named_theorems frame_intro

definition agent_of :: "'k dss \<Rightarrow> u64" where
  "agent_of s = seAgent (dsSession s)"

lemma agent_of_simps [simp]:
  "agent_of (set_driver d s) = agent_of s" "agent_of (set_kernel k s) = agent_of s" "agent_of (add_out x s) = agent_of s"
  "agent_of (s\<lparr>dsAllocs := n\<rparr>) = agent_of s" "agent_of (s\<lparr>dsServer := sv\<rparr>) = agent_of s"
  "agent_of (s\<lparr>dsOuts := os\<rparr>) = agent_of s"
  by (simp_all add: agent_of_def set_driver_def set_kernel_def add_out_def)

text \<open>A call of the driver that sends one control message.\<close>

definition controls :: "('k machine \<Rightarrow> 'k driver \<Rightarrow> ('k driver \<times> TErr) option) \<Rightarrow> bool" where
  "controls f \<longleftrightarrow> (\<forall>M. \<exists>c. \<forall>d. f M d = control M d c)"

lemma controls_intro:
  "controls (\<lambda>M d. RRM_SetBreak M d a i b md)" "controls (\<lambda>M d. RRM_SetProcessBreak M d a i b md)"
  "controls (\<lambda>M d. RRM_ClearBreak M d i)" "controls (\<lambda>M d. RRM_ModifyBreak M d i j b md)"
  "controls (\<lambda>M d. RRM_ModifyProcessBreak M d i j b md)" "controls (\<lambda>M d. RRM_BreakInfo M d i x1 x2 x3 x4)"
  "controls (\<lambda>M d. RRM_SuspendThread M d i)" "controls (\<lambda>M d. RRM_ResumeThread M d i)" "controls (\<lambda>M d. RRM_Step M d i n)"
  "controls (\<lambda>M d. RRM_IsDebuggable M d i)" "controls (\<lambda>M d. RRM_KillProcess M d i n)"
  "controls (\<lambda>M d. RRM_ReadMemory M d i b n x)" "controls (\<lambda>M d. RRM_WriteMemory M d i b n x)"
  "controls (\<lambda>M d. RRM_ReadRegisters M d i x y z)" "controls (\<lambda>M d. RRM_WriteRegisters M d i x y z)"
  "controls (\<lambda>M d. RRM_GetMemoryOperationMaxBlockSize M d b)" "controls (\<lambda>M d. RRM_GetDebugFunctionalityBufSize M d b)"
  "controls (\<lambda>M d. RRM_GetDebugFunctionality M d x)" "controls (\<lambda>M d. RRM_GetList M d ty sc tg ag x b)"
  "controls (\<lambda>M d. RRM_AttachProcess M d x ag)" "controls (\<lambda>M d. RRM_DetachProcess M d x ag)"
  "controls (\<lambda>M d. RRM_DetachAgent M d ag)" "controls (\<lambda>M d. RRM_SetEventAction M d x ev ac ag)"
  by (auto simp: controls_def RRM_SetBreak_def RRM_SetProcessBreak_def RRM_ClearBreak_def RRM_ModifyBreak_def
      RRM_ModifyProcessBreak_def RRM_BreakInfo_def RRM_SuspendThread_def RRM_ResumeThread_def RRM_Step_def
      RRM_IsDebuggable_def RRM_KillProcess_def RRM_ReadMemory_def RRM_WriteMemory_def RRM_ReadRegisters_def
      RRM_WriteRegisters_def RRM_GetMemoryOperationMaxBlockSize_def RRM_GetDebugFunctionalityBufSize_def
      RRM_GetDebugFunctionality_def RRM_GetList_def RRM_AttachProcess_def RRM_DetachProcess_def RRM_DetachAgent_def
      RRM_SetEventAction_def)

locale server_frame =
  fixes S :: "'k host" and R :: "'k dss \<Rightarrow> 'k dss \<Rightarrow> bool"
  assumes refl: "R s s"
    and trans: "R s t \<Longrightarrow> R t u \<Longrightarrow> R s u"
    and driver: "send_msg (hMachine S) (ds_driver s) m = Some (d, outs, status, err) \<Longrightarrow> R s (set_driver d s)"
    and kernel: "R s (set_kernel k s)"
    and out: "R s (add_out x s)"
    and alloc: "R s (s\<lparr>dsAllocs := n\<rparr>)"
    and session: "seAgent se = agent_of s \<Longrightarrow> seServerNotified se = seServerNotified (dsSession s) \<Longrightarrow> R s (s\<lparr>dsSession := se\<rparr>)"
    and attach: "ppId p = agent_of s \<Longrightarrow> attach_pair S k (dsServer s) p b = (sv, err) \<Longrightarrow> R s (s\<lparr>dsServer := sv\<rparr>)"
    and detach: "server_DetachProcess S (dsServer s) name (agent_of s) = (sv, err) \<Longrightarrow> R s (s\<lparr>dsServer := sv\<rparr>)"
begin

definition frame :: "u64 \<Rightarrow> ('k, 'a) act \<Rightarrow> bool" where
  "frame a f \<longleftrightarrow> (\<forall>s s' r. agent_of s = a \<and> f s = Some (s', r) \<longrightarrow> R s s' \<and> agent_of s' = a)"

lemma frameI: "(\<And>s s' r. agent_of s = a \<Longrightarrow> f s = Some (s', r) \<Longrightarrow> R s s' \<and> agent_of s' = a) \<Longrightarrow> frame a f"
  unfolding frame_def by blast

lemma frameD: "frame a f \<Longrightarrow> agent_of s = a \<Longrightarrow> f s = Some (s', r) \<Longrightarrow> R s s' \<and> agent_of s' = a"
  unfolding frame_def by blast

lemma frame_bind [frame_intro]:
  assumes f: "frame a f" and g: "\<And>x. frame a (g x)"
  shows "frame a (bindL f g)"
proof (rule frameI)
  fix s s' r assume a: "agent_of s = a" and run: "bindL f g s = Some (s', r)"
  obtain s1 r1 where f1: "f s = Some (s1, r1)" using run by (auto simp: bindL_def split: option.splits)
  note s1 = frameD[OF f a f1]
  show "R s s' \<and> agent_of s' = a"
  proof (cases r1)
    case (Inl e)
    then show ?thesis using run f1 s1 by (simp add: bindL_def)
  next
    case (Inr x)
    then have "g x s1 = Some (s', r)" using run f1 by (simp add: bindL_def)
    from frameD[OF g _ this] show ?thesis using s1 trans by blast
  qed
qed

lemma frame_then [frame_intro]: "frame a f \<Longrightarrow> frame a g \<Longrightarrow> frame a (thenL f g)"
  unfolding thenL_def by (intro frame_bind)

lemma frame_pure [frame_intro]:
  "frame a (returnL x)" "frame a (leaveL e)" "frame a panicL" "frame a (ofsumL v)" "frame a (getL h)"
  by (auto simp: frame_def returnL_def leaveL_def panicL_def ofsumL_def getL_def intro: refl)

lemma frame_bind_agent: "frame a (g a) \<Longrightarrow> frame a (bindL (getL (\<lambda>s. seAgent (dsSession s))) g)"
  by (auto simp: frame_def bindL_def getL_def agent_of_def)

lemma frame_if [frame_intro]: "(b \<Longrightarrow> frame a f) \<Longrightarrow> (\<not> b \<Longrightarrow> frame a g) \<Longrightarrow> frame a (if b then f else g)"
  by simp

lemma frame_prod [frame_intro]: "(\<And>x y. p = (x, y) \<Longrightarrow> frame a (g x y)) \<Longrightarrow> frame a (case p of (x, y) \<Rightarrow> g x y)"
  by (cases p) simp

lemma frame_option [frame_intro]:
  "(v = None \<Longrightarrow> frame a f) \<Longrightarrow> (\<And>x. v = Some x \<Longrightarrow> frame a (g x)) \<Longrightarrow> frame a (case v of None \<Rightarrow> f | Some x \<Rightarrow> g x)"
  by (cases v) simp_all

lemma frame_sum [frame_intro]:
  "(\<And>x. v = Inl x \<Longrightarrow> frame a (f x)) \<Longrightarrow> (\<And>x. v = Inr x \<Longrightarrow> frame a (g x)) \<Longrightarrow> frame a (case v of Inl x \<Rightarrow> f x | Inr x \<Rightarrow> g x)"
  by (cases v) simp_all

lemma frame_let [frame_intro]: "(\<And>x. frame a (g x)) \<Longrightarrow> frame a (let x = v in g x)"
  by simp

lemma frame_basic [frame_intro]:
  "frame a (LeaveIfError e)" "frame a (requireL b e)" "frame a (allocL S)" "frame a (WriteL msg i bs)" "frame a (CompleteM msg e)"
  "frame a (setL S x bs)"
proof -
  show leave: "frame a (LeaveIfError e)" for e
    by (simp add: LeaveIfError_def frame_pure)
  show "frame a (requireL b e)" "frame a (allocL S)" "frame a (CompleteM msg e)" "frame a (setL S x bs)"
    by (auto simp: frame_def requireL_def returnL_def leaveL_def allocL_def CompleteM_def updateL_def setL_def
        intro: refl alloc out kernel split: if_splits)
  have "frame a (updateL (add_out y) :: ('k, unit) act)" for y by (auto simp: frame_def updateL_def intro: out)
  then show "frame a (WriteL msg i bs)" unfolding WriteL_def using leave by (intro frame_then)
qed

lemma frame_call [frame_intro]:
  assumes "controls f"
  shows "frame a (callL S f)" "frame a (callLeaveL S f)"
proof -
  obtain c where c: "\<And>d. f (hMachine S) d = control (hMachine S) d c" using assms by (auto simp: controls_def)
  show call: "frame a (callL S f)"
    by (auto simp: frame_def callL_def control_def c intro: driver)
  show "frame a (callLeaveL S f)"
    unfolding callLeaveL_def by (intro frame_bind call frame_basic)
qed

lemma frame_read [frame_intro]:
  "frame a (ReadObjectL msg i init)" "frame a (bytesL S x n)" "frame a (desL S x)" "frame a (WriteDataL msg i bs)"
  unfolding ReadObjectL_def bytesL_def desL_def WriteDataL_def by (intro frame_intro)+

lemma frame_ids [frame_intro]: "frame a (ReadTThreadIdL S msg i)" "frame a (ReadTProcessIdL S msg i)"
  unfolding ReadTThreadIdL_def ReadTProcessIdL_def by (intro frame_intro)+

lemma frame_check_process: "frame a (check_process S pid msg b)"
  unfolding check_process_def by (intro frame_intro controls_intro)

lemma frame_check [frame_intro]:
  "frame a (CheckAttachedL_thread S i msg b)" "frame a (CheckAttachedL_process S i msg b)"
  unfolding CheckAttachedL_thread_def CheckAttachedL_process_def CheckAttached_thread_def CheckAttached_process_def
  by (intro frame_intro frame_check_process)+

lemma frame_max_block [frame_intro]: "frame a (max_block_size S)"
  unfolding max_block_size_def by (intro frame_intro controls_intro)

lemma frame_validate [frame_intro]: "frame a (ValidateMemoryInfoL S i)" "frame a (ValidateRegisterBuffersL S msg)"
  unfolding ValidateMemoryInfoL_def ValidateRegisterBuffersL_def by (intro frame_intro)+

lemma frame_thread_requests [frame_intro]:
  "frame a (SuspendThreadL S msg)" "frame a (ResumeThreadL S msg)" "frame a (StepL S msg)" "frame a (KillProcessL S msg)"
  unfolding SuspendThreadL_def ResumeThreadL_def StepL_def KillProcessL_def
  by (intro frame_intro controls_intro)+

lemma frame_functionality [frame_intro]:
  "frame a (GetDebugFunctionalityBufSizeL S msg)" "frame a (GetDebugFunctionalityL S msg)"
  unfolding GetDebugFunctionalityBufSizeL_def GetDebugFunctionalityL_def by (intro frame_intro controls_intro)+

lemma frame_memory [frame_intro]: "frame a (ReadMemoryL S msg)" "frame a (WriteMemoryL S msg)"
  unfolding ReadMemoryL_def WriteMemoryL_def ReadTMemoryInfoL_def by (intro frame_intro controls_intro)+

lemma frame_break_info [frame_intro]: "frame a (break_info S i)" "frame a (write_break_info msg o1 b1 b2)"
  unfolding break_info_def write_break_info_def by (intro frame_intro controls_intro)+

lemma frame_set_break [frame_intro]: "frame a (SetBreakL S msg)" "frame a (SetProcessBreakL S msg)"
  unfolding SetBreakL_def SetProcessBreakL_def ReadTBreakInfoL_def by (intro frame_intro controls_intro)+

lemma frame_break [frame_intro]:
  "frame a (ClearBreakL S msg)" "frame a (BreakInfoL S msg)" "frame a (ProcessBreakInfoL S msg)"
  "frame a (ModifyBreakL S msg)" "frame a (ModifyProcessBreakL S msg)"
  unfolding ClearBreakL_def BreakInfoL_def ProcessBreakInfoL_def ModifyBreakL_def ModifyProcessBreakL_def
  by (intro frame_intro controls_intro)+

lemma frame_registers [frame_intro]: "frame a (ReadRegistersL S msg)" "frame a (WriteRegistersL S msg)"
  unfolding ReadRegistersL_def WriteRegistersL_def max_length2_def by (intro frame_intro controls_intro)+

subsection \<open>Attaching and events\<close>

lemma frame_set_session:
  "(\<And>se. seAgent (f se) = seAgent se \<and> seServerNotified (f se) = seServerNotified se) \<Longrightarrow> frame a (updateL (set_session f))"
  by (auto simp: frame_def updateL_def set_session_def agent_of_def intro!: session)

lemma frame_header [frame_intro]: "frame a (GetSecureIdL S name)" "frame a (IsDebuggableL S name)"
proof -
  have "frame a (read_header S name)"
    unfolding read_header_def OpenFileHandleL_def IsExecutableXipL_def by (intro frame_intro)
  then show "frame a (GetSecureIdL S name)" "frame a (IsDebuggableL S name)"
    unfolding GetSecureIdL_def IsDebuggableL_def IsExecutableXipL_def GetSecureIdL_header_def by (intro frame_intro; assumption?)+
qed

lemma frame_token [frame_intro]: "frame a (GetDebugAgentOEMTokenCapsL S)"
proof -
  have caps: "R s (set_caps c s)" "agent_of (set_caps c s) = agent_of s" for c s
    using session by (simp_all add: set_caps_def set_session_def agent_of_def)
  have "frame a (run_token S name)" for name
  proof (rule frameI)
    fix s s' r assume a: "agent_of s = a" and run: "run_token S name s = Some (s', r)"
    obtain k x where created: "hCreate S (ds_kernel s) name = (k, x)" by fastforce
    show "R s s' \<and> agent_of s' = a"
    proof (cases x)
      case (Inl err)
      then show ?thesis using run created a kernel by (auto simp: run_token_def Let_def)
    next
      case (Inr pid)
      define k1 where "k1 = (if hRendezvousPending S k pid then k else hKill S k pid)"
      define s1 where "s1 = set_caps (hProcessCaps S k1 pid) (set_kernel k s)"
      have "s' = set_kernel (hResume S k1 pid) s1"
        using run created Inr by (simp add: run_token_def Let_def k1_def s1_def)
      moreover have "R s s1" unfolding s1_def by (rule trans[OF kernel caps(1)])
      ultimately show ?thesis using trans[OF \<open>R s s1\<close> kernel] a by (simp add: s1_def caps)
    qed
  qed
  then show ?thesis unfolding GetDebugAgentOEMTokenCapsL_def by (intro frame_intro)
qed

lemma frame_attach_pair: "frame a (server_AttachProcessL S name a b)"
proof (rule frameI)
  fix s s' r assume a: "agent_of s = a" and run: "server_AttachProcessL S name a b s = Some (s', r)"
  have step: "R s (s\<lparr>dsAllocs := n, dsServer := sv\<rparr>)" if "attach_pair S k (dsServer s) \<lparr>ppName = name, ppId = a\<rparr> b = (sv, err)" for n k sv err
    using trans[OF alloc[of s n] attach[of "\<lparr>ppName = name, ppId = a\<rparr>" "s\<lparr>dsAllocs := n\<rparr>" k b sv err]] that a by simp
  show "R s s' \<and> agent_of s' = a"
    using run a refl alloc step
    by (auto simp: server_AttachProcessL_def CProcessPair_NewL_def bindL_def thenL_def allocL_def returnL_def
        split: if_splits prod.splits)
qed

lemma frame_update_detach:
  "frame a (updateL (\<lambda>s. s\<lparr>dsServer := fst (server_DetachProcess S (dsServer s) name a)\<rparr>))"
proof (rule frameI)
  fix s s' r assume "agent_of s = a" "updateL (\<lambda>s. s\<lparr>dsServer := fst (server_DetachProcess S (dsServer s) name a)\<rparr>) s = Some (s', r)"
  then show "R s s' \<and> agent_of s' = a" by (auto simp: updateL_def intro!: detach[of _ name _ "snd (server_DetachProcess S (dsServer s) name a)"])
qed

lemma frame_detach_pair [frame_intro]: "frame a (detach_pair S name)"
proof -
  have "frame a (\<lambda>s. let (sv, err) = server_DetachProcess S (dsServer s) name (seAgent (dsSession s)) in Some (s\<lparr>dsServer := sv\<rparr>, Inr err))"
    by (auto simp: frame_def agent_of_def[symmetric] split: prod.splits intro: detach)
  then show ?thesis unfolding detach_pair_def by (intro frame_bind frame_basic)
qed

lemma frame_new_async [frame_intro]: "frame a (CSecuritySvrAsync_NewL S name ag)" "frame a (find_handler name)"
  unfolding CSecuritySvrAsync_NewL_def find_handler_def by (intro frame_intro)+

lemma frame_insert [frame_intro]: "frame a (insert_handler S name name8 n)"
  unfolding insert_handler_def
  by (rule frame_bind_agent, intro frame_intro frame_update_detach frame_set_session controls_intro) simp

lemma frame_attach [frame_intro]: "frame a (attach_permitted S msg name n b)" "frame a (AttachProcessL S msg)"
proof -
  show permitted: "frame a (attach_permitted S msg name n b)" for name n b
    unfolding attach_permitted_def
    by (rule frame_bind_agent, intro frame_intro frame_attach_pair controls_intro)
  show "frame a (AttachProcessL S msg)"
    unfolding AttachProcessL_def by (intro frame_intro permitted)
qed

lemma frame_get_agent: "(\<And>x. frame a (g x a)) \<Longrightarrow> frame a (bindL (getL (\<lambda>s. (f s, seAgent (dsSession s)))) (\<lambda>(x, ag). g x ag))"
  by (auto simp: frame_def bindL_def getL_def agent_of_def)

lemma frame_attach_all [frame_intro]: "frame a (AttachAllL S msg)"
  unfolding AttachAllL_def by (intro frame_then frame_token frame_get_agent frame_intro frame_attach_pair controls_intro)

lemma put_handler_ok: "R s (put_handler i h s)" "agent_of (put_handler i h s) = agent_of s"
  by (auto simp: put_handler_def set_session_def agent_of_def intro!: session)

lemma frame_handlers [frame_intro]: "frame a (async_GetEvent S i msg)" "frame a (async_Cancel S i)"
proof -
  show "frame a (async_GetEvent S i msg)"
  proof (rule frameI)
    fix s s' r assume a: "agent_of s = a" and run: "async_GetEvent S i msg s = Some (s', r)"
    show "R s s' \<and> agent_of s' = a"
      using run a trans[OF driver put_handler_ok(1)] out
      by (auto simp: async_GetEvent_def Let_def RRM_GetEvent_def CompleteM_def updateL_def put_handler_ok split: if_splits)
  qed
  show "frame a (async_Cancel S i)"
  proof (rule frameI)
    fix s s' r assume a: "agent_of s = a" and run: "async_Cancel S i s = Some (s', r)"
    show "R s s' \<and> agent_of s' = a"
      using run a trans[OF driver trans[OF out put_handler_ok(1)]] refl
      by (auto simp: async_Cancel_def Let_def RRM_CancelGetEvent_def put_handler_ok split: if_splits option.splits)
  qed
qed

lemma frame_delete [frame_intro]: "frame a (delete_handler S i)"
  unfolding delete_handler_def by (intro frame_intro frame_set_session) simp

lemma frame_detach [frame_intro]: "frame a (DetachProcessL S msg)" "frame a (DetachAllL S msg)"
  unfolding DetachProcessL_def DetachAllL_def by (intro frame_intro controls_intro)+

lemma frame_events [frame_intro]:
  "frame a (GetEventL S msg)" "frame a (CancelGetEventL S msg)" "frame a (SetEventActionL S msg)"
  unfolding GetEventL_def CancelGetEventL_def SetEventActionL_def read_attached_name_def
  by (intro frame_intro controls_intro)+

subsection \<open>Listings and the crash log\<close>

lemma frame_files: "frame a (append_files S dir names d)"
proof (induction names arbitrary: d)
  case (Cons name names)
  have "frame a (\<lambda>s. map_option (\<lambda>d. (s, Inr d)) (AppendExecutableData S (dsServer s) f d))" for f d
    by (auto simp: frame_def intro: refl)
  then have "frame a (append_file S dir name d)" for d
    unfolding append_file_def by (intro frame_intro)
  then show ?case by (simp add: frame_bind Cons.IH)
qed (simp add: frame_pure)

lemma frame_drives: "frame a (append_drives S i drives d)"
proof (induction drives arbitrary: i d)
  case (Cons valid drives)
  show ?case by (simp only: append_drives.simps, intro frame_intro frame_files Cons.IH)
qed (simp add: frame_pure)

lemma frame_list [frame_intro]: "frame a (GetListL S msg)"
  unfolding GetListL_def GetExecutablesListL_def finish_list_def list_buffer_def
  by (intro frame_intro frame_drives controls_intro)

lemma find_partition_agent: "find_partition S k is se = (se', found) \<Longrightarrow>
   seAgent se' = seAgent se \<and> seServerNotified se' = seServerNotified se"
  by (induction "is" arbitrary: se) (auto simp: Let_def split: if_splits sum.splits)

lemma frame_flash [frame_intro]:
  assumes "frame a f" shows "frame a (flash_access S msg f)"
proof -
  have "frame a (ConnectCrashPartitionL S)"
  proof (rule frameI)
    fix s s' r assume "agent_of s = a" "ConnectCrashPartitionL S s = Some (s', r)"
    then show "R s s' \<and> agent_of s' = a"
      using find_partition_agent[where se = "(dsSession s)\<lparr>seCrashConnected := False\<rparr>"]
      by (auto simp: ConnectCrashPartitionL_def Let_def agent_of_def split: prod.splits if_splits intro!: session)
  qed
  then show ?thesis unfolding flash_access_def CheckFlashAccessPermissionL_def by (intro frame_intro assms)
qed

lemma frame_drive [frame_intro]: "(\<And>i. frame a (f i)) \<Longrightarrow> frame a (driveL f)"
  unfolding driveL_def by (intro frame_intro)

lemma frame_kernel_call [frame_intro]:
  "frame a (\<lambda>s. let (k, err) = g s in Some (set_kernel k s, Inr err))" "frame a (format_drive S i p n)"
  by (auto simp: frame_def format_drive_def split: prod.splits intro: kernel)

lemma frame_blocks [frame_intro]: "frame a (erase_blocks S i n bs)"
proof (induction bs)
  case (Cons b bs)
  show ?case by (simp only: erase_blocks.simps, intro frame_intro Cons.IH)
qed (simp add: frame_pure)

lemma frame_crash_log [frame_intro]:
  "frame a (ReadCrashLogL S msg)" "frame a (WriteCrashConfigL S msg)" "frame a (EraseCrashLogL S msg)"
  "frame a (EraseEntireCrashLogL S msg)"
  unfolding ReadCrashLogL_def WriteCrashConfigL_def EraseCrashLogL_def EraseEntireCrashLogL_def
  by (intro frame_intro)+

subsection \<open>Every request\<close>

lemma frame_service: "frame a (ServiceL S msg)"
  unfolding ServiceL_def by (cases "msFunction msg") (simp_all add: frame_intro)

lemma request_frame: "handle_request S msg s = Some s' \<Longrightarrow> R s s' \<and> agent_of s' = agent_of s"
  using frameD[OF frame_service[of "agent_of s" msg] HOL.refl] out
  by (auto simp: handle_request_def ServiceError_def CompleteM_def updateL_def split: option.splits sum.splits intro: trans[OF _ out])

lemma cancel_frame: "frame a (cancel_handlers S is)"
  by (induction "is") (simp_all add: frame_intro)

lemma event_frame:
  assumes "async_run S i status info s = Some (s', r)"
  shows "R s s' \<and> agent_of s' = agent_of s"
proof -
  have "frame a (async_RunL S i status info)" for a
  proof (rule frameI)
    fix s s' r assume a: "agent_of s = a" and run: "async_RunL S i status info s = Some (s', r)"
    define s1 where "s1 = put_handler i ((handler_at s i)\<lparr>asActive := False, asStatus := None\<rparr>) s"
    obtain msg where "thenL (LeaveIfError status) (bindL (ofsumL (msDesMaxLength msg 1)) (\<lambda>m.
        thenL (WriteL msg 1 (take m (hEventBytes S info))) (CompleteM msg KErrNone))) s1 = Some (s', r)"
      using run by (auto simp: async_RunL_def Let_def s1_def split: option.splits)
    moreover have "frame a (thenL (LeaveIfError status) (bindL (ofsumL (msDesMaxLength msg 1)) (\<lambda>m.
        thenL (WriteL msg 1 (take m (hEventBytes S info))) (CompleteM msg KErrNone))))" for msg
      by (intro frame_intro)
    ultimately have "R s1 s' \<and> agent_of s' = a"
      using frameD a put_handler_ok(2) unfolding s1_def by fast
    then show "R s s' \<and> agent_of s' = a"
      using trans[OF put_handler_ok(1)] unfolding s1_def by blast
  qed
  from frameD[OF this HOL.refl, of s] show ?thesis
    using assms out
    by (auto simp: async_run_def async_RunError_def CompleteM_def updateL_def split: option.splits sum.splits intro: trans[OF _ out])
qed

end

end
