(* ===== verification/SecurityProps.thy ===== *)
theory SecurityProps
  imports SecurityFrame
begin

text \<open>
  What the debug security server promises, in every history of it: who is attached to what, what a request may change,
  and that the driver only sees what the channel allows.
\<close>

section \<open>The maps\<close>

definition same_name :: "'k host \<Rightarrow> CProcessPair \<Rightarrow> CProcessPair \<Rightarrow> bool" where
  "same_name S p q \<longleftrightarrow> map (hFold S) (ppName p) = map (hFold S) (ppName q)"

text \<open>Nothing is entered twice, and the active map has one entry for a name that is not the star.\<close>

definition maps_ok :: "'k host \<Rightarrow> 'k server \<Rightarrow> bool" where
  "maps_ok S sv \<longleftrightarrow>
     sorted_wrt (\<lambda>p q. same_name S p q \<longrightarrow> ProcessNameMatches S p star) (svActive sv) \<and>
     sorted_wrt (\<lambda>p q. \<not> (same_name S p q \<and> ppId p = ppId q)) (svActive sv @ svPassive sv)"

text \<open>The entries of an agent in the two maps.\<close>

definition attachments :: "u64 \<Rightarrow> 'k server \<Rightarrow> CProcessPair list \<times> CProcessPair list" where
  "attachments a sv = (filter (\<lambda>p. ppId p = a) (svActive sv), filter (\<lambda>p. ppId p = a) (svPassive sv))"

lemma attach_maps_ok:
  assumes "maps_ok S sv" "attach_pair S k sv p b = (sv', err)"
  shows "maps_ok S sv'"
proof -
  have ex: "\<not> list_ex P xs \<longleftrightarrow> (\<forall>x\<in>set xs. \<not> P x)" for P and xs :: "CProcessPair list"
    by (simp add: list_ex_iff)
  show ?thesis
    using assms
    by (auto simp: attach_pair_def maps_ok_def Let_def ex Equals_def ProcessIdMatches_def ProcessNameMatches_def same_name_def
        sorted_wrt_append split: if_splits) metis+
qed

lemma detach_cases:
  assumes "server_DetachProcess S sv name a = (sv', err)"
  obtains "sv' = sv"
  | i where "i < length (svActive sv)" "Equals S (svActive sv ! i) name a" "sv' = sv\<lparr>svActive := remove_nth i (svActive sv)\<rparr>"
  | i where "i < length (svPassive sv)" "Equals S (svPassive sv ! i) name a" "sv' = sv\<lparr>svPassive := remove_nth i (svPassive sv)\<rparr>"
proof (cases "find_index (\<lambda>q. Equals S q name a) (svActive sv)")
  case (Some i)
  then show ?thesis using that(2)[of i] find_index_SomeD[OF Some] assms by (simp add: server_DetachProcess_def)
next
  case None
  show ?thesis
  proof (cases "find_index (\<lambda>q. Equals S q name a) (svPassive sv)")
    case (Some i)
    then show ?thesis using that(3)[of i] find_index_SomeD[OF Some] assms None by (simp add: server_DetachProcess_def)
  next
    case none: None
    then show ?thesis using that(1) assms None by (simp add: server_DetachProcess_def)
  qed
qed

lemma remove_nth_append:
  "i < length xs \<Longrightarrow> remove_nth i (xs @ ys) = remove_nth i xs @ ys"
  "remove_nth (length xs + i) (xs @ ys) = xs @ remove_nth i ys"
  by (simp_all add: remove_nth_def)

lemma detach_maps_ok:
  assumes "maps_ok S sv" "server_DetachProcess S sv name a = (sv', err)"
  shows "maps_ok S sv'"
  using assms(2)
proof (cases rule: detach_cases)
  case (2 i)
  let ?P = "\<lambda>p q. \<not> (same_name S p q \<and> ppId p = ppId q)"
  have "sorted_wrt ?P (remove_nth i (svActive sv @ svPassive sv))"
    using assms(1) by (intro sorted_wrt_remove_nth) (simp add: maps_ok_def)
  then show ?thesis
    using assms(1) 2 by (auto simp: maps_ok_def remove_nth_append intro: sorted_wrt_remove_nth)
next
  case (3 i)
  let ?P = "\<lambda>p q. \<not> (same_name S p q \<and> ppId p = ppId q)"
  have "sorted_wrt ?P (remove_nth (length (svActive sv) + i) (svActive sv @ svPassive sv))"
    using assms(1) by (intro sorted_wrt_remove_nth) (simp add: maps_ok_def)
  then show ?thesis using assms(1) 3 by (auto simp: maps_ok_def remove_nth_append)
qed (use assms(1) in simp)

lemma attach_others:
  "attach_pair S k sv p b = (sv', err) \<Longrightarrow> a \<noteq> ppId p \<Longrightarrow> attachments a sv' = attachments a sv"
  by (auto simp: attach_pair_def attachments_def Let_def split: if_splits)

lemma filter_remove_nth:
  assumes "i < length xs" "\<not> P (xs ! i)" shows "filter P (remove_nth i xs) = filter P xs"
proof -
  have "filter P xs = filter P (take i xs @ xs ! i # drop (Suc i) xs)" using assms(1) by (simp add: id_take_nth_drop[symmetric])
  then show ?thesis using assms(2) by (simp add: remove_nth_def)
qed

lemma detach_others:
  assumes "server_DetachProcess S sv name ag = (sv', err)" "a \<noteq> ag"
  shows "attachments a sv' = attachments a sv"
  using assms(1)
proof (cases rule: detach_cases)
  case (2 i)
  then have "ppId (svActive sv ! i) \<noteq> a" using assms(2) by (simp add: Equals_def ProcessIdMatches_def)
  then show ?thesis
    using 2 by (simp add: attachments_def filter_remove_nth)
next
  case (3 i)
  then have "ppId (svPassive sv ! i) \<noteq> a" using assms(2) by (simp add: Equals_def ProcessIdMatches_def)
  then show ?thesis
    using 3 by (simp add: attachments_def filter_remove_nth)
qed simp

lemma attach_counts:
  "attach_pair S k sv p b = (sv', err) \<Longrightarrow>
   svSessionCount sv' = svSessionCount sv \<and> svShutdown sv' = svShutdown sv \<and> svDriver sv' = svDriver sv"
  by (auto simp: attach_pair_def Let_def split: if_splits)

lemma detach_counts:
  "server_DetachProcess S sv name a = (sv', err) \<Longrightarrow>
   svSessionCount sv' = svSessionCount sv \<and> svShutdown sv' = svShutdown sv \<and> svDriver sv' = svDriver sv"
  by (auto simp: server_DetachProcess_def split: option.splits)

section \<open>What a request does to the maps\<close>

text \<open>The maps stay in order, the entries of the other agents stay, and the count of sessions and the timer do.\<close>

definition maps_rel :: "'k host \<Rightarrow> 'k dss \<Rightarrow> 'k dss \<Rightarrow> bool" where
  "maps_rel S s s' \<longleftrightarrow> agent_of s' = agent_of s \<and> seServerNotified (dsSession s') = seServerNotified (dsSession s) \<and>
     (maps_ok S (dsServer s) \<longrightarrow> maps_ok S (dsServer s')) \<and>
     (\<forall>a. a \<noteq> agent_of s \<longrightarrow> attachments a (dsServer s') = attachments a (dsServer s)) \<and>
     svSessionCount (dsServer s') = svSessionCount (dsServer s) \<and> svShutdown (dsServer s') = svShutdown (dsServer s)"

lemma maps_rel_same:
  "agent_of s' = agent_of s \<Longrightarrow> seServerNotified (dsSession s') = seServerNotified (dsSession s) \<Longrightarrow> svActive (dsServer s') = svActive (dsServer s) \<Longrightarrow> svPassive (dsServer s') = svPassive (dsServer s) \<Longrightarrow>
   svSessionCount (dsServer s') = svSessionCount (dsServer s) \<Longrightarrow> svShutdown (dsServer s') = svShutdown (dsServer s) \<Longrightarrow>
   maps_rel S s s'"
  by (simp add: maps_rel_def maps_ok_def attachments_def)

interpretation maps: server_frame S "maps_rel S" for S :: "'k host"
proof
  show "maps_rel S s s" for s by (rule maps_rel_same) simp_all
  show "maps_rel S s t \<Longrightarrow> maps_rel S t u \<Longrightarrow> maps_rel S s u" for s t u by (simp add: maps_rel_def)
  show "send_msg (hMachine S) (ds_driver s) m = Some (d, outs, status, err) \<Longrightarrow> maps_rel S s (set_driver d s)" for s m d outs status err
    by (rule maps_rel_same) (simp_all add: set_driver_def)
  show "maps_rel S s (set_kernel k s)" for s k by (rule maps_rel_same) (simp_all add: set_kernel_def set_driver_def)
  show "maps_rel S s (add_out x s)" for s x by (rule maps_rel_same) (simp_all add: add_out_def)
  show "maps_rel S s (s\<lparr>dsAllocs := n\<rparr>)" for s n by (rule maps_rel_same) simp_all
  show "seAgent se = agent_of s \<Longrightarrow> seServerNotified se = seServerNotified (dsSession s) \<Longrightarrow> maps_rel S s (s\<lparr>dsSession := se\<rparr>)" for se s
    by (rule maps_rel_same) (simp_all add: agent_of_def)
  show "maps_rel S s (s\<lparr>dsServer := sv\<rparr>)" if "ppId p = agent_of s" "attach_pair S k (dsServer s) p b = (sv, err)" for p s k b sv err
    using attach_maps_ok[OF _ that(2)] attach_others[OF that(2)] attach_counts[OF that(2)] that(1) by (simp add: maps_rel_def)
  show "maps_rel S s (s\<lparr>dsServer := sv\<rparr>)" if "server_DetachProcess S (dsServer s) name (agent_of s) = (sv, err)" for s name sv err
    using detach_maps_ok[OF _ that] detach_others[OF that] detach_counts[OF that] by (simp add: maps_rel_def)
qed

section \<open>What a request does to the driver\<close>

definition channel_state :: "'k machine \<Rightarrow> 'k driver \<Rightarrow> bool" where
  "channel_state M d \<longleftrightarrow> (\<exists>n. channel_reach (mcCpu M) (mcKern M) (mcObjs M) (mcLists M) (mcConst M) (mcJunk M) n d)"

lemma channel_state_msg: "channel_state M d \<Longrightarrow> send_msg M d m = Some (d', outs, status, err) \<Longrightarrow> channel_state M d'"
  unfolding channel_state_def send_msg_def by (blast intro: channel_reach.msg)

lemma channel_state_kernel: "channel_state M d \<Longrightarrow> channel_state M (d\<lparr>drKernel := k\<rparr>)"
  unfolding channel_state_def by (blast intro: channel_reach.kernel)

interpretation channel: server_frame S "\<lambda>s s'. channel_state (hMachine S) (ds_driver s) \<longrightarrow> channel_state (hMachine S) (ds_driver s')" for S :: "'k host"
  by unfold_locales
    (auto simp: set_driver_def set_kernel_def add_out_def channel_state_kernel dest: channel_state_msg attach_counts detach_counts)

section \<open>The end of a session\<close>

lemma detach_loop_filter:
  "n \<le> length ps \<Longrightarrow> detach_loop a n ps = filter (\<lambda>p. ppId p \<noteq> a) (take n ps) @ drop n ps"
proof (induction n arbitrary: ps)
  case (Suc n)
  have split: "take (Suc n) ps = take n ps @ [ps ! n]" "drop n ps = ps ! n # drop (Suc n) ps"
    using Suc.prems by (simp_all add: take_Suc_conv_app_nth Cons_nth_drop_Suc)
  show ?case
  proof (cases "ppId (ps ! n) = a")
    case True
    then have "take n (remove_nth n ps) = take n ps" "drop n (remove_nth n ps) = drop (Suc n) ps"
      using Suc.prems by (simp_all add: remove_nth_def)
    then show ?thesis
      using Suc.IH[of "remove_nth n ps"] Suc.prems True by (simp add: ProcessIdMatches_def split(1))
  next
    case False
    then show ?thesis using Suc.IH[of ps] Suc.prems by (simp add: ProcessIdMatches_def split)
  qed
qed simp

lemma detach_all_filter:
  "DetachAllProcesses sv a =
     sv\<lparr>svActive := filter (\<lambda>p. ppId p \<noteq> a) (svActive sv), svPassive := filter (\<lambda>p. ppId p \<noteq> a) (svPassive sv)\<rparr>"
  by (simp add: DetachAllProcesses_def detach_loop_filter)

lemma filter_maps_ok:
  "maps_ok S sv \<Longrightarrow> maps_ok S (sv\<lparr>svActive := filter P (svActive sv), svPassive := filter P (svPassive sv)\<rparr>)"
  by (auto simp: maps_ok_def sorted_wrt_append intro: sorted_wrt_filter)

lemma async_cancel_inr: "async_Cancel S i s = Some (s', r) \<Longrightarrow> r = Inr ()"
  by (auto simp: async_Cancel_def Let_def split: if_splits option.splits)

lemma cancel_inr: "cancel_handlers S is s = Some (s', r) \<Longrightarrow> r = Inr ()"
  by (induction "is" arbitrary: s)
    (auto simp: returnL_def thenL_def bindL_def split: option.splits sum.splits dest: async_cancel_inr)

text \<open>What happens before the entries are removed meets the same interface.\<close>

lemma close_cases:
  assumes "close_session S s = Some (s', r)"
  obtains s1 where "maps_rel S s s1" "channel_state (hMachine S) (ds_driver s) \<Longrightarrow> channel_state (hMachine S) (ds_driver s1)"
    "dsServer s' = (if seServerNotified (dsSession s) then SessionClosed (DetachAllProcesses (dsServer s1) (agent_of s))
                    else DetachAllProcesses (dsServer s1) (agent_of s))"
proof -
  let ?start = "thenL (cancel_handlers S [0..<length (seHandlers (dsSession s))]) (thenL (updateL (set_session (\<lambda>se. se\<lparr>seHandlers := []\<rparr>)))
    (callL S (\<lambda>M d. RRM_DetachAgent M d (agent_of s))))"
  obtain s1 x where b: "?start s = Some (s1, Inr x)"
    and e: "dsServer s' = (if seServerNotified (dsSession s) then SessionClosed (DetachAllProcesses (dsServer s1) (agent_of s))
              else DetachAllProcesses (dsServer s1) (agent_of s))"
    using assms
    by (auto simp: close_session_def bindL_def thenL_def getL_def updateL_def callL_def agent_of_def
        split: option.splits sum.splits dest!: cancel_inr)
  have "maps.frame S (agent_of s) ?start"
    by (intro maps.frame_then maps.cancel_frame maps.frame_set_session maps.frame_call controls_intro) simp
  from maps.frameD[OF this HOL.refl b] have 1: "maps_rel S s s1" by simp
  have "channel.frame S (agent_of s) ?start"
    by (intro channel.frame_then channel.cancel_frame channel.frame_set_session channel.frame_call controls_intro) simp
  from channel.frameD[OF this HOL.refl b] 1 e that show ?thesis by blast
qed

lemma SessionClosed_simps [simp]:
  "svActive (SessionClosed sv) = svActive sv" "svPassive (SessionClosed sv) = svPassive sv" "svDriver (SessionClosed sv) = svDriver sv"
  "svActive (SessionOpened sv) = svActive sv" "svPassive (SessionOpened sv) = svPassive sv" "svDriver (SessionOpened sv) = svDriver sv"
  by (simp_all add: SessionClosed_def SessionOpened_def Let_def)

lemma maps_ok_cong:
  "svActive sv' = svActive sv \<Longrightarrow> svPassive sv' = svPassive sv \<Longrightarrow> maps_ok S sv' = maps_ok S sv"
  "svActive sv' = svActive sv \<Longrightarrow> svPassive sv' = svPassive sv \<Longrightarrow> attachments a sv' = attachments a sv"
  by (simp_all add: maps_ok_def attachments_def)

lemma close_effect:
  assumes "close_session S s = Some (s', r)"
  shows "maps_ok S (dsServer s) \<Longrightarrow> maps_ok S (dsServer s')"
    and "attachments a (dsServer s') = (if a = agent_of s then ([], []) else attachments a (dsServer s))"
    and "channel_state (hMachine S) (ds_driver s) \<Longrightarrow> channel_state (hMachine S) (ds_driver s')"
    and "seServerNotified (dsSession s) \<Longrightarrow> svSessionCount (dsServer s') = svSessionCount (dsServer s) - 1"
    and "seServerNotified (dsSession s) \<Longrightarrow> svShutdown (dsServer s') \<longleftrightarrow>
      (if sint (svSessionCount (dsServer s) - 1) < 1 then True else svShutdown (dsServer s))"
proof -
  obtain s1 where s1: "maps_rel S s s1" "channel_state (hMachine S) (ds_driver s) \<Longrightarrow> channel_state (hMachine S) (ds_driver s1)"
    "dsServer s' = (if seServerNotified (dsSession s) then SessionClosed (DetachAllProcesses (dsServer s1) (agent_of s))
                    else DetachAllProcesses (dsServer s1) (agent_of s))"
    using close_cases[OF assms] by blast
  let ?sv = "DetachAllProcesses (dsServer s1) (agent_of s)"
  have same: "svActive (dsServer s') = svActive ?sv" "svPassive (dsServer s') = svPassive ?sv" "svDriver (dsServer s') = svDriver ?sv"
    using s1(3) by simp_all
  show "maps_ok S (dsServer s')" if "maps_ok S (dsServer s)"
    using filter_maps_ok[of S "dsServer s1" "\<lambda>p. ppId p \<noteq> agent_of s"] that s1(1)
    unfolding maps_ok_cong(1)[OF same(1,2)] by (simp add: detach_all_filter maps_rel_def)
  show "attachments a (dsServer s') = (if a = agent_of s then ([], []) else attachments a (dsServer s))"
  proof (cases "a = agent_of s")
    case False
    then have "attachments a (dsServer s1) = attachments a (dsServer s)" using s1(1) by (simp add: maps_rel_def)
    moreover have "attachments a ?sv = attachments a (dsServer s1)"
      using False by (auto simp: detach_all_filter attachments_def intro!: filter_cong)
    ultimately show ?thesis using False unfolding maps_ok_cong(2)[OF same(1,2)] by simp
  qed (unfold maps_ok_cong(2)[OF same(1,2)], simp add: detach_all_filter attachments_def)
  show "channel_state (hMachine S) (ds_driver s')" if "channel_state (hMachine S) (ds_driver s)"
    using s1(2)[OF that] by (simp add: same detach_all_filter)
  show "svSessionCount (dsServer s') = svSessionCount (dsServer s) - 1" if "seServerNotified (dsSession s)"
    using s1(1,3) that by (simp add: SessionClosed_def Let_def detach_all_filter maps_rel_def)
  show "svShutdown (dsServer s') \<longleftrightarrow> (if sint (svSessionCount (dsServer s) - 1) < 1 then True else svShutdown (dsServer s))"
    if "seServerNotified (dsSession s)"
    using s1(1,3) that by (simp add: SessionClosed_def Let_def detach_all_filter maps_rel_def)
qed

end
