(* ===== verification/SecurityInv.thy ===== *)
theory SecurityInv
  imports SecurityProps
begin

text \<open>
  The invariants of the debug security server over all its histories, and the properties that follow.
\<close>

section \<open>The invariant of the system\<close>

definition attached_agents :: "'k server \<Rightarrow> u64 set" where
  "attached_agents sv = {a. attachments a sv \<noteq> ([], [])}"

definition system_wf :: "'k host \<Rightarrow> 'k system \<Rightarrow> bool" where
  "system_wf S y \<longleftrightarrow> maps_ok S (ssServer y) \<and>
     attached_agents (ssServer y) \<subseteq> seAgent ` set (ssSessions y) \<and>
     length (ssSessions y) < 2 ^ 31 \<and> svSessionCount (ssServer y) = of_nat (length (ssSessions y)) \<and>
     (\<forall>se\<in>set (ssSessions y). seServerNotified se) \<and>
     (ssSessions y = [] \<longleftrightarrow> svShutdown (ssServer y) \<or> ssStopped y)"

lemma attached_agents_simps [simp]:
  "attached_agents (sv\<lparr>svDriver := d\<rparr>) = attached_agents sv" "attached_agents (sv\<lparr>svShutdown := b\<rparr>) = attached_agents sv"
  "attached_agents (SessionOpened sv) = attached_agents sv" "attached_agents (sv\<lparr>svSessionCount := n\<rparr>) = attached_agents sv"
  by (simp_all add: attached_agents_def attachments_def)

lemma maps_ok_simps [simp]:
  "maps_ok S (sv\<lparr>svDriver := d\<rparr>) = maps_ok S sv" "maps_ok S (sv\<lparr>svShutdown := b\<rparr>) = maps_ok S sv"
  "maps_ok S (SessionOpened sv) = maps_ok S sv" "maps_ok S (sv\<lparr>svSessionCount := n\<rparr>) = maps_ok S sv"
  by (simp_all add: maps_ok_def)

lemma with_session_simps [simp]:
  "dsServer (with_session y i) = ssServer y" "dsSession (with_session y i) = ssSessions y ! i"
  "agent_of (with_session y i) = seAgent (ssSessions y ! i)"
  by (simp_all add: with_session_def agent_of_def)

lemma put_session_simps [simp]:
  "ssServer (put_session y i s) = dsServer s" "ssSessions (put_session y i s) = (ssSessions y)[i := dsSession s]"
  "ssStopped (put_session y i s) = ssStopped y"
  by (simp_all add: put_session_def)

lemma new_wf: "system_wf S (new_system d)"
  by (simp add: system_wf_def new_system_def maps_ok_def attached_agents_def attachments_def)

lemma small_count:
  assumes "n < 2 ^ 31" shows "sint (of_nat n :: u32) = int n"
  using assms by (subst sint32) (simp add: unsigned_of_nat take_bit_nat_eq_self)

text \<open>One session at work keeps the invariant.\<close>

lemma session_wf:
  assumes wf: "system_wf S y" and i: "i < length (ssSessions y)" and rel: "maps_rel S (with_session y i) s"
  shows "system_wf S (put_session y i s)"
proof -
  have se: "seAgent (dsSession s) = seAgent (ssSessions y ! i)" "seServerNotified (dsSession s) = seServerNotified (ssSessions y ! i)"
    using rel by (simp_all add: maps_rel_def agent_of_def)
  have agents: "seAgent ` set ((ssSessions y)[i := dsSession s]) = seAgent ` set (ssSessions y)"
    using i se(1) by (metis list_update_id map_update set_map)
  have "attached_agents (dsServer s) \<subseteq> insert (seAgent (ssSessions y ! i)) (attached_agents (ssServer y))"
    using rel by (auto simp: maps_rel_def attached_agents_def)
  then have "attached_agents (dsServer s) \<subseteq> seAgent ` set (ssSessions y)"
    using wf i by (auto simp: system_wf_def)
  moreover have "\<forall>x\<in>set ((ssSessions y)[i := dsSession s]). seServerNotified x"
    using wf i se(2) set_update_subset_insert[of "ssSessions y" i "dsSession s"] by (auto simp: system_wf_def)
  ultimately show ?thesis
    using wf rel i agents by (auto simp: system_wf_def maps_rel_def)
qed

lemma open_wf:
  assumes "system_wf S y" "\<not> ssStopped y" "length (ssSessions y) < 0x7FFFFFFF"
  shows "system_wf S (open_session S junk v msg y)"
  using assms by (auto simp: open_session_def system_wf_def SessionOpened_def split: sum.splits)

lemma end_wf:
  assumes wf: "system_wf S y" and i: "i < length (ssSessions y)" and "end_session S i y = Some y'"
  shows "system_wf S y'"
proof -
  obtain s r where c: "close_session S (with_session y i) = Some (s, r)"
    and y': "y' = y\<lparr>ssServer := dsServer s, ssSessions := remove_nth i (ssSessions y), ssOuts := dsOuts s\<rparr>"
    using assms(3) by (auto simp: end_session_def)
  let ?a = "seAgent (ssSessions y ! i)" and ?n = "length (ssSessions y)"
  have notified: "seServerNotified (dsSession (with_session y i))" using wf i by (simp add: system_wf_def)
  note eff = close_effect[OF c]
  have "attached_agents (dsServer s) = attached_agents (ssServer y) - {?a}"
    using eff(2) by (auto simp: attached_agents_def)
  moreover have "seAgent ` set (ssSessions y) - {?a} \<subseteq> seAgent ` set (remove_nth i (ssSessions y))"
  proof -
    have "set (ssSessions y) = insert (ssSessions y ! i) (set (remove_nth i (ssSessions y)))"
      using i by (subst id_take_nth_drop[OF i]) (auto simp: remove_nth_def)
    then show ?thesis by auto
  qed
  ultimately have "attached_agents (dsServer s) \<subseteq> seAgent ` set (remove_nth i (ssSessions y))"
    using wf by (auto simp: system_wf_def)
  moreover have count: "svSessionCount (dsServer s) = of_nat (?n - 1)"
    using eff(4)[OF notified] wf i by (simp add: system_wf_def of_nat_diff)
  moreover have "remove_nth i (ssSessions y) = [] \<longleftrightarrow> svShutdown (dsServer s) \<or> ssStopped y"
  proof -
    have less: "?n - 1 < 2 ^ 31" and "svSessionCount (ssServer y) - 1 = of_nat (?n - 1)"
      using wf i by (auto simp: system_wf_def of_nat_diff)
    then have "sint (svSessionCount (ssServer y) - 1) = int (?n - 1)" using small_count[OF less] by argo
    moreover have "\<not> svShutdown (ssServer y)" "\<not> ssStopped y" using wf i by (auto simp: system_wf_def)
    moreover have "remove_nth i (ssSessions y) = [] \<longleftrightarrow> ?n - 1 = 0" using i length_remove_nth[OF i] by (metis length_0_conv)
    ultimately show ?thesis using eff(5)[OF notified] i by auto
  qed
  ultimately show ?thesis
    using wf eff(1) i set_remove_nth_subset[of i "ssSessions y"] y' by (auto simp: system_wf_def)
qed

lemma system_reach_wf: "system_reach S d0 y \<Longrightarrow> system_wf S y"
proof (induction rule: system_reach.induct)
  case started
  show ?case by (rule new_wf)
next
  case (opened y junk v msg)
  then show ?case by (intro open_wf)
next
  case (served y i msg y')
  then obtain s where "handle_request S msg (with_session y i) = Some s" "y' = put_session y i s"
    by (auto simp: request_session_def)
  then show ?case using served maps.request_frame session_wf by blast
next
  case (event y i j status info y')
  then obtain s r where "async_run S j status info (with_session y i) = Some (s, r)" "y' = put_session y i s"
    by (auto simp: event_session_def)
  then show ?case using event maps.event_frame session_wf by blast
next
  case (ended y i y')
  show ?case by (rule end_wf[OF ended.IH ended.hyps(2,3)])
next
  case (expired y)
  then have "ssSessions y = []" by (simp add: system_wf_def)
  then show ?case using expired.IH by (simp add: system_wf_def expire_timer_def)
next
  case (kernel y k)
  then show ?case by (simp add: system_wf_def put_driver_def)
next
  case (reported y ev b d)
  then show ?case by (simp add: system_wf_def put_driver_def)
qed

lemma system_reach_channel:
  "system_reach S d0 y \<Longrightarrow> channel_state (hMachine S) d0 \<Longrightarrow> channel_state (hMachine S) (svDriver (ssServer y))"
proof (induction rule: system_reach.induct)
  case (opened y junk v msg)
  then show ?case by (auto simp: open_session_def split: sum.splits)
next
  case (served y i msg y')
  then obtain s where s: "handle_request S msg (with_session y i) = Some s" "y' = put_session y i s"
    by (auto simp: request_session_def)
  then show ?case using served channel.request_frame[OF s(1)] by simp
next
  case (event y i j status info y')
  then obtain s r where s: "async_run S j status info (with_session y i) = Some (s, r)" "y' = put_session y i s"
    by (auto simp: event_session_def)
  then show ?case using event channel.event_frame[OF s(1)] by simp
next
  case (ended y i y')
  then obtain s r where s: "close_session S (with_session y i) = Some (s, r)"
    "y' = y\<lparr>ssServer := dsServer s, ssSessions := remove_nth i (ssSessions y), ssOuts := dsOuts s\<rparr>"
    by (auto simp: end_session_def)
  then show ?case using ended close_effect(3)[OF s(1)] by simp
next
  case (reported y ev b d)
  then show ?case
    by (auto simp: put_driver_def driver_event_def channel_state_def intro!: channel_reach.event)
qed (auto simp: new_system_def expire_timer_def put_driver_def channel_state_kernel)

end
