(* ===== verification/DemoServer.thy ===== *)
theory DemoServer
  imports SecuritySystem ListProps
begin

text \<open>
  A concrete host for the debug security server over the demonstration kernel: process 4 with the executable a and
  thread 5, a debug agent that is process 9 and has no token, one file that is debuggable, and no crash log.  It shows that
  hypotheses can hold and claims nothing about Symbian OS.
\<close>

definition demo_machine :: "demo machine" where
  "demo_machine =
     \<lparr>mcCpu = demo_cpu, mcKern = demoK, mcObjs = demoJ, mcLists = demoL, mcConst = (4, 4), mcJunk = demo_junk,
      mcRead = demo_bytes, mcDes = (\<lambda>k a. []), mcWrite = (\<lambda>k a bs. demo_put a bs k), mcMaxName = 128\<rparr>"

definition demo_host :: "demo host" where
  "demo_host =
     \<lparr>hMachine = demo_machine, hLocal = (\<lambda>x. 0x400000), hStack = 0,
      hThreadOpen = (\<lambda>k i. if i = 5 then KErrNone else KErrNotFound),
      hThreadProcess = (\<lambda>k i. if i = 5 then Inr 4 else Inl KErrNotFound),
      hProcessOpen = (\<lambda>k i. if i = 4 \<or> i = 9 then KErrNone else KErrNotFound),
      hFileName = (\<lambda>k i. if i = 4 then [97] else [98]), hProcessCaps = (\<lambda>k i. {}), hSecureId = (\<lambda>k i. 0xF123ABCD),
      hFold = (\<lambda>c. if 65 \<le> c \<and> c \<le> 90 then c + 32 else c), hAllocOk = (\<lambda>n. True), hAppend = (\<lambda>k n. KErrNone),
      hHeapLength = (\<lambda>n. n), hConnect = (\<lambda>k. KErrNone), hOpen = (\<lambda>k f. KErrNone), hHeader = (\<lambda>k f. Inr [1, 2, 3, 4]),
      hXip = (\<lambda>k f. Inr False), hRomSize = 8, hE32Size = 4, hRomFlags = (\<lambda>h. 0), hE32Flags = (\<lambda>h. 1),
      hKRomImageDebuggable = 1, hKImageDebuggable = 1, hRomSecureId = (\<lambda>h. 0), hE32SecureId = (\<lambda>h. 7),
      hLibraryInfo = (\<lambda>k f. Inr {}), hAllCaps = {ECapabilityTCB, ECapabilityAllFiles},
      hCreate = (\<lambda>k f. (k, Inl KErrNotFound)), hRendezvousPending = (\<lambda>k i. True), hKill = (\<lambda>k i. k), hResume = (\<lambda>k i. k),
      hDrives = 2, hDriveConnect = (\<lambda>k i. KErrNone),
      hDriveCaps = (\<lambda>k i. Inr \<lparr>lcPartitionType = (if i = 1 then 6 else 0), lcType = 9, lcEraseBlockSize = 0x1000, lcSize = 0x4000\<rparr>),
      hDriveRead = (\<lambda>k i p n. (KErrNone, replicate n 0)), hDriveWrite = (\<lambda>k i p bs. (k, KErrNone)),
      hDriveFormat = (\<lambda>k i p n. (k, KErrNone)), hCrashLog = 6, hNand = 9,
      hDriveList = (\<lambda>k. Inr [False, False, True]), hDriveChar = (\<lambda>k i. Inr 67), hGetDir = (\<lambda>k f. (KErrNone, Some [[97]])),
      hVersionSupported = (\<lambda>v. True), hEventBytes = (\<lambda>e. replicate 20 0)\<rparr>"

definition demo_caps :: TLocalDriveCapsV2 where
  "demo_caps = \<lparr>lcPartitionType = 0, lcType = 0, lcEraseBlockSize = 0, lcSize = 0\<rparr>"

text \<open>A message of the agent that names the executable a and thread 5.\<close>

definition demo_message :: "TDebugServRqst \<Rightarrow> RMessage2" where
  "demo_message f =
     \<lparr>msHandle = 1, msFunction = f, msInt = (\<lambda>i. 0), msRead = (\<lambda>i n. Inr (take n (le64 5))), msRead16 = (\<lambda>i n. Inr (take n [97])),
      msDesLength = (\<lambda>i. Inr 1), msDesMaxLength = (\<lambda>i. Inr 8), msWrite = (\<lambda>i n. KErrNone), msClient = KErrNone,
      msClientProcess = Inr 9\<rparr>"

lemma demo_message_simps [simp]:
  "msHandle (demo_message f) = 1" "msFunction (demo_message f) = f" "msInt (demo_message f) i = 0"
  "msRead (demo_message f) i n = Inr (take n (le64 5))" "msRead16 (demo_message f) i n = Inr (take n [97])"
  "msDesLength (demo_message f) i = Inr 1" "msDesMaxLength (demo_message f) i = Inr 8" "msWrite (demo_message f) i n = KErrNone"
  "msClient (demo_message f) = KErrNone" "msClientProcess (demo_message f) = Inr 9"
  by (simp_all add: demo_message_def)

definition demo_session :: session where
  "demo_session = \<lparr>seAgent = 9, seHandlers = [], seServerNotified = True, seCaps = {}, seDrive = None, seDriveCaps = demo_caps,
     seCrashConnected = False\<rparr>"

definition demo_opened :: "demo system" where
  "demo_opened = \<lparr>ssServer = \<lparr>svActive = [], svPassive = [], svSessionCount = 1, svShutdown = False, svDriver = demo_created\<rparr>,
     ssSessions = [demo_session], ssOuts = [], ssStopped = False\<rparr>"

lemma demo_open: "open_session demo_host demo_caps 0 (demo_message EDebugServOpen) (new_system demo_created) = demo_opened"
  by (simp add: open_session_def NewSessionL_def new_system_def SessionOpened_def demo_opened_def demo_session_def demo_host_def
      demo_message_def)

text \<open>The agent attaches actively to the executable a.\<close>

definition demo_attached_session :: session where
  "demo_attached_session = demo_session\<lparr>seHandlers := [new_async [97] 9]\<rparr>"

definition demo_served :: "demo system" where
  "demo_served = \<lparr>ssServer = \<lparr>svActive = [\<lparr>ppName = [97], ppId = 9\<rparr>], svPassive = [], svSessionCount = 1, svShutdown = False,
       svDriver = demo_attached\<rparr>,
     ssSessions = [demo_attached_session], ssOuts = [Completed 1 KErrNone], ssStopped = False\<rparr>"

lemma demo_driver_attach:
  "RRM_AttachProcess demo_machine demo_created \<lparr>sdAddress = 0x400000, sdBytes = [97], sdMax = 1\<rparr> 9 = Some (demo_attached, KErrNone)"
  using demo_send
  by (simp add: RRM_AttachProcess_def control_def send_msg_def as_client_des_def ControlProps.demo_attach_def demo_name_def
      demo_machine_def)

lemma demo_host_fields:
  "hMachine demo_host = demo_machine" "hAllocOk demo_host n" "hAppend demo_host k n = KErrNone" "hLocal demo_host x = 0x400000"
  "hLibraryInfo demo_host k name = Inr {}" "hProcessOpen demo_host k 9 = KErrNone" "hCreate demo_host k name = (k, Inl KErrNotFound)"
  "hConnect demo_host k = KErrNone" "hOpen demo_host k name = KErrNone" "hHeader demo_host k name = Inr [1, 2, 3, 4]"
  "hXip demo_host k name = Inr False" "hE32Size demo_host = 4" "hE32Flags demo_host h = 1" "hKImageDebuggable demo_host = 1"
  "hE32SecureId demo_host h = 7"
  by (simp_all add: demo_host_def)

lemma demo_secure_id:
  "GetSecureIdL demo_host name s = Some (s\<lparr>dsAllocs := Suc (dsAllocs s)\<rparr>, Inr 7)"
  by (simp add: GetSecureIdL_def read_header_def bindL_def thenL_def getL_def LeaveIfError_def returnL_def OpenFileHandleL_def
      allocL_def IsExecutableXipL_def ofsumL_def requireL_def CheckSufficientData_def GetSecureIdL_header_def
      demo_host_fields)

lemma demo_token:
  "seCaps (dsSession s) = {} \<Longrightarrow> seAgent (dsSession s) = 9 \<Longrightarrow>
   GetDebugAgentOEMTokenCapsL demo_host s = Some (s\<lparr>dsAllocs := Suc (Suc (dsAllocs s))\<rparr>, Inr ())"
  by (simp add: GetDebugAgentOEMTokenCapsL_def bindL_def thenL_def getL_def LeaveIfError_def returnL_def allocL_def
      demo_host_fields run_token_def set_kernel_def set_driver_def Let_def)

lemma demo_debuggable:
  "IsDebuggableL demo_host name s = Some (s\<lparr>dsAllocs := Suc (dsAllocs s)\<rparr>, Inr ())"
  by (simp add: IsDebuggableL_def read_header_def bindL_def thenL_def getL_def LeaveIfError_def returnL_def OpenFileHandleL_def
      allocL_def IsExecutableXipL_def ofsumL_def requireL_def CheckSufficientData_def IsDebugBitSet_def
      demo_host_fields)

lemma demo_request:
  "request_session demo_host 0 (demo_message EDebugServAttachExecutable) demo_opened =
     Some (demo_opened\<lparr>ssServer := \<lparr>svActive = [\<lparr>ppName = [97], ppId = 9\<rparr>], svPassive = [], svSessionCount = 1, svShutdown = False,
       svDriver = demo_attached\<rparr>, ssSessions := [demo_attached_session], ssOuts := [Completed 1 KErrNone]\<rparr>)"
proof -
  have copy: "copy8 [97] = [97]" by (simp add: copy8_def)
  note defs = bindL_def thenL_def getL_def LeaveIfError_def returnL_def allocL_def ofsumL_def requireL_def demo_host_fields
    updateL_def callLeaveL_def callL_def Let_def
  have attach: "attach_permitted demo_host (demo_message EDebugServAttachExecutable) [97] 1 False s =
      Some (s\<lparr>dsServer := (dsServer s)\<lparr>svActive := [\<lparr>ppName = [97], ppId = 9\<rparr>], svDriver := demo_attached\<rparr>,
        dsSession := demo_attached_session, dsAllocs := dsAllocs s + 5, dsOuts := dsOuts s @ [Completed 1 KErrNone]\<rparr>, Inr ())"
    if "dsServer s = ssServer demo_opened" "dsSession s = demo_session" for s
    using that
    by (simp add: attach_permitted_def defs server_AttachProcessL_def CProcessPair_NewL_def attach_pair_def demo_opened_def
        copy local_des_def demo_driver_attach[unfolded One_nat_def] set_driver_def insert_handler_def CSecuritySvrAsync_NewL_def set_session_def
        CompleteM_def add_out_def demo_session_def demo_attached_session_def)
  show ?thesis
    by (simp add: request_session_def handle_request_def ServiceL_def AttachProcessL_def defs demo_secure_id
        KUidDebugSecurityServer_def demo_token demo_debuggable with_session_def put_session_def demo_opened_def demo_session_def
        OEMTokenPermitsDebugL_def attach[unfolded demo_opened_def demo_session_def One_nat_def])
qed

end
