(* ===== verification/SecurityClaims.thy ===== *)
theory SecurityClaims
  imports SecurityInv DemoServer
begin

text \<open>
  The properties of the debug security server: who may debug what, what one agent can do to another, what a request that
  is refused leaves behind, and where the checks fail.
\<close>

section \<open>Running requests\<close>

lemma bindL_run: "f s = Some (s1, Inr x) \<Longrightarrow> bindL f g s = g x s1"
  by (simp add: bindL_def)

lemma bindL_leave: "f s = Some (s1, Inl e) \<Longrightarrow> bindL f g s = Some (s1, Inl e)"
  by (simp add: bindL_def)

lemma thenL_run: "f s = Some (s1, Inr ()) \<Longrightarrow> thenL f g s = g s1"
  by (simp add: thenL_def bindL_def)

lemma thenL_leave: "f s = Some (s1, Inl e) \<Longrightarrow> thenL f g s = Some (s1, Inl e)"
  by (simp add: thenL_def bindL_def)

lemma bindL_cases:
  assumes "bindL f g s = Some (s', r)"
  obtains e where "f s = Some (s', Inl e)" "r = Inl e" | s1 x where "f s = Some (s1, Inr x)" "g x s1 = Some (s', r)"
  using assms by (auto simp: bindL_def split: option.splits sum.splits)

lemma thenL_cases:
  assumes "thenL f g s = Some (s', r)"
  obtains e where "f s = Some (s', Inl e)" "r = Inl e" | s1 where "f s = Some (s1, Inr ())" "g s1 = Some (s', r)"
  using assms unfolding thenL_def by (rule bindL_cases) auto

lemma set_same_driver [simp]: "set_driver (ds_driver s) s = s"
  by (cases s) (simp add: set_driver_def)

lemma basic_run [simp]:
  "returnL x s = Some (s, Inr x)" "leaveL e s = Some (s, Inl e)" "getL h s = Some (s, Inr (h s))" "ofsumL v s = Some (s, v)"
  "requireL b e s = Some (s, if b then Inr () else Inl e)" "CompleteM msg e s = Some (add_out (Completed (msHandle msg) e) s, Inr ())"
  by (simp_all add: returnL_def leaveL_def getL_def ofsumL_def requireL_def CompleteM_def updateL_def)

lemma handle_leave:
  "ServiceL S msg s = Some (s1, Inl e) \<Longrightarrow> handle_request S msg s = Some (add_out (Completed (msHandle msg) e) s1)"
  by (simp add: handle_request_def ServiceError_def)

lemma read_id:
  "msRead msg i 8 = Inr (le64 v) \<Longrightarrow> ReadTThreadIdL S msg i s = Some (s, Inr v)"
  "msRead msg i 8 = Inr (le64 v) \<Longrightarrow> ReadTProcessIdL S msg i s = Some (s, Inr v)"
  by (simp_all add: ReadTThreadIdL_def ReadTProcessIdL_def ReadObjectL_def bindL_def on_stack_def overwrite_def of_le64_le64)

section \<open>What an agent may control\<close>

text \<open>The token covers the capabilities of a target.\<close>

definition token_covers :: "TCapabilitySet \<Rightarrow> TCapabilitySet \<Rightarrow> bool" where
  "token_covers token target \<longleftrightarrow>
     ECapabilityAllFiles \<in> token \<and> target \<subseteq> token \<and> (ECapabilityAllFiles \<in> target \<longrightarrow> ECapabilityTCB \<in> token)"

lemma token_permits: "OEMTokenPermitsDebugL token target = token_covers token target"
  by (auto simp: OEMTokenPermitsDebugL_def token_covers_def)

text \<open>The maps have the agent on the name, or on the star; the passive map counts only for a passive request.\<close>

definition attached_to :: "'k host \<Rightarrow> 'k server \<Rightarrow> u64 \<Rightarrow> u16 list \<Rightarrow> bool \<Rightarrow> bool" where
  "attached_to S sv agent name passive \<longleftrightarrow>
     (\<exists>q\<in>set (svActive sv). ppId q = agent \<and> (ProcessNameMatches S q name \<or> ProcessNameMatches S q star)) \<or>
     passive \<and> (\<exists>q\<in>set (svPassive sv). ppId q = agent \<and> ProcessNameMatches S q name)"

definition may_control_process :: "'k host \<Rightarrow> 'k dss \<Rightarrow> RMessage2 \<Rightarrow> bool \<Rightarrow> u64 \<Rightarrow> bool" where
  "may_control_process S s msg passive pid \<longleftrightarrow>
     (token_covers (seCaps (dsSession s)) (hProcessCaps S (ds_kernel s) pid) \<or>
      IsDebuggable (mcKern (hMachine S)) (mcObjs (hMachine S)) (ds_kernel s) (ucast pid) = KErrNone) \<and>
     msClient msg = KErrNone \<and>
     (\<exists>agent. msClientProcess msg = Inr agent \<and> attached_to S (dsServer s) agent (hFileName S (ds_kernel s) pid) passive)"

text \<open>The object is a thread, or a process.\<close>

definition may_control :: "'k host \<Rightarrow> 'k dss \<Rightarrow> RMessage2 \<Rightarrow> bool \<Rightarrow> bool \<Rightarrow> u64 \<Rightarrow> bool" where
  "may_control S s msg thread passive i \<longleftrightarrow>
     (if thread then hThreadOpen S (ds_kernel s) i = KErrNone \<and>
        (\<exists>pid. hThreadProcess S (ds_kernel s) i = Inr pid \<and> may_control_process S s msg passive pid)
      else hProcessOpen S (ds_kernel s) i = KErrNone \<and> may_control_process S s msg passive i)"

lemma attached_process:
  "CheckAttachedProcess S sv name msg passive \<longleftrightarrow>
     msClient msg = KErrNone \<and> (\<exists>agent. msClientProcess msg = Inr agent \<and> attached_to S sv agent name passive)"
  by (auto simp: CheckAttachedProcess_def GetProcessIdFromMessage_def IsDebugger_def IsActiveDebugger_def attached_to_def
      list_ex_iff Equals_def ProcessIdMatches_def split: sum.splits)

lemma is_debuggable_call:
  assumes "drHandler d \<noteq> None"
  shows "RRM_IsDebuggable M d pid = Some (d, IsDebuggable (mcKern M) (mcObjs M) (drKernel d) pid)"
  using assms by (auto simp: RRM_IsDebuggable_def control_def send_msg_def SendMsg_def HandleMsg_def DoControl_def)

lemma check_process_run:
  assumes "drHandler (ds_driver s) \<noteq> None"
  shows "check_process S pid msg passive s = Some (s, Inr (may_control_process S s msg passive pid))"
  using is_debuggable_call[OF assms, of "hMachine S" "ucast pid"]
  by (auto simp: check_process_def bindL_def callL_def token_permits may_control_process_def attached_process)

lemma check_run:
  assumes "drHandler (ds_driver s) \<noteq> None"
  shows "CheckAttachedL_thread S i msg passive s =
      Some (s, if may_control S s msg True passive i then Inr () else Inl KErrPermissionDenied)"
    and "CheckAttachedL_process S i msg passive s =
      Some (s, if may_control S s msg False passive i then Inr () else Inl KErrPermissionDenied)"
  using check_process_run[OF assms]
  by (auto simp: CheckAttachedL_thread_def CheckAttachedL_process_def CheckAttached_thread_def CheckAttached_process_def
      bindL_def may_control_def split: sum.splits)

section \<open>Requests that are refused\<close>

text \<open>The requests that name their object first: whether it is a thread, and whether a passive agent is enough.\<close>

fun request_target :: "TDebugServRqst \<Rightarrow> (bool \<times> bool) option" where
  "request_target EDebugServSuspendThread = Some (True, False)"
| "request_target EDebugServResumeThread = Some (True, False)"
| "request_target EDebugServStep = Some (True, False)"
| "request_target EDebugServReadMemory = Some (True, True)"
| "request_target EDebugServWriteMemory = Some (True, False)"
| "request_target EDebugServReadRegisters = Some (True, True)"
| "request_target EDebugServWriteRegisters = Some (True, False)"
| "request_target EDebugServSetBreak = Some (True, False)"
| "request_target EDebugServSetProcessBreak = Some (False, False)"
| "request_target EDebugServKillProcess = Some (False, False)"
| "request_target f = None"

text \<open>C6: A request on a thread or a process (suspend, resume, step, read or write memory or registers, set a breakpoint,
  kill) that the agent may not control changes nothing: its message is completed with KErrPermissionDenied.  The agent
  may control a target when its token covers the target's capabilities or the driver says it is debuggable, and the maps have it
  attached to the file of the target or to all (for reading, passively too).\<close>

theorem uncontrolled_request_denied:
  assumes "drHandler (ds_driver s) \<noteq> None" "request_target (msFunction msg) = Some (thread, passive)"
    and "msRead msg 0 8 = Inr (le64 i)" "\<not> may_control S s msg thread passive i"
  shows "handle_request S msg s = Some (add_out (Completed (msHandle msg) KErrPermissionDenied) s)"
proof (rule handle_leave)
  show "ServiceL S msg s = Some (s, Inl KErrPermissionDenied)"
    using assms(2,4)
    by (cases "msFunction msg")
      (simp_all add: ServiceL_def SuspendThreadL_def ResumeThreadL_def StepL_def ReadMemoryL_def WriteMemoryL_def
        ReadRegistersL_def WriteRegistersL_def SetBreakL_def SetProcessBreakL_def KillProcessL_def
        bindL_run[where f = "ReadTThreadIdL S msg 0", OF read_id(1)[OF assms(3)]]
        bindL_run[where f = "ReadTProcessIdL S msg 0", OF read_id(2)[OF assms(3)]]
        thenL_leave check_run[OF assms(1)])
qed

theorem uncontrolled_request_denied_witness:
  "handle_request demo_host (demo_message EDebugServKillProcess) (with_session demo_opened 0) =
     Some (add_out (Completed 1 KErrPermissionDenied) (with_session demo_opened 0))"
proof -
  let ?s = "with_session demo_opened 0" and ?msg = "demo_message EDebugServKillProcess"
  have "drHandler (ds_driver ?s) \<noteq> None" by (simp add: demo_opened_def demo_created_fields)
  moreover have "request_target (msFunction ?msg) = Some (False, False)" "msRead ?msg 0 8 = Inr (le64 5)" by simp_all
  moreover have "\<not> may_control demo_host ?s ?msg False False 5"
    by (simp add: may_control_def demo_host_def)
  ultimately show ?thesis using uncontrolled_request_denied[of ?s ?msg] by simp
qed

text \<open>For the requests on a breakpoint: whether its object is taken for a thread.\<close>

fun break_request :: "TDebugServRqst \<Rightarrow> bool \<Rightarrow> bool option" where
  "break_request EDebugServClearBreak thread = Some thread"
| "break_request EDebugServModifyBreak thread = Some True"
| "break_request EDebugServModifyProcessBreak thread = Some False"
| "break_request f thread = None"

definition break_start :: "'k host \<Rightarrow> RMessage2 \<Rightarrow> 'k dss \<Rightarrow> 'k dss" where
  "break_start S msg s =
     (if msFunction msg = EDebugServClearBreak
      then set_kernel (mcWrite (hMachine S) (ds_kernel s) (hLocal S L_threadSpecific) (le32 0)) s else s)"

lemma break_info_channel:
  assumes "break_info S b s = Some (s1, r)"
  shows "drChannel (ds_driver s1) = drChannel (ds_driver s)" "drHandler (ds_driver s1) = drHandler (ds_driver s)"
    "svActive (dsServer s1) = svActive (dsServer s)"
  using assms
  by (auto simp: break_info_def bindL_def thenL_def callLeaveL_def callL_def RRM_BreakInfo_def control_def send_msg_def SendMsg_def
      HandleMsg_def DoControl_def set_driver_def bytesL_def LeaveIfError_def split: option.splits sum.splits prod.splits if_splits)


lemma demo_created_manager: "chBreakManager (drChannel demo_created) = demo_mgr"
  by (simp add: demo_created_def DoCreate_def demo_env_def demo_fields Create_def Start_def DoSecurityCheck_def Let_def
      new_DRM_DebugChannel_def demo_mgr_def) (simp add: demoJ_def)

lemma demo_break_info:
  assumes "drHandler (ds_driver s) = Some True" "chBreakManager (drChannel (ds_driver s)) = demo_mgr"
  shows "\<exists>s1 r. break_info demo_host 0 s = Some (s1, Inr r)"
proof -
  have find: "FindInSignedKeyOrder (iBreakPointList demo_mgr) 0 = Some 0" by (simp add: FindInSignedKeyOrder_def upt_rec)
  have "snd (client_writes demoK k ws) = KErrNone" for k ws
    by (induction demoK k ws rule: client_writes.induct) (simp_all add: demoK_def)
  then have "\<exists>k'. client_writes demoK k ws = (k', KErrNone)" for k ws by (metis prod.collapse)
  then have "\<exists>k'. DoBreakInfo demoK k demo_mgr (Arg i) = (k', KErrNone)" if "gBreakId i = 0" for i k
    using that find by (simp add: DoBreakInfo_def priv_DoBreakInfo_def Let_def del: client_writes.simps)
  then obtain k where "DoBreakInfo demoK (ds_kernel s) demo_mgr (Arg \<lparr>gBreakId = 0, gId = 0x400000, gAddress = 0x400000,
      gMode = 0x400000, gThreadSpecific = 0x400000\<rparr>) = (k, KErrNone)"
    by force
  then show ?thesis
    using assms
    by (simp add: break_info_def thenL_def bindL_def callLeaveL_def callL_def RRM_BreakInfo_def control_def send_msg_def SendMsg_def
        HandleMsg_def DoControl_def demo_host_fields demo_machine_def LeaveIfError_def bytesL_def)
qed


section \<open>Who debugs what\<close>

lemma demo_server_reach: "system_reach demo_host demo_created demo_served"
proof -
  have "system_reach demo_host demo_created (open_session demo_host demo_caps 0 (demo_message EDebugServOpen) (new_system demo_created))"
    by (intro system_reach.opened system_reach.started) (simp_all add: new_system_def)
  then have "system_reach demo_host demo_created demo_opened"
    by (simp only: demo_open)
  from system_reach.served[OF this _ _ demo_request] show ?thesis
    by (simp add: demo_opened_def demo_served_def)
qed



text \<open>C34: The state of the server is well-formed in every history: nothing is in the maps twice, every agent in the maps has a
  session, the count of sessions is exact and has not wrapped, and the shutdown timer runs only when there is no session.\<close>

theorem server_well_formed:
  assumes "system_reach S d0 y"
  shows "system_wf S y"
  by (rule system_reach_wf[OF assms])

theorem server_well_formed_witness: "system_wf demo_host demo_served \<and> ssSessions demo_served \<noteq> []"
  using server_well_formed[OF demo_server_reach] by (simp add: demo_served_def)



text \<open>C20: A request of one agent does not touch what another agent is attached to, in either map.\<close>

theorem agents_isolated:
  assumes "handle_request S msg s = Some s'" "a \<noteq> agent_of s"
  shows "attachments a (dsServer s') = attachments a (dsServer s)"
  using maps.request_frame[OF assms(1)] assms(2) by (simp add: maps_rel_def)

theorem agents_isolated_witness:
  "\<exists>s'. handle_request demo_host (demo_message EDebugServAttachExecutable) (with_session demo_opened 0) = Some s' \<and>
     attachments 4 (dsServer s') = attachments 4 (ssServer demo_opened) \<and> attachments 9 (dsServer s') \<noteq> attachments 9 (ssServer demo_opened)"
proof -
  obtain s' where s': "handle_request demo_host (demo_message EDebugServAttachExecutable) (with_session demo_opened 0) = Some s'"
    "put_session demo_opened 0 s' = demo_served"
    using demo_request by (auto simp: request_session_def demo_served_def demo_opened_def)
  have "dsServer s' = ssServer demo_served" using s'(2) put_session_simps(1) by metis
  moreover have "attachments 4 (dsServer s') = attachments 4 (dsServer (with_session demo_opened 0))"
    by (rule agents_isolated[OF s'(1)]) (simp add: demo_opened_def demo_session_def)
  ultimately show ?thesis
    using s'(1) by (auto simp: attachments_def demo_served_def demo_opened_def)
qed

lemma demo_detached: "DetachAgent demo_tracker 9 = Some (demo_tracker\<lparr>iProcesses := []\<rparr>, KErrNone)"
  by (simp add: DetachAgent_def demo_tracker_def new_DProcessTracker_def RemoveAgent_def AgentCount_def detach_process_body_def
      remove_nth_def demo_new_agent_def new_DDebugAgent_def)

lemma demo_close: "\<exists>s' r. close_session demo_host (with_session demo_served 0) = Some (s', r)"
  using demo_created_fields(2)
  by (simp add: close_session_def demo_served_def demo_attached_session_def demo_session_def with_session_def bindL_def thenL_def
      async_Cancel_def handler_at_def new_async_def updateL_def callL_def set_session_def RRM_DetachAgent_def control_def
      send_msg_def SendMsg_def HandleMsg_def DoControl_def demo_attached_def demo_created_fields demo_host_fields demo_machine_def
      req_DetachAgent_def Let_def demo_detached)

text \<open>C35: When a session ends its agent is attached to nothing, and what the other agents are attached to stays.\<close>

theorem session_end_releases:
  assumes "close_session S s = Some (s', r)"
  shows "attachments a (dsServer s') = (if a = agent_of s then ([], []) else attachments a (dsServer s))"
  by (rule close_effect(2)[OF assms])

theorem session_end_releases_witness:
  "\<exists>s' r. close_session demo_host (with_session demo_served 0) = Some (s', r) \<and> attachments 9 (dsServer s') = ([], []) \<and>
     attachments 9 (ssServer demo_served) \<noteq> ([], [])"
proof -
  obtain s' r where c: "close_session demo_host (with_session demo_served 0) = Some (s', r)"
    using demo_close by blast
  show ?thesis
    using session_end_releases[OF c, of 9] c by (auto simp: attachments_def demo_served_def demo_attached_session_def demo_session_def)
qed

end
