(* ===== verification/ServerErrors.thy ===== *)
theory ServerErrors
  imports SecurityClaims
begin

text \<open>
  The checks of the debug security server and where they fail: who may attach to an executable, which memory a request may
  name, the name of a debug token, and the requests that panic the server, leave an entry behind or are let through the
  second time.
\<close>

section \<open>Attaching needs permission\<close>

text \<open>The header that the server reads of a file.\<close>

definition file_header :: "'k host \<Rightarrow> 'k \<Rightarrow> u16 list \<Rightarrow> u8 list \<Rightarrow> bool \<Rightarrow> bool" where
  "file_header S k name bs xip \<longleftrightarrow>
     hHeader S k name = Inr bs \<and> hXip S k name = Inr xip \<and> CheckSufficientData S bs xip"

definition debuggable_file :: "'k host \<Rightarrow> 'k \<Rightarrow> u16 list \<Rightarrow> bool" where
  "debuggable_file S k name \<longleftrightarrow> (\<exists>bs xip. file_header S k name bs xip \<and> IsDebugBitSet S bs xip)"

definition secure_id_of :: "'k host \<Rightarrow> 'k \<Rightarrow> u16 list \<Rightarrow> u32 \<Rightarrow> bool" where
  "secure_id_of S k name sid \<longleftrightarrow>
     (\<exists>bs xip. file_header S k name bs xip \<and> sid = (if xip then hRomSecureId S bs else hE32SecureId S bs))"

text \<open>A step that changes nothing but the count of allocations.\<close>

definition only_allocs :: "'k dss \<Rightarrow> 'k dss \<Rightarrow> bool" where
  "only_allocs s s' \<longleftrightarrow> (\<exists>n. s' = s\<lparr>dsAllocs := n\<rparr>)"

lemma only_allocs_intro [simp, intro]:
  "only_allocs s s" "only_allocs s (s\<lparr>dsAllocs := n\<rparr>)"
proof -
  have "s = s\<lparr>dsAllocs := dsAllocs s\<rparr>" by (cases s) simp
  then show "only_allocs s s" unfolding only_allocs_def by blast
qed (auto simp: only_allocs_def)

lemma only_allocs_trans: "only_allocs s t \<Longrightarrow> only_allocs t u \<Longrightarrow> only_allocs s u"
  by (auto simp: only_allocs_def)

lemma alloc_run: "allocL S s = Some (s', r) \<Longrightarrow> only_allocs s s'"
  by (auto simp: allocL_def split: if_splits)

lemma read_header_run:
  assumes "read_header S name s = Some (s', r)"
  shows "only_allocs s s' \<and> (\<forall>bs. r = Inr bs \<longrightarrow> (\<exists>xip. file_header S (ds_kernel s) name bs xip))"
  using assms
  by (auto simp: read_header_def OpenFileHandleL_def IsExecutableXipL_def LeaveIfError_def thenL_def bindL_def allocL_def
      requireL_def file_header_def split: if_splits sum.splits option.splits)

lemma secure_id_run:
  assumes "GetSecureIdL S name s = Some (s', r)"
  shows "only_allocs s s' \<and> (\<forall>sid. r = Inr sid \<longrightarrow> secure_id_of S (ds_kernel s) name sid)"
proof -
  obtain s1 x where h: "read_header S name s = Some (s1, x)" using assms by (auto simp: GetSecureIdL_def bindL_def split: option.splits)
  have k: "ds_kernel s1 = ds_kernel s" using read_header_run[OF h] by (auto simp: only_allocs_def)
  show ?thesis
  proof (cases x)
    case (Inl e)
    then show ?thesis using assms h read_header_run[OF h] by (auto simp: GetSecureIdL_def bindL_def)
  next
    case (Inr bs)
    then obtain xip where "file_header S (ds_kernel s) name bs xip" using read_header_run[OF h] by blast
    then show ?thesis
      using assms h Inr read_header_run[OF h] k
      by (auto simp: GetSecureIdL_def bindL_def thenL_def IsExecutableXipL_def GetSecureIdL_header_def file_header_def secure_id_of_def
          requireL_def split: if_splits)
  qed
qed

lemma debuggable_run:
  assumes "IsDebuggableL S name s = Some (s', r)"
  shows "only_allocs s s' \<and> (r = Inr () \<longrightarrow> debuggable_file S (ds_kernel s) name)"
proof -
  obtain s1 x where h: "read_header S name s = Some (s1, x)" using assms by (auto simp: IsDebuggableL_def bindL_def split: option.splits)
  have k: "ds_kernel s1 = ds_kernel s" using read_header_run[OF h] by (auto simp: only_allocs_def)
  show ?thesis
  proof (cases x)
    case (Inl e)
    then show ?thesis using assms h read_header_run[OF h] by (auto simp: IsDebuggableL_def bindL_def)
  next
    case (Inr bs)
    then obtain xip where "file_header S (ds_kernel s) name bs xip" using read_header_run[OF h] by blast
    then show ?thesis
      using assms h Inr read_header_run[OF h] k
      by (auto simp: IsDebuggableL_def bindL_def IsExecutableXipL_def file_header_def debuggable_file_def requireL_def split: if_splits)
  qed
qed

lemma token_run:
  assumes "GetDebugAgentOEMTokenCapsL S s = Some (s', r)"
  shows "svActive (dsServer s') = svActive (dsServer s)" "svPassive (dsServer s') = svPassive (dsServer s)"
  using assms
  by (auto simp: GetDebugAgentOEMTokenCapsL_def bindL_def thenL_def LeaveIfError_def allocL_def run_token_def Let_def
      set_kernel_def set_driver_def set_caps_def set_session_def split: if_splits sum.splits option.splits prod.splits)

text \<open>What lets the agent attach to the executable \<open>name\<close>: the file is not the server itself, and the agent's token covers the
  capabilities of the executable, or its header has the debug bit.\<close>

definition may_attach :: "'k host \<Rightarrow> 'k dss \<Rightarrow> u16 list \<Rightarrow> bool" where
  "may_attach S s name \<longleftrightarrow>
     (\<exists>sid. secure_id_of S (ds_kernel s) name sid \<and> sid \<noteq> KUidDebugSecurityServer) \<and>
     (\<exists>n s1 caps. GetDebugAgentOEMTokenCapsL S (s\<lparr>dsAllocs := n\<rparr>) = Some (s1, Inr ()) \<and>
        hLibraryInfo S (ds_kernel s1) name = Inr caps \<and>
        (token_covers (seCaps (dsSession s1)) caps \<or> debuggable_file S (ds_kernel s1) name))"

definition same_maps :: "'k dss \<Rightarrow> 'k dss \<Rightarrow> bool" where
  "same_maps s s' \<longleftrightarrow> svActive (dsServer s') = svActive (dsServer s) \<and> svPassive (dsServer s') = svPassive (dsServer s)"

lemma attach_run:
  assumes run: "AttachProcessL S msg s = Some (s', r)" and change: "\<not> same_maps s s'"
  shows "\<exists>len name. msDesLength msg 1 = Inr len \<and> msRead16 msg 1 len = Inr name \<and> may_attach S s name"
proof -
  note allocs = only_allocs_def same_maps_def
  obtain len where len: "msDesLength msg 1 = Inr len"
    using run change by (cases "msDesLength msg 1") (auto simp: AttachProcessL_def bindL_def same_maps_def)
  define rest where "rest = (\<lambda>name. thenL (GetDebugAgentOEMTokenCapsL S) (
      bindL (getL (\<lambda>s. (hLibraryInfo S (ds_kernel s) name, seCaps (dsSession s)))) (\<lambda>(info, tokenCaps).
      case info of
        Inl err \<Rightarrow> CompleteM msg err
      | Inr caps \<Rightarrow>
          thenL (if OEMTokenPermitsDebugL tokenCaps caps then returnL () else IsDebuggableL S name) (
          attach_permitted S msg name len (msInt msg 0 \<noteq> 0)))))"
  have "thenL (allocL S) (bindL (ofsumL (msRead16 msg 1 len)) (\<lambda>name. bindL (GetSecureIdL S name) (\<lambda>secureId.
      thenL (requireL (KUidDebugSecurityServer \<noteq> secureId) KErrPermissionDenied) (rest name)))) s = Some (s', r)"
    using run len by (simp add: AttachProcessL_def bindL_def rest_def Let_def)
  then show ?thesis
  proof (cases rule: thenL_cases)
    case (1 e)
    then show ?thesis using change alloc_run[OF 1(1)] by (auto simp: allocs)
  next
    case (2 s1)
    have s1: "only_allocs s s1" by (rule alloc_run[OF 2(1)])
    from 2(2) obtain name where name: "msRead16 msg 1 len = Inr name"
      and ids: "bindL (GetSecureIdL S name) (\<lambda>secureId.
        thenL (requireL (KUidDebugSecurityServer \<noteq> secureId) KErrPermissionDenied) (rest name)) s1 = Some (s', r)"
      using change s1 by (cases "msRead16 msg 1 len") (auto simp: bindL_def allocs)
    from ids show ?thesis
    proof (cases rule: bindL_cases)
      case (1 e)
      then show ?thesis using change secure_id_run[OF 1(1)] s1 by (auto simp: allocs)
    next
      case (2 s2 sid)
      have s2: "only_allocs s s2" "secure_id_of S (ds_kernel s) name sid"
        using secure_id_run[OF 2(1)] s1 by (auto simp: only_allocs_def)
      have other: "KUidDebugSecurityServer \<noteq> sid" and after: "rest name s2 = Some (s', r)"
        using 2(2) change s2(1) by (auto simp: thenL_def bindL_def allocs split: if_splits)
      obtain n where n: "s2 = s\<lparr>dsAllocs := n\<rparr>" using s2(1) by (auto simp: only_allocs_def)
      from after[unfolded rest_def] have
        "\<exists>s3 caps. GetDebugAgentOEMTokenCapsL S s2 = Some (s3, Inr ()) \<and> hLibraryInfo S (ds_kernel s3) name = Inr caps \<and>
           (token_covers (seCaps (dsSession s3)) caps \<or> debuggable_file S (ds_kernel s3) name)"
      proof (cases rule: thenL_cases)
        case (1 e)
        then show ?thesis using change token_run[OF 1(1)] s2(1) by (auto simp: allocs)
      next
        case (2 s3)
        have same: "same_maps s s3" using token_run[OF 2(1)] s2(1) by (auto simp: allocs)
        obtain caps where info: "hLibraryInfo S (ds_kernel s3) name = Inr caps"
          using 2(2) change same
          by (cases "hLibraryInfo S (ds_kernel s3) name") (auto simp: bindL_def add_out_def same_maps_def)
        have "token_covers (seCaps (dsSession s3)) caps \<or> debuggable_file S (ds_kernel s3) name"
        proof (rule ccontr)
          assume no: "\<not> ?thesis"
          then have "thenL (IsDebuggableL S name) (attach_permitted S msg name len (msInt msg 0 \<noteq> 0)) s3 = Some (s', r)"
            using 2(2) info by (simp add: bindL_def token_permits)
          then show False
            by (cases rule: thenL_cases) (use no change same debuggable_run in \<open>fastforce simp: allocs\<close>)+
        qed
        then show ?thesis using 2(1) info by blast
      qed
      then show ?thesis using len name s2(2) other n unfolding may_attach_def by metis
    qed
  qed
qed

text \<open>C14: A request to attach that changes the maps of attached processes names an executable that the agent may attach to:
  it is not the security server itself, and the agent's token covers its capabilities or its header has the debug bit.\<close>

theorem attach_needs_permission:
  assumes "handle_request S msg s = Some s'" "msFunction msg = EDebugServAttachExecutable"
    and "svActive (dsServer s') \<noteq> svActive (dsServer s) \<or> svPassive (dsServer s') \<noteq> svPassive (dsServer s)"
  shows "\<exists>len name. msDesLength msg 1 = Inr len \<and> msRead16 msg 1 len = Inr name \<and> may_attach S s name"
proof -
  obtain s1 r where run: "AttachProcessL S msg s = Some (s1, r)" and out: "dsServer s' = dsServer s1"
    using assms(1,2)
    by (auto simp: handle_request_def ServiceL_def ServiceError_def add_out_def split: option.splits sum.splits)
  show ?thesis using attach_run[OF run] out assms(3) by (simp add: same_maps_def)
qed

theorem attach_needs_permission_witness:
  "may_attach demo_host (with_session demo_opened 0) [97]"
proof -
  let ?msg = "demo_message EDebugServAttachExecutable"
  obtain s' where s': "handle_request demo_host ?msg (with_session demo_opened 0) = Some s'"
    "put_session demo_opened 0 s' = demo_served"
    using demo_request by (auto simp: request_session_def demo_served_def demo_opened_def)
  have "dsServer s' = ssServer demo_served" using s'(2) put_session_simps(1) by metis
  then have "svActive (dsServer s') \<noteq> svActive (dsServer (with_session demo_opened 0))"
    by (simp add: demo_served_def demo_opened_def)
  then show ?thesis using attach_needs_permission[OF s'(1)] by simp
qed

section \<open>Memory arguments\<close>

lemma unat_minus_32:
  fixes n :: u32
  assumes "n \<noteq> 0" shows "unat (- n) = 2 ^ 32 - unat n"
proof -
  have "uint n < 4294967296" "uint n \<noteq> 0" using unsigned_less[of n] assms by (simp_all add: unsigned_eq_0_iff)
  then have "uint (- n) = 4294967296 - uint n"
    by (simp add: uint_word_ariths zmod_zminus1_eq_if)
  then have "int (unat (- n)) = 4294967296 - int (unat n)" by (simp only: uint_nat)
  then have "unat (- n) = 4294967296 - unat n" by linarith
  then show ?thesis by simp
qed

lemma not_plus_one:
  fixes n a :: u32
  assumes "n \<noteq> 0"
  shows "a \<le> NOT n + 1 \<longleftrightarrow> unat a + unat n \<le> 2 ^ 32"
proof -
  have "NOT n + 1 = - n" by (simp add: not_eq_complement)
  moreover have "unat (- n) = 2 ^ 32 - unat n"
    using assms by (simp add: unat_minus_32)
  moreover have "unat n < 2 ^ 32" using unsigned_less[of n] by simp
  ultimately show ?thesis by (auto simp: word_le_nat_alt)
qed


lemma demo_stored: "demo_bytes (demo_put 0x400000 [b0, b1, b2, b3] k) 0x400000 4 = [b0, b1, b2, b3]"
  by (simp add: demo_bytes_def demo_put_def demo_byte_def upt_rec)


section \<open>The debug token\<close>

lemma hex_digit_value:
  assumes "d < 16" shows "unat (hex_digit d) = (if unat d < 10 then unat d + 48 else unat d + 55)"
proof -
  have "unat d < 16" using assms by (simp add: word_less_nat_alt)
  then show ?thesis by (auto simp: hex_digit_def word_less_nat_alt unat_word_ariths unsigned_ucast_eq take_bit_nat_eq_self)
qed

lemma hex_digit_inj:
  assumes "a < 16" "b < 16" "hex_digit a = hex_digit b" shows "a = b"
proof -
  have "(if unat a < 10 then unat a + 48 else unat a + 55) = (if unat b < 10 then unat b + 48 else unat b + 55)"
    using assms(3) hex_digit_value[OF assms(1)] hex_digit_value[OF assms(2)] by argo
  then have "unat a = unat b" by (auto split: if_splits)
  then show ?thesis by (simp add: word_unat_eq_iff)
qed

text \<open>Different agents have different debug tokens: the name of the token determines the secure id.\<close>

theorem token_name_injective:
  "token_name a = token_name b \<longleftrightarrow> a = b"
proof
  assume "token_name a = token_name b"
  then have d: "hex_digit (drop_bit (4 * i) a AND 15) = hex_digit (drop_bit (4 * i) b AND 15)" if "i < 8" for i
    using that by (auto simp: token_name_def hex8_def less_Suc_eq numeral_eq_Suc)
  have nib: "drop_bit (4 * i) a AND 15 = drop_bit (4 * i) b AND 15" if "i < 8" for i
  proof (rule hex_digit_inj[OF _ _ d[OF that]])
    have "x AND 15 < 16" for x :: u32 using word_and_le1[of x 15] by (simp add: word_le_nat_alt word_less_nat_alt)
    then show "drop_bit (4 * i) a AND 15 < 16" "drop_bit (4 * i) b AND 15 < 16" by blast+
  qed
  show "a = b"
  proof (rule bit_word_eqI)
    fix n assume n: "n < LENGTH(32)"
    have "bit (drop_bit (4 * (n div 4)) x AND 15) (n mod 4) = bit x n" for x :: u32
    proof -
      have "bit (15 :: u32) (n mod 4)" using bit_mask_iff[of 4 "n mod 4", where 'a = u32] by (simp add: mask_eq_exp_minus_1)
      then show ?thesis by (simp add: bit_and_iff bit_drop_bit_eq)
    qed
    moreover have "n div 4 < 8" using n by simp
    ultimately show "bit a n = bit b n" using nib[of "n div 4"] by metis
  qed
qed simp

section \<open>Where the checks fail\<close>

text \<open>An attempt to attach that the driver refuses leaves the entry in the server's map: the agent is still taken for a
  debugger of the process, and attaching again fails.\<close>

theorem failed_attach_keeps_entry:
  assumes "server_AttachProcessL S name (agent_of s) passive s = Some (s1, Inr KErrNone)" "hAllocOk S (dsAllocs s1)"
    and "RRM_AttachProcess (hMachine S) (ds_driver s1) (local_des S L_processName8 (copy8 name) len) (agent_of s) = Some (d, e)"
    and "is_error e"
  shows "\<exists>s'. attach_permitted S msg name len passive s = Some (s', Inl e) \<and>
    attach_pair S k (dsServer s') \<lparr>ppName = name, ppId = agent_of s\<rparr> again = (dsServer s', KErrAlreadyExists)"
proof -
  let ?p = "\<lparr>ppName = name, ppId = agent_of s\<rparr>"
  obtain k0 sv where a: "attach_pair S k0 (dsServer s) ?p passive = (dsServer s1, KErrNone)"
    using assms(1)
    by (auto simp: server_AttachProcessL_def CProcessPair_NewL_def bindL_def thenL_def allocL_def split: if_splits prod.splits)
  have "Equals S ?p (ppName ?p) (ppId ?p)" by (simp add: Equals_def ProcessIdMatches_def ProcessNameMatches_def)
  then have entry: "list_ex (\<lambda>q. Equals S q (ppName ?p) (ppId ?p)) (svActive (dsServer s1) @ svPassive (dsServer s1))"
    using arg_cong[OF a, of fst, symmetric] arg_cong[OF a, of snd] by (auto simp: attach_pair_def Let_def split: if_splits)
  define s' where "s' = set_driver d (s1\<lparr>dsAllocs := dsAllocs s1 + 1\<rparr>)"
  have "attach_permitted S msg name len passive s = Some (s', Inl e)"
    using assms
    by (simp add: attach_permitted_def bindL_def thenL_def LeaveIfError_def allocL_def Let_def callLeaveL_def callL_def agent_of_def
        s'_def)
  moreover have "attach_pair S k (dsServer s') ?p again = (dsServer s', KErrAlreadyExists)"
    using entry by (auto simp: attach_pair_def s'_def set_driver_def)
  ultimately show ?thesis by blast
qed

theorem failed_attach_keeps_entry_witness:
  "\<exists>s' e. attach_permitted demo_host (demo_message EDebugServAttachExecutable) [] 0 False (with_session demo_opened 0) = Some (s', Inl e) \<and>
     attach_pair demo_host demo0 (dsServer s') \<lparr>ppName = [], ppId = 9\<rparr> True = (dsServer s', KErrAlreadyExists)"
proof -
  let ?s = "with_session demo_opened 0"
  have agent: "agent_of ?s = 9" by (simp add: demo_opened_def demo_session_def)
  obtain s1 where s1: "server_AttachProcessL demo_host [] (agent_of ?s) False ?s = Some (s1, Inr KErrNone)" "ds_driver s1 = demo_created"
    by (simp add: server_AttachProcessL_def CProcessPair_NewL_def bindL_def thenL_def allocL_def demo_host_fields attach_pair_def
        demo_opened_def with_session_def)
  have "RRM_AttachProcess (hMachine demo_host) (ds_driver s1) (local_des demo_host L_processName8 (copy8 []) 0) (agent_of ?s) =
      Some (demo_created, KErrArgument)"
    by (simp add: s1(2) RRM_AttachProcess_def control_def send_msg_def SendMsg_def HandleMsg_def DoControl_def demo_host_fields
        demo_machine_def demo_created_fields req_AttachProcess_def read_name_def as_client_des_def local_des_def copy8_def)
  from failed_attach_keeps_entry[OF s1(1) _ this, of "demo_message EDebugServAttachExecutable" demo0 True, unfolded agent] show ?thesis
    by (auto simp: demo_host_fields)
qed

text \<open>A request for a listing with a descriptor whose length cannot be read panics the server: the negative length
  is passed on to the allocation of the buffer.\<close>

theorem bad_list_descriptor_panics:
  assumes "msFunction msg = EDebugServGetList" "hAllocOk S (dsAllocs s)" "msRead msg 0 16 = Inr details"
    and "msDesMaxLength msg 1 = Inl e"
  shows "handle_request S msg s = None"
  using assms
  by (simp add: handle_request_def ServiceL_def GetListL_def thenL_def bindL_def allocL_def ReadObjectL_def on_stack_def
      list_buffer_def panicL_def Let_def)

theorem bad_list_descriptor_panics_witness:
  "handle_request demo_host ((demo_message EDebugServGetList)\<lparr>msDesMaxLength := \<lambda>i. Inl KErrBadDescriptor\<rparr>) (with_session demo_opened 0) = None"
  by (rule bad_list_descriptor_panics[where e = KErrBadDescriptor and details = "le64 5"])
    (simp_all add: demo_host_fields le64_def)

text \<open>A request for the next event of a process with a name longer than KMaxName panics the server, although the
  agent is attached to the process: the name does not fit the message to the driver.\<close>

theorem long_name_event_panics:
  assumes "msFunction msg = EDebugServGetEvent" "msDesLength msg 0 = Inr n" "msRead16 msg 0 n = Inr name"
    and "CheckAttachedProcess S (dsServer s) name msg False" "\<And>i. hAllocOk S i"
    and "seHandlers (dsSession s) = [h]" "asProcessName h = copy8 name" "\<not> asActive h"
    and "mcMaxName (hMachine S) < length name"
  shows "handle_request S msg s = None"
proof -
  have "length (copy8 name) = length name" by (simp add: copy8_def)
  then show ?thesis
    using assms
    by (simp add: handle_request_def ServiceL_def GetEventL_def read_attached_name_def thenL_def bindL_def allocL_def
        find_handler_def async_GetEvent_def handler_at_def RRM_GetEvent_def)
qed

theorem long_name_event_panics_witness:
  "handle_request demo_host ((demo_message EDebugServGetEvent)\<lparr>msRead16 := \<lambda>i n. Inr (replicate 200 97)\<rparr>)
     ((with_session demo_opened 0)\<lparr>dsServer := (ssServer demo_opened)\<lparr>svActive := [\<lparr>ppName = replicate 200 97, ppId = 9\<rparr>]\<rparr>,
        dsSession := demo_session\<lparr>seHandlers := [new_async (copy8 (replicate 200 97)) 9]\<rparr>\<rparr>) = None"
  by (rule long_name_event_panics[where n = 1 and name = "replicate 200 97" and h = "new_async (copy8 (replicate 200 97)) 9"])
    (simp_all add: demo_host_fields demo_machine_def new_async_def attached_process attached_to_def ProcessNameMatches_def)

text \<open>When the crash log is on a NAND drive the first request is refused as not supported, but the session counts as
  connected then: the next one of an agent with the permission goes to the drive.\<close>

theorem nand_refused_once:
  assumes "ConnectCrashPartitionL S s = Some (s1, Inl KErrNotSupported)" "msClient msg = KErrNone"
    and "ECapabilityTCB \<in> seCaps (dsSession s)" "ECapabilityAllFiles \<in> seCaps (dsSession s)"
  shows "flash_access S msg f s1 = f s1"
proof -
  have "seCrashConnected se' \<and> seCaps se' = seCaps se" if "find_partition S k is se = (se', True)" for k "is" se se'
    using that by (induction "is" arbitrary: se) (auto simp: Let_def split: if_splits sum.splits)
  then have "seCrashConnected (dsSession s1)" "seCaps (dsSession s1) = seCaps (dsSession s)"
    using assms(1) by (fastforce simp: ConnectCrashPartitionL_def Let_def split: prod.splits if_splits)+
  then show ?thesis
    using assms(2-4)
    by (simp add: flash_access_def CheckFlashAccessPermissionL_def GetDebugAgentOEMTokenCapsL_def thenL_def bindL_def LeaveIfError_def
        OEMTokenPermitsFlashAccessL_def)
qed

theorem nand_refused_once_witness:
  "\<exists>s1. ConnectCrashPartitionL demo_host ((with_session demo_opened 0)\<lparr>dsSession := demo_session\<lparr>seCaps := {ECapabilityTCB, ECapabilityAllFiles}\<rparr>\<rparr>) =
       Some (s1, Inl KErrNotSupported) \<and>
     flash_access demo_host (demo_message EDebugServReadCrashFlash) panicL s1 = None"
proof -
  let ?s = "(with_session demo_opened 0)\<lparr>dsSession := demo_session\<lparr>seCaps := {ECapabilityTCB, ECapabilityAllFiles}\<rparr>\<rparr>"
  obtain s1 where s1: "ConnectCrashPartitionL demo_host ?s = Some (s1, Inl KErrNotSupported)"
    by (simp add: ConnectCrashPartitionL_def demo_host_def upt_rec)
  have "flash_access demo_host (demo_message EDebugServReadCrashFlash) panicL s1 = panicL s1"
    by (rule nand_refused_once[OF s1]) (simp_all add: demo_session_def)
  then show ?thesis using s1 by (simp add: panicL_def)
qed

end
