(* ===== verification/ServerReplies.thy ===== *)
theory ServerReplies
  imports SecurityClaims "HOL-Library.Multiset"
begin

text \<open>
  The replies of the debug security server: a request is answered once, at once or, when it waits for an event, by the handler
  that holds it; no request is answered twice and none is forgotten when its handler is cancelled or its session ends.
\<close>

named_theorems adds_intro

section \<open>What is answered and what is owed\<close>

fun answered :: "server_out list \<Rightarrow> nat multiset" where
  "answered [] = {#}"
| "answered (Written h i bs # os) = answered os"
| "answered (Completed h e # os) = add_mset h (answered os)"

definition held_by :: "async \<Rightarrow> nat multiset" where
  "held_by h = (if asActive h then (case asMessage h of None \<Rightarrow> {#} | Some msg \<Rightarrow> {#msHandle msg#}) else {#})"

definition pending :: "session \<Rightarrow> nat multiset" where
  "pending se = sum_list (map held_by (seHandlers se))"

text \<open>The messages that were answered, or that a handler holds.\<close>

definition owed :: "'k dss \<Rightarrow> nat multiset" where
  "owed s = answered (dsOuts s) + pending (dsSession s)"

lemma answered_append [simp]: "answered (xs @ ys) = answered xs + answered ys"
  by (induction xs rule: answered.induct) simp_all

lemma owed_simps [simp]:
  "owed (set_driver d s) = owed s" "owed (set_kernel k s) = owed s" "owed (s\<lparr>dsAllocs := n\<rparr>) = owed s"
  "owed (s\<lparr>dsServer := sv\<rparr>) = owed s" "owed (add_out (Written h i bs) s) = owed s"
  "owed (add_out (Completed h e) s) = add_mset h (owed s)"
  by (simp_all add: owed_def set_driver_def set_kernel_def add_out_def)

lemma sum_list_update_at:
  fixes f :: "'a \<Rightarrow> 'b :: comm_monoid_add"
  assumes "i < length xs"
  shows "sum_list (map f (xs[i := x])) + f (xs ! i) = sum_list (map f xs) + f x"
proof -
  have "sum_list (map f xs) = sum_list (map f (take i xs @ xs ! i # drop (Suc i) xs))"
    using assms by (simp add: id_take_nth_drop[symmetric])
  then show ?thesis using assms by (simp add: upd_conv_take_nth_drop add_ac)
qed

lemma owed_put_handler:
  assumes "i < length (seHandlers (dsSession s))"
  shows "owed (put_handler i h s) + held_by (handler_at s i) = owed s + held_by h"
  using sum_list_update_at[OF assms, of held_by h]
  by (simp add: owed_def put_handler_def set_session_def pending_def handler_at_def add_ac)

lemma owed_session: "pending (f (dsSession s)) = pending (dsSession s) \<Longrightarrow> owed (set_session f s) = owed s"
  by (simp add: owed_def set_session_def)

section \<open>What a step adds\<close>

text \<open>From the state \<open>s\<close> the step adds the messages \<open>n\<close> to what is answered or held, or nothing when it leaves.\<close>

definition adds_at :: "nat multiset \<Rightarrow> ('k, 'a) act \<Rightarrow> 'k dss \<Rightarrow> bool" where
  "adds_at n f s \<longleftrightarrow> (\<forall>s' r. f s = Some (s', r) \<longrightarrow> owed s' = owed s + (case r of Inl e \<Rightarrow> {#} | Inr x \<Rightarrow> n))"

definition adds :: "nat multiset \<Rightarrow> ('k, 'a) act \<Rightarrow> bool" where
  "adds n f \<longleftrightarrow> (\<forall>s. adds_at n f s)"

lemma addsI: "(\<And>s s' r. f s = Some (s', r) \<Longrightarrow> owed s' = owed s + (case r of Inl e \<Rightarrow> {#} | Inr x \<Rightarrow> n)) \<Longrightarrow> adds n f"
  by (simp add: adds_def adds_at_def)

lemma adds_atD: "adds_at n f s \<Longrightarrow> f s = Some (s', Inr x) \<Longrightarrow> owed s' = owed s + n"
  "adds_at n f s \<Longrightarrow> f s = Some (s', Inl e) \<Longrightarrow> owed s' = owed s"
  by (auto simp: adds_at_def)

lemma adds_at_bind:
  assumes f: "adds_at {#} f s" and g: "\<And>x. adds n (g x)"
  shows "adds_at n (bindL f g) s"
  unfolding adds_at_def
proof (intro allI impI)
  fix s' r assume run: "bindL f g s = Some (s', r)"
  show "owed s' = owed s + (case r of Inl e \<Rightarrow> {#} | Inr x \<Rightarrow> n)"
  proof (cases "f s")
    case (Some p)
    show ?thesis
    proof (cases "snd p")
      case (Inl e)
      then show ?thesis using run Some adds_atD(2)[OF f, of "fst p" e] by (cases p) (auto simp: bindL_def)
    next
      case (Inr x)
      then have "g x (fst p) = Some (s', r)" using run Some by (cases p) (simp add: bindL_def)
      moreover have "owed (fst p) = owed s" using adds_atD(1)[OF f, of "fst p" x] Some Inr by (cases p) simp
      ultimately show ?thesis using g[of x] by (simp add: adds_def adds_at_def)
    qed
  qed (use run in \<open>simp add: bindL_def\<close>)
qed

lemma adds_bind [adds_intro]: "adds {#} f \<Longrightarrow> (\<And>x. adds n (g x)) \<Longrightarrow> adds n (bindL f g)"
  unfolding adds_def using adds_at_bind[unfolded adds_def] by blast

lemma adds_then [adds_intro]: "adds {#} f \<Longrightarrow> adds n g \<Longrightarrow> adds n (thenL f g)"
  unfolding thenL_def by (rule adds_bind)

lemma adds_pure [adds_intro]:
  "adds {#} (returnL x)" "adds n (leaveL e)" "adds n panicL" "adds {#} (ofsumL v)" "adds {#} (getL h)"
  by (auto simp: adds_def adds_at_def returnL_def leaveL_def panicL_def ofsumL_def getL_def split: sum.splits)

lemma adds_if [adds_intro]: "adds n f \<Longrightarrow> adds n g \<Longrightarrow> adds n (if b then f else g)"
  by simp

lemma adds_prod [adds_intro]: "(\<And>x y. adds n (g x y)) \<Longrightarrow> adds n (case p of (x, y) \<Rightarrow> g x y)"
  by (cases p) simp

lemma adds_option [adds_intro]: "adds n f \<Longrightarrow> (\<And>x. adds n (g x)) \<Longrightarrow> adds n (case v of None \<Rightarrow> f | Some x \<Rightarrow> g x)"
  by (cases v) simp_all

lemma adds_sum [adds_intro]: "(\<And>x. adds n (f x)) \<Longrightarrow> (\<And>x. adds n (g x)) \<Longrightarrow> adds n (case v of Inl x \<Rightarrow> f x | Inr x \<Rightarrow> g x)"
  by (cases v) simp_all

lemma adds_let [adds_intro]: "(\<And>x. adds n (g x)) \<Longrightarrow> adds n (let x = v in g x)"
  by simp

lemma adds_complete [adds_intro]: "adds {#msHandle msg#} (CompleteM msg e)"
  by (rule addsI) (auto simp: CompleteM_def updateL_def)

lemma adds_basic [adds_intro]:
  "adds {#} (LeaveIfError e)" "adds {#} (requireL b e)" "adds {#} (allocL S)" "adds {#} (WriteL msg i bs)" "adds {#} (setL S x bs)"
  "adds {#} (callL S f)" "adds {#} (callLeaveL S f)"
proof -
  show leave: "adds {#} (LeaveIfError e)" for e by (simp add: LeaveIfError_def adds_pure)
  show "adds {#} (requireL b e)" by (simp add: requireL_def adds_pure)
  show "adds {#} (allocL S)" "adds {#} (setL S x bs)"
    by (auto intro!: addsI simp: allocL_def setL_def updateL_def split: if_splits)
  show "adds {#} (WriteL msg i bs)"
    unfolding WriteL_def by (intro adds_then leave) (auto intro!: addsI simp: updateL_def)
  show call: "adds {#} (callL S f)" by (auto intro!: addsI simp: callL_def)
  show "adds {#} (callLeaveL S f)" unfolding callLeaveL_def by (intro adds_bind call leave)
qed

lemma adds_read [adds_intro]:
  "adds {#} (ReadObjectL msg i init)" "adds {#} (bytesL S x n)" "adds {#} (desL S x)" "adds {#} (WriteDataL msg i bs)"
  "adds {#} (ReadTThreadIdL S msg i)" "adds {#} (ReadTProcessIdL S msg i)" "adds {#} (ReadTMemoryInfoL msg i)"
  "adds {#} (ReadTBreakInfoL S msg i)" "adds {#} (max_length2 msg)"
  unfolding ReadObjectL_def bytesL_def desL_def WriteDataL_def ReadTThreadIdL_def ReadTProcessIdL_def ReadTMemoryInfoL_def
    ReadTBreakInfoL_def max_length2_def
  by (intro adds_intro)+

lemma adds_check [adds_intro]:
  "adds {#} (CheckAttachedL_thread S i msg b)" "adds {#} (CheckAttachedL_process S i msg b)"
  "adds {#} (ValidateMemoryInfoL S mi)" "adds {#} (ValidateRegisterBuffersL S msg)" "adds {#} (read_attached_name S msg)"
  unfolding CheckAttachedL_thread_def CheckAttachedL_process_def CheckAttached_thread_def CheckAttached_process_def
    check_process_def ValidateMemoryInfoL_def max_block_size_def ValidateRegisterBuffersL_def read_attached_name_def
  by (intro adds_intro)+

section \<open>Requests that are answered at once\<close>

lemma adds_threads [adds_intro]:
  "adds {#msHandle msg#} (SuspendThreadL S msg)" "adds {#msHandle msg#} (ResumeThreadL S msg)"
  "adds {#msHandle msg#} (StepL S msg)" "adds {#msHandle msg#} (KillProcessL S msg)"
  "adds {#msHandle msg#} (GetDebugFunctionalityBufSizeL S msg)" "adds {#msHandle msg#} (GetDebugFunctionalityL S msg)"
  "adds {#msHandle msg#} (ReadMemoryL S msg)" "adds {#msHandle msg#} (WriteMemoryL S msg)"
  "adds {#msHandle msg#} (ReadRegistersL S msg)" "adds {#msHandle msg#} (WriteRegistersL S msg)"
  unfolding SuspendThreadL_def ResumeThreadL_def StepL_def KillProcessL_def GetDebugFunctionalityBufSizeL_def
    GetDebugFunctionalityL_def ReadMemoryL_def WriteMemoryL_def ReadRegistersL_def WriteRegistersL_def
  by (intro adds_intro)+

lemma adds_breaks [adds_intro]:
  "adds {#msHandle msg#} (SetBreakL S msg)" "adds {#msHandle msg#} (SetProcessBreakL S msg)"
  "adds {#msHandle msg#} (ClearBreakL S msg)" "adds {#msHandle msg#} (BreakInfoL S msg)"
  "adds {#msHandle msg#} (ProcessBreakInfoL S msg)" "adds {#msHandle msg#} (ModifyBreakL S msg)"
  "adds {#msHandle msg#} (ModifyProcessBreakL S msg)" "adds {#msHandle msg#} (SetEventActionL S msg)"
  unfolding SetBreakL_def SetProcessBreakL_def ClearBreakL_def BreakInfoL_def ProcessBreakInfoL_def ModifyBreakL_def
    ModifyProcessBreakL_def break_info_def write_break_info_def SetEventActionL_def
  by (intro adds_intro)+

lemma adds_executables: "adds {#} (append_drives S i drives d)"
proof (induction drives arbitrary: i d)
  case (Cons valid drives)
  have "adds {#} (append_files S dir names d)" for dir names d
  proof (induction names arbitrary: d)
    case (Cons name names)
    have "adds {#} (append_file S dir name d)" for d
      unfolding append_file_def by (intro adds_intro) (auto intro!: addsI)
    then show ?case by (simp add: adds_bind Cons.IH)
  qed (simp add: adds_pure)
  then show ?case by (simp only: append_drives.simps, intro adds_intro Cons.IH)
qed (simp add: adds_pure)

lemma adds_list [adds_intro]: "adds {#msHandle msg#} (GetListL S msg)"
  unfolding GetListL_def GetExecutablesListL_def finish_list_def list_buffer_def
  by (intro adds_intro adds_executables)

lemma pending_same [simp]: "pending (se\<lparr>seCaps := c\<rparr>) = pending se" "pending (se\<lparr>seDrive := dr\<rparr>) = pending se"
  "pending (se\<lparr>seDriveCaps := dc\<rparr>) = pending se" "pending (se\<lparr>seCrashConnected := b\<rparr>) = pending se"
  by (simp_all add: pending_def)

lemma adds_token [adds_intro]: "adds {#} (GetDebugAgentOEMTokenCapsL S)"
proof -
  have "owed (set_caps c s) = owed s" for c and s :: "'a dss" by (simp add: set_caps_def owed_session)
  then have "adds {#} (run_token S name)" for name
    by (auto intro!: addsI simp: run_token_def Let_def split: prod.splits sum.splits)
  then show ?thesis unfolding GetDebugAgentOEMTokenCapsL_def by (intro adds_intro)
qed

lemma find_partition_pending: "find_partition S k is se = (se', found) \<Longrightarrow> pending se' = pending se"
  by (induction "is" arbitrary: se) (auto simp: Let_def split: if_splits sum.splits)

lemma adds_flash [adds_intro]:
  assumes "adds {#msHandle msg#} f" shows "adds {#msHandle msg#} (flash_access S msg f)"
proof -
  have "adds {#} (ConnectCrashPartitionL S)"
    using find_partition_pending
    by (fastforce intro!: addsI simp: ConnectCrashPartitionL_def Let_def owed_def split: prod.splits if_splits)
  then show ?thesis unfolding flash_access_def CheckFlashAccessPermissionL_def by (intro adds_intro assms)
qed

lemma adds_crash_log [adds_intro]:
  "adds {#msHandle msg#} (ReadCrashLogL S msg)" "adds {#msHandle msg#} (WriteCrashConfigL S msg)"
  "adds {#msHandle msg#} (EraseCrashLogL S msg)" "adds {#msHandle msg#} (EraseEntireCrashLogL S msg)"
proof -
  have kernel: "adds {#} (\<lambda>s. let (k, err) = g s in Some (set_kernel k s, Inr err))" for g :: "'a dss \<Rightarrow> 'a \<times> 'c"
    by (auto intro!: addsI split: prod.splits)
  have format: "adds {#} (format_drive S i p n)" for i p n unfolding format_drive_def by (rule kernel)
  have blocks: "adds {#} (erase_blocks S i n bs)" for i n bs
  proof (induction bs)
    case (Cons b bs)
    show ?case by (simp only: erase_blocks.simps, intro adds_intro format Cons.IH)
  qed (simp only: erase_blocks.simps, rule adds_pure)
  show "adds {#msHandle msg#} (ReadCrashLogL S msg)" "adds {#msHandle msg#} (WriteCrashConfigL S msg)"
    "adds {#msHandle msg#} (EraseCrashLogL S msg)" "adds {#msHandle msg#} (EraseEntireCrashLogL S msg)"
    unfolding ReadCrashLogL_def WriteCrashConfigL_def EraseCrashLogL_def EraseEntireCrashLogL_def driveL_def
    by (intro adds_intro kernel format blocks)+
qed

section \<open>Handlers\<close>

lemma adds_attach [adds_intro]:
  "adds {#msHandle msg#} (AttachProcessL S msg)" "adds {#msHandle msg#} (AttachAllL S msg)"
proof -
  have pair: "adds {#} (server_AttachProcessL S name ag b)" for name ag b
    unfolding server_AttachProcessL_def CProcessPair_NewL_def
    by (intro adds_intro) (auto intro!: addsI split: prod.splits)
  have "pending (se\<lparr>seHandlers := new_async name ag # seHandlers se\<rparr>) = pending se" for se name ag
    by (simp add: pending_def new_async_def held_by_def)
  then have push: "adds {#} (updateL (set_session (\<lambda>se. se\<lparr>seHandlers := h # seHandlers se\<rparr>)))"
    if "held_by h = {#}" for h
    using that by (auto intro!: addsI owed_session simp: updateL_def pending_def)
  have handler: "adds {#} (bindL (CSecuritySvrAsync_NewL S name ag) g)"
    if "\<And>h. held_by h = {#} \<Longrightarrow> adds {#} (g h)" for name ag and g :: "async \<Rightarrow> ('a, unit) act"
  proof -
    have "CSecuritySvrAsync_NewL S name ag s = Some (s', Inr h) \<Longrightarrow> held_by h = {#}" for s s' :: "'a dss" and h
      by (auto simp: CSecuritySvrAsync_NewL_def thenL_def bindL_def allocL_def returnL_def new_async_def held_by_def split: if_splits)
    moreover have "adds {#} (CSecuritySvrAsync_NewL S name ag)"
      unfolding CSecuritySvrAsync_NewL_def by (intro adds_intro)
    ultimately show ?thesis
      using that by (fastforce simp: adds_def adds_at_def bindL_def split: option.splits sum.splits)
  qed
  have insert: "adds {#} (insert_handler S name name8 n)" for name name8 n
    unfolding insert_handler_def
    by (rule adds_bind[OF adds_pure(5)], rule handler, intro adds_intro push, assumption?)
      (auto intro!: addsI simp: updateL_def)
  have permitted: "adds {#msHandle msg#} (attach_permitted S msg name n b)" for name n b
    unfolding attach_permitted_def by (intro adds_intro pair insert)
  have headers: "adds {#} (GetSecureIdL S name)" "adds {#} (IsDebuggableL S name)" for name
    unfolding GetSecureIdL_def IsDebuggableL_def read_header_def OpenFileHandleL_def IsExecutableXipL_def GetSecureIdL_header_def
    by (intro adds_intro)+
  show "adds {#msHandle msg#} (AttachProcessL S msg)"
    unfolding AttachProcessL_def by (intro adds_intro headers permitted)
  show "adds {#msHandle msg#} (AttachAllL S msg)"
    unfolding AttachAllL_def by (intro adds_intro pair insert)
qed

text \<open>A step on a handler that is there.\<close>

lemma cancel_adds:
  assumes "i < length (seHandlers (dsSession s))" "async_Cancel S i s = Some (s', r)"
  shows "owed s' = owed s" "length (seHandlers (dsSession s')) = length (seHandlers (dsSession s))"
    "held_by (handler_at s' i) = {#}" "\<And>j. j \<noteq> i \<Longrightarrow> handler_at s' j = handler_at s j"
proof -
  let ?h = "(handler_at s i)\<lparr>asActive := False, asStatus := None\<rparr>"
  have one: "owed s' = owed s \<and> length (seHandlers (dsSession s')) = length (seHandlers (dsSession s)) \<and>
      held_by (handler_at s' i) = {#} \<and> (\<forall>j. j \<noteq> i \<longrightarrow> handler_at s' j = handler_at s j)"
  proof (cases "asActive (handler_at s i)")
    case False
    then show ?thesis using assms(2) by (simp add: async_Cancel_def held_by_def)
  next
    case True
    then obtain msg d where msg: "asMessage (handler_at s i) = Some msg"
      and s': "s' = put_handler i ?h (add_out (Completed (msHandle msg) KErrCancel) (set_driver d s))"
      using assms(2) by (auto simp: async_Cancel_def Let_def split: option.splits)
    let ?t = "add_out (Completed (msHandle msg) KErrCancel) (set_driver d s)"
    have t: "handler_at ?t j = handler_at s j" "seHandlers (dsSession ?t) = seHandlers (dsSession s)" for j
      by (simp_all add: handler_at_def add_out_def set_driver_def)
    have "owed s' + held_by (handler_at ?t i) = owed ?t + held_by ?h"
      unfolding s' by (rule owed_put_handler) (simp add: t(2) assms(1))
    then have "owed s' = owed s" using msg True by (simp add: t held_by_def)
    moreover have "seHandlers (dsSession s') = (seHandlers (dsSession s))[i := ?h]"
      by (simp add: s' put_handler_def set_session_def t)
    ultimately show ?thesis using assms(1) by (simp add: handler_at_def held_by_def)
  qed
  then show "owed s' = owed s" "length (seHandlers (dsSession s')) = length (seHandlers (dsSession s))"
    "held_by (handler_at s' i) = {#}" "\<And>j. j \<noteq> i \<Longrightarrow> handler_at s' j = handler_at s j"
    by simp_all
qed

lemma pending_remove:
  assumes "i < length (seHandlers se)" "held_by (seHandlers se ! i) = {#}"
  shows "pending (se\<lparr>seHandlers := remove_nth i (seHandlers se)\<rparr>) = pending se"
proof -
  have "sum_list (map held_by (seHandlers se)) =
      sum_list (map held_by (take i (seHandlers se) @ seHandlers se ! i # drop (Suc i) (seHandlers se)))"
    using assms(1) by (simp add: id_take_nth_drop[symmetric])
  then show ?thesis using assms(2) by (simp add: pending_def remove_nth_def)
qed

lemma delete_adds:
  assumes "i < length (seHandlers (dsSession s))"
  shows "adds_at {#} (delete_handler S i) s"
  unfolding adds_at_def
proof (intro allI impI)
  fix s' r assume "delete_handler S i s = Some (s', r)"
  then obtain s1 where c: "async_Cancel S i s = Some (s1, Inr ())"
    and s': "s' = set_session (\<lambda>se. se\<lparr>seHandlers := remove_nth i (seHandlers se)\<rparr>) s1" "r = Inr ()"
    using async_cancel_inr by (fastforce simp: delete_handler_def thenL_def bindL_def updateL_def split: option.splits sum.splits)
  note c = cancel_adds[OF assms c]
  have "owed s' = owed s1"
    unfolding s'(1) using pending_remove[of i "dsSession s1"] c(2,3) assms
    by (intro owed_session) (simp add: handler_at_def)
  then show "owed s' = owed s + (case r of Inl e \<Rightarrow> {#} | Inr x \<Rightarrow> {#})" using c(1) s'(2) by simp
qed

text \<open>What a request does with the handler it looks for, which is in the array.\<close>

lemma adds_find:
  assumes "adds n (g None)" "\<And>i s. i < length (seHandlers (dsSession s)) \<Longrightarrow> adds_at n (g (Some i)) s"
  shows "adds n (bindL (find_handler name) g)"
proof (rule addsI)
  fix s s' r assume run: "bindL (find_handler name) g s = Some (s', r)"
  let ?found = "find_index (\<lambda>h. name = asProcessName h) (seHandlers (dsSession s))"
  have "g ?found s = Some (s', r)" using run by (simp add: find_handler_def bindL_def getL_def)
  moreover have "adds_at n (g ?found) s"
  proof (cases ?found)
    case None
    then show ?thesis using assms(1) by (simp add: adds_def)
  next
    case (Some i)
    then show ?thesis using assms(2)[of i s] find_index_SomeD[OF Some] by simp
  qed
  ultimately show "owed s' = owed s + (case r of Inl e \<Rightarrow> {#} | Inr x \<Rightarrow> n)" by (simp add: adds_at_def)
qed

lemma adds_at_then: "adds_at {#} f s \<Longrightarrow> adds n g \<Longrightarrow> adds_at n (thenL f g) s"
  unfolding thenL_def by (rule adds_at_bind)

lemma adds_detach_pair [adds_intro]: "adds {#} (detach_pair S name)"
  unfolding detach_pair_def by (intro adds_intro) (auto intro!: addsI split: prod.splits)

lemma cancel_adds_at: "i < length (seHandlers (dsSession s)) \<Longrightarrow> adds_at {#} (async_Cancel S i) s"
  using cancel_adds(1) by (auto simp: adds_at_def split: sum.splits)

lemma adds_case [adds_intro]:
  "adds n f \<Longrightarrow> adds n (case None of None \<Rightarrow> f | Some x \<Rightarrow> g x)"
  "adds_at n (g i) s \<Longrightarrow> adds_at n (case Some i of None \<Rightarrow> f | Some x \<Rightarrow> g x) s"
  by simp_all

lemmas adds_found = adds_find adds_at_then adds_case delete_adds cancel_adds_at

lemma adds_detach [adds_intro]:
  "adds {#msHandle msg#} (DetachProcessL S msg)" "adds {#msHandle msg#} (DetachAllL S msg)"
  "adds {#msHandle msg#} (CancelGetEventL S msg)"
  unfolding DetachProcessL_def DetachAllL_def CancelGetEventL_def Let_def
  by (intro adds_found adds_intro; assumption)+

text \<open>GetEvent: the message is held, or refused at once.\<close>

lemma get_event_adds:
  assumes "i < length (seHandlers (dsSession s))"
  shows "adds_at {#msHandle msg#} (async_GetEvent S i msg) s"
  unfolding adds_at_def
proof (intro allI impI)
  fix s' r assume run: "async_GetEvent S i msg s = Some (s', r)"
  show "owed s' = owed s + (case r of Inl e \<Rightarrow> {#} | Inr x \<Rightarrow> {#msHandle msg#})"
  proof (cases "asActive (handler_at s i)")
    case True
    then show ?thesis using run by (auto simp: async_GetEvent_def CompleteM_def updateL_def)
  next
    case False
    then obtain d outs status where
      s': "s' = put_handler i ((handler_at s i)\<lparr>asMessage := Some msg, asActive := True, asStatus := status\<rparr>) (set_driver d s)"
      and r: "r = Inr ()"
      using run by (auto simp: async_GetEvent_def Let_def)
    have same: "handler_at (set_driver d s) i = handler_at s i" "dsSession (set_driver d s) = dsSession s"
      by (simp_all add: handler_at_def set_driver_def)
    have "owed s' + held_by (handler_at s i) = owed s + {#msHandle msg#}"
      using owed_put_handler[of i "set_driver d s"] assms same unfolding s' by (simp add: held_by_def)
    then show ?thesis using False r by (simp add: held_by_def)
  qed
qed

lemma adds_get_event [adds_intro]: "adds {#msHandle msg#} (GetEventL S msg)"
  unfolding GetEventL_def
  by (intro adds_found get_event_adds adds_intro; assumption)

section \<open>Every request\<close>

lemma adds_service: "adds {#msHandle msg#} (ServiceL S msg)"
  unfolding ServiceL_def by (cases "msFunction msg") (simp_all add: adds_intro)

text \<open>C12: A request is answered exactly once: after it the messages that were answered or that a handler holds are
  those of before and its own.  A request that leaves is completed with the reason; one that waits for an event is held;
  and a handler that is cancelled answers the message it held.\<close>

theorem request_answered_once:
  assumes "handle_request S msg s = Some s'"
  shows "owed s' = add_mset (msHandle msg) (owed s)"
proof -
  have a: "adds_at {#msHandle msg#} (ServiceL S msg) s" using adds_service[of msg S] by (simp add: adds_def)
  obtain s1 r where run: "ServiceL S msg s = Some (s1, r)"
    using assms by (auto simp: handle_request_def split: option.splits)
  show ?thesis
  proof (cases r)
    case (Inl e)
    then have "s' = add_out (Completed (msHandle msg) e) s1"
      using assms run by (simp add: handle_request_def ServiceError_def CompleteM_def updateL_def)
    then show ?thesis using adds_atD(2)[OF a] run Inl by simp
  next
    case (Inr x)
    then show ?thesis using adds_atD(1)[OF a] assms run by (simp add: handle_request_def)
  qed
qed

theorem request_answered_once_witness:
  "\<exists>s'. handle_request demo_host (demo_message EDebugServAttachExecutable) (with_session demo_opened 0) = Some s' \<and>
     owed s' = {#1#}"
proof -
  obtain s' where s': "handle_request demo_host (demo_message EDebugServAttachExecutable) (with_session demo_opened 0) = Some s'"
    using demo_request by (auto simp: request_session_def)
  have "owed (with_session demo_opened 0) = {#}"
    by (simp add: owed_def with_session_def demo_opened_def pending_def demo_session_def)
  then show ?thesis using request_answered_once[OF s'] s' by simp
qed


text \<open>The demonstration session with its handler active.\<close>

definition demo_waiting :: "demo dss" where
  "demo_waiting = (with_session demo_opened 0)\<lparr>dsSession := demo_session\<lparr>seHandlers :=
     [(new_async [97] 9)\<lparr>asActive := True, asMessage := Some (demo_message EDebugServGetEvent)\<rparr>]\<rparr>\<rparr>"


text \<open>C27: The end of a session answers every message that its handlers hold, and nothing else.\<close>

theorem session_end_answers_waiting:
  assumes "close_session S s = Some (s', r)"
  shows "answered (dsOuts s') = answered (dsOuts s) + pending (dsSession s)"
proof -
  have cancel: "owed t' = owed t \<and> length (seHandlers (dsSession t')) = length (seHandlers (dsSession t)) \<and>
      (\<forall>j. held_by (handler_at t j) = {#} \<or> j \<in> set is \<longrightarrow> held_by (handler_at t' j) = {#})"
    if "cancel_handlers S is t = Some (t', x)" "\<forall>i\<in>set is. i < length (seHandlers (dsSession t))" for "is" t t' x
    using that
  proof (induction "is" arbitrary: t)
    case (Cons i "is")
    obtain t1 where c: "async_Cancel S i t = Some (t1, Inr ())" "cancel_handlers S is t1 = Some (t', x)"
      using Cons.prems(1) by (fastforce simp: thenL_def bindL_def split: option.splits sum.splits dest: async_cancel_inr)
    have i: "i < length (seHandlers (dsSession t))" using Cons.prems(2) by simp
    note 1 = cancel_adds[OF i c(1)]
    have 2: "owed t' = owed t1" "length (seHandlers (dsSession t')) = length (seHandlers (dsSession t1))"
      "\<And>j. held_by (handler_at t1 j) = {#} \<or> j \<in> set is \<Longrightarrow> held_by (handler_at t' j) = {#}"
      using Cons.IH[OF c(2)] Cons.prems(2) 1(2) by auto
    have "held_by (handler_at t1 j) = {#}" if "held_by (handler_at t j) = {#} \<or> j = i" for j
      using that 1(3) 1(4)[of j] by (cases "j = i") auto
    then show ?case using 1(1,2) 2 by fastforce
  qed (simp add: returnL_def)
  let ?n = "length (seHandlers (dsSession s))"
  obtain t x where t: "cancel_handlers S [0..<?n] s = Some (t, x)" and out: "answered (dsOuts s') = answered (dsOuts t)"
    using assms
    by (auto simp: close_session_def bindL_def thenL_def getL_def updateL_def callL_def set_session_def set_driver_def
        split: option.splits sum.splits dest!: cancel_inr)
  have "owed t = owed s" "\<And>j. j < ?n \<Longrightarrow> held_by (seHandlers (dsSession t) ! j) = {#}" "length (seHandlers (dsSession t)) = ?n"
    using cancel[OF t] by (auto simp: handler_at_def)
  moreover have "sum_list (map held_by hs) = {#}" if "\<forall>h\<in>set hs. held_by h = {#}" for hs
    using that by (induction hs) simp_all
  moreover from calculation have "pending (dsSession t) = {#}" by (simp add: pending_def all_set_conv_all_nth)
  ultimately show ?thesis using out by (simp add: owed_def)
qed

theorem session_end_answers_waiting_witness:
  "\<exists>s' r. close_session demo_host demo_waiting = Some (s', r) \<and> answered (dsOuts s') = {#1#}"
proof -
  have none: "FindAgentForProcessAndId demoK new_DProcessTracker name i = None" "DetachAgent new_DProcessTracker i = Some (new_DProcessTracker, KErrNone)" for name i
    by (simp_all add: FindAgentForProcessAndId_def new_DProcessTracker_def DetachAgent_def FindProcess_def find_by_name_def last_index_def)
  have "RRM_CancelGetEvent demo_machine demo_created [97] 9 = Some (demo_created, [])"
    by (simp add: RRM_CancelGetEvent_def send_msg_def SendMsg_def HandleMsg_def demo_machine_def demo_created_fields DoCancel_def none)
  moreover have "RRM_DetachAgent demo_machine demo_created 9 = Some (demo_created, KErrNone)"
    by (simp add: RRM_DetachAgent_def control_def send_msg_def SendMsg_def HandleMsg_def DoControl_def demo_machine_def
        demo_created_fields req_DetachAgent_def none)
  ultimately have "\<exists>s' r. close_session demo_host demo_waiting = Some (s', r)"
    by (simp add: close_session_def demo_waiting_def demo_opened_def demo_session_def with_session_def bindL_def thenL_def
        async_Cancel_def handler_at_def new_async_def updateL_def callL_def set_session_def put_handler_def add_out_def set_driver_def
        demo_host_fields)
  then obtain s' r where c: "close_session demo_host demo_waiting = Some (s', r)" by blast
  show ?thesis
    using session_end_answers_waiting[OF c] c
    by (auto simp: demo_waiting_def with_session_def demo_opened_def pending_def held_by_def)
qed

end
