(* ===== verification/TraceState.thy ===== *)
theory TraceState
  imports RmdPrelude
begin

text \<open>
  The state of the trace core (tracesrv/tracecore/btrace_handler): the component array of
  DBTraceOstCategoryBitmap, the trace cache and the multipart buffer of DBTraceOstCategoryHandler, the
  receivers of DTraceCoreNotifier and the state of DBTraceKernelCategoryHandler in one record, because
  the classes reach into each other; and the operations of RArray they use.

  What leaves the trace core is recorded in call order: the BTrace calls (SetFilter, SetHandler,
  Prime), the callbacks of receivers, the write to a settings saver, the response to a message and
  the frames given to the active writer.  The constants of the BTrace header format and the memory
  behind a data pointer are fields of the environment, since the kernel is not part of the repository.
\<close>

section \<open>Environment\<close>

text \<open>
  \<open>eNoMemory\<close> tells for the n-th element that is added to an array whether the array fails to grow.
\<close>

record tc_env =
  eNoMemory :: "nat \<Rightarrow> bool"
  eMem :: "u32 \<Rightarrow> u8"
  ePlatformSpecificFirst :: u8
  ePlatsecPrintf :: u32
  eMetaTrace :: u32
  eThreadIdentification :: u8
  eCpuUsage :: u8
  eOstTraceActivationQuery :: u8
  eHeader2Present :: u8
  eTimestampPresent :: u8
  eTimestamp2Present :: u8
  eContextIdPresent :: u8
  ePcPresent :: u8
  eExtraPresent :: u8
  eMissingRecord :: u8
  eMultipartFlagMask :: u32
  eMultipartFirst :: u32
  eMultipartMiddle :: u32
  eMultipartLast :: u32
  eSizeIndex :: nat
  eFlagsIndex :: nat
  eCategoryIndex :: nat
  eSubCategoryIndex :: nat

definition KMaxKernelCategory :: "tc_env \<Rightarrow> u8" where
  "KMaxKernelCategory E = ePlatformSpecificFirst E - 1"

definition KMinKernelCategory :: "tc_env \<Rightarrow> u8" where
  "KMinKernelCategory E = eThreadIdentification E"

definition KMaxGroupId :: u32 where "KMaxGroupId = 255"
definition KAllGroups :: u32 where "KAllGroups = 0"
definition KKernelHooksOSTComponentUID :: u32 where "KKernelHooksOSTComponentUID = 0x2001022D"
definition KOldNokiaAutogenOSTComponentUID :: u32 where "KOldNokiaAutogenOSTComponentUID = 0"
definition KMaxActivationBufferLength :: nat where "KMaxActivationBufferLength = 1024 * 16"
definition MAX_TRACE_DATA_SIZE :: nat where "MAX_TRACE_DATA_SIZE = 512"

definition GroupIdIsValid :: "u32 \<Rightarrow> bool" where
  "GroupIdIsValid aGroupId = (aGroupId \<le> KMaxGroupId)"

definition ComponentIdIsValid :: "u32 \<Rightarrow> bool" where
  "ComponentIdIsValid aComponentId = (aComponentId > 0)"

section \<open>Data\<close>

record TOstComponent =
  iComponentId :: u32
  iGroups :: "u32 list"

text \<open>One item of the cache: component, group (in the upper half of the word) and activation.\<close>

record TCacheItem =
  caComponent :: u32
  caGroup :: u32
  caActivated :: bool

record TNotificationReceiverItem =
  nrComponentID :: u32
  nrGroupID :: u32
  nrReceiver :: nat

record TMultiPartTrace =
  mpId :: u32
  mpHeader :: u32
  mpHeader2 :: u32
  mpContext :: u32
  mpComponentId :: u32
  mpTraceWord :: u32
  mpData :: "u8 list"
  mpPc :: u32
  mpDataInserted :: u32

record TMultiPartActivationInfo =
  maComponentId :: u32
  maTraceWord :: u32
  maMultiPartId :: u32

datatype bt_handler = DummyBTraceHandler | NormalBTraceHandler

datatype TWriterType = EWriterTypeXTI | EWriterTypeUSBPhonet | EWriterTypeOther nat

text \<open>The data of a frame is what a pointer or a value in the third parameter holds, or the buffer in
  which a multipart trace was put together.\<close>

datatype frame_data = FrameA3 u32 | FrameBuffer "u8 list"

record trace_frame =
  tfComponent :: u32
  tfTraceWord :: u32
  tfHeader :: u32
  tfHeader2 :: u32
  tfContext :: u32
  tfA1 :: u32
  tfA2 :: u32
  tfData :: frame_data
  tfExtra :: u32
  tfPc :: u32
  tfSize :: u32

datatype tc_call =
    CallSetFilter u32 bool
  | CallSetHandler bt_handler
  | CallPrime u8
  | CallPrimeDfc
  | CallActivated nat u32 u32
  | CallDeactivated nat u32 u32
  | CallError nat u32 u32 TErr
  | CallWriteSettings "u8 list"
  | CallResponse "u8 list" "u8 list"
  | CallFrame trace_frame

text \<open>The two classes that listen to activation changes.\<close>

datatype tc_listener = OstCategoryHandler | KernelCategoryHandler

record tcore =
  tcInstance :: bool
  tcInserts :: nat
  tcCalls :: "tc_call list"
  iOstComponents :: "TOstComponent list"
  iTmpArray :: "TOstComponent list"
  iChangedArray :: "TOstComponent list"
  iActivationBuffer :: "u8 list option"
  iActivationNotification :: "tc_listener list"
  iNotificationReceiverItems :: "TNotificationReceiverItem list"
  iAllTracesDeactivated :: bool
  iCacheItem1 :: TCacheItem
  iCacheItem2 :: TCacheItem
  iCacheItem3 :: TCacheItem
  iCacheItem4 :: TCacheItem
  iMultiPartTrace :: TMultiPartTrace
  ostSettings :: bool
  ostWriter :: "TWriterType option"
  kernelWriter :: "TWriterType option"
  iMultiPartActivationInfos :: "TMultiPartActivationInfo list"
  iPreviousTraceDropped :: bool
  iTraceCertified :: bool

definition call :: "tcore \<Rightarrow> tc_call \<Rightarrow> tcore" where
  "call s c = s\<lparr>tcCalls := tcCalls s @ [c]\<rparr>"

section \<open>Ordered arrays\<close>

text \<open>
  FindInOrder and FindInUnsignedKeyOrder search an array that is sorted by its key, as the arrays here
  are in every state (\<open>bitmap_wf\<close>); they return the index of the element with the key.
  InsertInOrder and InsertInUnsignedKeyOrder refuse a key that is already there and put a new element
  in front of the first one with a larger key.
\<close>

fun insert_ordered :: "('a \<Rightarrow> u32) \<Rightarrow> 'a \<Rightarrow> 'a list \<Rightarrow> 'a list" where
  "insert_ordered key x [] = [x]"
| "insert_ordered key x (y # ys) =
     (if key x < key y then x # y # ys else y # insert_ordered key x ys)"

definition find_ordered :: "('a \<Rightarrow> u32) \<Rightarrow> u32 \<Rightarrow> 'a list \<Rightarrow> nat option" where
  "find_ordered key k xs = find_index (\<lambda>x. key x = k) xs"

definition insert_array :: "tc_env \<Rightarrow> tcore \<Rightarrow> ('a \<Rightarrow> u32) \<Rightarrow> 'a \<Rightarrow> 'a list \<Rightarrow> tcore \<times> TErr \<times> 'a list" where
  "insert_array E s key x xs =
     (if find_ordered key (key x) xs \<noteq> None then (s, KErrAlreadyExists, xs)
      else (s\<lparr>tcInserts := Suc (tcInserts s)\<rparr>,
            if eNoMemory E (tcInserts s) then (KErrNoMemory, xs)
            else (KErrNone, insert_ordered key x xs)))"

abbreviation new_component :: "u32 \<Rightarrow> TOstComponent" where
  "new_component c \<equiv> \<lparr>iComponentId = c, iGroups = []\<rparr>"

text \<open>CopyArray resets the target and appends; an Append that fails is not noticed.\<close>

fun append_all :: "tc_env \<Rightarrow> tcore \<Rightarrow> 'a list \<Rightarrow> 'a list \<Rightarrow> tcore \<times> 'a list" where
  "append_all E s [] dst = (s, dst)"
| "append_all E s (x # xs) dst =
     append_all E (s\<lparr>tcInserts := Suc (tcInserts s)\<rparr>) xs
       (if eNoMemory E (tcInserts s) then dst else dst @ [x])"

section \<open>Byte order\<close>

definition SWAP32 :: "u32 \<Rightarrow> u32" where
  "SWAP32 num =
     or (or (drop_bit 24 (and num 0xff000000)) (drop_bit 8 (and num 0x00ff0000)))
        (or (push_bit 8 (and num 0x0000ff00)) (push_bit 24 (and num 0x000000ff)))"

definition SWAP16 :: "u16 \<Rightarrow> u16" where
  "SWAP16 num = or (drop_bit 8 (and num 0xff00)) (push_bit 8 (and num 0x00ff))"

text \<open>Reading 2 or 4 bytes of a message; None when they are not all in the message.\<close>

definition Read16 :: "u8 list \<Rightarrow> nat \<Rightarrow> u16 option" where
  "Read16 bs p = (if p + 2 \<le> length bs then Some (of_le16 (drop p bs)) else None)"

definition Read32 :: "u8 list \<Rightarrow> nat \<Rightarrow> u32 option" where
  "Read32 bs p = (if p + 4 \<le> length bs then Some (of_le (take 4 (drop p bs))) else None)"

end
