(* ===== verification/TraceNotifier.thy ===== *)
theory TraceNotifier
  imports TraceState
begin

text \<open>
  DTraceCoreNotifier: who is told when a trace group is activated or deactivated.  A receiver registers
  for one group of a component or, with group KAllGroups, for all of them.
\<close>

definition item_matches :: "u32 \<Rightarrow> u32 \<Rightarrow> TNotificationReceiverItem \<Rightarrow> bool" where
  "item_matches aComponentId aGroupId it =
     (nrComponentID it = aComponentId \<and> nrGroupID it = aGroupId \<or>
      nrComponentID it = aComponentId \<and> nrGroupID it = KAllGroups)"

definition TraceActivated :: "tcore \<Rightarrow> u32 \<Rightarrow> u16 \<Rightarrow> tcore" where
  "TraceActivated s aComponentId aGroupId =
     fold (\<lambda>it s. if item_matches aComponentId (ucast aGroupId) it
                  then call s (CallActivated (nrReceiver it) aComponentId (ucast aGroupId)) else s)
       (iNotificationReceiverItems s) s"

definition TraceDeactivated :: "tcore \<Rightarrow> u32 \<Rightarrow> u16 \<Rightarrow> tcore" where
  "TraceDeactivated s aComponentId aGroupId =
     fold (\<lambda>it s. if item_matches aComponentId (ucast aGroupId) it \<or>
                     nrComponentID it = aComponentId \<and> ucast aGroupId = KAllGroups
                  then call s (CallDeactivated (nrReceiver it) aComponentId
                         (if ucast aGroupId = KAllGroups then nrGroupID it else ucast aGroupId))
                  else s)
       (iNotificationReceiverItems s) s"

text \<open>The reason given to the receiver is KErrArgument whatever the caller passed.\<close>

definition TraceError :: "tcore \<Rightarrow> u32 \<Rightarrow> u32 \<Rightarrow> TErr \<Rightarrow> tcore" where
  "TraceError s aComponentId aGroupId aError =
     fold (\<lambda>it s. if item_matches aComponentId aGroupId it
                  then call s (CallError (nrReceiver it) aComponentId aGroupId KErrArgument) else s)
       (iNotificationReceiverItems s) s"

text \<open>The callers report an error only when the trace core exists.\<close>

definition report_error :: "tcore \<Rightarrow> u32 \<Rightarrow> u32 \<Rightarrow> tcore" where
  "report_error s aComponentId aGroupId =
     (if tcInstance s then TraceError s aComponentId aGroupId KErrArgument else s)"

text \<open>
  DTraceCore::GetActivation returns the bitmap for every component, and GetActivatedGroups is a copy of
  the component's groups.
\<close>

definition GetActivatedGroups :: "tcore \<Rightarrow> u32 \<Rightarrow> u32 list" where
  "GetActivatedGroups s aComponentId =
     (case find_ordered iComponentId aComponentId (iOstComponents s) of
        Some index \<Rightarrow> iGroups (iOstComponents s ! index)
      | None \<Rightarrow> [])"

definition NotifyImmediately :: "tcore \<Rightarrow> u32 \<Rightarrow> u8 \<Rightarrow> tcore" where
  "NotifyImmediately s aComponentId aGroupId =
     (if tcInstance s
      then fold (\<lambda>g s. if ucast aGroupId = KAllGroups \<or> g = ucast aGroupId
                       then TraceActivated s aComponentId (ucast g) else s)
             (GetActivatedGroups s aComponentId) s
      else s)"

text \<open>\<open>None\<close> is a NULL receiver.  The group is narrowed to the 8 bits of TGroupId for the immediate
  notification.\<close>

definition same_item :: "TNotificationReceiverItem \<Rightarrow> TNotificationReceiverItem \<Rightarrow> bool" where
  "same_item x y =
     (nrComponentID x = nrComponentID y \<and> nrGroupID x = nrGroupID y \<and> nrReceiver x = nrReceiver y)"

definition RegisterNotificationReceiver ::
  "tc_env \<Rightarrow> tcore \<Rightarrow> u32 \<Rightarrow> u32 \<Rightarrow> nat option \<Rightarrow> tcore \<times> TErr" where
  "RegisterNotificationReceiver E s aComponentId aGroupId aReceiver =
     (case aReceiver of
        None \<Rightarrow> (s, KErrArgument)
      | Some r \<Rightarrow>
          let item = \<lparr>nrComponentID = aComponentId, nrGroupID = aGroupId, nrReceiver = r\<rparr> in
          if list_ex (\<lambda>it. same_item it item) (iNotificationReceiverItems s) then (s, KErrAlreadyExists)
          else if eNoMemory E (tcInserts s) then (s\<lparr>tcInserts := Suc (tcInserts s)\<rparr>, KErrNoMemory)
          else (NotifyImmediately
                  (s\<lparr>tcInserts := Suc (tcInserts s),
                     iNotificationReceiverItems := iNotificationReceiverItems s @ [item]\<rparr>)
                  aComponentId (ucast aGroupId), KErrNone))"

text \<open>The removal loop steps back after each removal, so it visits every item once.\<close>

definition UnregisterNotificationReceiver :: "tcore \<Rightarrow> u32 \<Rightarrow> u32 \<Rightarrow> nat \<Rightarrow> tcore" where
  "UnregisterNotificationReceiver s aComponentId aGroupId r =
     s\<lparr>iNotificationReceiverItems :=
         filter (\<lambda>it. \<not> (nrComponentID it = aComponentId \<and> nrGroupID it = aGroupId \<and> nrReceiver it = r \<or>
                         nrComponentID it = aComponentId \<and> KAllGroups = aGroupId \<and> nrReceiver it = r))
           (iNotificationReceiverItems s)\<rparr>"

definition UnregisterAll :: "tcore \<Rightarrow> nat \<Rightarrow> tcore" where
  "UnregisterAll s r =
     s\<lparr>iNotificationReceiverItems :=
         filter (\<lambda>it. nrReceiver it \<noteq> r) (iNotificationReceiverItems s)\<rparr>"

definition GetComponentRegisteredGroupIDs :: "tc_env \<Rightarrow> tcore \<Rightarrow> u32 \<Rightarrow> u32 list \<Rightarrow> tcore \<times> u32 list" where
  "GetComponentRegisteredGroupIDs E s aComponentID aGroupIDs =
     fold (\<lambda>it (s, gs).
             if nrComponentID it = aComponentID \<and> nrGroupID it \<notin> set gs
             then (s\<lparr>tcInserts := Suc (tcInserts s)\<rparr>,
                   if eNoMemory E (tcInserts s) then gs else gs @ [nrGroupID it])
             else (s, gs))
       (iNotificationReceiverItems s) (s, aGroupIDs)"

section \<open>MTraceCoreNotificationReceiver\<close>

text \<open>The calls a receiver makes on itself.\<close>

definition receiver_Register :: "tc_env \<Rightarrow> tcore \<Rightarrow> nat \<Rightarrow> u32 \<Rightarrow> u32 \<Rightarrow> tcore \<times> TErr" where
  "receiver_Register E s this aComponentId aGroupId =
     (if tcInstance s then RegisterNotificationReceiver E s aComponentId aGroupId (Some this)
      else (s, KErrGeneral))"

definition receiver_RegisterAllGroups :: "tc_env \<Rightarrow> tcore \<Rightarrow> nat \<Rightarrow> u32 \<Rightarrow> tcore \<times> TErr" where
  "receiver_RegisterAllGroups E s this aComponentId = receiver_Register E s this aComponentId KAllGroups"

definition receiver_Unregister :: "tcore \<Rightarrow> nat \<Rightarrow> u32 \<Rightarrow> u32 \<Rightarrow> tcore" where
  "receiver_Unregister s this aComponentId aGroupId =
     (if tcInstance s then UnregisterNotificationReceiver s aComponentId aGroupId this else s)"

definition receiver_UnregisterAllGroups :: "tcore \<Rightarrow> nat \<Rightarrow> u32 \<Rightarrow> tcore" where
  "receiver_UnregisterAllGroups s this aComponentId = receiver_Unregister s this aComponentId KAllGroups"

definition receiver_UnregisterEverything :: "tcore \<Rightarrow> nat \<Rightarrow> tcore" where
  "receiver_UnregisterEverything s this = (if tcInstance s then UnregisterAll s this else s)"

end
