(* ===== verification/TraceBitmap.thy ===== *)
theory TraceBitmap
  imports TraceNotifier
begin

text \<open>
  DBTraceOstCategoryBitmap: the activated groups of each component.  A change is made on a copy of the
  component array, which is then swapped in; the listeners learn of it from the array of changes.
\<close>

section \<open>Components and groups\<close>

definition IsTraceActivated :: "tcore \<Rightarrow> u32 \<Rightarrow> u32 \<Rightarrow> bool" where
  "IsTraceActivated s aComponentId aTraceWord =
     (case find_ordered iComponentId aComponentId (iOstComponents s) of
        Some index \<Rightarrow>
          find_ordered id (drop_bit 16 (and aTraceWord 0x00ff0000)) (iGroups (iOstComponents s ! index)) \<noteq> None
      | None \<Rightarrow> False)"

definition FindComponentId :: "u32 \<Rightarrow> TOstComponent list \<Rightarrow> nat option" where
  "FindComponentId aComponentId xs = find_ordered iComponentId aComponentId xs"

definition CopyArray :: "tc_env \<Rightarrow> tcore \<Rightarrow> tcore" where
  "CopyArray E s = (case append_all E s (iOstComponents s) [] of (s, xs) \<Rightarrow> s\<lparr>iTmpArray := xs\<rparr>)"

definition CleanupChanged :: "tcore \<Rightarrow> tcore" where
  "CleanupChanged s = s\<lparr>iChangedArray := []\<rparr>"

text \<open>The two calls that open every change.\<close>

definition open_change :: "tc_env \<Rightarrow> tcore \<Rightarrow> tcore" where
  "open_change E s = CleanupChanged (CopyArray E s)"

definition SetNewComponentsArrayPtr :: "tcore \<Rightarrow> tcore" where
  "SetNewComponentsArrayPtr s = s\<lparr>iOstComponents := iTmpArray s, iTmpArray := iOstComponents s\<rparr>"

definition AddComponentId :: "tc_env \<Rightarrow> tcore \<Rightarrow> u32 \<Rightarrow> tcore \<times> nat option" where
  "AddComponentId E s aComponentId =
     (case insert_array E s iComponentId (new_component aComponentId) (iTmpArray s) of
        (s, err, xs) \<Rightarrow>
          (s\<lparr>iTmpArray := xs\<rparr>,
           if err = KErrNone \<or> err = KErrAlreadyExists then FindComponentId aComponentId xs else None))"

definition AddGroupToChangedArray :: "tc_env \<Rightarrow> tcore \<Rightarrow> u32 \<Rightarrow> u8 \<Rightarrow> tcore" where
  "AddGroupToChangedArray E s aComponentId aGroupId =
     (case insert_array E s iComponentId (new_component aComponentId) (iChangedArray s) of
        (s, _, xs) \<Rightarrow>
          (case FindComponentId aComponentId xs of
             None \<Rightarrow> s\<lparr>iChangedArray := xs\<rparr>
           | Some i \<Rightarrow>
               (case insert_array E s id (ucast aGroupId) (iGroups (xs ! i)) of
                  (s, _, gs) \<Rightarrow> s\<lparr>iChangedArray := xs[i := (xs ! i)\<lparr>iGroups := gs\<rparr>]\<rparr>)))"

definition RemoveComponentId :: "tc_env \<Rightarrow> tcore \<Rightarrow> u32 \<Rightarrow> bool \<Rightarrow> tcore \<times> nat option" where
  "RemoveComponentId E s aComponentId aNotifyActivationListeners =
     (case FindComponentId aComponentId (iTmpArray s) of
        None \<Rightarrow> (s, None)
      | Some index \<Rightarrow>
          let s = s\<lparr>iTmpArray := remove_nth index (iTmpArray s)\<rparr> in
          (if aNotifyActivationListeners
           then AddGroupToChangedArray E s aComponentId (ucast KAllGroups) else s, Some index))"

definition AddGroupId :: "tc_env \<Rightarrow> tcore \<Rightarrow> u32 \<Rightarrow> u8 \<Rightarrow> nat option \<Rightarrow> tcore \<times> TErr" where
  "AddGroupId E s aComponentId aGroupId aIndex =
     (case aIndex of
        None \<Rightarrow> (s, KErrArgument)
      | Some i \<Rightarrow>
          if i < length (iTmpArray s) then
            (case insert_array E s id (ucast aGroupId) (iGroups (iTmpArray s ! i)) of
               (s, ret, gs) \<Rightarrow>
                 let s = s\<lparr>iTmpArray := (iTmpArray s)[i := (iTmpArray s ! i)\<lparr>iGroups := gs\<rparr>]\<rparr> in
                 if ret = KErrNone then
                   (if tcInstance s then
                      let s = (if aGroupId > KMaxKernelCategory E
                               then call s (CallSetFilter (ucast aGroupId) True) else s)
                      in (AddGroupToChangedArray E s aComponentId aGroupId, KErrNone)
                    else (s, KErrGeneral))
                 else if ret = KErrAlreadyExists then (s, KErrNone)
                 else (s, ret))
          else (s, KErrArgument))"

definition RemoveGroupId :: "tc_env \<Rightarrow> tcore \<Rightarrow> u32 \<Rightarrow> u8 \<Rightarrow> nat option \<Rightarrow> tcore \<times> TErr" where
  "RemoveGroupId E s aComponentId aGroupId aIndex =
     (case aIndex of
        None \<Rightarrow> (s, KErrArgument)
      | Some i \<Rightarrow>
          if i < length (iTmpArray s) then
            (case find_ordered id (ucast aGroupId) (iGroups (iTmpArray s ! i)) of
               None \<Rightarrow> (s, KErrNone)
             | Some groupIndex \<Rightarrow>
                 let c = iTmpArray s ! i;
                     s = s\<lparr>iTmpArray := (iTmpArray s)[i := c\<lparr>iGroups := remove_nth groupIndex (iGroups c)\<rparr>]\<rparr> in
                 if tcInstance s
                 then (AddGroupToChangedArray E (call s (CallSetFilter (ucast aGroupId) False))
                         aComponentId aGroupId, KErrNone)
                 else (s, KErrGeneral))
          else (s, KErrArgument))"

section \<open>The activation buffer\<close>

text \<open>
  The pointer into the buffer is an offset.  The helpers leave the pointer and the buffer alone when
  fewer than the needed bytes plus one are left, and a read gives 0 then.
\<close>

definition Read32FromBuffer :: "u8 list \<Rightarrow> nat \<Rightarrow> u32 \<times> nat" where
  "Read32FromBuffer buf p =
     (if p < KMaxActivationBufferLength - 4 then (of_le (take 4 (drop p buf)), p + 4) else (0, p))"

definition Read16FromBuffer :: "u8 list \<Rightarrow> nat \<Rightarrow> u16 \<times> nat" where
  "Read16FromBuffer buf p =
     (if p < KMaxActivationBufferLength - 2 then (of_le16 (drop p buf), p + 2) else (0, p))"

definition WriteToBuffer32 :: "u32 \<Rightarrow> u8 list \<times> nat \<Rightarrow> u8 list \<times> nat" where
  "WriteToBuffer32 aData32 bp = (case bp of (buf, p) \<Rightarrow>
     if p < KMaxActivationBufferLength - 4 then (overwrite buf p (le32 aData32), p + 4) else (buf, p))"

definition WriteToBuffer16 :: "u16 \<Rightarrow> u8 list \<times> nat \<Rightarrow> u8 list \<times> nat" where
  "WriteToBuffer16 aData16 bp = (case bp of (buf, p) \<Rightarrow>
     if p < KMaxActivationBufferLength - 2 then (overwrite buf p (le16 aData16), p + 2) else (buf, p))"

definition write_component :: "TOstComponent \<Rightarrow> u8 list \<times> nat \<Rightarrow> u8 list \<times> nat" where
  "write_component c bp =
     fold (\<lambda>g. WriteToBuffer16 (ucast g)) (iGroups c)
       (WriteToBuffer32 (iComponentId c) (WriteToBuffer32 (of_nat (length (iGroups c))) bp))"

text \<open>Without a buffer (its allocation failed at start-up) the first write goes to address 0.\<close>

definition WriteToSettings :: "tcore \<Rightarrow> tcore option" where
  "WriteToSettings s =
     (case iActivationBuffer s of
        None \<Rightarrow> None
      | Some buf \<Rightarrow>
          let (buf', p) = fold write_component (iOstComponents s)
                            (WriteToBuffer32 (of_nat (length (iOstComponents s))) (buf, 0))
          in Some (call (s\<lparr>iActivationBuffer := Some buf'\<rparr>) (CallWriteSettings buf')))"

section \<open>Listeners\<close>

text \<open>DBTraceOstCategoryHandler::ActivationChanged and DBTraceKernelCategoryHandler::ActivationChanged.\<close>

definition ost_ActivationChanged :: "tcore \<Rightarrow> bool \<Rightarrow> tcore option" where
  "ost_ActivationChanged s aFromSettings =
     (if \<not> aFromSettings \<and> ostSettings s then WriteToSettings s else Some s)"

definition PrimeKernelCategories :: "tcore \<Rightarrow> tcore" where
  "PrimeKernelCategories s = call s CallPrimeDfc"

definition kernel_ActivationChanged :: "tcore \<Rightarrow> u32 \<Rightarrow> tcore" where
  "kernel_ActivationChanged s aComponentId =
     (if aComponentId = KOldNokiaAutogenOSTComponentUID \<or> aComponentId = KKernelHooksOSTComponentUID
      then PrimeKernelCategories s else s)"

fun notify_listeners :: "tc_listener list \<Rightarrow> tcore \<Rightarrow> bool \<Rightarrow> u32 \<Rightarrow> tcore option" where
  "notify_listeners [] s aFromSettings aComponentId = Some s"
| "notify_listeners (OstCategoryHandler # ls) s aFromSettings aComponentId =
     do { s \<leftarrow> ost_ActivationChanged s aFromSettings;
          notify_listeners ls s aFromSettings aComponentId }"
| "notify_listeners (KernelCategoryHandler # ls) s aFromSettings aComponentId =
     notify_listeners ls (kernel_ActivationChanged s aComponentId) aFromSettings aComponentId"

definition NotifyInternalActivation :: "tcore \<Rightarrow> bool \<Rightarrow> u32 \<Rightarrow> tcore option" where
  "NotifyInternalActivation s aFromSettings aComponentId =
     notify_listeners (iActivationNotification s) s aFromSettings aComponentId"

section \<open>Effects of a change\<close>

text \<open>Only the component word of each cache item is cleared.\<close>

definition clear_cache :: "tcore \<Rightarrow> tcore" where
  "clear_cache s = s\<lparr>iCacheItem1 := (iCacheItem1 s)\<lparr>caComponent := 0\<rparr>,
                     iCacheItem2 := (iCacheItem2 s)\<lparr>caComponent := 0\<rparr>,
                     iCacheItem3 := (iCacheItem3 s)\<lparr>caComponent := 0\<rparr>,
                     iCacheItem4 := (iCacheItem4 s)\<lparr>caComponent := 0\<rparr>\<rparr>"

definition only_printfs :: "tc_env \<Rightarrow> TOstComponent list \<Rightarrow> bool" where
  "only_printfs E xs =
     (case xs of
        [] \<Rightarrow> True
      | [c] \<Rightarrow> iComponentId c = KKernelHooksOSTComponentUID \<and> list_all (\<lambda>g. g \<le> ePlatsecPrintf E) (iGroups c)
      | _ \<Rightarrow> False)"

definition choose_handler :: "tc_env \<Rightarrow> tcore \<Rightarrow> tcore" where
  "choose_handler E s =
     (if only_printfs E (iOstComponents s)
      then call (s\<lparr>iAllTracesDeactivated := True\<rparr>) (CallSetHandler DummyBTraceHandler)
      else call (s\<lparr>iAllTracesDeactivated := False\<rparr>) (CallSetHandler NormalBTraceHandler))"

definition notify_changed :: "u32 \<Rightarrow> u32 \<Rightarrow> tcore \<Rightarrow> tcore" where
  "notify_changed componentId g s =
     (if IsTraceActivated s componentId (push_bit 16 g)
      then TraceActivated s componentId (ucast g)
      else TraceDeactivated s componentId (ucast g))"

definition HandleTraceActivationChanges :: "tc_env \<Rightarrow> tcore \<Rightarrow> tcore" where
  "HandleTraceActivationChanges E s =
     (let s = choose_handler E (clear_cache s) in
      if tcInstance s
      then fold (\<lambda>c. fold (notify_changed (iComponentId c)) (iGroups c)) (iChangedArray s) s
      else s)"

text \<open>What follows every swap of the arrays.\<close>

definition close_change :: "tc_env \<Rightarrow> tcore \<Rightarrow> bool \<Rightarrow> u32 \<Rightarrow> tcore option" where
  "close_change E s aFromSettings aComponentId =
     NotifyInternalActivation (HandleTraceActivationChanges E s) aFromSettings aComponentId"

section \<open>Operations\<close>

definition ActivateTrace :: "tc_env \<Rightarrow> tcore \<Rightarrow> u32 \<Rightarrow> u32 \<Rightarrow> tcore option" where
  "ActivateTrace E s aComponentId aGroupId =
     (if GroupIdIsValid aGroupId then
        let (s, index) = AddComponentId E (open_change E s) aComponentId;
            (s, ret) = AddGroupId E s aComponentId (ucast aGroupId) index
        in close_change E (SetNewComponentsArrayPtr s) False aComponentId
      else Some (report_error s aComponentId aGroupId))"

definition DeactivateTrace :: "tc_env \<Rightarrow> tcore \<Rightarrow> u32 \<Rightarrow> u32 \<Rightarrow> tcore option" where
  "DeactivateTrace E s aComponentId aGroupId =
     (if ComponentIdIsValid aComponentId then
        (if GroupIdIsValid aGroupId then
           (case FindComponentId aComponentId (iOstComponents s) of
              None \<Rightarrow> Some s
            | Some componentIndex \<Rightarrow>
                let (s, ret) = RemoveGroupId E (open_change E s) aComponentId (ucast aGroupId) (Some componentIndex)
                in if componentIndex < length (iTmpArray s) then
                     let s = (if iGroups (iTmpArray s ! componentIndex) = []
                              then fst (RemoveComponentId E s aComponentId False) else s)
                     in close_change E (SetNewComponentsArrayPtr s) False aComponentId
                   else None)
         else Some (report_error s aComponentId aGroupId))
      else Some s)"

definition DeactivateAll :: "tc_env \<Rightarrow> tcore \<Rightarrow> u32 \<Rightarrow> tcore option" where
  "DeactivateAll E s aComponentId =
     (let (s, index) = RemoveComponentId E (open_change E s) aComponentId True;
          s = (if index \<noteq> None then SetNewComponentsArrayPtr s else s)
      in close_change E s False aComponentId)"

fun read_groups :: "tc_env \<Rightarrow> nat \<Rightarrow> u8 list \<Rightarrow> nat \<Rightarrow> tcore \<Rightarrow> u32 \<Rightarrow> nat option \<Rightarrow> tcore \<times> nat" where
  "read_groups E 0 buf p s componentID index = (s, p)"
| "read_groups E (Suc k) buf p s componentID index =
     (let (groupID, p) = Read16FromBuffer buf p;
          s = (if GroupIdIsValid (ucast groupID)
               then fst (AddGroupId E s componentID (ucast groupID) index)
               else report_error s componentID (ucast groupID))
      in read_groups E k buf p s componentID index)"

fun read_components :: "tc_env \<Rightarrow> nat \<Rightarrow> u8 list \<Rightarrow> nat \<Rightarrow> tcore \<Rightarrow> u32 \<Rightarrow> tcore \<times> u32" where
  "read_components E 0 buf p s componentID = (s, componentID)"
| "read_components E (Suc n) buf p s _ =
     (let (groupcount, p) = Read32FromBuffer buf p;
          (componentID, p) = Read32FromBuffer buf p;
          (s, index) = AddComponentId E s componentID;
          (s, p) = read_groups E (nat (sint groupcount)) buf p s componentID index
      in read_components E n buf p s componentID)"

text \<open>\<open>aSettings\<close> is what the saver's Read copies to the buffer, None when it has nothing.\<close>

definition ReadFromSettings :: "tc_env \<Rightarrow> tcore \<Rightarrow> u8 list option \<Rightarrow> tcore option" where
  "ReadFromSettings E s aSettings =
     (case aSettings of
        None \<Rightarrow> Some s
      | Some bs \<Rightarrow>
          (case iActivationBuffer s of
             None \<Rightarrow> None
           | Some old \<Rightarrow>
               let buf = overwrite old 0 bs;
                   s = open_change E (s\<lparr>iActivationBuffer := Some buf\<rparr>);
                   (componentcount, p) = Read32FromBuffer buf 0;
                   (s, componentID) = read_components E (nat (sint componentcount)) buf p s 0
               in close_change E (SetNewComponentsArrayPtr s) True componentID))"

fun refresh_groups :: "tc_env \<Rightarrow> u32 \<Rightarrow> u32 list \<Rightarrow> tcore \<Rightarrow> tcore option" where
  "refresh_groups E componentId [] s = Some s"
| "refresh_groups E componentId (groupId # gs) s =
     (if componentId \<noteq> KKernelHooksOSTComponentUID \<or> groupId \<noteq> eMetaTrace E
      then do { s \<leftarrow> DeactivateTrace E s componentId groupId;
                s \<leftarrow> ActivateTrace E s componentId groupId;
                refresh_groups E componentId gs s }
      else refresh_groups E componentId gs s)"

fun refresh_components :: "tc_env \<Rightarrow> TOstComponent list \<Rightarrow> tcore \<Rightarrow> tcore option" where
  "refresh_components E [] s = Some s"
| "refresh_components E (c # cs) s =
     do { s \<leftarrow> refresh_groups E (iComponentId c) (iGroups c) s; refresh_components E cs s }"

text \<open>
  The loop walks a copy of the array, whose group arrays share their memory with the live ones: the
  copy equals the groups at the start as long as each group that was taken out is put back, which needs
  no new memory.
\<close>

definition RefreshActivations :: "tc_env \<Rightarrow> tcore \<Rightarrow> (tcore \<times> TErr) option" where
  "RefreshActivations E s =
     (if eNoMemory E (tcInserts s) then Some (s\<lparr>tcInserts := Suc (tcInserts s)\<rparr>, KErrNoMemory)
      else case append_all E (s\<lparr>tcInserts := Suc (tcInserts s)\<rparr>) (iOstComponents s) [] of
        (s, tmpArray) \<Rightarrow>
          do { s \<leftarrow> refresh_components E tmpArray s; Some (s, KErrNone) })"

definition IsComponentSupported :: "u32 \<Rightarrow> bool" where
  "IsComponentSupported aComponentID = True"

section \<open>DTraceActivationIf\<close>

definition If_IsTraceActivated :: "tcore \<Rightarrow> u32 \<Rightarrow> u32 \<Rightarrow> bool" where
  "If_IsTraceActivated s aComponentId aGroupId =
     (tcInstance s \<and> IsComponentSupported aComponentId \<and>
      list_ex (\<lambda>g. (ucast g :: u8) = ucast aGroupId) (GetActivatedGroups s aComponentId))"

definition If_ActivateTrace :: "tc_env \<Rightarrow> tcore \<Rightarrow> u32 \<Rightarrow> u32 \<Rightarrow> tcore option" where
  "If_ActivateTrace E s aComponentId aGroupId =
     (if tcInstance s \<and> IsComponentSupported aComponentId
      then ActivateTrace E s aComponentId aGroupId else Some s)"

definition If_DeactivateTrace :: "tc_env \<Rightarrow> tcore \<Rightarrow> u32 \<Rightarrow> u32 \<Rightarrow> tcore option" where
  "If_DeactivateTrace E s aComponentId aGroupId =
     (if tcInstance s \<and> IsComponentSupported aComponentId
      then DeactivateTrace E s aComponentId aGroupId else Some s)"

text \<open>The bitmap is the only activation interface that DTraceCore::RefreshActivations goes through.\<close>

definition If_RefreshActivations :: "tc_env \<Rightarrow> tcore \<Rightarrow> (tcore \<times> TErr) option" where
  "If_RefreshActivations E s =
     (if tcInstance s then RefreshActivations E s else Some (s, KErrNotReady))"

end
