(* ===== verification/TraceFrames.thy ===== *)
theory TraceFrames
  imports TraceBitmap "HOL-Library.Signed_Division"
begin

text \<open>
  Activation messages: the frames of the proprietary message format, the SetApplicationStatusRequest of
  the OST format, and DBTraceOstCategoryBitmap::MessageReceived, which tells them apart.

  A read outside the message is None: the code checks the length of a frame before it reads it, but not
  always enough (\<open>frame_count_overrun\<close>, \<open>protocol_frame_overrun\<close>).
\<close>

datatype TMessageHeaderFormat = EMessageHeaderFormatProprietary | EMessageHeaderFormatOst | EMessageHeaderFormatOther nat

definition SOS_MON_TRACECORE_OST_ACTIVATION :: u8 where "SOS_MON_TRACECORE_OST_ACTIVATION = 1"
definition SOS_MON_TRACECORE_OST_ACTIVATION_QUERY :: u8 where "SOS_MON_TRACECORE_OST_ACTIVATION_QUERY = 2"
definition SOS_MON_TRACECORE_OST_DEACTIVATE :: u8 where "SOS_MON_TRACECORE_OST_DEACTIVATE = 0"
definition SOS_MON_TRACECORE_OST_ACTIVATE :: u8 where "SOS_MON_TRACECORE_OST_ACTIVATE = 1"
definition SOS_MON_TRACECORE_OST_DEACTIVATE_ALL :: u8 where "SOS_MON_TRACECORE_OST_DEACTIVATE_ALL = 2"
definition SOS_MON_TRACECORE_OST_OVERWRITE :: u8 where "SOS_MON_TRACECORE_OST_OVERWRITE = 4"

definition KOstMessageIdOffset :: nat where "KOstMessageIdOffset = 0"
definition KOstActivationInfoOffset :: nat where "KOstActivationInfoOffset = 3"
definition KOstNumberOfGroupsOffset :: nat where "KOstNumberOfGroupsOffset = 4"
definition KOstComponentIdOffset :: nat where "KOstComponentIdOffset = 8"
definition KOstGroupIdOffset :: u32 where "KOstGroupIdOffset = 12"
definition KOstMinFrameLength :: u32 where "KOstMinFrameLength = 12"
definition KGroupIdLength :: u32 where "KGroupIdLength = 2"

lemmas ost_consts =
  SOS_MON_TRACECORE_OST_ACTIVATION_def SOS_MON_TRACECORE_OST_ACTIVATION_QUERY_def
  SOS_MON_TRACECORE_OST_DEACTIVATE_def SOS_MON_TRACECORE_OST_ACTIVATE_def
  SOS_MON_TRACECORE_OST_DEACTIVATE_ALL_def SOS_MON_TRACECORE_OST_OVERWRITE_def
  KOstMessageIdOffset_def KOstActivationInfoOffset_def KOstNumberOfGroupsOffset_def
  KOstComponentIdOffset_def KOstGroupIdOffset_def KOstMinFrameLength_def KGroupIdLength_def

definition Read8 :: "u8 list \<Rightarrow> nat \<Rightarrow> u8 option" where
  "Read8 bs p = (if p < length bs then Some (bs ! p) else None)"

section \<open>Groups of a frame\<close>

text \<open>One group of a frame: added or removed, or reported when it is not valid.\<close>

definition apply_group :: "tc_env \<Rightarrow> bool \<Rightarrow> u32 \<Rightarrow> nat option \<Rightarrow> u16 \<Rightarrow> tcore \<Rightarrow> tcore" where
  "apply_group E activate componentId index groupId s =
     (if GroupIdIsValid (ucast groupId) then
        (if activate then fst (AddGroupId E s componentId (ucast groupId) index)
         else fst (RemoveGroupId E s componentId (ucast groupId) index))
      else report_error s componentId (ucast groupId))"

text \<open>The loop over the groups of a frame; the offset is an unsigned 32-bit number.\<close>

fun frame_groups ::
  "tc_env \<Rightarrow> bool \<Rightarrow> u32 \<Rightarrow> nat option \<Rightarrow> u8 list \<Rightarrow> nat \<Rightarrow> nat \<Rightarrow> u32 \<Rightarrow> tcore \<Rightarrow> (tcore \<times> u32) option" where
  "frame_groups E activate componentId index msg start 0 offset s = Some (s, offset)"
| "frame_groups E activate componentId index msg start (Suc n) offset s =
     do { g \<leftarrow> Read16 msg (start + unat offset);
          frame_groups E activate componentId index msg start n (offset + KGroupIdLength)
            (apply_group E activate componentId index (SWAP16 g) s) }"

text \<open>OverwriteGroups: the groups named in the message, in order and once each.\<close>

fun overwrite_read ::
  "tc_env \<Rightarrow> u8 list \<Rightarrow> nat \<Rightarrow> nat \<Rightarrow> u32 \<Rightarrow> tcore \<Rightarrow> u32 list \<Rightarrow> (tcore \<times> u32 list \<times> u32) option" where
  "overwrite_read E msg start 0 offset s gs = Some (s, gs, offset)"
| "overwrite_read E msg start (Suc n) offset s gs =
     do { g \<leftarrow> Read16 msg (start + unat offset);
          let (s, ret, gs) = insert_array E s id (ucast (SWAP16 g)) gs in
          overwrite_read E msg start n (offset + KGroupIdLength) s gs }"

text \<open>The removal loop: \<open>i\<close> counts up to the number of groups at the start.\<close>

definition overwrite_remove :: "tc_env \<Rightarrow> u32 \<Rightarrow> nat \<Rightarrow> u32 list \<Rightarrow> nat \<Rightarrow> tcore \<times> nat \<Rightarrow> tcore \<times> nat" where
  "overwrite_remove E componentId index gs i sn =
     (case sn of (s, numberOfRemovedGroups) \<Rightarrow>
        let g = iGroups (iTmpArray s ! index) ! (i - numberOfRemovedGroups) in
        if find_ordered id g gs = None
        then (fst (RemoveGroupId E s componentId (ucast g) (Some index)), Suc numberOfRemovedGroups)
        else (s, numberOfRemovedGroups))"

definition overwrite_add :: "tc_env \<Rightarrow> u32 \<Rightarrow> nat \<Rightarrow> u32 \<Rightarrow> tcore \<Rightarrow> tcore" where
  "overwrite_add E componentId index g s =
     (if find_ordered id g (iGroups (iTmpArray s ! index)) = None then
        (if GroupIdIsValid g then fst (AddGroupId E s componentId (ucast g) (Some index))
         else report_error s componentId g)
      else s)"

definition OverwriteGroups ::
  "tc_env \<Rightarrow> u8 list \<Rightarrow> nat \<Rightarrow> nat \<Rightarrow> u32 \<Rightarrow> u32 \<Rightarrow> tcore \<Rightarrow> (tcore \<times> u32) option" where
  "OverwriteGroups E msg start index componentId numberOfGroups s =
     do { (s, gs, offset) \<leftarrow> overwrite_read E msg start (unat numberOfGroups) KOstGroupIdOffset s [];
          let (s, _) = fold (overwrite_remove E componentId index gs)
                         [0..<length (iGroups (iTmpArray s ! index))] (s, 0);
              s = fold (overwrite_add E componentId index) gs s
          in Some (s, offset) }"

section \<open>Frames of the proprietary format\<close>

definition ReadOstFrameGroups ::
  "tc_env \<Rightarrow> u8 list \<Rightarrow> u32 \<Rightarrow> u8 \<Rightarrow> nat \<Rightarrow> u32 \<Rightarrow> tcore \<Rightarrow> (tcore \<times> u32) option" where
  "ReadOstFrameGroups E aMessage aFrameStartIndex aActivationInfo aComponentIndex aComponentId s =
     do { n \<leftarrow> Read32 aMessage (unat aFrameStartIndex + KOstNumberOfGroupsOffset);
          let numberOfGroups = SWAP32 n;
              frameLen = of_nat (length aMessage) - aFrameStartIndex;
              start = unat aFrameStartIndex in
          if frameLen \<ge> KOstGroupIdOffset + numberOfGroups * KGroupIdLength then
            do { (s, offset) \<leftarrow>
                   (if aActivationInfo = SOS_MON_TRACECORE_OST_OVERWRITE
                    then OverwriteGroups E aMessage start aComponentIndex aComponentId numberOfGroups s
                    else if aActivationInfo = SOS_MON_TRACECORE_OST_DEACTIVATE \<or>
                            aActivationInfo = SOS_MON_TRACECORE_OST_ACTIVATE
                    then frame_groups E (aActivationInfo = SOS_MON_TRACECORE_OST_ACTIVATE) aComponentId
                           (Some aComponentIndex) aMessage start (unat numberOfGroups) KOstGroupIdOffset s
                    else Some (s, KOstGroupIdOffset));
                 let s = (if (aActivationInfo = SOS_MON_TRACECORE_OST_DEACTIVATE \<or>
                              aActivationInfo = SOS_MON_TRACECORE_OST_OVERWRITE) \<and>
                             iGroups (iTmpArray s ! aComponentIndex) = []
                          then fst (RemoveComponentId E s aComponentId False) else s)
                 in Some (s, aFrameStartIndex + offset) }
          else Some (s, 0) }"

definition ReadOstFrame :: "tc_env \<Rightarrow> u8 list \<Rightarrow> u32 \<Rightarrow> tcore \<Rightarrow> (tcore \<times> u32) option" where
  "ReadOstFrame E aMessage aFrameStartIndex s =
     (if of_nat (length aMessage) \<ge> aFrameStartIndex + KOstMinFrameLength then
        do { activationInfo \<leftarrow> Read8 aMessage (unat aFrameStartIndex + KOstActivationInfoOffset);
             c \<leftarrow> Read32 aMessage (unat aFrameStartIndex + KOstComponentIdOffset);
             let componentId = SWAP32 c in
             if activationInfo = SOS_MON_TRACECORE_OST_DEACTIVATE \<or>
                activationInfo = SOS_MON_TRACECORE_OST_ACTIVATE \<or>
                activationInfo = SOS_MON_TRACECORE_OST_OVERWRITE then
               do { let s = open_change E s;
                        (s, index) = (if activationInfo = SOS_MON_TRACECORE_OST_DEACTIVATE
                                      then (s, FindComponentId componentId (iTmpArray s))
                                      else AddComponentId E s componentId) in
                    do { (s, retPosition) \<leftarrow>
                           (case index of
                              None \<Rightarrow> Some (s, 0)
                            | Some i \<Rightarrow> ReadOstFrameGroups E aMessage aFrameStartIndex activationInfo i componentId s);
                         s \<leftarrow> close_change E (SetNewComponentsArrayPtr s) False componentId;
                         Some (s, retPosition) } }
             else if activationInfo = SOS_MON_TRACECORE_OST_DEACTIVATE_ALL then
               do { s \<leftarrow> close_change E (SetNewComponentsArrayPtr
                           (fst (RemoveComponentId E (open_change E s) componentId True))) False componentId;
                    Some (s, 0) }
             else Some (s, 0) }
      else Some (s, 0))"

lemma frame_start_moves:
  fixes n l :: u32
  shows "sint l < sint n \<Longrightarrow> sint l < 2147483648"
  using sint_lt[of n] by simp

text \<open>The loop of MessageReceived runs while the start of the next frame moves up; both positions are
  signed.\<close>

function message_frames :: "tc_env \<Rightarrow> u8 list \<Rightarrow> u32 \<Rightarrow> u32 \<Rightarrow> tcore \<Rightarrow> tcore option" where
  "message_frames E msg lastFrameStart nextFrameStart s =
     (if sint lastFrameStart < sint nextFrameStart then
        (case ReadOstFrame E msg nextFrameStart s of
           None \<Rightarrow> None
         | Some (s', next) \<Rightarrow> message_frames E msg nextFrameStart next s')
      else Some s)"
  by pat_completeness auto

termination message_frames
  by (relation "measure (\<lambda>(E, msg, lastFrameStart, nextFrameStart, s). nat (2 ^ 31 - sint lastFrameStart))")
    (auto intro: frame_start_moves)

declare message_frames.simps [simp del]

section \<open>Messages\<close>

definition ReadOstMessage :: "tc_env \<Rightarrow> u8 list \<Rightarrow> tcore \<Rightarrow> tcore option" where
  "ReadOstMessage E msg s = message_frames E msg (- 1) 0 s"

text \<open>SetApplicationStatusRequest: offsets in the data behind the 4 byte base header.\<close>

definition applicationIdOffset :: nat where "applicationIdOffset = 6 - 4"
definition activationStatusOffset :: nat where "activationStatusOffset = 10 - 4"
definition groupIdOffset :: nat where "groupIdOffset = 12 - 4"
definition KOstBaseHeaderSize :: nat where "KOstBaseHeaderSize = 4"

lemmas protocol_consts =
  applicationIdOffset_def activationStatusOffset_def groupIdOffset_def KOstBaseHeaderSize_def

text \<open>C division of a possibly negative number rounds towards 0; the quotient is stored unsigned, and
  one more is taken off when there is a remainder.\<close>

definition protocol_groups :: "u8 list \<Rightarrow> u32" where
  "protocol_groups aMessage =
     (let d = int (length aMessage) - int groupIdOffset;
          n = (of_int (d sdiv 2) :: u32)
      in if d smod 2 \<noteq> 0 then n - 1 else n)"

definition ReadOstProtocolFrameGroups ::
  "tc_env \<Rightarrow> u8 list \<Rightarrow> nat \<Rightarrow> bool \<Rightarrow> nat \<Rightarrow> u32 \<Rightarrow> tcore \<Rightarrow> (tcore \<times> u32) option" where
  "ReadOstProtocolFrameGroups E aMessage aFrameStartIndex activated aComponentIndex aComponentId s =
     (let n = protocol_groups aMessage;
          n = (if n > KMaxGroupId then SWAP32 n else n) in
      do { (s, offset) \<leftarrow> frame_groups E activated aComponentId (Some aComponentIndex) aMessage
                            aFrameStartIndex (unat n) (of_nat groupIdOffset) s;
           let s = (if \<not> activated \<and> iGroups (iTmpArray s ! aComponentIndex) = []
                    then fst (RemoveComponentId E s aComponentId False) else s)
           in Some (s, of_nat aFrameStartIndex + offset) })"

definition ReadOstProtocolFrame :: "tc_env \<Rightarrow> u8 list \<Rightarrow> nat \<Rightarrow> tcore \<Rightarrow> (tcore \<times> u32) option" where
  "ReadOstProtocolFrame E aMessage aFrameStartIndex s =
     (if int (length aMessage) \<ge> int activationStatusOffset + 1 - int KOstBaseHeaderSize then
        do { activationStatus \<leftarrow> Read8 aMessage (aFrameStartIndex + activationStatusOffset);
             if activationStatus = 0 \<or> activationStatus = 1 then
               do { a \<leftarrow> Read32 aMessage (aFrameStartIndex + applicationIdOffset);
                    let applicationId = SWAP32 a;
                        s = open_change E s;
                        (s, index) = (if activationStatus = 1 then AddComponentId E s applicationId
                                      else (s, FindComponentId applicationId (iTmpArray s))) in
                    do { (s, retPosition) \<leftarrow>
                           (case index of
                              None \<Rightarrow> Some (s, 0)
                            | Some i \<Rightarrow> ReadOstProtocolFrameGroups E aMessage aFrameStartIndex
                                          (activationStatus = 1) i applicationId s);
                         s \<leftarrow> close_change E (SetNewComponentsArrayPtr s) False applicationId;
                         Some (s, retPosition) } }
             else Some (s, 0) }
      else Some (s, 0))"

text \<open>The descriptor's index operator panics outside the message.\<close>

definition OstProtocolMessage :: "tc_env \<Rightarrow> u8 list \<Rightarrow> tcore \<Rightarrow> tcore option" where
  "OstProtocolMessage E msg s =
     do { messageId \<leftarrow> Read8 msg (5 - KOstBaseHeaderSize);
          if messageId = 0x06 then
            do { (s, _) \<leftarrow> ReadOstProtocolFrame E msg 0 s;
                 transaction \<leftarrow> Read8 msg (4 - KOstBaseHeaderSize);
                 Some (call s (CallResponse [0x01, 0x01, 0, 4] [transaction, 0x07, 0x00, 0x00])) }
          else Some s }"

definition bitmap_MessageReceived :: "tc_env \<Rightarrow> TMessageHeaderFormat \<Rightarrow> u8 list \<Rightarrow> tcore \<Rightarrow> tcore option" where
  "bitmap_MessageReceived E iMsgFormat iData s =
     (case iMsgFormat of
        EMessageHeaderFormatProprietary \<Rightarrow>
          if length iData \<ge> unat KOstMinFrameLength then
            do { ostMessageId \<leftarrow> Read8 iData KOstMessageIdOffset;
                 if ostMessageId = SOS_MON_TRACECORE_OST_ACTIVATION then ReadOstMessage E iData s
                 else Some s }
          else Some s
      | EMessageHeaderFormatOst \<Rightarrow> OstProtocolMessage E iData s
      | _ \<Rightarrow> Some s)"

end
