(* ===== verification/TraceHandlers.thy ===== *)
theory TraceHandlers
  imports TraceFrames
begin

text \<open>
  The handlers of BTrace records: DBTraceOstCategoryHandler, which filters OST traces by component and
  group with a cache of four decisions and puts multipart traces together (the build without SMP), and
  DBTraceKernelCategoryHandler, which passes on the kernel's own categories and primes them.

  HandleFrame gives the return value of the handler; None stands for a write behind the buffer of a
  multipart trace.
\<close>

section \<open>BTrace headers\<close>

definition KByteSize :: nat where "KByteSize = 8"

definition header_byte :: "nat \<Rightarrow> u32 \<Rightarrow> u8" where
  "header_byte i aHeader = ucast (and (drop_bit (i * KByteSize) aHeader) 0xFF)"

definition CheckMultiPart :: "tc_env \<Rightarrow> u32 \<Rightarrow> u32 \<Rightarrow> bool" where
  "CheckMultiPart E aHeader aHeader2 =
     (and (header_byte (eFlagsIndex E) aHeader) (eHeader2Present E) \<noteq> 0 \<and>
      and aHeader2 (eMultipartFlagMask E) \<noteq> 0)"

definition missing_flag :: "tc_env \<Rightarrow> u32 \<Rightarrow> u32" where
  "missing_flag E aHeader =
     or aHeader (push_bit (eFlagsIndex E * KByteSize) (ucast (eMissingRecord E)))"

definition CheckDroppedTrace :: "tc_env \<Rightarrow> tcore \<Rightarrow> u32 \<Rightarrow> tcore \<times> u32" where
  "CheckDroppedTrace E s aHeader =
     (if tcInstance s \<and> iPreviousTraceDropped s
      then (s\<lparr>iPreviousTraceDropped := False\<rparr>, missing_flag E aHeader)
      else (s, aHeader))"

text \<open>The header, one word for each optional field and the first two parameters.\<close>

definition CalculateDataStartOffset :: "tc_env \<Rightarrow> u32 \<Rightarrow> u32" where
  "CalculateDataStartOffset E aHeader =
     (let flags = header_byte (eFlagsIndex E) aHeader;
          opt = (\<lambda>f. if and flags f \<noteq> 0 then 4 else 0 :: u32)
      in 4 + opt (eHeader2Present E) + opt (eTimestampPresent E) + opt (eTimestamp2Present E)
           + opt (eContextIdPresent E) + opt (ePcPresent E) + opt (eExtraPresent E) + 4 + 4)"

definition mem_bytes :: "tc_env \<Rightarrow> u32 \<Rightarrow> nat \<Rightarrow> u8 list" where
  "mem_bytes E a n = map (\<lambda>i. eMem E (a + of_nat i)) [0..<n]"

definition mem_word :: "tc_env \<Rightarrow> u32 \<Rightarrow> u32" where
  "mem_word E a = of_le (mem_bytes E a 4)"

section \<open>Multipart traces (DBTraceOstCategoryHandler)\<close>

text \<open>memcpy into the buffer of a multipart trace; past its end it would hit the fields behind it.\<close>

definition mp_copy :: "TMultiPartTrace \<Rightarrow> u32 \<Rightarrow> u8 list \<Rightarrow> TMultiPartTrace option" where
  "mp_copy t off bs =
     (if unat off + length bs \<le> MAX_TRACE_DATA_SIZE
      then Some (t\<lparr>mpData := overwrite (mpData t) (unat off) bs\<rparr>) else None)"

definition mp_first ::
  "tc_env \<Rightarrow> tcore \<Rightarrow> u32 \<Rightarrow> u32 \<Rightarrow> u32 \<Rightarrow> u32 \<Rightarrow> u32 \<Rightarrow> u32 \<Rightarrow> u32 \<Rightarrow> (tcore \<times> bool) option" where
  "mp_first E s aHeader aHeader2 aContext a2 aData aExtra aPc =
     (let componentId = a2;
          traceWord = mem_word E aData in
      if IsTraceActivated s componentId traceWord then
        (let (s, aHeader) = CheckDroppedTrace E s aHeader;
             recordSize = ucast (header_byte (eSizeIndex E) aHeader);
             dataSize = recordSize - CalculateDataStartOffset E aHeader;
             t = (iMultiPartTrace s)\<lparr>mpId := aExtra, mpComponentId := componentId,
                   mpTraceWord := traceWord, mpContext := aContext, mpPc := aPc, mpHeader := aHeader,
                   mpHeader2 := and aHeader2 (not (eMultipartFlagMask E))\<rparr>
         in do { t \<leftarrow> mp_copy t 0 (mem_bytes E (aData + 4) (unat (dataSize - 4)));
                 Some (s\<lparr>iMultiPartTrace := t\<lparr>mpDataInserted := dataSize - 4\<rparr>\<rparr>, True) })
      else Some (s, False))"

definition mp_middle :: "tc_env \<Rightarrow> tcore \<Rightarrow> u32 \<Rightarrow> u32 \<Rightarrow> (tcore \<times> bool) option" where
  "mp_middle E s aHeader aData =
     (let recordSize = ucast (header_byte (eSizeIndex E) aHeader);
          dataSize = recordSize - CalculateDataStartOffset E aHeader;
          t = iMultiPartTrace s in
      if mpDataInserted t + dataSize < of_nat MAX_TRACE_DATA_SIZE then
        do { t \<leftarrow> mp_copy t (mpDataInserted t) (mem_bytes E aData (unat dataSize));
             Some ((fst (CheckDroppedTrace E s aHeader))
                     \<lparr>iMultiPartTrace := t\<lparr>mpDataInserted := mpDataInserted t + dataSize\<rparr>\<rparr>, True) }
      else Some (s, True))"

definition mp_frame :: "TMultiPartTrace \<Rightarrow> u32 \<Rightarrow> trace_frame" where
  "mp_frame t totalDataLen =
     \<lparr>tfComponent = mpComponentId t, tfTraceWord = mpTraceWord t, tfHeader = mpHeader t,
      tfHeader2 = mpHeader2 t, tfContext = mpContext t, tfA1 = mpComponentId t, tfA2 = mpTraceWord t,
      tfData = FrameBuffer (mpData t), tfExtra = mpId t, tfPc = mpPc t, tfSize = totalDataLen\<rparr>"

definition mp_last :: "tc_env \<Rightarrow> tcore \<Rightarrow> u32 \<Rightarrow> u32 \<Rightarrow> u32 \<Rightarrow> u32 \<Rightarrow> (tcore \<times> bool) option" where
  "mp_last E s aHeader a1 a2 aData =
     (let t = iMultiPartTrace s;
          partLen = a1 - a2;
          dataStartOffset = CalculateDataStartOffset E (mpHeader t) in
      if mpDataInserted t + partLen \<le> of_nat MAX_TRACE_DATA_SIZE then
        do { t \<leftarrow> mp_copy t (mpDataInserted t)
                    (if partLen = 4 then le32 aData else mem_bytes E aData (unat partLen));
             Some (call ((fst (CheckDroppedTrace E s aHeader))\<lparr>iMultiPartTrace := t\<lparr>mpId := 0\<rparr>\<rparr>)
                     (CallFrame (mp_frame t (a1 + dataStartOffset - 4))), True) }
      else Some (call (s\<lparr>iMultiPartTrace := t\<lparr>mpId := 0\<rparr>\<rparr>)
                   (CallFrame (mp_frame t (mpDataInserted t + dataStartOffset - 4))), True))"

definition HandleMultiPart ::
  "tc_env \<Rightarrow> tcore \<Rightarrow> u32 \<Rightarrow> u32 \<Rightarrow> u32 \<Rightarrow> u32 \<Rightarrow> u32 \<Rightarrow> u32 \<Rightarrow> u32 \<Rightarrow> u32 \<Rightarrow> (tcore \<times> bool) option" where
  "HandleMultiPart E s aHeader aHeader2 aContext a1 a2 aData aExtra aPc =
     (if mpId (iMultiPartTrace s) = 0 \<or> mpId (iMultiPartTrace s) = aExtra then
        (let part = and aHeader2 (eMultipartFlagMask E) in
         if part = eMultipartFirst E then mp_first E s aHeader aHeader2 aContext a2 aData aExtra aPc
         else if part = eMultipartMiddle E then mp_middle E s aHeader aData
         else if part = eMultipartLast E then mp_last E s aHeader a1 a2 aData
         else Some (s, False))
      else Some (s, False))"

section \<open>The cache\<close>

definition cache_hit :: "TCacheItem \<Rightarrow> u32 \<Rightarrow> u32 \<Rightarrow> bool" where
  "cache_hit it c g = (caComponent it = c \<and> caGroup it = g)"

definition cached_activation :: "tcore \<Rightarrow> u32 \<Rightarrow> u32 \<Rightarrow> tcore \<times> bool" where
  "cached_activation s a1 a2 =
     (let g = and a2 0xffff0000 in
      if cache_hit (iCacheItem1 s) a1 g then (s, caActivated (iCacheItem1 s))
      else if cache_hit (iCacheItem2 s) a1 g then (s, caActivated (iCacheItem2 s))
      else if cache_hit (iCacheItem3 s) a1 g then (s, caActivated (iCacheItem3 s))
      else if cache_hit (iCacheItem4 s) a1 g then (s, caActivated (iCacheItem4 s))
      else
        let retval = IsTraceActivated s a1 a2 in
        (s\<lparr>iCacheItem1 := \<lparr>caComponent = a1, caGroup = g, caActivated = retval\<rparr>,
           iCacheItem2 := iCacheItem1 s, iCacheItem3 := iCacheItem2 s, iCacheItem4 := iCacheItem3 s\<rparr>,
         retval))"

section \<open>DBTraceOstCategoryHandler::HandleFrame\<close>

definition ost_frame :: "u32 \<Rightarrow> u32 \<Rightarrow> u32 \<Rightarrow> u32 \<Rightarrow> u32 \<Rightarrow> u32 \<Rightarrow> u32 \<Rightarrow> u32 \<Rightarrow> u8 \<Rightarrow> trace_frame" where
  "ost_frame aHeader aHeader2 aContext a1 a2 a3 aExtra aPc recordSize =
     \<lparr>tfComponent = a1, tfTraceWord = a2, tfHeader = aHeader, tfHeader2 = aHeader2, tfContext = aContext,
      tfA1 = a1, tfA2 = a2, tfData = FrameA3 a3, tfExtra = aExtra, tfPc = aPc, tfSize = ucast recordSize\<rparr>"

definition ost_HandleFrame ::
  "tc_env \<Rightarrow> tcore \<Rightarrow> u32 \<Rightarrow> u32 \<Rightarrow> u32 \<Rightarrow> u32 \<Rightarrow> u32 \<Rightarrow> u32 \<Rightarrow> u32 \<Rightarrow> u32 \<Rightarrow> (tcore \<times> bool) option" where
  "ost_HandleFrame E s aHeader aHeader2 aContext a1 a2 a3 aExtra aPc =
     (if ostWriter s \<noteq> None \<and> \<not> iAllTracesDeactivated s then
        (if \<not> tcInstance s \<or> \<not> iTraceCertified s then Some (s, False)
         else if CheckMultiPart E aHeader aHeader2
         then HandleMultiPart E s aHeader aHeader2 aContext a1 a2 a3 aExtra aPc
         else
           let (s, retval) = cached_activation s a1 a2 in
           if header_byte (eSubCategoryIndex E) aHeader = eOstTraceActivationQuery E then Some (s, retval)
           else if retval then
             (let (s, aHeader) = CheckDroppedTrace E s aHeader in
              Some (call s (CallFrame (ost_frame aHeader aHeader2 aContext a1 a2 a3 aExtra aPc
                              (header_byte (eSizeIndex E) aHeader))), True))
           else Some (s, False))
      else Some (s, False))"

section \<open>DBTraceKernelCategoryHandler\<close>

text \<open>The listed categories and the default give the same word; the three debugging categories are
  mapped to constants with their own numbers.\<close>

definition MapCategoryToID :: "u8 \<Rightarrow> u8 \<Rightarrow> u32" where
  "MapCategoryToID aCategory aSubCategory =
     (if aCategory = 194 then or (push_bit 16 0xC2) (ucast aSubCategory)
      else if aCategory = 195 then or (push_bit 16 0xC3) (ucast aSubCategory)
      else if aCategory = 196 then or (push_bit 16 0xC4) (ucast aSubCategory)
      else or (push_bit 16 (ucast aCategory)) (ucast aSubCategory))"

text \<open>A frame of a kernel category: the record size is the one to be written.\<close>

definition kernel_frame :: "u32 \<Rightarrow> u32 \<Rightarrow> u32 \<Rightarrow> u32 \<Rightarrow> u32 \<Rightarrow> u32 \<Rightarrow> u32 \<Rightarrow> u32 \<Rightarrow> u32 \<Rightarrow> u32 \<Rightarrow> trace_frame" where
  "kernel_frame traceWord aHeader aHeader2 aContext a1 a2 a3 aExtra aPc aSize =
     \<lparr>tfComponent = KKernelHooksOSTComponentUID, tfTraceWord = traceWord, tfHeader = aHeader,
      tfHeader2 = aHeader2, tfContext = aContext, tfA1 = a1, tfA2 = a2, tfData = FrameA3 a3,
      tfExtra = aExtra, tfPc = aPc, tfSize = aSize\<rparr>"

definition kernel_HandleMultiPart ::
  "tc_env \<Rightarrow> tcore \<Rightarrow> u32 \<Rightarrow> u32 \<Rightarrow> u32 \<Rightarrow> u32 \<Rightarrow> u32 \<Rightarrow> u32 \<Rightarrow> u32 \<Rightarrow> u32 \<Rightarrow> tcore \<times> bool" where
  "kernel_HandleMultiPart E s aHeader aHeader2 aContext aTraceWord a1 aData aExtra aPc =
     (let part = and aHeader2 (eMultipartFlagMask E);
          recordSize = ucast (header_byte (eSizeIndex E) aHeader) :: u32 in
      if part = eMultipartFirst E then
        (case insert_array E s maMultiPartId
                \<lparr>maComponentId = KKernelHooksOSTComponentUID, maTraceWord = aTraceWord, maMultiPartId = aExtra\<rparr>
                (iMultiPartActivationInfos s) of
           (s, ret, infos) \<Rightarrow>
             if ret = KErrNone then
               (call (s\<lparr>iMultiPartActivationInfos := infos\<rparr>)
                  (CallFrame (kernel_frame aTraceWord aHeader aHeader2 aContext a1 (mem_word E aData)
                     (aData + 4) aExtra aPc (recordSize - 4))), True)
             else (if tcInstance s then s\<lparr>iPreviousTraceDropped := True\<rparr> else s, False))
      else if part = eMultipartMiddle E \<or> part = eMultipartLast E then
        (case find_ordered maMultiPartId aExtra (iMultiPartActivationInfos s) of
           None \<Rightarrow> (s, True)
         | Some index \<Rightarrow>
             let info = iMultiPartActivationInfos s ! index;
                 len = recordSize - CalculateDataStartOffset E aHeader;
                 p1 = (if len \<ge> 4 then mem_word E aData else 0);
                 p2 = (if len \<ge> 8 then mem_word E (aData + 4) else 0);
                 moved = (if len \<ge> 8 then 8 else if len \<ge> 4 then 4 else 0);
                 s = call s (CallFrame \<lparr>tfComponent = maComponentId info, tfTraceWord = maTraceWord info,
                       tfHeader = aHeader, tfHeader2 = aHeader2, tfContext = aContext, tfA1 = p1, tfA2 = p2,
                       tfData = FrameA3 (aData + moved), tfExtra = aExtra, tfPc = aPc,
                       tfSize = recordSize - 8\<rparr>)
             in (if part = eMultipartLast E
                 then s\<lparr>iMultiPartActivationInfos := remove_nth index (iMultiPartActivationInfos s)\<rparr>
                 else s, True))
      else (s, True))"

definition kernel_HandleFrame ::
  "tc_env \<Rightarrow> tcore \<Rightarrow> u32 \<Rightarrow> u32 \<Rightarrow> u32 \<Rightarrow> u32 \<Rightarrow> u32 \<Rightarrow> u32 \<Rightarrow> u32 \<Rightarrow> u32 \<Rightarrow> tcore \<times> bool" where
  "kernel_HandleFrame E s aHeader aHeader2 aContext a1 a2 a3 aExtra aPc =
     (if kernelWriter s \<noteq> None \<and> tcInstance s \<and> iTraceCertified s then
        (let (s, aHeader) = (if iPreviousTraceDropped s
                             then (s\<lparr>iPreviousTraceDropped := False\<rparr>, missing_flag E aHeader)
                             else (s, aHeader));
             traceWord = MapCategoryToID (header_byte (eCategoryIndex E) aHeader)
                           (header_byte (eSubCategoryIndex E) aHeader) in
         if traceWord > 0 then
           (if CheckMultiPart E aHeader aHeader2
            then kernel_HandleMultiPart E s aHeader aHeader2 aContext traceWord a2 a3 aExtra aPc
            else (call s (CallFrame (kernel_frame traceWord aHeader aHeader2 aContext a1 a2 a3 aExtra aPc
                            (ucast (header_byte (eSizeIndex E) aHeader)))), True))
         else (s, False))
      else (s, False))"

text \<open>BTrace::SetFilter is called for its effect; its result decides whether the category is primed,
  and \<open>supported\<close> tells for which categories it is KErrNone.\<close>

definition PrimeCategory :: "(u8 \<Rightarrow> bool) \<Rightarrow> tc_env \<Rightarrow> u8 \<Rightarrow> tcore \<Rightarrow> tcore" where
  "PrimeCategory supported E aCategory s =
     (if kernelWriter s \<noteq> None \<and>
         IsTraceActivated s KKernelHooksOSTComponentUID (MapCategoryToID aCategory 0) \<and>
         (aCategory \<noteq> eCpuUsage E \<or> kernelWriter s \<noteq> Some EWriterTypeUSBPhonet)
      then let s = call s (CallSetFilter (ucast aCategory) True)
           in if supported aCategory then call s (CallPrime aCategory) else s
      else call s (CallSetFilter (ucast aCategory) False))"

definition PrimeDfc :: "(u8 \<Rightarrow> bool) \<Rightarrow> tc_env \<Rightarrow> tcore \<Rightarrow> tcore" where
  "PrimeDfc supported E s =
     fold (\<lambda>i. PrimeCategory supported E (of_nat i))
       [unat (KMinKernelCategory E)..<Suc (unat (KMaxKernelCategory E))] s"

definition PrepareSetWriter :: "(u8 \<Rightarrow> bool) \<Rightarrow> tc_env \<Rightarrow> tcore \<Rightarrow> TWriterType option \<Rightarrow> tcore" where
  "PrepareSetWriter supported E s aWriter =
     (let s = (if kernelWriter s = None \<and> aWriter \<noteq> None then PrimeKernelCategories s
               else if aWriter = None then PrimeDfc supported E s else s)
      in if aWriter = Some EWriterTypeUSBPhonet then PrimeCategory supported E (eCpuUsage E) s else s)"

section \<open>DTraceCoreBTraceHandler::BTraceHandlerFunc\<close>

text \<open>
  The category handlers as their Init functions register them: the kernel handler for the kernel
  categories, the OST handler for the ones above except branch coverage.
\<close>

definition KCategoryNokiaBranchCoverage :: u8 where "KCategoryNokiaBranchCoverage = 0xA1"

definition category_handler :: "tc_env \<Rightarrow> u8 \<Rightarrow> tc_listener option" where
  "category_handler E c =
     (if c > KMaxKernelCategory E
      then (if c \<noteq> KCategoryNokiaBranchCoverage then Some OstCategoryHandler else None)
      else if c \<ge> KMinKernelCategory E then Some KernelCategoryHandler else None)"

definition BTraceHandlerFunc ::
  "tc_env \<Rightarrow> tcore \<Rightarrow> u32 \<Rightarrow> u32 \<Rightarrow> u32 \<Rightarrow> u32 \<Rightarrow> u32 \<Rightarrow> u32 \<Rightarrow> u32 \<Rightarrow> u32 \<Rightarrow> (tcore \<times> bool) option" where
  "BTraceHandlerFunc E s aHeader aHeader2 aContext a1 a2 a3 aExtra aPc =
     (if ostWriter s \<noteq> None then
        (case category_handler E (header_byte (eCategoryIndex E) aHeader) of
           Some OstCategoryHandler \<Rightarrow> ost_HandleFrame E s aHeader aHeader2 aContext a1 a2 a3 aExtra aPc
         | Some KernelCategoryHandler \<Rightarrow> Some (kernel_HandleFrame E s aHeader aHeader2 aContext a1 a2 a3 aExtra aPc)
         | None \<Rightarrow> Some (s, False))
      else Some (s, False))"

definition SetWriter :: "(u8 \<Rightarrow> bool) \<Rightarrow> tc_env \<Rightarrow> tcore \<Rightarrow> TWriterType option \<Rightarrow> tcore" where
  "SetWriter supported E s aWriter =
     (PrepareSetWriter supported E s aWriter)\<lparr>ostWriter := aWriter, kernelWriter := aWriter\<rparr>"

definition SetSettings :: "tc_env \<Rightarrow> tcore \<Rightarrow> (u8 list option) option \<Rightarrow> tcore option" where
  "SetSettings E s aSettings =
     (case aSettings of
        None \<Rightarrow> Some (s\<lparr>ostSettings := False\<rparr>)
      | Some stored \<Rightarrow> ReadFromSettings E (s\<lparr>ostSettings := True\<rparr>) stored)"

end
