(* ===== verification/TraceLemmas.thy ===== *)
theory TraceLemmas
  imports TraceHandlers
begin

text \<open>
  What the array operations do to a well-formed component array: strictly ascending component ids,
  strictly ascending valid groups.  \<open>activations\<close> is the set of (component, group) pairs an array
  stands for, and each operation is shown to be the set operation it is meant to be; only the ones that
  add something depend on memory.
\<close>

section \<open>Ordered insertion\<close>

abbreviation ordered_by :: "('a \<Rightarrow> u32) \<Rightarrow> 'a list \<Rightarrow> bool" where
  "ordered_by key \<equiv> sorted_wrt (\<lambda>x y. key x < key y)"

lemma set_insert_ordered [simp]: "set (insert_ordered key x xs) = insert x (set xs)"
  by (induction xs) auto

lemma ordered_insert_ordered:
  "ordered_by key xs \<Longrightarrow> \<forall>y\<in>set xs. key y \<noteq> key x \<Longrightarrow> ordered_by key (insert_ordered key x xs)"
proof (induction xs)
  case (Cons y ys)
  show ?case
  proof (cases "key x < key y")
    case True
    with Cons.prems(1) show ?thesis by fastforce
  next
    case False
    moreover have "key y \<noteq> key x" using Cons.prems(2) by simp
    ultimately have "key y < key x" by simp
    then show ?thesis using Cons False by simp
  qed
qed simp

lemma ordered_find:
  "ordered_by key xs \<Longrightarrow> i < length xs \<Longrightarrow> find_ordered key (key (xs ! i)) xs = Some i"
  unfolding find_ordered_def
  by (rule find_index_eqI) (auto dest: sorted_wrt_nth_less)

lemma find_ordered_Some:
  "find_ordered key k xs = Some i \<Longrightarrow> i < length xs \<and> key (xs ! i) = k"
  unfolding find_ordered_def by (drule find_index_SomeD) simp

lemma find_ordered_None: "find_ordered key k xs = None \<longleftrightarrow> (\<forall>x\<in>set xs. key x \<noteq> k)"
  by (simp add: find_ordered_def find_index_None)

lemma find_ordered_mem: "find_ordered id k xs \<noteq> None \<longleftrightarrow> k \<in> set xs"
  by (auto simp: find_ordered_None)

lemma find_ordered_inserted:
  "ordered_by key xs \<Longrightarrow> \<forall>y\<in>set xs. key y \<noteq> key x \<Longrightarrow>
   \<exists>i. find_ordered key (key x) (insert_ordered key x xs) = Some i \<and>
       i < length (insert_ordered key x xs) \<and> insert_ordered key x xs ! i = x"
proof -
  assume "ordered_by key xs" "\<forall>y\<in>set xs. key y \<noteq> key x"
  then have o: "ordered_by key (insert_ordered key x xs)" by (rule ordered_insert_ordered)
  obtain i where i: "i < length (insert_ordered key x xs)" "insert_ordered key x xs ! i = x"
    by (metis in_set_conv_nth insertI1 set_insert_ordered)
  with ordered_find[OF o i(1)] show ?thesis by auto
qed

section \<open>Well-formed arrays\<close>

definition component_wf :: "TOstComponent \<Rightarrow> bool" where
  "component_wf c \<longleftrightarrow> sorted_wrt (<) (iGroups c) \<and> (\<forall>g\<in>set (iGroups c). GroupIdIsValid g)"

definition bitmap_wf :: "TOstComponent list \<Rightarrow> bool" where
  "bitmap_wf xs \<longleftrightarrow> ordered_by iComponentId xs \<and> (\<forall>c\<in>set xs. component_wf c)"

definition activations :: "TOstComponent list \<Rightarrow> (u32 \<times> u32) set" where
  "activations xs = {(iComponentId c, g) | c g. c \<in> set xs \<and> g \<in> set (iGroups c)}"

lemma bitmap_wf_Nil [simp]: "bitmap_wf []"
  by (simp add: bitmap_wf_def)

lemma activations_Nil [simp]: "activations [] = {}"
  by (simp add: activations_def)

lemma activations_Cons:
  "activations (c # cs) = Pair (iComponentId c) ` set (iGroups c) \<union> activations cs"
  by (auto simp: activations_def)

lemma in_activations:
  "(c, g) \<in> activations xs \<longleftrightarrow> (\<exists>x\<in>set xs. iComponentId x = c \<and> g \<in> set (iGroups x))"
  by (auto simp: activations_def)

lemma wf_nth: "bitmap_wf xs \<Longrightarrow> i < length xs \<Longrightarrow> component_wf (xs ! i)"
  by (simp add: bitmap_wf_def)

lemma wf_ids_distinct:
  "bitmap_wf xs \<Longrightarrow> x \<in> set xs \<Longrightarrow> y \<in> set xs \<Longrightarrow> iComponentId x = iComponentId y \<Longrightarrow> x = y"
  unfolding bitmap_wf_def by (metis in_set_conv_nth linorder_neqE_nat order_less_irrefl sorted_wrt_nth_less)

lemma wf_find:
  "bitmap_wf xs \<Longrightarrow> i < length xs \<Longrightarrow> find_ordered iComponentId (iComponentId (xs ! i)) xs = Some i"
  by (rule ordered_find) (simp_all add: bitmap_wf_def)

text \<open>The filter decides by membership.\<close>

lemma activated_index:
  assumes "bitmap_wf xs" "i < length xs"
  shows "(iComponentId (xs ! i), g) \<in> activations xs \<longleftrightarrow> g \<in> set (iGroups (xs ! i))"
proof -
  have "iComponentId y = iComponentId (xs ! i) \<Longrightarrow> y \<in> set xs \<Longrightarrow> y = xs ! i" for y
    using assms wf_ids_distinct nth_mem by blast
  then show ?thesis
    using assms(2) by (auto simp: in_activations intro!: bexI[of _ "xs ! i"])
qed

definition trace_word_group :: "u32 \<Rightarrow> u32" where
  "trace_word_group w = drop_bit 16 (and w 0x00ff0000)"

lemma IsTraceActivated_iff:
  assumes "bitmap_wf (iOstComponents s)"
  shows "IsTraceActivated s c w \<longleftrightarrow> (c, trace_word_group w) \<in> activations (iOstComponents s)"
proof (cases "find_ordered iComponentId c (iOstComponents s)")
  case None
  then have "\<forall>x\<in>set (iOstComponents s). iComponentId x \<noteq> c"
    by (simp add: find_ordered_None)
  with None show ?thesis
    by (auto simp: IsTraceActivated_def in_activations)
next
  case (Some i)
  from find_ordered_Some[OF this] show ?thesis
    using activated_index[OF assms, of i "trace_word_group w"] Some
    by (simp add: IsTraceActivated_def find_ordered_mem trace_word_group_def del: not_None_eq)
qed

section \<open>Changing one component\<close>

lemma wf_update:
  assumes "bitmap_wf xs" "i < length xs" "iComponentId c = iComponentId (xs ! i)" "component_wf c"
  shows "bitmap_wf (xs[i := c])"
proof -
  have "ordered_by iComponentId (xs[i := c])"
    using assms(1-3) unfolding bitmap_wf_def sorted_wrt_iff_nth_less
    by (auto simp: nth_list_update)
  then show ?thesis
    using assms(1,4) by (auto simp: bitmap_wf_def dest: set_update_subset_insert[THEN subsetD])
qed

lemma in_set_update:
  assumes "bitmap_wf xs" "i < length xs" "iComponentId c = iComponentId (xs ! i)"
  shows "x \<in> set (xs[i := c]) \<longleftrightarrow> x = c \<or> x \<in> set xs \<and> iComponentId x \<noteq> iComponentId c"
proof
  assume "x \<in> set (xs[i := c])"
  then obtain j where j: "j < length xs" "x = (xs[i := c]) ! j"
    by (auto simp: in_set_conv_nth)
  show "x = c \<or> x \<in> set xs \<and> iComponentId x \<noteq> iComponentId c"
  proof (cases "j = i")
    case False
    then have "iComponentId (xs ! j) \<noteq> iComponentId (xs ! i)"
      using wf_find[OF assms(1) j(1)] wf_find[OF assms(1,2)] by auto
    then show ?thesis using j False assms(3) by simp
  qed (use j in simp)
next
  assume "x = c \<or> x \<in> set xs \<and> iComponentId x \<noteq> iComponentId c"
  then show "x \<in> set (xs[i := c])"
  proof
    assume x: "x \<in> set xs \<and> iComponentId x \<noteq> iComponentId c"
    then obtain j where "j < length xs" "x = xs ! j"
      by (auto simp: in_set_conv_nth)
    moreover from this x have "j \<noteq> i" using assms(3) by auto
    ultimately show ?thesis
      by (metis length_list_update nth_list_update_neq nth_mem)
  qed (use assms(2) set_update_memI in simp)
qed

lemma activations_update:
  assumes "bitmap_wf xs" "i < length xs" "iComponentId c = iComponentId (xs ! i)"
  shows "activations (xs[i := c]) =
         {p \<in> activations xs. fst p \<noteq> iComponentId c} \<union> Pair (iComponentId c) ` set (iGroups c)"
  unfolding activations_def in_set_update[OF assms] by auto

lemma activations_remove:
  assumes "bitmap_wf xs" "i < length xs"
  shows "activations (remove_nth i xs) = {p \<in> activations xs. fst p \<noteq> iComponentId (xs ! i)}"
proof -
  have "distinct (map iComponentId xs)"
    unfolding distinct_conv_nth
    by (metis assms(1) length_map nth_map option.inject wf_find)
  then show ?thesis
    using remove_nth_filter[OF _ assms(2), of iComponentId] by (auto simp: activations_def)
qed

lemma wf_remove: "bitmap_wf xs \<Longrightarrow> bitmap_wf (remove_nth i xs)"
  unfolding bitmap_wf_def by (auto intro: sorted_wrt_remove_nth dest: set_remove_nth_subset[THEN subsetD])

lemma wf_insert:
  assumes "bitmap_wf xs" "\<forall>y\<in>set xs. iComponentId y \<noteq> c"
  shows "bitmap_wf (insert_ordered iComponentId (new_component c) xs)"
  using assms ordered_insert_ordered[of iComponentId xs "new_component c"]
  by (auto simp: bitmap_wf_def component_wf_def)

lemma activations_insert:
  "activations (insert_ordered iComponentId (new_component c) xs) = activations xs"
  by (auto simp: activations_def)

lemma remove_group_set:
  assumes "sorted_wrt (<) (gs :: u32 list)" "find_ordered id g gs = Some k"
  shows "set (remove_nth k gs) = set gs - {g}"
proof -
  have "distinct (map id gs)"
    using assms(1) by (simp add: strict_sorted_iff)
  then show ?thesis
    using remove_nth_filter[of id gs k] find_ordered_Some[OF assms(2)] by auto
qed

end
