(* ===== verification/TraceEdits.thy ===== *)
theory TraceEdits
  imports TraceLemmas "HOL-Library.Sublist"
begin

text \<open>
  The steps of a change work on the temporary array and the array of changes; the rest of the state is
  frozen.  Each step is described by the activations of the temporary array before and after it, from
  which the operations and the message loops follow by composition.
\<close>

section \<open>Frozen fields\<close>

definition frozen :: "tcore \<Rightarrow> tcore" where
  "frozen s = s\<lparr>tcInserts := 0, tcCalls := [], iTmpArray := [], iChangedArray := []\<rparr>"

lemma frozen_fields:
  assumes "frozen s' = frozen s"
  shows "iOstComponents s' = iOstComponents s" "tcInstance s' = tcInstance s"
    "iActivationBuffer s' = iActivationBuffer s" "iActivationNotification s' = iActivationNotification s"
    "iNotificationReceiverItems s' = iNotificationReceiverItems s" "ostSettings s' = ostSettings s"
    "iMultiPartTrace s' = iMultiPartTrace s" "ostWriter s' = ostWriter s"
    "iTraceCertified s' = iTraceCertified s" "iPreviousTraceDropped s' = iPreviousTraceDropped s"
  using arg_cong[OF assms, of iOstComponents] arg_cong[OF assms, of tcInstance]
    arg_cong[OF assms, of iActivationBuffer] arg_cong[OF assms, of iActivationNotification]
    arg_cong[OF assms, of iNotificationReceiverItems] arg_cong[OF assms, of ostSettings]
    arg_cong[OF assms, of iMultiPartTrace] arg_cong[OF assms, of ostWriter]
    arg_cong[OF assms, of iTraceCertified] arg_cong[OF assms, of iPreviousTraceDropped]
  by (simp_all add: frozen_def)

lemma frozen_simps [simp]:
  "frozen (call s c) = frozen s"
  "frozen (s\<lparr>tcInserts := n\<rparr>) = frozen s"
  "frozen (s\<lparr>iTmpArray := xs\<rparr>) = frozen s"
  "frozen (s\<lparr>iChangedArray := ys\<rparr>) = frozen s"
  by (simp_all add: frozen_def call_def)

lemma call_simps [simp]:
  "iTmpArray (call s c) = iTmpArray s" "iOstComponents (call s c) = iOstComponents s"
  "iChangedArray (call s c) = iChangedArray s" "tcInstance (call s c) = tcInstance s"
  "tcCalls (call s c) = tcCalls s @ [c]" "tcInserts (call s c) = tcInserts s"
  "iNotificationReceiverItems (call s c) = iNotificationReceiverItems s"
  "iActivationNotification (call s c) = iActivationNotification s"
  "iActivationBuffer (call s c) = iActivationBuffer s" "ostSettings (call s c) = ostSettings s"
  by (simp_all add: call_def)

section \<open>Insertion\<close>

definition memory_ok :: "tc_env \<Rightarrow> bool" where
  "memory_ok E \<longleftrightarrow> (\<forall>n. \<not> eNoMemory E n)"

lemma inserts_same: "\<exists>n. s = s\<lparr>tcInserts := n\<rparr>"
  by (rule exI[of _ "tcInserts s"]) simp

lemma insert_array_cases:
  assumes "insert_array E s key x xs = (s', err, ys)"
  shows "\<exists>n. s' = s\<lparr>tcInserts := n\<rparr>"
    and "err = KErrAlreadyExists \<and> ys = xs \<and> find_ordered key (key x) xs \<noteq> None \<or>
         err = KErrNoMemory \<and> ys = xs \<and> find_ordered key (key x) xs = None \<and> \<not> memory_ok E \<or>
         err = KErrNone \<and> ys = insert_ordered key x xs \<and> find_ordered key (key x) xs = None"
proof -
  show "\<exists>n. s' = s\<lparr>tcInserts := n\<rparr>"
    using assms inserts_same[of s] by (auto simp: insert_array_def split: if_splits)
qed (use assms in \<open>auto simp: insert_array_def memory_ok_def split: if_splits\<close>)

lemma insert_array_frozen:
  assumes "insert_array E s key x xs = (s', err, ys)"
  shows "frozen s' = frozen s" "iTmpArray s' = iTmpArray s" "iChangedArray s' = iChangedArray s"
    "tcCalls s' = tcCalls s"
  using insert_array_cases(1)[OF assms] by auto

lemma append_all_spec:
  "append_all E s xs dst = (s', ys) \<Longrightarrow>
   (\<exists>n. s' = s\<lparr>tcInserts := n\<rparr>) \<and> (\<exists>zs. ys = dst @ zs \<and> subseq zs xs \<and> (memory_ok E \<longrightarrow> zs = xs))"
proof (induction E s xs dst arbitrary: s' ys rule: append_all.induct)
  case (1 E s dst)
  then show ?case using inserts_same[of s] by simp
next
  case (2 E s x xs dst)
  let ?d = "if eNoMemory E (tcInserts s) then dst else dst @ [x]"
  from 2(1)[of s' ys] 2(2) obtain n zs where
    *: "s' = s\<lparr>tcInserts := n\<rparr>" "ys = ?d @ zs" "subseq zs xs" "memory_ok E \<longrightarrow> zs = xs"
    by auto
  show ?case
  proof (cases "eNoMemory E (tcInserts s)")
    case True
    then show ?thesis
      using * by (auto simp: memory_ok_def intro!: exI[of _ zs] list_emb_Cons)
  next
    case False
    then show ?thesis
      using * by (auto intro!: exI[of _ "x # zs"])
  qed
qed

lemma subseq_set: "subseq xs ys \<Longrightarrow> x \<in> set xs \<Longrightarrow> x \<in> set ys"
  by (auto elim: list_emb_set)

lemma sorted_wrt_subseq: "subseq xs ys \<Longrightarrow> sorted_wrt P ys \<Longrightarrow> sorted_wrt P xs"
  by (induction rule: list_emb.induct) (auto dest: subseq_set)

lemma wf_subseq: "bitmap_wf ys \<Longrightarrow> subseq xs ys \<Longrightarrow> bitmap_wf xs"
  by (auto simp: bitmap_wf_def intro: sorted_wrt_subseq dest: subseq_set)

text \<open>Opening a change: the temporary array is a copy, short of what did not fit in memory.\<close>

lemma open_change_spec:
  assumes "bitmap_wf (iOstComponents s)"
  shows "frozen (open_change E s) = frozen s" "bitmap_wf (iTmpArray (open_change E s))"
    "iChangedArray (open_change E s) = []" "tcCalls (open_change E s) = tcCalls s"
    "memory_ok E \<Longrightarrow> iTmpArray (open_change E s) = iOstComponents s"
    "activations (iTmpArray (open_change E s)) \<subseteq> activations (iOstComponents s)"
proof -
  obtain s' xs where a: "append_all E s (iOstComponents s) [] = (s', xs)"
    by (cases "append_all E s (iOstComponents s) []")
  then obtain n where *: "s' = s\<lparr>tcInserts := n\<rparr>" "subseq xs (iOstComponents s)"
    "memory_ok E \<longrightarrow> xs = iOstComponents s"
    using append_all_spec[OF a] by auto
  have o: "open_change E s = s\<lparr>tcInserts := n, iTmpArray := xs, iChangedArray := []\<rparr>"
    by (simp add: open_change_def CopyArray_def CleanupChanged_def a *(1))
  show "frozen (open_change E s) = frozen s" "iChangedArray (open_change E s) = []"
    "tcCalls (open_change E s) = tcCalls s"
    by (simp_all add: o)
  show "bitmap_wf (iTmpArray (open_change E s))"
    using wf_subseq[OF assms *(2)] by (simp add: o)
  show "iTmpArray (open_change E s) = iOstComponents s" if "memory_ok E"
    using that *(3) by (simp add: o)
  show "activations (iTmpArray (open_change E s)) \<subseteq> activations (iOstComponents s)"
    using *(2) by (auto simp: o activations_def dest: subseq_set)
qed

section \<open>Steps\<close>

text \<open>The index names a component of the temporary array.\<close>

definition index_of :: "tcore \<Rightarrow> nat \<Rightarrow> u32 \<Rightarrow> bool" where
  "index_of s i c \<longleftrightarrow> i < length (iTmpArray s) \<and> iComponentId (iTmpArray s ! i) = c"

lemma FindComponentId_index:
  "FindComponentId c (iTmpArray s) = Some i \<Longrightarrow> index_of s i c"
  by (auto simp: index_of_def FindComponentId_def dest: find_ordered_Some)

lemma index_find:
  "bitmap_wf (iTmpArray s) \<Longrightarrow> index_of s i c \<Longrightarrow> FindComponentId c (iTmpArray s) = Some i"
  using wf_find by (auto simp: index_of_def FindComponentId_def)

lemma AddComponentId_spec:
  assumes "AddComponentId E s c = (s', idx)" "bitmap_wf (iTmpArray s)"
  shows "frozen s' = frozen s" "bitmap_wf (iTmpArray s')" "iChangedArray s' = iChangedArray s"
    "tcCalls s' = tcCalls s" "activations (iTmpArray s') = activations (iTmpArray s)"
    "\<And>i. idx = Some i \<Longrightarrow> index_of s' i c" "memory_ok E \<Longrightarrow> idx \<noteq> None"
    "c \<in> iComponentId ` set (iTmpArray s) \<Longrightarrow> iTmpArray s' = iTmpArray s"
proof -
  obtain s1 err xs where ia: "insert_array E s iComponentId (new_component c) (iTmpArray s) = (s1, err, xs)"
    by (cases "insert_array E s iComponentId (new_component c) (iTmpArray s)")
  note c = insert_array_cases(2)[OF ia, simplified]
  have s': "s' = s1\<lparr>iTmpArray := xs\<rparr>"
    and idx: "idx = (if err = KErrNone \<or> err = KErrAlreadyExists then FindComponentId c xs else None)"
    using assms(1) by (auto simp: AddComponentId_def ia split: if_splits)
  show "frozen s' = frozen s" "iChangedArray s' = iChangedArray s" "tcCalls s' = tcCalls s"
    using insert_array_frozen[OF ia] by (simp_all add: s')
  show wf: "bitmap_wf (iTmpArray s')"
    using c assms(2) wf_insert by (auto simp: s' find_ordered_None)
  show "activations (iTmpArray s') = activations (iTmpArray s)"
    using c activations_insert by (auto simp: s')
  show "index_of s' i c" if "idx = Some i" for i
    using that idx FindComponentId_index[of c s' i] by (auto simp: s' split: if_splits)
  show "idx \<noteq> None" if "memory_ok E"
  proof -
    have "find_ordered iComponentId c (insert_ordered iComponentId (new_component c) (iTmpArray s)) \<noteq> None"
      by (simp add: find_ordered_None del: not_None_eq)
    then obtain y where
      "find_ordered iComponentId c (insert_ordered iComponentId (new_component c) (iTmpArray s)) = Some y"
      by auto
    then show ?thesis
      using c that idx by (auto simp: FindComponentId_def)
  qed
  show "iTmpArray s' = iTmpArray s" if "c \<in> iComponentId ` set (iTmpArray s)"
    using that c by (auto simp: s' find_ordered_None)
qed

lemma AddGroupToChangedArray_frozen:
  "frozen (AddGroupToChangedArray E s c g) = frozen s"
  "iTmpArray (AddGroupToChangedArray E s c g) = iTmpArray s"
  "tcCalls (AddGroupToChangedArray E s c g) = tcCalls s"
proof -
  obtain s1 e xs where 1: "insert_array E s iComponentId (new_component c) (iChangedArray s) = (s1, e, xs)"
    by (cases "insert_array E s iComponentId (new_component c) (iChangedArray s)")
  note f1 = insert_array_frozen[OF 1]
  have "frozen (AddGroupToChangedArray E s c g) = frozen s \<and>
        iTmpArray (AddGroupToChangedArray E s c g) = iTmpArray s \<and>
        tcCalls (AddGroupToChangedArray E s c g) = tcCalls s"
  proof (cases "FindComponentId c xs")
    case (Some i)
    obtain s2 e2 gs where 2: "insert_array E s1 id (ucast g) (iGroups (xs ! i)) = (s2, e2, gs)"
      by (cases "insert_array E s1 id (ucast g) (iGroups (xs ! i))")
    show ?thesis
      using f1 insert_array_frozen[OF 2] by (simp add: AddGroupToChangedArray_def 1 2 Some)
  qed (use f1 in \<open>simp add: AddGroupToChangedArray_def 1\<close>)
  then show "frozen (AddGroupToChangedArray E s c g) = frozen s"
    "iTmpArray (AddGroupToChangedArray E s c g) = iTmpArray s"
    "tcCalls (AddGroupToChangedArray E s c g) = tcCalls s"
    by simp_all
qed

lemma index_of_cong: "iTmpArray s' = iTmpArray s \<Longrightarrow> index_of s' i c = index_of s i c"
  by (simp add: index_of_def)

lemma group_update:
  assumes "bitmap_wf (iTmpArray s)" "index_of s i c" "sorted_wrt (<) gs" "\<forall>g\<in>set gs. GroupIdIsValid g"
    "iTmpArray s' = (iTmpArray s)[i := (iTmpArray s ! i)\<lparr>iGroups := gs\<rparr>]"
  shows "bitmap_wf (iTmpArray s')" "index_of s' i c"
    "activations (iTmpArray s') = {p \<in> activations (iTmpArray s). fst p \<noteq> c} \<union> Pair c ` set gs"
  using assms activations_update[OF assms(1), of i "(iTmpArray s ! i)\<lparr>iGroups := gs\<rparr>"]
    wf_update[OF assms(1), of i "(iTmpArray s ! i)\<lparr>iGroups := gs\<rparr>"]
  by (auto simp: index_of_def component_wf_def)

lemma activations_split:
  assumes "bitmap_wf xs" "i < length xs" "iComponentId (xs ! i) = c"
  shows "activations xs = {p \<in> activations xs. fst p \<noteq> c} \<union> Pair c ` set (iGroups (xs ! i))"
  using activated_index[OF assms(1,2)] assms(3) by (auto 4 3)

lemma group_valid [simp]: "GroupIdIsValid (ucast (g :: u8))"
proof -
  have "unat g < 2 ^ LENGTH(8)" by (rule unsigned_less)
  then show ?thesis
    by (simp add: GroupIdIsValid_def KMaxGroupId_def word_le_nat_alt unsigned_ucast_eq take_bit_nat_eq_self)
qed

text \<open>A valid group survives the narrowing to TGroupId.\<close>

lemma valid_group_u8: "GroupIdIsValid g \<Longrightarrow> ucast (ucast g :: u8) = g"
proof (rule word_unat_eq_iff[THEN iffD2])
  assume "GroupIdIsValid g"
  then have "unat g \<le> 255"
    by (simp add: GroupIdIsValid_def KMaxGroupId_def word_le_nat_alt)
  then show "unat (ucast (ucast g :: u8) :: u32) = unat g"
    by (simp add: unsigned_ucast_eq unsigned_take_bit_eq take_bit_nat_eq_self)
qed

section \<open>Groups\<close>

lemma AddGroupId_spec:
  assumes "AddGroupId E s c g (Some i) = (s', ret)" "bitmap_wf (iTmpArray s)" "index_of s i c"
  shows "frozen s' = frozen s" "bitmap_wf (iTmpArray s')" "index_of s' i c"
    "activations (iTmpArray s') \<subseteq> insert (c, ucast g) (activations (iTmpArray s))"
    "activations (iTmpArray s) \<subseteq> activations (iTmpArray s')"
    "memory_ok E \<Longrightarrow> activations (iTmpArray s') = insert (c, ucast g) (activations (iTmpArray s))"
proof -
  let ?gs = "iGroups (iTmpArray s ! i)"
  obtain s1 e gs where 1: "insert_array E s id (ucast g) ?gs = (s1, e, gs)"
    by (cases "insert_array E s id (ucast g) ?gs")
  note f = insert_array_frozen[OF 1] and cs = insert_array_cases(2)[OF 1, simplified]
  have i: "i < length (iTmpArray s)" "iComponentId (iTmpArray s ! i) = c"
    using assms(3) by (simp_all add: index_of_def)
  have gs0: "sorted_wrt (<) ?gs" "\<forall>x\<in>set ?gs. GroupIdIsValid x"
    using wf_nth[OF assms(2) i(1)] by (simp_all add: component_wf_def)
  have s': "frozen s' = frozen s" "iTmpArray s' = (iTmpArray s)[i := (iTmpArray s ! i)\<lparr>iGroups := gs\<rparr>]"
    using assms(1) i f
    by (auto simp: AddGroupId_def 1 Let_def AddGroupToChangedArray_frozen split: if_splits)
  show "frozen s' = frozen s" by (rule s'(1))
  have gs: "sorted_wrt (<) gs" "\<forall>x\<in>set gs. GroupIdIsValid x"
    using cs gs0 ordered_insert_ordered[of id ?gs "ucast g"] by (auto simp: find_ordered_None)
  note u = group_update[OF assms(2,3) gs s'(2)]
  show "bitmap_wf (iTmpArray s')" "index_of s' i c" by (rule u)+
  have old: "activations (iTmpArray s) = {p \<in> activations (iTmpArray s). fst p \<noteq> c} \<union> Pair c ` set ?gs"
    by (rule activations_split[OF assms(2) i])
  show "activations (iTmpArray s') \<subseteq> insert (c, ucast g) (activations (iTmpArray s))"
    "activations (iTmpArray s) \<subseteq> activations (iTmpArray s')"
    using cs u(3) old by auto
  show "activations (iTmpArray s') = insert (c, ucast g) (activations (iTmpArray s))" if "memory_ok E"
    using cs u(3) old that find_ordered_mem[of "ucast g" ?gs] by auto
qed

lemma RemoveGroupId_spec:
  assumes "RemoveGroupId E s c g (Some i) = (s', ret)" "bitmap_wf (iTmpArray s)" "index_of s i d"
  shows "frozen s' = frozen s" "bitmap_wf (iTmpArray s')" "index_of s' i d"
    "activations (iTmpArray s') = activations (iTmpArray s) - {(d, ucast g)}"
    "iGroups (iTmpArray s' ! i) = filter (\<lambda>x. x \<noteq> ucast g) (iGroups (iTmpArray s ! i))"
proof -
  let ?gs = "iGroups (iTmpArray s ! i)"
  have i: "i < length (iTmpArray s)" "iComponentId (iTmpArray s ! i) = d"
    using assms(3) by (simp_all add: index_of_def)
  have gs0: "sorted_wrt (<) ?gs" "\<forall>x\<in>set ?gs. GroupIdIsValid x"
    using wf_nth[OF assms(2) i(1)] by (simp_all add: component_wf_def)
  have old: "activations (iTmpArray s) = {p \<in> activations (iTmpArray s). fst p \<noteq> d} \<union> Pair d ` set ?gs"
    by (rule activations_split[OF assms(2) i])
  have "frozen s' = frozen s \<and> bitmap_wf (iTmpArray s') \<and> index_of s' i d \<and>
    activations (iTmpArray s') = activations (iTmpArray s) - {(d, ucast g)} \<and>
    iGroups (iTmpArray s' ! i) = filter (\<lambda>x. x \<noteq> ucast g) ?gs"
  proof (cases "find_ordered id (ucast g) ?gs")
    case None
    then have "ucast g \<notin> set ?gs" by (auto simp: find_ordered_None)
    moreover from this have "filter (\<lambda>x. x \<noteq> ucast g) ?gs = ?gs"
      by (auto simp: filter_id_conv)
    ultimately show ?thesis
      using assms i None activated_index[OF assms(2) i(1), of "ucast g"] by (simp add: RemoveGroupId_def)
  next
    case (Some k)
    have d: "distinct (map id ?gs)" using gs0(1) by (simp add: strict_sorted_iff)
    have rm: "remove_nth k ?gs = filter (\<lambda>x. x \<noteq> ucast g) ?gs"
      using remove_nth_filter[OF d] find_ordered_Some[OF Some] by simp
    have s': "frozen s' = frozen s"
      "iTmpArray s' = (iTmpArray s)[i := (iTmpArray s ! i)\<lparr>iGroups := remove_nth k ?gs\<rparr>]"
      using assms(1) i
      by (auto simp: RemoveGroupId_def Some Let_def AddGroupToChangedArray_frozen split: if_splits)
    have gs: "sorted_wrt (<) (remove_nth k ?gs)" "\<forall>x\<in>set (remove_nth k ?gs). GroupIdIsValid x"
      using gs0 sorted_wrt_remove_nth set_remove_nth_subset[of k ?gs] by auto
    note u = group_update[OF assms(2,3) gs s'(2)]
    have "activations (iTmpArray s') = activations (iTmpArray s) - {(d, ucast g)}"
      using u(3) old rm by auto
    then show ?thesis using s' u rm i by simp
  qed
  then show "frozen s' = frozen s" "bitmap_wf (iTmpArray s')" "index_of s' i d"
    "activations (iTmpArray s') = activations (iTmpArray s) - {(d, ucast g)}"
    "iGroups (iTmpArray s' ! i) = filter (\<lambda>x. x \<noteq> ucast g) (iGroups (iTmpArray s ! i))"
    by auto
qed

lemma RemoveComponentId_spec:
  assumes "RemoveComponentId E s c n = (s', idx)" "bitmap_wf (iTmpArray s)"
  shows "frozen s' = frozen s" "bitmap_wf (iTmpArray s')"
    "activations (iTmpArray s') = {p \<in> activations (iTmpArray s). fst p \<noteq> c}"
    "idx = None \<Longrightarrow> iTmpArray s' = iTmpArray s"
proof -
  have "frozen s' = frozen s \<and> bitmap_wf (iTmpArray s') \<and>
    activations (iTmpArray s') = {p \<in> activations (iTmpArray s). fst p \<noteq> c} \<and>
    (idx = None \<longrightarrow> iTmpArray s' = iTmpArray s)"
  proof (cases "FindComponentId c (iTmpArray s)")
    case None
    then have "\<forall>x\<in>set (iTmpArray s). iComponentId x \<noteq> c"
      by (simp add: FindComponentId_def find_ordered_None)
    then have "activations (iTmpArray s) = {p \<in> activations (iTmpArray s). fst p \<noteq> c}"
      by (auto simp: activations_def)
    then show ?thesis using assms None by (simp add: RemoveComponentId_def)
  next
    case (Some i)
    have i: "i < length (iTmpArray s)" "iComponentId (iTmpArray s ! i) = c"
      using FindComponentId_index[OF Some] by (simp_all add: index_of_def)
    have "frozen s' = frozen s" "iTmpArray s' = remove_nth i (iTmpArray s)" "idx \<noteq> None"
      using assms(1) by (auto simp: RemoveComponentId_def Some Let_def AddGroupToChangedArray_frozen)
    then show ?thesis
      using activations_remove[OF assms(2) i(1)] wf_remove[OF assms(2)] i(2) by auto
  qed
  then show "frozen s' = frozen s" "bitmap_wf (iTmpArray s')"
    "activations (iTmpArray s') = {p \<in> activations (iTmpArray s). fst p \<noteq> c}"
    "idx = None \<Longrightarrow> iTmpArray s' = iTmpArray s"
    by auto
qed

end
