(* ===== verification/TraceOps.thy ===== *)
theory TraceOps
  imports TraceEdits
begin

text \<open>
  The operations of the bitmap as operations on the set of activations, and the invariant of the trace
  core: a well-formed component array, a cache whose items agree with it (those of component 0 apart), and
  the flag for the dummy handler.
\<close>

section \<open>Invariant\<close>

definition item_ok :: "tcore \<Rightarrow> TCacheItem \<Rightarrow> bool" where
  "item_ok s it \<longleftrightarrow> (caComponent it \<noteq> 0 \<longrightarrow>
     caActivated it = ((caComponent it, trace_word_group (caGroup it)) \<in> activations (iOstComponents s)))"

definition cache_ok :: "tcore \<Rightarrow> bool" where
  "cache_ok s \<longleftrightarrow> item_ok s (iCacheItem1 s) \<and> item_ok s (iCacheItem2 s) \<and>
                 item_ok s (iCacheItem3 s) \<and> item_ok s (iCacheItem4 s)"

definition buffer_ok :: "tcore \<Rightarrow> bool" where
  "buffer_ok s \<longleftrightarrow> (\<exists>buf. iActivationBuffer s = Some buf \<and> length buf = KMaxActivationBufferLength)"

definition tc_inv :: "tc_env \<Rightarrow> tcore \<Rightarrow> bool" where
  "tc_inv E s \<longleftrightarrow> bitmap_wf (iOstComponents s) \<and> cache_ok s \<and> buffer_ok s \<and>
     iAllTracesDeactivated s = only_printfs E (iOstComponents s)"

section \<open>Calls\<close>

text \<open>The notifier and the listeners add calls and nothing else.\<close>

definition adds_calls :: "tcore \<Rightarrow> tc_call list \<Rightarrow> tcore \<Rightarrow> bool" where
  "adds_calls s cs s' \<longleftrightarrow> s' = s\<lparr>tcCalls := tcCalls s @ cs\<rparr>"

lemma adds_calls_refl: "adds_calls s [] s"
  by (simp add: adds_calls_def)

lemma adds_calls_call: "adds_calls s [c] (call s c)"
  by (simp add: adds_calls_def call_def)

lemma adds_calls_trans: "adds_calls s cs t \<Longrightarrow> adds_calls t ds u \<Longrightarrow> adds_calls s (cs @ ds) u"
  by (simp add: adds_calls_def)

lemma fold_items:
  "adds_calls s (map f (filter P items)) (fold (\<lambda>it s. if P it then call s (f it) else s) items s)"
proof (induction items arbitrary: s)
  case (Cons it items)
  show ?case
    using Cons[of s] adds_calls_trans[OF adds_calls_call Cons, of s "f it"] by simp
qed (simp add: adds_calls_refl)

lemma TraceActivated_calls:
  "adds_calls s (map (\<lambda>it. CallActivated (nrReceiver it) c (ucast g))
       (filter (item_matches c (ucast g)) (iNotificationReceiverItems s))) (TraceActivated s c g)"
  unfolding TraceActivated_def by (rule fold_items)

definition deactivation_matches :: "u32 \<Rightarrow> u32 \<Rightarrow> TNotificationReceiverItem \<Rightarrow> bool" where
  "deactivation_matches c g it \<longleftrightarrow> item_matches c g it \<or> nrComponentID it = c \<and> g = KAllGroups"

lemma TraceDeactivated_calls:
  "adds_calls s (map (\<lambda>it. CallDeactivated (nrReceiver it) c
         (if (ucast g :: u32) = KAllGroups then nrGroupID it else ucast g))
       (filter (deactivation_matches c (ucast g)) (iNotificationReceiverItems s))) (TraceDeactivated s c g)"
  unfolding TraceDeactivated_def deactivation_matches_def by (rule fold_items)

lemma report_error_calls: "\<exists>cs. adds_calls s cs (report_error s c g)"
proof (cases "tcInstance s")
  case True
  then show ?thesis
    unfolding report_error_def TraceError_def by simp (rule exI, rule fold_items)
qed (auto simp: report_error_def intro: adds_calls_refl)

text \<open>What is told about a changed group depends on its activation, which the calls do not change.\<close>

definition change_calls :: "tcore \<Rightarrow> u32 \<Rightarrow> u32 \<Rightarrow> tc_call list" where
  "change_calls s c g =
     (if IsTraceActivated s c (push_bit 16 g)
      then map (\<lambda>it. CallActivated (nrReceiver it) c (ucast (ucast g :: u16)))
             (filter (item_matches c (ucast (ucast g :: u16))) (iNotificationReceiverItems s))
      else map (\<lambda>it. CallDeactivated (nrReceiver it) c
               (if ucast (ucast g :: u16) = KAllGroups then nrGroupID it else ucast (ucast g :: u16)))
             (filter (deactivation_matches c (ucast (ucast g :: u16))) (iNotificationReceiverItems s)))"

lemma notify_changed_calls: "adds_calls s (change_calls s c g) (notify_changed c g s)"
  by (simp add: notify_changed_def change_calls_def TraceActivated_calls TraceDeactivated_calls)

lemma activated_cong: "iOstComponents t = iOstComponents s \<Longrightarrow> IsTraceActivated t = IsTraceActivated s"
  by (simp add: fun_eq_iff IsTraceActivated_def cong: option.case_cong)

lemma change_calls_cong:
  "iOstComponents t = iOstComponents s \<Longrightarrow>
   iNotificationReceiverItems t = iNotificationReceiverItems s \<Longrightarrow> change_calls t = change_calls s"
  by (simp add: fun_eq_iff change_calls_def activated_cong[of t s])

lemma change_calls_same: "adds_calls s cs t \<Longrightarrow> change_calls t = change_calls s"
  by (rule change_calls_cong) (simp_all add: adds_calls_def)

lemma notify_groups_calls:
  "adds_calls s (concat (map (change_calls s c) gs)) (fold (notify_changed c) gs s)"
proof (induction gs arbitrary: s)
  case (Cons g gs)
  note n = notify_changed_calls[of s c g]
  show ?case
    using adds_calls_trans[OF n Cons[of "notify_changed c g s"]] by (simp add: change_calls_same[OF n])
qed (simp add: adds_calls_refl)

lemma notify_all_calls:
  "adds_calls s (concat (map (\<lambda>c. concat (map (change_calls s (iComponentId c)) (iGroups c))) cs))
     (fold (\<lambda>c. fold (notify_changed (iComponentId c)) (iGroups c)) cs s)"
proof (induction cs arbitrary: s)
  case (Cons c cs)
  note n = notify_groups_calls[of s "iComponentId c" "iGroups c"]
  let ?t = "fold (notify_changed (iComponentId c)) (iGroups c) s"
  show ?case
    using adds_calls_trans[OF n Cons[of ?t]] by (simp add: change_calls_same[OF n])
qed (simp add: adds_calls_refl)

definition handler_of :: "tc_env \<Rightarrow> TOstComponent list \<Rightarrow> bt_handler" where
  "handler_of E xs = (if only_printfs E xs then DummyBTraceHandler else NormalBTraceHandler)"

definition told :: "tcore \<Rightarrow> TOstComponent list \<Rightarrow> tc_call list" where
  "told s changed =
     (if tcInstance s
      then concat (map (\<lambda>c. concat (map (change_calls s (iComponentId c)) (iGroups c))) changed) else [])"

lemma handle_changes:
  "HandleTraceActivationChanges E s =
     (clear_cache s)\<lparr>iAllTracesDeactivated := only_printfs E (iOstComponents s),
        tcCalls := tcCalls s @ CallSetHandler (handler_of E (iOstComponents s)) # told s (iChangedArray s)\<rparr>"
proof -
  define t where "t = choose_handler E (clear_cache s)"
  have t: "t = (clear_cache s)\<lparr>iAllTracesDeactivated := only_printfs E (iOstComponents s),
        tcCalls := tcCalls s @ [CallSetHandler (handler_of E (iOstComponents s))]\<rparr>"
    by (simp add: t_def choose_handler_def clear_cache_def call_def handler_of_def)
  have f: "iOstComponents t = iOstComponents s" "tcInstance t = tcInstance s"
    "iChangedArray t = iChangedArray s" "iNotificationReceiverItems t = iNotificationReceiverItems s"
    by (simp_all add: t clear_cache_def)
  have "HandleTraceActivationChanges E s = t\<lparr>tcCalls := tcCalls t @ told s (iChangedArray s)\<rparr>"
    using notify_all_calls[of t "iChangedArray t"]
    by (simp add: HandleTraceActivationChanges_def Let_def t_def[symmetric] f told_def adds_calls_def
        change_calls_cong[OF f(1,4)])
  then show ?thesis by (simp add: t)
qed

section \<open>Closing a change\<close>

lemma length_write32 [simp]:
  "length (fst bp) = KMaxActivationBufferLength \<Longrightarrow> length (fst (WriteToBuffer32 w bp)) = KMaxActivationBufferLength"
  by (cases bp) (simp add: WriteToBuffer32_def)

lemma length_write16 [simp]:
  "length (fst bp) = KMaxActivationBufferLength \<Longrightarrow> length (fst (WriteToBuffer16 w bp)) = KMaxActivationBufferLength"
  by (cases bp) (simp add: WriteToBuffer16_def)

lemma length_write_groups:
  "length (fst bp) = KMaxActivationBufferLength \<Longrightarrow>
   length (fst (fold (\<lambda>g. WriteToBuffer16 (ucast g)) gs bp)) = KMaxActivationBufferLength"
  by (induction gs arbitrary: bp) simp_all

lemma length_write_components:
  "length (fst bp) = KMaxActivationBufferLength \<Longrightarrow>
   length (fst (fold write_component cs bp)) = KMaxActivationBufferLength"
  by (induction cs arbitrary: bp) (simp_all add: write_component_def length_write_groups)

text \<open>Fields no listener touches.\<close>

definition listened :: "tcore \<Rightarrow> tcore" where
  "listened s = s\<lparr>tcCalls := [], iActivationBuffer := None\<rparr>"

lemma listened_fields:
  assumes "listened s' = listened s"
  shows "iOstComponents s' = iOstComponents s" "iTmpArray s' = iTmpArray s" "tcInstance s' = tcInstance s"
    "iCacheItem1 s' = iCacheItem1 s" "iCacheItem2 s' = iCacheItem2 s" "iCacheItem3 s' = iCacheItem3 s"
    "iCacheItem4 s' = iCacheItem4 s" "iAllTracesDeactivated s' = iAllTracesDeactivated s"
    "iNotificationReceiverItems s' = iNotificationReceiverItems s"
    "iActivationNotification s' = iActivationNotification s" "ostSettings s' = ostSettings s"
    "ostWriter s' = ostWriter s" "iMultiPartTrace s' = iMultiPartTrace s"
    "iTraceCertified s' = iTraceCertified s" "iPreviousTraceDropped s' = iPreviousTraceDropped s"
  using arg_cong[OF assms, of iOstComponents] arg_cong[OF assms, of iTmpArray]
    arg_cong[OF assms, of tcInstance] arg_cong[OF assms, of iCacheItem1] arg_cong[OF assms, of iCacheItem2]
    arg_cong[OF assms, of iCacheItem3] arg_cong[OF assms, of iCacheItem4]
    arg_cong[OF assms, of iAllTracesDeactivated] arg_cong[OF assms, of iNotificationReceiverItems]
    arg_cong[OF assms, of iActivationNotification] arg_cong[OF assms, of ostSettings]
    arg_cong[OF assms, of ostWriter] arg_cong[OF assms, of iMultiPartTrace]
    arg_cong[OF assms, of iTraceCertified] arg_cong[OF assms, of iPreviousTraceDropped]
  by (simp_all add: listened_def)

lemma listened_call [simp]: "listened (call s c) = listened s"
  by (simp add: listened_def call_def)

lemma WriteToSettings_spec:
  assumes "buffer_ok s"
  shows "\<exists>s' buf. WriteToSettings s = Some s' \<and> listened s' = listened s \<and> buffer_ok s' \<and>
                  tcCalls s' = tcCalls s @ [CallWriteSettings buf]"
proof -
  obtain buf where buf: "iActivationBuffer s = Some buf" "length buf = KMaxActivationBufferLength"
    using assms by (auto simp: buffer_ok_def)
  obtain buf' p where w: "fold write_component (iOstComponents s)
      (WriteToBuffer32 (of_nat (length (iOstComponents s))) (buf, 0)) = (buf', p)"
    by fastforce
  have "length buf' = KMaxActivationBufferLength"
    using length_write_components[of "WriteToBuffer32 (of_nat (length (iOstComponents s))) (buf, 0)"
        "iOstComponents s"] buf(2) w by simp
  then show ?thesis
    using buf w by (auto simp: WriteToSettings_def listened_def buffer_ok_def call_def)
qed

definition listener_call :: "tc_call \<Rightarrow> bool" where
  "listener_call cl \<longleftrightarrow> cl = CallPrimeDfc \<or> (\<exists>buf. cl = CallWriteSettings buf)"

lemma notify_listeners_spec:
  "buffer_ok s \<Longrightarrow> \<exists>s' cs. notify_listeners ls s fs c = Some s' \<and> listened s' = listened s \<and> buffer_ok s' \<and>
     tcCalls s' = tcCalls s @ cs \<and> list_all listener_call cs"
proof (induction ls arbitrary: s)
  case (Cons l ls)
  show ?case
  proof (cases l)
    case OstCategoryHandler
    have "\<exists>t cs. ost_ActivationChanged s fs = Some t \<and> listened t = listened s \<and> buffer_ok t \<and>
            tcCalls t = tcCalls s @ cs \<and> list_all listener_call cs"
      using WriteToSettings_spec[OF Cons.prems] Cons.prems
      by (auto simp: ost_ActivationChanged_def listener_call_def)
    then obtain t cs where t: "ost_ActivationChanged s fs = Some t" "listened t = listened s" "buffer_ok t"
      "tcCalls t = tcCalls s @ cs" "list_all listener_call cs" by blast
    then show ?thesis
      using Cons.IH[OF t(3)] OstCategoryHandler by auto
  next
    case KernelCategoryHandler
    let ?t = "kernel_ActivationChanged s c"
    have t: "listened ?t = listened s" "buffer_ok ?t"
      "\<exists>cs. tcCalls ?t = tcCalls s @ cs \<and> list_all listener_call cs"
      using Cons.prems
      by (auto simp: kernel_ActivationChanged_def PrimeKernelCategories_def buffer_ok_def listener_call_def)
    show ?thesis
      using Cons.IH[OF t(2)] t KernelCategoryHandler by auto
  qed
qed simp

text \<open>What a change of the activations does not touch: receivers, listeners, settings, writer and the
  multipart trace in progress.\<close>

definition same_setup :: "tcore \<Rightarrow> tcore \<Rightarrow> bool" where
  "same_setup s s' \<longleftrightarrow> tcInstance s' = tcInstance s \<and>
     iNotificationReceiverItems s' = iNotificationReceiverItems s \<and>
     iActivationNotification s' = iActivationNotification s \<and> ostSettings s' = ostSettings s \<and>
     ostWriter s' = ostWriter s \<and> iMultiPartTrace s' = iMultiPartTrace s \<and>
     iTraceCertified s' = iTraceCertified s \<and> iPreviousTraceDropped s' = iPreviousTraceDropped s"

lemma same_setup_trans: "same_setup s t \<Longrightarrow> same_setup t u \<Longrightarrow> same_setup s u"
  by (simp add: same_setup_def)

lemma frozen_setup: "frozen t = frozen s \<Longrightarrow> same_setup s t"
  using frozen_fields[of t s] by (simp add: same_setup_def)

lemma close_change_spec:
  assumes "bitmap_wf (iOstComponents t)" "buffer_ok t"
  shows "\<exists>s' cs. close_change E t fs c = Some s' \<and> tc_inv E s' \<and>
     iOstComponents s' = iOstComponents t \<and> same_setup t s' \<and>
     tcCalls s' = tcCalls t @ CallSetHandler (handler_of E (iOstComponents t)) #
                    told t (iChangedArray t) @ cs \<and> list_all listener_call cs"
proof -
  define u where "u = HandleTraceActivationChanges E t"
  note u = handle_changes[of E t, folded u_def]
  have "buffer_ok u"
    using assms(2) by (simp add: u buffer_ok_def clear_cache_def)
  from notify_listeners_spec[OF this, of "iActivationNotification u" fs c]
  obtain s' cs where s': "close_change E t fs c = Some s'" "listened s' = listened u" "buffer_ok s'"
    "tcCalls s' = tcCalls u @ cs" "list_all listener_call cs"
    by (auto simp: close_change_def NotifyInternalActivation_def u_def)
  note f = listened_fields[OF s'(2)]
  have inv: "tc_inv E s'"
    using assms(1) s'(3)
    by (simp add: tc_inv_def f u clear_cache_def cache_ok_def item_ok_def)
  show ?thesis
    by (rule exI[of _ s'], rule exI[of _ cs])
      (use s' inv in \<open>simp add: f u clear_cache_def same_setup_def\<close>)
qed

lemma close_swap:
  assumes "tc_inv E s" "frozen t = frozen s" "bitmap_wf (iTmpArray t)"
  shows "\<exists>s' cs. close_change E (SetNewComponentsArrayPtr t) fs c = Some s' \<and> tc_inv E s' \<and>
     iOstComponents s' = iTmpArray t \<and> same_setup s s' \<and>
     tcCalls s' = tcCalls t @ CallSetHandler (handler_of E (iTmpArray t)) #
                    told (SetNewComponentsArrayPtr t) (iChangedArray t) @ cs \<and> list_all listener_call cs"
  using close_change_spec[of "SetNewComponentsArrayPtr t" E fs c] assms frozen_fields[OF assms(2)]
  by (simp add: SetNewComponentsArrayPtr_def buffer_ok_def tc_inv_def same_setup_def)

section \<open>Operations on activations\<close>

text \<open>
  \<open>steps_to E s U A s'\<close>: an operation left the good state \<open>s'\<close>; what was set up before (receivers,
  listeners, settings) is as it was, and the activations are within \<open>U\<close>, and exactly \<open>A\<close> when no
  array failed to grow.
\<close>

definition steps_to ::
  "tc_env \<Rightarrow> tcore \<Rightarrow> (u32 \<times> u32) set \<Rightarrow> (u32 \<times> u32) set \<Rightarrow> tcore \<Rightarrow> bool" where
  "steps_to E s U A s' \<longleftrightarrow> tc_inv E s' \<and> same_setup s s' \<and>
     activations (iOstComponents s') \<subseteq> U \<and>
     (memory_ok E \<longrightarrow> activations (iOstComponents s') = A)"

lemma steps_to_refl:
  "tc_inv E s \<Longrightarrow> steps_to E s (activations (iOstComponents s)) (activations (iOstComponents s)) s"
  by (simp add: steps_to_def same_setup_def)

lemma report_error_steps:
  assumes "tc_inv E s"
  shows "steps_to E s (activations (iOstComponents s)) (activations (iOstComponents s)) (report_error s c g)"
proof -
  obtain cs where "report_error s c g = s\<lparr>tcCalls := tcCalls s @ cs\<rparr>"
    using report_error_calls[of s c g] by (auto simp: adds_calls_def)
  then show ?thesis
    using assms
    by (simp add: steps_to_def same_setup_def tc_inv_def cache_ok_def item_ok_def buffer_ok_def)
qed

lemma close_steps:
  assumes "tc_inv E s" "frozen t = frozen s" "bitmap_wf (iTmpArray t)" "activations (iTmpArray t) \<subseteq> U"
    "memory_ok E \<Longrightarrow> activations (iTmpArray t) = A"
  shows "\<exists>s'. close_change E (SetNewComponentsArrayPtr t) fs c = Some s' \<and> steps_to E s U A s'"
  using close_swap[OF assms(1-3), of fs c] assms(4,5) by (auto simp: steps_to_def same_setup_def)

abbreviation acts :: "tcore \<Rightarrow> (u32 \<times> u32) set" where
  "acts s \<equiv> activations (iOstComponents s)"

text \<open>The abstract operations.\<close>

definition spec_activate :: "u32 \<Rightarrow> u32 \<Rightarrow> (u32 \<times> u32) set \<Rightarrow> (u32 \<times> u32) set" where
  "spec_activate c g A = (if GroupIdIsValid g then insert (c, g) A else A)"

definition spec_deactivate :: "u32 \<Rightarrow> u32 \<Rightarrow> (u32 \<times> u32) set \<Rightarrow> (u32 \<times> u32) set" where
  "spec_deactivate c g A = (if ComponentIdIsValid c then A - {(c, g)} else A)"

definition spec_deactivate_all :: "u32 \<Rightarrow> (u32 \<times> u32) set \<Rightarrow> (u32 \<times> u32) set" where
  "spec_deactivate_all c A = {p \<in> A. fst p \<noteq> c}"

lemma ActivateTrace_steps:
  assumes "tc_inv E s"
  shows "\<exists>s'. ActivateTrace E s c g = Some s' \<and>
    steps_to E s (spec_activate c g (acts s)) (spec_activate c g (acts s)) s'"
proof (cases "GroupIdIsValid g")
  case False
  then show ?thesis using report_error_steps[OF assms] by (simp add: ActivateTrace_def spec_activate_def)
next
  case True
  have wf: "bitmap_wf (iOstComponents s)" using assms by (simp add: tc_inv_def)
  note o = open_change_spec[OF wf, of E]
  obtain s1 idx where 1: "AddComponentId E (open_change E s) c = (s1, idx)"
    by (cases "AddComponentId E (open_change E s) c")
  note a = AddComponentId_spec[OF 1 o(2)]
  obtain s2 ret where 2: "AddGroupId E s1 c (ucast g) idx = (s2, ret)"
    by (cases "AddGroupId E s1 c (ucast g) idx")
  have s2: "frozen s2 = frozen s1 \<and> bitmap_wf (iTmpArray s2) \<and>
    activations (iTmpArray s2) \<subseteq> insert (c, g) (activations (iTmpArray s1)) \<and>
    (memory_ok E \<longrightarrow> activations (iTmpArray s2) = insert (c, g) (activations (iTmpArray s1)))"
  proof (cases idx)
    case None
    then show ?thesis using 2 a(2,7) by (auto simp: AddGroupId_def)
  next
    case (Some i)
    show ?thesis
      using AddGroupId_spec[OF 2[unfolded Some] a(2) a(6)[OF Some]] valid_group_u8[OF True] by auto
  qed
  then have "\<exists>s'. close_change E (SetNewComponentsArrayPtr s2) False c = Some s' \<and>
      steps_to E s (insert (c, g) (acts s)) (insert (c, g) (acts s)) s'"
    using a o by (intro close_steps[OF assms]) auto
  then show ?thesis
    using True by (simp add: ActivateTrace_def spec_activate_def 1 2)
qed

text \<open>All groups of the well-formed array are valid, so an invalid one is never among them.\<close>

lemma acts_valid: "tc_inv E s \<Longrightarrow> (c, g) \<in> acts s \<Longrightarrow> GroupIdIsValid g"
  by (auto simp: tc_inv_def bitmap_wf_def component_wf_def in_activations)

lemma DeactivateTrace_steps:
  assumes "tc_inv E s"
  shows "DeactivateTrace E s c g = Some s' \<Longrightarrow> steps_to E s (acts s) (spec_deactivate c g (acts s)) s'"
    and "memory_ok E \<Longrightarrow> DeactivateTrace E s c g \<noteq> None"
proof -
  have wf: "bitmap_wf (iOstComponents s)" using assms by (simp add: tc_inv_def)
  have "(DeactivateTrace E s c g = None \<and> \<not> memory_ok E) \<or>
    (\<exists>s'. DeactivateTrace E s c g = Some s' \<and> steps_to E s (acts s) (spec_deactivate c g (acts s)) s')"
  proof (cases "ComponentIdIsValid c \<and> GroupIdIsValid g \<and> FindComponentId c (iOstComponents s) \<noteq> None")
    case False
    then have "c = 0 \<or> (c, g) \<notin> acts s"
      using acts_valid[OF assms]
      by (auto simp: ComponentIdIsValid_def FindComponentId_def find_ordered_None in_activations
          word_neq_0_conv[symmetric] simp del: not_None_eq word_neq_0_conv)
    then have "spec_deactivate c g (acts s) = acts s"
      by (auto simp: spec_deactivate_def ComponentIdIsValid_def)
    then show ?thesis
      using False steps_to_refl[OF assms] report_error_steps[OF assms]
      by (auto simp: DeactivateTrace_def)
  next
    case True
    then obtain i where i: "FindComponentId c (iOstComponents s) = Some i" by auto
    note o = open_change_spec[OF wf, of E]
    obtain s1 ret where 1: "RemoveGroupId E (open_change E s) c (ucast g) (Some i) = (s1, ret)"
      by (cases "RemoveGroupId E (open_change E s) c (ucast g) (Some i)")
    show ?thesis
    proof (cases "i < length (iTmpArray (open_change E s))")
      case False
      then have "s1 = open_change E s" using 1 by (simp add: RemoveGroupId_def)
      moreover have "\<not> memory_ok E"
        using False o(5) i by (auto simp: FindComponentId_def dest: find_ordered_Some)
      ultimately show ?thesis using True i 1 False by (simp add: DeactivateTrace_def)
    next
      case len: True
      define d where "d = iComponentId (iTmpArray (open_change E s) ! i)"
      have ix: "index_of (open_change E s) i d" using len by (simp add: index_of_def d_def)
      note r = RemoveGroupId_spec[OF 1 o(2) ix]
      have len1: "i < length (iTmpArray s1)" using r(3) by (simp add: index_of_def)
      define t where "t = (if iGroups (iTmpArray s1 ! i) = [] then fst (RemoveComponentId E s1 c False) else s1)"
      obtain s2 j where 2: "RemoveComponentId E s1 c False = (s2, j)"
        by (cases "RemoveComponentId E s1 c False")
      note rc = RemoveComponentId_spec[OF 2 r(2)]
      have dc: "d = c" if "memory_ok E"
        using o(5)[OF that] i by (auto simp: d_def FindComponentId_def dest: find_ordered_Some)
      have empty: "activations (iTmpArray s2) = activations (iTmpArray s1)"
        if "memory_ok E" "iGroups (iTmpArray s1 ! i) = []"
        using activations_split[OF r(2) len1, of c] r(3) dc[OF that(1)] that(2) rc(3)
        by (auto simp: index_of_def)
      have "\<exists>s'. close_change E (SetNewComponentsArrayPtr t) False c = Some s' \<and>
          steps_to E s (acts s) (acts s - {(c, g)}) s'"
        using r rc o dc empty valid_group_u8[of g] True
        by (intro close_steps[OF assms]) (auto simp: t_def 2)
      then show ?thesis
        using True i 1 len1 by (simp add: DeactivateTrace_def t_def spec_deactivate_def)
    qed
  qed
  then show "DeactivateTrace E s c g = Some s' \<Longrightarrow> steps_to E s (acts s) (spec_deactivate c g (acts s)) s'"
    "memory_ok E \<Longrightarrow> DeactivateTrace E s c g \<noteq> None"
    by auto
qed

lemma DeactivateAll_steps:
  assumes "tc_inv E s"
  shows "\<exists>s'. DeactivateAll E s c = Some s' \<and> steps_to E s (acts s) (spec_deactivate_all c (acts s)) s'"
proof -
  have wf: "bitmap_wf (iOstComponents s)" using assms by (simp add: tc_inv_def)
  note o = open_change_spec[OF wf, of E]
  obtain s1 idx where 1: "RemoveComponentId E (open_change E s) c True = (s1, idx)"
    by (cases "RemoveComponentId E (open_change E s) c True")
  note r = RemoveComponentId_spec[OF 1 o(2)]
  show ?thesis
  proof (cases idx)
    case (Some i)
    have "\<exists>s'. close_change E (SetNewComponentsArrayPtr s1) False c = Some s' \<and>
        steps_to E s (acts s) (spec_deactivate_all c (acts s)) s'"
      using r o by (intro close_steps[OF assms]) (auto simp: spec_deactivate_all_def)
    then show ?thesis by (simp add: DeactivateAll_def 1 Some)
  next
    case None
    have f: "frozen s1 = frozen s" using r(1) o(1) by simp
    note ff = frozen_fields[OF f]
    have "spec_deactivate_all c (acts s) = acts s" if "memory_ok E"
      using r(3,4) o(5)[OF that] None by (simp add: spec_deactivate_all_def)
    moreover have "buffer_ok s1" "bitmap_wf (iOstComponents s1)"
      using assms ff by (simp_all add: tc_inv_def buffer_ok_def)
    ultimately show ?thesis
      using close_change_spec[of s1 E False c] ff None
      by (auto simp: DeactivateAll_def 1 steps_to_def same_setup_def)
  qed
qed

end
