(* ===== verification/TraceMessages.thy ===== *)
theory TraceMessages
  imports TraceOps
begin

text \<open>
  Activation messages as operations on the set of activations: the loops over the groups of a frame, the
  overwriting of a component's groups, a whole frame, and the loop over the frames of a message.
\<close>

section \<open>The groups in a frame\<close>

fun frame_group_list :: "u8 list \<Rightarrow> nat \<Rightarrow> nat \<Rightarrow> u32 \<Rightarrow> u16 list option" where
  "frame_group_list msg start 0 offset = Some []"
| "frame_group_list msg start (Suc n) offset =
     do { g \<leftarrow> Read16 msg (start + unat offset);
          gs \<leftarrow> frame_group_list msg start n (offset + KGroupIdLength);
          Some (SWAP16 g # gs) }"

lemma frame_groups_list:
  "frame_groups E act c idx msg start n offset s =
     (case frame_group_list msg start n offset of
        None \<Rightarrow> None
      | Some gs \<Rightarrow> Some (fold (apply_group E act c idx) gs s, offset + of_nat n * KGroupIdLength))"
  by (induction n arbitrary: offset s)
    (auto simp: Let_def algebra_simps split: option.splits Option.bind_splits)

fun insert_groups :: "tc_env \<Rightarrow> u16 list \<Rightarrow> tcore \<Rightarrow> u32 list \<Rightarrow> tcore \<times> u32 list" where
  "insert_groups E [] s gs = (s, gs)"
| "insert_groups E (g # rest) s gs =
     (case insert_array E s id (ucast g) gs of (s, _, gs) \<Rightarrow> insert_groups E rest s gs)"

lemma overwrite_read_list:
  "overwrite_read E msg start n offset s gs =
     (case frame_group_list msg start n offset of
        None \<Rightarrow> None
      | Some ws \<Rightarrow> (case insert_groups E ws s gs of
          (s', gs') \<Rightarrow> Some (s', gs', offset + of_nat n * KGroupIdLength)))"
  by (induction n arbitrary: offset s gs)
    (auto simp: Let_def algebra_simps split: option.splits Option.bind_splits prod.splits)

lemma insert_groups_spec:
  "insert_groups E ws s gs = (s', gs') \<Longrightarrow> sorted_wrt (<) gs \<Longrightarrow>
   frozen s' = frozen s \<and> iTmpArray s' = iTmpArray s \<and> iChangedArray s' = iChangedArray s \<and>
   tcCalls s' = tcCalls s \<and> sorted_wrt (<) gs' \<and> set gs' \<subseteq> set gs \<union> ucast ` set ws \<and>
   (memory_ok E \<longrightarrow> set gs' = set gs \<union> ucast ` set ws)"
proof (induction ws arbitrary: s gs)
  case (Cons w ws)
  obtain s1 e gs1 where 1: "insert_array E s id (ucast w) gs = (s1, e, gs1)"
    by (cases "insert_array E s id (ucast w) gs")
  have gs1: "sorted_wrt (<) gs1" "set gs1 \<subseteq> insert (ucast w) (set gs)"
    "memory_ok E \<Longrightarrow> set gs1 = insert (ucast w) (set gs)"
    using insert_array_cases(2)[OF 1] Cons.prems(2) ordered_insert_ordered[of id gs "ucast w"]
    by (auto simp: find_ordered_None find_ordered_mem)
  show ?case
    using Cons.IH[of s1 gs1] Cons.prems(1) gs1 insert_array_frozen[OF 1] 1 by auto
qed simp

section \<open>Adding and removing\<close>

definition valid_pairs :: "u32 \<Rightarrow> u16 list \<Rightarrow> (u32 \<times> u32) set" where
  "valid_pairs c gs = {(c, ucast g) | g. g \<in> set gs \<and> GroupIdIsValid (ucast g)}"

lemma valid_pairs_simps [simp]:
  "valid_pairs c [] = {}"
  "valid_pairs c (g # gs) = (if GroupIdIsValid (ucast g) then insert (c, ucast g) (valid_pairs c gs)
                             else valid_pairs c gs)"
  by (auto simp: valid_pairs_def)

lemma report_error_edit:
  "frozen (report_error s c g) = frozen s" "iTmpArray (report_error s c g) = iTmpArray s"
  "iChangedArray (report_error s c g) = iChangedArray s"
proof -
  obtain cs where "report_error s c g = s\<lparr>tcCalls := tcCalls s @ cs\<rparr>"
    using report_error_calls[of s c g] by (auto simp: adds_calls_def)
  then show "frozen (report_error s c g) = frozen s" "iTmpArray (report_error s c g) = iTmpArray s"
    "iChangedArray (report_error s c g) = iChangedArray s"
    by (simp_all add: frozen_def)
qed

lemma ucast_u8_u16: "GroupIdIsValid (ucast (g :: u16)) \<Longrightarrow> ucast (ucast g :: u8) = (ucast g :: u32)"
proof -
  have "(ucast (ucast g :: u32) :: u8) = ucast g"
    by (rule bit_word_eqI) (auto simp: bit_simps)
  then show "GroupIdIsValid (ucast g) \<Longrightarrow> ucast (ucast g :: u8) = (ucast g :: u32)"
    using valid_group_u8[of "ucast g"] by simp
qed

lemma add_groups:
  "bitmap_wf (iTmpArray s) \<Longrightarrow> index_of s i c \<Longrightarrow>
   frozen (fold (apply_group E True c (Some i)) gs s) = frozen s \<and>
   bitmap_wf (iTmpArray (fold (apply_group E True c (Some i)) gs s)) \<and>
   index_of (fold (apply_group E True c (Some i)) gs s) i c \<and>
   activations (iTmpArray (fold (apply_group E True c (Some i)) gs s))
     \<subseteq> activations (iTmpArray s) \<union> valid_pairs c gs \<and>
   (memory_ok E \<longrightarrow> activations (iTmpArray (fold (apply_group E True c (Some i)) gs s))
     = activations (iTmpArray s) \<union> valid_pairs c gs)"
proof (induction gs arbitrary: s)
  case (Cons g gs)
  define t where "t = apply_group E True c (Some i) g s"
  have "frozen t = frozen s \<and> bitmap_wf (iTmpArray t) \<and> index_of t i c \<and>
    activations (iTmpArray t) \<subseteq> activations (iTmpArray s) \<union> valid_pairs c [g] \<and>
    (memory_ok E \<longrightarrow> activations (iTmpArray t) = activations (iTmpArray s) \<union> valid_pairs c [g])"
  proof (cases "GroupIdIsValid (ucast g)")
    case True
    obtain t' ret where a: "AddGroupId E s c (ucast g) (Some i) = (t', ret)"
      by (cases "AddGroupId E s c (ucast g) (Some i)")
    show ?thesis
      using AddGroupId_spec[OF a Cons.prems] a True ucast_u8_u16[OF True] by (auto simp: t_def apply_group_def)
  next
    case False
    then show ?thesis
      using Cons.prems index_of_cong[of t s] by (simp add: t_def apply_group_def report_error_edit)
  qed
  then show ?case
    using Cons.IH[of t] by (auto simp: t_def[symmetric])
qed simp

lemma remove_groups:
  "bitmap_wf (iTmpArray s) \<Longrightarrow> index_of s i c \<Longrightarrow>
   frozen (fold (apply_group E False c (Some i)) gs s) = frozen s \<and>
   bitmap_wf (iTmpArray (fold (apply_group E False c (Some i)) gs s)) \<and>
   index_of (fold (apply_group E False c (Some i)) gs s) i c \<and>
   activations (iTmpArray (fold (apply_group E False c (Some i)) gs s))
     = activations (iTmpArray s) - valid_pairs c gs"
proof (induction gs arbitrary: s)
  case (Cons g gs)
  define t where "t = apply_group E False c (Some i) g s"
  have "frozen t = frozen s \<and> bitmap_wf (iTmpArray t) \<and> index_of t i c \<and>
    activations (iTmpArray t) = activations (iTmpArray s) - valid_pairs c [g]"
  proof (cases "GroupIdIsValid (ucast g)")
    case True
    obtain t' ret where a: "RemoveGroupId E s c (ucast g) (Some i) = (t', ret)"
      by (cases "RemoveGroupId E s c (ucast g) (Some i)")
    show ?thesis
      using RemoveGroupId_spec[OF a Cons.prems] a True ucast_u8_u16[OF True] by (auto simp: t_def apply_group_def)
  next
    case False
    then show ?thesis
      using Cons.prems index_of_cong[of t s] by (simp add: t_def apply_group_def report_error_edit)
  qed
  then show ?case
    using Cons.IH[of t] by (auto simp: t_def[symmetric])
qed simp

section \<open>Overwriting\<close>

lemma filter_other: "x \<notin> set xs \<Longrightarrow> filter (\<lambda>y. y \<noteq> x) xs = xs"
  by (induction xs) auto

text \<open>
  Before step \<open>i\<close> of the removal loop the component holds the groups before \<open>i\<close> that stay and all
  groups from \<open>i\<close> on, so the element at \<open>i\<close> less the number removed is the \<open>i\<close>-th of the start.
\<close>

lemma overwrite_remove_step:
  assumes "bitmap_wf (iTmpArray s)" "index_of s k c"
    and "iGroups (iTmpArray s ! k) = filter (\<lambda>g. g \<in> set gs) (take i G) @ drop i G"
    and "r + length (filter (\<lambda>g. g \<in> set gs) (take i G)) = i" "i < length G"
    and "overwrite_remove E c k gs i (s, r) = (s', r')"
  shows "frozen s' = frozen s \<and> bitmap_wf (iTmpArray s') \<and> index_of s' k c \<and>
    iGroups (iTmpArray s' ! k) = filter (\<lambda>g. g \<in> set gs) (take (Suc i) G) @ drop (Suc i) G \<and>
    r' + length (filter (\<lambda>g. g \<in> set gs) (take (Suc i) G)) = Suc i \<and>
    {p \<in> activations (iTmpArray s'). fst p \<noteq> c} = {p \<in> activations (iTmpArray s). fst p \<noteq> c}"
proof -
  let ?in = "\<lambda>g. g \<in> set gs" and ?gs = "iGroups (iTmpArray s ! k)"
  have pos: "i - r = length (filter ?in (take i G))" using assms(4) by simp
  have g: "?gs ! (i - r) = G ! i"
    using assms(3,5) by (simp add: pos nth_append)
  have split: "?gs = filter ?in (take i G) @ G ! i # drop (Suc i) G"
    using assms(3,5) by (simp add: Cons_nth_drop_Suc)
  have tk: "take (Suc i) G = take i G @ [G ! i]"
    using assms(5) by (simp add: take_Suc_conv_app_nth)
  have kl: "k < length (iTmpArray s)" using assms(2) by (simp add: index_of_def)
  have wf: "sorted_wrt (<) ?gs" "\<forall>g\<in>set ?gs. GroupIdIsValid g"
    using wf_nth[OF assms(1) kl] by (simp_all add: component_wf_def)
  show ?thesis
  proof (cases "G ! i \<in> set gs")
    case True
    then have "s' = s" "r' = r"
      using assms(6) find_ordered_mem[of "G ! i" gs] by (auto simp: overwrite_remove_def g Let_def)
    then show ?thesis
      using assms split tk True by simp
  next
    case False
    then have none: "find_ordered id (G ! i) gs = None" by (auto simp: find_ordered_None)
    obtain t ret where t: "RemoveGroupId E s c (ucast (G ! i)) (Some k) = (t, ret)"
      by (cases "RemoveGroupId E s c (ucast (G ! i)) (Some k)")
    have s': "s' = t" "r' = Suc r"
      using assms(6) none t by (auto simp: overwrite_remove_def g Let_def)
    have valid: "ucast (ucast (G ! i) :: u8) = G ! i"
      using wf(2) split valid_group_u8 by (metis in_set_conv_decomp)
    note rm = RemoveGroupId_spec[OF t assms(1,2), unfolded valid]
    have "distinct ?gs" using wf(1) by (simp add: strict_sorted_iff)
    then have n: "G ! i \<notin> set (filter ?in (take i G))" "G ! i \<notin> set (drop (Suc i) G)"
      unfolding split by auto
    have "filter (\<lambda>x. x \<noteq> G ! i) ?gs = filter ?in (take i G) @ drop (Suc i) G"
      by (simp add: split filter_other[OF n(1)] filter_other[OF n(2)] del: filter_filter)
    then have "iGroups (iTmpArray s' ! k) = filter ?in (take (Suc i) G) @ drop (Suc i) G"
      using rm(5) s'(1) tk False by simp
    moreover have "r' + length (filter ?in (take (Suc i) G)) = Suc i"
      using s'(2) tk False assms(4) by simp
    moreover have "{p \<in> activations (iTmpArray s'). fst p \<noteq> c} = {p \<in> activations (iTmpArray s). fst p \<noteq> c}"
      unfolding s'(1) rm(4) by auto
    ultimately show ?thesis
      using rm(1-3) s'(1) by simp
  qed
qed

lemma overwrite_remove_loop:
  assumes "bitmap_wf (iTmpArray s)" "index_of s k c" "iGroups (iTmpArray s ! k) = G" "n \<le> length G"
  shows "\<exists>s' r. fold (overwrite_remove E c k gs) [0..<n] (s, 0) = (s', r) \<and>
    frozen s' = frozen s \<and> bitmap_wf (iTmpArray s') \<and> index_of s' k c \<and>
    iGroups (iTmpArray s' ! k) = filter (\<lambda>g. g \<in> set gs) (take n G) @ drop n G \<and>
    r + length (filter (\<lambda>g. g \<in> set gs) (take n G)) = n \<and>
    {p \<in> activations (iTmpArray s'). fst p \<noteq> c} = {p \<in> activations (iTmpArray s). fst p \<noteq> c}"
  using assms(4)
proof (induction n)
  case 0
  then show ?case using assms by simp
next
  case (Suc n)
  then obtain s' r where IH: "fold (overwrite_remove E c k gs) [0..<n] (s, 0) = (s', r)"
    "frozen s' = frozen s" "bitmap_wf (iTmpArray s')" "index_of s' k c"
    "iGroups (iTmpArray s' ! k) = filter (\<lambda>g. g \<in> set gs) (take n G) @ drop n G"
    "r + length (filter (\<lambda>g. g \<in> set gs) (take n G)) = n"
    "{p \<in> activations (iTmpArray s'). fst p \<noteq> c} = {p \<in> activations (iTmpArray s). fst p \<noteq> c}"
    by auto
  obtain s2 r2 where 2: "overwrite_remove E c k gs n (s', r) = (s2, r2)"
    by (cases "overwrite_remove E c k gs n (s', r)")
  have "n < length G" using Suc.prems by simp
  from overwrite_remove_step[OF IH(3-6) this 2] show ?case
    using IH 2 by simp
qed

lemma overwrite_add_loop:
  "bitmap_wf (iTmpArray s) \<Longrightarrow> index_of s k c \<Longrightarrow>
   frozen (fold (overwrite_add E c k) gs s) = frozen s \<and>
   bitmap_wf (iTmpArray (fold (overwrite_add E c k) gs s)) \<and>
   index_of (fold (overwrite_add E c k) gs s) k c \<and>
   activations (iTmpArray (fold (overwrite_add E c k) gs s))
     \<subseteq> activations (iTmpArray s) \<union> Pair c ` {g \<in> set gs. GroupIdIsValid g} \<and>
   (memory_ok E \<longrightarrow> activations (iTmpArray (fold (overwrite_add E c k) gs s))
     = activations (iTmpArray s) \<union> Pair c ` {g \<in> set gs. GroupIdIsValid g})"
proof (induction gs arbitrary: s)
  case (Cons g gs)
  define t where "t = overwrite_add E c k g s"
  have k: "k < length (iTmpArray s)" "iComponentId (iTmpArray s ! k) = c"
    using Cons.prems(2) by (simp_all add: index_of_def)
  have "frozen t = frozen s \<and> bitmap_wf (iTmpArray t) \<and> index_of t k c \<and>
    activations (iTmpArray t) \<subseteq> activations (iTmpArray s) \<union> Pair c ` {x. x = g \<and> GroupIdIsValid x} \<and>
    (memory_ok E \<longrightarrow>
      activations (iTmpArray t) = activations (iTmpArray s) \<union> Pair c ` {x. x = g \<and> GroupIdIsValid x})"
  proof (cases "find_ordered id g (iGroups (iTmpArray s ! k))")
    case (Some j)
    then have "(c, g) \<in> activations (iTmpArray s)"
      using activated_index[OF Cons.prems(1) k(1), of g] find_ordered_mem[of g] k(2) by auto
    then show ?thesis using Some Cons.prems by (auto simp: t_def overwrite_add_def)
  next
    case None
    show ?thesis
    proof (cases "GroupIdIsValid g")
      case True
      obtain t' ret where a: "AddGroupId E s c (ucast g) (Some k) = (t', ret)"
        by (cases "AddGroupId E s c (ucast g) (Some k)")
      show ?thesis
        using AddGroupId_spec[OF a Cons.prems] a None True valid_group_u8[OF True]
        by (auto simp: t_def overwrite_add_def)
    next
      case False
      then show ?thesis
        using Cons.prems index_of_cong[of t s] None
        by (auto simp: t_def overwrite_add_def report_error_edit)
    qed
  qed
  then show ?case
    using Cons.IH[of t] by (auto simp: t_def[symmetric])
qed simp

lemma valid_pairs_image:
  "Pair c ` {g \<in> ucast ` set ws. GroupIdIsValid g} = valid_pairs c ws"
  by (auto simp: valid_pairs_def)

lemma OverwriteGroups_spec:
  assumes "OverwriteGroups E msg start k c n s = Some (s', off)" "bitmap_wf (iTmpArray s)" "index_of s k c"
  obtains ws where "frame_group_list msg start (unat n) KOstGroupIdOffset = Some ws"
    "off = KOstGroupIdOffset + n * KGroupIdLength" "frozen s' = frozen s" "bitmap_wf (iTmpArray s')"
    "index_of s' k c"
    "activations (iTmpArray s') \<subseteq> activations (iTmpArray s) \<union> valid_pairs c ws"
    "memory_ok E \<Longrightarrow>
      activations (iTmpArray s') = spec_deactivate_all c (activations (iTmpArray s)) \<union> valid_pairs c ws"
proof -
  obtain ws where ws: "frame_group_list msg start (unat n) KOstGroupIdOffset = Some ws"
    using assms(1)
    by (cases "frame_group_list msg start (unat n) KOstGroupIdOffset")
      (simp_all add: OverwriteGroups_def overwrite_read_list)
  obtain s1 gs where 1: "insert_groups E ws s [] = (s1, gs)" by fastforce
  note ig = insert_groups_spec[OF 1, simplified]
  have s1: "bitmap_wf (iTmpArray s1)" "index_of s1 k c"
    using ig assms(2,3) index_of_cong[of s1 s] by simp_all
  define G where "G = iGroups (iTmpArray s1 ! k)"
  obtain s2 r where 2: "fold (overwrite_remove E c k gs) [0..<length G] (s1, 0) = (s2, r)"
    "frozen s2 = frozen s1" "bitmap_wf (iTmpArray s2)" "index_of s2 k c"
    "iGroups (iTmpArray s2 ! k) = filter (\<lambda>g. g \<in> set gs) G"
    "{p \<in> activations (iTmpArray s2). fst p \<noteq> c} = {p \<in> activations (iTmpArray s1). fst p \<noteq> c}"
    using overwrite_remove_loop[OF s1 G_def[symmetric] order.refl, of E gs] by auto
  have s': "s' = fold (overwrite_add E c k) gs s2" "off = KOstGroupIdOffset + n * KGroupIdLength"
    using assms(1) 2(1) by (simp_all add: OverwriteGroups_def overwrite_read_list ws 1 G_def)
  note add = overwrite_add_loop[OF 2(3,4), of E gs, folded s'(1)]
  have kl: "k < length (iTmpArray s2)" "iComponentId (iTmpArray s2 ! k) = c"
    "k < length (iTmpArray s1)" "iComponentId (iTmpArray s1 ! k) = c"
    using 2(4) s1(2) by (simp_all add: index_of_def)
  have a2: "activations (iTmpArray s2) =
      spec_deactivate_all c (activations (iTmpArray s)) \<union> Pair c ` {g \<in> set G. g \<in> set gs}"
    using activations_split[OF 2(3) kl(1,2)] 2(5,6) ig by (simp add: spec_deactivate_all_def)
  have G: "Pair c ` set G \<subseteq> activations (iTmpArray s)" "\<forall>g\<in>set G. GroupIdIsValid g"
    using activations_split[OF s1(1) kl(3,4)] ig wf_nth[OF s1(1) kl(3)]
    by (auto simp: G_def component_wf_def)
  have valid: "g \<in> set gs \<Longrightarrow> GroupIdIsValid g \<Longrightarrow> (c, g) \<in> valid_pairs c ws" for g
    using ig by (auto simp: valid_pairs_def)
  have sub: "activations (iTmpArray s') \<subseteq> activations (iTmpArray s) \<union> valid_pairs c ws"
    using add a2 G valid by (auto simp: spec_deactivate_all_def)
  have eq: "activations (iTmpArray s') = spec_deactivate_all c (activations (iTmpArray s)) \<union> valid_pairs c ws"
    if m: "memory_ok E"
  proof -
    have gs: "set gs = ucast ` set ws" using ig m by simp
    show ?thesis
      using add m a2 G(2) valid_pairs_image[of c ws, folded gs] by auto
  qed
  show ?thesis
    by (rule that[OF ws s'(2) _ _ _ sub eq]) (use add 2(2) ig in auto)
qed

section \<open>A frame\<close>

definition spec_frame :: "u8 \<Rightarrow> u32 \<Rightarrow> u16 list \<Rightarrow> (u32 \<times> u32) set \<Rightarrow> (u32 \<times> u32) set" where
  "spec_frame info c gs A =
     (if info = SOS_MON_TRACECORE_OST_DEACTIVATE then A - valid_pairs c gs
      else if info = SOS_MON_TRACECORE_OST_ACTIVATE then A \<union> valid_pairs c gs
      else if info = SOS_MON_TRACECORE_OST_OVERWRITE then spec_deactivate_all c A \<union> valid_pairs c gs
      else if info = SOS_MON_TRACECORE_OST_DEACTIVATE_ALL then spec_deactivate_all c A
      else A)"

text \<open>Removing a component without groups changes no activation.\<close>

definition drop_empty :: "tc_env \<Rightarrow> nat \<Rightarrow> u32 \<Rightarrow> bool \<Rightarrow> tcore \<Rightarrow> tcore" where
  "drop_empty E i c b s =
     (if b \<and> iGroups (iTmpArray s ! i) = [] then fst (RemoveComponentId E s c False) else s)"

lemma drop_empty_spec:
  assumes "bitmap_wf (iTmpArray s)" "index_of s i c"
  shows "frozen (drop_empty E i c b s) = frozen s" "bitmap_wf (iTmpArray (drop_empty E i c b s))"
    "activations (iTmpArray (drop_empty E i c b s)) = activations (iTmpArray s)"
proof -
  obtain t j where t: "RemoveComponentId E s c False = (t, j)"
    by (cases "RemoveComponentId E s c False")
  note r = RemoveComponentId_spec[OF t assms(1)]
  have "activations (iTmpArray t) = activations (iTmpArray s)" if "iGroups (iTmpArray s ! i) = []"
    using activations_split[OF assms(1), of i c] assms(2) that r(3) by (simp add: index_of_def)
  then show "frozen (drop_empty E i c b s) = frozen s" "bitmap_wf (iTmpArray (drop_empty E i c b s))"
    "activations (iTmpArray (drop_empty E i c b s)) = activations (iTmpArray s)"
    using r assms(1) t by (auto simp: drop_empty_def)
qed

definition group_frame :: "u8 \<Rightarrow> bool" where
  "group_frame info \<longleftrightarrow> info = SOS_MON_TRACECORE_OST_DEACTIVATE \<or>
     info = SOS_MON_TRACECORE_OST_ACTIVATE \<or> info = SOS_MON_TRACECORE_OST_OVERWRITE"

lemma ReadOstFrameGroups_spec:
  assumes "ReadOstFrameGroups E msg st info i c s = Some (s', nxt)" "group_frame info"
    "bitmap_wf (iTmpArray s)" "index_of s i c"
  shows "frozen s' = frozen s" "bitmap_wf (iTmpArray s')"
    and "\<exists>n. Read32 msg (unat st + KOstNumberOfGroupsOffset) = Some n \<and>
      (of_nat (length msg) - st < KOstGroupIdOffset + SWAP32 n * KGroupIdLength \<and> s' = s \<and> nxt = 0 \<or>
       (\<exists>ws. frame_group_list msg (unat st) (unat (SWAP32 n)) KOstGroupIdOffset = Some ws \<and>
          nxt = st + (KOstGroupIdOffset + SWAP32 n * KGroupIdLength) \<and>
          (memory_ok E \<longrightarrow> activations (iTmpArray s') = spec_frame info c ws (activations (iTmpArray s)))))"
proof -
  obtain n where n: "Read32 msg (unat st + KOstNumberOfGroupsOffset) = Some n"
    using assms(1) by (cases "Read32 msg (unat st + KOstNumberOfGroupsOffset)")
      (simp_all add: ReadOstFrameGroups_def)
  let ?N = "SWAP32 n" and ?len = "KOstGroupIdOffset + SWAP32 n * KGroupIdLength"
  have "frozen s' = frozen s \<and> bitmap_wf (iTmpArray s') \<and>
      (of_nat (length msg) - st < ?len \<and> s' = s \<and> nxt = 0 \<or>
       (\<exists>ws. frame_group_list msg (unat st) (unat ?N) KOstGroupIdOffset = Some ws \<and> nxt = st + ?len \<and>
          (memory_ok E \<longrightarrow> activations (iTmpArray s') = spec_frame info c ws (activations (iTmpArray s)))))"
  proof (cases "of_nat (length msg) - st \<ge> ?len")
    case False
    then show ?thesis using assms n by (auto simp: ReadOstFrameGroups_def)
  next
    case True
    let ?b = "info = SOS_MON_TRACECORE_OST_DEACTIVATE \<or> info = SOS_MON_TRACECORE_OST_OVERWRITE"
    obtain t off where t:
      "(if info = SOS_MON_TRACECORE_OST_OVERWRITE then OverwriteGroups E msg (unat st) i c ?N s
        else frame_groups E (info = SOS_MON_TRACECORE_OST_ACTIVATE) c (Some i) msg (unat st) (unat ?N)
               KOstGroupIdOffset s) = Some (t, off)"
      "s' = drop_empty E i c ?b t" "nxt = st + off"
      using assms(1,2) n True
      by (auto simp: ReadOstFrameGroups_def drop_empty_def group_frame_def ost_consts
          split: Option.bind_splits if_splits)
    have "\<exists>ws. frame_group_list msg (unat st) (unat ?N) KOstGroupIdOffset = Some ws \<and> off = ?len \<and>
      frozen t = frozen s \<and> bitmap_wf (iTmpArray t) \<and> index_of t i c \<and>
      (memory_ok E \<longrightarrow> activations (iTmpArray t) = spec_frame info c ws (activations (iTmpArray s)))"
    proof (cases "info = SOS_MON_TRACECORE_OST_OVERWRITE")
      case True
      then have "OverwriteGroups E msg (unat st) i c ?N s = Some (t, off)" using t(1) by simp
      from OverwriteGroups_spec[OF this assms(3,4)] show ?thesis
        using True by (auto simp: spec_frame_def ost_consts)
    next
      case False
      then obtain ws where ws: "frame_group_list msg (unat st) (unat ?N) KOstGroupIdOffset = Some ws"
        "t = fold (apply_group E (info = SOS_MON_TRACECORE_OST_ACTIVATE) c (Some i)) ws s"
        "off = ?len"
        using t(1) by (auto simp: frame_groups_list split: option.splits)
      show ?thesis
      proof (cases "info = SOS_MON_TRACECORE_OST_ACTIVATE")
        case True
        then show ?thesis
          using add_groups[OF assms(3,4), of E ws] ws by (simp add: spec_frame_def ost_consts)
      next
        case F: False
        then have "info = SOS_MON_TRACECORE_OST_DEACTIVATE"
          using False assms(2) by (simp add: group_frame_def)
        then show ?thesis
          using remove_groups[OF assms(3,4), of E ws] ws F by (simp add: spec_frame_def)
      qed
    qed
    then obtain ws where ws: "frame_group_list msg (unat st) (unat ?N) KOstGroupIdOffset = Some ws"
      "off = ?len" "frozen t = frozen s" "bitmap_wf (iTmpArray t)" "index_of t i c"
      "memory_ok E \<longrightarrow> activations (iTmpArray t) = spec_frame info c ws (activations (iTmpArray s))"
      by blast
    show ?thesis
      using ws drop_empty_spec[OF ws(4,5), of E ?b] t(2,3) by auto
  qed
  then show "frozen s' = frozen s" "bitmap_wf (iTmpArray s')"
    "\<exists>n. Read32 msg (unat st + KOstNumberOfGroupsOffset) = Some n \<and>
      (of_nat (length msg) - st < KOstGroupIdOffset + SWAP32 n * KGroupIdLength \<and> s' = s \<and> nxt = 0 \<or>
       (\<exists>ws. frame_group_list msg (unat st) (unat (SWAP32 n)) KOstGroupIdOffset = Some ws \<and>
          nxt = st + (KOstGroupIdOffset + SWAP32 n * KGroupIdLength) \<and>
          (memory_ok E \<longrightarrow> activations (iTmpArray s') = spec_frame info c ws (activations (iTmpArray s)))))"
    using n by auto
qed

text \<open>The component a frame opens: added for activation, looked up for deactivation.\<close>

definition frame_component :: "tc_env \<Rightarrow> u8 \<Rightarrow> u32 \<Rightarrow> tcore \<Rightarrow> tcore \<times> nat option" where
  "frame_component E info c s =
     (if info = SOS_MON_TRACECORE_OST_DEACTIVATE then (s, FindComponentId c (iTmpArray s))
      else AddComponentId E s c)"

lemma frame_component_spec:
  assumes "frame_component E info c s = (s', idx)" "bitmap_wf (iTmpArray s)"
  shows "frozen s' = frozen s" "bitmap_wf (iTmpArray s')"
    "activations (iTmpArray s') = activations (iTmpArray s)"
    "\<And>i. idx = Some i \<Longrightarrow> index_of s' i c"
    "memory_ok E \<Longrightarrow> idx = None \<Longrightarrow>
       info = SOS_MON_TRACECORE_OST_DEACTIVATE \<and> (\<forall>g. (c, g) \<notin> activations (iTmpArray s))"
proof -
  have "frozen s' = frozen s \<and> bitmap_wf (iTmpArray s') \<and>
    activations (iTmpArray s') = activations (iTmpArray s) \<and>
    (\<forall>i. idx = Some i \<longrightarrow> index_of s' i c) \<and>
    (memory_ok E \<and> idx = None \<longrightarrow>
       info = SOS_MON_TRACECORE_OST_DEACTIVATE \<and> (\<forall>g. (c, g) \<notin> activations (iTmpArray s)))"
  proof (cases "info = SOS_MON_TRACECORE_OST_DEACTIVATE")
    case True
    then have "s' = s" "idx = FindComponentId c (iTmpArray s)"
      using assms(1) by (auto simp: frame_component_def)
    then show ?thesis
      using True assms(2) FindComponentId_index[of c s]
      by (auto simp: in_activations FindComponentId_def find_ordered_None)
  next
    case False
    then have a: "AddComponentId E s c = (s', idx)"
      using assms(1) by (simp add: frame_component_def)
    note sp = AddComponentId_spec[OF a assms(2)]
    show ?thesis
      using sp(1,2,5,6,7) by blast
  qed
  then show "frozen s' = frozen s" "bitmap_wf (iTmpArray s')"
    "activations (iTmpArray s') = activations (iTmpArray s)"
    "\<And>i. idx = Some i \<Longrightarrow> index_of s' i c"
    "memory_ok E \<Longrightarrow> idx = None \<Longrightarrow>
       info = SOS_MON_TRACECORE_OST_DEACTIVATE \<and> (\<forall>g. (c, g) \<notin> activations (iTmpArray s))"
    by blast+
qed

text \<open>
  A frame that was read: its activation byte, component and groups are in the message, and the
  activations change as that frame says.
\<close>

definition frame_at :: "u8 list \<Rightarrow> u32 \<Rightarrow> u8 \<Rightarrow> u32 \<Rightarrow> u16 list \<Rightarrow> bool" where
  "frame_at msg st info c ws \<longleftrightarrow>
     (\<exists>n a. Read8 msg (unat st + KOstActivationInfoOffset) = Some info \<and>
        Read32 msg (unat st + KOstNumberOfGroupsOffset) = Some n \<and>
        Read32 msg (unat st + KOstComponentIdOffset) = Some a \<and> c = SWAP32 a \<and>
        frame_group_list msg (unat st) (unat (SWAP32 n)) KOstGroupIdOffset = Some ws \<and>
        KOstGroupIdOffset + SWAP32 n * KGroupIdLength \<le> of_nat (length msg) - st \<and>
        st + KOstMinFrameLength \<le> of_nat (length msg))"

lemma ReadOstFrame_group:
  assumes "st + KOstMinFrameLength \<le> of_nat (length msg)"
    "Read8 msg (unat st + KOstActivationInfoOffset) = Some info"
    "Read32 msg (unat st + KOstComponentIdOffset) = Some a" "c = SWAP32 a" "group_frame info"
    "frame_component E info c (open_change E s) = (s1, idx)"
  shows "ReadOstFrame E msg st s =
    do { (s2, ret) \<leftarrow> (case idx of None \<Rightarrow> Some (s1, 0)
           | Some i \<Rightarrow> ReadOstFrameGroups E msg st info i c s1);
         s3 \<leftarrow> close_change E (SetNewComponentsArrayPtr s2) False c; Some (s3, ret) }"
  using assms(1-3,5,6) unfolding assms(4)
  by (simp add: ReadOstFrame_def group_frame_def frame_component_def Let_def)

lemma ReadOstFrame_inv:
  assumes "ReadOstFrame E msg st s = Some (s', nxt)" "tc_inv E s"
  shows "tc_inv E s' \<and> same_setup s s'"
proof -
  have wf: "bitmap_wf (iOstComponents s)" using assms(2) by (simp add: tc_inv_def)
  note o = open_change_spec[OF wf, of E]
  show ?thesis
  proof (cases "of_nat (length msg) \<ge> st + KOstMinFrameLength")
    case False
    then show ?thesis using assms by (auto simp: ReadOstFrame_def same_setup_def)
  next
    case True
    then obtain info a where r: "Read8 msg (unat st + KOstActivationInfoOffset) = Some info"
      "Read32 msg (unat st + KOstComponentIdOffset) = Some a"
      using assms(1) by (auto simp: ReadOstFrame_def split: Option.bind_splits)
    define c where "c = SWAP32 a"
    consider "group_frame info" | "info = SOS_MON_TRACECORE_OST_DEACTIVATE_ALL"
      | "\<not> group_frame info" "info \<noteq> SOS_MON_TRACECORE_OST_DEACTIVATE_ALL" by blast
    then show ?thesis
    proof cases
      case 1
      obtain s1 idx where fc: "frame_component E info c (open_change E s) = (s1, idx)" by fastforce
      note f = frame_component_spec[OF fc o(2)]
      obtain s2 where s2: "(case idx of None \<Rightarrow> Some (s1, 0)
             | Some i \<Rightarrow> ReadOstFrameGroups E msg st info i c s1) = Some (s2, nxt)"
        "close_change E (SetNewComponentsArrayPtr s2) False c = Some s'"
        using assms(1) ReadOstFrame_group[OF True r c_def 1 fc] by (auto split: Option.bind_splits)
      have "frozen s2 = frozen s1 \<and> bitmap_wf (iTmpArray s2)"
      proof (cases idx)
        case (Some i)
        with s2(1) ReadOstFrameGroups_spec(1,2)[OF _ 1 f(2) f(4)[OF Some]] show ?thesis by simp
      qed (use s2(1) f(2) in simp)
      then show ?thesis
        using close_swap[OF assms(2), of s2 False c] s2(2) f(1) o(1) by (auto simp: same_setup_def)
    next
      case 2
      obtain s1 j where 1: "RemoveComponentId E (open_change E s) c True = (s1, j)" by fastforce
      note rc = RemoveComponentId_spec[OF 1 o(2)]
      show ?thesis
        using close_swap[OF assms(2), of s1 False c] rc o(1) assms(1) True r 2 1
        by (auto simp: ReadOstFrame_def c_def ost_consts same_setup_def split: Option.bind_splits)
    next
      case 3
      then show ?thesis
        using assms True r by (auto simp: ReadOstFrame_def group_frame_def same_setup_def)
    qed
  qed
qed

lemma ReadOstFrameGroups_returns:
  assumes "Read32 msg (unat st + KOstNumberOfGroupsOffset) = Some n" "group_frame info"
    "frame_group_list msg (unat st) (unat (SWAP32 n)) KOstGroupIdOffset = Some ws"
  shows "ReadOstFrameGroups E msg st info i c s \<noteq> None"
  using assms
  by (auto simp: ReadOstFrameGroups_def OverwriteGroups_def overwrite_read_list frame_groups_list Let_def
      split: prod.splits)

lemma ReadOstFrame_exact:
  assumes "memory_ok E" "tc_inv E s" "frame_at msg st info c ws" "group_frame info"
    "info = SOS_MON_TRACECORE_OST_DEACTIVATE \<Longrightarrow> c \<in> fst ` acts s"
  shows "\<exists>s' n. ReadOstFrame E msg st s = Some (s', st + (KOstGroupIdOffset + SWAP32 n * KGroupIdLength)) \<and>
    Read32 msg (unat st + KOstNumberOfGroupsOffset) = Some n \<and>
    steps_to E s UNIV (spec_frame info c ws (acts s)) s'"
proof -
  have wf: "bitmap_wf (iOstComponents s)" using assms(2) by (simp add: tc_inv_def)
  note o = open_change_spec[OF wf, of E]
  obtain n a where r: "Read8 msg (unat st + KOstActivationInfoOffset) = Some info"
    "Read32 msg (unat st + KOstNumberOfGroupsOffset) = Some n"
    "Read32 msg (unat st + KOstComponentIdOffset) = Some a" "c = SWAP32 a"
    "frame_group_list msg (unat st) (unat (SWAP32 n)) KOstGroupIdOffset = Some ws"
    "KOstGroupIdOffset + SWAP32 n * KGroupIdLength \<le> of_nat (length msg) - st"
    "st + KOstMinFrameLength \<le> of_nat (length msg)"
    using assms(3) by (auto simp: frame_at_def)
  obtain s1 idx where fc: "frame_component E info c (open_change E s) = (s1, idx)" by fastforce
  note f = frame_component_spec[OF fc o(2)]
  have "idx \<noteq> None"
  proof
    assume "idx = None"
    from f(5)[OF assms(1) this] assms(5) o(5)[OF assms(1)] show False by auto
  qed
  then obtain i where i: "idx = Some i" by auto
  obtain s2 nxt where 2: "ReadOstFrameGroups E msg st info i c s1 = Some (s2, nxt)"
    using ReadOstFrameGroups_returns[OF r(2) assms(4) r(5), of E i c s1] by auto
  note g = ReadOstFrameGroups_spec[OF 2 assms(4) f(2) f(4)[OF i]]
  have nxt: "nxt = st + (KOstGroupIdOffset + SWAP32 n * KGroupIdLength)"
    "activations (iTmpArray s2) = spec_frame info c ws (acts s)"
  proof -
    have "\<not> of_nat (length msg) - st < KOstGroupIdOffset + SWAP32 n * KGroupIdLength"
      using r(6) by (simp add: not_less)
    moreover have "activations (iTmpArray s1) = acts s"
      using f(3) o(5)[OF assms(1)] by simp
    ultimately show "nxt = st + (KOstGroupIdOffset + SWAP32 n * KGroupIdLength)"
      "activations (iTmpArray s2) = spec_frame info c ws (acts s)"
      using g(3) r(2,5) assms(1) by simp_all
  qed
  have "frozen s2 = frozen s" using g(1) f(1) o(1) by simp
  from close_steps[OF assms(2) this g(2) subset_UNIV nxt(2), of False c]
  obtain s' where s': "close_change E (SetNewComponentsArrayPtr s2) False c = Some s'"
    "steps_to E s UNIV (spec_frame info c ws (acts s)) s'"
    by blast
  have "ReadOstFrame E msg st s = Some (s', nxt)"
    by (simp add: ReadOstFrame_group[OF r(7,1,3,4) assms(4) fc] i 2 s'(1))
  then show ?thesis
    using nxt(1) r(2) s'(2) by blast
qed

lemma message_frames_inv:
  "message_frames E msg l st s = Some s' \<Longrightarrow> tc_inv E s \<Longrightarrow> tc_inv E s' \<and> same_setup s s'"
proof (induction E msg l st s rule: message_frames.induct)
  case (1 E msg l st s)
  show ?case
  proof (cases "sint l < sint st")
    case True
    then obtain t nxt where t: "ReadOstFrame E msg st s = Some (t, nxt)"
      "message_frames E msg st nxt t = Some s'"
      using "1.prems"(1) by (subst (asm) message_frames.simps) (auto split: option.splits)
    show ?thesis
      using "1.IH"[OF True t(1) _ t(2)] ReadOstFrame_inv[OF t(1) "1.prems"(2)] same_setup_trans
      by blast
  next
    case False
    then show ?thesis
      using "1.prems" by (subst (asm) message_frames.simps) (simp add: same_setup_def)
  qed
qed

section \<open>Messages of frames\<close>

definition be32 :: "u32 \<Rightarrow> u8 list" where "be32 w = rev (le32 w)"
definition be16 :: "u16 \<Rightarrow> u8 list" where "be16 w = rev (le16 w)"

lemma length_be [simp]: "length (be32 w) = 4" "length (be16 v) = 2"
  by (simp_all add: be32_def be16_def le16_def)

lemma byte_masks:
  "(0xff :: 'a::len word) = mask 8" "(0xff00 :: 'a word) = push_bit 8 (mask 8)"
  "(0xff0000 :: 'a word) = push_bit 16 (mask 8)" "(0xff000000 :: 'a word) = push_bit 24 (mask 8)"
  by (simp_all add: mask_eq_exp_minus_1 push_bit_eq_mult)

lemma SWAP32_be32: "SWAP32 (of_le (be32 w)) = w"
proof (rule bit_word_eqI)
  fix n assume "n < LENGTH(32)"
  then have "n < 8 \<or> 8 \<le> n \<and> n < 16 \<or> 16 \<le> n \<and> n < 24 \<or> 24 \<le> n \<and> n < 32" by auto
  then show "bit (SWAP32 (of_le (be32 w))) n = bit w n"
    unfolding SWAP32_def byte_masks
    by (elim disjE; auto simp: be32_def le32_def bit_simps)
qed

lemma SWAP16_be16: "SWAP16 (of_le16 (be16 w @ bs)) = w"
proof (rule bit_word_eqI)
  fix n assume "n < LENGTH(16)"
  then have "n < 8 \<or> 8 \<le> n \<and> n < 16" by auto
  then show "bit (SWAP16 (of_le16 (be16 w @ bs))) n = bit w n"
    unfolding SWAP16_def byte_masks
    by (elim disjE; auto simp: be16_def le16_def of_le16_def bit_simps)
qed

type_synonym ost_frame = "u8 \<times> u32 \<times> u16 list"

definition encode_frame :: "ost_frame \<Rightarrow> u8 list" where
  "encode_frame f = (case f of (info, c, ws) \<Rightarrow>
     [SOS_MON_TRACECORE_OST_ACTIVATION, 0, 0, info] @ be32 (of_nat (length ws)) @ be32 c @
     concat (map be16 ws))"

definition encode_message :: "ost_frame list \<Rightarrow> u8 list" where
  "encode_message fs = concat (map encode_frame fs)"

definition spec_message :: "ost_frame list \<Rightarrow> (u32 \<times> u32) set \<Rightarrow> (u32 \<times> u32) set" where
  "spec_message fs A = fold (\<lambda>(info, c, ws). spec_frame info c ws) fs A"

text \<open>
  A frame that deactivates groups of a component that is not there makes the loop stop, as does one that
  deactivates all groups; the messages here have neither.
\<close>

fun message_ok :: "ost_frame list \<Rightarrow> (u32 \<times> u32) set \<Rightarrow> bool" where
  "message_ok [] A = True"
| "message_ok ((info, c, ws) # fs) A =
     (group_frame info \<and> (info = SOS_MON_TRACECORE_OST_DEACTIVATE \<longrightarrow> c \<in> fst ` A) \<and>
      message_ok fs (spec_frame info c ws A))"

lemma length_groups: "length (concat (map be16 ws)) = 2 * length ws"
  by (induction ws) simp_all

lemma length_encode_frame: "length (encode_frame (info, c, ws)) = 12 + 2 * length ws"
  by (simp add: encode_frame_def length_groups)

lemma unat_of_nat32: "n < 2 ^ 32 \<Longrightarrow> unat (of_nat n :: u32) = n"
  by (simp add: unat_of_nat take_bit_nat_eq_self)

lemma of_nat_le32: "a \<le> b \<Longrightarrow> b < 2 ^ 32 \<Longrightarrow> (of_nat a :: u32) \<le> of_nat b"
  by (simp add: word_le_nat_alt unat_of_nat32)

lemma sint_of_nat32: "n < 2 ^ 31 \<Longrightarrow> sint (of_nat n :: u32) = int n"
  by (simp add: sint_word_ariths signed_of_nat signed_take_bit_int_eq_self)

lemma group_list_encoded:
  "length pre = start + unat off \<Longrightarrow> unat off + 2 * length ws < 2 ^ 32 \<Longrightarrow>
   frame_group_list (pre @ concat (map be16 ws) @ post) start (length ws) off = Some ws"
proof (induction ws arbitrary: pre off)
  case (Cons w ws)
  let ?msg = "pre @ concat (map be16 (w # ws)) @ post"
  have "Read16 ?msg (start + unat off) = Some (of_le16 (be16 w @ concat (map be16 ws) @ post))"
    using Cons.prems(1) by (simp add: Read16_def)
  moreover have u: "unat (off + KGroupIdLength) = unat off + 2"
    using Cons.prems(2) by (simp add: unat_word_ariths KGroupIdLength_def)
  ultimately show ?case
    using Cons.IH[of "pre @ be16 w" "off + KGroupIdLength"] Cons.prems
    by (simp add: SWAP16_be16 ost_consts)
qed simp

lemma frame_at_encoded:
  assumes "length (pre @ encode_frame (info, c, ws) @ post) < 2 ^ 31"
  shows "frame_at (pre @ encode_frame (info, c, ws) @ post) (of_nat (length pre)) info c ws"
    and "Read32 (pre @ encode_frame (info, c, ws) @ post) (length pre + 4) = Some (of_le (be32 (of_nat (length ws))))"
proof -
  let ?msg = "pre @ encode_frame (info, c, ws) @ post" and ?n = "of_nat (length ws) :: u32"
  have len: "length ?msg = length pre + 12 + 2 * length ws + length post"
    by (simp add: length_encode_frame)
  have st: "unat (of_nat (length pre) :: u32) = length pre"
    using assms len by (intro unat_of_nat32) simp
  have n: "unat ?n = length ws"
    using assms len by (intro unat_of_nat32) simp
  have r8: "Read8 ?msg (length pre + 3) = Some info"
    by (simp add: Read8_def encode_frame_def nth_append)
  show r4: "Read32 ?msg (length pre + 4) = Some (of_le (be32 ?n))"
    by (simp add: Read32_def encode_frame_def numeral_eq_Suc)
  have r48: "Read32 ?msg (length pre + 8) = Some (of_le (be32 c))"
    by (simp add: Read32_def encode_frame_def numeral_eq_Suc)
  have m: "?msg = (pre @ [SOS_MON_TRACECORE_OST_ACTIVATION, 0, 0, info] @ be32 ?n @ be32 c) @
      concat (map be16 ws) @ post"
    by (simp add: encode_frame_def)
  have "frame_group_list ?msg (length pre) (length ws) 12 = Some ws"
    unfolding m by (rule group_list_encoded) (use assms len in simp_all)
  moreover have "12 + ?n * 2 \<le> of_nat (length ?msg) - of_nat (length pre)"
  proof -
    have "of_nat (length ?msg) - of_nat (length pre) = (of_nat (length ?msg - length pre) :: u32)"
      using len by (simp add: of_nat_diff)
    moreover have "12 + ?n * 2 = of_nat (12 + 2 * length ws)" by simp
    ultimately show ?thesis
      using of_nat_le32[of "12 + 2 * length ws" "length ?msg - length pre"] assms len
      by (simp add: mult.commute)
  qed
  moreover have "of_nat (length pre) + 12 \<le> (of_nat (length ?msg) :: u32)"
    using of_nat_le32[of "length pre + 12" "length ?msg"] assms len by simp
  ultimately show "frame_at ?msg (of_nat (length pre)) info c ws"
    using r8 r4 r48 st n by (auto simp: frame_at_def ost_consts SWAP32_be32)
qed

lemma message_end:
  assumes "length msg < 2 ^ 31" "sint l < sint (of_nat (length msg) :: u32)"
  shows "message_frames E msg l (of_nat (length msg)) s = Some s"
proof -
  have "\<not> (of_nat (length msg) + 12 \<le> (of_nat (length msg) :: u32))"
    using assms(1) unat_of_nat32[of "length msg"] unat_of_nat32[of "length msg + 12"]
    by (simp add: word_le_nat_alt)
  then have "ReadOstFrame E msg (of_nat (length msg)) s = Some (s, 0)"
    by (simp add: ReadOstFrame_def KOstMinFrameLength_def)
  moreover have "message_frames E msg (of_nat (length msg)) 0 s = Some s"
    using assms(1) by (subst message_frames.simps) (simp add: sint_of_nat32)
  ultimately show ?thesis
    using assms(2) by (subst message_frames.simps) simp
qed

lemma message_frames_encoded:
  assumes "memory_ok E"
  shows "tc_inv E s \<Longrightarrow> message_ok fs (acts s) \<Longrightarrow> length (pre @ encode_message fs) < 2 ^ 31 \<Longrightarrow>
    sint l < sint (of_nat (length pre) :: u32) \<Longrightarrow>
    \<exists>s'. message_frames E (pre @ encode_message fs) l (of_nat (length pre)) s = Some s' \<and>
         steps_to E s UNIV (spec_message fs (acts s)) s'"
proof (induction fs arbitrary: s pre l)
  case Nil
  then show ?case
    using message_end[of pre l E s] steps_to_refl[of E s]
    by (simp add: encode_message_def spec_message_def steps_to_def)
next
  case (Cons f fs)
  obtain info c ws where f: "f = (info, c, ws)" by (cases f)
  let ?msg = "pre @ encode_message (f # fs)" and ?st = "of_nat (length pre) :: u32"
  let ?next = "of_nat (length (pre @ encode_frame f)) :: u32"
  have msg: "?msg = pre @ encode_frame (info, c, ws) @ encode_message fs"
    by (simp add: encode_message_def f)
  have len: "length (pre @ encode_frame (info, c, ws) @ encode_message fs) < 2 ^ 31"
    using Cons.prems(3) by (simp add: encode_message_def f)
  have lt: "length pre < 2 ^ 31" "length (pre @ encode_frame f) < 2 ^ 31"
    using len by (simp_all add: f)
  note fa = frame_at_encoded[OF len]
  have u: "unat ?st = length pre" "unat (of_nat (length ws) :: u32) = length ws"
    using len by (simp_all add: unat_of_nat32 length_encode_frame)
  obtain t n where t: "ReadOstFrame E ?msg ?st s = Some (t, ?st + (KOstGroupIdOffset + SWAP32 n * KGroupIdLength))"
    "Read32 ?msg (unat ?st + KOstNumberOfGroupsOffset) = Some n"
    "steps_to E s UNIV (spec_frame info c ws (acts s)) t"
    using ReadOstFrame_exact[OF assms Cons.prems(1) fa(1)[folded msg]] Cons.prems(2) f by auto
  have "n = of_le (be32 (of_nat (length ws)))"
    using t(2) fa(2) u(1) by (simp add: msg KOstNumberOfGroupsOffset_def)
  then have nxt: "?st + (KOstGroupIdOffset + SWAP32 n * KGroupIdLength) = ?next"
    by (simp add: SWAP32_be32 ost_consts f length_encode_frame)
  have less: "sint ?st < sint ?next"
    unfolding sint_of_nat32[OF lt(1)] sint_of_nat32[OF lt(2)] by (simp add: f length_encode_frame)
  have ti: "tc_inv E t" "acts t = spec_frame info c ws (acts s)" "same_setup s t"
    using t(3) assms by (simp_all add: steps_to_def)
  obtain s' where s': "message_frames E ((pre @ encode_frame f) @ encode_message fs) ?st ?next t = Some s'"
    "steps_to E t UNIV (spec_message fs (acts t)) s'"
    using Cons.IH[OF ti(1) _ _ less] Cons.prems(2) ti(2) len f by auto
  have "message_frames E ?msg ?st ?next t = Some s'"
    using s'(1) by (simp add: encode_message_def)
  then have "message_frames E ?msg l ?st s = Some s'"
    using Cons.prems(4) t(1) nxt by (subst message_frames.simps) simp
  moreover have "steps_to E s UNIV (spec_message (f # fs) (acts s)) s'"
    using s'(2) ti same_setup_trans[OF ti(3)] by (simp add: steps_to_def spec_message_def f)
  ultimately show ?case by blast
qed

lemma encoded_message_received:
  assumes "memory_ok E" "tc_inv E s" "message_ok fs (acts s)" "fs \<noteq> []" "length (encode_message fs) < 2 ^ 31"
  shows "\<exists>s'. bitmap_MessageReceived E EMessageHeaderFormatProprietary (encode_message fs) s = Some s' \<and>
    steps_to E s UNIV (spec_message fs (acts s)) s'"
proof -
  obtain info c ws gs where fs: "fs = (info, c, ws) # gs"
    using assms(4) by (cases fs) auto
  have "length (encode_message fs) \<ge> unat KOstMinFrameLength"
    by (simp add: encode_message_def fs length_encode_frame ost_consts)
  moreover have "Read8 (encode_message fs) KOstMessageIdOffset = Some SOS_MON_TRACECORE_OST_ACTIVATION"
    by (simp add: Read8_def encode_message_def fs encode_frame_def ost_consts)
  ultimately show ?thesis
    using message_frames_encoded[OF assms(1-3), of "[]" "- 1"] assms(5)
    by (simp add: bitmap_MessageReceived_def ReadOstMessage_def)
qed

end
