(* ===== verification/TraceStore.thy ===== *)
theory TraceStore
  imports TraceMessages
begin

text \<open>
  The saved activations: what reading settings does to the state, and that reading what was written
  restores the component array.
\<close>

section \<open>Reading any buffer\<close>

lemma read_groups_inv:
  "read_groups E k buf p s c idx = (s', p') \<Longrightarrow> bitmap_wf (iTmpArray s) \<Longrightarrow>
   \<forall>i. idx = Some i \<longrightarrow> index_of s i c \<Longrightarrow> frozen s' = frozen s \<and> bitmap_wf (iTmpArray s')"
proof (induction k arbitrary: p s)
  case (Suc k)
  obtain g q where g: "Read16FromBuffer buf p = (g, q)" by fastforce
  define t where "t = (if GroupIdIsValid (ucast g) then fst (AddGroupId E s c (ucast g) idx)
                       else report_error s c (ucast g))"
  have "frozen t = frozen s \<and> bitmap_wf (iTmpArray t) \<and> (\<forall>i. idx = Some i \<longrightarrow> index_of t i c)"
  proof (cases "GroupIdIsValid (ucast g)")
    case False
    then show ?thesis
      using Suc.prems(2,3) index_of_cong[of t s] by (simp add: t_def report_error_edit)
  next
    case True
    obtain t' ret where a: "AddGroupId E s c (ucast g) idx = (t', ret)" by fastforce
    show ?thesis
    proof (cases idx)
      case None
      then show ?thesis using a True Suc.prems(2) by (simp add: t_def AddGroupId_def)
    next
      case (Some i)
      then have "index_of s i c" using Suc.prems(3) by simp
      from AddGroupId_spec(1-3)[OF a[unfolded Some] Suc.prems(2) this] show ?thesis
        using a True Some by (simp add: t_def)
    qed
  qed
  moreover have "read_groups E k buf q t c idx = (s', p')"
    using Suc.prems(1) by (simp add: g t_def Let_def)
  ultimately show ?case using Suc.IH[of q t] by simp
qed simp

lemma read_components_inv:
  "read_components E n buf p s c = (s', c') \<Longrightarrow> bitmap_wf (iTmpArray s) \<Longrightarrow>
   frozen s' = frozen s \<and> bitmap_wf (iTmpArray s')"
proof (induction n arbitrary: p s c)
  case (Suc n)
  obtain k q where k: "Read32FromBuffer buf p = (k, q)" by fastforce
  obtain d r where d: "Read32FromBuffer buf q = (d, r)" by fastforce
  obtain s1 idx where 1: "AddComponentId E s d = (s1, idx)" by fastforce
  obtain s2 p2 where 2: "read_groups E (nat (sint k)) buf r s1 d idx = (s2, p2)" by fastforce
  note a = AddComponentId_spec[OF 1 Suc.prems(2)]
  have "frozen s2 = frozen s1 \<and> bitmap_wf (iTmpArray s2)"
    using read_groups_inv[OF 2 a(2)] a(6) by blast
  moreover have "read_components E n buf p2 s2 d = (s', c')"
    using Suc.prems(1) by (simp add: k d 1 2)
  ultimately show ?case using Suc.IH[of p2 s2 d] a(1) by simp
qed simp

lemma ReadFromSettings_inv:
  assumes "tc_inv E s"
  shows "\<exists>s'. ReadFromSettings E s aSettings = Some s' \<and> tc_inv E s' \<and> same_setup s s'"
proof (cases aSettings)
  case None
  then show ?thesis using assms by (simp add: ReadFromSettings_def same_setup_def)
next
  case (Some bs)
  obtain old where old: "iActivationBuffer s = Some old" "length old = KMaxActivationBufferLength"
    using assms by (auto simp: tc_inv_def buffer_ok_def)
  define buf where "buf = overwrite old 0 bs"
  define t where "t = s\<lparr>iActivationBuffer := Some buf\<rparr>"
  have t: "tc_inv E t" "same_setup s t"
    using assms old by (simp_all add: t_def buf_def tc_inv_def cache_ok_def item_ok_def buffer_ok_def same_setup_def)
  then have wf: "bitmap_wf (iOstComponents t)" by (simp add: tc_inv_def)
  note o = open_change_spec[OF wf, of E]
  obtain n p where n: "Read32FromBuffer buf 0 = (n, p)" by fastforce
  obtain s1 c where 1: "read_components E (nat (sint n)) buf p (open_change E t) 0 = (s1, c)" by fastforce
  have s1: "frozen s1 = frozen t" "bitmap_wf (iTmpArray s1)"
    using read_components_inv[OF 1 o(2)] o(1) by simp_all
  from close_swap[OF t(1) s1, of True c] obtain s' where
    "close_change E (SetNewComponentsArrayPtr s1) True c = Some s'" "tc_inv E s'" "same_setup t s'"
    by (auto simp: same_setup_def)
  then show ?thesis
    using Some old(1) same_setup_trans[OF t(2)]
    by (simp add: ReadFromSettings_def buf_def[symmetric] t_def[symmetric] n 1)
qed

section \<open>What is written\<close>

definition component_bytes :: "TOstComponent \<Rightarrow> u8 list" where
  "component_bytes c =
     le32 (of_nat (length (iGroups c))) @ le32 (iComponentId c) @ concat (map (\<lambda>g. le16 (ucast g)) (iGroups c))"

definition bitmap_bytes :: "TOstComponent list \<Rightarrow> u8 list" where
  "bitmap_bytes cs = le32 (of_nat (length cs)) @ concat (map component_bytes cs)"

lemma length_le16' [simp]: "length (le16 w) = 2"
  by (simp add: le16_def)

lemma overwrite_at:
  "length bs \<le> length rest \<Longrightarrow> overwrite (pre @ rest) (length pre) bs = pre @ bs @ drop (length bs) rest"
  by (simp add: overwrite_def)

text \<open>Writing behind what has been written, with room to spare.\<close>

definition written :: "u8 list \<Rightarrow> u8 list \<times> nat \<Rightarrow> bool" where
  "written pre bp \<longleftrightarrow> length (fst bp) = KMaxActivationBufferLength \<and> snd bp = length pre \<and>
     take (length pre) (fst bp) = pre"

lemma written_write:
  assumes "written pre (buf, p)" "length pre + length bs < KMaxActivationBufferLength"
  shows "written (pre @ bs) (overwrite buf p bs, p + length bs)"
proof -
  have b: "buf = pre @ drop (length pre) buf" "length buf = KMaxActivationBufferLength" "p = length pre"
    using assms(1) append_take_drop_id[of "length pre" buf] by (simp_all add: written_def)
  have "overwrite buf p bs = pre @ bs @ drop (length bs) (drop (length pre) buf)"
    using assms(2) b overwrite_at[of bs "drop (length pre) buf" pre] by simp
  then show ?thesis
    using assms(2) b by (simp add: written_def)
qed

lemma written_write32:
  "written pre bp \<Longrightarrow> length pre + 4 < KMaxActivationBufferLength \<Longrightarrow>
   written (pre @ le32 w) (WriteToBuffer32 w bp)"
  using written_write[of pre "fst bp" "snd bp" "le32 w"]
  by (cases bp) (auto simp: WriteToBuffer32_def written_def)

lemma written_write16:
  "written pre bp \<Longrightarrow> length pre + 2 < KMaxActivationBufferLength \<Longrightarrow>
   written (pre @ le16 w) (WriteToBuffer16 w bp)"
  using written_write[of pre "fst bp" "snd bp" "le16 w"]
  by (cases bp) (auto simp: WriteToBuffer16_def written_def)

lemma written_groups:
  "written pre bp \<Longrightarrow> length pre + 2 * length gs < KMaxActivationBufferLength \<Longrightarrow>
   written (pre @ concat (map (\<lambda>g. le16 (ucast g)) gs)) (fold (\<lambda>g. WriteToBuffer16 (ucast g)) gs bp)"
proof (induction gs arbitrary: pre bp)
  case (Cons g gs)
  then show ?case
    using Cons.IH[OF written_write16[OF Cons.prems(1), of "ucast g"]] by simp
qed simp

lemma length_component_bytes: "length (component_bytes c) = 8 + 2 * length (iGroups c)"
proof -
  have "length (concat (map (\<lambda>g. le16 (ucast g)) gs)) = 2 * length gs" for gs :: "u32 list"
    by (induction gs) simp_all
  then show ?thesis by (simp add: component_bytes_def)
qed

lemma written_component:
  assumes "written pre bp" "length pre + length (component_bytes c) < KMaxActivationBufferLength"
  shows "written (pre @ component_bytes c) (write_component c bp)"
proof -
  let ?n = "of_nat (length (iGroups c)) :: u32"
  have "written (pre @ le32 ?n) (WriteToBuffer32 ?n bp)"
    using assms by (intro written_write32) (simp_all add: length_component_bytes)
  then have "written ((pre @ le32 ?n) @ le32 (iComponentId c)) (WriteToBuffer32 (iComponentId c) (WriteToBuffer32 ?n bp))"
    using assms by (intro written_write32) (simp_all add: length_component_bytes)
  then have "written (((pre @ le32 ?n) @ le32 (iComponentId c)) @ concat (map (\<lambda>g. le16 (ucast g)) (iGroups c)))
      (write_component c bp)"
    unfolding write_component_def
    using assms by (intro written_groups) (simp_all add: length_component_bytes)
  then show ?thesis by (simp add: component_bytes_def)
qed

lemma written_components:
  "written pre bp \<Longrightarrow> length pre + length (concat (map component_bytes cs)) < KMaxActivationBufferLength \<Longrightarrow>
   written (pre @ concat (map component_bytes cs)) (fold write_component cs bp)"
proof (induction cs arbitrary: pre bp)
  case (Cons c cs)
  then show ?case
    using Cons.IH[OF written_component[OF Cons.prems(1), of c]] by simp
qed simp

lemma WriteToSettings_written:
  assumes "buffer_ok s" "length (bitmap_bytes (iOstComponents s)) < KMaxActivationBufferLength"
    "WriteToSettings s = Some s'"
  shows "\<exists>rest. tcCalls s' = tcCalls s @ [CallWriteSettings (bitmap_bytes (iOstComponents s) @ rest)] \<and>
     length (bitmap_bytes (iOstComponents s) @ rest) = KMaxActivationBufferLength"
proof -
  let ?cs = "iOstComponents s"
  obtain buf where buf: "iActivationBuffer s = Some buf" "length buf = KMaxActivationBufferLength"
    using assms(1) by (auto simp: buffer_ok_def)
  have "written [] (buf, 0)" using buf(2) by (simp add: written_def)
  then have "written ([] @ le32 (of_nat (length ?cs))) (WriteToBuffer32 (of_nat (length ?cs)) (buf, 0))"
    by (rule written_write32) (simp add: KMaxActivationBufferLength_def)
  then have w: "written (([] @ le32 (of_nat (length ?cs))) @ concat (map component_bytes ?cs))
      (fold write_component ?cs (WriteToBuffer32 (of_nat (length ?cs)) (buf, 0)))"
    using assms(2) by (intro written_components) (simp_all add: bitmap_bytes_def)
  obtain buf' p where bp: "fold write_component ?cs (WriteToBuffer32 (of_nat (length ?cs)) (buf, 0)) = (buf', p)"
    by fastforce
  have "take (length (bitmap_bytes ?cs)) buf' = bitmap_bytes ?cs" "length buf' = KMaxActivationBufferLength"
    using w bp by (simp_all add: written_def bitmap_bytes_def)
  then have "buf' = bitmap_bytes ?cs @ drop (length (bitmap_bytes ?cs)) buf'"
    using append_take_drop_id[of "length (bitmap_bytes ?cs)" buf'] by simp
  moreover have "tcCalls s' = tcCalls s @ [CallWriteSettings buf']"
    using assms(3) buf(1) bp by (auto simp: WriteToSettings_def call_def)
  ultimately show ?thesis
    using \<open>length buf' = KMaxActivationBufferLength\<close> by metis
qed

section \<open>Reading it back\<close>

lemma read32_at:
  "length pre + 4 < KMaxActivationBufferLength \<Longrightarrow>
   Read32FromBuffer (pre @ le32 w @ rest) (length pre) = (w, length pre + 4)"
  by (simp add: Read32FromBuffer_def of_le_le32)

lemma read16_at:
  "length pre + 2 < KMaxActivationBufferLength \<Longrightarrow>
   Read16FromBuffer (pre @ le16 w @ rest) (length pre) = (w, length pre + 2)"
  using of_le16_le16[of w] by (simp add: Read16FromBuffer_def of_le16_def)

lemma insert_ordered_last: "\<forall>y\<in>set xs. key y < key x \<Longrightarrow> insert_ordered key x xs = xs @ [x]"
  by (induction xs) (auto dest: less_not_sym)

lemma insert_array_last:
  assumes "memory_ok E" "\<forall>y\<in>set xs. key y < key x"
  shows "\<exists>n. insert_array E s key x xs = (s\<lparr>tcInserts := n\<rparr>, KErrNone, xs @ [x])"
proof -
  have "find_ordered key (key x) xs = None"
    using assms(2) by (auto simp: find_ordered_None)
  then show ?thesis
    using assms insert_ordered_last[OF assms(2)] by (auto simp: insert_array_def memory_ok_def)
qed

lemma AddComponentId_last:
  assumes "memory_ok E" "\<forall>x\<in>set (iTmpArray s). iComponentId x < c"
  shows "\<exists>s'. AddComponentId E s c = (s', Some (length (iTmpArray s))) \<and>
    iTmpArray s' = iTmpArray s @ [new_component c]"
proof -
  let ?xs = "iTmpArray s"
  obtain n where n: "insert_array E s iComponentId (new_component c) ?xs =
      (s\<lparr>tcInserts := n\<rparr>, KErrNone, ?xs @ [new_component c])"
    using insert_array_last[of E ?xs iComponentId "new_component c"] assms by auto
  have "FindComponentId c (?xs @ [new_component c]) = Some (length ?xs)"
    unfolding FindComponentId_def find_ordered_def
    using assms(2) by (intro find_index_eqI) (auto simp: nth_append dest: nth_mem)
  then show ?thesis by (simp add: AddComponentId_def n)
qed

lemma AddGroupId_last:
  assumes "memory_ok E" "iTmpArray s = xs @ [x]" "\<forall>y\<in>set (iGroups x). y < ucast g"
  shows "iTmpArray (fst (AddGroupId E s c g (Some (length xs)))) =
    xs @ [x\<lparr>iGroups := iGroups x @ [ucast g]\<rparr>]"
proof -
  obtain n where "insert_array E s id (ucast g) (iGroups x) = (s\<lparr>tcInserts := n\<rparr>, KErrNone, iGroups x @ [ucast g])"
    using insert_array_last[of E "iGroups x" id "ucast g" s] assms(1,3) by auto
  then show ?thesis
    using assms(2) by (simp add: AddGroupId_def AddGroupToChangedArray_frozen Let_def nth_append)
qed

lemma narrow_group: "GroupIdIsValid g \<Longrightarrow> ucast (ucast (ucast g :: u16) :: u8) = g \<and> ucast (ucast g :: u16) = g"
proof -
  assume v: "GroupIdIsValid g"
  have u8: "(ucast (ucast g :: u16) :: u8) = ucast g"
    by (rule bit_word_eqI) (auto simp: bit_simps)
  have "ucast (ucast g :: u16) = (ucast (ucast (ucast g :: u16) :: u8) :: u32)" if "unat g \<le> 255"
    by (rule word_unat_eq_iff[THEN iffD2])
      (use that in \<open>simp add: u8 unsigned_ucast_eq unsigned_take_bit_eq take_bit_nat_eq_self\<close>)
  then show ?thesis
    using valid_group_u8[OF v] v u8 by (simp add: GroupIdIsValid_def KMaxGroupId_def word_le_nat_alt)
qed

lemma read_groups_encoded:
  assumes "memory_ok E"
  shows "iTmpArray s = xs @ [x] \<Longrightarrow> sorted_wrt (<) (iGroups x @ gs) \<Longrightarrow> \<forall>g\<in>set gs. GroupIdIsValid g \<Longrightarrow>
    length pre + 2 * length gs < KMaxActivationBufferLength \<Longrightarrow>
    \<exists>s'. read_groups E (length gs) (pre @ concat (map (\<lambda>g. le16 (ucast g)) gs) @ rest) (length pre) s c
           (Some (length xs)) = (s', length pre + 2 * length gs) \<and>
         iTmpArray s' = xs @ [x\<lparr>iGroups := iGroups x @ gs\<rparr>]"
proof (induction gs arbitrary: s x pre)
  case (Cons g gs)
  let ?buf = "pre @ concat (map (\<lambda>g. le16 (ucast g)) (g # gs)) @ rest"
  have r: "Read16FromBuffer ?buf (length pre) = (ucast g, length pre + 2)"
    using read16_at[of pre "ucast g"] Cons.prems(4) by simp
  have v: "GroupIdIsValid g" using Cons.prems(3) by simp
  note nw = narrow_group[OF v]
  define t where "t = fst (AddGroupId E s c (ucast (ucast g :: u16)) (Some (length xs)))"
  have t: "iTmpArray t = xs @ [x\<lparr>iGroups := iGroups x @ [g]\<rparr>]"
    using AddGroupId_last[OF assms Cons.prems(1), of "ucast (ucast g :: u16)"] Cons.prems(2) nw
    by (simp add: t_def sorted_wrt_append)
  obtain s' where "read_groups E (length gs) ((pre @ le16 (ucast g)) @ concat (map (\<lambda>g. le16 (ucast g)) gs) @ rest)
      (length (pre @ le16 (ucast g))) t c (Some (length xs)) = (s', length (pre @ le16 (ucast g)) + 2 * length gs)"
    "iTmpArray s' = xs @ [x\<lparr>iGroups := iGroups x @ [g]\<rparr>\<lparr>iGroups := iGroups (x\<lparr>iGroups := iGroups x @ [g]\<rparr>) @ gs\<rparr>]"
    using Cons.IH[OF t, of "pre @ le16 (ucast g)"] Cons.prems by auto
  then show ?case
    using r v nw by (simp add: t_def)
qed simp

lemma read_components_encoded:
  assumes "memory_ok E"
  shows "bitmap_wf (iTmpArray s @ cs) \<Longrightarrow>
    length pre + length (concat (map component_bytes cs)) < KMaxActivationBufferLength \<Longrightarrow>
    \<exists>s' c'. read_components E (length cs) (pre @ concat (map component_bytes cs) @ rest) (length pre) s c = (s', c') \<and>
         iTmpArray s' = iTmpArray s @ cs"
proof (induction cs arbitrary: s pre c)
  case (Cons d cs)
  let ?gs = "iGroups d" and ?k = "of_nat (length (iGroups d)) :: u32"
  let ?pre2 = "(pre @ le32 ?k) @ le32 (iComponentId d)"
  let ?gb = "concat (map (\<lambda>g. le16 (ucast g)) ?gs)"
  let ?rest2 = "concat (map component_bytes cs) @ rest"
  let ?buf = "pre @ concat (map component_bytes (d # cs)) @ rest"
  have buf: "?buf = pre @ le32 ?k @ le32 (iComponentId d) @ ?gb @ ?rest2"
    "?buf = (pre @ le32 ?k) @ le32 (iComponentId d) @ ?gb @ ?rest2" "?buf = ?pre2 @ ?gb @ ?rest2"
    by (simp_all add: component_bytes_def)
  have lens: "length pre + 8 + 2 * length ?gs + length (concat (map component_bytes cs)) < KMaxActivationBufferLength"
    using Cons.prems(2) by (simp add: length_component_bytes)
  have r1: "Read32FromBuffer ?buf (length pre) = (?k, length pre + 4)"
    unfolding buf(1) by (rule read32_at) (use lens in simp)
  have r2: "Read32FromBuffer ?buf (length pre + 4) = (iComponentId d, length pre + 8)"
    using read32_at[of "pre @ le32 ?k"] lens unfolding buf(2) by simp
  have wf: "component_wf d" "\<forall>x\<in>set (iTmpArray s). iComponentId x < iComponentId d"
    using Cons.prems(1) by (simp_all add: bitmap_wf_def sorted_wrt_append)
  obtain s1 where 1: "AddComponentId E s (iComponentId d) = (s1, Some (length (iTmpArray s)))"
    "iTmpArray s1 = iTmpArray s @ [new_component (iComponentId d)]"
    using AddComponentId_last[OF assms wf(2)] by blast
  have k: "nat (sint ?k) = length ?gs"
    using lens by (simp add: sint_of_nat32 KMaxActivationBufferLength_def)
  obtain s2 where 2: "read_groups E (length ?gs) ?buf (length pre + 8) s1 (iComponentId d)
      (Some (length (iTmpArray s))) = (s2, length pre + 8 + 2 * length ?gs)"
    "iTmpArray s2 = iTmpArray s @ [(new_component (iComponentId d))\<lparr>iGroups := [] @ ?gs\<rparr>]"
    using read_groups_encoded[OF assms 1(2), of ?gs ?pre2 ?rest2 "iComponentId d"] wf(1) lens
    unfolding buf(3) by (auto simp: component_wf_def)
  have tmp: "iTmpArray s2 = iTmpArray s @ [d]" using 2(2) by simp
  have pre3: "length pre + 8 + 2 * length ?gs = length (pre @ component_bytes d)"
    by (simp add: length_component_bytes)
  obtain s' c' where "read_components E (length cs) ((pre @ component_bytes d) @ concat (map component_bytes cs) @ rest)
      (length (pre @ component_bytes d)) s2 (iComponentId d) = (s', c')" "iTmpArray s' = iTmpArray s2 @ cs"
    using Cons.IH[of s2 "pre @ component_bytes d" "iComponentId d"] Cons.prems tmp by auto
  then have "read_components E (length (d # cs)) ?buf (length pre) s c = (s', c')"
    "iTmpArray s' = iTmpArray s @ d # cs"
    using r1 r2 1(1) 2(1) k tmp pre3 by simp_all
  then show ?case by blast
qed simp

lemma read_written:
  assumes "memory_ok E" "bitmap_wf cs" "tc_inv E t" "iOstComponents t = []"
    "length (bitmap_bytes cs @ rest) = KMaxActivationBufferLength"
    "length (bitmap_bytes cs) < KMaxActivationBufferLength"
  shows "\<exists>t'. ReadFromSettings E t (Some (bitmap_bytes cs @ rest)) = Some t' \<and> tc_inv E t' \<and> iOstComponents t' = cs"
proof -
  let ?bs = "bitmap_bytes cs @ rest"
  obtain old where old: "iActivationBuffer t = Some old" "length old = KMaxActivationBufferLength"
    using assms(3) by (auto simp: tc_inv_def buffer_ok_def)
  have buf: "overwrite old 0 ?bs = ?bs"
    using old(2) assms(5) by (simp add: overwrite_def)
  define u where "u = t\<lparr>iActivationBuffer := Some ?bs\<rparr>"
  have u: "tc_inv E u" "iOstComponents u = []"
    using assms(3-5) by (simp_all add: u_def tc_inv_def cache_ok_def item_ok_def buffer_ok_def)
  have wf: "bitmap_wf (iOstComponents u)" using u(2) by simp
  note o = open_change_spec[OF wf, of E]
  have len: "length cs < 2 ^ 31"
  proof -
    have "length cs \<le> length (concat (map component_bytes cs))"
      by (induction cs) (simp_all add: length_component_bytes)
    then show ?thesis
      using assms(6) by (simp add: bitmap_bytes_def KMaxActivationBufferLength_def)
  qed
  have n: "Read32FromBuffer ?bs 0 = (of_nat (length cs), 4)"
    using read32_at[of "[]"] by (simp add: bitmap_bytes_def KMaxActivationBufferLength_def)
  obtain s1 c' where 1: "read_components E (length cs) ?bs 4 (open_change E u) 0 = (s1, c')" "iTmpArray s1 = cs"
    using read_components_encoded[OF assms(1), of "open_change E u" cs "le32 (of_nat (length cs))" rest 0]
      assms(2,6) o(5)[OF assms(1)] u(2) by (auto simp: bitmap_bytes_def)
  have "frozen s1 = frozen u"
    using read_components_inv[OF 1(1) o(2)] o(1) by simp
  from close_swap[OF u(1) this, of True c'] assms(2) 1(2) obtain t' where
    "close_change E (SetNewComponentsArrayPtr s1) True c' = Some t'" "tc_inv E t'" "iOstComponents t' = cs"
    by auto
  then show ?thesis
    using old(1) buf n 1(1) sint_of_nat32[OF len] by (simp add: ReadFromSettings_def u_def)
qed

end
