(* ===== verification/TraceSystem.thy ===== *)
theory TraceSystem
  imports TraceStore
begin

text \<open>
  Histories of the trace core: the operations of the activation interface, activation messages of both
  formats, settings, receivers, writers and BTrace records, in any order and whatever memory does.  Every
  state they reach keeps the invariant.
\<close>

section \<open>Refreshing and messages\<close>

lemma refresh_groups_inv:
  "refresh_groups E c gs s = Some s' \<Longrightarrow> tc_inv E s \<Longrightarrow> tc_inv E s' \<and> same_setup s s'"
proof (induction gs arbitrary: s)
  case (Cons g gs)
  show ?case
  proof (cases "c \<noteq> KKernelHooksOSTComponentUID \<or> g \<noteq> eMetaTrace E")
    case True
    then obtain t u where t: "DeactivateTrace E s c g = Some t" "ActivateTrace E t c g = Some u"
      "refresh_groups E c gs u = Some s'"
      using Cons.prems(1) by (auto split: Option.bind_splits)
    have "tc_inv E t" "same_setup s t"
      using DeactivateTrace_steps(1)[OF Cons.prems(2) t(1)] by (simp_all add: steps_to_def)
    moreover from this have "tc_inv E u" "same_setup t u"
      using ActivateTrace_steps[of E t c g] t(2) by (auto simp: steps_to_def)
    ultimately show ?thesis
      using Cons.IH[OF t(3)] same_setup_trans by blast
  next
    case False
    then show ?thesis using Cons by simp
  qed
qed (simp add: same_setup_def)

lemma refresh_components_inv:
  "refresh_components E cs s = Some s' \<Longrightarrow> tc_inv E s \<Longrightarrow> tc_inv E s' \<and> same_setup s s'"
proof (induction cs arbitrary: s)
  case (Cons c cs)
  then obtain t where t: "refresh_groups E (iComponentId c) (iGroups c) s = Some t"
    "refresh_components E cs t = Some s'"
    by (auto split: Option.bind_splits)
  show ?case
    using refresh_groups_inv[OF t(1) Cons.prems(2)] Cons.IH[OF t(2)] same_setup_trans by blast
qed (simp add: same_setup_def)

lemma tc_inv_inserts: "tc_inv E (s\<lparr>tcInserts := n\<rparr>) = tc_inv E s"
  by (simp add: tc_inv_def cache_ok_def item_ok_def buffer_ok_def)

lemma RefreshActivations_inv:
  assumes "RefreshActivations E s = Some (s', e)" "tc_inv E s"
  shows "tc_inv E s' \<and> same_setup s s'"
proof (cases "eNoMemory E (tcInserts s)")
  case True
  then show ?thesis using assms by (auto simp: RefreshActivations_def tc_inv_inserts same_setup_def)
next
  case False
  obtain t cs where t: "append_all E (s\<lparr>tcInserts := Suc (tcInserts s)\<rparr>) (iOstComponents s) [] = (t, cs)"
    by fastforce
  then obtain n where n: "t = s\<lparr>tcInserts := n\<rparr>" using append_all_spec[OF t] by auto
  have "refresh_components E cs t = Some s'"
    using assms(1) False t by (auto simp: RefreshActivations_def split: Option.bind_splits)
  then show ?thesis
    using refresh_components_inv[of E cs t s'] assms(2) n by (simp add: tc_inv_inserts same_setup_def)
qed

lemma ReadOstProtocolFrameGroups_edit:
  assumes "ReadOstProtocolFrameGroups E msg p act i c s = Some (s', off)" "bitmap_wf (iTmpArray s)"
    "index_of s i c"
  shows "frozen s' = frozen s \<and> bitmap_wf (iTmpArray s')"
proof -
  define n where "n = (if protocol_groups msg > KMaxGroupId then SWAP32 (protocol_groups msg) else protocol_groups msg)"
  obtain ws where ws: "frame_group_list msg p (unat n) (of_nat groupIdOffset) = Some ws"
    "s' = drop_empty E i c (\<not> act) (fold (apply_group E act c (Some i)) ws s)"
    using assms(1)
    by (auto simp: ReadOstProtocolFrameGroups_def frame_groups_list n_def[symmetric] drop_empty_def Let_def
        split: option.splits Option.bind_splits)
  have f: "frozen (fold (apply_group E act c (Some i)) ws s) = frozen s"
    "bitmap_wf (iTmpArray (fold (apply_group E act c (Some i)) ws s))"
    "index_of (fold (apply_group E act c (Some i)) ws s) i c"
    using add_groups[OF assms(2,3), of E ws] remove_groups[OF assms(2,3), of E ws] by (cases act; simp)+
  show ?thesis
    using drop_empty_spec[OF f(2,3), of E "\<not> act"] f(1) ws(2) by simp
qed

lemma ReadOstProtocolFrame_inv:
  assumes "ReadOstProtocolFrame E msg p s = Some (s', off)" "tc_inv E s"
  shows "tc_inv E s' \<and> same_setup s s'"
proof -
  have wf: "bitmap_wf (iOstComponents s)" using assms(2) by (simp add: tc_inv_def)
  note o = open_change_spec[OF wf, of E]
  consider "s' = s"
    | a where "ReadOstProtocolFrame E msg p s =
        (case (if a = (1 :: u8) then AddComponentId E (open_change E s) (SWAP32 0) else (s, None)) of _ \<Rightarrow> None)"
    | st a where "int (length msg) \<ge> int activationStatusOffset + 1 - int KOstBaseHeaderSize"
      "Read8 msg (p + activationStatusOffset) = Some st" "st = 0 \<or> st = 1"
      "Read32 msg (p + applicationIdOffset) = Some a"
    using assms(1) by (auto simp: ReadOstProtocolFrame_def split: Option.bind_splits if_splits)
  then show ?thesis
  proof cases
    case 1
    then show ?thesis using assms(2) by (simp add: same_setup_def)
  next
    case 2
    then show ?thesis using assms(1) by (auto split: prod.splits)
  next
    case (3 st a)
    define c where "c = SWAP32 a"
    obtain s1 idx where fc: "frame_component E (if st = 1 then SOS_MON_TRACECORE_OST_ACTIVATE
        else SOS_MON_TRACECORE_OST_DEACTIVATE) c (open_change E s) = (s1, idx)" by fastforce
    note f = frame_component_spec[OF fc o(2)]
    have "ReadOstProtocolFrame E msg p s =
        do { (s2, ret) \<leftarrow> (case idx of None \<Rightarrow> Some (s1, 0)
               | Some i \<Rightarrow> ReadOstProtocolFrameGroups E msg p (st = 1) i c s1);
             s3 \<leftarrow> close_change E (SetNewComponentsArrayPtr s2) False c; Some (s3, ret) }"
      unfolding c_def using 3 fc[unfolded c_def]
      by (auto simp: ReadOstProtocolFrame_def frame_component_def Let_def ost_consts)
    then obtain s2 where s2: "(case idx of None \<Rightarrow> Some (s1, 0)
           | Some i \<Rightarrow> ReadOstProtocolFrameGroups E msg p (st = 1) i c s1) = Some (s2, off)"
      "close_change E (SetNewComponentsArrayPtr s2) False c = Some s'"
      using assms(1) by (auto split: Option.bind_splits)
    have "frozen s2 = frozen s1 \<and> bitmap_wf (iTmpArray s2)"
    proof (cases idx)
      case (Some i)
      with s2(1) ReadOstProtocolFrameGroups_edit[OF _ f(2) f(4)[OF Some]] show ?thesis by simp
    qed (use s2(1) f(2) in simp)
    then show ?thesis
      using close_swap[OF assms(2), of s2 False c] s2(2) f(1) o(1) by auto
  qed
qed

lemma tc_inv_call: "tc_inv E (call s c) = tc_inv E s"
  by (simp add: tc_inv_def cache_ok_def item_ok_def buffer_ok_def call_def)

lemma same_setup_call: "same_setup s (call t d) = same_setup s t"
  by (simp add: same_setup_def call_def)

lemma MessageReceived_inv:
  assumes "bitmap_MessageReceived E fmt msg s = Some s'" "tc_inv E s"
  shows "tc_inv E s' \<and> same_setup s s'"
proof (cases fmt)
  case EMessageHeaderFormatProprietary
  then have "s' = s \<or> message_frames E msg (- 1) 0 s = Some s'"
    using assms(1)
    by (auto simp: bitmap_MessageReceived_def ReadOstMessage_def split: Option.bind_splits if_splits)
  then show ?thesis
    using message_frames_inv[of E msg "- 1" 0 s s'] assms(2) by (auto simp: same_setup_def)
next
  case EMessageHeaderFormatOst
  then have "s' = s \<or> (\<exists>t off d. ReadOstProtocolFrame E msg 0 s = Some (t, off) \<and> s' = call t d)"
    using assms(1)
    by (auto simp: bitmap_MessageReceived_def OstProtocolMessage_def split: Option.bind_splits if_splits)
  then show ?thesis
  proof (elim disjE exE conjE)
    fix t off d assume "ReadOstProtocolFrame E msg 0 s = Some (t, off)" "s' = call t d"
    then show ?thesis
      using ReadOstProtocolFrame_inv[OF _ assms(2)] by (simp add: tc_inv_call same_setup_call)
  qed (use assms(2) in \<open>simp add: same_setup_def\<close>)
next
  case (EMessageHeaderFormatOther n)
  then show ?thesis using assms by (simp add: bitmap_MessageReceived_def same_setup_def)
qed

section \<open>The cache\<close>

lemma group_word: "trace_word_group (and w 0xffff0000) = trace_word_group w"
  by (simp add: trace_word_group_def and.assoc)

text \<open>The four comparisons are a search in the items.\<close>

definition cache_items :: "tcore \<Rightarrow> TCacheItem list" where
  "cache_items s = [iCacheItem1 s, iCacheItem2 s, iCacheItem3 s, iCacheItem4 s]"

lemma cached_activation_find:
  "cached_activation s c w =
     (case List.find (\<lambda>it. cache_hit it c (and w 0xffff0000)) (cache_items s) of
        Some it \<Rightarrow> (s, caActivated it)
      | None \<Rightarrow>
          (s\<lparr>iCacheItem1 := \<lparr>caComponent = c, caGroup = and w 0xffff0000, caActivated = IsTraceActivated s c w\<rparr>,
             iCacheItem2 := iCacheItem1 s, iCacheItem3 := iCacheItem2 s, iCacheItem4 := iCacheItem3 s\<rparr>,
           IsTraceActivated s c w))"
  by (simp add: cached_activation_def cache_items_def Let_def)

lemma cache_ok_items: "cache_ok s \<longleftrightarrow> (\<forall>it\<in>set (cache_items s). item_ok s it)"
  by (auto simp: cache_ok_def cache_items_def)

lemma cached_activation_spec:
  assumes "cached_activation s c w = (s', v)" "cache_ok s" "bitmap_wf (iOstComponents s)"
  shows "cache_ok s'" "c \<noteq> 0 \<Longrightarrow> v = IsTraceActivated s c w" "same_setup s s'"
    "tcCalls s' = tcCalls s" "iActivationBuffer s' = iActivationBuffer s"
    "iOstComponents s' = iOstComponents s" "iAllTracesDeactivated s' = iAllTracesDeactivated s"
proof -
  note act = IsTraceActivated_iff[OF assms(3), of c w]
  have "cache_ok s' \<and> (c \<noteq> 0 \<longrightarrow> v = IsTraceActivated s c w) \<and> same_setup s s' \<and>
    tcCalls s' = tcCalls s \<and> iActivationBuffer s' = iActivationBuffer s \<and>
    iOstComponents s' = iOstComponents s \<and> iAllTracesDeactivated s' = iAllTracesDeactivated s"
  proof (cases "List.find (\<lambda>it. cache_hit it c (and w 0xffff0000)) (cache_items s)")
    case (Some it)
    then have "it \<in> set (cache_items s)" and hit: "cache_hit it c (and w 0xffff0000)"
      by (auto simp: find_Some_iff)
    then have "item_ok s it" using assms(2) by (simp add: cache_ok_items)
    then have "c \<noteq> 0 \<longrightarrow> caActivated it = IsTraceActivated s c w"
      using hit act group_word[of w] by (simp add: item_ok_def cache_hit_def)
    moreover have "s' = s" "v = caActivated it"
      using assms(1) Some by (simp_all add: cached_activation_find)
    ultimately show ?thesis using assms(2) by (simp add: same_setup_def)
  next
    case None
    then have s': "v = IsTraceActivated s c w"
      "s' = s\<lparr>iCacheItem1 := \<lparr>caComponent = c, caGroup = and w 0xffff0000, caActivated = v\<rparr>,
              iCacheItem2 := iCacheItem1 s, iCacheItem3 := iCacheItem2 s, iCacheItem4 := iCacheItem3 s\<rparr>"
      using assms(1) by (auto simp: cached_activation_find)
    have "cache_ok s'"
      using assms(2) act group_word[of w] s'(1) by (simp add: s'(2) cache_ok_def item_ok_def)
    then show ?thesis using s' by (simp add: same_setup_def)
  qed
  then show "cache_ok s'" "c \<noteq> 0 \<Longrightarrow> v = IsTraceActivated s c w" "same_setup s s'"
    "tcCalls s' = tcCalls s" "iActivationBuffer s' = iActivationBuffer s"
    "iOstComponents s' = iOstComponents s" "iAllTracesDeactivated s' = iAllTracesDeactivated s"
    by blast+
qed

section \<open>What the invariant reads\<close>

definition core_of :: "tcore \<Rightarrow> TOstComponent list \<times> TCacheItem list \<times> u8 list option \<times> bool" where
  "core_of s = (iOstComponents s, cache_items s, iActivationBuffer s, iAllTracesDeactivated s)"

lemma tc_inv_core: "core_of t = core_of s \<Longrightarrow> tc_inv E t = tc_inv E s"
  by (simp add: core_of_def tc_inv_def cache_ok_items item_ok_def buffer_ok_def)

lemma core_call [simp]: "core_of (call s c) = core_of s"
  by (simp add: core_of_def cache_items_def call_def)

lemma core_of_if: "core_of (if b then s else t) = (if b then core_of s else core_of t)"
  by simp

lemma core_adds_calls: "adds_calls s cs t \<Longrightarrow> core_of t = core_of s"
  by (simp add: adds_calls_def core_of_def cache_items_def)

lemma core_fold: "(\<And>x t. core_of (f x t) = core_of t) \<Longrightarrow> core_of (fold f xs s) = core_of s"
  by (induction xs arbitrary: s) simp_all

section \<open>Receivers and writers\<close>

lemma core_TraceActivated: "core_of (TraceActivated s c g) = core_of s"
  by (rule core_adds_calls[OF TraceActivated_calls])

lemma core_NotifyImmediately: "core_of (NotifyImmediately s c g) = core_of s"
  unfolding NotifyImmediately_def
  by (cases "tcInstance s") (simp_all add: core_fold core_TraceActivated)

lemma core_Register: "core_of (fst (RegisterNotificationReceiver E s c g r)) = core_of s"
  by (simp add: RegisterNotificationReceiver_def Let_def core_NotifyImmediately split: option.split)
    (simp add: core_of_def cache_items_def)

lemma core_Unregister:
  "core_of (UnregisterNotificationReceiver s c g r) = core_of s" "core_of (UnregisterAll s r) = core_of s"
  by (simp_all add: UnregisterNotificationReceiver_def UnregisterAll_def core_of_def cache_items_def)

lemma core_PrimeCategory: "core_of (PrimeCategory supd E c s) = core_of s"
  by (simp add: PrimeCategory_def Let_def)

lemma core_PrepareSetWriter: "core_of (PrepareSetWriter supd E s w) = core_of s"
  by (simp add: PrepareSetWriter_def Let_def PrimeDfc_def PrimeKernelCategories_def core_PrimeCategory core_fold)

lemma core_SetWriter: "core_of (SetWriter supd E s w) = core_of s"
  using core_PrepareSetWriter[of supd E s w] by (simp add: SetWriter_def core_of_def cache_items_def)

lemma ReadFromSettings_setup:
  assumes "SetSettings E s st = Some s'" "tc_inv E s"
  shows "tc_inv E s'"
proof (cases st)
  case None
  then have "core_of s' = core_of s"
    using assms(1) by (auto simp: SetSettings_def core_of_def cache_items_def)
  then show ?thesis using assms(2) tc_inv_core by blast
next
  case (Some stored)
  have "core_of (s\<lparr>ostSettings := True\<rparr>) = core_of s" by (simp add: core_of_def cache_items_def)
  then have "tc_inv E (s\<lparr>ostSettings := True\<rparr>)" using assms(2) tc_inv_core by blast
  from ReadFromSettings_inv[OF this, of stored] show ?thesis
    using assms(1) Some by (auto simp: SetSettings_def)
qed

section \<open>Frames\<close>

lemma CheckDroppedTrace_core: "CheckDroppedTrace E s h = (t, h') \<Longrightarrow> core_of t = core_of s"
  by (auto simp: CheckDroppedTrace_def core_of_def cache_items_def split: if_splits)

lemma core_dropped: "core_of (fst (CheckDroppedTrace E s h)) = core_of s"
  by (simp add: CheckDroppedTrace_def core_of_def cache_items_def)

lemma core_multipart [simp]: "core_of (s\<lparr>iMultiPartTrace := t\<rparr>) = core_of s"
  by (simp add: core_of_def cache_items_def)

lemma HandleMultiPart_core:
  assumes "HandleMultiPart E s h h2 ctx a1 a2 d ex pc = Some (s', v)"
  shows "core_of s' = core_of s"
proof -
  consider "s' = s" | "mp_first E s h h2 ctx a2 d ex pc = Some (s', v)" | "mp_middle E s h d = Some (s', v)"
    | "mp_last E s h a1 a2 d = Some (s', v)"
    using assms by (auto simp: HandleMultiPart_def Let_def split: if_splits)
  then show ?thesis
  proof cases
    case 2
    then show ?thesis
      by (auto simp: mp_first_def Let_def split: if_splits prod.splits Option.bind_splits
          dest: CheckDroppedTrace_core)
  next
    case 3
    then show ?thesis
      by (auto simp: mp_middle_def Let_def core_dropped split: if_splits Option.bind_splits)
  next
    case 4
    then show ?thesis
      by (auto simp: mp_last_def Let_def core_dropped split: if_splits Option.bind_splits)
  qed simp
qed

lemma kernel_multipart_core:
  "kernel_HandleMultiPart E s h h2 ctx w a1 d ex pc = (s', v) \<Longrightarrow> core_of s' = core_of s"
  by (auto simp: kernel_HandleMultiPart_def insert_array_def Let_def core_of_def cache_items_def call_def
      split: if_splits option.splits prod.splits)

lemma kernel_frame_core:
  assumes "kernel_HandleFrame E s h h2 ctx a1 a2 a3 ex pc = (s', v)"
  shows "core_of s' = core_of s"
proof -
  define t where "t = (if iPreviousTraceDropped s then s\<lparr>iPreviousTraceDropped := False\<rparr> else s)"
  have "core_of t = core_of s" by (simp add: t_def core_of_def cache_items_def)
  moreover have "core_of s' = core_of t \<or> s' = s"
    using assms unfolding t_def kernel_HandleFrame_def
    by (auto simp: Let_def split: if_splits dest: kernel_multipart_core)
  ultimately show ?thesis by auto
qed

text \<open>
  The decision on a frame that is not part of a multipart trace, for a component other than 0: it is
  written exactly when its group is activated, there is more than the printf traces of the kernel, and
  there is a writer and a certificate.
\<close>

definition is_query :: "tc_env \<Rightarrow> u32 \<Rightarrow> bool" where
  "is_query E h \<longleftrightarrow> header_byte (eSubCategoryIndex E) h = eOstTraceActivationQuery E"

definition frame_passes :: "tc_env \<Rightarrow> tcore \<Rightarrow> u32 \<Rightarrow> u32 \<Rightarrow> bool" where
  "frame_passes E s c w \<longleftrightarrow> ostWriter s \<noteq> None \<and> tcInstance s \<and> iTraceCertified s \<and>
     \<not> only_printfs E (iOstComponents s) \<and> (c, trace_word_group w) \<in> acts s"

lemma ost_HandleFrame_single:
  assumes "tc_inv E s" "\<not> CheckMultiPart E h h2"
  shows "\<exists>s' v. ost_HandleFrame E s h h2 ctx c w a3 ex pc = Some (s', v) \<and> tc_inv E s' \<and>
     (c \<noteq> 0 \<longrightarrow> v = frame_passes E s c w \<and>
        tcCalls s' = tcCalls s @ (if v \<and> \<not> is_query E h then
          [CallFrame (ost_frame (snd (CheckDroppedTrace E s h)) h2 ctx c w a3 ex pc
             (header_byte (eSizeIndex E) (snd (CheckDroppedTrace E s h))))] else []))"
proof -
  have inv: "bitmap_wf (iOstComponents s)" "cache_ok s"
    "iAllTracesDeactivated s = only_printfs E (iOstComponents s)"
    using assms(1) by (simp_all add: tc_inv_def)
  note act = IsTraceActivated_iff[OF inv(1), of c w]
  obtain t v where t: "cached_activation s c w = (t, v)" by fastforce
  note ca = cached_activation_spec[OF t inv(2,1)]
  have ti: "tc_inv E t"
    using assms(1) ca by (simp add: tc_inv_def buffer_ok_def)
  obtain u h' where u: "CheckDroppedTrace E t h = (u, h')" by fastforce
  have cd: "snd (CheckDroppedTrace E s h) = h'" "tcCalls u = tcCalls t"
    using u ca(3) by (auto simp: CheckDroppedTrace_def same_setup_def split: if_splits)
  have ui: "tc_inv E (call u cl)" for cl
    using ti CheckDroppedTrace_core[OF u] tc_inv_core[of "call u cl" t E] by simp
  have cal: "tcCalls (call u cl) = tcCalls s @ [cl]" for cl
    using cd(2) ca(4) by (simp add: call_def)
  show ?thesis
  proof (cases "ostWriter s \<noteq> None \<and> \<not> iAllTracesDeactivated s \<and> tcInstance s \<and> iTraceCertified s")
    case True
    then have "frame_passes E s c w = IsTraceActivated s c w"
      using inv(3) act by (simp add: frame_passes_def)
    moreover have "ost_HandleFrame E s h h2 ctx c w a3 ex pc =
       (if is_query E h then Some (t, v)
        else if v then Some (call u (CallFrame (ost_frame h' h2 ctx c w a3 ex pc (header_byte (eSizeIndex E) h'))), True)
        else Some (t, False))"
      using True assms(2) t u by (simp add: ost_HandleFrame_def is_query_def)
    ultimately show ?thesis
      using ti ui cal ca(2,4) cd(1) by (cases "is_query E h"; cases v) auto
  next
    case False
    then have "ost_HandleFrame E s h h2 ctx c w a3 ex pc = Some (s, False)" "\<not> frame_passes E s c w"
      using inv(3) by (auto simp: ost_HandleFrame_def frame_passes_def)
    then show ?thesis using assms(1) by (intro exI[of _ s] exI[of _ False]) simp
  qed
qed

lemma ost_HandleFrame_inv:
  assumes "ost_HandleFrame E s h h2 ctx c w a3 ex pc = Some (s', v)" "tc_inv E s"
  shows "tc_inv E s'"
proof (cases "CheckMultiPart E h h2")
  case True
  then have "s' = s \<or> HandleMultiPart E s h h2 ctx c w a3 ex pc = Some (s', v)"
    using assms(1) by (auto simp: ost_HandleFrame_def split: if_splits)
  then show ?thesis using HandleMultiPart_core tc_inv_core assms(2) by blast
next
  case False
  then show ?thesis
    using ost_HandleFrame_single[OF assms(2) False, of ctx c w a3 ex pc] assms(1) by auto
qed

lemma BTraceHandlerFunc_inv:
  assumes "BTraceHandlerFunc E s h h2 ctx a1 a2 a3 ex pc = Some (s', v)" "tc_inv E s"
  shows "tc_inv E s'"
proof -
  have "s' = s \<or> ost_HandleFrame E s h h2 ctx a1 a2 a3 ex pc = Some (s', v) \<or>
      kernel_HandleFrame E s h h2 ctx a1 a2 a3 ex pc = (s', v)"
    using assms(1) by (auto simp: BTraceHandlerFunc_def split: if_splits option.splits tc_listener.splits)
  then show ?thesis
    using assms(2) ost_HandleFrame_inv kernel_frame_core tc_inv_core by metis
qed

section \<open>Histories\<close>

text \<open>
  The trace core as it is after Init: nothing activated, an empty cache, the buffer for the settings, and
  both category handlers listening to activation changes.
\<close>

definition empty_cache_item :: TCacheItem where
  "empty_cache_item = \<lparr>caComponent = 0, caGroup = 0, caActivated = False\<rparr>"

definition empty_multipart :: TMultiPartTrace where
  "empty_multipart = \<lparr>mpId = 0, mpHeader = 0, mpHeader2 = 0, mpContext = 0, mpComponentId = 0,
     mpTraceWord = 0, mpData = replicate MAX_TRACE_DATA_SIZE 0, mpPc = 0, mpDataInserted = 0\<rparr>"

definition tc_start :: tcore where
  "tc_start = \<lparr>tcInstance = True, tcInserts = 0, tcCalls = [], iOstComponents = [], iTmpArray = [],
     iChangedArray = [], iActivationBuffer = Some (replicate KMaxActivationBufferLength 0),
     iActivationNotification = [OstCategoryHandler, KernelCategoryHandler],
     iNotificationReceiverItems = [], iAllTracesDeactivated = True,
     iCacheItem1 = empty_cache_item, iCacheItem2 = empty_cache_item, iCacheItem3 = empty_cache_item,
     iCacheItem4 = empty_cache_item, iMultiPartTrace = empty_multipart, ostSettings = False,
     ostWriter = None, kernelWriter = None, iMultiPartActivationInfos = [],
     iPreviousTraceDropped = False, iTraceCertified = False\<rparr>"

lemma tc_start_inv: "tc_inv E tc_start"
  by (simp add: tc_inv_def tc_start_def cache_ok_def item_ok_def empty_cache_item_def buffer_ok_def
      only_printfs_def)

text \<open>One step of a history; \<open>supd\<close> tells which categories BTrace supports.\<close>

inductive tc_step :: "(u8 \<Rightarrow> bool) \<Rightarrow> tc_env \<Rightarrow> tcore \<Rightarrow> tcore \<Rightarrow> bool"
  for supd :: "u8 \<Rightarrow> bool" and E :: tc_env where
  Activate: "ActivateTrace E s c g = Some s' \<Longrightarrow> tc_step supd E s s'"
| Deactivate: "DeactivateTrace E s c g = Some s' \<Longrightarrow> tc_step supd E s s'"
| Deactivate_all: "DeactivateAll E s c = Some s' \<Longrightarrow> tc_step supd E s s'"
| Refresh: "RefreshActivations E s = Some (s', e) \<Longrightarrow> tc_step supd E s s'"
| Message: "bitmap_MessageReceived E fmt msg s = Some s' \<Longrightarrow> tc_step supd E s s'"
| Settings: "SetSettings E s st = Some s' \<Longrightarrow> tc_step supd E s s'"
| Register: "RegisterNotificationReceiver E s c g r = (s', e) \<Longrightarrow> tc_step supd E s s'"
| Unregister: "tc_step supd E s (UnregisterNotificationReceiver s c g r)"
| Unregister_all: "tc_step supd E s (UnregisterAll s r)"
| Writer: "tc_step supd E s (SetWriter supd E s w)"
| Record: "BTraceHandlerFunc E s h h2 ctx a1 a2 a3 ex pc = Some (s', v) \<Longrightarrow> tc_step supd E s s'"
| Certified: "tc_step supd E s (s\<lparr>iTraceCertified := b\<rparr>)"
| Dropped: "tc_step supd E s (s\<lparr>iPreviousTraceDropped := b\<rparr>)"

inductive tc_reach :: "(u8 \<Rightarrow> bool) \<Rightarrow> tc_env \<Rightarrow> tcore \<Rightarrow> bool"
  for supd :: "u8 \<Rightarrow> bool" and E :: tc_env where
  start: "tc_reach supd E tc_start"
| step: "tc_reach supd E s \<Longrightarrow> tc_step supd E s s' \<Longrightarrow> tc_reach supd E s'"

lemma tc_step_inv:
  assumes "tc_step supd E s s'" "tc_inv E s"
  shows "tc_inv E s'"
  using assms(1)
proof cases
  case (Activate c g)
  then show ?thesis using ActivateTrace_steps[OF assms(2), of c g] by (auto simp: steps_to_def)
next
  case (Deactivate c g)
  then show ?thesis using DeactivateTrace_steps(1)[OF assms(2) Deactivate] by (simp add: steps_to_def)
next
  case (Deactivate_all c)
  then show ?thesis using DeactivateAll_steps[OF assms(2), of c] by (auto simp: steps_to_def)
next
  case (Refresh e)
  then show ?thesis using RefreshActivations_inv[OF Refresh assms(2)] by simp
next
  case (Message fmt msg)
  then show ?thesis using MessageReceived_inv[OF Message assms(2)] by simp
next
  case (Settings st)
  then show ?thesis using ReadFromSettings_setup[OF Settings assms(2)] by simp
next
  case (Register c g r e)
  then show ?thesis using core_Register[of E s c g r] tc_inv_core assms(2) by (metis fst_conv)
next
  case (Unregister c g r)
  then show ?thesis using core_Unregister(1) tc_inv_core assms(2) by metis
next
  case (Unregister_all r)
  then show ?thesis using core_Unregister(2) tc_inv_core assms(2) by metis
next
  case (Writer w)
  then show ?thesis using core_SetWriter tc_inv_core assms(2) by metis
next
  case (Record h h2 ctx a1 a2 a3 ex pc v)
  then show ?thesis using BTraceHandlerFunc_inv[OF Record assms(2)] by simp
next
  case (Certified b)
  then have "core_of s' = core_of s" by (simp add: core_of_def cache_items_def)
  then show ?thesis using tc_inv_core assms(2) by metis
next
  case (Dropped b)
  then have "core_of s' = core_of s" by (simp add: core_of_def cache_items_def)
  then show ?thesis using tc_inv_core assms(2) by metis
qed

lemma tc_reach_inv: "tc_reach supd E s \<Longrightarrow> tc_inv E s"
  by (induction rule: tc_reach.induct) (auto intro: tc_start_inv tc_step_inv)

end
