(* ===== verification/TraceHistory.thy ===== *)
theory TraceHistory
  imports TraceSystem
begin

text \<open>
  The interface of trace activation (MTraceCoreActivation) as its clients use it: operations on a set of
  activated groups.  What a client may rely on is a locale; the bitmap is its interpretation.
\<close>

section \<open>The interface\<close>

datatype activation_op = OpActivate u32 u32 | OpDeactivate u32 u32 | OpDeactivateAll u32

fun spec_op :: "activation_op \<Rightarrow> (u32 \<times> u32) set \<Rightarrow> (u32 \<times> u32) set" where
  "spec_op (OpActivate c g) A = spec_activate c g A"
| "spec_op (OpDeactivate c g) A = spec_deactivate c g A"
| "spec_op (OpDeactivateAll c) A = spec_deactivate_all c A"

definition spec_history :: "activation_op list \<Rightarrow> (u32 \<times> u32) set \<Rightarrow> (u32 \<times> u32) set" where
  "spec_history ops A = fold spec_op ops A"

locale activation_interface =
  fixes good :: "'s \<Rightarrow> bool"
    and active :: "'s \<Rightarrow> (u32 \<times> u32) set"
    and activate :: "'s \<Rightarrow> u32 \<Rightarrow> u32 \<Rightarrow> 's option"
    and deactivate :: "'s \<Rightarrow> u32 \<Rightarrow> u32 \<Rightarrow> 's option"
    and deactivate_all :: "'s \<Rightarrow> u32 \<Rightarrow> 's option"
  assumes activate_law:
      "good s \<Longrightarrow> \<exists>s'. activate s c g = Some s' \<and> good s' \<and> active s' = spec_activate c g (active s)"
    and deactivate_law:
      "good s \<Longrightarrow> \<exists>s'. deactivate s c g = Some s' \<and> good s' \<and> active s' = spec_deactivate c g (active s)"
    and deactivate_all_law:
      "good s \<Longrightarrow> \<exists>s'. deactivate_all s c = Some s' \<and> good s' \<and> active s' = spec_deactivate_all c (active s)"
begin

fun step_op :: "'s \<Rightarrow> activation_op \<Rightarrow> 's option" where
  "step_op s (OpActivate c g) = activate s c g"
| "step_op s (OpDeactivate c g) = deactivate s c g"
| "step_op s (OpDeactivateAll c) = deactivate_all s c"

fun run :: "activation_op list \<Rightarrow> 's \<Rightarrow> 's option" where
  "run [] s = Some s"
| "run (oper # ops) s = do { s \<leftarrow> step_op s oper; run ops s }"

lemma step_refines: "good s \<Longrightarrow> \<exists>s'. step_op s oper = Some s' \<and> good s' \<and> active s' = spec_op oper (active s)"
  using activate_law deactivate_law deactivate_all_law by (cases oper) simp_all

lemma run_refines: "good s \<Longrightarrow> \<exists>s'. run ops s = Some s' \<and> good s' \<and> active s' = spec_history ops (active s)"
proof (induction ops arbitrary: s)
  case (Cons oper ops)
  from step_refines[OF Cons.prems, of oper] obtain t
    where "step_op s oper = Some t" "good t" "active t = spec_op oper (active s)" by blast
  then show ?case using Cons.IH[of t] by (simp add: spec_history_def)
qed (simp add: spec_history_def)

text \<open>Taking groups out and putting them back changes nothing, as long as they are valid.\<close>

lemma toggle_refines:
  assumes "good s" "(c, g) \<in> active s" "GroupIdIsValid g"
  shows "\<exists>s'. run [OpDeactivate c g, OpActivate c g] s = Some s' \<and> good s' \<and> active s' = active s"
  using run_refines[OF assms(1), of "[OpDeactivate c g, OpActivate c g]"] assms(2,3)
  by (auto simp: spec_history_def spec_activate_def spec_deactivate_def)

end

section \<open>The bitmap\<close>

lemma bitmap_activate_law:
  assumes "tc_inv E s \<and> memory_ok E"
  shows "\<exists>s'. ActivateTrace E s c g = Some s' \<and> (tc_inv E s' \<and> memory_ok E) \<and> acts s' = spec_activate c g (acts s)"
  using ActivateTrace_steps[of E s c g] assms by (auto simp: steps_to_def)

lemma bitmap_deactivate_law:
  assumes "tc_inv E s \<and> memory_ok E"
  shows "\<exists>s'. DeactivateTrace E s c g = Some s' \<and> (tc_inv E s' \<and> memory_ok E) \<and> acts s' = spec_deactivate c g (acts s)"
proof -
  obtain s' where s': "DeactivateTrace E s c g = Some s'"
    using DeactivateTrace_steps(2)[of E s c g] assms by auto
  then show ?thesis
    using DeactivateTrace_steps(1)[of E s c g s'] assms by (simp add: steps_to_def)
qed

lemma bitmap_deactivate_all_law:
  assumes "tc_inv E s \<and> memory_ok E"
  shows "\<exists>s'. DeactivateAll E s c = Some s' \<and> (tc_inv E s' \<and> memory_ok E) \<and> acts s' = spec_deactivate_all c (acts s)"
  using DeactivateAll_steps[of E s c] assms by (auto simp: steps_to_def)

interpretation bitmap: activation_interface
  "\<lambda>s. tc_inv E s \<and> memory_ok E" acts "ActivateTrace E" "DeactivateTrace E" "DeactivateAll E" for E
  by unfold_locales (rule bitmap_activate_law bitmap_deactivate_law bitmap_deactivate_all_law; assumption)+

text \<open>The operations on the bitmap, one after the other.\<close>

fun bitmap_step :: "tc_env \<Rightarrow> tcore \<Rightarrow> activation_op \<Rightarrow> tcore option" where
  "bitmap_step E s (OpActivate c g) = ActivateTrace E s c g"
| "bitmap_step E s (OpDeactivate c g) = DeactivateTrace E s c g"
| "bitmap_step E s (OpDeactivateAll c) = DeactivateAll E s c"

fun bitmap_run :: "tc_env \<Rightarrow> activation_op list \<Rightarrow> tcore \<Rightarrow> tcore option" where
  "bitmap_run E [] s = Some s"
| "bitmap_run E (oper # ops) s = do { s \<leftarrow> bitmap_step E s oper; bitmap_run E ops s }"

lemma bitmap_step_interface: "bitmap.step_op E s oper = bitmap_step E s oper"
  by (cases oper) simp_all

lemma bitmap_run_interface: "bitmap.run E ops = bitmap_run E ops"
proof (induction ops)
  case (Cons oper ops)
  then show ?case by (intro ext) (simp add: bitmap_step_interface)
qed (intro ext, simp)

text \<open>A history on the bitmap is the same history on the set.\<close>

lemmas bitmap_run_refines = bitmap.run_refines[unfolded bitmap_run_interface]
lemmas bitmap_toggle = bitmap.toggle_refines[unfolded bitmap_run_interface]

section \<open>Refreshing keeps the activations\<close>

lemma refresh_groups_exact:
  assumes "memory_ok E"
  shows "tc_inv E s \<Longrightarrow> \<forall>g\<in>set gs. (c, g) \<in> acts s \<Longrightarrow>
    \<exists>s'. refresh_groups E c gs s = Some s' \<and> tc_inv E s' \<and> acts s' = acts s"
proof (induction gs arbitrary: s)
  case (Cons g gs)
  show ?case
  proof (cases "c \<noteq> KKernelHooksOSTComponentUID \<or> g \<noteq> eMetaTrace E")
    case True
    have "GroupIdIsValid g" using acts_valid[OF Cons.prems(1), of c g] Cons.prems(2) by simp
    with bitmap_toggle[of E s c g] obtain u where u:
      "bitmap_run E [OpDeactivate c g, OpActivate c g] s = Some u" "tc_inv E u" "acts u = acts s"
      using Cons.prems assms by auto
    then obtain t where "DeactivateTrace E s c g = Some t" "ActivateTrace E t c g = Some u"
      by (auto split: Option.bind_splits)
    then show ?thesis
      using Cons.IH[of u] Cons.prems(2) True u(2,3) by auto
  next
    case False
    then show ?thesis using Cons by simp
  qed
qed simp

lemma refresh_components_exact:
  assumes "memory_ok E"
  shows "tc_inv E s \<Longrightarrow> \<forall>c\<in>set cs. \<forall>g\<in>set (iGroups c). (iComponentId c, g) \<in> acts s \<Longrightarrow>
    \<exists>s'. refresh_components E cs s = Some s' \<and> tc_inv E s' \<and> acts s' = acts s"
proof (induction cs arbitrary: s)
  case (Cons c cs)
  from refresh_groups_exact[OF assms Cons.prems(1), of "iGroups c" "iComponentId c"] Cons.prems(2)
  obtain t where "refresh_groups E (iComponentId c) (iGroups c) s = Some t" "tc_inv E t" "acts t = acts s"
    by auto
  then show ?case using Cons.IH[of t] Cons.prems(2) by auto
qed simp

lemma RefreshActivations_exact:
  assumes "memory_ok E" "tc_inv E s"
  shows "\<exists>s'. RefreshActivations E s = Some (s', KErrNone) \<and> acts s' = acts s"
proof -
  define s1 where "s1 = s\<lparr>tcInserts := Suc (tcInserts s)\<rparr>"
  obtain t cs where t: "append_all E s1 (iOstComponents s) [] = (t, cs)" by fastforce
  then have cs: "\<exists>n. t = s1\<lparr>tcInserts := n\<rparr>" "cs = iOstComponents s"
    using append_all_spec[OF t] assms(1) by auto
  then have "tc_inv E t" "acts t = acts s"
    using assms(2) by (auto simp: s1_def tc_inv_inserts)
  moreover have "\<forall>c\<in>set cs. \<forall>g\<in>set (iGroups c). (iComponentId c, g) \<in> acts t"
    using cs(2) \<open>acts t = acts s\<close> by (auto simp: in_activations)
  ultimately obtain s' where "refresh_components E cs t = Some s'" "acts s' = acts s"
    using refresh_components_exact[OF assms(1), of t cs] by auto
  then show ?thesis
    using assms(1) t by (simp add: RefreshActivations_def memory_ok_def s1_def)
qed

end
