(* ===== verification/TraceMultipart.thy ===== *)
theory TraceMultipart
  imports TraceHistory
begin

text \<open>
  Multipart traces in the build without SMP: the parts of one trace, given in order, are written as one
  frame whose data is the data of the parts in a row; and what the handler does with parts that do not
  come in order.
\<close>

section \<open>The buffer\<close>

definition collected :: "TMultiPartTrace \<Rightarrow> u8 list \<Rightarrow> bool" where
  "collected t bs \<longleftrightarrow> length (mpData t) = MAX_TRACE_DATA_SIZE \<and> unat (mpDataInserted t) = length bs \<and>
     take (length bs) (mpData t) = bs"

lemma take_written_part:
  "length pre = off \<Longrightarrow> take off buf = pre \<Longrightarrow> off + length bs \<le> length buf \<Longrightarrow>
   take (off + length bs) (overwrite buf off bs) = pre @ bs"
  by (simp add: overwrite_def)

lemma mp_copy_appends:
  assumes "collected t bs" "length bs + length cs \<le> MAX_TRACE_DATA_SIZE" "unat n = length bs + length cs"
  shows "\<exists>t'. mp_copy t (mpDataInserted t) cs = Some t' \<and> collected (t'\<lparr>mpDataInserted := n\<rparr>) (bs @ cs) \<and>
    t' = t\<lparr>mpData := mpData t'\<rparr>"
  using assms take_written_part[of bs "length bs" "mpData t" cs]
  by (auto simp: mp_copy_def collected_def)

definition part_size :: "tc_env \<Rightarrow> u32 \<Rightarrow> u32" where
  "part_size E h = ucast (header_byte (eSizeIndex E) h) - CalculateDataStartOffset E h"

definition part_bytes :: "tc_env \<Rightarrow> u32 \<times> u32 \<times> u32 \<Rightarrow> u8 list" where
  "part_bytes E p = mem_bytes E (snd (snd p)) (unat (part_size E (fst p)))"

lemma length_mem_bytes [simp]: "length (mem_bytes E a n) = n"
  by (simp add: mem_bytes_def)

text \<open>The fields of a trace in progress that its later parts leave alone.\<close>

definition part_head :: "TMultiPartTrace \<Rightarrow> TMultiPartTrace" where
  "part_head t = t\<lparr>mpData := [], mpDataInserted := 0\<rparr>"

lemma dropped_calls: "tcCalls (fst (CheckDroppedTrace E s h)) = tcCalls s"
  "iMultiPartTrace (fst (CheckDroppedTrace E s h)) = iMultiPartTrace s"
  by (simp_all add: CheckDroppedTrace_def)

definition mp_flags_ok :: "tc_env \<Rightarrow> bool" where
  "mp_flags_ok E \<longleftrightarrow> distinct [eMultipartFirst E, eMultipartMiddle E, eMultipartLast E]"

section \<open>Middle parts\<close>

lemma unat_add32: "unat a + unat b < 2 ^ 32 \<Longrightarrow> unat (a + b :: u32) = unat a + unat b"
  by (simp add: unat_add_lem[symmetric])

lemma middle_part:
  assumes "collected (iMultiPartTrace s) bs" "length bs + unat (part_size E h) < MAX_TRACE_DATA_SIZE"
  shows "\<exists>s'. mp_middle E s h d = Some (s', True) \<and>
    collected (iMultiPartTrace s') (bs @ part_bytes E (h, off, d)) \<and>
    part_head (iMultiPartTrace s') = part_head (iMultiPartTrace s) \<and> tcCalls s' = tcCalls s"
proof -
  let ?t = "iMultiPartTrace s" and ?n = "mpDataInserted (iMultiPartTrace s) + part_size E h"
  have n: "unat ?n = length bs + unat (part_size E h)"
    using assms by (subst unat_add32) (simp_all add: collected_def MAX_TRACE_DATA_SIZE_def)
  obtain t' where t': "mp_copy ?t (mpDataInserted ?t) (part_bytes E (h, off, d)) = Some t'"
    "collected (t'\<lparr>mpDataInserted := ?n\<rparr>) (bs @ part_bytes E (h, off, d))" "t' = ?t\<lparr>mpData := mpData t'\<rparr>"
    using mp_copy_appends[OF assms(1), of "part_bytes E (h, off, d)" ?n] assms(2) n
    by (auto simp: part_bytes_def)
  have "?n < of_nat MAX_TRACE_DATA_SIZE"
    using n assms(2) by (simp add: word_less_nat_alt MAX_TRACE_DATA_SIZE_def)
  moreover have "part_head (t'\<lparr>mpDataInserted := ?n\<rparr>) = part_head ?t"
    by (subst t'(3)) (simp add: part_head_def)
  moreover have "mpDataInserted t' = mpDataInserted ?t"
    using arg_cong[OF t'(3), of mpDataInserted] by simp
  ultimately show ?thesis
    using t'(1,2) by (simp add: mp_middle_def part_size_def part_bytes_def dropped_calls Let_def)
qed

text \<open>The parts between the first and the last one: header, offset and data of each.\<close>

fun mp_middles :: "tc_env \<Rightarrow> u32 \<Rightarrow> u32 \<Rightarrow> u32 \<Rightarrow> u32 \<Rightarrow> u32 \<Rightarrow> (u32 \<times> u32 \<times> u32) list \<Rightarrow> tcore \<Rightarrow> tcore option" where
  "mp_middles E h2 ctx a1 ex pc [] s = Some s"
| "mp_middles E h2 ctx a1 ex pc ((h, off, d) # ps) s =
     do { (s, v) \<leftarrow> HandleMultiPart E s h h2 ctx a1 off d ex pc; mp_middles E h2 ctx a1 ex pc ps s }"

lemma middle_parts:
  assumes "and h2 (eMultipartFlagMask E) = eMultipartMiddle E" "mp_flags_ok E"
  shows "collected (iMultiPartTrace s) bs \<Longrightarrow> mpId (iMultiPartTrace s) = ex \<Longrightarrow>
    length bs + length (concat (map (part_bytes E) ps)) < MAX_TRACE_DATA_SIZE \<Longrightarrow>
    \<exists>s'. mp_middles E h2 ctx a1 ex pc ps s = Some s' \<and>
      collected (iMultiPartTrace s') (bs @ concat (map (part_bytes E) ps)) \<and>
      part_head (iMultiPartTrace s') = part_head (iMultiPartTrace s) \<and> tcCalls s' = tcCalls s"
proof (induction ps arbitrary: s bs)
  case (Cons p ps)
  obtain h off d where p: "p = (h, off, d)" by (metis surj_pair)
  have len: "length (part_bytes E p) = unat (part_size E h)" by (simp add: p part_bytes_def)
  obtain t where t: "mp_middle E s h d = Some (t, True)"
    "collected (iMultiPartTrace t) (bs @ part_bytes E p)"
    "part_head (iMultiPartTrace t) = part_head (iMultiPartTrace s)" "tcCalls t = tcCalls s"
    using middle_part[OF Cons.prems(1), of E h d off] Cons.prems(3) len by (auto simp: p)
  have "mpId (iMultiPartTrace t) = ex"
    using t(3) Cons.prems(2) by (metis part_head_def TMultiPartTrace.select_convs(1)
        TMultiPartTrace.surjective TMultiPartTrace.update_convs(7,9))
  then show ?case
    using Cons.IH[OF t(2)] Cons.prems(2,3) t assms
    by (auto simp: p HandleMultiPart_def Let_def mp_flags_ok_def)
qed simp

section \<open>First and last part\<close>

lemma first_part:
  assumes "and h2 (eMultipartFlagMask E) = eMultipartFirst E" "mpId (iMultiPartTrace s) = 0"
    "length (mpData (iMultiPartTrace s)) = MAX_TRACE_DATA_SIZE"
    "IsTraceActivated s c (mem_word E d)" "\<not> iPreviousTraceDropped s"
    "unat (part_size E h - 4) \<le> MAX_TRACE_DATA_SIZE"
  shows "\<exists>s'. HandleMultiPart E s h h2 ctx a1 c d ex pc = Some (s', True) \<and> tcCalls s' = tcCalls s \<and>
    collected (iMultiPartTrace s') (mem_bytes E (d + 4) (unat (part_size E h - 4))) \<and>
    part_head (iMultiPartTrace s') =
      \<lparr>mpId = ex, mpHeader = h, mpHeader2 = and h2 (not (eMultipartFlagMask E)), mpContext = ctx,
       mpComponentId = c, mpTraceWord = mem_word E d, mpData = [], mpPc = pc, mpDataInserted = 0\<rparr>"
proof -
  have "take (unat (part_size E h - 4)) (overwrite (mpData (iMultiPartTrace s)) 0
      (mem_bytes E (d + 4) (unat (part_size E h - 4)))) = mem_bytes E (d + 4) (unat (part_size E h - 4))"
    using take_written_part[of "[]" 0 "mpData (iMultiPartTrace s)" "mem_bytes E (d + 4) (unat (part_size E h - 4))"]
      assms(3,6) by simp
  then show ?thesis
    using assms
    by (simp add: HandleMultiPart_def Let_def mp_first_def CheckDroppedTrace_def mp_copy_def
        part_size_def[symmetric] collected_def part_head_def)
qed

text \<open>The data of the last part: four bytes come by value.\<close>

definition last_bytes :: "tc_env \<Rightarrow> u32 \<Rightarrow> u32 \<Rightarrow> u8 list" where
  "last_bytes E n d = (if n = 4 then le32 d else mem_bytes E d (unat n))"

lemma length_last_bytes [simp]: "length (last_bytes E n d) = unat n"
  by (simp add: last_bytes_def)

lemma last_part:
  assumes "and h2 (eMultipartFlagMask E) = eMultipartLast E" "mp_flags_ok E"
    "mpId (iMultiPartTrace s) = ex" "collected (iMultiPartTrace s) bs"
    "length bs + unat (a1 - a2) \<le> MAX_TRACE_DATA_SIZE"
  shows "\<exists>s' buf. HandleMultiPart E s h h2 ctx a1 a2 d ex pc = Some (s', True) \<and>
    mpId (iMultiPartTrace s') = 0 \<and>
    take (length bs + unat (a1 - a2)) buf = bs @ last_bytes E (a1 - a2) d \<and>
    tcCalls s' = tcCalls s @ [CallFrame ((mp_frame (iMultiPartTrace s)
      (a1 + CalculateDataStartOffset E (mpHeader (iMultiPartTrace s)) - 4))\<lparr>tfData := FrameBuffer buf\<rparr>)]"
proof -
  let ?t = "iMultiPartTrace s" and ?n = "mpDataInserted (iMultiPartTrace s) + (a1 - a2)"
  have n: "unat ?n = length bs + unat (a1 - a2)"
    using assms(4,5) by (subst unat_add32) (simp_all add: collected_def MAX_TRACE_DATA_SIZE_def)
  obtain t' where t': "mp_copy ?t (mpDataInserted ?t) (last_bytes E (a1 - a2) d) = Some t'"
    "collected (t'\<lparr>mpDataInserted := ?n\<rparr>) (bs @ last_bytes E (a1 - a2) d)" "t' = ?t\<lparr>mpData := mpData t'\<rparr>"
    using mp_copy_appends[OF assms(4), of "last_bytes E (a1 - a2) d" ?n] assms(5) n by auto
  have fits: "?n \<le> of_nat MAX_TRACE_DATA_SIZE"
    using n assms(5) by (simp add: word_le_nat_alt MAX_TRACE_DATA_SIZE_def)
  have frame: "mp_frame t' w = (mp_frame ?t w)\<lparr>tfData := FrameBuffer (mpData t')\<rparr>" for w
    by (subst t'(3)) (simp add: mp_frame_def)
  have run: "mp_last E s h a1 a2 d = Some (call ((fst (CheckDroppedTrace E s h))\<lparr>iMultiPartTrace := t'\<lparr>mpId := 0\<rparr>\<rparr>)
      (CallFrame (mp_frame t' (a1 + CalculateDataStartOffset E (mpHeader ?t) - 4))), True)"
    using fits t'(1) by (simp add: mp_last_def Let_def last_bytes_def)
  have "take (length bs + unat (a1 - a2)) (mpData t') = bs @ last_bytes E (a1 - a2) d"
    using t'(2) by (simp add: collected_def)
  then show ?thesis
    using run assms(1-3)
    by (auto simp: HandleMultiPart_def Let_def mp_flags_ok_def call_def dropped_calls frame)
qed

section \<open>The whole trace\<close>

text \<open>The first part, the middle parts and the last part of a trace, one after the other.\<close>

definition run_multipart ::
  "tc_env \<Rightarrow> u32 \<Rightarrow> u32 \<Rightarrow> u32 \<Rightarrow> u32 \<times> u32 \<Rightarrow> (u32 \<times> u32 \<times> u32) list \<Rightarrow> u32 \<times> u32 \<times> u32 \<Rightarrow>
   u32 \<Rightarrow> u32 \<Rightarrow> tcore \<Rightarrow> tcore option" where
  "run_multipart E ctx a1 c first middles final ex pc s =
     (case final of (hl, off, dl) \<Rightarrow>
      do { (s, v) \<leftarrow> HandleMultiPart E s (fst first) (eMultipartFirst E) ctx a1 c (snd first) ex pc;
           s \<leftarrow> mp_middles E (eMultipartMiddle E) ctx a1 ex pc middles s;
           (s, v) \<leftarrow> HandleMultiPart E s hl (eMultipartLast E) ctx a1 off dl ex pc;
           Some s })"

definition mp_mask_ok :: "tc_env \<Rightarrow> bool" where
  "mp_mask_ok E \<longleftrightarrow> mp_flags_ok E \<and>
     (\<forall>f\<in>{eMultipartFirst E, eMultipartMiddle E, eMultipartLast E}. and f (eMultipartFlagMask E) = f)"

lemma multipart_written:
  assumes "mp_mask_ok E" "mpId (iMultiPartTrace s) = 0"
    "length (mpData (iMultiPartTrace s)) = MAX_TRACE_DATA_SIZE"
    "IsTraceActivated s c (mem_word E (snd first))" "\<not> iPreviousTraceDropped s"
    "bs = mem_bytes E (snd first + 4) (unat (part_size E (fst first) - 4)) @ concat (map (part_bytes E) middles)"
    "length bs < MAX_TRACE_DATA_SIZE" "length bs + unat (a1 - off) \<le> MAX_TRACE_DATA_SIZE"
  shows "\<exists>s' f buf. run_multipart E ctx a1 c first middles (hl, off, dl) ex pc s = Some s' \<and>
    tcCalls s' = tcCalls s @ [CallFrame f] \<and> mpId (iMultiPartTrace s') = 0 \<and>
    tfComponent f = c \<and> tfTraceWord f = mem_word E (snd first) \<and> tfHeader f = fst first \<and>
    tfContext f = ctx \<and> tfPc f = pc \<and>
    tfSize f = a1 + CalculateDataStartOffset E (fst first) - 4 \<and>
    tfData f = FrameBuffer buf \<and>
    take (length bs + unat (a1 - off)) buf = bs @ last_bytes E (a1 - off) dl"
proof -
  have mask: "mp_flags_ok E" "and (eMultipartFirst E) (eMultipartFlagMask E) = eMultipartFirst E"
    "and (eMultipartMiddle E) (eMultipartFlagMask E) = eMultipartMiddle E"
    "and (eMultipartLast E) (eMultipartFlagMask E) = eMultipartLast E"
    using assms(1) by (simp_all add: mp_mask_ok_def)
  let ?b1 = "mem_bytes E (snd first + 4) (unat (part_size E (fst first) - 4))"
  obtain s1 where s1: "HandleMultiPart E s (fst first) (eMultipartFirst E) ctx a1 c (snd first) ex pc = Some (s1, True)"
    "tcCalls s1 = tcCalls s" "collected (iMultiPartTrace s1) ?b1"
    "part_head (iMultiPartTrace s1) = \<lparr>mpId = ex, mpHeader = fst first,
       mpHeader2 = and (eMultipartFirst E) (not (eMultipartFlagMask E)), mpContext = ctx,
       mpComponentId = c, mpTraceWord = mem_word E (snd first), mpData = [], mpPc = pc, mpDataInserted = 0\<rparr>"
    using first_part[OF mask(2) assms(2-5), of "fst first" ctx a1 ex pc] assms(6,7) by auto
  have id1: "mpId (iMultiPartTrace s1) = ex"
    using arg_cong[OF s1(4), of mpId] by (simp add: part_head_def)
  obtain s2 where s2: "mp_middles E (eMultipartMiddle E) ctx a1 ex pc middles s1 = Some s2"
    "collected (iMultiPartTrace s2) bs" "part_head (iMultiPartTrace s2) = part_head (iMultiPartTrace s1)"
    "tcCalls s2 = tcCalls s"
    using middle_parts[OF mask(3,1) s1(3) id1, of middles ctx a1 pc] assms(6,7) s1(2) by auto
  note ph = s2(3)[unfolded s1(4)]
  have f2: "mpId (iMultiPartTrace s2) = ex" "mpHeader (iMultiPartTrace s2) = fst first"
    "mpContext (iMultiPartTrace s2) = ctx" "mpComponentId (iMultiPartTrace s2) = c"
    "mpTraceWord (iMultiPartTrace s2) = mem_word E (snd first)" "mpPc (iMultiPartTrace s2) = pc"
    using arg_cong[OF ph, of mpId] arg_cong[OF ph, of mpHeader] arg_cong[OF ph, of mpContext]
      arg_cong[OF ph, of mpComponentId] arg_cong[OF ph, of mpTraceWord] arg_cong[OF ph, of mpPc]
    by (simp_all add: part_head_def)
  from last_part[OF mask(4,1) f2(1) s2(2) assms(8), of hl ctx dl pc]
  obtain s3 buf where "HandleMultiPart E s2 hl (eMultipartLast E) ctx a1 off dl ex pc = Some (s3, True)"
    "mpId (iMultiPartTrace s3) = 0"
    "take (length bs + unat (a1 - off)) buf = bs @ last_bytes E (a1 - off) dl"
    "tcCalls s3 = tcCalls s2 @ [CallFrame ((mp_frame (iMultiPartTrace s2)
       (a1 + CalculateDataStartOffset E (mpHeader (iMultiPartTrace s2)) - 4))\<lparr>tfData := FrameBuffer buf\<rparr>)]"
    by blast
  then show ?thesis
    using s1(1) s2(1,4) f2 by (simp add: run_multipart_def mp_frame_def)
qed

section \<open>Parts out of order\<close>

text \<open>
  While a trace is in progress, no part of another one is taken: a trace whose last part was lost
  blocks all others.
\<close>

lemma multipart_blocked:
  assumes "mpId (iMultiPartTrace s) \<noteq> 0" "mpId (iMultiPartTrace s) \<noteq> ex"
  shows "HandleMultiPart E s h h2 ctx a1 a2 d ex pc = Some (s, False)"
  using assms by (simp add: HandleMultiPart_def)

text \<open>
  When no trace is in progress, the last part of one whose first part was refused is accepted, and it is
  written under the component and the group of the last trace that was complete.
\<close>

lemma stray_last_part_written:
  assumes "mp_mask_ok E" "mpId (iMultiPartTrace s) = 0" "mpDataInserted (iMultiPartTrace s) = 0"
    "a1 - a2 = 4"
  shows "\<exists>s' f. HandleMultiPart E s h (eMultipartLast E) ctx a1 a2 d ex pc = Some (s', True) \<and>
    tcCalls s' = tcCalls s @ [CallFrame f] \<and> tfComponent f = mpComponentId (iMultiPartTrace s)"
  using assms
  by (auto simp: HandleMultiPart_def Let_def mp_mask_ok_def mp_flags_ok_def mp_last_def mp_copy_def
      MAX_TRACE_DATA_SIZE_def mp_frame_def call_def dropped_calls CheckDroppedTrace_def)

end
