(* ===== verification/TraceTold.thy ===== *)
theory TraceTold
  imports TraceMultipart
begin

text \<open>
  Who is told of a change: the receivers that match the changed group, in the order in which they
  registered, and each of them once; and how far a message is read.
\<close>

section \<open>Notifications of a change\<close>

definition is_told :: "tc_call \<Rightarrow> bool" where
  "is_told cl = (case cl of CallActivated _ _ _ \<Rightarrow> True | CallDeactivated _ _ _ \<Rightarrow> True | _ \<Rightarrow> False)"

lemma is_told_simps [simp]:
  "is_told (CallActivated r c g)" "is_told (CallDeactivated r c g)" "\<not> is_told (CallSetFilter h b)"
  "\<not> is_told (CallSetHandler bh)" "\<not> is_told CallPrimeDfc" "\<not> is_told (CallWriteSettings buf)"
  by (simp_all add: is_told_def)

lemma listener_not_told: "list_all listener_call cs \<Longrightarrow> filter is_told cs = []"
  by (induction cs) (auto simp: listener_call_def)

lemma changed_new:
  "memory_ok E \<Longrightarrow> iChangedArray s = [] \<Longrightarrow>
   iChangedArray (AddGroupToChangedArray E s c g) = [\<lparr>iComponentId = c, iGroups = [ucast g]\<rparr>]"
  by (simp add: AddGroupToChangedArray_def insert_array_def memory_ok_def FindComponentId_def
      find_ordered_def)

lemma AddGroupId_told:
  assumes "AddGroupId E s c g (Some i) = (s', ret)" "bitmap_wf (iTmpArray s)" "index_of s i c"
    "memory_ok E" "tcInstance s" "iChangedArray s = []"
  shows "iChangedArray s' = (if (c, ucast g) \<in> activations (iTmpArray s) then []
       else [\<lparr>iComponentId = c, iGroups = [ucast g]\<rparr>])"
    "filter is_told (tcCalls s') = filter is_told (tcCalls s)"
proof -
  let ?gs = "iGroups (iTmpArray s ! i)"
  have i: "i < length (iTmpArray s)" "iComponentId (iTmpArray s ! i) = c"
    using assms(3) by (simp_all add: index_of_def)
  have mem: "(c, ucast g) \<in> activations (iTmpArray s) \<longleftrightarrow> find_ordered id (ucast g) ?gs \<noteq> None"
    using activated_index[OF assms(2) i(1), of "ucast g"] i(2) find_ordered_mem by simp
  have "iChangedArray s' = (if (c, ucast g) \<in> activations (iTmpArray s) then []
       else [\<lparr>iComponentId = c, iGroups = [ucast g]\<rparr>]) \<and>
    filter is_told (tcCalls s') = filter is_told (tcCalls s)"
  proof (cases "find_ordered id (ucast g) ?gs = None")
    case True
    then show ?thesis
      using assms(1,4-6) i(1) mem
      by (auto simp: AddGroupId_def insert_array_def memory_ok_def Let_def changed_new
          AddGroupToChangedArray_frozen split: if_splits)
  next
    case False
    then show ?thesis
      using assms(1,6) i(1) mem by (auto simp: AddGroupId_def insert_array_def Let_def)
  qed
  then show "iChangedArray s' = (if (c, ucast g) \<in> activations (iTmpArray s) then []
       else [\<lparr>iComponentId = c, iGroups = [ucast g]\<rparr>])"
    "filter is_told (tcCalls s') = filter is_told (tcCalls s)" by blast+
qed

lemma RemoveGroupId_told:
  assumes "RemoveGroupId E s c g (Some i) = (s', ret)" "bitmap_wf (iTmpArray s)" "index_of s i c"
    "memory_ok E" "tcInstance s" "iChangedArray s = []"
  shows "iChangedArray s' = (if (c, ucast g) \<in> activations (iTmpArray s)
       then [\<lparr>iComponentId = c, iGroups = [ucast g]\<rparr>] else [])"
    "filter is_told (tcCalls s') = filter is_told (tcCalls s)"
proof -
  let ?gs = "iGroups (iTmpArray s ! i)"
  have i: "i < length (iTmpArray s)" "iComponentId (iTmpArray s ! i) = c"
    using assms(3) by (simp_all add: index_of_def)
  have mem: "(c, ucast g) \<in> activations (iTmpArray s) \<longleftrightarrow> find_ordered id (ucast g) ?gs \<noteq> None"
    using activated_index[OF assms(2) i(1), of "ucast g"] i(2) find_ordered_mem by simp
  have "iChangedArray s' = (if (c, ucast g) \<in> activations (iTmpArray s)
       then [\<lparr>iComponentId = c, iGroups = [ucast g]\<rparr>] else []) \<and>
    filter is_told (tcCalls s') = filter is_told (tcCalls s)"
  proof (cases "find_ordered id (ucast g) ?gs")
    case None
    then show ?thesis using assms(1,6) i(1) mem by (auto simp: RemoveGroupId_def)
  next
    case (Some k)
    then show ?thesis
      using assms(1,4-6) i(1) mem
      by (auto simp: RemoveGroupId_def Let_def changed_new AddGroupToChangedArray_frozen)
  qed
  then show "iChangedArray s' = (if (c, ucast g) \<in> activations (iTmpArray s)
       then [\<lparr>iComponentId = c, iGroups = [ucast g]\<rparr>] else [])"
    "filter is_told (tcCalls s') = filter is_told (tcCalls s)" by blast+
qed

text \<open>The group of a trace word that was made from a valid group.\<close>

lemma word_of_group: "GroupIdIsValid g \<Longrightarrow> trace_word_group (push_bit 16 g) = g"
proof -
  assume "GroupIdIsValid g"
  then have u: "ucast (ucast g :: u8) = g" by (rule valid_group_u8)
  have "trace_word_group (push_bit 16 (ucast (v :: u8))) = ucast v" for v
  proof (rule bit_word_eqI)
    fix n assume "n < LENGTH(32)"
    have "bit v n \<Longrightarrow> n < 8" using bit_imp_le_length[of v n] by simp
    moreover have "n < 8 \<Longrightarrow> bit (255 :: u32) n"
      using bit_mask_iff[of 8 n, where 'a = u32] by (simp add: mask_eq_exp_minus_1)
    ultimately show "bit (trace_word_group (push_bit 16 (ucast v))) n = bit (ucast v :: u32) n"
      using \<open>n < LENGTH(32)\<close> by (auto simp: trace_word_group_def bit_simps)
  qed
  from this[of "ucast g"] show ?thesis by (simp only: u)
qed

lemma valid_group_u16: "GroupIdIsValid g \<Longrightarrow> ucast (ucast g :: u16) = g"
  using narrow_group by blast

text \<open>What a change of one group of one component tells.\<close>

definition activated_calls :: "tcore \<Rightarrow> u32 \<Rightarrow> u32 \<Rightarrow> tc_call list" where
  "activated_calls s c g =
     map (\<lambda>it. CallActivated (nrReceiver it) c g) (filter (item_matches c g) (iNotificationReceiverItems s))"

definition deactivated_calls :: "tcore \<Rightarrow> u32 \<Rightarrow> u32 \<Rightarrow> tc_call list" where
  "deactivated_calls s c g =
     map (\<lambda>it. CallDeactivated (nrReceiver it) c (if g = KAllGroups then nrGroupID it else g))
       (filter (deactivation_matches c g) (iNotificationReceiverItems s))"

lemma change_calls_group:
  assumes "GroupIdIsValid g" "bitmap_wf (iOstComponents t)"
    "iNotificationReceiverItems t = iNotificationReceiverItems s"
  shows "change_calls t c g = (if (c, g) \<in> acts t then activated_calls s c g else deactivated_calls s c g)"
  using IsTraceActivated_iff[OF assms(2), of c "push_bit 16 g"] assms(3)
  by (simp add: change_calls_def word_of_group[OF assms(1)] valid_group_u16[OF assms(1)]
      activated_calls_def deactivated_calls_def)

lemma told_filter: "filter is_told (activated_calls s c g) = activated_calls s c g"
  "filter is_told (deactivated_calls s c g) = deactivated_calls s c g"
  by (simp_all add: activated_calls_def deactivated_calls_def filter_map o_def)

lemma ActivateTrace_told:
  assumes "ActivateTrace E s c g = Some s'" "tc_inv E s" "memory_ok E" "tcInstance s" "GroupIdIsValid g"
  shows "filter is_told (tcCalls s') = filter is_told (tcCalls s) @
    (if (c, g) \<in> acts s then [] else activated_calls s c g)"
proof -
  have wf: "bitmap_wf (iOstComponents s)" using assms(2) by (simp add: tc_inv_def)
  note o = open_change_spec[OF wf, of E]
  obtain s1 idx where 1: "AddComponentId E (open_change E s) c = (s1, idx)" by fastforce
  note a = AddComponentId_spec[OF 1 o(2)]
  obtain i where i: "idx = Some i" using a(7)[OF assms(3)] by auto
  obtain s2 ret where 2: "AddGroupId E s1 c (ucast g) (Some i) = (s2, ret)" by fastforce
  have f1: "frozen s1 = frozen s" using a(1) o(1) by simp
  note ff = frozen_fields[OF f1]
  have g: "ucast (ucast g :: u8) = g" by (rule valid_group_u8[OF assms(5)])
  have same: "activations (iTmpArray s1) = acts s" using a(5) o(5)[OF assms(3)] by simp
  note sp = AddGroupId_spec[OF 2 a(2) a(6)[OF i]]
  have tl: "iChangedArray s2 = (if (c, g) \<in> acts s then [] else [\<lparr>iComponentId = c, iGroups = [g]\<rparr>])"
    "filter is_told (tcCalls s2) = filter is_told (tcCalls s)"
    using AddGroupId_told[OF 2 a(2) a(6)[OF i] assms(3)] ff(2) assms(4) a(3,4) o(3,4) g same by simp_all
  have f2: "frozen s2 = frozen s" using sp(1) f1 by simp
  let ?t = "SetNewComponentsArrayPtr s2"
  have t: "iOstComponents ?t = iTmpArray s2" "iNotificationReceiverItems ?t = iNotificationReceiverItems s"
    "tcInstance ?t"
    using frozen_fields[OF f2] assms(4) by (simp_all add: SetNewComponentsArrayPtr_def)
  have "(c, g) \<in> acts ?t" using sp(6)[OF assms(3)] g t(1) by simp
  then have "told ?t (iChangedArray s2) = (if (c, g) \<in> acts s then [] else activated_calls s c g)"
    using change_calls_group[OF assms(5) _ t(2)] sp(2) t tl(1) by (simp add: told_def)
  moreover from close_swap[OF assms(2) f2 sp(2), of False c] obtain u cs where
    "close_change E ?t False c = Some u" "list_all listener_call cs"
    "tcCalls u = tcCalls s2 @ CallSetHandler (handler_of E (iTmpArray s2)) # told ?t (iChangedArray s2) @ cs"
    by blast
  moreover from this(1) have "u = s'" using assms(1,5) 1 2 i by (simp add: ActivateTrace_def)
  ultimately show ?thesis
    using tl(2) told_filter(1)[of s c g] by (auto simp: listener_not_told)
qed

lemma DeactivateTrace_told:
  assumes "DeactivateTrace E s c g = Some s'" "tc_inv E s" "memory_ok E" "tcInstance s" "(c, g) \<in> acts s"
    "c \<noteq> 0"
  shows "filter is_told (tcCalls s') = filter is_told (tcCalls s) @ deactivated_calls s c g"
proof -
  have wf: "bitmap_wf (iOstComponents s)" using assms(2) by (simp add: tc_inv_def)
  have v: "GroupIdIsValid g" by (rule acts_valid[OF assms(2,5)])
  note o = open_change_spec[OF wf, of E]
  obtain i where i: "FindComponentId c (iOstComponents s) = Some i"
    using assms(5) by (fastforce simp: in_activations FindComponentId_def find_ordered_None
        simp flip: not_None_eq)
  have ix: "index_of (open_change E s) i c"
    using i FindComponentId_index[of c "open_change E s" i] o(5)[OF assms(3)] by simp
  obtain s1 ret where 1: "RemoveGroupId E (open_change E s) c (ucast g) (Some i) = (s1, ret)" by fastforce
  note r = RemoveGroupId_spec[OF 1 o(2) ix]
  have g: "ucast (ucast g :: u8) = g" by (rule valid_group_u8[OF v])
  have inst: "tcInstance (open_change E s)" using frozen_fields[OF o(1)] assms(4) by simp
  have tl: "iChangedArray s1 = [\<lparr>iComponentId = c, iGroups = [g]\<rparr>]"
    "filter is_told (tcCalls s1) = filter is_told (tcCalls s)"
    using RemoveGroupId_told[OF 1 o(2) ix assms(3) inst o(3)] o(4) o(5)[OF assms(3)] assms(5) g by simp_all
  define u where "u = (if iGroups (iTmpArray s1 ! i) = [] then fst (RemoveComponentId E s1 c False) else s1)"
  obtain s2 j where 2: "RemoveComponentId E s1 c False = (s2, j)" by fastforce
  note rc = RemoveComponentId_spec[OF 2 r(2)]
  have s2: "iChangedArray s2 = iChangedArray s1" "tcCalls s2 = tcCalls s1"
    using 2 by (auto simp: RemoveComponentId_def split: option.splits)
  have u: "frozen u = frozen s" "bitmap_wf (iTmpArray u)" "(c, g) \<notin> activations (iTmpArray u)"
    "iChangedArray u = [\<lparr>iComponentId = c, iGroups = [g]\<rparr>]"
    "filter is_told (tcCalls u) = filter is_told (tcCalls s)"
    using r rc s2 o(1) tl g by (simp_all add: u_def 2)
  let ?t = "SetNewComponentsArrayPtr u"
  have t: "iOstComponents ?t = iTmpArray u" "iNotificationReceiverItems ?t = iNotificationReceiverItems s"
    "tcInstance ?t"
    using frozen_fields[OF u(1)] assms(4) by (simp_all add: SetNewComponentsArrayPtr_def)
  have "told ?t (iChangedArray u) = deactivated_calls s c g"
    using change_calls_group[OF v _ t(2)] u(2,3,4) t by (simp add: told_def)
  moreover from close_swap[OF assms(2) u(1,2), of False c] obtain w cs where
    "close_change E ?t False c = Some w" "list_all listener_call cs"
    "tcCalls w = tcCalls u @ CallSetHandler (handler_of E (iTmpArray u)) # told ?t (iChangedArray u) @ cs"
    by blast
  moreover have "i < length (iTmpArray s1)" using r(3) by (simp add: index_of_def)
  then have "close_change E ?t False c = Some s'"
    using assms(1,6) v i 1
    by (simp add: DeactivateTrace_def ComponentIdIsValid_def u_def word_neq_0_conv)
  ultimately show ?thesis
    using u(5) told_filter(2)[of s c g] by (auto simp: listener_not_told)
qed

end
