(* ===== verification/TraceBounds.thy ===== *)
theory TraceBounds
  imports TraceTold
begin

text \<open>
  How far an activation message is read: never outside the message when no count of groups wraps in the
  length check, and far outside when one does; and other things a caller may not expect.
\<close>

section \<open>Messages whose counts do not wrap\<close>

definition KMaxSafeGroups :: nat where "KMaxSafeGroups = 2 ^ 31 - 7"

text \<open>Wherever a frame may start, the count of groups that stands there is not huge.\<close>

definition counts_fit :: "u8 list \<Rightarrow> bool" where
  "counts_fit msg \<longleftrightarrow> (\<forall>p\<in>set [0..<length msg]. p + 12 \<le> length msg \<longrightarrow>
     (case Read32 msg (p + KOstNumberOfGroupsOffset) of
        None \<Rightarrow> True | Some n \<Rightarrow> unat (SWAP32 n) \<le> KMaxSafeGroups))"

lemma group_list_inside:
  "start + unat off + 2 * n \<le> length msg \<Longrightarrow> unat off + 2 * n < 2 ^ 32 \<Longrightarrow>
   frame_group_list msg start n off \<noteq> None"
proof (induction n arbitrary: off)
  case (Suc n)
  have "unat (off + KGroupIdLength) = unat off + 2"
    using Suc.prems(2) by (subst unat_add32) (simp_all add: KGroupIdLength_def)
  then show ?case
    using Suc.IH[of "off + KGroupIdLength"] Suc.prems by (auto simp: Read16_def)
qed simp

lemma frame_length:
  fixes st m :: u32
  assumes "unat st + 12 \<le> l" "l < 2 ^ 31" "unat m \<le> KMaxSafeGroups"
    "KOstGroupIdOffset + m * KGroupIdLength \<le> of_nat l - st"
  shows "unat st + 12 + 2 * unat m \<le> l" "12 + 2 * unat m < 2 ^ 32"
proof -
  have m2: "unat (m * 2) = 2 * unat m"
    using assms(3) by (simp add: unat_mult_lem[THEN iffD1] KMaxSafeGroups_def)
  have "unat (12 + m * 2) = 12 + 2 * unat m"
    using assms(3) m2 by (subst unat_add32) (simp_all add: KMaxSafeGroups_def)
  moreover have "unat (of_nat l - st :: u32) = l - unat st"
    using assms(1,2) unat_of_nat32[of l] by (subst unat_sub) (simp_all add: word_le_nat_alt)
  moreover have "unat (12 + m * 2) \<le> unat (of_nat l - st :: u32)"
    using assms(4) by (simp add: word_le_nat_alt ost_consts)
  ultimately show "unat st + 12 + 2 * unat m \<le> l" "12 + 2 * unat m < 2 ^ 32"
    using assms(1,3) by (auto simp: KMaxSafeGroups_def)
qed

lemma ReadOstFrameGroups_inside:
  assumes "unat st + 12 \<le> length msg" "length msg < 2 ^ 31" "counts_fit msg" "group_frame info"
  shows "ReadOstFrameGroups E msg st info i c s \<noteq> None"
proof -
  have "unat st + KOstNumberOfGroupsOffset + 4 \<le> length msg" using assms(1) by (simp add: ost_consts)
  then obtain n where n: "Read32 msg (unat st + KOstNumberOfGroupsOffset) = Some n"
    by (simp add: Read32_def)
  have safe: "unat (SWAP32 n) \<le> KMaxSafeGroups"
    using assms(1,3) n by (auto simp: counts_fit_def dest!: bspec[of _ _ "unat st"])
  show ?thesis
  proof (cases "KOstGroupIdOffset + SWAP32 n * KGroupIdLength \<le> of_nat (length msg) - st")
    case True
    note l = frame_length[OF assms(1,2) safe True]
    have "frame_group_list msg (unat st) (unat (SWAP32 n)) KOstGroupIdOffset \<noteq> None"
      using l by (intro group_list_inside) (simp_all add: ost_consts)
    then show ?thesis
      using ReadOstFrameGroups_returns[OF n assms(4)] by auto
  next
    case False
    then show ?thesis using n by (simp add: ReadOstFrameGroups_def Let_def)
  qed
qed

lemma ReadOstFrame_inside:
  assumes "tc_inv E s" "length msg < 2 ^ 31" "counts_fit msg" "unat st < 2 ^ 31"
  shows "ReadOstFrame E msg st s \<noteq> None"
proof (cases "of_nat (length msg) \<ge> st + KOstMinFrameLength")
  case False
  then show ?thesis by (simp add: ReadOstFrame_def)
next
  case True
  have "unat (st + 12) = unat st + 12"
    using assms(4) by (subst unat_add32) simp_all
  then have len: "unat st + 12 \<le> length msg"
    using True assms(2) unat_of_nat32[of "length msg"] by (simp add: word_le_nat_alt ost_consts)
  have wf: "bitmap_wf (iOstComponents s)" using assms(1) by (simp add: tc_inv_def)
  note o = open_change_spec[OF wf, of E]
  obtain info a where r: "Read8 msg (unat st + KOstActivationInfoOffset) = Some info"
    "Read32 msg (unat st + KOstComponentIdOffset) = Some a"
    using len by (simp add: Read8_def Read32_def ost_consts)
  define c where "c = SWAP32 a"
  show ?thesis
  proof (cases "group_frame info")
    case g: True
    obtain s1 idx where fc: "frame_component E info c (open_change E s) = (s1, idx)" by fastforce
    note f = frame_component_spec[OF fc o(2)]
    have "(case idx of None \<Rightarrow> Some (s1, 0) | Some i \<Rightarrow> ReadOstFrameGroups E msg st info i c s1) \<noteq> None"
      using ReadOstFrameGroups_inside[OF len assms(2,3) g] by (cases idx) simp_all
    then obtain s2 ret where s2: "(case idx of None \<Rightarrow> Some (s1, 0)
        | Some i \<Rightarrow> ReadOstFrameGroups E msg st info i c s1) = Some (s2, ret)" by auto
    have "frozen s2 = frozen s1 \<and> bitmap_wf (iTmpArray s2)"
    proof (cases idx)
      case (Some i)
      with s2 ReadOstFrameGroups_spec(1,2)[OF _ g f(2) f(4)[OF Some]] show ?thesis by simp
    qed (use s2 f(2) in simp)
    then show ?thesis
      using close_swap[OF assms(1), of s2 False c] f(1) o(1)
      by (auto simp: ReadOstFrame_group[OF True r c_def g fc] s2)
  next
    case False
    obtain s1 j where 1: "RemoveComponentId E (open_change E s) c True = (s1, j)" by fastforce
    note rc = RemoveComponentId_spec[OF 1 o(2)]
    show ?thesis
      using close_swap[OF assms(1), of s1 False c] rc o(1) True r False 1
      by (auto simp: ReadOstFrame_def c_def[symmetric] group_frame_def)
  qed
qed

lemma nonnegative_word: "0 \<le> sint (w :: u32) \<Longrightarrow> unat w < 2 ^ 31"
proof -
  assume "0 \<le> sint w"
  then have "uint w = sint w"
    using sint_lt[of w] unfolding uint_sint by (intro take_bit_int_eq_self) simp_all
  then show ?thesis using sint_lt[of w] by (simp add: unat_eq_nat_uint)
qed

lemma message_frames_inside:
  "length msg < 2 ^ 31 \<Longrightarrow> counts_fit msg \<Longrightarrow> tc_inv E s \<Longrightarrow> - 1 \<le> sint l \<Longrightarrow>
   message_frames E msg l st s \<noteq> None"
proof (induction E msg l st s rule: message_frames.induct)
  case (1 E msg l st s)
  show ?case
  proof (cases "sint l < sint st")
    case True
    then have "unat st < 2 ^ 31" using 1(5) by (intro nonnegative_word) simp
    from ReadOstFrame_inside[OF 1(4,2,3) this] obtain t nxt
      where t: "ReadOstFrame E msg st s = Some (t, nxt)" by auto
    have "message_frames E msg st nxt t \<noteq> None"
      using "1.IH"[OF True t refl 1(2,3)] ReadOstFrame_inv[OF t 1(4)] True 1(5) by simp
    then show ?thesis using True t by (subst message_frames.simps) simp
  next
    case False
    then show ?thesis by (subst message_frames.simps) simp
  qed
qed

lemma message_read_inside:
  assumes "tc_inv E s" "length msg < 2 ^ 31" "counts_fit msg"
  shows "bitmap_MessageReceived E EMessageHeaderFormatProprietary msg s \<noteq> None"
  using message_frames_inside[OF assms(2,3,1), of "- 1" 0]
  by (auto simp: bitmap_MessageReceived_def ReadOstMessage_def Read8_def ost_consts)

section \<open>Counts that wrap\<close>

text \<open>
  The count of groups is doubled before it is compared with the rest of the message: 2147483648 groups
  need no byte, and the first one is read behind a message of one frame without groups.
\<close>

lemma groups_outside:
  assumes "n \<noteq> 0" "start + unat off = length msg"
  shows "frame_group_list msg start n off = None"
proof -
  obtain k where "n = Suc k" using assms(1) by (cases n) auto
  then show ?thesis using assms(2) by (simp add: Read16_def)
qed

definition overrun_message :: "u8 list" where
  "overrun_message = [SOS_MON_TRACECORE_OST_ACTIVATION, 0, 0, SOS_MON_TRACECORE_OST_ACTIVATE] @
     be32 0x80000000 @ be32 5"

lemma overrun_fields:
  "Read8 overrun_message KOstActivationInfoOffset = Some SOS_MON_TRACECORE_OST_ACTIVATE"
  "Read32 overrun_message KOstNumberOfGroupsOffset = Some (of_le (be32 0x80000000))"
  "Read32 overrun_message KOstComponentIdOffset = Some (of_le (be32 5))"
  "length overrun_message = 12"
  by (simp_all add: overrun_message_def Read8_def Read32_def ost_consts)

lemma frame_count_overrun:
  assumes "tc_inv E s" "memory_ok E"
  shows "bitmap_MessageReceived E EMessageHeaderFormatProprietary overrun_message s = None"
proof -
  have wf: "bitmap_wf (iOstComponents s)" using assms(1) by (simp add: tc_inv_def)
  note o = open_change_spec[OF wf, of E]
  obtain s1 idx where fc: "frame_component E SOS_MON_TRACECORE_OST_ACTIVATE 5 (open_change E s) = (s1, idx)"
    by fastforce
  note f = frame_component_spec[OF fc o(2)]
  obtain i where i: "idx = Some i"
    using f(5)[OF assms(2)] by (cases idx) (auto simp: ost_consts)
  have "frame_group_list overrun_message 0 (unat (0x80000000 :: u32)) 12 = None"
    by (rule groups_outside) (simp_all add: overrun_fields)
  then have "ReadOstFrameGroups E overrun_message 0 SOS_MON_TRACECORE_OST_ACTIVATE i 5 s1 = None"
    using overrun_fields
    by (simp add: ReadOstFrameGroups_def SWAP32_be32 frame_groups_list ost_consts)
  then have "ReadOstFrame E overrun_message 0 s = None"
    using ReadOstFrame_group[of 0 overrun_message SOS_MON_TRACECORE_OST_ACTIVATE "of_le (be32 5)" 5 E s s1 idx]
      overrun_fields fc i
    by (simp add: SWAP32_be32 group_frame_def ost_consts)
  then show ?thesis
    using overrun_fields(4)
    by (simp add: bitmap_MessageReceived_def ReadOstMessage_def Read8_def overrun_message_def
        message_frames.simps[of E _ "- 1"] ost_consts)
qed

end
