(* ===== verification/TraceFindings.thy ===== *)
theory TraceFindings
  imports TraceBounds
begin

text \<open>
  Behaviour of the trace core that its comments do not announce: a stale cache for component 0, filters that
  are cleared for a group another component still uses, protocol frames of odd length, frames behind a
  frame that deactivates everything, and kernel categories that stay enabled without a writer.
\<close>

section \<open>The cache of component 0\<close>

text \<open>
  The reset leaves group and activation in the items and sets the component to 0, so a trace of component 0
  is decided by whatever item had its group.
\<close>

lemma stale_cache_item:
  assumes "caGroup (iCacheItem1 s) = and w 0xffff0000"
  shows "cached_activation (clear_cache s) 0 w = (clear_cache s, caActivated (iCacheItem1 s))"
  using assms by (simp add: cached_activation_def clear_cache_def cache_hit_def)

section \<open>Filters\<close>

text \<open>Removing a group of one component clears the filter of the group, whoever else has it activated.\<close>

lemma shared_filter_cleared:
  assumes "FindComponentId c (iTmpArray s) = Some i" "ucast g \<in> set (iGroups (iTmpArray s ! i))" "tcInstance s"
  shows "CallSetFilter (ucast g) False \<in> set (tcCalls (fst (RemoveGroupId E s c g (Some i))))"
proof -
  have i: "i < length (iTmpArray s)"
    using FindComponentId_index[OF assms(1)] by (simp add: index_of_def)
  obtain k where "find_ordered id (ucast g) (iGroups (iTmpArray s ! i)) = Some k"
    using assms(2) find_ordered_mem by fastforce
  then show ?thesis
    using i assms(3) by (simp add: RemoveGroupId_def Let_def AddGroupToChangedArray_frozen)
qed

section \<open>Messages\<close>

text \<open>A frame that deactivates a component ends the message: what follows it is not read.\<close>

lemma deactivate_all_ends_message:
  assumes "st + KOstMinFrameLength \<le> of_nat (length msg)"
    "Read8 msg (unat st + KOstActivationInfoOffset) = Some SOS_MON_TRACECORE_OST_DEACTIVATE_ALL"
    "ReadOstFrame E msg st s = Some (s', nxt)"
  shows "nxt = 0"
  using assms by (auto simp: ReadOstFrame_def ost_consts Let_def split: Option.bind_splits)

text \<open>With an odd byte at the end, one more group is left out than the byte spoils.\<close>

lemma protocol_groups_even: "length msg = 8 + 2 * k \<Longrightarrow> protocol_groups msg = of_nat k"
proof -
  assume "length msg = 8 + 2 * k"
  then have "int (length msg) - int groupIdOffset = 2 * int k" by (simp add: protocol_consts)
  then show ?thesis
    by (simp add: protocol_groups_def Let_def signed_divide_int_def signed_modulo_int_def sgn_mult)
qed

lemma protocol_groups_odd: "length msg = 9 + 2 * k \<Longrightarrow> protocol_groups msg = of_nat k - 1"
proof -
  assume "length msg = 9 + 2 * k"
  then have "int (length msg) - int groupIdOffset = 2 * int k + 1" by (simp add: protocol_consts)
  then show ?thesis
    by (simp add: protocol_groups_def Let_def signed_divide_int_def signed_modulo_int_def)
qed

lemma protocol_frame_overrun:
  assumes "tc_inv E s" "memory_ok E"
  shows "ReadOstProtocolFrame E [t, 6, 0, 0, 0, 5, 1] 0 s = None"
proof -
  let ?msg = "[t, 6, 0, 0, 0, 5, 1] :: u8 list"
  have n: "protocol_groups ?msg = - 1"
    by (simp add: protocol_groups_def protocol_consts signed_divide_int_def signed_modulo_int_def)
  have sw: "SWAP32 (- 1) = - 1" by (simp add: SWAP32_def)
  have wf: "bitmap_wf (iOstComponents s)" using assms(1) by (simp add: tc_inv_def)
  note o = open_change_spec[OF wf, of E]
  define c where "c = SWAP32 (of_le [0, 0, 0, 5])"
  obtain s1 idx where ac: "AddComponentId E (open_change E s) c = (s1, idx)" by fastforce
  obtain i where i: "idx = Some i"
    using AddComponentId_spec(7)[OF ac o(2) assms(2)] by auto
  have "frame_group_list ?msg 0 (unat (- 1 :: u32)) 8 = None"
  proof -
    have "unat (- 1 :: u32) \<noteq> 0" by (simp only: unat_0_iff) simp
    then obtain k where "unat (- 1 :: u32) = Suc k" by (cases "unat (- 1 :: u32)") auto
    then show ?thesis by (simp add: Read16_def)
  qed
  then have "ReadOstProtocolFrameGroups E ?msg 0 True i c s1 = None"
    by (simp add: ReadOstProtocolFrameGroups_def n sw frame_groups_list KMaxGroupId_def Let_def protocol_consts)
  then show ?thesis
    using ac i
    by (simp add: ReadOstProtocolFrame_def protocol_consts Read8_def Read32_def c_def)
qed

section \<open>Kernel categories\<close>

text \<open>The table of categories gives the number every category has anyway.\<close>

lemma map_category: "MapCategoryToID c sub = or (push_bit 16 (ucast c)) (ucast sub)"
  by (simp add: MapCategoryToID_def)

lemma PrimeCategory_calls: "set (tcCalls s) \<subseteq> set (tcCalls (PrimeCategory supd E c s))"
  "kernelWriter (PrimeCategory supd E c s) = kernelWriter s"
  "iOstComponents (PrimeCategory supd E c s) = iOstComponents s"
  by (auto simp: PrimeCategory_def Let_def call_def)

lemma prime_all_calls:
  "set (tcCalls s) \<subseteq> set (tcCalls (fold (\<lambda>i. PrimeCategory supd E (of_nat i)) ns s))"
proof (induction ns arbitrary: s)
  case (Cons n ns)
  then show ?case using PrimeCategory_calls(1) by fastforce
qed simp

lemma prime_all_fields:
  "kernelWriter (fold (\<lambda>i. PrimeCategory supd E (of_nat i)) ns s) = kernelWriter s"
  "iOstComponents (fold (\<lambda>i. PrimeCategory supd E (of_nat i)) ns s) = iOstComponents s"
  by (induction ns arbitrary: s) (simp_all add: PrimeCategory_calls)

text \<open>
  Taking the writer away primes the categories while the old writer is still in place, so an activated
  kernel category is enabled again instead of disabled.
\<close>

lemma writer_removed_keeps_filter:
  assumes "kernelWriter s = Some EWriterTypeXTI" "KMinKernelCategory E \<le> c" "c \<le> KMaxKernelCategory E"
    "IsTraceActivated s KKernelHooksOSTComponentUID (MapCategoryToID c 0)"
  shows "CallSetFilter (ucast c) True \<in> set (tcCalls (SetWriter supd E s None))"
proof -
  let ?f = "\<lambda>i. PrimeCategory supd E (of_nat i)"
  let ?ns = "[unat (KMinKernelCategory E)..<Suc (unat (KMaxKernelCategory E))]"
  have "unat c \<in> set ?ns"
    using assms(2,3) by (auto simp: word_le_nat_alt)
  then obtain xs ys where ns: "?ns = xs @ unat c # ys" by (metis split_list)
  let ?t = "fold ?f xs s"
  have t1: "kernelWriter ?t = Some EWriterTypeXTI"
    by (simp add: prime_all_fields assms(1))
  have t2: "IsTraceActivated ?t = IsTraceActivated s"
    by (rule activated_cong[OF prime_all_fields(2)])
  have "CallSetFilter (ucast c) True \<in> set (tcCalls (PrimeCategory supd E c ?t))"
    using t1 t2 assms(4) by (simp add: PrimeCategory_def Let_def)
  then have "CallSetFilter (ucast c) True \<in> set (tcCalls (PrimeDfc supd E s))"
    using prime_all_calls[of "PrimeCategory supd E c ?t" supd E ys]
    unfolding PrimeDfc_def ns by (simp add: subset_iff)
  then show ?thesis
    using assms(1) by (simp add: SetWriter_def PrepareSetWriter_def)
qed

end
