(* ===== verification/TraceProps.thy ===== *)
theory TraceProps
  imports TraceFindings
begin

text \<open>
  The properties of the trace core: activations, the filter of traces, messages, settings, receivers and
  multipart traces.  The witnesses use the header format of BTrace and memory that holds at each address the
  low byte of the address.
\<close>

section \<open>A concrete environment\<close>

definition demo_env :: tc_env where
  "demo_env = \<lparr>eNoMemory = (\<lambda>_. False), eMem = (\<lambda>a. ucast a), ePlatformSpecificFirst = 192,
     ePlatsecPrintf = 1, eMetaTrace = 14, eThreadIdentification = 0, eCpuUsage = 4,
     eOstTraceActivationQuery = 3, eHeader2Present = 1, eTimestampPresent = 2, eTimestamp2Present = 4,
     eContextIdPresent = 8, ePcPresent = 16, eExtraPresent = 32, eMissingRecord = 128,
     eMultipartFlagMask = 3, eMultipartFirst = 1, eMultipartMiddle = 2, eMultipartLast = 3,
     eSizeIndex = 0, eFlagsIndex = 1, eCategoryIndex = 2, eSubCategoryIndex = 3\<rparr>"

lemma demo_memory: "memory_ok demo_env"
  by (simp add: memory_ok_def demo_env_def)

lemma start_acts: "acts tc_start = {}"
  by (simp add: tc_start_def)

abbreviation demo_reach :: "tcore \<Rightarrow> bool" where
  "demo_reach \<equiv> tc_reach (\<lambda>_. True) demo_env"

text \<open>The trace core with a writer and a certificate, and with group 2 of component 5 activated.\<close>

definition demo_ready :: tcore where
  "demo_ready = (SetWriter (\<lambda>_. True) demo_env tc_start (Some EWriterTypeXTI))\<lparr>iTraceCertified := True\<rparr>"

lemma demo_ready_reach: "demo_reach demo_ready"
  unfolding demo_ready_def by (rule tc_reach.step[OF tc_reach.step[OF tc_reach.start Writer] Certified])

lemma demo_ready_fields:
  "ostWriter demo_ready = Some EWriterTypeXTI" "tcInstance demo_ready" "iTraceCertified demo_ready"
  "acts demo_ready = {}" "iMultiPartTrace demo_ready = empty_multipart"
  "\<not> iPreviousTraceDropped demo_ready" "iNotificationReceiverItems demo_ready = []"
  by (simp_all add: demo_ready_def SetWriter_def PrepareSetWriter_def PrimeKernelCategories_def tc_start_def call_def)

lemma demo_active:
  "\<exists>s. demo_reach s \<and> acts s = {(5, 2)} \<and> same_setup demo_ready s"
proof -
  have "tc_inv demo_env demo_ready" by (rule tc_reach_inv[OF demo_ready_reach])
  from ActivateTrace_steps[OF this, of 5 2] obtain s where
    s: "ActivateTrace demo_env demo_ready 5 2 = Some s"
    "steps_to demo_env demo_ready (spec_activate 5 2 {}) (spec_activate 5 2 {}) s"
    by (auto simp: demo_ready_fields)
  have "demo_reach s" by (rule tc_reach.step[OF demo_ready_reach Activate[OF s(1)]])
  then show ?thesis
    using s(2) demo_memory
    by (auto simp: steps_to_def spec_activate_def GroupIdIsValid_def KMaxGroupId_def)
qed

lemma not_only_printfs:
  assumes "(c, g) \<in> activations xs" "c \<noteq> KKernelHooksOSTComponentUID"
  shows "\<not> only_printfs E xs"
  using assms by (auto simp: only_printfs_def in_activations split: list.split)

section \<open>The state\<close>



section \<open>The filter\<close>

text \<open>C4: In every history, a trace of a component other than 0 that is not part of a multipart trace is written
  exactly when there is a writer, tracing is certified, more than printf traces is activated and the trace's group is activated: the
  cache never changes the decision, and a query is answered the same way without writing.\<close>

theorem trace_filter_exact:
  assumes "tc_reach supd E s" "\<not> CheckMultiPart E h h2" "c \<noteq> 0"
  shows "\<exists>s' v. ost_HandleFrame E s h h2 ctx c w a3 ex pc = Some (s', v) \<and>
    v = (ostWriter s \<noteq> None \<and> tcInstance s \<and> iTraceCertified s \<and>
         \<not> only_printfs E (iOstComponents s) \<and> IsTraceActivated s c w) \<and>
    tcCalls s' = tcCalls s @
      (if v \<and> header_byte (eSubCategoryIndex E) h \<noteq> eOstTraceActivationQuery E
       then [CallFrame (ost_frame (snd (CheckDroppedTrace E s h)) h2 ctx c w a3 ex pc
               (header_byte (eSizeIndex E) (snd (CheckDroppedTrace E s h))))] else [])"
proof -
  have inv: "tc_inv E s" by (rule tc_reach_inv[OF assms(1)])
  then have "bitmap_wf (iOstComponents s)" by (simp add: tc_inv_def)
  from IsTraceActivated_iff[OF this, of c w] show ?thesis
    using ost_HandleFrame_single[OF inv assms(2), of ctx c w a3 ex pc] assms(3)
    by (auto simp: frame_passes_def is_query_def)
qed

theorem trace_filter_exact_witness:
  "\<exists>s s'. demo_reach s \<and> ost_HandleFrame demo_env s 0xC010 0 0 5 0x20007 9 0 0 = Some (s', True) \<and>
     tcCalls s' \<noteq> tcCalls s"
proof -
  obtain s where s: "demo_reach s" "acts s = {(5, 2)}" "same_setup demo_ready s" using demo_active by blast
  then have "bitmap_wf (iOstComponents s)" using tc_reach_inv by (simp add: tc_inv_def)
  note act = IsTraceActivated_iff[OF this, of 5 "0x20007"]
  have "trace_word_group 0x20007 = 2" by (simp add: trace_word_group_def)
  then have "IsTraceActivated s 5 0x20007" "\<not> only_printfs demo_env (iOstComponents s)"
    using act s(2) not_only_printfs[of 5 2 "iOstComponents s"] by (simp_all add: KKernelHooksOSTComponentUID_def)
  moreover have "ostWriter s \<noteq> None" "tcInstance s" "iTraceCertified s"
    using s(3) demo_ready_fields by (simp_all add: same_setup_def)
  moreover have "\<not> CheckMultiPart demo_env 0xC010 0"
    "header_byte (eSubCategoryIndex demo_env) 0xC010 \<noteq> eOstTraceActivationQuery demo_env"
    by (simp_all add: CheckMultiPart_def demo_env_def header_byte_def KByteSize_def)
  ultimately show ?thesis
    using trace_filter_exact[OF s(1), where h = "0xC010" and ?h2.0 = 0 and c = 5 and ctx = 0 and w = "0x20007"
        and ?a3.0 = 9 and ex = 0 and pc = 0] s(1) by auto
qed

section \<open>Activation operations\<close>



section \<open>Notifications\<close>


text \<open>Three receivers: for the group, for all groups of the component, and for another group.\<close>

definition demo_receivers :: tcore where
  "demo_receivers = tc_start\<lparr>tcInserts := 3, iNotificationReceiverItems :=
     [\<lparr>nrComponentID = 5, nrGroupID = 2, nrReceiver = 1\<rparr>, \<lparr>nrComponentID = 5, nrGroupID = 0, nrReceiver = 2\<rparr>,
      \<lparr>nrComponentID = 5, nrGroupID = 9, nrReceiver = 3\<rparr>]\<rparr>"

lemma demo_receivers_reach: "demo_reach demo_receivers"
proof -
  have r: "fst (RegisterNotificationReceiver demo_env s 5 g (Some r)) =
      s\<lparr>tcInserts := Suc (tcInserts s), iNotificationReceiverItems := iNotificationReceiverItems s @
         [\<lparr>nrComponentID = 5, nrGroupID = g, nrReceiver = r\<rparr>]\<rparr>"
    if "iOstComponents s = []" "\<forall>it\<in>set (iNotificationReceiverItems s). nrReceiver it \<noteq> r" for s g r
    using that
    by (auto simp: RegisterNotificationReceiver_def NotifyImmediately_def GetActivatedGroups_def find_ordered_def
        same_item_def list_ex_iff demo_env_def Let_def)
  have step: "demo_reach (fst (RegisterNotificationReceiver demo_env s 5 g r))" if "demo_reach s" for s g r
    by (rule tc_reach.step[OF that], rule Register) (rule prod.collapse[symmetric])
  define t1 where "t1 = fst (RegisterNotificationReceiver demo_env tc_start 5 2 (Some 1))"
  define t2 where "t2 = fst (RegisterNotificationReceiver demo_env t1 5 0 (Some 2))"
  have t1: "t1 = tc_start\<lparr>tcInserts := 1, iNotificationReceiverItems :=
      [\<lparr>nrComponentID = 5, nrGroupID = 2, nrReceiver = 1\<rparr>]\<rparr>"
    unfolding t1_def by (subst r) (simp_all add: tc_start_def)
  have t2: "t2 = tc_start\<lparr>tcInserts := 2, iNotificationReceiverItems :=
      [\<lparr>nrComponentID = 5, nrGroupID = 2, nrReceiver = 1\<rparr>, \<lparr>nrComponentID = 5, nrGroupID = 0, nrReceiver = 2\<rparr>]\<rparr>"
    unfolding t2_def by (subst r) (simp_all add: t1 tc_start_def)
  have "fst (RegisterNotificationReceiver demo_env t2 5 9 (Some 3)) = demo_receivers"
    by (subst r) (simp_all add: t2 tc_start_def demo_receivers_def)
  moreover have "demo_reach t2"
    unfolding t2_def t1_def by (intro step tc_reach.start)
  ultimately show ?thesis using step by metis
qed


section \<open>Messages\<close>



text \<open>C17: A message of the proprietary format, whatever its bytes, is read without touching anything outside it, provided that no
  four bytes that may be the count of groups of a frame name more than 2147483641 groups; without that proviso the
  doubled count wraps in the check of the length.\<close>

theorem message_inside:
  assumes "tc_reach supd E s" "length msg < 2 ^ 31" "counts_fit msg"
  shows "bitmap_MessageReceived E EMessageHeaderFormatProprietary msg s \<noteq> None"
  by (rule message_read_inside[OF tc_reach_inv[OF assms(1)] assms(2,3)])

theorem message_inside_witness:
  "bitmap_MessageReceived demo_env EMessageHeaderFormatProprietary
     [1, 0, 0, 1, 0, 0, 0, 9, 0, 0, 0, 5, 0, 6] tc_start \<noteq> None"
proof -
  have "counts_fit [1, 0, 0, 1, 0, 0, 0, 9, 0, 0, 0, 5, 0, 6]"
  proof -
    have "p = 0 \<or> p = 1 \<or> p = 2" if "p + 12 \<le> 14" for p :: nat using that by linarith
    then show ?thesis
      by (auto simp: counts_fit_def Read32_def of_le.simps SWAP32_def KMaxSafeGroups_def ost_consts)
  qed
  then show ?thesis using message_inside[OF tc_reach.start] by fastforce
qed

section \<open>Settings\<close>


text \<open>A state in which two groups of a component are activated, as read from settings.\<close>

lemma demo_saved:
  "\<exists>s. demo_reach s \<and> iOstComponents s = [\<lparr>iComponentId = 5, iGroups = [6, 9]\<rparr>]"
proof -
  let ?cs = "[\<lparr>iComponentId = 5, iGroups = [6, 9]\<rparr>]"
  let ?bs = "bitmap_bytes ?cs" and ?rest = "replicate (KMaxActivationBufferLength - 16) 0"
  have len: "length ?bs = 16" by (simp add: bitmap_bytes_def component_bytes_def le16_def)
  have wf: "bitmap_wf ?cs"
    by (simp add: bitmap_wf_def component_wf_def GroupIdIsValid_def KMaxGroupId_def)
  let ?s = "tc_start\<lparr>ostSettings := True\<rparr>"
  have "core_of ?s = core_of tc_start" by (simp add: core_of_def cache_items_def)
  then have inv: "tc_inv demo_env ?s" using tc_inv_core tc_start_inv by blast
  have e: "iOstComponents ?s = []" by (simp add: tc_start_def)
  obtain u where u: "ReadFromSettings demo_env ?s (Some (?bs @ ?rest)) = Some u" "iOstComponents u = ?cs"
    using read_written[OF demo_memory wf inv e, of ?rest] len by (auto simp: KMaxActivationBufferLength_def)
  then have "SetSettings demo_env tc_start (Some (Some (?bs @ ?rest))) = Some u" by (simp add: SetSettings_def)
  then show ?thesis using u(2) tc_reach.step[OF tc_reach.start Settings] by blast
qed


section \<open>Multipart traces\<close>



end
