(* ===== verification/Spec2Isabelle.thy ===== *)
theory Spec2Isabelle
  imports BreakpointProps RegisterProps MemoryProps StepProps TrackerProps ListProps ControlProps ServerErrors ServerReplies TraceProps
begin

text \<open>
  Verification of the run-mode debugger of Symbian OS in src/debugsrv/runmodedebug, that is the kernel-side driver (rmdriver)
  and the debug security server over it (securityserver), and of the core of Symbian OS tracing, the BTrace handlers in
  src/tracesrv/tracecore/btrace_handler.

  The driver is a Symbian OS logical device.  A debug agent opens a channel (DRM_DebugChannel) and asks it to
  read and write a target's memory and registers, to set breakpoints, to step and to report events.  The
  channel owns a break manager (D_RMD_Breakpoints) and a stepper (DRMDStepping); the debug functionality
  block (TDebugFunctionality) tells the agent what the driver can do.  The process tracker (DProcessTracker)
  keeps which agent (DDebugAgent) is attached to which process and passes kernel events to their queues.

  Debug agents do not open the channel themselves: the debug security server (CSecuritySvrServer) holds the only one and
  has a session (CSecuritySvrSession) per client.  It decides who may debug what - by the debug token of the agent, the
  debug bit of the target and its maps of attached processes - checks arguments, passes requests on to the driver, and holds
  the requests for events in handlers (CSecuritySvrAsync) until the driver completes them.

  The trace core filters the trace records of the kernel's BTrace.  DBTraceOstCategoryBitmap keeps which trace groups of which
  component are activated; it is changed through MTraceCoreActivation, by messages from the host and from saved settings.
  DBTraceOstCategoryHandler asks it for every OST trace, behind a cache of four decisions, and puts multipart traces together;
  DBTraceKernelCategoryHandler enables the kernel's own categories; DTraceCoreNotifier tells registered receivers about changes.

  Theories and what they model (paths below src/debugsrv/runmodedebug/rmdriver):
  - RmdPrelude: integers at their width, error codes, trapped calls, byte sequences, descriptors, searches and
    the index loop \<open>ix_loop\<close> (a loop body that may fault, leave the loop, or go on);
  - RmdKernel: the kernel services as a record of functions over an abstract kernel state, and
    src/debug_utils.cpp on top of them; ThreadMemory: TryToReadMemory and TryToWriteMemory;
  - Breakpoints: every operation of src/d_rmd_breakpoints.cpp on the record D_RMD_Breakpoints (the RArray of
    TBreakEntry as a list); the loops over the array are \<open>ix_loop\<close>, the pointer loops of the clients over
    GetNextBreak are the partial function \<open>break_walk\<close>, whose value None is a fault or an endless loop;
  - Functionality: the tables and the serialiser of src/d_debug_functionality.cpp;
  - Registers: the register requests of src/rm_debug_kerneldriver.cpp; ChannelMemory: its memory requests,
    with the fix-up that hides breakpoints;
  - DriverEvents and DebugAgents: kernel events (src/d_driver_event_info.cpp) and the agent with its ring buffer
    of 128 events (src/d_debug_agent.cpp, inc/d_debug_agent.inl); the completion of a client's request is an
    output; FrozenThreads and ProcessTracker: src/d_process_tracker.cpp and src/d_target_process.cpp, who debugs
    which process, where a process event goes, and the frozen threads;
  - ArmDecode and Stepping: inc/d_rmd_stepping.inl and src/d_rmd_stepping.cpp, the address of the next
    instruction in ARM and Thumb state and the temporary breakpoint of a step;
  - Channel, ChannelEvents, ChannelRequests, ChannelControl: the rest of src/rm_debug_kerneldriver.cpp and
    src/rm_debug_eventhandler.cpp.  Channel has the state DRM_DebugChannel (with the global tracker in it) and the
    control of threads; ChannelEvents the handlers of kernel events and their dispatch (HandleEvent); ChannelRequests
    and ChannelControl the requests of the client (DoControl, DoRequest, DoCancel), the messages (SendMsg, HandleMsg)
    and the creation of the channel (DoCreate);
  - ListManager: src/d_list_manager.cpp, the listings of threads, processes, code segments and XIP libraries, byte by
    byte into the client's buffer, and the search of the ROM's directories;
  - DriverClient: the inline functions of the driver's handle RRM_DebugDriver (inc/rm_debug_kerneldriver.h), each of which
    sends one message to the channel.
  The debug security server (paths below src/debugsrv/runmodedebug/securityserver):
  - SecurityServer: src/c_process_pair.cpp and src/c_security_svr_server.cpp, the maps of attached processes, the count
    of sessions and the permissions.  Functions that may leave are state transformers \<open>act\<close> (None is a panic, Inl the
    reason of a leave); user-side Symbian OS is the record \<open>host\<close> of functions over the kernel state;
  - SecurityChecks, SecuritySession, SecurityService: src/c_security_svr_session.cpp, first what requests check and read, then
    one definition per request, then the listings, the crash log, ServiceL and the end of a session; SecurityChecks also has the
    handlers of events, src/c_security_svr_async.cpp;
  - SecuritySystem: the server with all its sessions, the shutdown timer (src/c_shutdown_timer.cpp) and the driver under
    it, as the step relation \<open>system_reach\<close>: sessions open, serve requests, get events and end in any order, and the
    kernel reports events in between.
  - DemoKernel, DemoServer: a concrete kernel and host on which the theorems are applied.
  The trace core (paths below src/tracesrv/tracecore/btrace_handler):
  - TraceState: the state of the classes as one record tcore, because they reach into each other, the calls that leave the
    trace core in order, and the ordered arrays; \<open>eNoMemory\<close> tells for the n-th insertion whether the array fails to grow;
  - TraceNotifier: src/TraceCoreNotifier.cpp and src/TraceCoreNotificationReceiver.cpp; TraceBitmap:
    src/BTraceOstCategoryBitmap.cpp without its messages, and src/TraceCoreTraceActivationIf.cpp; TraceFrames: the activation
    messages of both formats, where None is a read outside the message;
  - TraceHandlers: src/BTraceOstCategoryHandler.cpp in the build without SMP, src/BTraceKernelCategoryHandler.cpp and the
    dispatch of src/TraceCoreBTraceHandler.cpp.

  What is shown:
  - BreakpointInv and BreakpointSteps: the invariant \<open>brk_inv\<close> (the ten temporary entries come first, ids
    are unique and ordered below the next id, fewer than 100 entries, live agents' breakpoints on the same
    target do not overlap) is kept by every operation, so it holds in every reachable state of the step
    relation \<open>brk_step\<close>; the locale ordered_walk turns each GetNextBreak loop into a bounded loop and is
    interpreted on the break manager.  BreakpointProps: what each operation does on success and on refusal.
  - RegisterProps: reading, writing and naming registers, and the sizes of the functionality block.
  - MemoryProps: a read sees the target without the breakpoints, a write reads back, and where the unbounded
    copies of the fix-up go.
  - StepLemmas and StepProps: DRMDStepping always returns; its conditions, data-processing table, shifter and
    branch and load-multiple targets against the architecture manual; a step keeps the invariant of the break
    manager and uses the first free temporary entry.

  - EventQueue: the locale event_queue, the laws of a first-in first-out queue of events under which any
    interleaving of puts and fetches refines a list and fetching empties it; AgentQueue interprets it on
    QueueEvent and GetEvent (the ring buffer against the list of waiting events).  AgentProps: the states an
    agent can reach, delivery in order, and an agent that is going down.  TrackerProps: attaching, finding and
    detaching, unique names, and where DetachAgent and AttachProcess go wrong.

  - ChannelLemmas, ChannelProps, ControlLemmas, ControlProps: every handler of a kernel event returns and every
    request keeps the predicate \<open>chan_ok\<close> (the invariants of the break manager, the tracker and all event queues), so
    both hold in all states of \<open>channel_reach\<close>, the runs of the driver under messages and events in any order; what a
    breakpoint does to the thread that hits it and to one that is resumed on it.
  - ListProps: a thread listing reads back through the loop the API prescribes; where the other listings go wrong.

  - SecurityFrame: the locale server_frame, the interface of a request: a relation between states that is reflexive,
    transitive and allows each elementary step (a message to the driver, a change of the kernel, the session, the
    output, attaching and detaching of the session's own agent) holds of every request, every event and every end of a
    session.  SecurityProps interprets it twice: on what a request does to the maps, and on the reachability of the
    channel (\<open>channel_reach\<close>), which makes the driver's theorems hold under the server.  SecurityInv: the invariant
    \<open>system_wf\<close> in every history.
  - SecurityClaims: one active debugger per process, isolation of agents, what a session's end releases, and that a
    request on a target that the agent may not control changes nothing.  ServerReplies: every request is answered exactly
    once.  ServerErrors: attaching needs permission, the check of memory arguments, the name of a debug token, and the
    requests that leave an entry behind, panic the server or are let through the second time.

  - TraceLemmas, TraceEdits, TraceOps: the component array as a set of activated groups, each operation as an operation on that
    set, and the invariant \<open>tc_inv\<close>; TraceMessages and TraceStore: messages and saved settings byte by byte, against
    their encodings; TraceSystem: every operation keeps the invariant, so it holds in all histories \<open>tc_reach\<close>;
    TraceHistory: the locale activation_interface, what a client of the activation interface may rely on, interpreted on the
    bitmap; TraceMultipart, TraceTold, TraceBounds, TraceFindings: multipart traces, who is told of a change, how far a message
    is read, and behaviour that the comments do not announce; TraceProps: the properties, with a concrete environment.

  Bounds and fuel: no definition has fuel.  The breakpoint list has at most 99 entries (the driver's own
  limit), the index loops are over a list fixed before the loop, and \<open>break_walk\<close> is shown to end on
  every list that the invariant allows.  channel_reach counts messages: 2147483637 of them are below the number
  that could make the 32-bit breakpoint id wrap.  A server has fewer than 2^31 sessions (a guard of \<open>system_reach\<close>),
  so that their 32-bit count does not wrap.

  Not modelled: semaphores, mutexes and critical sections (each operation is one atomic step), reference counts
  of kernel objects, log messages, debug assertions, the DFC queue and message passing of the kernel.  Kernel services,
  the values of kernel constants and the numbers of error codes are parameters; there is no heap, so leaks are not
  visible.  Of the server the heap markers, the requests of debug builds and the start of its process (rm_debug_svr.cpp);
  that a cancelled handler waits for its request to complete; and the client class RSecuritySvrSession, which packs
  arguments into messages.  Of the trace core the build for SMP, the locks between readers and writers of the component array and
  the sharing of memory between its copies (the two arrays are values), the registration of handlers and writers in
  TraceCore.cpp, the router, the writers, the printf handler and the plug-ins, which are glue around hardware and kernel services.
  The other programs of the repository (AnalyzeTool, MemSpy, the performance investigator, the trace compiler) are separate
  tools and are outside this development.
\<close>

end
